(* ===== verification/Prelude.thy ===== *)
theory Prelude
  imports Main "HOL-Library.State_Monad" "HOL-Library.Char_ord" "HOL-Library.List_Lexorder"
    "HOL-Library.Multiset"
begin

text \<open>
  The generic layer of the development: the JavaScript data structures and library functions that
  the TypeScript sources use (insertion-ordered \<open>Map\<close>, stable \<open>Array.prototype.sort\<close>, \<open>slice\<close>,
  string predicates, \<open>undefined\<close>-aware truthiness), JSON values, HTTP outcomes, and the small logic
  for stateful code (\<open>exec\<close>/\<open>valu\<close> of the library's state monad, the locale \<open>step_rel\<close> of
  reflexive and transitive relations between the state before and after an operation).
\<close>

named_theorems run_simps \<open>symbolic execution of monadic code\<close>
named_theorems io_intros \<open>rules that push a step relation through monadic code\<close>
named_theorems jm_simps \<open>laws of insertion-ordered maps\<close>

section \<open>Strings\<close>

definition startsWith :: "string \<Rightarrow> string \<Rightarrow> bool" where
  "startsWith s p = (take (length p) s = p)"

definition endsWith :: "string \<Rightarrow> string \<Rightarrow> bool" where
  "endsWith s p = startsWith (rev s) (rev p)"

fun strIncludes :: "string \<Rightarrow> string \<Rightarrow> bool" where
  "strIncludes [] p = (p = [])"
| "strIncludes (c # s) p = (startsWith (c # s) p \<or> strIncludes s p)"

definition toLowerChar :: "char \<Rightarrow> char" where
  "toLowerChar c = (if CHR ''A'' \<le> c \<and> c \<le> CHR ''Z'' then char_of (of_char c + (32::nat)) else c)"

definition toLowerCase :: "string \<Rightarrow> string" where
  "toLowerCase s = map toLowerChar s"

definition toUpperChar :: "char \<Rightarrow> char" where
  "toUpperChar c = (if CHR ''a'' \<le> c \<and> c \<le> CHR ''z'' then char_of (of_char c - (32::nat)) else c)"

definition toUpperCase :: "string \<Rightarrow> string" where
  "toUpperCase s = map toUpperChar s"

definition isSpace :: "char \<Rightarrow> bool" where
  "isSpace c = (c \<in> set [CHR '' '', CHR 0x09, CHR 0x0A, CHR 0x0B, CHR 0x0C, CHR 0x0D])"

definition trim :: "string \<Rightarrow> string" where
  "trim s = rev (dropWhile isSpace (rev (dropWhile isSpace s)))"

text \<open>\<open>s.split(c)\<close> for a one-character separator: never empty.\<close>

fun splitOn :: "char \<Rightarrow> string \<Rightarrow> string list" where
  "splitOn c [] = [[]]"
| "splitOn c (x # xs) =
     (if x = c then [] # splitOn c xs
      else (case splitOn c xs of [] \<Rightarrow> [[x]] | (y # ys) \<Rightarrow> (x # y) # ys))"

definition isDigit :: "char \<Rightarrow> bool" where
  "isDigit c = (CHR ''0'' \<le> c \<and> c \<le> CHR ''9'')"

definition isHexDigit :: "char \<Rightarrow> bool" where
  "isHexDigit c = (isDigit c \<or> (CHR ''a'' \<le> c \<and> c \<le> CHR ''f'') \<or> (CHR ''A'' \<le> c \<and> c \<le> CHR ''F''))"

text \<open>The regular expressions \<open>^[0-9]+$\<close> and \<open>^[0-9a-fA-F]+$\<close>.\<close>

definition allDigits :: "string \<Rightarrow> bool" where
  "allDigits s = (s \<noteq> [] \<and> list_all isDigit s)"

definition allHexDigits :: "string \<Rightarrow> bool" where
  "allHexDigits s = (s \<noteq> [] \<and> list_all isHexDigit s)"

definition digit_char :: "nat \<Rightarrow> char" where
  "digit_char d = char_of (48 + d)"

fun show_nat :: "nat \<Rightarrow> string" where
  "show_nat n = (if n < 10 then [digit_char n] else show_nat (n div 10) @ [digit_char (n mod 10)])"

declare show_nat.simps [simp del]

definition show_int :: "int \<Rightarrow> string" where
  "show_int i = (if i < 0 then CHR ''-'' # show_nat (nat (- i)) else show_nat (nat i))"

lemma show_nat_nonempty [simp]: "show_nat n \<noteq> []"
  by (subst show_nat.simps) simp

definition digit_val :: "char \<Rightarrow> nat" where
  "digit_val c = of_char c - 48"

text \<open>\<open>Number(s)\<close> for a string of decimal digits.\<close>

definition read_nat :: "string \<Rightarrow> nat" where
  "read_nat s = foldl (\<lambda>a c. 10 * a + digit_val c) 0 s"

lemma digit_val_char [simp]: "d < 10 \<Longrightarrow> digit_val (digit_char d) = d"
  by (simp add: digit_val_def digit_char_def of_char_of take_bit_eq_mod)

lemma isDigit_digit_char [simp]: "d < 10 \<Longrightarrow> isDigit (digit_char d)"
  by (simp add: isDigit_def digit_char_def less_eq_char_def of_char_of take_bit_eq_mod)

lemma read_show_nat [simp]: "read_nat (show_nat n) = n"
proof (induction n rule: show_nat.induct)
  case (1 n)
  then show ?case
    by (subst show_nat.simps) (simp add: read_nat_def)
qed

lemma show_nat_inj [simp]: "show_nat m = show_nat n \<longleftrightarrow> m = n"
  by (metis read_show_nat)

lemma show_nat_digits: "list_all isDigit (show_nat n)"
proof (induction n rule: show_nat.induct)
  case (1 n)
  then show ?case
    by (subst show_nat.simps) simp
qed

lemma allDigits_show_nat [simp]: "allDigits (show_nat n)"
  by (simp add: allDigits_def show_nat_digits)

text \<open>JavaScript truthiness of an optional string: \<open>undefined\<close> and the empty string are falsy.\<close>

definition truthy :: "string option \<Rightarrow> bool" where
  "truthy o' = (case o' of None \<Rightarrow> False | Some s \<Rightarrow> s \<noteq> [])"

lemma truthy_simps [simp]: "truthy None = False" "truthy (Some s) = (s \<noteq> [])"
  by (simp_all add: truthy_def)

definition orElse :: "'a option \<Rightarrow> 'a option \<Rightarrow> 'a option" where
  \<comment> \<open>the operator \<open>??\<close> on optional values\<close>
  "orElse a b = (case a of None \<Rightarrow> b | Some x \<Rightarrow> Some x)"

definition getOr :: "'a \<Rightarrow> 'a option \<Rightarrow> 'a" where
  \<comment> \<open>\<open>o ?? d\<close>\<close>
  "getOr d o' = (case o' of None \<Rightarrow> d | Some x \<Rightarrow> x)"

lemma orElse_simps [simp]: "orElse None b = b" "orElse (Some x) b = Some x"
  by (simp_all add: orElse_def)

lemma getOr_simps [simp]: "getOr d None = d" "getOr d (Some x) = x"
  by (simp_all add: getOr_def)

section \<open>JSON values and HTTP outcomes\<close>

datatype json = JUndef | JNull | JBool bool | JNum int | JFrac string | JStr string | JArr "json list"
  | JObj "(string \<times> json) list"

type_synonym payload = "(string \<times> json) list"

definition jopt :: "string option \<Rightarrow> json" where
  "jopt o' = (case o' of None \<Rightarrow> JUndef | Some s \<Rightarrow> JStr s)"

definition joptn :: "string option \<Rightarrow> json" where
  "joptn o' = (case o' of None \<Rightarrow> JNull | Some s \<Rightarrow> JStr s)"

definition jopti :: "int option \<Rightarrow> json" where
  "jopti o' = (case o' of None \<Rightarrow> JUndef | Some i \<Rightarrow> JNum i)"

text \<open>A response is a status with an error code, or a status with the value that is serialised.\<close>

datatype 'a http = HttpErr nat string | HttpOk nat 'a

definition http_ok :: "'a http \<Rightarrow> bool" where
  "http_ok r = (case r of HttpOk _ _ \<Rightarrow> True | HttpErr _ _ \<Rightarrow> False)"

lemma http_ok_simps [simp]: "http_ok (HttpOk n x) = True" "http_ok (HttpErr n c) = False"
  by (simp_all add: http_ok_def)

text \<open>
  \<open>schema.safeParse(body)\<close>: \<open>None\<close> stands for a body that does not have the JSON shape of the
  schema; the schema's refinements are a predicate on the typed body.
\<close>

definition safeParse :: "('a \<Rightarrow> bool) \<Rightarrow> 'a option \<Rightarrow> 'a option" where
  "safeParse schema body = (case body of None \<Rightarrow> None | Some d \<Rightarrow> if schema d then Some d else None)"

lemma safeParse_Some [simp]: "safeParse sch b = Some d \<longleftrightarrow> b = Some d \<and> sch d"
  by (auto simp: safeParse_def split: option.splits)

lemma safeParse_None: "safeParse sch b = None \<longleftrightarrow> (\<forall>d. b = Some d \<longrightarrow> \<not> sch d)"
  by (auto simp: safeParse_def split: option.splits)

section \<open>Insertion-ordered maps\<close>

type_synonym ('k, 'v) jsmap = "('k \<times> 'v) list"

definition jm_get :: "('k, 'v) jsmap \<Rightarrow> 'k \<Rightarrow> 'v option" where
  "jm_get m k = map_of m k"

definition jm_has :: "('k, 'v) jsmap \<Rightarrow> 'k \<Rightarrow> bool" where
  "jm_has m k = (jm_get m k \<noteq> None)"

fun jm_set :: "('k, 'v) jsmap \<Rightarrow> 'k \<Rightarrow> 'v \<Rightarrow> ('k, 'v) jsmap" where
  "jm_set [] k v = [(k, v)]"
| "jm_set ((k', v') # m) k v = (if k' = k then (k, v) # m else (k', v') # jm_set m k v)"

definition jm_delete :: "('k, 'v) jsmap \<Rightarrow> 'k \<Rightarrow> ('k, 'v) jsmap" where
  "jm_delete m k = filter (\<lambda>(k', _). k' \<noteq> k) m"

definition jm_values :: "('k, 'v) jsmap \<Rightarrow> 'v list" where
  "jm_values m = map snd m"

definition jm_keys :: "('k, 'v) jsmap \<Rightarrow> 'k list" where
  "jm_keys m = map fst m"

definition jm_ok :: "('k, 'v) jsmap \<Rightarrow> bool" where
  "jm_ok m = distinct (map fst m)"

lemma jm_get_Nil [simp]: "jm_get [] k = None"
  by (simp add: jm_get_def)

lemma jm_get_Cons [simp]: "jm_get ((k', v) # m) k = (if k' = k then Some v else jm_get m k)"
  by (simp add: jm_get_def)

lemma jm_get_set [simp]: "jm_get (jm_set m k v) k' = (if k' = k then Some v else jm_get m k')"
  unfolding jm_get_def by (induction m k v rule: jm_set.induct) auto

lemma jm_get_delete [simp]: "jm_get (jm_delete m k) k' = (if k' = k then None else jm_get m k')"
  unfolding jm_get_def jm_delete_def by (induction m) auto

lemma jm_keys_set: "map fst (jm_set m k v) = (if k \<in> fst ` set m then map fst m else map fst m @ [k])"
  by (induction m k v rule: jm_set.induct) auto

lemma jm_ok_Nil [simp]: "jm_ok []"
  by (simp add: jm_ok_def)

lemma jm_ok_set [simp]: "jm_ok m \<Longrightarrow> jm_ok (jm_set m k v)"
  by (auto simp: jm_ok_def jm_keys_set)

lemma jm_ok_delete [simp]: "jm_ok m \<Longrightarrow> jm_ok (jm_delete m k)"
  unfolding jm_ok_def jm_delete_def by (induction m) auto

lemma jm_get_in_values: "jm_get m k = Some v \<Longrightarrow> v \<in> set (jm_values m)"
  by (force simp: jm_get_def jm_values_def dest: map_of_SomeD)

lemma jm_values_get: "jm_ok m \<Longrightarrow> v \<in> set (jm_values m) \<longleftrightarrow> (\<exists>k. jm_get m k = Some v)"
  unfolding jm_ok_def jm_get_def jm_values_def by (force dest: map_of_SomeD)

text \<open>The interface the repository relies on, in the style of a map specification.\<close>

locale js_map =
  fixes empty :: "'m"
    and get :: "'m \<Rightarrow> 'k \<Rightarrow> 'v option"
    and put :: "'m \<Rightarrow> 'k \<Rightarrow> 'v \<Rightarrow> 'm"
    and del :: "'m \<Rightarrow> 'k \<Rightarrow> 'm"
    and vals :: "'m \<Rightarrow> 'v list"
    and ok :: "'m \<Rightarrow> bool"
  assumes get_empty: "get empty k = None"
    and get_put: "get (put m k v) k' = (if k' = k then Some v else get m k')"
    and get_del: "get (del m k) k' = (if k' = k then None else get m k')"
    and ok_empty: "ok empty"
    and ok_put: "ok m \<Longrightarrow> ok (put m k v)"
    and ok_del: "ok m \<Longrightarrow> ok (del m k)"
    and vals_get: "ok m \<Longrightarrow> v \<in> set (vals m) \<longleftrightarrow> (\<exists>k. get m k = Some v)"
begin

text \<open>A predicate on entries that holds of what is written is kept by every operation.\<close>

definition all_entries :: "('k \<Rightarrow> 'v \<Rightarrow> bool) \<Rightarrow> 'm \<Rightarrow> bool" where
  "all_entries P m = (\<forall>k v. get m k = Some v \<longrightarrow> P k v)"

lemma all_entries_empty: "all_entries P empty"
  by (simp add: all_entries_def get_empty)

lemma all_entries_put: "all_entries P m \<Longrightarrow> P k v \<Longrightarrow> all_entries P (put m k v)"
  by (simp add: all_entries_def get_put)

lemma all_entries_del: "all_entries P m \<Longrightarrow> all_entries P (del m k)"
  by (simp add: all_entries_def get_del)

lemma all_entries_vals: "ok m \<Longrightarrow> all_entries P m \<Longrightarrow> v \<in> set (vals m) \<Longrightarrow> \<exists>k. P k v"
  by (auto simp: all_entries_def vals_get)

lemma put_put_commute_get:
  "k \<noteq> k' \<Longrightarrow> get (put (put m k v) k' v') = get (put (put m k' v') k v)"
  by (rule ext) (simp add: get_put)

end

interpretation jm: js_map "[]" jm_get jm_set jm_delete jm_values jm_ok
  by unfold_locales (auto simp: jm_values_get)

abbreviation entries :: "('k \<Rightarrow> 'v \<Rightarrow> bool) \<Rightarrow> ('k, 'v) jsmap \<Rightarrow> bool" where
  "entries \<equiv> jm.all_entries"

lemmas entries_intros [intro] = jm.all_entries_put jm.all_entries_del jm.all_entries_empty

section \<open>Stable sorting, slicing and counting\<close>

text \<open>\<open>Array.prototype.sort\<close> with a comparator \<open>le\<close> ("not after") is stable.\<close>

fun insertBy :: "('a \<Rightarrow> 'a \<Rightarrow> bool) \<Rightarrow> 'a \<Rightarrow> 'a list \<Rightarrow> 'a list" where
  "insertBy le x [] = [x]"
| "insertBy le x (y # ys) = (if le x y then x # y # ys else y # insertBy le x ys)"

definition sortBy :: "('a \<Rightarrow> 'a \<Rightarrow> bool) \<Rightarrow> 'a list \<Rightarrow> 'a list" where
  "sortBy le xs = foldr (insertBy le) xs []"

lemma mset_insertBy [simp]: "mset (insertBy le x xs) = add_mset x (mset xs)"
  by (induction xs) auto

lemma mset_sortBy [simp]: "mset (sortBy le xs) = mset xs"
  unfolding sortBy_def by (induction xs) auto

lemma set_sortBy [simp]: "set (sortBy le xs) = set xs"
  by (metis mset_sortBy set_mset_mset)

lemma length_sortBy [simp]: "length (sortBy le xs) = length xs"
  by (metis mset_sortBy size_mset)

lemma set_insertBy: "set (insertBy le x xs) = insert x (set xs)"
  by (induction xs) auto

lemma sorted_insertBy:
  assumes total: "\<And>a b. le a b \<or> le b a" and trans: "\<And>a b c. le a b \<Longrightarrow> le b c \<Longrightarrow> le a c"
  shows "sorted_wrt le xs \<Longrightarrow> sorted_wrt le (insertBy le x xs)"
proof (induction xs)
  case (Cons y ys)
  then show ?case
    using total [of x y] by (auto simp: set_insertBy intro: trans)
qed simp

lemma sorted_sortBy:
  assumes "\<And>a b. le a b \<or> le b a" and "\<And>a b c. le a b \<Longrightarrow> le b c \<Longrightarrow> le a c"
  shows "sorted_wrt le (sortBy le xs)"
  unfolding sortBy_def by (induction xs) (auto intro!: sorted_insertBy assms(1) intro: assms(2))

definition slice :: "nat \<Rightarrow> nat \<Rightarrow> 'a list \<Rightarrow> 'a list" where
  \<comment> \<open>\<open>xs.slice(offset, offset + limit)\<close>\<close>
  "slice offset limit xs = take limit (drop offset xs)"

lemma set_slice: "set (slice o' l xs) \<subseteq> set xs"
  unfolding slice_def by (metis dual_order.trans set_drop_subset set_take_subset)

lemma length_slice_le: "length (slice o' l xs) \<le> l"
  by (simp add: slice_def)

text \<open>Selecting, sorting and cutting a list keeps its keys distinct.\<close>

lemma distinct_map_filter: "distinct (map key xs) \<Longrightarrow> distinct (map key (filter P xs))"
  by (induction xs) auto

lemma distinct_map_sortBy: "distinct (map key (sortBy le xs)) \<longleftrightarrow> distinct (map key xs)"
proof -
  have "mset (map key (sortBy le xs)) = mset (map key xs)" by simp
  then show ?thesis by (rule mset_eq_imp_distinct_iff)
qed

lemma distinct_map_take: "distinct (map key xs) \<Longrightarrow> distinct (map key (take n xs))"
  by (metis distinct_take take_map)

text \<open>\<open>r[k] = (r[k] ?? 0) + 1\<close> over a list of keys.\<close>

fun tally :: "'k list \<Rightarrow> ('k, nat) jsmap \<Rightarrow> ('k, nat) jsmap" where
  "tally [] r = r"
| "tally (k # ks) r = tally ks (jm_set r k (getOr 0 (jm_get r k) + 1))"

lemma tally_count: "getOr 0 (jm_get (tally ks r) k) = getOr 0 (jm_get r k) + count_list ks k"
  by (induction ks arbitrary: r) auto

lemma tally_dom: "(jm_get (tally ks r) k \<noteq> None) = (k \<in> set ks \<or> jm_get r k \<noteq> None)"
  by (induction ks arbitrary: r) auto

section \<open>Stateful code\<close>

definition exec :: "('w, 'a) state \<Rightarrow> 'w \<Rightarrow> 'w" where
  "exec m w = snd (run_state m w)"

definition valu :: "('w, 'a) state \<Rightarrow> 'w \<Rightarrow> 'a" where
  "valu m w = fst (run_state m w)"

definition ret :: "'a \<Rightarrow> ('w, 'a) state" where
  "ret x = State_Monad.return x"

definition gets :: "('w \<Rightarrow> 'a) \<Rightarrow> ('w, 'a) state" where
  "gets f = State (\<lambda>w. (f w, w))"

definition modify :: "('w \<Rightarrow> 'w) \<Rightarrow> ('w, unit) state" where
  "modify f = State (\<lambda>w. ((), f w))"

lemma exec_ret [simp, run_simps]: "exec (ret x) w = w"
  and valu_ret [simp, run_simps]: "valu (ret x) w = x"
  and exec_gets [simp, run_simps]: "exec (gets f) w = w"
  and valu_gets [simp, run_simps]: "valu (gets f) w = f w"
  and exec_modify [simp, run_simps]: "exec (modify g) w = g w"
  and valu_modify [simp, run_simps]: "valu (modify g) w = ()"
  by (simp_all add: exec_def valu_def ret_def gets_def modify_def)

lemma exec_bind [simp, run_simps]: "exec (State_Monad.bind m f) w = exec (f (valu m w)) (exec m w)"
  and valu_bind [simp, run_simps]: "valu (State_Monad.bind m f) w = valu (f (valu m w)) (exec m w)"
  by (simp_all add: exec_def valu_def split: prod.splits)

lemma exec_if [run_simps]: "exec (if b then m else n) w = (if b then exec m w else exec n w)"
  and valu_if [run_simps]: "valu (if b then m else n) w = (if b then valu m w else valu n w)"
  by simp_all

lemma exec_case_option [run_simps]:
  "exec (case x of None \<Rightarrow> m | Some y \<Rightarrow> f y) w = (case x of None \<Rightarrow> exec m w | Some y \<Rightarrow> exec (f y) w)"
  and valu_case_option [run_simps]:
  "valu (case x of None \<Rightarrow> m | Some y \<Rightarrow> f y) w = (case x of None \<Rightarrow> valu m w | Some y \<Rightarrow> valu (f y) w)"
  by (simp_all split: option.splits)

lemma exec_case_prod [run_simps]:
  "exec (case p of (a, b) \<Rightarrow> f a b) w = (case p of (a, b) \<Rightarrow> exec (f a b) w)"
  and valu_case_prod [run_simps]:
  "valu (case p of (a, b) \<Rightarrow> f a b) w = (case p of (a, b) \<Rightarrow> valu (f a b) w)"
  by (simp_all split: prod.splits)

text \<open>Code that throws: \<open>Inl\<close> carries the message of the exception, and the rest is skipped.\<close>

definition throwE :: "'e \<Rightarrow> ('w, 'e + 'a) state" where
  "throwE e = ret (Inl e)"

definition liftE :: "('w, 'a) state \<Rightarrow> ('w, 'e + 'a) state" where
  "liftE m = do { x \<leftarrow> m; ret (Inr x) }"

definition bindE :: "('w, 'e + 'a) state \<Rightarrow> ('a \<Rightarrow> ('w, 'e + 'b) state) \<Rightarrow> ('w, 'e + 'b) state" where
  "bindE m f = do { r \<leftarrow> m; case r of Inl e \<Rightarrow> ret (Inl e) | Inr x \<Rightarrow> f x }"

lemma run_throwE [simp, run_simps]: "exec (throwE e) w = w" "valu (throwE e) w = Inl e"
  by (simp_all add: throwE_def)

lemma run_liftE [simp, run_simps]: "exec (liftE m) w = exec m w" "valu (liftE m) w = Inr (valu m w)"
  by (simp_all add: liftE_def)

lemma run_bindE [simp, run_simps]:
  "exec (bindE m f) w = (case valu m w of Inl e \<Rightarrow> exec m w | Inr x \<Rightarrow> exec (f x) (exec m w))"
  "valu (bindE m f) w = (case valu m w of Inl e \<Rightarrow> Inl e | Inr x \<Rightarrow> valu (f x) (exec m w))"
  by (simp_all add: bindE_def split: sum.splits)

text \<open>A \<open>for ... of\<close> loop for its effects.\<close>

fun for_each :: "'a list \<Rightarrow> ('a \<Rightarrow> ('w, unit) state) \<Rightarrow> ('w, unit) state" where
  "for_each [] f = ret ()"
| "for_each (x # xs) f = do { f x; for_each xs f }"

text \<open>The same, with a counter of the iterations whose body returned \<open>True\<close>.\<close>

fun for_count :: "'a list \<Rightarrow> ('a \<Rightarrow> ('w, bool) state) \<Rightarrow> ('w, nat) state" where
  "for_count [] f = ret 0"
| "for_count (x # xs) f = do { b \<leftarrow> f x; n \<leftarrow> for_count xs f; ret (if b then Suc n else n) }"

text \<open>The same, collecting the values that the body returns.\<close>

fun for_collect :: "'a list \<Rightarrow> ('a \<Rightarrow> ('w, 'b) state) \<Rightarrow> ('w, 'b list) state" where
  "for_collect [] f = ret []"
| "for_collect (x # xs) f = do { b \<leftarrow> f x; bs \<leftarrow> for_collect xs f; ret (b # bs) }"

lemma exec_for_collect: "exec (for_collect xs f) w = exec (for_each xs (\<lambda>x. do { f x; ret () })) w"
  by (induction xs arbitrary: w) auto

lemma exec_for_count: "exec (for_count xs f) w = exec (for_each xs (\<lambda>x. do { f x; ret () })) w"
  by (induction xs arbitrary: w) auto

text \<open>
  A relation between the state before and after an operation that is reflexive and transitive is
  kept by sequencing, branching and loops: what every single operation keeps, a whole handler keeps.
\<close>

definition steps :: "('w \<Rightarrow> 'w \<Rightarrow> bool) \<Rightarrow> ('w, 'a) state \<Rightarrow> bool" where
  "steps R m = (\<forall>w. R w (exec m w))"

lemma stepsI: "(\<And>w. R w (exec m w)) \<Longrightarrow> steps R m"
  by (simp add: steps_def)

lemma stepsD: "steps R m \<Longrightarrow> R w (exec m w)"
  by (simp add: steps_def)

locale step_rel =
  fixes R :: "'w \<Rightarrow> 'w \<Rightarrow> bool"
  assumes refl: "R w w"
    and trans: "R w w' \<Longrightarrow> R w' w'' \<Longrightarrow> R w w''"
begin

lemma io_ret: "steps R (ret x)"
  by (simp add: steps_def refl)

lemma io_gets: "steps R (gets f)"
  by (simp add: steps_def refl)

lemma io_bind: "steps R m \<Longrightarrow> (\<And>x. steps R (f x)) \<Longrightarrow> steps R (State_Monad.bind m f)"
  by (auto simp: steps_def intro: trans)

lemma io_if: "(b \<Longrightarrow> steps R m) \<Longrightarrow> (\<not> b \<Longrightarrow> steps R n) \<Longrightarrow> steps R (if b then m else n)"
  by simp

lemma io_option:
  "(x = None \<Longrightarrow> steps R m) \<Longrightarrow> (\<And>y. x = Some y \<Longrightarrow> steps R (f y)) \<Longrightarrow>
   steps R (case x of None \<Rightarrow> m | Some y \<Rightarrow> f y)"
  by (cases x) auto

lemma io_sum:
  "(\<And>y. x = Inl y \<Longrightarrow> steps R (f y)) \<Longrightarrow> (\<And>y. x = Inr y \<Longrightarrow> steps R (g y)) \<Longrightarrow>
   steps R (case x of Inl y \<Rightarrow> f y | Inr y \<Rightarrow> g y)"
  by (cases x) auto

lemma io_prod: "(\<And>a b. p = (a, b) \<Longrightarrow> steps R (f a b)) \<Longrightarrow> steps R (case p of (a, b) \<Rightarrow> f a b)"
  by (cases p) auto

lemma io_let: "(\<And>x. x = v \<Longrightarrow> steps R (f x)) \<Longrightarrow> steps R (let x = v in f x)"
  by simp

lemma io_for_each: "(\<And>x. x \<in> set xs \<Longrightarrow> steps R (f x)) \<Longrightarrow> steps R (for_each xs f)"
  by (induction xs) (auto intro!: io_ret io_bind)

lemma io_for_count: "(\<And>x. x \<in> set xs \<Longrightarrow> steps R (f x)) \<Longrightarrow> steps R (for_count xs f)"
  by (induction xs) (auto intro!: io_ret io_bind)

lemma io_for_collect: "(\<And>x. x \<in> set xs \<Longrightarrow> steps R (f x)) \<Longrightarrow> steps R (for_collect xs f)"
  by (induction xs) (auto intro!: io_ret io_bind)

lemmas io = io_ret io_gets io_bind io_if io_option io_sum io_prod io_let io_for_each io_for_count
  io_for_collect

end

text \<open>A relation that every step of a run keeps holds between the ends of the run.\<close>

context step_rel
begin

fun run_all :: "('w, 'a) state list \<Rightarrow> 'w \<Rightarrow> 'w" where
  "run_all [] w = w"
| "run_all (m # ms) w = run_all ms (exec m w)"

lemma run_all_steps: "(\<And>m. m \<in> set ms \<Longrightarrow> steps R m) \<Longrightarrow> R w (run_all ms w)"
  by (induction ms arbitrary: w) (auto simp: refl steps_def intro: trans)

end

text \<open>The frame relation: a projection of the state that an operation does not write.\<close>

definition same :: "('w \<Rightarrow> 'a) \<Rightarrow> 'w \<Rightarrow> 'w \<Rightarrow> bool" where
  "same f w w' = (f w' = f w)"

interpretation frame: step_rel "same f" for f
  by unfold_locales (auto simp: same_def)

abbreviation keeps :: "('w \<Rightarrow> 'a) \<Rightarrow> ('w, 'b) state \<Rightarrow> bool" where
  "keeps f m \<equiv> steps (same f) m"

lemmas keeps_intros [io_intros] = frame.io

lemma keepsD: "keeps f m \<Longrightarrow> f (exec m w) = f w"
  by (simp add: steps_def same_def)

lemma keeps_modify [io_intros]: "(\<And>w. f (g w) = f w) \<Longrightarrow> keeps f (modify g)"
  by (simp add: steps_def same_def)

text \<open>An invariant, as the step relation "if it held before, it holds after".\<close>

definition inv_rel :: "('w \<Rightarrow> bool) \<Rightarrow> 'w \<Rightarrow> 'w \<Rightarrow> bool" where
  "inv_rel P w w' = (P w \<longrightarrow> P w')"

interpretation inv: step_rel "inv_rel P" for P
  by unfold_locales (auto simp: inv_rel_def)

abbreviation preserves :: "('w \<Rightarrow> bool) \<Rightarrow> ('w, 'b) state \<Rightarrow> bool" where
  "preserves P m \<equiv> steps (inv_rel P) m"

lemma preservesI: "(\<And>w. P w \<Longrightarrow> P (exec m w)) \<Longrightarrow> preserves P m"
  by (simp add: steps_def inv_rel_def)

lemma preservesD: "preserves P m \<Longrightarrow> P w \<Longrightarrow> P (exec m w)"
  by (simp add: steps_def inv_rel_def)

lemma preserves_modify: "(\<And>w. P w \<Longrightarrow> P (g w)) \<Longrightarrow> preserves P (modify g)"
  by (simp add: steps_def inv_rel_def)

text \<open>What the first operation returns in a state that satisfies the invariant.\<close>

lemma preserves_bind:
  "preserves P m \<Longrightarrow> (\<And>w. P w \<Longrightarrow> Q (valu m w)) \<Longrightarrow> (\<And>x. Q x \<Longrightarrow> preserves P (f x)) \<Longrightarrow>
   preserves P (State_Monad.bind m f)"
  by (auto simp: steps_def inv_rel_def)

text \<open>A predicate that reads only a part of the state which the operation keeps.\<close>

lemma preserves_of_keeps: "keeps f m \<Longrightarrow> (\<And>w w'. f w = f w' \<Longrightarrow> P w = P w') \<Longrightarrow> preserves P m"
  unfolding steps_def same_def inv_rel_def by metis

section \<open>Life cycles\<close>

text \<open>
  A component keeps its objects in a map of the state, under the key that the object itself carries.
  \<open>S\<close> is the relation between an object and its later versions; \<open>born\<close> is what is known of the keys
  that can be in the map (for generated identifiers: that they were generated before). A step is a
  \<open>life\<close> step when a coherent map stays coherent, no object disappears, and every object moves
  along \<open>S\<close>.
\<close>

locale lifecycle =
  fixes proj :: "'w \<Rightarrow> ('k, 'v) jsmap"
    and key :: "'v \<Rightarrow> 'k"
    and born :: "'w \<Rightarrow> 'k \<Rightarrow> bool"
    and S :: "'v \<Rightarrow> 'v \<Rightarrow> bool"
  assumes S_refl: "S v v"
    and S_trans: "S v v' \<Longrightarrow> S v' v'' \<Longrightarrow> S v v''"
begin

definition coherent :: "'w \<Rightarrow> bool" where
  "coherent w = (jm_ok (proj w) \<and> entries (\<lambda>k v. key v = k \<and> born w k) (proj w))"

definition life :: "'w \<Rightarrow> 'w \<Rightarrow> bool" where
  "life w w' = ((\<forall>k. born w k \<longrightarrow> born w' k) \<and> (coherent w \<longrightarrow> coherent w' \<and>
     (\<forall>k v. jm_get (proj w) k = Some v \<longrightarrow> (\<exists>v'. jm_get (proj w') k = Some v' \<and> S v v'))))"

lemma life_refl: "life w w"
  by (auto simp: life_def intro: S_refl)

lemma life_trans:
  assumes "life w w'" "life w' w''"
  shows "life w w''"
proof -
  have "\<exists>v''. jm_get (proj w'') k = Some v'' \<and> S v v''"
    if "coherent w" "jm_get (proj w) k = Some v" for k v
  proof -
    from assms(1) that obtain v' where "jm_get (proj w') k = Some v'" "S v v'" "coherent w'"
      unfolding life_def by blast
    moreover from this assms(2) obtain v'' where "jm_get (proj w'') k = Some v''" "S v' v''"
      unfolding life_def by blast
    ultimately show ?thesis by (blast intro: S_trans)
  qed
  with assms show ?thesis unfolding life_def by blast
qed

lemma life_same: "proj w' = proj w \<Longrightarrow> (\<And>k. born w k \<Longrightarrow> born w' k) \<Longrightarrow> life w w'"
  by (auto simp: life_def coherent_def jm.all_entries_def intro: S_refl)

lemma life_put:
  assumes "proj w' = jm_set (proj w) (key v) v"
    and "\<And>k. born w k \<Longrightarrow> born w' k"
    and "coherent w \<Longrightarrow> born w' (key v)"
    and "\<And>u. coherent w \<Longrightarrow> jm_get (proj w) (key v) = Some u \<Longrightarrow> key u = key v \<Longrightarrow> S u v"
  shows "life w w'"
  using assms unfolding life_def coherent_def jm.all_entries_def by (auto intro: S_refl)

lemma life_keeps:
  "keeps proj m \<Longrightarrow> (\<And>w k. born w k \<Longrightarrow> born (exec m w) k) \<Longrightarrow> steps life m"
  by (auto simp: steps_def same_def intro: life_same)

lemma coherent_key: "coherent w \<Longrightarrow> jm_get (proj w) k = Some v \<Longrightarrow> key v = k"
  by (auto simp: coherent_def jm.all_entries_def)

lemma coherent_born: "coherent w \<Longrightarrow> jm_get (proj w) k = Some v \<Longrightarrow> born w k"
  by (auto simp: coherent_def jm.all_entries_def)

lemma coherent_values:
  "coherent w \<Longrightarrow> v \<in> set (jm_values (proj w)) \<longleftrightarrow> jm_get (proj w) (key v) = Some v"
  by (auto simp: coherent_def jm.all_entries_def jm_values_get)

lemma life_coherent: "life w w' \<Longrightarrow> coherent w \<Longrightarrow> coherent w'"
  by (simp add: life_def)

lemma coherent_distinct: "coherent w \<Longrightarrow> distinct (map key (jm_values (proj w)))"
proof -
  assume c: "coherent w"
  then have "map key (jm_values (proj w)) = map fst (proj w)"
    by (force simp: coherent_def jm.all_entries_def jm_values_def jm_get_def jm_ok_def)
  with c show ?thesis by (simp add: coherent_def jm_ok_def)
qed

text \<open>The objects a worker picks from the map: stored under their own key, each picked once.\<close>

lemma picked_stored:
  assumes "coherent w" "x \<in> set (take n (sortBy le (filter P (jm_values (proj w)))))"
  shows "jm_get (proj w) (key x) = Some x" "P x"
proof -
  have "x \<in> set (jm_values (proj w)) \<and> P x"
    using in_set_takeD [OF assms(2)] by simp
  with coherent_values [OF assms(1)] show "jm_get (proj w) (key x) = Some x" "P x" by blast+
qed

lemma picked_distinct:
  assumes "coherent w"
  shows "distinct (map key (take n (sortBy le (filter P (jm_values (proj w))))))"
  by (intro distinct_map_take iffD2 [OF distinct_map_sortBy] distinct_map_filter
      coherent_distinct assms)

text \<open>A loop over stored objects with different keys, whose body writes only its own object.\<close>

lemma life_each_rel:
  assumes R: "\<And>w. R w w" "\<And>w w' w''. R w w' \<Longrightarrow> R w' w'' \<Longrightarrow> R w w''"
    and "coherent w" "\<And>x. x \<in> set xs \<Longrightarrow> jm_get (proj w) (key x) = Some x" "distinct (map key xs)"
    and step: "\<And>x w. x \<in> set xs \<Longrightarrow> coherent w \<Longrightarrow> jm_get (proj w) (key x) = Some x \<Longrightarrow>
      life w (exec (f x) w) \<and> R w (exec (f x) w) \<and>
      (\<forall>k. k \<noteq> key x \<longrightarrow> jm_get (proj (exec (f x) w)) k = jm_get (proj w) k)"
  shows "life w (exec (for_each xs f) w) \<and> R w (exec (for_each xs f) w)"
  using assms(3-)
proof (induction xs arbitrary: w)
  case (Cons x xs)
  have s: "life w (exec (f x) w)" "R w (exec (f x) w)"
    "\<And>k. k \<noteq> key x \<Longrightarrow> jm_get (proj (exec (f x) w)) k = jm_get (proj w) k"
    using Cons.prems(4) [of x w] Cons.prems(1) Cons.prems(2) [of x] by auto
  have c: "coherent (exec (f x) w)"
    using s(1) Cons.prems(1) by (rule life_coherent)
  have g: "jm_get (proj (exec (f x) w)) (key y) = Some y" if "y \<in> set xs" for y
  proof -
    have "key y \<noteq> key x" using Cons.prems(3) that by (auto simp: image_iff)
    with s(3) Cons.prems(2) that show ?thesis by simp
  qed
  have "distinct (map key xs)" using Cons.prems(3) by simp
  from Cons.IH [OF c g this] Cons.prems(4) s show ?case
    by (auto intro: life_trans R(2))
qed (simp add: life_refl R(1))

lemma life_each:
  assumes "coherent w" "\<And>x. x \<in> set xs \<Longrightarrow> jm_get (proj w) (key x) = Some x" "distinct (map key xs)"
    and "\<And>x w. x \<in> set xs \<Longrightarrow> coherent w \<Longrightarrow> jm_get (proj w) (key x) = Some x \<Longrightarrow>
      life w (exec (f x) w) \<and> (P w \<longrightarrow> P (exec (f x) w)) \<and>
      (\<forall>k. k \<noteq> key x \<longrightarrow> jm_get (proj (exec (f x) w)) k = jm_get (proj w) k)"
  shows "life w (exec (for_each xs f) w) \<and> (P w \<longrightarrow> P (exec (for_each xs f) w))"
  by (rule life_each_rel [of "\<lambda>w w'. P w \<longrightarrow> P w'"]) (use assms in auto)

lemma coherent_empty: "proj w = [] \<Longrightarrow> coherent w"
  by (simp add: coherent_def jm.all_entries_def)

lemma life_get:
  "life w w' \<Longrightarrow> coherent w \<Longrightarrow> jm_get (proj w) k = Some v \<Longrightarrow>
   \<exists>v'. jm_get (proj w') k = Some v' \<and> S v v'"
  by (auto simp: life_def)

end

sublocale lifecycle \<subseteq> step_rel life
  by unfold_locales (auto intro: life_refl life_trans)

end
