(* ===== verification/JsDate.thy ===== *)
theory JsDate
  imports Prelude
begin

text \<open>
  The parts of JavaScript's \<open>Date\<close> that the services use: time values are milliseconds since
  1970-01-01 UTC, the calendar is the proleptic Gregorian calendar of ECMAScript
  (\<open>DayFromYear\<close>, \<open>YearFromTime\<close>, \<open>MonthFromTime\<close>), and \<open>toISOString\<close> prints the UTC fields. The
  services store timestamps as these strings and compare them with \<open><\<close>; the last section shows that
  this string order is the order of the time values.
\<close>

section \<open>Calendar\<close>

definition msPerDay :: int where
  "msPerDay = 86400000"

definition day_from_year :: "int \<Rightarrow> int" where
  "day_from_year y = 365 * (y - 1970) + (y - 1969) div 4 - (y - 1901) div 100 + (y - 1601) div 400"

definition leap_year :: "int \<Rightarrow> bool" where
  "leap_year y = (y mod 4 = 0 \<and> (y mod 100 \<noteq> 0 \<or> y mod 400 = 0))"

lemma div_step:
  fixes a k :: int
  assumes "0 < k"
  shows "(a + 1) div k = a div k + (if (a + 1) mod k = 0 then 1 else 0)"
proof (cases "(a + 1) mod k = 0")
  case True
  then obtain q where q: "a + 1 = k * q" by auto
  then have "a = k * (q - 1) + (k - 1)" by (simp add: algebra_simps)
  then have "a div k = q - 1"
    using assms by (smt (verit) int_div_pos_eq)
  with q True assms show ?thesis by simp
next
  case False
  have "(a + 1) div k = a div k"
  proof (rule int_div_pos_eq)
    have m: "a mod k + 1 \<noteq> k"
    proof
      assume "a mod k + 1 = k"
      then have "(a + 1) mod k = 0"
        by (metis mod_add_left_eq mod_self)
      with False show False by simp
    qed
    have "a mod k < k" using assms by simp
    with m have "a mod k + 1 < k" by linarith
    then show "a mod k + 1 < k" .
    show "0 \<le> a mod k + 1" using assms by (simp add: add_increasing2)
    show "a + 1 = k * (a div k) + (a mod k + 1)" by simp
  qed
  with False show ?thesis by simp
qed

lemma div_step_at:
  fixes a b c k :: int
  assumes "0 < k" "c = b + 1"
  shows "(c :: int) div k = b div k + (if c mod k = 0 then 1 else 0)"
  using div_step [OF assms(1), of b] assms(2) by simp

lemma mod_diff_multiple:
  fixes y c k :: int
  assumes "k dvd c"
  shows "(y - c) mod k = 0 \<longleftrightarrow> y mod k = 0"
  using assms by (simp add: mod_eq_0_iff_dvd dvd_diff_left_iff)

lemma leap_count:
  fixes y a b c :: int
  assumes "R \<longrightarrow> Q" "Q \<longrightarrow> P"
  shows "365 * (y - 1969) + (a + (if P then 1 else 0)) - (b + (if Q then 1 else 0)) +
      (c + (if R then 1 else 0)) =
    365 * (y - 1970) + a - b + c + (if P \<and> (\<not> Q \<or> R) then 366 else 365)"
  using assms by (cases P; cases Q; cases R) simp_all

lemma day_from_year_step:
  "day_from_year (y + 1) = day_from_year y + (if leap_year y then 366 else 365)"
proof -
  have s: "(y - 1968) div 4 = (y - 1969) div 4 + (if (y - 1968) mod 4 = 0 then 1 else 0)"
    "(y - 1900) div 100 = (y - 1901) div 100 + (if (y - 1900) mod 100 = 0 then 1 else 0)"
    "(y - 1600) div 400 = (y - 1601) div 400 + (if (y - 1600) mod 400 = 0 then 1 else 0)"
    by (rule div_step_at, simp, simp)+
  have m: "(y - 1968) mod 4 = 0 \<longleftrightarrow> y mod 4 = 0" "(y - 1900) mod 100 = 0 \<longleftrightarrow> y mod 100 = 0"
    "(y - 1600) mod 400 = 0 \<longleftrightarrow> y mod 400 = 0"
    by (rule mod_diff_multiple, simp)+
  have d: "y mod 400 = 0 \<longrightarrow> y mod 100 = 0" "y mod 100 = 0 \<longrightarrow> y mod 4 = 0"
    using dvd_trans [of 100 400 y] dvd_trans [of 4 100 y] by (simp_all add: mod_eq_0_iff_dvd)
  have e: "day_from_year (y + 1) =
      365 * (y - 1969) + (y - 1968) div 4 - (y - 1900) div 100 + (y - 1600) div 400"
    by (simp add: day_from_year_def)
  define a b c where abc: "a = (y - 1969) div 4" "b = (y - 1901) div 100" "c = (y - 1601) div 400"
  have f: "day_from_year y = 365 * (y - 1970) + a - b + c"
    by (simp add: day_from_year_def abc)
  have g: "day_from_year (y + 1) = 365 * (y - 1969) + (a + (if y mod 4 = 0 then 1 else 0)) -
      (b + (if y mod 100 = 0 then 1 else 0)) + (c + (if y mod 400 = 0 then 1 else 0))"
    unfolding e s m abc by (rule HOL.refl)
  show ?thesis
    unfolding f g leap_year_def by (rule leap_count [OF d])
qed

lemma day_from_year_mono: "y < y' \<Longrightarrow> day_from_year y + 365 \<le> day_from_year y'"
proof (induction "nat (y' - y)" arbitrary: y')
  case (Suc n)
  show ?case
  proof (cases "y' = y + 1")
    case True
    then show ?thesis by (simp add: day_from_year_step)
  next
    case False
    with Suc.prems have "y < y' - 1" by simp
    with Suc.hyps have "day_from_year y + 365 \<le> day_from_year (y' - 1)"
      by (intro Suc.hyps(1)) auto
    with day_from_year_step [of "y' - 1"] show ?thesis by (simp split: if_splits)
  qed
qed simp

text \<open>\<open>YearFromTime\<close>: the largest year that starts on or before the day.\<close>

function year_search :: "int \<Rightarrow> int \<Rightarrow> int" where
  "year_search y d = (if day_from_year y \<le> d then y else year_search (y - 1) d)"
  by pat_completeness auto
termination
proof (relation "measure (\<lambda>(y, d). nat (day_from_year y - d))")
  fix y d :: int
  assume "\<not> day_from_year y \<le> d"
  moreover have "day_from_year (y - 1) < day_from_year y"
    using day_from_year_mono [of "y - 1" y] by simp
  ultimately show "((y - 1, d), (y, d)) \<in> measure (\<lambda>(y, d). nat (day_from_year y - d))"
    by simp
qed simp

declare year_search.simps [simp del]

definition year_from_day :: "int \<Rightarrow> int" where
  "year_from_day d = year_search (1970 + (if 0 \<le> d then d div 365 else d div 366)) d"

lemma year_search_bounds:
  "d < day_from_year (y + 1) \<Longrightarrow>
   day_from_year (year_search y d) \<le> d \<and> d < day_from_year (year_search y d + 1)"
proof (induction y d rule: year_search.induct)
  case (1 y d)
  then show ?case
    by (subst (1 2) year_search.simps) auto
qed

lemma day_from_year_lower: "0 \<le> k \<Longrightarrow> 365 * k \<le> day_from_year (1970 + k)"
proof (induction "nat k" arbitrary: k)
  case (Suc n)
  then have "365 * (k - 1) \<le> day_from_year (1970 + (k - 1))"
    by (intro Suc.hyps(1)) auto
  with day_from_year_step [of "1970 + (k - 1)"] show ?case by (simp split: if_splits)
qed (simp add: day_from_year_def)

lemma day_from_year_upper: "0 \<le> k \<Longrightarrow> - 366 * k \<le> day_from_year (1970 - k)"
proof (induction "nat k" arbitrary: k)
  case (Suc n)
  then have "- 366 * (k - 1) \<le> day_from_year (1970 - (k - 1))"
    by (intro Suc.hyps(1)) auto
  with day_from_year_step [of "1970 - k"] show ?case by (simp add: algebra_simps split: if_splits)
qed (simp add: day_from_year_def)

lemma year_from_day_bounds:
  "day_from_year (year_from_day d) \<le> d \<and> d < day_from_year (year_from_day d + 1)"
proof (cases "0 \<le> d")
  case True
  then have "365 * (d div 365 + 1) \<le> day_from_year (1970 + (d div 365 + 1))"
    by (intro day_from_year_lower) (simp add: pos_imp_zdiv_nonneg_iff add_nonneg_nonneg)
  moreover have "d < 365 * (d div 365 + 1)"
    using mult_div_mod_eq [of 365 d] pos_mod_bound [of 365 d] by (simp add: distrib_left)
  ultimately show ?thesis
    using True year_search_bounds [of d "1970 + d div 365"]
    by (simp add: year_from_day_def algebra_simps)
next
  case False
  then have neg: "d div 366 \<le> - 1"
    using pos_imp_zdiv_neg_iff [of 366 d] by simp
  then have "- 366 * (- (d div 366) - 1) \<le> day_from_year (1970 - (- (d div 366) - 1))"
    by (intro day_from_year_upper) simp
  moreover have "d < 366 * (d div 366 + 1)"
    using mult_div_mod_eq [of 366 d] pos_mod_bound [of 366 d] by (simp add: distrib_left)
  ultimately show ?thesis
    using False year_search_bounds [of d "1970 + d div 366"]
    by (simp add: year_from_day_def algebra_simps)
qed

definition month_start :: "bool \<Rightarrow> int \<Rightarrow> int" where
  "month_start lp m = (if m \<le> 1 then 0 else if m = 2 then 31
     else [59, 90, 120, 151, 181, 212, 243, 273, 304, 334] ! nat (min (m - 3) 9) + (if lp then 1 else 0))"

definition month_of_day :: "bool \<Rightarrow> int \<Rightarrow> int" where
  "month_of_day lp d =
    (let l = (if lp then 1 else 0) in
     if d < 31 then 1 else if d < 59 + l then 2 else if d < 90 + l then 3
     else if d < 120 + l then 4 else if d < 151 + l then 5 else if d < 181 + l then 6
     else if d < 212 + l then 7 else if d < 243 + l then 8 else if d < 273 + l then 9
     else if d < 304 + l then 10 else if d < 334 + l then 11 else 12)"

definition getUTCFullYear :: "int \<Rightarrow> int" where
  "getUTCFullYear t = year_from_day (t div msPerDay)"

definition day_in_year :: "int \<Rightarrow> int" where
  "day_in_year t = t div msPerDay - day_from_year (getUTCFullYear t)"

text \<open>\<open>getUTCMonth() + 1\<close>: the months are numbered from 1 wherever the services use them.\<close>

definition getUTCMonth1 :: "int \<Rightarrow> int" where
  "getUTCMonth1 t = month_of_day (leap_year (getUTCFullYear t)) (day_in_year t)"

definition getUTCDate :: "int \<Rightarrow> int" where
  "getUTCDate t = day_in_year t - month_start (leap_year (getUTCFullYear t)) (getUTCMonth1 t) + 1"

lemma getUTCMonth1_range: "1 \<le> getUTCMonth1 t \<and> getUTCMonth1 t \<le> 12"
  by (simp add: getUTCMonth1_def month_of_day_def Let_def)

lemma day_in_year_range:
  "0 \<le> day_in_year t \<and> day_in_year t < (if leap_year (getUTCFullYear t) then 366 else 365)"
  using year_from_day_bounds [of "t div msPerDay"] day_from_year_step [of "getUTCFullYear t"]
  by (auto simp: day_in_year_def getUTCFullYear_def)

section \<open>ISO strings\<close>

fun pad :: "nat \<Rightarrow> nat \<Rightarrow> string" where
  "pad 0 n = []"
| "pad (Suc k) n = pad k (n div 10) @ [digit_char (n mod 10)]"

lemma length_pad [simp]: "length (pad k n) = k"
  by (induction k arbitrary: n) auto

lemma lex_append:
  fixes a a' b b' :: string
  shows "length a = length a' \<Longrightarrow> a @ b < a' @ b' \<longleftrightarrow> a < a' \<or> (a = a' \<and> b < b')"
  by (induction a a' rule: list_induct2) auto

lemma digit_char_less: "a < 10 \<Longrightarrow> b < 10 \<Longrightarrow> digit_char a < digit_char b \<longleftrightarrow> a < b"
  by (simp add: digit_char_def less_char_def of_char_of take_bit_eq_mod)

lemma pad_eq: "m < 10 ^ k \<Longrightarrow> n < 10 ^ k \<Longrightarrow> pad k m = pad k n \<longleftrightarrow> m = n"
proof (induction k arbitrary: m n)
  case (Suc k)
  have "pad k (m div 10) = pad k (n div 10) \<longleftrightarrow> m div 10 = n div 10"
    using Suc.prems by (intro Suc.IH) auto
  moreover have "digit_char (m mod 10) = digit_char (n mod 10) \<longleftrightarrow> m mod 10 = n mod 10"
    by (metis digit_val_char mod_less_divisor zero_less_numeral)
  ultimately show ?case
    by simp (metis div_mult_mod_eq)
qed simp

lemma less_div_mod:
  fixes m n k :: nat
  assumes "0 < k"
  shows "m < n \<longleftrightarrow> m div k < n div k \<or> (m div k = n div k \<and> m mod k < n mod k)"
proof (cases "m div k" "n div k" rule: linorder_cases)
  case less
  then show ?thesis by (metis div_le_mono not_less)
next
  case equal
  then show ?thesis
    by (metis add_less_cancel_left div_mult_mod_eq less_not_refl)
next
  case greater
  then show ?thesis by (metis div_le_mono less_imp_le_nat not_less)
qed

lemma pad_less: "m < 10 ^ k \<Longrightarrow> n < 10 ^ k \<Longrightarrow> pad k m < pad k n \<longleftrightarrow> m < n"
proof (induction k arbitrary: m n)
  case (Suc k)
  have b: "m div 10 < 10 ^ k" "n div 10 < 10 ^ k"
    using Suc.prems by auto
  have "pad (Suc k) m < pad (Suc k) n \<longleftrightarrow>
      m div 10 < n div 10 \<or> (m div 10 = n div 10 \<and> m mod 10 < n mod 10)"
    using b by (simp add: lex_append Suc.IH pad_eq digit_char_less)
  also have "\<dots> \<longleftrightarrow> m < n" by (rule less_div_mod [symmetric]) simp
  finally show ?case .
qed simp

definition iso_year :: "int \<Rightarrow> string" where
  "iso_year y = (if 0 \<le> y \<and> y \<le> 9999 then pad 4 (nat y)
     else (if y < 0 then CHR ''-'' else CHR ''+'') # pad 6 (nat \<bar>y\<bar>))"

definition toISOString :: "int \<Rightarrow> string" where
  "toISOString t = (let ms = t mod msPerDay in
     iso_year (getUTCFullYear t) @ ''-'' @ pad 2 (nat (getUTCMonth1 t)) @ ''-'' @
     pad 2 (nat (getUTCDate t)) @ ''T'' @ pad 2 (nat (ms div 3600000)) @ '':'' @
     pad 2 (nat (ms div 60000 mod 60)) @ '':'' @ pad 2 (nat (ms div 1000 mod 60)) @ ''.'' @
     pad 3 (nat (ms mod 1000)) @ ''Z'')"

section \<open>String order is time order\<close>

lemma year_from_day_mono: "d \<le> d' \<Longrightarrow> year_from_day d \<le> year_from_day d'"
proof (rule ccontr)
  assume "d \<le> d'" "\<not> year_from_day d \<le> year_from_day d'"
  moreover have "day_from_year (year_from_day d' + 1) \<le> day_from_year (year_from_day d)"
    if "year_from_day d' < year_from_day d"
    using that day_from_year_mono [of "year_from_day d' + 1" "year_from_day d"]
    by (cases "year_from_day d' + 1 = year_from_day d") auto
  ultimately show False
    using year_from_day_bounds [of d] year_from_day_bounds [of d'] by linarith
qed

lemma year_from_day_1970: "0 \<le> d \<Longrightarrow> 1970 \<le> year_from_day d"
proof (rule ccontr)
  assume "0 \<le> d" "\<not> 1970 \<le> year_from_day d"
  moreover have "day_from_year (year_from_day d + 1) \<le> day_from_year 1970"
    if "year_from_day d < 1970"
    using that day_from_year_mono [of "year_from_day d + 1" 1970]
    by (cases "year_from_day d + 1 = 1970") auto
  ultimately show False
    using year_from_day_bounds [of d] by (simp add: day_from_year_def)
qed

lemma month_of_day_mono: "d \<le> d' \<Longrightarrow> month_of_day lp d \<le> month_of_day lp d'"
  by (simp add: month_of_day_def Let_def)

lemma month_start_of_day:
  "0 \<le> d \<Longrightarrow> d < (if lp then 366 else 365) \<Longrightarrow>
   month_start lp (month_of_day lp d) \<le> d \<and> d < month_start lp (month_of_day lp d) + 31"
  by (cases lp) (auto simp: month_of_day_def month_start_def Let_def)

lemma getUTCDate_range: "1 \<le> getUTCDate t \<and> getUTCDate t \<le> 31"
  using day_in_year_range [of t]
    month_start_of_day [of "day_in_year t" "leap_year (getUTCFullYear t)"]
  by (auto simp: getUTCDate_def getUTCMonth1_def)

text \<open>The date fields order days, the time fields order the milliseconds of a day.\<close>

lemma date_fields_less:
  assumes "t div msPerDay < t' div msPerDay"
  shows "getUTCFullYear t < getUTCFullYear t' \<or> (getUTCFullYear t = getUTCFullYear t' \<and>
    (getUTCMonth1 t < getUTCMonth1 t' \<or>
      (getUTCMonth1 t = getUTCMonth1 t' \<and> getUTCDate t < getUTCDate t')))"
proof -
  have "getUTCFullYear t \<le> getUTCFullYear t'"
    using assms by (simp add: getUTCFullYear_def year_from_day_mono)
  moreover have "getUTCMonth1 t \<le> getUTCMonth1 t'" if "getUTCFullYear t = getUTCFullYear t'"
    using assms that by (simp add: getUTCMonth1_def month_of_day_mono day_in_year_def)
  moreover have "getUTCDate t < getUTCDate t'"
    if "getUTCFullYear t = getUTCFullYear t'" "getUTCMonth1 t = getUTCMonth1 t'"
    using assms that by (simp add: getUTCDate_def day_in_year_def)
  ultimately show ?thesis by linarith
qed

lemma date_fields_eq:
  "t div msPerDay = t' div msPerDay \<Longrightarrow>
   getUTCFullYear t = getUTCFullYear t' \<and> getUTCMonth1 t = getUTCMonth1 t' \<and> getUTCDate t = getUTCDate t'"
  by (simp add: getUTCFullYear_def getUTCMonth1_def getUTCDate_def day_in_year_def)

definition iso_time :: "nat \<Rightarrow> string" where
  "iso_time ms = pad 2 (ms div 3600000) @ '':'' @ pad 2 (ms div 60000 mod 60) @ '':'' @
     pad 2 (ms div 1000 mod 60) @ ''.'' @ pad 3 (ms mod 1000) @ ''Z''"

lemma iso_time_less:
  assumes "m < n" "n < 86400000"
  shows "iso_time m < iso_time n"
proof -
  have h: "x < 86400000 \<Longrightarrow> x div 3600000 < 100" for x :: nat
    by (simp add: div_less_iff_less_mult)
  have e: "x div 1000 div 60 = x div 60000" "x div 60000 div 60 = x div 3600000" for x :: nat
    by (simp_all add: div_mult2_eq [symmetric])
  have "x mod 60 < (100::nat)" for x :: nat
    using mod_less_divisor [of 60 x] by simp
  then have b: "m div 60000 mod 60 < 100" "n div 60000 mod 60 < 100" "m div 1000 mod 60 < 100"
    "n div 1000 mod 60 < 100" by blast+
  have l1: "m < n \<longleftrightarrow> m div 1000 < n div 1000 \<or> (m div 1000 = n div 1000 \<and> m mod 1000 < n mod 1000)"
    by (rule less_div_mod) simp
  have l2: "m div 1000 < n div 1000 \<longleftrightarrow> m div 60000 < n div 60000 \<or>
      (m div 60000 = n div 60000 \<and> m div 1000 mod 60 < n div 1000 mod 60)"
    using less_div_mod [of 60 "m div 1000" "n div 1000"] unfolding e by simp
  have l3: "m div 60000 < n div 60000 \<longleftrightarrow> m div 3600000 < n div 3600000 \<or>
      (m div 3600000 = n div 3600000 \<and> m div 60000 mod 60 < n div 60000 mod 60)"
    using less_div_mod [of 60 "m div 60000" "n div 60000"] unfolding e by simp
  have q: "m div 1000 = n div 1000 \<Longrightarrow> m div 60000 = n div 60000 \<and> m div 1000 mod 60 = n div 1000 mod 60"
    "m div 60000 = n div 60000 \<Longrightarrow> m div 3600000 = n div 3600000 \<and> m div 60000 mod 60 = n div 60000 mod 60"
    by (metis e)+
  have "m div 3600000 < n div 3600000 \<or> (m div 3600000 = n div 3600000 \<and>
    (m div 60000 mod 60 < n div 60000 mod 60 \<or> (m div 60000 mod 60 = n div 60000 mod 60 \<and>
    (m div 1000 mod 60 < n div 1000 mod 60 \<or> (m div 1000 mod 60 = n div 1000 mod 60 \<and>
     m mod 1000 < n mod 1000)))))"
    using assms(1) l1 l2 l3 q by blast
  then show ?thesis
    using h [of m] h [of n] assms b by (simp add: iso_time_def lex_append pad_less pad_eq)
qed

lemma toISOString_iso_time:
  "toISOString t = iso_year (getUTCFullYear t) @ ''-'' @ pad 2 (nat (getUTCMonth1 t)) @ ''-'' @
     pad 2 (nat (getUTCDate t)) @ ''T'' @ iso_time (nat (t mod msPerDay))"
proof -
  have "0 \<le> t mod msPerDay" by (simp add: msPerDay_def)
  then show ?thesis
    by (simp add: toISOString_def iso_time_def Let_def nat_div_distrib nat_mod_distrib)
qed

text \<open>Time values between the epoch and the end of the year 9999 print to ISO strings whose
  lexicographic order is the order of the time values.\<close>

lemma toISOString_less:
  assumes "0 \<le> t" "t < t'" "getUTCFullYear t' \<le> 9999"
  shows "toISOString t < toISOString t'"
proof -
  have y: "getUTCFullYear t \<le> getUTCFullYear t'"
    using assms(2) by (simp add: getUTCFullYear_def year_from_day_mono zdiv_mono1 msPerDay_def)
  have "1970 \<le> getUTCFullYear t"
    using assms(1) by (simp add: getUTCFullYear_def msPerDay_def pos_imp_zdiv_nonneg_iff year_from_day_1970)
  with y assms(3) have b: "nat (getUTCFullYear t) < 10 ^ 4" "nat (getUTCFullYear t') < 10 ^ 4"
    "0 \<le> getUTCFullYear t" by auto
  have m: "nat (getUTCMonth1 s) < 10 ^ 2" "nat (getUTCDate s) < 10 ^ 2" for s
    using getUTCMonth1_range [of s] getUTCDate_range [of s] by auto
  have iy: "iso_year (getUTCFullYear t) = pad 4 (nat (getUTCFullYear t))"
    "iso_year (getUTCFullYear t') = pad 4 (nat (getUTCFullYear t'))"
    using b y assms(3) by (simp_all add: iso_year_def)
  note fields = toISOString_iso_time iy lex_append pad_less pad_eq
  have "t div msPerDay < t' div msPerDay \<or>
      (t div msPerDay = t' div msPerDay \<and> t mod msPerDay < t' mod msPerDay)"
    using assms(2) div_mult_mod_eq [of t msPerDay] div_mult_mod_eq [of t' msPerDay]
    by (smt (verit) msPerDay_def zdiv_mono1)
  then show ?thesis
  proof
    assume "t div msPerDay < t' div msPerDay"
    from date_fields_less [OF this] show ?thesis
      using b m getUTCMonth1_range [of t] getUTCDate_range [of t] y
      by (auto simp: fields)
  next
    assume d: "t div msPerDay = t' div msPerDay \<and> t mod msPerDay < t' mod msPerDay"
    then have "iso_time (nat (t mod msPerDay)) < iso_time (nat (t' mod msPerDay))"
      by (intro iso_time_less) (auto simp: msPerDay_def)
    with d show ?thesis
      using date_fields_eq [of t t'] by (simp add: fields)
  qed
qed

end
