(* ===== verification/Types.thy ===== *)
theory Types
  imports JsDate
begin

text \<open>
  The data model of the operations backend (\<open>src/services/be2-ops/src\<close>): the enums and interfaces of
  \<open>types.ts\<close> and \<open>repository/app-repository.ts\<close>, the in-memory store of \<open>store.ts\<close> as the record
  \<open>world\<close>, the configuration and the outside world (clock, random identifiers, rippled, hash
  function, locale collation) as the record \<open>env\<close>, and the helpers of \<open>utils.ts\<close>.

  Every interaction with the outside consumes one tick of the world, so that two reads of the clock
  or two random identifiers are different values of the environment's functions.
\<close>

section \<open>Enumerations\<close>

datatype ContractStatus = Draft | EscrowPending | EscrowValidated | Active | CClosed | Cancelled

datatype DisputeStatus = Filed | UnderReview | Decided | ExecutionPending | Executed | DClosed | Rejected

datatype TxTrackingStatus = TCreated | TSubmitted | PendingValidation | ValidatedSuccess | ValidatedFail
  | TRetryScheduled

datatype OutcomeClass = Success | Retryable | FinalFail | ManualReview

datatype NotificationChannel = Push | Email | Inapp

datatype SettlementStatus = Collecting | Accrued | Confirmed | Archived

datatype EvidenceRetentionClass = Standard | Regulated | LegalHold

datatype EvidenceCategory = ContractPdf | UtilityBill | Photo | Receipt | OtherCategory

datatype StorageProvider = MockStorage | Pinata

datatype RaisedBy = ByTenant | ByLandlord | ByOperator

datatype DisputeDecisionChoice = FinishToTenant | FinishToLandlord | CancelToOwner | PartialManual

datatype Network = Testnet | Mainnet

datatype NotificationStatus = Queued | Sent | NFailed | NRetryScheduled

datatype NotificationOutboxStatus = OPending | OProcessing | ODispatched | ODead

datatype ExportJobStatus = JPending | JRunning | JCompleted | JFailed

text \<open>The string literals of the union types.\<close>

fun contractStatus_str :: "ContractStatus \<Rightarrow> string" where
  "contractStatus_str Draft = ''draft''"
| "contractStatus_str EscrowPending = ''escrow_pending''"
| "contractStatus_str EscrowValidated = ''escrow_validated''"
| "contractStatus_str Active = ''active''"
| "contractStatus_str CClosed = ''closed''"
| "contractStatus_str Cancelled = ''cancelled''"

fun disputeStatus_str :: "DisputeStatus \<Rightarrow> string" where
  "disputeStatus_str Filed = ''filed''"
| "disputeStatus_str UnderReview = ''under_review''"
| "disputeStatus_str Decided = ''decided''"
| "disputeStatus_str ExecutionPending = ''execution_pending''"
| "disputeStatus_str Executed = ''executed''"
| "disputeStatus_str DClosed = ''closed''"
| "disputeStatus_str Rejected = ''rejected''"

fun tracking_str :: "TxTrackingStatus \<Rightarrow> string" where
  "tracking_str TCreated = ''created''"
| "tracking_str TSubmitted = ''submitted''"
| "tracking_str PendingValidation = ''pending_validation''"
| "tracking_str ValidatedSuccess = ''validated_success''"
| "tracking_str ValidatedFail = ''validated_fail''"
| "tracking_str TRetryScheduled = ''retry_scheduled''"

fun outcome_str :: "OutcomeClass \<Rightarrow> string" where
  "outcome_str Success = ''success''"
| "outcome_str Retryable = ''retryable''"
| "outcome_str FinalFail = ''final_fail''"
| "outcome_str ManualReview = ''manual_review''"

fun channel_str :: "NotificationChannel \<Rightarrow> string" where
  "channel_str Push = ''push''"
| "channel_str Email = ''email''"
| "channel_str Inapp = ''inapp''"

fun settlementStatus_str :: "SettlementStatus \<Rightarrow> string" where
  "settlementStatus_str Collecting = ''collecting''"
| "settlementStatus_str Accrued = ''accrued''"
| "settlementStatus_str Confirmed = ''confirmed''"
| "settlementStatus_str Archived = ''archived''"

fun retentionClass_str :: "EvidenceRetentionClass \<Rightarrow> string" where
  "retentionClass_str Standard = ''standard''"
| "retentionClass_str Regulated = ''regulated''"
| "retentionClass_str LegalHold = ''legal_hold''"

fun decision_str :: "DisputeDecisionChoice \<Rightarrow> string" where
  "decision_str FinishToTenant = ''finish_to_tenant''"
| "decision_str FinishToLandlord = ''finish_to_landlord''"
| "decision_str CancelToOwner = ''cancel_to_owner''"
| "decision_str PartialManual = ''partial_manual''"

fun network_str :: "Network \<Rightarrow> string" where
  "network_str Testnet = ''testnet''"
| "network_str Mainnet = ''mainnet''"

fun raisedBy_str :: "RaisedBy \<Rightarrow> string" where
  "raisedBy_str ByTenant = ''tenant''"
| "raisedBy_str ByLandlord = ''landlord''"
| "raisedBy_str ByOperator = ''operator''"

fun notificationStatus_str :: "NotificationStatus \<Rightarrow> string" where
  "notificationStatus_str Queued = ''queued''"
| "notificationStatus_str Sent = ''sent''"
| "notificationStatus_str NFailed = ''failed''"
| "notificationStatus_str NRetryScheduled = ''retry_scheduled''"

lemma channel_str_inj [simp]: "channel_str a = channel_str b \<longleftrightarrow> a = b"
  by (cases a; cases b) auto

section \<open>Records of \<open>types.ts\<close>\<close>

record Contract =
  ct_id :: string
  ct_tenantId :: string
  ct_landlordId :: string
  ct_status :: ContractStatus
  ct_escrowCreateTxHash :: "string option"
  ct_depositAmount :: "string option"
  ct_stakeAmount :: "string option"
  ct_startsAt :: "string option"
  ct_endsAt :: "string option"
  ct_createdAt :: string
  ct_updatedAt :: string

text \<open>
  \<open>withSettlementDefaults\<close> fills \<open>currencyCode\<close>, \<open>periodMode\<close> and \<open>ledgerCloseCount\<close> when a stored row
  lacks them, so the three are optional in the stored record. \<open>calendar_utc\<close> is the only period mode.
\<close>

record SettlementRecord =
  st_id :: string
  st_contractId :: string
  st_periodYear :: int
  st_periodMonth :: int
  st_status :: SettlementStatus
  st_lastLedgerIndex :: "int option"
  st_ledgerCloseCount :: "nat option"
  st_createdAt :: string
  st_updatedAt :: string
  st_amountMinor :: "int option"
  st_currencyCode :: "string option"
  st_batchId :: "string option"
  st_periodMode :: "string option"
  st_confirmedAt :: "string option"

record DisputeVerifierRegistryEntry =
  vr_id :: string
  vr_verifierId :: string
  vr_displayLabel :: "string option"
  vr_active :: bool
  vr_createdAt :: string

record EvidenceFile =
  ev_id :: string
  ev_contractId :: string
  ev_disputeId :: "string option"
  ev_uploaderId :: string
  ev_category :: EvidenceCategory
  ev_cid :: string
  ev_sha256 :: string
  ev_mimeType :: string
  ev_sizeBytes :: nat
  ev_version :: nat
  ev_isEncrypted :: bool
  ev_encryptionScheme :: "string option"
  ev_retainUntil :: "string option"
  ev_retentionClass :: EvidenceRetentionClass
  ev_jurisdiction :: "string option"
  ev_legalHoldUntil :: "string option"
  ev_storageProvider :: StorageProvider
  ev_createdAt :: string
  ev_localContentHashSeed :: string

record DisputeCase =
  ds_id :: string
  ds_contractId :: string
  ds_raisedBy :: RaisedBy
  ds_reasonCode :: string
  ds_status :: DisputeStatus
  ds_evidenceBundle :: "string list"
  ds_createdAt :: string
  ds_updatedAt :: string
  ds_reviewDeadlineAt :: "string option"
  ds_escalatedAt :: "string option"

record DisputeVerifierVoteRecord =
  vv_id :: string
  vv_disputeId :: string
  vv_verifierId :: string
  vv_recommendation :: DisputeDecisionChoice
  vv_createdAt :: string

record CaseDecision =
  cd_id :: string
  cd_disputeId :: string
  cd_decision :: DisputeDecisionChoice
  cd_memo :: "string option"
  cd_createdAt :: string

record XrplTransaction =
  tx_id :: string
  tx_txHash :: string
  tx_txType :: string
  tx_account :: "string option"
  tx_disputeId :: "string option"
  tx_network :: Network
  tx_trackingStatus :: TxTrackingStatus
  tx_validated :: bool
  tx_ledgerIndex :: "int option"
  tx_resultCode :: "string option"
  tx_outcomeClass :: "OutcomeClass option"
  tx_retries :: nat
  tx_lastCheckedAt :: string
  tx_escrowOwner :: "string option"
  tx_escrowDestination :: "string option"
  tx_escrowOfferSequence :: "int option"
  tx_escrowSubmitterAccount :: "string option"

record NotificationEvent =
  nt_id :: string
  nt_eventType :: string
  nt_recipientId :: string
  nt_channel :: NotificationChannel
  nt_status :: NotificationStatus
  nt_payload :: payload
  nt_createdAt :: string
  nt_updatedAt :: "string option"
  nt_attemptCount :: "nat option"
  nt_nextAttemptAt :: "string option"
  nt_lastError :: "string option"
  nt_deadLetter :: "bool option"

record NotificationOutboxRecord =
  ox_id :: string
  ox_idempotencyKey :: string
  ox_eventType :: string
  ox_recipientId :: string
  ox_channel :: NotificationChannel
  ox_payload :: payload
  ox_status :: NotificationOutboxStatus
  ox_attempts :: nat
  ox_lastError :: "string option"
  ox_createdAt :: string
  ox_updatedAt :: string
  ox_processingStartedAt :: "string option"
  ox_dispatchedNotificationId :: "string option"

record AuditLog =
  au_id :: string
  au_entityType :: string
  au_entityId :: string
  au_action :: string
  au_actorId :: string
  au_before :: "payload option"
  au_after :: "payload option"
  au_metadata :: "payload option"
  au_createdAt :: string

record EventEnvelope =
  en_eventId :: string
  en_eventType :: string
  en_occurredAt :: string
  en_entityType :: string
  en_entityId :: string
  en_payload :: payload
  en_traceId :: string

section \<open>Records of \<open>repository/app-repository.ts\<close>\<close>

record AuditFilter =
  af_entityType :: "string option"
  af_entityId :: "string option"
  af_from :: "string option"
  af_to :: "string option"

record DelayedJob =
  dj_id :: string
  dj_kind :: string
  dj_payload :: payload
  dj_runAfter :: string
  dj_attempts :: nat
  dj_maxAttempts :: nat
  dj_lockedUntil :: "string option"
  dj_lastError :: "string option"
  dj_createdAt :: string
  dj_updatedAt :: string

record ContractListFilter =
  cf_status :: "ContractStatus option"
  cf_tenantId :: "string option"
  cf_landlordId :: "string option"
  cf_updatedFrom :: "string option"
  cf_updatedTo :: "string option"

record DisputeListFilter =
  df_contractId :: "string option"
  df_status :: "DisputeStatus option"
  df_updatedFrom :: "string option"
  df_updatedTo :: "string option"

record XrplTxListFilter =
  xf_account :: "string option"
  xf_trackingStatus :: "string option"
  xf_validated :: "bool option"
  xf_network :: "Network option"

record SettlementListFilter =
  sf_contractId :: "string option"
  sf_status :: "SettlementStatus option"
  sf_periodYear :: "int option"
  sf_periodMonth :: "int option"

record ListParams =
  lp_limit :: nat
  lp_offset :: nat

record 'a Paginated =
  pg_items :: "'a list"
  pg_total :: nat
  pg_limit :: nat
  pg_offset :: nat

record ExportJobRecord =
  ej_id :: string
  ej_kind :: string
  ej_status :: ExportJobStatus
  ej_filter :: AuditFilter
  ej_maxExport :: nat
  ej_resultNdjson :: "string option"
  ej_error :: "string option"
  ej_createdAt :: string
  ej_updatedAt :: string

section \<open>Environment\<close>

text \<open>
  The configuration of \<open>config.ts\<close> that the modelled code reads, and the code outside \<open>src\<close>: the
  clock, \<open>crypto.randomUUID\<close>, SHA-256 and HMAC, \<open>Date.parse\<close>, \<open>localeCompare\<close>, zod's datetime check,
  the rippled client, \<open>fetch\<close>, AES-GCM. Functions of a \<open>nat\<close> are read at the tick of the call.
\<close>

datatype fetched = FetchThrew string | FetchResp nat string payload

definition fetched_ok :: "fetched \<Rightarrow> bool" where
  "fetched_ok r = (case r of FetchThrew _ \<Rightarrow> False | FetchResp st _ _ \<Rightarrow> 200 \<le> st \<and> st < 300)"

datatype DeploymentTier = Dev | Strict

record env =
  v1BearerToken :: string
  mtlsClientCertSubjectHeader :: string
  authEnabled :: bool
  operatorConsoleScopesEnabled :: bool
  ipfsPinata :: bool
  pinataJwt :: string
  pinataEndpoint :: string
  pinataUnpinBaseUrl :: string
  pinataMaxAttempts :: nat
  xrplEnabled :: bool
  maxSubscribeAccounts :: nat
  policyIntervalMs :: int
  policyPendingTimeoutMs :: int
  policyBatchSize :: nat
  policyMaxNotFoundProbes :: nat
  policyAccountBackfillPerTick :: nat
  policyMaxBackoffMs :: int
  notificationMaxAttempts :: nat
  notificationBatchSize :: nat
  retryInitialBackoffMs :: int
  retryMaxBackoffMs :: int
  emailWebhookUrl :: string
  pushWebhookUrl :: string
  providerMode :: string
  autoDomainEnqueue :: bool
  domainOutbox :: bool
  outboxFanoutBatchSize :: nat
  outboxStaleProcessingMs :: int
  outboxDispatchMaxAttempts :: nat
  exportBatchSize :: nat
  artifactSigningSecret :: string
  artifactUrlTtlSec :: int
  metricsScrapeToken :: "string option"
  reputationWebhookUrl :: string
  xlsAllowlist :: "string list"
  syntheticExecutionHashEnabled :: bool
  deploymentTier :: DeploymentTier
  submitEnabled :: bool
  submitSeed :: string
  verifierQuorumK :: nat
  reviewDeadlineDays :: int
  slaAutoEscalate :: bool
  ledgerCloseTouchEnabled :: bool
  autoNotifyOnConfirmed :: bool
  maxRetentionDays :: nat
  encryptionKeyBase64 :: string
  kmsKeyRef :: string
  kmsStubDekBase64 :: string
  kmsHttpUnwrapUrl :: string
  kmsWrappedDekBase64 :: string
  ipfsGatewayBase :: string
  clockMs :: "nat \<Rightarrow> int"
  uuid16 :: "nat \<Rightarrow> string"
  sha256Hex :: "string \<Rightarrow> string"
  hmacSha256 :: "string \<Rightarrow> string \<Rightarrow> string"
  dateParse :: "string \<Rightarrow> int option"
  localeLe :: "string \<Rightarrow> string \<Rightarrow> bool"
  zodDatetime :: "string \<Rightarrow> bool"
  rippledConnects :: "nat \<Rightarrow> bool"
  rippledRequest :: "nat \<Rightarrow> string \<Rightarrow> payload \<Rightarrow> payload option"
  rippledSubmit :: "nat \<Rightarrow> payload \<Rightarrow> string \<Rightarrow> payload option"
  walletAddress :: "string \<Rightarrow> string"
  fetch :: "nat \<Rightarrow> string \<Rightarrow> json \<Rightarrow> fetched"
  base64Decode :: "string \<Rightarrow> string"
  randomBytes :: "nat \<Rightarrow> nat \<Rightarrow> string"
  aesGcmEncrypt :: "string \<Rightarrow> string \<Rightarrow> string \<Rightarrow> string \<times> string"
  aesGcmDecrypt :: "string \<Rightarrow> string \<Rightarrow> string \<Rightarrow> string \<Rightarrow> string option"

section \<open>The store\<close>

record ReputationOutboundBody =
  rb_idempotencyKey :: string
  rb_eventType :: string
  rb_subjectType :: string
  rb_subjectId :: string
  rb_payload :: "payload option"
  rb_tokenStandardRefs :: "string list option"

record ReputationDlqEntry =
  dq_idempotencyKey :: string
  dq_body :: ReputationOutboundBody
  dq_failedAt :: string
  dq_lastHttpStatus :: "nat option"
  dq_lastError :: "string option"
  dq_attempts :: nat

text \<open>
  \<open>db\<close> of \<open>store.ts\<close>, the module-level state of the services (\<open>dlq\<close>, the \<open>setImmediate\<close> queue of
  outbound webhooks, the counters of the \<open>*-metrics.ts\<close> modules) and the tick count.
\<close>

record world =
  contracts :: "(string, Contract) jsmap"
  evidences :: "(string, EvidenceFile) jsmap"
  disputes :: "(string, DisputeCase) jsmap"
  decisions :: "(string, CaseDecision) jsmap"
  xrplTxs :: "(string, XrplTransaction) jsmap"
  notifications :: "(string, NotificationEvent) jsmap"
  outboxById :: "(string, NotificationOutboxRecord) jsmap"
  outboxIdempotency :: "(string, string) jsmap"
  audits :: "AuditLog list"
  events :: "EventEnvelope list"
  ingestionDedup :: "string list"
  delayedJobs :: "(string, DelayedJob) jsmap"
  verifierVotes :: "(string, DisputeVerifierVoteRecord list) jsmap"
  verifierRegistry :: "(string, DisputeVerifierRegistryEntry) jsmap"
  settlements :: "(string, SettlementRecord) jsmap"
  exportJobs :: "(string, ExportJobRecord) jsmap"
  dlq :: "(string, ReputationDlqEntry) jsmap"
  webhookQueue :: "ReputationOutboundBody list"
  counters :: "(string, nat) jsmap"
  ticks :: nat

type_synonym 'a io = "(world, 'a) state"
type_synonym 'a handler = "'a http io"

definition empty_world :: world where
  "empty_world = \<lparr> contracts = [], evidences = [], disputes = [], decisions = [], xrplTxs = [],
     notifications = [], outboxById = [], outboxIdempotency = [], audits = [], events = [],
     ingestionDedup = [], delayedJobs = [], verifierVotes = [], verifierRegistry = [],
     settlements = [], exportJobs = [], dlq = [], webhookQueue = [], counters = [], ticks = 0 \<rparr>"

section \<open>\<open>utils.ts\<close>\<close>

definition tick :: "nat io" where
  "tick = do { n \<leftarrow> gets ticks; modify (ticks_update Suc); ret n }"

definition dateNow :: "env \<Rightarrow> int io" where
  "dateNow E = do { n \<leftarrow> tick; ret (clockMs E n) }"

definition nowIso :: "env \<Rightarrow> string io" where
  "nowIso E = do { t \<leftarrow> dateNow E; ret (toISOString t) }"

definition randomId :: "env \<Rightarrow> string \<Rightarrow> string io" where
  "randomId E prefix = do { n \<leftarrow> tick; ret (prefix @ ''_'' @ uuid16 E n) }"

definition bump :: "string \<Rightarrow> nat \<Rightarrow> unit io" where
  "bump name n = modify (counters_update (\<lambda>c. jm_set c name (getOr 0 (jm_get c name) + n)))"

definition generateCidFromHash :: "string \<Rightarrow> string" where
  "generateCidFromHash h = ''bafy'' @ take 32 h"

definition classifyXrplResultCode :: "string option \<Rightarrow> OutcomeClass" where
  "classifyXrplResultCode rc =
    (case rc of None \<Rightarrow> ManualReview
     | Some c \<Rightarrow>
        if c = '''' then ManualReview
        else if startsWith c ''tes'' then Success
        else if startsWith c ''ter'' then Retryable
        else if startsWith c ''tem'' then FinalFail
        else if startsWith c ''tec'' then ManualReview
        else ManualReview)"

text \<open>The client hint is the code of the answer; its message is a constant text per code.\<close>

definition xrplTxClientPolicyHint ::
  "TxTrackingStatus \<Rightarrow> bool \<Rightarrow> OutcomeClass \<Rightarrow> string option \<Rightarrow> string" where
  "xrplTxClientPolicyHint trackingStatus validated outcomeClass resultCode =
    (if trim (getOr '''' resultCode) = ''not_found_after_policy'' then ''B2_XRPL_TX_POLICY_EXHAUSTED''
     else if validated \<and> outcomeClass = Success \<and> trackingStatus = ValidatedSuccess
       then ''B2_XRPL_TX_VALIDATED_SUCCESS''
     else if validated \<and> outcomeClass = FinalFail then ''B2_XRPL_TX_TERMINAL_FAILURE''
     else if outcomeClass = Retryable \<or> trackingStatus = TRetryScheduled then ''B2_XRPL_TX_RETRYABLE''
     else if outcomeClass = ManualReview \<or> trackingStatus = ValidatedFail
       then ''B2_XRPL_TX_MANUAL_REVIEW''
     else ''B2_XRPL_TX_PENDING'')"

record audit_params =
  ap_entityType :: string
  ap_entityId :: string
  ap_action :: string
  ap_actorId :: string
  ap_before :: "payload option"
  ap_after :: "payload option"
  ap_metadata :: "payload option"

definition appendAudit :: "AuditLog \<Rightarrow> unit io" where
  "appendAudit log = modify (audits_update (\<lambda>xs. xs @ [log]))"

definition appendEvent :: "EventEnvelope \<Rightarrow> unit io" where
  "appendEvent ev = modify (events_update (\<lambda>xs. xs @ [ev]))"

definition writeAudit :: "env \<Rightarrow> audit_params \<Rightarrow> AuditLog io" where
  "writeAudit E p = do {
     i \<leftarrow> randomId E ''aud'';
     t \<leftarrow> nowIso E;
     let log = \<lparr> au_id = i, au_entityType = ap_entityType p, au_entityId = ap_entityId p,
       au_action = ap_action p, au_actorId = ap_actorId p, au_before = ap_before p,
       au_after = ap_after p, au_metadata = ap_metadata p, au_createdAt = t \<rparr>;
     appendAudit log;
     ret log }"

definition emitEvent :: "env \<Rightarrow> string \<Rightarrow> string \<Rightarrow> string \<Rightarrow> payload \<Rightarrow> EventEnvelope io" where
  "emitEvent E eventType entityType entityId pl = do {
     i \<leftarrow> randomId E ''evt'';
     tr \<leftarrow> randomId E ''trc'';
     t \<leftarrow> nowIso E;
     let ev = \<lparr> en_eventId = i, en_eventType = eventType, en_occurredAt = t,
       en_entityType = entityType, en_entityId = entityId, en_payload = pl, en_traceId = tr \<rparr>;
     appendEvent ev;
     ret ev }"

text \<open>Audit parameters with only some of the optional parts.\<close>

definition audit :: "string \<Rightarrow> string \<Rightarrow> string \<Rightarrow> string \<Rightarrow> payload option \<Rightarrow> payload option \<Rightarrow>
    payload option \<Rightarrow> audit_params" where
  "audit et ei ac who b a m = \<lparr> ap_entityType = et, ap_entityId = ei, ap_action = ac, ap_actorId = who,
     ap_before = b, ap_after = a, ap_metadata = m \<rparr>"

subsection \<open>What the helpers keep\<close>

lemma exec_tick [run_simps]: "exec tick w = w\<lparr>ticks := Suc (ticks w)\<rparr>"
  and valu_tick [run_simps]: "valu tick w = ticks w"
  by (simp_all add: tick_def)

lemma exec_dateNow [run_simps]: "exec (dateNow E) w = w\<lparr>ticks := Suc (ticks w)\<rparr>"
  and valu_dateNow [run_simps]: "valu (dateNow E) w = clockMs E (ticks w)"
  by (simp_all add: dateNow_def run_simps)

lemma exec_nowIso [run_simps]: "exec (nowIso E) w = w\<lparr>ticks := Suc (ticks w)\<rparr>"
  and valu_nowIso [run_simps]: "valu (nowIso E) w = toISOString (clockMs E (ticks w))"
  by (simp_all add: nowIso_def run_simps)

lemma exec_randomId [run_simps]: "exec (randomId E p) w = w\<lparr>ticks := Suc (ticks w)\<rparr>"
  and valu_randomId [run_simps]: "valu (randomId E p) w = p @ ''_'' @ uuid16 E (ticks w)"
  by (simp_all add: randomId_def run_simps)

lemma classify_success: "classifyXrplResultCode (Some ''tesSUCCESS'') = Success"
  by (simp add: classifyXrplResultCode_def startsWith_def)

text \<open>Writing the logs touches no other part of the store.\<close>

lemma writeAudit_frame [simp]:
  "contracts (exec (writeAudit E p) w) = contracts w"
  "evidences (exec (writeAudit E p) w) = evidences w"
  "disputes (exec (writeAudit E p) w) = disputes w"
  "decisions (exec (writeAudit E p) w) = decisions w"
  "xrplTxs (exec (writeAudit E p) w) = xrplTxs w"
  "notifications (exec (writeAudit E p) w) = notifications w"
  "outboxById (exec (writeAudit E p) w) = outboxById w"
  "outboxIdempotency (exec (writeAudit E p) w) = outboxIdempotency w"
  "events (exec (writeAudit E p) w) = events w"
  "ingestionDedup (exec (writeAudit E p) w) = ingestionDedup w"
  "delayedJobs (exec (writeAudit E p) w) = delayedJobs w"
  "verifierVotes (exec (writeAudit E p) w) = verifierVotes w"
  "verifierRegistry (exec (writeAudit E p) w) = verifierRegistry w"
  "settlements (exec (writeAudit E p) w) = settlements w"
  "exportJobs (exec (writeAudit E p) w) = exportJobs w" "dlq (exec (writeAudit E p) w) = dlq w"
  "webhookQueue (exec (writeAudit E p) w) = webhookQueue w"
  "counters (exec (writeAudit E p) w) = counters w"
  by (simp_all add: writeAudit_def appendAudit_def run_simps Let_def)

lemma emitEvent_frame [simp]:
  "contracts (exec (emitEvent E a b c d) w) = contracts w"
  "evidences (exec (emitEvent E a b c d) w) = evidences w"
  "disputes (exec (emitEvent E a b c d) w) = disputes w"
  "decisions (exec (emitEvent E a b c d) w) = decisions w"
  "xrplTxs (exec (emitEvent E a b c d) w) = xrplTxs w"
  "notifications (exec (emitEvent E a b c d) w) = notifications w"
  "outboxById (exec (emitEvent E a b c d) w) = outboxById w"
  "outboxIdempotency (exec (emitEvent E a b c d) w) = outboxIdempotency w"
  "audits (exec (emitEvent E a b c d) w) = audits w"
  "ingestionDedup (exec (emitEvent E a b c d) w) = ingestionDedup w"
  "delayedJobs (exec (emitEvent E a b c d) w) = delayedJobs w"
  "verifierVotes (exec (emitEvent E a b c d) w) = verifierVotes w"
  "verifierRegistry (exec (emitEvent E a b c d) w) = verifierRegistry w"
  "settlements (exec (emitEvent E a b c d) w) = settlements w"
  "exportJobs (exec (emitEvent E a b c d) w) = exportJobs w"
  "dlq (exec (emitEvent E a b c d) w) = dlq w"
  "webhookQueue (exec (emitEvent E a b c d) w) = webhookQueue w"
  "counters (exec (emitEvent E a b c d) w) = counters w"
  by (simp_all add: emitEvent_def appendEvent_def run_simps Let_def)

lemma bump_frame [simp]:
  "contracts (exec (bump n k) w) = contracts w" "evidences (exec (bump n k) w) = evidences w"
  "disputes (exec (bump n k) w) = disputes w" "decisions (exec (bump n k) w) = decisions w"
  "xrplTxs (exec (bump n k) w) = xrplTxs w"
  "notifications (exec (bump n k) w) = notifications w"
  "outboxById (exec (bump n k) w) = outboxById w"
  "outboxIdempotency (exec (bump n k) w) = outboxIdempotency w"
  "audits (exec (bump n k) w) = audits w" "events (exec (bump n k) w) = events w"
  "ingestionDedup (exec (bump n k) w) = ingestionDedup w"
  "delayedJobs (exec (bump n k) w) = delayedJobs w"
  "verifierVotes (exec (bump n k) w) = verifierVotes w"
  "verifierRegistry (exec (bump n k) w) = verifierRegistry w"
  "settlements (exec (bump n k) w) = settlements w"
  "exportJobs (exec (bump n k) w) = exportJobs w" "dlq (exec (bump n k) w) = dlq w"
  "webhookQueue (exec (bump n k) w) = webhookQueue w" "ticks (exec (bump n k) w) = ticks w"
  by (simp_all add: bump_def)

lemma writeAudit_appends:
  "audits (exec (writeAudit E p) w) = audits w @ [valu (writeAudit E p) w]"
  by (simp add: writeAudit_def appendAudit_def run_simps Let_def)

lemma emitEvent_appends:
  "events (exec (emitEvent E a b c d) w) = events w @ [valu (emitEvent E a b c d) w]"
  by (simp add: emitEvent_def appendEvent_def run_simps Let_def)

lemma valu_writeAudit_fields [simp]:
  "au_entityType (valu (writeAudit E p) w) = ap_entityType p"
  "au_entityId (valu (writeAudit E p) w) = ap_entityId p"
  "au_action (valu (writeAudit E p) w) = ap_action p"
  "au_actorId (valu (writeAudit E p) w) = ap_actorId p"
  "au_before (valu (writeAudit E p) w) = ap_before p"
  "au_after (valu (writeAudit E p) w) = ap_after p"
  "au_metadata (valu (writeAudit E p) w) = ap_metadata p"
  by (simp_all add: writeAudit_def run_simps Let_def)

lemma valu_emitEvent_fields [simp]:
  "en_eventType (valu (emitEvent E a b c d) w) = a"
  "en_entityType (valu (emitEvent E a b c d) w) = b"
  "en_entityId (valu (emitEvent E a b c d) w) = c"
  "en_payload (valu (emitEvent E a b c d) w) = d"
  by (simp_all add: emitEvent_def run_simps Let_def)

lemma audit_fields [simp]:
  "ap_entityType (audit et ei ac who b a m) = et" "ap_entityId (audit et ei ac who b a m) = ei"
  "ap_action (audit et ei ac who b a m) = ac" "ap_actorId (audit et ei ac who b a m) = who"
  "ap_before (audit et ei ac who b a m) = b" "ap_after (audit et ei ac who b a m) = a"
  "ap_metadata (audit et ei ac who b a m) = m"
  by (simp_all add: audit_def)

end
