(* ===== verification/Auth.thy ===== *)
theory Auth
  imports Types
begin

text \<open>
  \<open>auth.ts\<close>, \<open>services/operator-console-scopes.ts\<close> and the access predicates at the top of
  \<open>index.ts\<close>. The middleware chain that every \<open>/v1\<close> route runs (transport guard, role headers, the
  auditor's write block, the role list and the console scopes of the route) is the function \<open>v1\<close>,
  which either answers with an error or calls the handler with the authenticated identity.
\<close>

datatype BluesafeRole = Tenant | Landlord | Operator | Verifier | Auditor

record BluesafeAuth =
  ba_role :: BluesafeRole
  ba_tenantId :: "string option"
  ba_landlordId :: "string option"

text \<open>A request as the middleware sees it: its method and its headers by lower-case name.\<close>

record request =
  rq_method :: string
  rq_header :: "string \<Rightarrow> string option"

section \<open>Transport guard\<close>

definition v1ApiTransportGuard :: "env \<Rightarrow> request \<Rightarrow> bool" where
  "v1ApiTransportGuard E req =
    (let bearer = trim (v1BearerToken E);
         mtlsHeader = trim (mtlsClientCertSubjectHeader E);
         bearerOk = (bearer \<noteq> '''' \<and> rq_header req ''authorization'' = Some (''Bearer '' @ bearer));
         mtlsOk = (mtlsHeader \<noteq> '''' \<and>
           truthy (map_option trim (rq_header req (toLowerCase mtlsHeader)))) in
     if bearer = '''' \<and> mtlsHeader = '''' then True
     else if bearer \<noteq> '''' \<and> mtlsHeader \<noteq> '''' then bearerOk \<or> mtlsOk
     else if bearer \<noteq> '''' then bearerOk
     else mtlsOk)"

section \<open>Role headers\<close>

definition role_of_string :: "string \<Rightarrow> BluesafeRole option" where
  "role_of_string r =
    (if r = ''tenant'' then Some Tenant else if r = ''landlord'' then Some Landlord
     else if r = ''operator'' then Some Operator else if r = ''verifier'' then Some Verifier
     else if r = ''auditor'' then Some Auditor else None)"

definition parseRole :: "string option \<Rightarrow> BluesafeRole option" where
  "parseRole raw = (if \<not> truthy raw then None
     else role_of_string (trim (toLowerCase (the raw))))"

text \<open>\<open>header?.trim() || undefined\<close>\<close>

definition trimmedHeader :: "request \<Rightarrow> string \<Rightarrow> string option" where
  "trimmedHeader req h = (case rq_header req h of None \<Rightarrow> None
     | Some v \<Rightarrow> if trim v = '''' then None else Some (trim v))"

text \<open>
  The middleware leaves \<open>req.bluesafeAuth\<close> unset when authentication is off, sets it to the parsed
  identity, or answers 401.
\<close>

definition bluesafeAuthMiddleware :: "env \<Rightarrow> request \<Rightarrow> BluesafeAuth option http" where
  "bluesafeAuthMiddleware E req =
    (if \<not> authEnabled E then HttpOk 200 None
     else case parseRole (rq_header req ''x-bluesafe-role'') of
       None \<Rightarrow> HttpErr 401 ''B2_UNAUTHORIZED''
     | Some role \<Rightarrow>
        (let tenantId = trimmedHeader req ''x-bluesafe-tenant-id'';
             landlordId = trimmedHeader req ''x-bluesafe-landlord-id'' in
         if role = Tenant \<and> tenantId = None then HttpErr 401 ''B2_UNAUTHORIZED''
         else if role = Landlord \<and> landlordId = None then HttpErr 401 ''B2_UNAUTHORIZED''
         else HttpOk 200 (Some \<lparr> ba_role = role, ba_tenantId = tenantId, ba_landlordId = landlordId \<rparr>)))"

definition blockAuditorWriteOperations :: "env \<Rightarrow> request \<Rightarrow> BluesafeAuth option \<Rightarrow> bool" where
  "blockAuditorWriteOperations E req auth =
    (if \<not> authEnabled E then True
     else if map_option ba_role auth \<noteq> Some Auditor then True
     else (let m = toUpperCase (rq_method req) in m = ''GET'' \<or> m = ''HEAD''))"

definition requireRoles :: "env \<Rightarrow> BluesafeRole list \<Rightarrow> BluesafeAuth option \<Rightarrow> bool" where
  "requireRoles E allowed auth =
    (if \<not> authEnabled E then True
     else case auth of None \<Rightarrow> False | Some a \<Rightarrow> ba_role a \<in> set allowed)"

section \<open>Operator console scopes\<close>

datatype OperatorConsoleScope = ScAll | ScExport | ScPurge | ScRegistry | ScSla | ScOutbox | ScEvidence
  | ScDispatch | ScSettlements | ScDisputes

fun scope_str :: "OperatorConsoleScope \<Rightarrow> string" where
  "scope_str ScAll = ''all''"
| "scope_str ScExport = ''export''"
| "scope_str ScPurge = ''purge''"
| "scope_str ScRegistry = ''registry''"
| "scope_str ScSla = ''sla''"
| "scope_str ScOutbox = ''outbox''"
| "scope_str ScEvidence = ''evidence''"
| "scope_str ScDispatch = ''dispatch''"
| "scope_str ScSettlements = ''settlements''"
| "scope_str ScDisputes = ''disputes''"

definition KNOWN :: "OperatorConsoleScope list" where
  "KNOWN = [ScAll, ScExport, ScPurge, ScRegistry, ScSla, ScOutbox, ScEvidence, ScDispatch,
     ScSettlements, ScDisputes]"

datatype GrantedScopes = GrantAll | GrantNone | Granted "OperatorConsoleScope list"

definition parseOperatorConsoleScopes :: "request \<Rightarrow> GrantedScopes" where
  "parseOperatorConsoleScopes req =
    (case trimmedHeader req ''x-bluesafe-operator-scopes'' of
       None \<Rightarrow> GrantAll
     | Some raw \<Rightarrow>
        (let parts = filter (\<lambda>s. s \<noteq> '''') (map (\<lambda>s. toLowerCase (trim s)) (splitOn (CHR '','') raw));
             out = filter (\<lambda>k. scope_str k \<in> set parts) KNOWN in
         if out = [] then GrantNone else Granted out))"

definition operatorHasConsoleScope :: "GrantedScopes \<Rightarrow> OperatorConsoleScope \<Rightarrow> bool" where
  "operatorHasConsoleScope g required =
    (case g of GrantAll \<Rightarrow> True | GrantNone \<Rightarrow> False
     | Granted xs \<Rightarrow> ScAll \<in> set xs \<or> required \<in> set xs)"

definition requireOperatorScopes ::
  "env \<Rightarrow> request \<Rightarrow> OperatorConsoleScope list \<Rightarrow> BluesafeAuth option \<Rightarrow> bool" where
  "requireOperatorScopes E req required auth =
    (if \<not> authEnabled E \<or> \<not> operatorConsoleScopesEnabled E then True
     else if map_option ba_role auth \<noteq> Some Operator then True
     else list_all (operatorHasConsoleScope (parseOperatorConsoleScopes req)) required)"

section \<open>The middleware chain of a \<open>/v1\<close> route\<close>

definition v1 :: "env \<Rightarrow> request \<Rightarrow> BluesafeRole list \<Rightarrow> OperatorConsoleScope list \<Rightarrow>
    (BluesafeAuth option \<Rightarrow> 'a handler) \<Rightarrow> 'a handler" where
  "v1 E req roles scopes h =
    (if \<not> v1ApiTransportGuard E req then ret (HttpErr 401 ''B2_UNAUTHORIZED'')
     else case bluesafeAuthMiddleware E req of
       HttpErr st c \<Rightarrow> ret (HttpErr st c)
     | HttpOk _ auth \<Rightarrow>
        if \<not> blockAuditorWriteOperations E req auth then ret (HttpErr 403 ''B2_FORBIDDEN'')
        else if \<not> requireRoles E roles auth then ret (HttpErr 403 ''B2_FORBIDDEN'')
        else if \<not> requireOperatorScopes E req scopes auth then ret (HttpErr 403 ''B2_FORBIDDEN'')
        else h auth)"

abbreviation anyRole :: "BluesafeRole list" where
  "anyRole \<equiv> [Tenant, Landlord, Operator, Verifier, Auditor]"

abbreviation staff :: "BluesafeRole list" where
  "staff \<equiv> [Operator, Verifier, Auditor]"

section \<open>Access to a contract\<close>

definition canAccessContract :: "env \<Rightarrow> BluesafeAuth option \<Rightarrow> Contract \<Rightarrow> bool" where
  "canAccessContract E auth c =
    (if \<not> authEnabled E then True
     else case auth of None \<Rightarrow> False
     | Some a \<Rightarrow>
        if ba_role a = Auditor then True
        else if ba_role a = Operator \<or> ba_role a = Verifier then True
        else if ba_role a = Tenant \<and> ba_tenantId a = Some (ct_tenantId c) then True
        else if ba_role a = Landlord \<and> ba_landlordId a = Some (ct_landlordId c) then True
        else False)"

definition assertCreateContractAllowed :: "env \<Rightarrow> BluesafeAuth option \<Rightarrow> string \<Rightarrow> string \<Rightarrow> bool" where
  "assertCreateContractAllowed E auth tenantId landlordId =
    (if \<not> authEnabled E then True
     else case auth of None \<Rightarrow> False
     | Some a \<Rightarrow>
        if ba_role a = Auditor then False
        else if ba_role a = Operator \<or> ba_role a = Verifier then True
        else if ba_role a = Tenant \<and> ba_tenantId a = Some tenantId then True
        else if ba_role a = Landlord \<and> ba_landlordId a = Some landlordId then True
        else False)"

section \<open>Properties\<close>

text \<open>An identity is \<open>admitted\<close> when the middleware can produce it.\<close>

definition admitted :: "env \<Rightarrow> BluesafeAuth option \<Rightarrow> bool" where
  "admitted E auth = (if authEnabled E then
      (case auth of None \<Rightarrow> False
       | Some a \<Rightarrow> (ba_role a = Tenant \<longrightarrow> truthy (ba_tenantId a)) \<and>
           (ba_role a = Landlord \<longrightarrow> truthy (ba_landlordId a)))
    else auth = None)"

lemma trimmedHeader_truthy: "trimmedHeader req h = Some v \<Longrightarrow> v \<noteq> []"
  by (auto simp: trimmedHeader_def split: option.splits if_splits)

lemma middleware_admitted: "bluesafeAuthMiddleware E req = HttpOk n auth \<Longrightarrow> admitted E auth"
  by (auto simp: bluesafeAuthMiddleware_def admitted_def Let_def dest: trimmedHeader_truthy
      split: if_splits option.splits)

lemma v1_cases:
  obtains (denied) st c where "v1 E req roles scopes h = ret (HttpErr st c)" "st \<in> {401, 403}"
  | (passed) auth where "v1 E req roles scopes h = h auth" "admitted E auth"
      "requireRoles E roles auth" "blockAuditorWriteOperations E req auth"
      "requireOperatorScopes E req scopes auth" "v1ApiTransportGuard E req"
proof (cases "bluesafeAuthMiddleware E req")
  case (HttpErr st c)
  then have "v1 E req roles scopes h =
      ret (HttpErr (if v1ApiTransportGuard E req then st else 401)
        (if v1ApiTransportGuard E req then c else ''B2_UNAUTHORIZED''))"
    by (simp add: v1_def)
  moreover have "st = 401"
    using HttpErr by (auto simp: bluesafeAuthMiddleware_def Let_def split: if_splits option.splits)
  ultimately show ?thesis using denied by auto
next
  case (HttpOk n auth)
  then have a: "admitted E auth" by (rule middleware_admitted)
  show ?thesis
  proof (cases "v1ApiTransportGuard E req \<and> blockAuditorWriteOperations E req auth \<and>
      requireRoles E roles auth \<and> requireOperatorScopes E req scopes auth")
    case True
    then show ?thesis using HttpOk a by (intro passed [of auth]) (simp_all add: v1_def)
  next
    case False
    then show ?thesis using HttpOk
      by (intro denied [of "if v1ApiTransportGuard E req then 403 else 401"
            "if v1ApiTransportGuard E req then ''B2_FORBIDDEN'' else ''B2_UNAUTHORIZED''"])
        (auto simp: v1_def)
  qed
qed

text \<open>A step relation that the handler keeps is kept behind the middleware.\<close>

lemma steps_v1:
  assumes "\<And>w. R w w" "\<And>auth. steps R (h auth)"
  shows "steps R (v1 E req roles scopes h)"
  by (rule v1_cases [of E req roles scopes h]) (use assms in \<open>auto simp: steps_def\<close>)

text \<open>C34: a role outside the list of a route is never passed on: with authentication on, the store is
  unchanged and the answer is an error, whatever the handler does; in particular an auditor never
  runs the handler of a request whose method is not GET or HEAD.\<close>

theorem v1_gate:
  assumes "authEnabled E" and "parseRole (rq_header req ''x-bluesafe-role'') = Some role"
    and "role \<notin> set roles \<or> (role = Auditor \<and> toUpperCase (rq_method req) \<notin> {''GET'', ''HEAD''})"
  shows "exec (v1 E req roles scopes h) w = w \<and> (\<exists>st c. valu (v1 E req roles scopes h) w = HttpErr st c)"
  using assms
  by (auto simp: v1_def bluesafeAuthMiddleware_def requireRoles_def blockAuditorWriteOperations_def
      Let_def split: http.splits)

text \<open>With console scopes on, an operator whose scopes header names neither \<open>all\<close> nor the
  required scope gets no further than the middleware; without the header every scope is granted.\<close>

lemma operator_scope_gate:
  assumes "authEnabled E" "operatorConsoleScopesEnabled E"
    and "parseRole (rq_header req ''x-bluesafe-role'') = Some Operator"
    and "trimmedHeader req ''x-bluesafe-operator-scopes'' = Some raw"
    and "required \<in> set scopes"
    and "''all'' \<notin> set (map (\<lambda>s. toLowerCase (trim s)) (splitOn (CHR '','') raw))"
    and "scope_str required \<notin> set (map (\<lambda>s. toLowerCase (trim s)) (splitOn (CHR '','') raw))"
  shows "exec (v1 E req roles scopes h) w = w \<and>
    (\<exists>st c. valu (v1 E req roles scopes h) w = HttpErr st c)"
proof -
  let ?parts = "map (\<lambda>s. toLowerCase (trim s)) (splitOn (CHR '','') raw)"
  have no: "\<not> operatorHasConsoleScope (parseOperatorConsoleScopes req) required"
    using assms(4,6,7)
    by (auto simp: parseOperatorConsoleScopes_def operatorHasConsoleScope_def Let_def
        split: GrantedScopes.splits if_splits)
  then have "\<not> list_all (operatorHasConsoleScope (parseOperatorConsoleScopes req)) scopes"
    using assms(5) by (auto simp: list_all_iff)
  with assms(1,2,3) show ?thesis
    by (auto simp: v1_def bluesafeAuthMiddleware_def requireRoles_def requireOperatorScopes_def
        blockAuditorWriteOperations_def Let_def split: http.splits)
qed

text \<open>Who may see a contract: staff, its tenant, its landlord.\<close>

lemma canAccessContract_iff:
  assumes "authEnabled E"
  shows "canAccessContract E auth c \<longleftrightarrow>
    (\<exists>a. auth = Some a \<and> (ba_role a \<in> {Operator, Verifier, Auditor} \<or>
      (ba_role a = Tenant \<and> ba_tenantId a = Some (ct_tenantId c)) \<or>
      (ba_role a = Landlord \<and> ba_landlordId a = Some (ct_landlordId c))))"
  using assms by (auto simp: canAccessContract_def split: option.splits)

end
