(* ===== verification/Repository.thy ===== *)
theory Repository
  imports Auth
begin

text \<open>
  \<open>repository/memory-repository.ts\<close>: every operation of the in-memory repository on the store
  (\<open>world\<close>), together with the two pure functions of other modules that it calls
  (\<open>evidenceBlockedFromRetentionPurge\<close>, \<open>settlementDeterministicId\<close>). Reads are functions of the
  store, writes are state transformers; the audit page operations are in the theory \<open>Audits\<close>.
\<close>

section \<open>Filters\<close>

text \<open>\<open>if (f && x !== f) return false\<close>, \<open>if (f && x < f) return false\<close>, \<open>if (f && x > f) return false\<close>.\<close>

definition flt :: "string option \<Rightarrow> string \<Rightarrow> bool" where
  "flt f x = (truthy f \<longrightarrow> f = Some x)"

definition flt_opt :: "string option \<Rightarrow> string option \<Rightarrow> bool" where
  "flt_opt f x = (truthy f \<longrightarrow> x = f)"

definition flt_enum :: "'a option \<Rightarrow> 'a \<Rightarrow> bool" where
  "flt_enum f x = (case f of None \<Rightarrow> True | Some y \<Rightarrow> x = y)"

definition notBefore :: "string option \<Rightarrow> string \<Rightarrow> bool" where
  "notBefore f x = (case f of None \<Rightarrow> True | Some y \<Rightarrow> y = '''' \<or> \<not> x < y)"

definition notAfter :: "string option \<Rightarrow> string \<Rightarrow> bool" where
  "notAfter f x = (case f of None \<Rightarrow> True | Some y \<Rightarrow> y = '''' \<or> \<not> y < x)"

definition paginate :: "ListParams \<Rightarrow> 'a list \<Rightarrow> 'a Paginated" where
  "paginate p rows = \<lparr> pg_items = slice (lp_offset p) (lp_limit p) rows, pg_total = length rows,
     pg_limit = lp_limit p, pg_offset = lp_offset p \<rparr>"

text \<open>Sorting by a timestamp with \<open>localeCompare\<close>, ascending and descending.\<close>

definition byLocale :: "env \<Rightarrow> ('a \<Rightarrow> string) \<Rightarrow> 'a list \<Rightarrow> 'a list" where
  "byLocale E f = sortBy (\<lambda>a b. localeLe E (f a) (f b))"

definition byLocaleDesc :: "env \<Rightarrow> ('a \<Rightarrow> string) \<Rightarrow> 'a list \<Rightarrow> 'a list" where
  "byLocaleDesc E f = sortBy (\<lambda>a b. localeLe E (f b) (f a))"

lemma set_byLocale [simp]: "set (byLocale E f xs) = set xs" "set (byLocaleDesc E f xs) = set xs"
  by (simp_all add: byLocale_def byLocaleDesc_def)

section \<open>Contracts\<close>

definition getContract :: "string \<Rightarrow> Contract option io" where
  "getContract i = gets (\<lambda>w. jm_get (contracts w) i)"

definition saveContract :: "Contract \<Rightarrow> unit io" where
  "saveContract c = modify (contracts_update (\<lambda>m. jm_set m (ct_id c) c))"

definition hasContract :: "string \<Rightarrow> bool io" where
  "hasContract i = gets (\<lambda>w. jm_has (contracts w) i)"

section \<open>Evidence\<close>

definition evidenceBlockedFromRetentionPurge :: "EvidenceFile \<Rightarrow> string \<Rightarrow> bool" where
  "evidenceBlockedFromRetentionPurge ev now =
    (if ev_retentionClass ev = LegalHold then
       (if \<not> truthy (ev_legalHoldUntil ev) then True else \<not> the (ev_legalHoldUntil ev) < now)
     else (case ev_legalHoldUntil ev of None \<Rightarrow> False | Some h \<Rightarrow> \<not> h < now))"

definition getEvidence :: "string \<Rightarrow> EvidenceFile option io" where
  "getEvidence i = gets (\<lambda>w. jm_get (evidences w) i)"

definition saveEvidence :: "EvidenceFile \<Rightarrow> unit io" where
  "saveEvidence e = modify (evidences_update (\<lambda>m. jm_set m (ev_id e) e))"

definition findEvidenceByCid :: "string \<Rightarrow> EvidenceFile option io" where
  "findEvidenceByCid cid = gets (\<lambda>w. find (\<lambda>it. ev_cid it = cid) (jm_values (evidences w)))"

definition countEvidenceVersions :: "string \<Rightarrow> string option \<Rightarrow> EvidenceCategory \<Rightarrow> nat io" where
  "countEvidenceVersions contractId disputeId category = gets (\<lambda>w.
     length (filter (\<lambda>it. ev_contractId it = contractId \<and> ev_disputeId it = disputeId \<and>
       ev_category it = category) (jm_values (evidences w))))"

definition hasEvidence :: "string \<Rightarrow> bool io" where
  "hasEvidence i = gets (\<lambda>w. jm_has (evidences w) i)"

definition pastRetention :: "string \<Rightarrow> EvidenceFile \<Rightarrow> bool" where
  "pastRetention now e =
    (if \<not> truthy (ev_retainUntil e) \<or> \<not> the (ev_retainUntil e) < now then False
     else if evidenceBlockedFromRetentionPurge e now then False
     else True)"

definition listEvidencesPastRetention :: "string \<Rightarrow> EvidenceFile list io" where
  "listEvidencesPastRetention now = gets (\<lambda>w. filter (pastRetention now) (jm_values (evidences w)))"

definition deleteEvidence :: "string \<Rightarrow> unit io" where
  "deleteEvidence i = modify (evidences_update (\<lambda>m. jm_delete m i))"

section \<open>Disputes, votes, registry, decisions\<close>

definition getDispute :: "string \<Rightarrow> DisputeCase option io" where
  "getDispute i = gets (\<lambda>w. jm_get (disputes w) i)"

definition saveDispute :: "DisputeCase \<Rightarrow> unit io" where
  "saveDispute d = modify (disputes_update (\<lambda>m. jm_set m (ds_id d) d))"

definition appendDisputeVerifierVote :: "DisputeVerifierVoteRecord \<Rightarrow> unit io" where
  "appendDisputeVerifierVote v = modify (verifierVotes_update (\<lambda>m.
     jm_set m (vv_disputeId v) (getOr [] (jm_get m (vv_disputeId v)) @ [v])))"

definition listDisputeVerifierVotes :: "string \<Rightarrow> DisputeVerifierVoteRecord list io" where
  "listDisputeVerifierVotes disputeId = gets (\<lambda>w. getOr [] (jm_get (verifierVotes w) disputeId))"

definition listDisputeVerifierRegistry :: "env \<Rightarrow> DisputeVerifierRegistryEntry list io" where
  "listDisputeVerifierRegistry E = gets (\<lambda>w. byLocale E vr_createdAt (jm_values (verifierRegistry w)))"

definition upsertDisputeVerifierRegistryEntry :: "DisputeVerifierRegistryEntry \<Rightarrow> unit io" where
  "upsertDisputeVerifierRegistryEntry e =
     modify (verifierRegistry_update (\<lambda>m. jm_set m (vr_verifierId e) e))"

definition saveDecision :: "CaseDecision \<Rightarrow> unit io" where
  "saveDecision d = modify (decisions_update (\<lambda>m. jm_set m (cd_id d) d))"

section \<open>Tracked transactions\<close>

definition getXrplTx :: "string \<Rightarrow> XrplTransaction option io" where
  "getXrplTx h = gets (\<lambda>w. jm_get (xrplTxs w) h)"

definition saveXrplTx :: "XrplTransaction \<Rightarrow> unit io" where
  "saveXrplTx t = modify (xrplTxs_update (\<lambda>m. jm_set m (tx_txHash t) t))"

definition listXrplTxs :: "XrplTransaction list io" where
  "listXrplTxs = gets (\<lambda>w. jm_values (xrplTxs w))"

text \<open>The loop of \<open>listXrplSubscribeAccounts\<close>; the break is tested after a push.\<close>

fun subscribeAccounts :: "nat \<Rightarrow> XrplTransaction list \<Rightarrow> string list \<Rightarrow> string list" where
  "subscribeAccounts mx [] out = out"
| "subscribeAccounts mx (t # ts) out =
    (if tx_validated t \<or> \<not> truthy (tx_account t) then subscribeAccounts mx ts out
     else if the (tx_account t) \<in> set out then subscribeAccounts mx ts out
     else (let out' = out @ [the (tx_account t)] in
       if mx \<le> length out' then out' else subscribeAccounts mx ts out'))"

definition listXrplSubscribeAccounts :: "nat \<Rightarrow> string list io" where
  "listXrplSubscribeAccounts mx = gets (\<lambda>w. subscribeAccounts mx (jm_values (xrplTxs w)) [])"

definition ingestionKey :: "int \<Rightarrow> string \<Rightarrow> string \<Rightarrow> string" where
  "ingestionKey ledgerIndex txHash eventSource =
     show_int ledgerIndex @ '':'' @ txHash @ '':'' @ eventSource"

definition tryRecordXrplIngestionEvent :: "int \<Rightarrow> string \<Rightarrow> string \<Rightarrow> bool io" where
  "tryRecordXrplIngestionEvent ledgerIndex txHash eventSource = do {
     let key = ingestionKey ledgerIndex txHash eventSource;
     seen \<leftarrow> gets ingestionDedup;
     if key \<in> set seen then ret False
     else do { modify (ingestionDedup_update (\<lambda>s. s @ [key])); ret True } }"

section \<open>Notifications and outbox\<close>

definition saveNotification :: "NotificationEvent \<Rightarrow> unit io" where
  "saveNotification n = modify (notifications_update (\<lambda>m. jm_set m (nt_id n) n))"

definition getNotification :: "string \<Rightarrow> NotificationEvent option io" where
  "getNotification i = gets (\<lambda>w. jm_get (notifications w) i)"

definition notificationDue :: "string \<Rightarrow> NotificationEvent \<Rightarrow> bool" where
  "notificationDue now n =
    (if nt_deadLetter n = Some True then False
     else if nt_status n = Queued then True
     else if nt_status n = NRetryScheduled then
       (case nt_nextAttemptAt n of None \<Rightarrow> True | Some t \<Rightarrow> t = '''' \<or> t \<le> now)
     else False)"

definition listDueNotifications :: "env \<Rightarrow> string \<Rightarrow> nat \<Rightarrow> NotificationEvent list io" where
  "listDueNotifications E now limit = gets (\<lambda>w.
     take limit (byLocale E nt_createdAt (filter (notificationDue now) (jm_values (notifications w)))))"

definition appendNotificationOutbox :: "NotificationOutboxRecord \<Rightarrow> bool io" where
  "appendNotificationOutbox row = do {
     idem \<leftarrow> gets outboxIdempotency;
     if jm_has idem (ox_idempotencyKey row) then ret False
     else do {
       modify (outboxById_update (\<lambda>m. jm_set m (ox_id row) row));
       modify (outboxIdempotency_update (\<lambda>m. jm_set m (ox_idempotencyKey row) (ox_id row)));
       ret True } }"

definition claimedRow :: "string \<Rightarrow> NotificationOutboxRecord \<Rightarrow> NotificationOutboxRecord" where
  "claimedRow now r = r\<lparr>ox_status := OProcessing, ox_processingStartedAt := Some now, ox_updatedAt := now\<rparr>"

definition claimOutboxRow :: "string \<Rightarrow> NotificationOutboxRecord \<Rightarrow> NotificationOutboxRecord io" where
  "claimOutboxRow now r = do {
     let u = claimedRow now r;
     modify (outboxById_update (\<lambda>m. jm_set m (ox_id r) u));
     ret u }"

definition claimNotificationOutboxPending :: "env \<Rightarrow> nat \<Rightarrow> string \<Rightarrow> NotificationOutboxRecord list io" where
  "claimNotificationOutboxPending E limit now = do {
     rows \<leftarrow> gets (\<lambda>w. jm_values (outboxById w));
     let pending = take limit (byLocale E ox_createdAt (filter (\<lambda>r. ox_status r = OPending) rows));
     for_collect pending (claimOutboxRow now) }"

definition updateNotificationOutbox :: "NotificationOutboxRecord \<Rightarrow> unit io" where
  "updateNotificationOutbox row = do {
     prev \<leftarrow> gets (\<lambda>w. jm_get (outboxById w) (ox_id row));
     (case prev of
        None \<Rightarrow> ret ()
      | Some p \<Rightarrow>
         if ox_idempotencyKey p \<noteq> ox_idempotencyKey row then
           modify (outboxIdempotency_update (\<lambda>m.
             jm_set (jm_delete m (ox_idempotencyKey p)) (ox_idempotencyKey row) (ox_id row)))
         else ret ());
     modify (outboxById_update (\<lambda>m. jm_set m (ox_id row) row)) }"

definition getNotificationOutbox :: "string \<Rightarrow> NotificationOutboxRecord option io" where
  "getNotificationOutbox i = gets (\<lambda>w. jm_get (outboxById w) i)"

definition listNotificationOutboxPage ::
  "env \<Rightarrow> NotificationOutboxStatus option \<Rightarrow> ListParams \<Rightarrow> NotificationOutboxRecord Paginated io" where
  "listNotificationOutboxPage E st p = gets (\<lambda>w.
     paginate p (byLocaleDesc E ox_createdAt
       (filter (\<lambda>r. flt_enum st (ox_status r)) (jm_values (outboxById w)))))"

definition staleProcessing :: "string \<Rightarrow> NotificationOutboxRecord \<Rightarrow> bool" where
  "staleProcessing staleBefore r =
    (ox_status r = OProcessing \<and> truthy (ox_processingStartedAt r) \<and>
     the (ox_processingStartedAt r) < staleBefore)"

text \<open>The loop overwrites existing keys only, so the map it iterates over keeps its order.\<close>

definition recoverOutboxRow :: "string \<Rightarrow> string \<Rightarrow> NotificationOutboxRecord \<Rightarrow> bool io" where
  "recoverOutboxRow staleBefore now r =
    (if \<not> staleProcessing staleBefore r then ret False
     else do {
       modify (outboxById_update (\<lambda>m. jm_set m (ox_id r)
         (r\<lparr>ox_status := OPending, ox_processingStartedAt := None, ox_updatedAt := now\<rparr>)));
       ret True })"

definition recoverStaleNotificationOutboxProcessing :: "string \<Rightarrow> string \<Rightarrow> nat io" where
  "recoverStaleNotificationOutboxProcessing staleBefore now = do {
     rows \<leftarrow> gets (\<lambda>w. jm_values (outboxById w));
     for_count rows (recoverOutboxRow staleBefore now) }"

section \<open>Events and delayed jobs\<close>

definition listEvents :: "string option \<Rightarrow> string option \<Rightarrow> string option \<Rightarrow> EventEnvelope list io" where
  "listEvents entityType entityId eventType = gets (\<lambda>w.
     filter (\<lambda>e. flt entityType (en_entityType e) \<and> flt entityId (en_entityId e) \<and>
       flt eventType (en_eventType e)) (events w))"

definition createDelayedJobIfAbsent :: "DelayedJob \<Rightarrow> bool io" where
  "createDelayedJobIfAbsent job = do {
     m \<leftarrow> gets delayedJobs;
     if jm_has m (dj_id job) then ret False
     else do { modify (delayedJobs_update (\<lambda>m. jm_set m (dj_id job) job)); ret True } }"

text \<open>\<open>Date.parse(x) <= nowMs\<close> is false when the date does not parse (\<open>NaN\<close>).\<close>

definition parsedLe :: "env \<Rightarrow> string \<Rightarrow> int \<Rightarrow> bool" where
  "parsedLe E s nowMs = (case dateParse E s of None \<Rightarrow> False | Some t \<Rightarrow> t \<le> nowMs)"

definition jobDue :: "env \<Rightarrow> string \<Rightarrow> int \<Rightarrow> DelayedJob \<Rightarrow> bool" where
  "jobDue E kind nowMs j = (dj_kind j = kind \<and> parsedLe E (dj_runAfter j) nowMs \<and>
     (\<not> truthy (dj_lockedUntil j) \<or> parsedLe E (the (dj_lockedUntil j)) nowMs))"

definition claimDueDelayedJobs :: "env \<Rightarrow> string \<Rightarrow> string \<Rightarrow> nat \<Rightarrow> int \<Rightarrow> DelayedJob list io" where
  "claimDueDelayedJobs E kind now limit lockTtlMs =
    (case dateParse E now of None \<Rightarrow> ret []
     | Some nowMs \<Rightarrow> do {
        let lockUntil = toISOString (nowMs + lockTtlMs);
        jobs \<leftarrow> gets (\<lambda>w. jm_values (delayedJobs w));
        let candidates = take limit (byLocale E dj_runAfter (filter (jobDue E kind nowMs) jobs));
        for_collect candidates (\<lambda>j. do {
          let updated = j\<lparr>dj_lockedUntil := Some lockUntil, dj_updatedAt := now\<rparr>;
          modify (delayedJobs_update (\<lambda>m. jm_set m (dj_id j) updated));
          ret updated }) })"

definition deleteDelayedJob :: "string \<Rightarrow> unit io" where
  "deleteDelayedJob i = modify (delayedJobs_update (\<lambda>m. jm_delete m i))"

definition bumpDelayedJob :: "string \<Rightarrow> string \<Rightarrow> nat \<Rightarrow> string option \<Rightarrow> string \<Rightarrow> unit io" where
  "bumpDelayedJob i runAfter attempts lastError updatedAt = do {
     j \<leftarrow> gets (\<lambda>w. jm_get (delayedJobs w) i);
     (case j of None \<Rightarrow> ret ()
      | Some j \<Rightarrow> modify (delayedJobs_update (\<lambda>m. jm_set m i
          (j\<lparr>dj_runAfter := runAfter, dj_attempts := attempts, dj_lastError := lastError,
             dj_updatedAt := updatedAt, dj_lockedUntil := None\<rparr>)))) }"

section \<open>List pages\<close>

definition contractMatches :: "ContractListFilter \<Rightarrow> Contract \<Rightarrow> bool" where
  "contractMatches f c = (flt_enum (cf_status f) (ct_status c) \<and> flt (cf_tenantId f) (ct_tenantId c) \<and>
     flt (cf_landlordId f) (ct_landlordId c) \<and> notBefore (cf_updatedFrom f) (ct_updatedAt c) \<and>
     notAfter (cf_updatedTo f) (ct_updatedAt c))"

definition listContractsPage :: "env \<Rightarrow> ContractListFilter \<Rightarrow> ListParams \<Rightarrow> Contract Paginated io" where
  "listContractsPage E f p = gets (\<lambda>w.
     paginate p (byLocaleDesc E ct_updatedAt (filter (contractMatches f) (jm_values (contracts w)))))"

definition disputeMatches :: "DisputeListFilter \<Rightarrow> DisputeCase \<Rightarrow> bool" where
  "disputeMatches f d = (flt (df_contractId f) (ds_contractId d) \<and> flt_enum (df_status f) (ds_status d) \<and>
     notBefore (df_updatedFrom f) (ds_updatedAt d) \<and> notAfter (df_updatedTo f) (ds_updatedAt d))"

definition listDisputesPage :: "env \<Rightarrow> DisputeListFilter \<Rightarrow> ListParams \<Rightarrow> DisputeCase Paginated io" where
  "listDisputesPage E f p = gets (\<lambda>w.
     paginate p (byLocaleDesc E ds_updatedAt (filter (disputeMatches f) (jm_values (disputes w)))))"

definition xrplTxMatches :: "XrplTxListFilter \<Rightarrow> XrplTransaction \<Rightarrow> bool" where
  "xrplTxMatches f t = (flt_opt (xf_account f) (tx_account t) \<and>
     flt (xf_trackingStatus f) (tracking_str (tx_trackingStatus t)) \<and>
     flt_enum (xf_validated f) (tx_validated t) \<and> flt_enum (xf_network f) (tx_network t))"

definition listXrplTxsPage :: "env \<Rightarrow> XrplTxListFilter \<Rightarrow> ListParams \<Rightarrow> XrplTransaction Paginated io" where
  "listXrplTxsPage E f p = gets (\<lambda>w.
     paginate p (byLocaleDesc E tx_lastCheckedAt (filter (xrplTxMatches f) (jm_values (xrplTxs w)))))"

section \<open>Statistics and reports\<close>

record OperatorStatsSummary =
  os_contractsByStatus :: "(string, nat) jsmap"
  os_disputesByStatus :: "(string, nat) jsmap"
  os_xrplByTracking :: "(string, nat) jsmap"
  os_notificationsByStatus :: "(string, nat) jsmap"
  os_evidencesTotal :: nat
  os_settlementsByStatus :: "(string, nat) jsmap"

definition countBy :: "('a \<Rightarrow> string) \<Rightarrow> 'a list \<Rightarrow> (string, nat) jsmap" where
  "countBy key xs = tally (map key xs) []"

lemma countBy_get:
  "getOr 0 (jm_get (countBy key xs) k) = length (filter (\<lambda>x. key x = k) xs)"
proof -
  have "count_list (map key xs) k = length (filter (\<lambda>x. key x = k) xs)"
    by (induction xs) auto
  then show ?thesis by (simp add: countBy_def tally_count)
qed

definition operatorStatsSummary :: "world \<Rightarrow> OperatorStatsSummary" where
  "operatorStatsSummary w =
    \<lparr> os_contractsByStatus = countBy (\<lambda>c. contractStatus_str (ct_status c)) (jm_values (contracts w)),
      os_disputesByStatus = countBy (\<lambda>d. disputeStatus_str (ds_status d)) (jm_values (disputes w)),
      os_xrplByTracking = countBy (\<lambda>t. tracking_str (tx_trackingStatus t)) (jm_values (xrplTxs w)),
      os_notificationsByStatus =
        countBy (\<lambda>n. notificationStatus_str (nt_status n)) (jm_values (notifications w)),
      os_evidencesTotal = length (evidences w),
      os_settlementsByStatus =
        countBy (\<lambda>s. settlementStatus_str (st_status s)) (jm_values (settlements w)) \<rparr>"

definition getOperatorStatsSummary :: "OperatorStatsSummary io" where
  "getOperatorStatsSummary = gets operatorStatsSummary"

record ReportSummaryParams =
  rp_from :: "string option"
  rp_to :: "string option"
  rp_tenantId :: "string option"
  rp_landlordId :: "string option"

record ReportScopedBucket =
  rs_contractsByStatus :: "(string, nat) jsmap"
  rs_disputesByStatus :: "(string, nat) jsmap"
  rs_settlementsByStatus :: "(string, nat) jsmap"
  rs_xrplByTracking :: "(string, nat) jsmap"
  rs_auditsCount :: nat

record ReportSummary =
  rr_generatedAt :: string
  rr_window :: ReportSummaryParams
  rr_global :: OperatorStatsSummary
  rr_scoped :: ReportScopedBucket

definition inWindow :: "ReportSummaryParams \<Rightarrow> string \<Rightarrow> bool" where
  "inWindow p ts = (notBefore (rp_from p) ts \<and> notAfter (rp_to p) ts)"

definition contractScope :: "ReportSummaryParams \<Rightarrow> Contract \<Rightarrow> bool" where
  "contractScope p c = (flt (rp_tenantId p) (ct_tenantId c) \<and> flt (rp_landlordId p) (ct_landlordId c))"

definition contractInScope :: "ReportSummaryParams \<Rightarrow> world \<Rightarrow> string \<Rightarrow> bool" where
  "contractInScope p w contractId =
    (case jm_get (contracts w) contractId of None \<Rightarrow> False | Some c \<Rightarrow> contractScope p c)"

definition xrplInScope :: "ReportSummaryParams \<Rightarrow> world \<Rightarrow> XrplTransaction \<Rightarrow> bool" where
  "xrplInScope p w x =
    (if \<not> (truthy (rp_tenantId p) \<or> truthy (rp_landlordId p)) then True
     else if \<not> truthy (tx_disputeId x) then False
     else case jm_get (disputes w) (the (tx_disputeId x)) of
       None \<Rightarrow> False | Some d \<Rightarrow> contractInScope p w (ds_contractId d))"

definition reportScoped :: "ReportSummaryParams \<Rightarrow> world \<Rightarrow> ReportScopedBucket" where
  "reportScoped p w =
    \<lparr> rs_contractsByStatus = countBy (\<lambda>c. contractStatus_str (ct_status c))
        (filter (\<lambda>c. contractScope p c \<and> inWindow p (ct_updatedAt c)) (jm_values (contracts w))),
      rs_disputesByStatus = countBy (\<lambda>d. disputeStatus_str (ds_status d))
        (filter (\<lambda>d. contractInScope p w (ds_contractId d) \<and> inWindow p (ds_updatedAt d))
          (jm_values (disputes w))),
      rs_settlementsByStatus = countBy (\<lambda>s. settlementStatus_str (st_status s))
        (filter (\<lambda>s. contractInScope p w (st_contractId s) \<and> inWindow p (st_updatedAt s))
          (jm_values (settlements w))),
      rs_xrplByTracking = countBy (\<lambda>t. tracking_str (tx_trackingStatus t))
        (filter (\<lambda>x. inWindow p (tx_lastCheckedAt x) \<and> xrplInScope p w x) (jm_values (xrplTxs w))),
      rs_auditsCount = length (filter (\<lambda>a. inWindow p (au_createdAt a)) (audits w)) \<rparr>"

definition getReportsSummary :: "env \<Rightarrow> ReportSummaryParams \<Rightarrow> ReportSummary io" where
  "getReportsSummary E p = do {
     global \<leftarrow> getOperatorStatsSummary;
     scoped \<leftarrow> gets (reportScoped p);
     t \<leftarrow> nowIso E;
     ret \<lparr> rr_generatedAt = t, rr_window = p, rr_global = global, rr_scoped = scoped \<rparr> }"

section \<open>Settlements\<close>

definition withSettlementDefaults :: "SettlementRecord \<Rightarrow> SettlementRecord" where
  "withSettlementDefaults s = s\<lparr>
     st_currencyCode := Some (getOr ''XRP'' (st_currencyCode s)),
     st_periodMode := Some (getOr ''calendar_utc'' (st_periodMode s)),
     st_ledgerCloseCount := Some (getOr 0 (st_ledgerCloseCount s)) \<rparr>"

definition isIdChar :: "char \<Rightarrow> bool" where
  "isIdChar c = ((CHR ''a'' \<le> c \<and> c \<le> CHR ''z'') \<or> (CHR ''A'' \<le> c \<and> c \<le> CHR ''Z'') \<or> isDigit c \<or>
     c = CHR ''_'')"

definition settlementDeterministicId :: "string \<Rightarrow> int \<Rightarrow> int \<Rightarrow> string" where
  "settlementDeterministicId contractId year month =
     ''stl_'' @ map (\<lambda>c. if isIdChar c then c else CHR ''_'') contractId @ ''_'' @ show_int year @
     ''_'' @ show_int month"

definition getSettlement :: "string \<Rightarrow> SettlementRecord option io" where
  "getSettlement i = gets (\<lambda>w. map_option withSettlementDefaults (jm_get (settlements w) i))"

definition saveSettlement :: "SettlementRecord \<Rightarrow> unit io" where
  "saveSettlement s = modify (settlements_update (\<lambda>m. jm_set m (st_id s) (withSettlementDefaults s)))"

definition settlementMatches :: "SettlementListFilter \<Rightarrow> SettlementRecord \<Rightarrow> bool" where
  "settlementMatches f s = (flt (sf_contractId f) (st_contractId s) \<and> flt_enum (sf_status f) (st_status s) \<and>
     flt_enum (sf_periodYear f) (st_periodYear s) \<and> flt_enum (sf_periodMonth f) (st_periodMonth s))"

definition settlementLe :: "env \<Rightarrow> SettlementRecord \<Rightarrow> SettlementRecord \<Rightarrow> bool" where
  "settlementLe E a b =
    (if st_periodYear b \<noteq> st_periodYear a then st_periodYear b < st_periodYear a
     else if st_periodMonth b \<noteq> st_periodMonth a then st_periodMonth b < st_periodMonth a
     else localeLe E (st_contractId a) (st_contractId b))"

definition listSettlementsPage :: "env \<Rightarrow> SettlementListFilter \<Rightarrow> ListParams \<Rightarrow> SettlementRecord Paginated io" where
  "listSettlementsPage E f p = gets (\<lambda>w.
     paginate p (sortBy (settlementLe E) (filter (settlementMatches f)
       (map withSettlementDefaults (jm_values (settlements w))))))"

definition touchedSettlement ::
  "int \<Rightarrow> int \<Rightarrow> int \<Rightarrow> string \<Rightarrow> string \<Rightarrow> string \<Rightarrow> SettlementRecord option \<Rightarrow> SettlementRecord" where
  "touchedSettlement periodYear periodMonth ledgerIndex now i contractId existing =
    (case existing of
       None \<Rightarrow> \<lparr> st_id = i, st_contractId = contractId, st_periodYear = periodYear,
         st_periodMonth = periodMonth, st_status = Collecting, st_lastLedgerIndex = Some ledgerIndex,
         st_ledgerCloseCount = Some 1, st_createdAt = now, st_updatedAt = now, st_amountMinor = None,
         st_currencyCode = Some ''XRP'', st_batchId = None, st_periodMode = Some ''calendar_utc'',
         st_confirmedAt = None \<rparr>
     | Some e \<Rightarrow> (let base = withSettlementDefaults e in
         base\<lparr>st_lastLedgerIndex := Some ledgerIndex,
           st_ledgerCloseCount := Some (getOr 0 (st_ledgerCloseCount base) + 1), st_updatedAt := now\<rparr>))"

definition touchOneContract :: "int \<Rightarrow> int \<Rightarrow> int \<Rightarrow> string \<Rightarrow> Contract \<Rightarrow> bool io" where
  "touchOneContract periodYear periodMonth ledgerIndex now c =
    (if ct_status c \<notin> {Active, EscrowValidated} then ret False
     else do {
       let i = settlementDeterministicId (ct_id c) periodYear periodMonth;
       existing \<leftarrow> gets (\<lambda>w. jm_get (settlements w) i);
       if map_option st_status existing = Some Archived then ret False
       else do {
         modify (settlements_update (\<lambda>m. jm_set m i
           (touchedSettlement periodYear periodMonth ledgerIndex now i (ct_id c) existing)));
         ret True } })"

definition touchSettlementsOnLedgerClose :: "int \<Rightarrow> int \<Rightarrow> int \<Rightarrow> string \<Rightarrow> nat io" where
  "touchSettlementsOnLedgerClose periodYear periodMonth ledgerIndex now = do {
     cs \<leftarrow> gets (\<lambda>w. jm_values (contracts w));
     for_count cs (touchOneContract periodYear periodMonth ledgerIndex now) }"

section \<open>Export jobs\<close>

definition createExportJob :: "ExportJobRecord \<Rightarrow> unit io" where
  "createExportJob job = modify (exportJobs_update (\<lambda>m. jm_set m (ej_id job) job))"

definition getExportJob :: "string \<Rightarrow> ExportJobRecord option io" where
  "getExportJob i = gets (\<lambda>w. jm_get (exportJobs w) i)"

definition claimExportJobsPending :: "env \<Rightarrow> nat \<Rightarrow> string \<Rightarrow> ExportJobRecord list io" where
  "claimExportJobsPending E limit now = do {
     jobs \<leftarrow> gets (\<lambda>w. jm_values (exportJobs w));
     let pending = byLocale E ej_createdAt (filter (\<lambda>j. ej_status j = JPending) jobs);
     for_collect (take limit pending) (\<lambda>j. do {
       let u = j\<lparr>ej_status := JRunning, ej_updatedAt := now\<rparr>;
       modify (exportJobs_update (\<lambda>m. jm_set m (ej_id j) u));
       ret u }) }"

definition updateExportJob :: "ExportJobRecord \<Rightarrow> unit io" where
  "updateExportJob job = modify (exportJobs_update (\<lambda>m. jm_set m (ej_id job) job))"

section \<open>Symbolic execution of the operations\<close>

lemmas repo_reads = getContract_def hasContract_def getEvidence_def findEvidenceByCid_def
  countEvidenceVersions_def hasEvidence_def listEvidencesPastRetention_def getDispute_def
  listDisputeVerifierVotes_def listDisputeVerifierRegistry_def getXrplTx_def listXrplTxs_def
  listXrplSubscribeAccounts_def getNotification_def listDueNotifications_def
  getNotificationOutbox_def listNotificationOutboxPage_def listEvents_def listContractsPage_def
  listDisputesPage_def listXrplTxsPage_def getOperatorStatsSummary_def getSettlement_def
  listSettlementsPage_def getExportJob_def

lemmas repo_writes = saveContract_def saveEvidence_def deleteEvidence_def saveDispute_def
  appendDisputeVerifierVote_def upsertDisputeVerifierRegistryEntry_def saveDecision_def
  saveXrplTx_def saveNotification_def deleteDelayedJob_def createExportJob_def updateExportJob_def
  saveSettlement_def

lemmas repo_run [run_simps] = repo_reads repo_writes

section \<open>Time passes\<close>

text \<open>No operation moves the tick counter back; identifiers generated so far stay generated.\<close>

definition ticks_le :: "world \<Rightarrow> world \<Rightarrow> bool" where
  "ticks_le w w' = (ticks w \<le> ticks w')"

interpretation tle: step_rel ticks_le
  by unfold_locales (auto simp: ticks_le_def)

lemma tleD: "steps ticks_le m \<Longrightarrow> ticks w \<le> ticks (exec m w)"
  by (simp add: steps_def ticks_le_def)

named_theorems tle_intros \<open>operations that do not move the tick counter back\<close>

lemmas tle_io [tle_intros] = tle.io

lemma tle_modify [tle_intros]: "(\<And>w. ticks w \<le> ticks (g w)) \<Longrightarrow> steps ticks_le (modify g)"
  by (simp add: steps_def ticks_le_def)

lemma tle_utils [tle_intros]:
  "steps ticks_le tick" "steps ticks_le (dateNow E)" "steps ticks_le (nowIso E)"
  "steps ticks_le (randomId E p)" "steps ticks_le (bump n k)"
  by (simp_all add: steps_def ticks_le_def run_simps bump_def)

lemma tle_logs [tle_intros]: "steps ticks_le (writeAudit E a)" "steps ticks_le (emitEvent E b c d e)"
  by (simp_all add: steps_def ticks_le_def run_simps writeAudit_def emitEvent_def appendAudit_def
      appendEvent_def Let_def)

lemma tle_reads [tle_intros]:
  "steps ticks_le (getContract i)" "steps ticks_le (hasContract i)" "steps ticks_le (getEvidence i)"
  "steps ticks_le (findEvidenceByCid i)" "steps ticks_le (countEvidenceVersions i j k)"
  "steps ticks_le (hasEvidence i)" "steps ticks_le (listEvidencesPastRetention i)"
  "steps ticks_le (getDispute i)" "steps ticks_le (listDisputeVerifierVotes i)"
  "steps ticks_le (listDisputeVerifierRegistry E)" "steps ticks_le (getXrplTx i)"
  "steps ticks_le listXrplTxs" "steps ticks_le (listXrplSubscribeAccounts n)"
  "steps ticks_le (getNotification i)" "steps ticks_le (listDueNotifications E i n)"
  "steps ticks_le (getNotificationOutbox i)" "steps ticks_le (listNotificationOutboxPage E x p)"
  "steps ticks_le (listEvents a b c)" "steps ticks_le (listContractsPage E cf p)"
  "steps ticks_le (listDisputesPage E df p)" "steps ticks_le (listXrplTxsPage E xf p)"
  "steps ticks_le getOperatorStatsSummary" "steps ticks_le (getSettlement i)"
  "steps ticks_le (listSettlementsPage E sf p)" "steps ticks_le (getExportJob i)"
  by (simp_all add: steps_def ticks_le_def repo_reads)

lemma tle_writes [tle_intros]:
  "steps ticks_le (saveContract c)" "steps ticks_le (saveEvidence e)"
  "steps ticks_le (deleteEvidence i)" "steps ticks_le (saveDispute d)"
  "steps ticks_le (appendDisputeVerifierVote v)"
  "steps ticks_le (upsertDisputeVerifierRegistryEntry r)" "steps ticks_le (saveDecision cd)"
  "steps ticks_le (saveXrplTx t)" "steps ticks_le (saveNotification n)"
  "steps ticks_le (deleteDelayedJob i)" "steps ticks_le (createExportJob j)"
  "steps ticks_le (updateExportJob j)" "steps ticks_le (saveSettlement s)"
  by (simp_all add: steps_def ticks_le_def repo_writes)

lemma tle_guarded [tle_intros]:
  "steps ticks_le (tryRecordXrplIngestionEvent li h s)" "steps ticks_le (appendNotificationOutbox row)"
  "steps ticks_le (claimNotificationOutboxPending E n now)" "steps ticks_le (updateNotificationOutbox row)"
  "steps ticks_le (recoverStaleNotificationOutboxProcessing sb now)"
  "steps ticks_le (createDelayedJobIfAbsent job)" "steps ticks_le (claimDueDelayedJobs E kd now n ttl)"
  "steps ticks_le (bumpDelayedJob i ra at le ua)" "steps ticks_le (claimExportJobsPending E n now)"
  "steps ticks_le (touchSettlementsOnLedgerClose y m l now)" "steps ticks_le (getReportsSummary E rp)"
  unfolding tryRecordXrplIngestionEvent_def appendNotificationOutbox_def
    claimNotificationOutboxPending_def claimOutboxRow_def updateNotificationOutbox_def
    recoverOutboxRow_def
    recoverStaleNotificationOutboxProcessing_def createDelayedJobIfAbsent_def
    claimDueDelayedJobs_def bumpDelayedJob_def claimExportJobsPending_def
    touchSettlementsOnLedgerClose_def touchOneContract_def getReportsSummary_def
  by (auto intro!: tle_intros)

text \<open>An identifier \<open>prefix_uuid\<close> generated before the current tick.\<close>

definition minted :: "env \<Rightarrow> string \<Rightarrow> world \<Rightarrow> string \<Rightarrow> bool" where
  "minted E prefix w i = (\<exists>n < ticks w. i = prefix @ ''_'' @ uuid16 E n)"

lemma minted_mono: "minted E p w i \<Longrightarrow> ticks w \<le> ticks w' \<Longrightarrow> minted E p w' i"
  by (auto simp: minted_def intro: order_less_le_trans)

lemma minted_fresh: "inj (uuid16 E) \<Longrightarrow> ticks w \<le> n \<Longrightarrow> \<not> minted E p w (p @ ''_'' @ uuid16 E n)"
  by (auto simp: minted_def dest: injD)

lemma minted_new: "n < ticks w \<Longrightarrow> minted E p w (p @ ''_'' @ uuid16 E n)"
  by (auto simp: minted_def)

text \<open>
  Life cycles of objects whose keys are generated identifiers: the keys in the map were generated at
  an earlier tick, so a newly generated identifier is not a key of the map.
\<close>

locale minted_life = lifecycle proj key "minted E prefix" S
  for proj :: "world \<Rightarrow> (string, 'v) jsmap" and key :: "'v \<Rightarrow> string" and S :: "'v \<Rightarrow> 'v \<Rightarrow> bool"
    and E :: env and prefix :: string
begin

lemma same: "proj w' = proj w \<Longrightarrow> ticks w \<le> ticks w' \<Longrightarrow> life w w'"
  by (rule life_same) (auto intro: minted_mono)

lemma put:
  assumes "proj w' = jm_set (proj w) k v" "key v = k" "ticks w \<le> ticks w'"
    and "jm_get (proj w) k = Some u" "S u v"
  shows "life w w'"
proof (rule life_put [OF assms(1) [folded assms(2)]])
  fix k assume "minted E prefix w k"
  then show "minted E prefix w' k" using assms(3) by (rule minted_mono)
next
  assume "coherent w"
  then have "minted E prefix w (key v)" unfolding assms(2) using assms(4) by (rule coherent_born)
  then show "minted E prefix w' (key v)" using assms(3) by (rule minted_mono)
next
  fix u' assume "jm_get (proj w) (key v) = Some u'"
  with assms(2,4,5) show "S u' v" by simp
qed

text \<open>The usual shape of a handler: read an object by its key, write its next version back.\<close>

lemma update:
  assumes "proj w' = jm_set (proj w) k v" "key v = k" "k = key u"
    and "jm_get (proj w) i = Some u" "S u v" "ticks w \<le> ticks w'"
  shows "life w w'"
proof (cases "coherent w")
  case True
  with assms(3,4) have "k = i" by (simp add: coherent_key)
  with assms show ?thesis by (intro put [of w' w k v u]) auto
next
  case False
  with assms(6) show ?thesis by (auto simp: life_def intro: minted_mono)
qed

lemma not_yet:
  assumes "coherent w" "inj (uuid16 E)" "ticks w \<le> n"
  shows "jm_get (proj w) (prefix @ ''_'' @ uuid16 E n) = None"
proof (cases "jm_get (proj w) (prefix @ ''_'' @ uuid16 E n)")
  case (Some u)
  with assms(1) have "minted E prefix w (prefix @ ''_'' @ uuid16 E n)" by (rule coherent_born)
  with minted_fresh [OF assms(2,3)] show ?thesis by blast
qed

lemma new:
  assumes "inj (uuid16 E)" "proj w' = jm_set (proj w) k v" "key v = k"
    and k: "k = prefix @ ''_'' @ uuid16 E n" and "ticks w \<le> n" "n < ticks w'"
  shows "life w w'"
proof (rule life_put [OF assms(2) [folded assms(3)]])
  fix k assume "minted E prefix w k"
  moreover have "ticks w \<le> ticks w'" using assms(5,6) by simp
  ultimately show "minted E prefix w' k" by (rule minted_mono)
next
  show "minted E prefix w' (key v)" unfolding assms(3) k using assms(6) by (rule minted_new)
next
  fix u assume "coherent w" "jm_get (proj w) (key v) = Some u"
  with not_yet [OF _ assms(1,5)] k assms(3) show "S u v" by simp
qed

lemma step_same: "keeps proj m \<Longrightarrow> steps ticks_le m \<Longrightarrow> steps life m"
  by (auto simp: steps_def same_def ticks_le_def intro: same)

end

end
