(* ===== verification/Codec.thy ===== *)
theory Codec
  imports Repository
begin

text \<open>
  \<open>JSON.stringify\<close> on the values of type \<open>json\<close>. A non-integral number is kept as its literal
  (\<open>JFrac\<close>); the services only ever print integers.
\<close>

section \<open>Printing\<close>

definition hexDigit :: "nat \<Rightarrow> char" where
  "hexDigit n = (if n < 10 then char_of (48 + n) else char_of (87 + n))"

definition jesc :: "char \<Rightarrow> string" where
  "jesc c = (let n = (of_char c :: nat) in
     if n = 34 then [CHR 0x5C, CHR 0x22]
     else if n = 92 then [CHR 0x5C, CHR 0x5C]
     else if n = 8 then [CHR 0x5C, CHR ''b'']
     else if n = 9 then [CHR 0x5C, CHR ''t'']
     else if n = 10 then [CHR 0x5C, CHR ''n'']
     else if n = 12 then [CHR 0x5C, CHR ''f'']
     else if n = 13 then [CHR 0x5C, CHR ''r'']
     else if n < 32 then [CHR 0x5C, CHR ''u'', CHR ''0'', CHR ''0'', hexDigit (n div 16), hexDigit (n mod 16)]
     else [c])"

definition jquote :: "string \<Rightarrow> string" where
  "jquote s = [CHR 0x22] @ concat (map jesc s) @ [CHR 0x22]"

fun joinWith :: "string \<Rightarrow> string list \<Rightarrow> string" where
  "joinWith sep [] = []"
| "joinWith sep [x] = x"
| "joinWith sep (x # y # xs) = x @ sep @ joinWith sep (y # xs)"

text \<open>Members whose value is \<open>undefined\<close> are left out of objects and print as \<open>null\<close> in arrays.\<close>

fun stringify :: "json \<Rightarrow> string" where
  "stringify JUndef = ''null''"
| "stringify JNull = ''null''"
| "stringify (JBool b) = (if b then ''true'' else ''false'')"
| "stringify (JNum i) = show_int i"
| "stringify (JFrac l) = l"
| "stringify (JStr s) = jquote s"
| "stringify (JArr xs) = ''['' @ joinWith '','' (map stringify xs) @ '']''"
| "stringify (JObj kvs) = ''{'' @ joinWith '','' (concat (map (\<lambda>(k, v).
     if v = JUndef then [] else [jquote k @ '':'' @ stringify v]) kvs)) @ ''}''"

text \<open>Object spread \<open>{ ...a, ...b }\<close> and property access.\<close>

definition jfield :: "payload \<Rightarrow> string \<Rightarrow> json" where
  "jfield o' k = getOr JUndef (jm_get o' k)"

fun spread :: "payload \<Rightarrow> payload \<Rightarrow> payload" where
  "spread a [] = a"
| "spread a ((k, v) # b) = spread (jm_set a k v) b"

lemma jfield_spread: "jm_ok b \<Longrightarrow> jfield (spread a b) k = (if jm_has b k then jfield b k else jfield a k)"
proof (induction b arbitrary: a)
  case Nil
  then show ?case by (simp add: jm_has_def)
next
  case (Cons kv b)
  obtain k' v where kv: "kv = (k', v)" by (cases kv)
  have "jm_ok b" "jm_get b k' = None"
    using Cons.prems kv by (auto simp: jm_ok_def jm_get_def map_of_eq_None_iff)
  then show ?case
    using Cons.IH [of "jm_set a k' v"] kv
    by (auto simp: jfield_def jm_has_def split: option.splits)
qed

section \<open>Parsing\<close>

text \<open>
  \<open>JSON.parse\<close>, by recursive descent; the fuel bounds the nesting depth and the input's length is
  enough. A \<open>\u\<close> escape above 7F is stored as the bytes of its UTF-8 form.
\<close>

definition hexVal :: "char \<Rightarrow> nat" where
  "hexVal c = (let n = (of_char c :: nat) in if n < 58 then n - 48 else if n < 71 then n - 55 else n - 87)"

definition utf8 :: "nat \<Rightarrow> string" where
  "utf8 n = (if n < 128 then [char_of n]
     else if n < 2048 then [char_of (192 + n div 64), char_of (128 + n mod 64)]
     else [char_of (224 + n div 4096), char_of (128 + n div 64 mod 64), char_of (128 + n mod 64)])"

definition unescape :: "char \<Rightarrow> char option" where
  "unescape c = (if c = CHR 0x22 \<or> c = CHR 0x5C \<or> c = CHR ''/'' then Some c
     else if c = CHR ''b'' then Some (CHR 0x08) else if c = CHR ''f'' then Some (CHR 0x0C)
     else if c = CHR ''n'' then Some (CHR 0x0A) else if c = CHR ''r'' then Some (CHR 0x0D)
     else if c = CHR ''t'' then Some (CHR 0x09) else None)"

definition prepend :: "string \<Rightarrow> (string \<times> string) option \<Rightarrow> (string \<times> string) option" where
  "prepend p r = map_option (\<lambda>(s, rest). (p @ s, rest)) r"

text \<open>The rest of a string literal, after its opening quote.\<close>

fun jchars :: "string \<Rightarrow> (string \<times> string) option" where
  "jchars [] = None"
| "jchars (c # cs) =
    (if c = CHR 0x22 then Some ([], cs)
     else if c = CHR 0x5C then
       (case cs of [] \<Rightarrow> None
        | e # ds \<Rightarrow>
           if e = CHR ''u'' then
             (case ds of h1 # h2 # h3 # h4 # rest \<Rightarrow>
                if list_all isHexDigit [h1, h2, h3, h4]
                then prepend (utf8 (((hexVal h1 * 16 + hexVal h2) * 16 + hexVal h3) * 16 + hexVal h4))
                  (jchars rest)
                else None
              | _ \<Rightarrow> None)
           else (case unescape e of None \<Rightarrow> None | Some x \<Rightarrow> prepend [x] (jchars ds)))
     else if (of_char c :: nat) < 32 then None
     else prepend [c] (jchars cs))"

definition jspace :: "string \<Rightarrow> string" where
  "jspace s = dropWhile (\<lambda>c. c \<in> set [CHR '' '', CHR 0x09, CHR 0x0A, CHR 0x0D]) s"

definition intLiteral :: "string \<Rightarrow> bool" where
  "intLiteral s = (allDigits s \<and> (hd s = CHR ''0'' \<longrightarrow> s = ''0''))"

definition unsign :: "string \<Rightarrow> string" where
  "unsign s = (case s of [] \<Rightarrow> [] | c # cs \<Rightarrow> if c = CHR ''-'' then cs else s)"

text \<open>Integer part, optional fraction, optional exponent.\<close>

definition numLiteral :: "string \<Rightarrow> bool" where
  "numLiteral lit =
    (let body = unsign lit; i = takeWhile isDigit body; r = dropWhile isDigit body in
     intLiteral i \<and>
     (let (f, r) = (case r of c # cs \<Rightarrow> if c = CHR ''.'' then (allDigits (takeWhile isDigit cs), dropWhile isDigit cs)
         else (True, r) | [] \<Rightarrow> (True, r)) in
      f \<and> (case r of [] \<Rightarrow> True
           | c # cs \<Rightarrow> c \<in> set [CHR ''e'', CHR ''E''] \<and>
              allDigits (case cs of d # ds \<Rightarrow> if d = CHR ''+'' \<or> d = CHR ''-'' then ds else cs | [] \<Rightarrow> []))))"

definition jnumber :: "string \<Rightarrow> (json \<times> string) option" where
  "jnumber s =
    (let p = (\<lambda>c. isDigit c \<or> c \<in> set [CHR ''+'', CHR ''-'', CHR ''.'', CHR ''e'', CHR ''E'']);
         lit = takeWhile p s; rest = dropWhile p s in
     if intLiteral (unsign lit) then
       Some (JNum (if unsign lit = lit then int (read_nat lit) else - int (read_nat (unsign lit))), rest)
     else if numLiteral lit then Some (JFrac lit, rest) else None)"

definition jliteral :: "string \<Rightarrow> json \<Rightarrow> string \<Rightarrow> (json \<times> string) option" where
  "jliteral word v s = (if startsWith s word then Some (v, drop (length word) s) else None)"

fun jvalue :: "nat \<Rightarrow> string \<Rightarrow> (json \<times> string) option"
  and jelems :: "nat \<Rightarrow> string \<Rightarrow> (json list \<times> string) option"
  and jmembers :: "nat \<Rightarrow> payload \<Rightarrow> string \<Rightarrow> (payload \<times> string) option" where
  "jvalue 0 s = None"
| "jvalue (Suc n) s =
    (case jspace s of [] \<Rightarrow> None
     | c # cs \<Rightarrow>
        if c = CHR ''{'' then
          (case jspace cs of
             CHR ''}'' # rest \<Rightarrow> Some (JObj [], rest)
           | _ \<Rightarrow> map_option (\<lambda>(kvs, r). (JObj kvs, r)) (jmembers n [] cs))
        else if c = CHR ''['' then
          (case jspace cs of
             CHR '']'' # rest \<Rightarrow> Some (JArr [], rest)
           | _ \<Rightarrow> map_option (\<lambda>(vs, r). (JArr vs, r)) (jelems n cs))
        else if c = CHR 0x22 then map_option (\<lambda>(t, r). (JStr t, r)) (jchars cs)
        else if c = CHR ''t'' then jliteral ''true'' (JBool True) (c # cs)
        else if c = CHR ''f'' then jliteral ''false'' (JBool False) (c # cs)
        else if c = CHR ''n'' then jliteral ''null'' JNull (c # cs)
        else jnumber (c # cs))"
| "jelems 0 s = None"
| "jelems (Suc n) s =
    (case jvalue n s of None \<Rightarrow> None
     | Some (v, r) \<Rightarrow>
        (case jspace r of
           CHR '','' # r' \<Rightarrow> map_option (\<lambda>(vs, r). (v # vs, r)) (jelems n r')
         | CHR '']'' # r' \<Rightarrow> Some ([v], r')
         | _ \<Rightarrow> None))"
| "jmembers 0 o' s = None"
| "jmembers (Suc n) o' s =
    (case jspace s of
       c # cs \<Rightarrow>
        if c = CHR 0x22 then
          (case jchars cs of None \<Rightarrow> None
           | Some (k, r) \<Rightarrow>
              (case jspace r of
                 CHR '':'' # r1 \<Rightarrow>
                  (case jvalue n r1 of None \<Rightarrow> None
                   | Some (v, r2) \<Rightarrow>
                      (case jspace r2 of
                         CHR '','' # r3 \<Rightarrow> jmembers n (jm_set o' k v) r3
                       | CHR ''}'' # r3 \<Rightarrow> Some (jm_set o' k v, r3)
                       | _ \<Rightarrow> None))
               | _ \<Rightarrow> None))
        else None
     | [] \<Rightarrow> None)"

definition jsonParse :: "string \<Rightarrow> json option" where
  "jsonParse s = (case jvalue (length s + 1) s of
     Some (v, rest) \<Rightarrow> if jspace rest = [] then Some v else None | None \<Rightarrow> None)"

section \<open>Base64url\<close>

definition b64char :: "nat \<Rightarrow> char" where
  "b64char n = (if n < 26 then char_of (65 + n) else if n < 52 then char_of (71 + n)
     else if n < 62 then char_of (n - 4) else if n = 62 then CHR ''-'' else CHR ''_'')"

definition b64val :: "char \<Rightarrow> nat option" where
  "b64val c = (let n = (of_char c :: nat) in
     if 65 \<le> n \<and> n \<le> 90 then Some (n - 65) else if 97 \<le> n \<and> n \<le> 122 then Some (n - 71)
     else if 48 \<le> n \<and> n \<le> 57 then Some (n + 4) else if n = 45 \<or> n = 43 then Some 62
     else if n = 95 \<or> n = 47 then Some 63 else None)"

fun b64groups :: "nat list \<Rightarrow> nat list" where
  "b64groups [] = []"
| "b64groups [a] = [a div 4, a mod 4 * 16]"
| "b64groups [a, b] = [a div 4, a mod 4 * 16 + b div 16, b mod 16 * 4]"
| "b64groups (a # b # c # r) =
     a div 4 # (a mod 4 * 16 + b div 16) # (b mod 16 * 4 + c div 64) # c mod 64 # b64groups r"

fun b64bytes :: "nat list \<Rightarrow> nat list" where
  "b64bytes (w # x # y # z # r) =
     (w * 4 + x div 16) # (x mod 16 * 16 + y div 4) # (y mod 4 * 64 + z) # b64bytes r"
| "b64bytes [w, x, y] = [w * 4 + x div 16, x mod 16 * 16 + y div 4]"
| "b64bytes [w, x] = [w * 4 + x div 16]"
| "b64bytes _ = []"

definition base64urlEncode :: "string \<Rightarrow> string" where
  "base64urlEncode s = map b64char (b64groups (map of_char s))"

text \<open>Node's decoder skips the characters that are not in the alphabet.\<close>

definition base64urlDecode :: "string \<Rightarrow> string" where
  "base64urlDecode s = map char_of (b64bytes (List.map_filter b64val s))"

section \<open>Round trips\<close>

lemma of_char_less: "(of_char c :: nat) < 256"
proof -
  have "(of_char c :: nat) \<in> {0..<256}" using range_nat_of_char by blast
  then show ?thesis by simp
qed

lemma b64_round:
  assumes "a < 256" "b < 256" "c < (256 :: nat)"
  shows "a div 4 * 4 + (a mod 4 * 16 + b div 16) div 16 = a"
    "(a mod 4 * 16 + b div 16) mod 16 * 16 + (b mod 16 * 4 + c div 64) div 4 = b"
    "(b mod 16 * 4 + c div 64) mod 4 * 64 + c mod 64 = c"
proof -
  have q: "b div 16 < 16" "c div 64 < 4" using assms by auto
  then have "(a mod 4 * 16 + b div 16) div 16 = a mod 4" "(a mod 4 * 16 + b div 16) mod 16 = b div 16"
    "(b mod 16 * 4 + c div 64) div 4 = b mod 16" "(b mod 16 * 4 + c div 64) mod 4 = c div 64"
    by simp_all
  then show "a div 4 * 4 + (a mod 4 * 16 + b div 16) div 16 = a"
    "(a mod 4 * 16 + b div 16) mod 16 * 16 + (b mod 16 * 4 + c div 64) div 4 = b"
    "(b mod 16 * 4 + c div 64) mod 4 * 64 + c mod 64 = c"
    by simp_all
qed

lemma b64bytes_groups: "\<forall>x \<in> set xs. x < 256 \<Longrightarrow> b64bytes (b64groups xs) = xs"
proof (induction xs rule: b64groups.induct)
  case (2 a)
  then show ?case using b64_round(1) [of a 0 0] by simp
next
  case (3 a b)
  then show ?case using b64_round(1) [of a b 0] b64_round(2) [of a b 0] by simp
next
  case (4 a b c r)
  then show ?case using b64_round [of a b c] by simp
qed simp

lemma b64groups_less: "\<forall>x \<in> set xs. x < 256 \<Longrightarrow> \<forall>x \<in> set (b64groups xs). x < 64"
  by (induction xs rule: b64groups.induct) auto

lemma b64val_char: "n < 64 \<Longrightarrow> b64val (b64char n) = Some n"
  by (auto simp: b64val_def b64char_def Let_def of_char_of take_bit_eq_mod)

lemma base64url_round_trip [simp]: "base64urlDecode (base64urlEncode s) = s"
proof -
  have b: "\<forall>x \<in> set (map of_char s). x < (256 :: nat)" by (auto intro: of_char_less)
  have "List.map_filter b64val (map b64char xs) = xs" if "\<forall>x \<in> set xs. x < 64" for xs
    using that by (induction xs) (auto simp: List.map_filter_simps b64val_char)
  with b64groups_less [OF b] b64bytes_groups [OF b] show ?thesis
    by (simp add: base64urlDecode_def base64urlEncode_def comp_def)
qed

lemma char_eqI: "(of_char c :: nat) = of_char d \<Longrightarrow> c = d"
  by (metis char_of_char)

lemma hexVal_hexDigit: "n < 16 \<Longrightarrow> hexVal (hexDigit n) = n"
  by (auto simp: hexVal_def hexDigit_def Let_def of_char_of take_bit_eq_mod)

lemma isHexDigit_hexDigit: "n < 16 \<Longrightarrow> isHexDigit (hexDigit n)"
  by (auto simp: isHexDigit_def isDigit_def hexDigit_def less_eq_char_def of_char_of take_bit_eq_mod)

lemma jchars_control:
  assumes "(of_char c :: nat) < 32"
  shows "jchars ([CHR 0x5C, CHR ''u'', CHR ''0'', CHR ''0'', hexDigit (of_char c div 16),
    hexDigit (of_char c mod 16)] @ r) = prepend [c] (jchars r)"
proof -
  have "of_char c div 16 < (16 :: nat)" "of_char c mod 16 < (16 :: nat)" using assms by auto
  then show ?thesis
    using assms
    by (simp add: hexVal_hexDigit isHexDigit_hexDigit utf8_def)
      (simp add: isHexDigit_def isDigit_def hexVal_def)
qed

lemma jchars_plain:
  assumes "\<not> (of_char c :: nat) < 32" "(of_char c :: nat) \<noteq> 34" "(of_char c :: nat) \<noteq> 92"
  shows "jchars (c # r) = prepend [c] (jchars r)"
proof -
  have "c \<noteq> CHR 0x22" "c \<noteq> CHR 0x5C" using assms by auto
  then show ?thesis using assms(1) by (subst jchars.simps) simp
qed

lemma jchars_esc: "jchars (jesc c @ r) = prepend [c] (jchars r)"
proof -
  let ?n = "of_char c :: nat"
  consider "?n = 34" | "?n = 92" | "?n = 8" | "?n = 9" | "?n = 10" | "?n = 12" | "?n = 13"
    | "?n < 32" "?n \<notin> {8, 9, 10, 12, 13}" | "\<not> ?n < 32" "?n \<noteq> 34" "?n \<noteq> 92" by auto
  then show ?thesis
  proof cases
    case 1 then have "c = CHR 0x22" by (intro char_eqI) simp
    then show ?thesis by (simp add: jesc_def unescape_def)
  next
    case 2 then have "c = CHR 0x5C" by (intro char_eqI) simp
    then show ?thesis by (simp add: jesc_def unescape_def)
  next
    case 3 then have "c = CHR 0x08" by (intro char_eqI) simp
    then show ?thesis by (simp add: jesc_def unescape_def)
  next
    case 4 then have "c = CHR 0x09" by (intro char_eqI) simp
    then show ?thesis by (simp add: jesc_def unescape_def)
  next
    case 5 then have "c = CHR 0x0A" by (intro char_eqI) simp
    then show ?thesis by (simp add: jesc_def unescape_def)
  next
    case 6 then have "c = CHR 0x0C" by (intro char_eqI) simp
    then show ?thesis by (simp add: jesc_def unescape_def)
  next
    case 7 then have "c = CHR 0x0D" by (intro char_eqI) simp
    then show ?thesis by (simp add: jesc_def unescape_def)
  next
    case 8 then show ?thesis using jchars_control [of c r] by (simp add: jesc_def Let_def)
  next
    case 9 then show ?thesis using jchars_plain [of c r] by (simp add: jesc_def Let_def)
  qed
qed

lemma jchars_quoted: "jchars (concat (map jesc s) @ CHR 0x22 # r) = Some (s, r)"
proof (induction s)
  case (Cons c s)
  then show ?case by (simp add: jchars_esc prepend_def)
qed simp

section \<open>Reading back what was printed\<close>

lemma digit_char_0: "n < 10 \<Longrightarrow> digit_char n = CHR ''0'' \<longleftrightarrow> n = 0"
proof -
  have z: "digit_char 0 = CHR ''0''" unfolding digit_char_def by (intro char_eqI) (simp add: of_char_of)
  show "digit_char n = CHR ''0'' \<longleftrightarrow> n = 0" if "n < 10"
    using digit_val_char [OF that] digit_val_char [of 0] z by (metis zero_less_numeral)
qed

lemma hd_show_nat: "hd (show_nat n) = CHR ''0'' \<longleftrightarrow> n = 0"
proof (induction n rule: show_nat.induct)
  case (1 n)
  from 1 digit_char_0 [of n] show ?case by (subst show_nat.simps) (auto simp: hd_append)
qed

lemma intLiteral_show_nat: "intLiteral (show_nat n)"
proof -
  have "show_nat 0 = ''0''" by (simp add: show_nat.simps digit_char_0)
  then show ?thesis using hd_show_nat [of n] by (auto simp: intLiteral_def)
qed

lemma digit_not: "isDigit c \<Longrightarrow> c \<notin> {CHR ''-'', CHR ''{'', CHR ''['', CHR 0x22, CHR ''t'', CHR ''f'', CHR ''n'',
    CHR '' '', CHR 0x09, CHR 0x0A, CHR 0x0D, CHR '']'', CHR ''}''}"
  by (auto simp: isDigit_def less_eq_char_def)

lemma show_nat_Cons: "\<exists>c cs. show_nat n = c # cs \<and> isDigit c"
  using show_nat_digits [of n] by (cases "show_nat n") auto

text \<open>What follows a value: the end, a comma or a closing bracket.\<close>

definition stops :: "string \<Rightarrow> bool" where
  "stops r = (case r of [] \<Rightarrow> True | c # _ \<Rightarrow> c \<in> {CHR '','', CHR ''}'', CHR '']''})"

lemma stops_simps [simp]: "stops []" "stops (c # r) = (c \<in> {CHR '','', CHR ''}'', CHR '']''})"
  by (simp_all add: stops_def)

lemma jnumber_show:
  assumes "stops r"
  shows "jnumber (show_int i @ r) = Some (JNum i, r)"
proof -
  let ?p = "\<lambda>c. isDigit c \<or> c \<in> set [CHR ''+'', CHR ''-'', CHR ''.'', CHR ''e'', CHR ''E'']"
  have np: "r = [] \<or> \<not> ?p (hd r)" using assms by (cases r) (auto simp: isDigit_def)
  have d: "\<forall>x \<in> set (show_int i). ?p x"
    using show_nat_digits by (auto simp: show_int_def list_all_iff)
  have t: "takeWhile ?p (show_int i @ r) = show_int i" "dropWhile ?p (show_int i @ r) = r"
    using d np by (cases r; simp add: takeWhile_append dropWhile_append)+
  show ?thesis
  proof (cases "i < 0")
    case True
    then have "show_int i = CHR ''-'' # show_nat (nat (- i))" by (simp add: show_int_def)
    moreover from this have "unsign (show_int i) = show_nat (nat (- i))" by (simp add: unsign_def)
    moreover have "show_nat (nat (- i)) \<noteq> CHR ''-'' # show_nat (nat (- i))" by (metis not_Cons_self)
    ultimately show ?thesis using t True unfolding jnumber_def Let_def by (simp add: intLiteral_show_nat)
  next
    case False
    then have s: "show_int i = show_nat (nat i)" by (simp add: show_int_def)
    obtain x xs where x: "show_nat (nat i) = x # xs" "isDigit x" using show_nat_Cons by blast
    have "unsign (show_int i) = show_nat (nat i)"
      using digit_not [OF x(2)] x(1) s by (simp add: unsign_def)
    with s t False show ?thesis unfolding jnumber_def Let_def by (simp add: intLiteral_show_nat)
  qed
qed

text \<open>The values that survive printing: no \<open>undefined\<close>, integral numbers, no repeated keys.\<close>

fun printable :: "json \<Rightarrow> bool" where
  "printable JUndef = False"
| "printable (JFrac l) = False"
| "printable (JArr xs) = list_all printable xs"
| "printable (JObj kvs) = (distinct (map fst kvs) \<and> list_all (\<lambda>(k, v). printable v) kvs)"
| "printable v = True"

lemma jspace_id: "c \<notin> {CHR '' '', CHR 0x09, CHR 0x0A, CHR 0x0D} \<Longrightarrow> jspace (c # cs) = c # cs"
  by (auto simp: jspace_def)

lemma jspace_stops: "stops r \<Longrightarrow> jspace r = r"
  by (cases r) (auto simp: jspace_id, simp add: jspace_def)

lemma jvalue_other:
  assumes "x \<notin> {CHR ''{'', CHR ''['', CHR 0x22, CHR ''t'', CHR ''f'', CHR ''n'', CHR '' '', CHR 0x09, CHR 0x0A, CHR 0x0D}"
  shows "jvalue (Suc n) (x # xs) = jnumber (x # xs)"
proof -
  have "jspace (x # xs) = x # xs" using assms by (intro jspace_id) simp
  moreover have "x \<noteq> CHR ''{''" "x \<noteq> CHR ''[''" "x \<noteq> CHR 0x22" "x \<noteq> CHR ''t''" "x \<noteq> CHR ''f''" "x \<noteq> CHR ''n''"
    using assms by simp_all
  ultimately show ?thesis unfolding jvalue.simps by (simp only: list.case if_False)
qed

text \<open>The characters a number starts with.\<close>

definition jstart :: "char \<Rightarrow> bool" where
  "jstart c = (isDigit c \<or> c = CHR ''-'')"

lemma jstart_not: "jstart c \<Longrightarrow> c \<notin> {CHR ''{'', CHR ''['', CHR 0x22, CHR ''t'', CHR ''f'', CHR ''n'',
    CHR '' '', CHR 0x09, CHR 0x0A, CHR 0x0D, CHR '']'', CHR ''}''}"
  by (cases "isDigit c") (use digit_not [of c] in \<open>simp_all add: jstart_def\<close>)

lemma show_int_Cons: "\<exists>x xs. show_int i = x # xs \<and> jstart x"
  using show_nat_Cons [of "nat i"] by (cases "i < 0") (auto simp: show_int_def jstart_def)

lemma jvalue_show_int:
  assumes "stops r"
  shows "jvalue (Suc n) (show_int i @ r) = Some (JNum i, r)"
proof -
  obtain x xs where x: "show_int i = x # xs" "jstart x" using show_int_Cons by blast
  have "jvalue (Suc n) (x # xs @ r) = jnumber (x # xs @ r)"
    by (rule jvalue_other) (use jstart_not [OF x(2)] in simp)
  with jnumber_show [OF assms, of i] show ?thesis unfolding x(1) by (simp only: append_Cons)
qed

lemma stringify_Cons:
  assumes "printable v"
  shows "\<exists>c cs. stringify v = c # cs \<and> c \<notin> {CHR '' '', CHR 0x09, CHR 0x0A, CHR 0x0D, CHR '']''}"
proof (cases v)
  case (JNum i)
  obtain x xs where "show_int i = x # xs" "jstart x" using show_int_Cons by blast
  with jstart_not [of x] show ?thesis unfolding JNum by simp
qed (use assms in \<open>auto simp: jquote_def\<close>)

lemma jelems_join:
  assumes "\<And>v n r. v \<in> set vs \<Longrightarrow> stops r \<Longrightarrow> length (stringify v) \<le> n \<Longrightarrow> jvalue (Suc n) (stringify v @ r) = Some (v, r)"
    and "vs \<noteq> []" "length (joinWith '','' (map stringify vs)) + 2 \<le> n" "list_all printable vs"
  shows "jelems n (joinWith '','' (map stringify vs) @ '']'' @ r) = Some (vs, r)"
  using assms
proof (induction vs arbitrary: n rule: induct_list012)
  case (2 v)
  then obtain m where "n = Suc (Suc m)" "length (stringify v) \<le> m" by (cases n; cases "n - 1") auto
  with 2(1) [of v "'']'' @ r" m] show ?case by (simp add: jspace_id)
next
  case (3 v u vs)
  from 3(3) obtain c cs where "stringify v = c # cs" using stringify_Cons [of v] "3.prems"(4) by auto
  then obtain m where m: "n = Suc (Suc m)" "length (stringify v) \<le> m"
      "length (joinWith '','' (map stringify (u # vs))) + 2 \<le> Suc m"
    using 3(5) by (cases n; cases "n - 1") auto
  have "jelems (Suc m) (joinWith '','' (map stringify (u # vs)) @ '']'' @ r) = Some (u # vs, r)"
    using "3.IH"(2) [of "Suc m"] "3.prems"(1,4) m(3) by simp
  with m 3(3) [of v "'','' @ joinWith '','' (map stringify (u # vs)) @ '']'' @ r" m] show ?case by (simp add: jspace_id)
qed simp

lemma jm_set_new: "jm_get m k = None \<Longrightarrow> jm_set m k v = m @ [(k, v)]"
  by (induction m k v rule: jm_set.induct) (auto split: if_splits)

abbreviation memberText :: "string \<times> json \<Rightarrow> string" where
  "memberText kv \<equiv> jquote (fst kv) @ '':'' @ stringify (snd kv)"

lemma jmembers_join:
  assumes "\<And>kv n r. kv \<in> set kvs \<Longrightarrow> stops r \<Longrightarrow> length (stringify (snd kv)) \<le> n \<Longrightarrow>
      jvalue (Suc n) (stringify (snd kv) @ r) = Some (snd kv, r)"
    and "kvs \<noteq> []" "length (joinWith '','' (map memberText kvs)) + 2 \<le> n" "distinct (map fst kvs)"
    and "\<And>kv. kv \<in> set kvs \<Longrightarrow> jm_get o' (fst kv) = None"
  shows "jmembers n o' (joinWith '','' (map memberText kvs) @ ''}'' @ r) = Some (o' @ kvs, r)"
  using assms
proof (induction kvs arbitrary: n o' rule: induct_list012)
  case (2 kv)
  then obtain m where "n = Suc (Suc m)" "length (stringify (snd kv)) \<le> m" by (cases n; cases "n - 1") (auto simp: jquote_def)
  with 2(1) [of kv "''}'' @ r" m] 2(5) [of kv] show ?case
    by (simp add: jspace_id jquote_def jchars_quoted jm_set_new)
next
  case (3 kv u kvs)
  then obtain m where m: "n = Suc (Suc m)" "length (stringify (snd kv)) \<le> m"
      "length (joinWith '','' (map memberText (u # kvs))) + 2 \<le> Suc m"
    by (cases n; cases "n - 1") (auto simp: jquote_def)
  have "jmembers (Suc m) (jm_set o' (fst kv) (snd kv)) (joinWith '','' (map memberText (u # kvs)) @ ''}'' @ r) =
      Some (jm_set o' (fst kv) (snd kv) @ u # kvs, r)"
  proof (rule "3.IH"(2))
    show "jm_get (jm_set o' (fst kv) (snd kv)) (fst kv') = None" if "kv' \<in> set (u # kvs)" for kv'
      using that "3.prems"(4) "3.prems"(5) [of kv'] by (auto simp: image_iff)
  qed (use "3.prems"(1,4) m(3) in simp_all)
  with m "3.prems"(1) [of kv "'','' @ joinWith '','' (map memberText (u # kvs)) @ ''}'' @ r" m] "3.prems"(5) [of kv]
  show ?case by (simp add: jspace_id jquote_def jchars_quoted jm_set_new)
qed simp

lemma jvalue_array:
  assumes "c \<notin> {CHR '' '', CHR 0x09, CHR 0x0A, CHR 0x0D, CHR '']''}"
  shows "jvalue (Suc n) (CHR ''['' # c # cs) = map_option (\<lambda>(vs, r). (JArr vs, r)) (jelems n (c # cs))"
proof -
  have "jspace (c # cs) = c # cs" using assms by (intro jspace_id) simp
  then show ?thesis using assms by (cases c) (auto simp: jspace_id split: bool.splits)
qed

lemma stringify_members: "list_all (\<lambda>(k, v). printable v) kvs \<Longrightarrow>
  concat (map (\<lambda>(k, v). if v = JUndef then [] else [jquote k @ '':'' @ stringify v]) kvs) = map memberText kvs"
  by (induction kvs) auto

lemma jvalue_stringify:
  "printable v \<Longrightarrow> stops r \<Longrightarrow> length (stringify v) \<le> n \<Longrightarrow> jvalue (Suc n) (stringify v @ r) = Some (v, r)"
proof (induction v arbitrary: n r)
  case (JNum i)
  then show ?case by (simp add: jvalue_show_int del: jvalue.simps)
next
  case (JStr s)
  then show ?case by (simp add: jquote_def jspace_id jchars_quoted)
next
  case (JArr xs)
  show ?case
  proof (cases "xs = []")
    case False
    then obtain x ys where x: "xs = x # ys" by (cases xs) auto
    obtain c cs where c: "stringify x = c # cs" "c \<notin> {CHR '' '', CHR 0x09, CHR 0x0A, CHR 0x0D, CHR '']''}"
      using JArr.prems(1) stringify_Cons [of x] x by auto
    let ?j = "joinWith '','' (map stringify xs)"
    have "hd ?j = c" "?j \<noteq> []" using x c by (cases ys; simp)+
    then obtain js where j: "?j = c # js" by (cases ?j) auto
    have "jelems n (?j @ '']'' @ r) = Some (xs, r)"
      by (rule jelems_join) (use JArr False in \<open>auto simp: list_all_iff\<close>)
    then show ?thesis using c(2) j jvalue_array [of c n "js @ '']'' @ r"] by (simp del: jvalue.simps)
  qed (simp add: jspace_id)
next
  case (JObj kvs)
  have p: "list_all (\<lambda>(k, v). printable v) kvs" using JObj.prems by simp
  show ?case
  proof (cases "kvs = []")
    case False
    let ?j = "joinWith '','' (map memberText kvs)"
    have "hd ?j = CHR 0x22" "?j \<noteq> []" using False by (cases kvs; cases "tl kvs"; simp add: jquote_def)+
    then obtain js where j: "?j = CHR 0x22 # js" by (cases ?j) auto
    have "jmembers n [] (?j @ ''}'' @ r) = Some ([] @ kvs, r)"
    proof (rule jmembers_join)
      show "length ?j + 2 \<le> n" using JObj.prems(3) stringify_members [OF p] by simp
      fix kv m r' assume "kv \<in> set kvs" "stops r'" "length (stringify (snd kv)) \<le> m"
      then show "jvalue (Suc m) (stringify (snd kv) @ r') = Some (snd kv, r')"
        using JObj.IH [of kv "snd kv" r' m] p by (cases kv) (auto simp: list_all_iff)
    qed (use JObj.prems False in auto)
    then show ?thesis using j by (simp add: jspace_id stringify_members [OF p])
  qed (simp add: jspace_id)
qed (simp_all add: jspace_id jliteral_def startsWith_def)

text \<open>\<open>JSON.parse\<close> inverts \<open>JSON.stringify\<close>.\<close>

lemma parse_stringify: "printable v \<Longrightarrow> jsonParse (stringify v) = Some v"
  using jvalue_stringify [of v "[]" "length (stringify v)"] by (simp add: jsonParse_def jspace_def)

end
