(* ===== verification/Notifications.thy ===== *)
theory Notifications
  imports Codec
begin

text \<open>
  The notification pipeline: channel routing (\<open>notification-routing.ts\<close>), subject and body templates,
  idempotency keys, fan-out into the \<open>notifications\<close> table or the durable outbox
  (\<open>notification-fanout-enqueue.ts\<close>, \<open>domain-notifications.ts\<close>, \<open>settlement-notifications.ts\<close>), the
  outbox dispatcher (\<open>notification-outbox.worker.ts\<close>), the delivery worker
  (\<open>notification.worker.ts\<close>) with its provider, and the notification routes of \<open>index.ts\<close>.
\<close>

section \<open>Routing and templates\<close>

definition isRefund :: "string \<Rightarrow> bool" where
  "isRefund et = (startsWith et ''refund.'' \<or> strIncludes et ''.refund'' \<or> strIncludes et ''refund_'')"

definition routedChannelsForEventType :: "string \<Rightarrow> NotificationChannel list" where
  "routedChannelsForEventType eventType =
    (let et = toLowerCase eventType in
     if startsWith et ''notification.'' then [Inapp]
     else if isRefund et then [Inapp, Email, Push]
     else if startsWith et ''settlement.'' then [Inapp, Email]
     else if startsWith et ''contract.'' then [Inapp, Email]
     else if startsWith et ''dispute.'' then [Inapp, Push]
     else if strIncludes et ''expir'' \<or> endsWith et ''.expired'' \<or> strIncludes et ''expiry''
       then [Inapp, Email, Push]
     else if startsWith et ''xrpl.'' then [Inapp]
     else [Inapp])"

text \<open>The Korean prefixes, as the bytes of their UTF-8 form.\<close>

definition bracketed :: "nat list \<Rightarrow> string" where
  "bracketed bs = ''['' @ map char_of bs @ '']''"

definition subjectPrefix :: "string \<Rightarrow> string" where
  "subjectPrefix et =
    (if isRefund et then bracketed [0xED, 0x99, 0x98, 0xEA, 0xB8, 0x89]
     else if startsWith et ''settlement.'' then bracketed [0xEC, 0xA0, 0x95, 0xEC, 0x82, 0xB0]
     else if startsWith et ''dispute.'' then bracketed [0xEB, 0xB6, 0x84, 0xEC, 0x9F, 0x81]
     else if strIncludes et ''expir'' \<or> endsWith et ''.expired''
       then bracketed [0xEB, 0xA7, 0x8C, 0xEB, 0xA3, 0x8C]
     else if startsWith et ''xrpl.'' then ''[XRPL]''
     else bracketed [0xEC, 0x95, 0x8C, 0xEB, 0xA6, 0xBC])"

definition notificationSubjectForEventType :: "string \<Rightarrow> string" where
  "notificationSubjectForEventType eventType =
    (let et = trim eventType in subjectPrefix (toLowerCase et) @ '' '' @ et)"

definition renderNotificationBody :: "string \<Rightarrow> payload \<Rightarrow> string" where
  "renderNotificationBody eventType pl =
    (let parts = map (\<lambda>(k, v). k @ ''='' @ (case v of JStr s \<Rightarrow> s | JUndef \<Rightarrow> ''undefined'' | _ \<Rightarrow> stringify v))
           (take 12 (filter (\<lambda>(k, v). \<not> startsWith k ''_'') pl));
         txt = joinWith ''; '' parts in
     notificationSubjectForEventType eventType @ [CHR 0x0A] @
     (if txt = '''' then ''(empty payload)'' else txt))"

section \<open>Idempotency keys\<close>

definition stablePayloadFingerprint :: "payload \<Rightarrow> string" where
  "stablePayloadFingerprint pl = stringify (JObj (sortBy (\<lambda>a b. fst a \<le> fst b) pl))"

definition domainNotificationIdempotencyKey ::
  "env \<Rightarrow> string \<Rightarrow> string \<Rightarrow> NotificationChannel \<Rightarrow> payload \<Rightarrow> string" where
  "domainNotificationIdempotencyKey E eventType recipientId channel pl =
     sha256Hex E (eventType @ [CHR 0x0A] @ recipientId @ [CHR 0x0A] @ channel_str channel @ [CHR 0x0A] @
       stablePayloadFingerprint pl)"

section \<open>Fan-out\<close>

record FanoutNotificationItem =
  fi_eventType :: string
  fi_recipientId :: string
  fi_channel :: NotificationChannel
  fi_payload :: payload
  fi_requestedEmitExtra :: payload

definition queuedNotification ::
  "string \<Rightarrow> string \<Rightarrow> string \<Rightarrow> NotificationChannel \<Rightarrow> payload \<Rightarrow> string \<Rightarrow> NotificationEvent" where
  "queuedNotification i eventType recipientId channel pl now =
    \<lparr> nt_id = i, nt_eventType = eventType, nt_recipientId = recipientId, nt_channel = channel,
      nt_status = Queued, nt_payload = pl, nt_createdAt = now, nt_updatedAt = Some now,
      nt_attemptCount = Some 0, nt_nextAttemptAt = None, nt_lastError = None, nt_deadLetter = Some False \<rparr>"

definition enqueueOutboxItem :: "env \<Rightarrow> string \<Rightarrow> FanoutNotificationItem \<Rightarrow> unit io" where
  "enqueueOutboxItem E now it = do {
     let idempotencyKey = domainNotificationIdempotencyKey E (fi_eventType it) (fi_recipientId it)
       (fi_channel it) (fi_payload it);
     i \<leftarrow> randomId E ''nox'';
     inserted \<leftarrow> appendNotificationOutbox
       \<lparr> ox_id = i, ox_idempotencyKey = idempotencyKey, ox_eventType = fi_eventType it,
         ox_recipientId = fi_recipientId it, ox_channel = fi_channel it, ox_payload = fi_payload it,
         ox_status = OPending, ox_attempts = 0, ox_lastError = None, ox_createdAt = now,
         ox_updatedAt = now, ox_processingStartedAt = None, ox_dispatchedNotificationId = None \<rparr>;
     if inserted then do {
       emitEvent E ''notification.outbox_enqueued'' ''notification_outbox'' i
         (spread [(''channel'', JStr (channel_str (fi_channel it))), (''eventType'', JStr (fi_eventType it)),
           (''idempotencyKey'', JStr idempotencyKey)] (fi_requestedEmitExtra it));
       ret () }
     else ret () }"

definition enqueueDirectItem :: "env \<Rightarrow> string \<Rightarrow> FanoutNotificationItem \<Rightarrow> unit io" where
  "enqueueDirectItem E now it = do {
     i \<leftarrow> randomId E ''ntf'';
     saveNotification (queuedNotification i (fi_eventType it) (fi_recipientId it) (fi_channel it)
       (fi_payload it) now);
     emitEvent E ''notification.requested'' ''notification'' i
       (spread [(''channel'', JStr (channel_str (fi_channel it))), (''eventType'', JStr (fi_eventType it))]
         (fi_requestedEmitExtra it));
     ret () }"

definition enqueueFanoutNotificationItems :: "env \<Rightarrow> FanoutNotificationItem list \<Rightarrow> unit io" where
  "enqueueFanoutNotificationItems E items = do {
     now \<leftarrow> nowIso E;
     if domainOutbox E then for_each items (enqueueOutboxItem E now)
     else for_each items (enqueueDirectItem E now) }"

definition expandRecipientChannels ::
  "string \<Rightarrow> string list \<Rightarrow> payload \<Rightarrow> payload \<Rightarrow> FanoutNotificationItem list" where
  "expandRecipientChannels eventType recipientIds pl extra =
     concat (map (\<lambda>r. map (\<lambda>ch. \<lparr> fi_eventType = eventType, fi_recipientId = r, fi_channel = ch,
       fi_payload = pl, fi_requestedEmitExtra = extra \<rparr>) (routedChannelsForEventType eventType)) recipientIds)"

definition contractPartyRecipientIds :: "Contract \<Rightarrow> string list" where
  "contractPartyRecipientIds c = [ct_tenantId c, ct_landlordId c]"

definition maybeEnqueueDomainNotifications :: "env \<Rightarrow> string \<Rightarrow> string list \<Rightarrow> payload \<Rightarrow> unit io" where
  "maybeEnqueueDomainNotifications E eventType recipientIds pl =
    (if \<not> autoDomainEnqueue E then ret ()
     else enqueueFanoutNotificationItems E
       (expandRecipientChannels eventType recipientIds pl [(''domainAuto'', JBool True)]))"

definition enqueueSettlementConfirmedNotifications :: "env \<Rightarrow> SettlementRecord \<Rightarrow> Contract \<Rightarrow> unit io" where
  "enqueueSettlementConfirmedNotifications E s c =
     enqueueFanoutNotificationItems E
       (concat (map (\<lambda>r. map (\<lambda>ch. \<lparr> fi_eventType = ''settlement.confirmed'', fi_recipientId = r,
          fi_channel = ch,
          fi_payload = [(''settlementId'', JStr (st_id s)), (''contractId'', JStr (ct_id c)),
            (''periodYear'', JNum (st_periodYear s)), (''periodMonth'', JNum (st_periodMonth s))],
          fi_requestedEmitExtra = [(''settlementAuto'', JBool True)] \<rparr>)
         (routedChannelsForEventType ''settlement.confirmed'')) [ct_tenantId c, ct_landlordId c]))"

section \<open>Outbox dispatcher\<close>

text \<open>
  The in-memory repository does not throw, so the \<open>try\<close> block of the dispatcher completes; its
  \<open>catch\<close> block is \<open>dispatchFailed\<close>, which the environment triggers with \<open>saveFails\<close>.
\<close>

definition dispatchFailed :: "env \<Rightarrow> NotificationOutboxRecord \<Rightarrow> string \<Rightarrow> string \<Rightarrow> unit io" where
  "dispatchFailed E row t msg = do {
     let nextAttempts = ox_attempts row + 1;
     if outboxDispatchMaxAttempts E \<le> nextAttempts then do {
       updateNotificationOutbox (row\<lparr>ox_status := ODead, ox_attempts := nextAttempts,
         ox_lastError := Some msg, ox_updatedAt := t, ox_processingStartedAt := None\<rparr>);
       emitEvent E ''notification.outbox_dead'' ''notification_outbox'' (ox_id row)
         [(''eventType'', JStr (ox_eventType row)), (''attempts'', JNum (int nextAttempts)),
          (''error'', JStr msg)];
       ret () }
     else updateNotificationOutbox (row\<lparr>ox_status := OPending, ox_attempts := nextAttempts,
         ox_lastError := Some msg, ox_updatedAt := t, ox_processingStartedAt := None\<rparr>) }"

definition dispatchOneOutboxRow ::
  "env \<Rightarrow> (nat \<Rightarrow> string option) \<Rightarrow> string \<Rightarrow> NotificationOutboxRecord \<Rightarrow> unit io" where
  "dispatchOneOutboxRow E saveFails t row = do {
     safeId \<leftarrow> randomId E ''ntf'';
     n \<leftarrow> tick;
     (case saveFails n of
        Some msg \<Rightarrow> dispatchFailed E row t msg
      | None \<Rightarrow> do {
         saveNotification (queuedNotification safeId (ox_eventType row) (ox_recipientId row)
           (ox_channel row) (ox_payload row) t);
         emitEvent E ''notification.requested'' ''notification'' safeId
           [(''channel'', JStr (channel_str (ox_channel row))), (''eventType'', JStr (ox_eventType row)),
            (''fromOutbox'', JBool True), (''outboxId'', JStr (ox_id row))];
         updateNotificationOutbox (row\<lparr>ox_status := ODispatched, ox_updatedAt := t,
           ox_dispatchedNotificationId := Some safeId, ox_processingStartedAt := None,
           ox_lastError := None\<rparr>) }) }"

definition runOutboxFanoutTick :: "env \<Rightarrow> (nat \<Rightarrow> string option) \<Rightarrow> unit io" where
  "runOutboxFanoutTick E saveFails = do {
     now \<leftarrow> nowIso E;
     ms \<leftarrow> dateNow E;
     let staleBefore = toISOString (ms - outboxStaleProcessingMs E);
     recoverStaleNotificationOutboxProcessing staleBefore now;
     claimed \<leftarrow> claimNotificationOutboxPending E (outboxFanoutBatchSize E) now;
     for_each claimed (dispatchOneOutboxRow E saveFails now) }"

section \<open>Delivery worker\<close>

text \<open>\<open>NOTIFICATION_PROVIDER_MODE\<close> is \<open>providerMode\<close>, with its default \<open>success\<close>.\<close>

definition deliverInappMock :: "env \<Rightarrow> NotificationEvent \<Rightarrow> bool \<times> string option" where
  "deliverInappMock E event =
    (let mode = toLowerCase (trim (providerMode E)) in
     if mode = ''fail_always'' then (False, Some ''simulated_permanent_failure'')
     else if mode = ''fail_first'' \<and> getOr 0 (nt_attemptCount event) < 1
       then (False, Some ''simulated_transient_failure'')
     else (True, None))"

definition payloadStrings :: "NotificationEvent \<Rightarrow> string \<times> string" where
  "payloadStrings event =
    ((case jfield (nt_payload event) ''_subject'' of JStr s \<Rightarrow> s | _ \<Rightarrow> nt_eventType event),
     (case jfield (nt_payload event) ''_rendered'' of JStr s \<Rightarrow> s
      | _ \<Rightarrow> ''['' @ nt_eventType event @ ''] notification''))"

definition deliverMeta :: "NotificationEvent \<Rightarrow> json" where
  "deliverMeta event = JObj [(''notificationId'', JStr (nt_id event)),
     (''eventType'', JStr (nt_eventType event)), (''payload'', JObj (nt_payload event))]"

definition webhookOutcome :: "string \<Rightarrow> fetched \<Rightarrow> bool \<times> string option" where
  "webhookOutcome prefix res = (case res of
     FetchThrew msg \<Rightarrow> (False, Some msg)
   | FetchResp st _ _ \<Rightarrow> if fetched_ok res then (True, None) else (False, Some (prefix @ show_nat st)))"

definition deliver :: "env \<Rightarrow> NotificationEvent \<Rightarrow> (bool \<times> string option) io" where
  "deliver E event =
    (case nt_channel event of
       Push \<Rightarrow>
        (let url = trim (pushWebhookUrl E); (subject, txt) = payloadStrings event in
         if url \<noteq> '''' then do {
           n \<leftarrow> tick;
           ret (webhookOutcome ''push_webhook_'' (fetch E n url (JObj [(''to'', JStr (nt_recipientId event)),
             (''title'', JStr subject), (''body'', JStr txt), (''meta'', deliverMeta event)]))) }
         else ret (deliverInappMock E event))
     | Email \<Rightarrow>
        (let url = trim (emailWebhookUrl E); (subject, txt) = payloadStrings event in
         if url = '''' then ret (True, None)
         else do {
           n \<leftarrow> tick;
           ret (webhookOutcome ''email_webhook_'' (fetch E n url (JObj [(''to'', JStr (nt_recipientId event)),
             (''subject'', JStr subject), (''text'', JStr txt), (''meta'', deliverMeta event)]))) })
     | Inapp \<Rightarrow> ret (deliverInappMock E event))"

definition backoffMs :: "nat \<Rightarrow> int \<Rightarrow> int \<Rightarrow> int" where
  "backoffMs attemptsAfterFailure initialMs maxMs = min maxMs (initialMs * 2 ^ attemptsAfterFailure)"

definition channelMeta :: "NotificationEvent \<Rightarrow> payload" where
  "channelMeta n = [(''channel'', JStr (channel_str (nt_channel n))), (''eventType'', JStr (nt_eventType n))]"

definition processOne :: "env \<Rightarrow> NotificationEvent \<Rightarrow> unit io" where
  "processOne E n = do {
     (ok, err) \<leftarrow> deliver E (n\<lparr>nt_payload := spread (nt_payload n)
       [(''_subject'', JStr (notificationSubjectForEventType (nt_eventType n))),
        (''_rendered'', JStr (renderNotificationBody (nt_eventType n) (nt_payload n)))]\<rparr>);
     t \<leftarrow> nowIso E;
     if ok then do {
       saveNotification (n\<lparr>nt_status := Sent, nt_updatedAt := Some t, nt_lastError := None,
         nt_nextAttemptAt := None\<rparr>);
       writeAudit E (audit ''notification'' (nt_id n) ''notification.sent'' ''system'' None None
         (Some (channelMeta n)));
       emitEvent E ''notification.sent'' ''notification'' (nt_id n) (channelMeta n);
       ret () }
     else do {
       let failedDeliveries = getOr 0 (nt_attemptCount n) + 1;
       if notificationMaxAttempts E \<le> failedDeliveries then do {
         saveNotification (n\<lparr>nt_status := NFailed, nt_deadLetter := Some True,
           nt_attemptCount := Some failedDeliveries, nt_lastError := Some (getOr ''delivery_failed'' err),
           nt_nextAttemptAt := None, nt_updatedAt := Some t\<rparr>);
         writeAudit E (audit ''notification'' (nt_id n) ''notification.failed'' ''system'' None None
           (Some (channelMeta n @ [(''deadLetter'', JBool True), (''lastError'', jopt err)])));
         emitEvent E ''notification.failed'' ''notification'' (nt_id n)
           (channelMeta n @ [(''deadLetter'', JBool True)]);
         ret () }
       else do {
         ms \<leftarrow> dateNow E;
         let nextAt = toISOString (ms + backoffMs failedDeliveries (retryInitialBackoffMs E)
           (retryMaxBackoffMs E));
         saveNotification (n\<lparr>nt_status := NRetryScheduled, nt_attemptCount := Some failedDeliveries,
           nt_lastError := Some (getOr ''delivery_failed'' err), nt_nextAttemptAt := Some nextAt,
           nt_updatedAt := Some t\<rparr>) } } }"

definition processBatch :: "env \<Rightarrow> unit io" where
  "processBatch E = do {
     now \<leftarrow> nowIso E;
     due \<leftarrow> listDueNotifications E now (notificationBatchSize E);
     for_each due (processOne E) }"

section \<open>Routes\<close>

text \<open>The role name that a staff route writes as the actor: \<open>req.bluesafeAuth?.role ?? "operator"\<close>.\<close>

fun role_str :: "BluesafeRole \<Rightarrow> string" where
  "role_str Tenant = ''tenant''"
| "role_str Landlord = ''landlord''"
| "role_str Operator = ''operator''"
| "role_str Verifier = ''verifier''"
| "role_str Auditor = ''auditor''"

definition actorRole :: "BluesafeAuth option \<Rightarrow> string" where
  "actorRole auth = (case auth of None \<Rightarrow> ''operator'' | Some a \<Rightarrow> role_str (ba_role a))"

text \<open>\<open>limit\<close> and \<open>offset\<close> of the list queries, after coercion to integers, with their defaults.\<close>

definition pageOk :: "int option \<Rightarrow> int option \<Rightarrow> bool" where
  "pageOk limit offset = (1 \<le> getOr 50 limit \<and> getOr 50 limit \<le> 200 \<and> 0 \<le> getOr 0 offset \<and>
     getOr 0 offset \<le> 1000000)"

definition pageParams :: "int option \<Rightarrow> int option \<Rightarrow> ListParams" where
  "pageParams limit offset = \<lparr> lp_limit = nat (getOr 50 limit), lp_offset = nat (getOr 0 offset) \<rparr>"

record notifyBody =
  nb_eventType :: string
  nb_recipientId :: string
  nb_channel :: NotificationChannel
  nb_payload :: payload

definition notifySchema :: "notifyBody \<Rightarrow> bool" where
  "notifySchema b = (nb_eventType b \<noteq> '''' \<and> nb_recipientId b \<noteq> '''')"

definition postNotificationH ::
  "env \<Rightarrow> notifyBody option \<Rightarrow>
    BluesafeAuth option \<Rightarrow> NotificationEvent handler" where
  "postNotificationH E body auth = (case safeParse notifySchema body of
       None \<Rightarrow> ret (HttpErr 400 ''B2_VALIDATION_ERROR'')
     | Some d \<Rightarrow> do {
         i \<leftarrow> randomId E ''ntf'';
         now \<leftarrow> nowIso E;
         let event = queuedNotification i (nb_eventType d) (nb_recipientId d) (nb_channel d)
           (nb_payload d) now;
         saveNotification event;
         writeAudit E (audit ''notification'' i ''notification.requested'' ''system'' None None
           (Some (channelMeta event)));
         emitEvent E ''notification.requested'' ''notification'' i (channelMeta event);
         ret (HttpOk 202 event) })"

definition postNotification ::
  "env \<Rightarrow> request \<Rightarrow> notifyBody option \<Rightarrow> NotificationEvent handler" where
  "postNotification E req body = v1 E req anyRole [] (postNotificationH E body)"

record dispatchBody =
  nd_eventType :: string
  nd_recipientId :: string
  nd_payload :: payload
  nd_channels :: "NotificationChannel list option"

definition notificationDispatchSchema :: "dispatchBody \<Rightarrow> bool" where
  "notificationDispatchSchema b = (nd_eventType b \<noteq> '''' \<and> nd_recipientId b \<noteq> '''')"

definition dispatchChannels :: "dispatchBody \<Rightarrow> NotificationChannel list" where
  "dispatchChannels d = (case nd_channels d of
     None \<Rightarrow> routedChannelsForEventType (nd_eventType d)
   | Some cs \<Rightarrow> if cs = [] then routedChannelsForEventType (nd_eventType d) else cs)"

definition dispatchOneChannel ::
  "env \<Rightarrow> BluesafeAuth option \<Rightarrow> dispatchBody \<Rightarrow> string \<Rightarrow> NotificationChannel \<Rightarrow> string io" where
  "dispatchOneChannel E auth d now channel = do {
     i \<leftarrow> randomId E ''ntf'';
     let event = queuedNotification i (nd_eventType d) (nd_recipientId d) channel (nd_payload d) now;
     saveNotification event;
     writeAudit E (audit ''notification'' i ''notification.dispatch_queued'' (actorRole auth) None None
       (Some (channelMeta event)));
     emitEvent E ''notification.requested'' ''notification'' i
       (channelMeta event @ [(''dispatch'', JBool True)]);
     ret i }"

definition postNotificationDispatchH ::
  "env \<Rightarrow> dispatchBody option \<Rightarrow>
    BluesafeAuth option \<Rightarrow> (string list \<times> NotificationChannel list) handler" where
  "postNotificationDispatchH E body auth = (case safeParse notificationDispatchSchema body of
       None \<Rightarrow> ret (HttpErr 400 ''B2_VALIDATION_ERROR'')
     | Some d \<Rightarrow> do {
         now \<leftarrow> nowIso E;
         notificationIds \<leftarrow> for_collect (dispatchChannels d) (dispatchOneChannel E auth d now);
         ret (HttpOk 202 (notificationIds, dispatchChannels d)) })"

definition postNotificationDispatch ::
  "env \<Rightarrow> request \<Rightarrow> dispatchBody option \<Rightarrow> (string list \<times> NotificationChannel list) handler" where
  "postNotificationDispatch E req body = v1 E req staff [ScDispatch] (postNotificationDispatchH E body)"

definition getOutboxPageH ::
  "env \<Rightarrow> NotificationOutboxStatus option \<Rightarrow> int option \<Rightarrow> int option \<Rightarrow>
    BluesafeAuth option \<Rightarrow>
    NotificationOutboxRecord Paginated handler" where
  "getOutboxPageH E st limit offset auth = (if \<not> pageOk limit offset then ret (HttpErr 400 ''B2_VALIDATION_ERROR'')
     else do {
       page \<leftarrow> listNotificationOutboxPage E st (pageParams limit offset);
       ret (HttpOk 200 page) })"

definition getOutboxPage ::
  "env \<Rightarrow> request \<Rightarrow> NotificationOutboxStatus option \<Rightarrow> int option \<Rightarrow> int option \<Rightarrow>
    NotificationOutboxRecord Paginated handler" where
  "getOutboxPage E req st limit offset = v1 E req staff [] (getOutboxPageH E st limit offset)"

definition retryOutboxH ::
  "env \<Rightarrow> string \<Rightarrow>
    BluesafeAuth option \<Rightarrow> string handler" where
  "retryOutboxH E outboxId auth = do {
     row \<leftarrow> getNotificationOutbox outboxId;
     (case row of
        None \<Rightarrow> ret (HttpErr 404 ''B2_NOT_FOUND'')
      | Some row \<Rightarrow>
         if ox_status row \<noteq> ODead then ret (HttpErr 409 ''B2_VALIDATION_ERROR'')
         else do {
           t \<leftarrow> nowIso E;
           updateNotificationOutbox (row\<lparr>ox_status := OPending, ox_attempts := 0, ox_lastError := None,
             ox_updatedAt := t, ox_processingStartedAt := None, ox_dispatchedNotificationId := None\<rparr>);
           writeAudit E (audit ''notification_outbox'' outboxId ''notification_outbox.retry_queued''
             (actorRole auth) None (Some [(''status'', JStr ''pending'')]) None);
           ret (HttpOk 200 outboxId) }) }"

definition retryOutbox ::
  "env \<Rightarrow> request \<Rightarrow> string \<Rightarrow> string handler" where
  "retryOutbox E req outboxId = v1 E req [Operator] [ScOutbox] (retryOutboxH E outboxId)"

definition getNotificationRouteH ::
  "env \<Rightarrow> string \<Rightarrow>
    BluesafeAuth option \<Rightarrow> NotificationEvent handler" where
  "getNotificationRouteH E notificationId auth = do {
     n \<leftarrow> getNotification notificationId;
     (case n of None \<Rightarrow> ret (HttpErr 404 ''B2_NOT_FOUND'') | Some n \<Rightarrow> ret (HttpOk 200 n)) }"

definition getNotificationRoute ::
  "env \<Rightarrow> request \<Rightarrow> string \<Rightarrow> NotificationEvent handler" where
  "getNotificationRoute E req notificationId = v1 E req anyRole [] (getNotificationRouteH E notificationId)"

section \<open>Frames\<close>

lemma tle_enqueue [tle_intros]:
  "steps ticks_le (enqueueOutboxItem E now it)" "steps ticks_le (enqueueDirectItem E now it)"
  "steps ticks_le (enqueueFanoutNotificationItems E items)"
  "steps ticks_le (maybeEnqueueDomainNotifications E et rs pl)"
  "steps ticks_le (enqueueSettlementConfirmedNotifications E s c)"
  unfolding enqueueOutboxItem_def enqueueDirectItem_def enqueueFanoutNotificationItems_def
    maybeEnqueueDomainNotifications_def enqueueSettlementConfirmedNotifications_def
  by (auto intro!: tle_intros)

lemma tle_deliver [tle_intros]: "steps ticks_le (deliver E n)"
  unfolding deliver_def by (cases "nt_channel n") (auto intro!: tle_intros)

lemma tle_notification_workers [tle_intros]:
  "steps ticks_le (dispatchOneOutboxRow E sf t row)" "steps ticks_le (runOutboxFanoutTick E sf)"
  "steps ticks_le (processOne E n)" "steps ticks_le (processBatch E)"
  unfolding dispatchOneOutboxRow_def dispatchFailed_def runOutboxFanoutTick_def processOne_def
    processBatch_def
  by (auto intro!: tle_intros)

lemma tle_v1 [tle_intros]: "(\<And>auth. steps ticks_le (h auth)) \<Longrightarrow> steps ticks_le (v1 E req roles scopes h)"
  by (rule steps_v1) (auto simp: ticks_le_def)

lemma tle_notification_routes [tle_intros]:
  "steps ticks_le (postNotification E req nb)" "steps ticks_le (postNotificationDispatch E req nd)"
  "steps ticks_le (retryOutbox E req i)"
  unfolding postNotification_def postNotificationDispatch_def dispatchOneChannel_def retryOutbox_def
    postNotificationH_def postNotificationDispatchH_def retryOutboxH_def
  by (auto intro!: tle_intros)

text \<open>
  The part of the store that notifications write: an observation that none of these updates changes
  is the same after any fan-out.
\<close>

definition unnotified :: "(world \<Rightarrow> 'a) \<Rightarrow> bool" where
  "unnotified f = (\<forall>w g h i j k. f (ticks_update g w) = f w \<and> f (events_update h w) = f w \<and>
     f (notifications_update i w) = f w \<and> f (outboxById_update j w) = f w \<and>
     f (outboxIdempotency_update k w) = f w)"

lemma unnotifiedD:
  assumes "unnotified f"
  shows "f (ticks_update g w) = f w" "f (events_update h w) = f w"
    "f (notifications_update i w) = f w" "f (outboxById_update j w) = f w"
    "f (outboxIdempotency_update k w) = f w"
  using assms unfolding unnotified_def by blast+

lemma unnotified_keeps:
  assumes "unnotified f"
  shows "keeps f (emitEvent E a b c d)" "keeps f (nowIso E)" "keeps f (randomId E p)"
    "keeps f (saveNotification n)" "keeps f (appendNotificationOutbox row)"
  using assms [THEN unnotifiedD(1)] assms [THEN unnotifiedD(2)] assms [THEN unnotifiedD(3)]
    assms [THEN unnotifiedD(4)] assms [THEN unnotifiedD(5)]
  by (simp_all add: steps_def same_def emitEvent_def appendEvent_def run_simps Let_def
      appendNotificationOutbox_def)

lemma enqueue_keeps:
  assumes "unnotified f"
  shows "keeps f (enqueueFanoutNotificationItems E items)"
    "keeps f (maybeEnqueueDomainNotifications E et rs pl)"
    "keeps f (enqueueSettlementConfirmedNotifications E s c)"
  unfolding enqueueFanoutNotificationItems_def maybeEnqueueDomainNotifications_def
    enqueueSettlementConfirmedNotifications_def enqueueOutboxItem_def enqueueDirectItem_def Let_def
  by (intro keeps_intros unnotified_keeps assms)+

lemma unnotified_fields [simp]:
  "unnotified contracts" "unnotified evidences" "unnotified disputes" "unnotified decisions"
  "unnotified xrplTxs" "unnotified audits" "unnotified ingestionDedup" "unnotified delayedJobs"
  "unnotified verifierVotes" "unnotified verifierRegistry" "unnotified settlements"
  "unnotified exportJobs" "unnotified dlq" "unnotified webhookQueue" "unnotified counters"
  by (simp_all add: unnotified_def)

lemma enqueue_frame [simp]:
  "contracts (exec (enqueueFanoutNotificationItems E items) w) = contracts w"
  "evidences (exec (enqueueFanoutNotificationItems E items) w) = evidences w"
  "disputes (exec (enqueueFanoutNotificationItems E items) w) = disputes w"
  "decisions (exec (enqueueFanoutNotificationItems E items) w) = decisions w"
  "xrplTxs (exec (enqueueFanoutNotificationItems E items) w) = xrplTxs w"
  "audits (exec (enqueueFanoutNotificationItems E items) w) = audits w"
  "ingestionDedup (exec (enqueueFanoutNotificationItems E items) w) = ingestionDedup w"
  "delayedJobs (exec (enqueueFanoutNotificationItems E items) w) = delayedJobs w"
  "verifierVotes (exec (enqueueFanoutNotificationItems E items) w) = verifierVotes w"
  "verifierRegistry (exec (enqueueFanoutNotificationItems E items) w) = verifierRegistry w"
  "settlements (exec (enqueueFanoutNotificationItems E items) w) = settlements w"
  "exportJobs (exec (enqueueFanoutNotificationItems E items) w) = exportJobs w"
  "dlq (exec (enqueueFanoutNotificationItems E items) w) = dlq w"
  "webhookQueue (exec (enqueueFanoutNotificationItems E items) w) = webhookQueue w"
  "counters (exec (enqueueFanoutNotificationItems E items) w) = counters w"
  by (rule enqueue_keeps(1) [THEN keepsD], simp)+

lemma maybeEnqueue_frame [simp]:
  "contracts (exec (maybeEnqueueDomainNotifications E et rs pl) w) = contracts w"
  "evidences (exec (maybeEnqueueDomainNotifications E et rs pl) w) = evidences w"
  "disputes (exec (maybeEnqueueDomainNotifications E et rs pl) w) = disputes w"
  "decisions (exec (maybeEnqueueDomainNotifications E et rs pl) w) = decisions w"
  "xrplTxs (exec (maybeEnqueueDomainNotifications E et rs pl) w) = xrplTxs w"
  "audits (exec (maybeEnqueueDomainNotifications E et rs pl) w) = audits w"
  "ingestionDedup (exec (maybeEnqueueDomainNotifications E et rs pl) w) = ingestionDedup w"
  "delayedJobs (exec (maybeEnqueueDomainNotifications E et rs pl) w) = delayedJobs w"
  "verifierVotes (exec (maybeEnqueueDomainNotifications E et rs pl) w) = verifierVotes w"
  "verifierRegistry (exec (maybeEnqueueDomainNotifications E et rs pl) w) = verifierRegistry w"
  "settlements (exec (maybeEnqueueDomainNotifications E et rs pl) w) = settlements w"
  "exportJobs (exec (maybeEnqueueDomainNotifications E et rs pl) w) = exportJobs w"
  "dlq (exec (maybeEnqueueDomainNotifications E et rs pl) w) = dlq w"
  "webhookQueue (exec (maybeEnqueueDomainNotifications E et rs pl) w) = webhookQueue w"
  "counters (exec (maybeEnqueueDomainNotifications E et rs pl) w) = counters w"
  by (rule enqueue_keeps(2) [THEN keepsD], simp)+

lemma enqueueSettlement_frame [simp]:
  "contracts (exec (enqueueSettlementConfirmedNotifications E s c) w) = contracts w"
  "evidences (exec (enqueueSettlementConfirmedNotifications E s c) w) = evidences w"
  "disputes (exec (enqueueSettlementConfirmedNotifications E s c) w) = disputes w"
  "decisions (exec (enqueueSettlementConfirmedNotifications E s c) w) = decisions w"
  "xrplTxs (exec (enqueueSettlementConfirmedNotifications E s c) w) = xrplTxs w"
  "audits (exec (enqueueSettlementConfirmedNotifications E s c) w) = audits w"
  "ingestionDedup (exec (enqueueSettlementConfirmedNotifications E s c) w) = ingestionDedup w"
  "delayedJobs (exec (enqueueSettlementConfirmedNotifications E s c) w) = delayedJobs w"
  "verifierVotes (exec (enqueueSettlementConfirmedNotifications E s c) w) = verifierVotes w"
  "verifierRegistry (exec (enqueueSettlementConfirmedNotifications E s c) w) = verifierRegistry w"
  "settlements (exec (enqueueSettlementConfirmedNotifications E s c) w) = settlements w"
  "exportJobs (exec (enqueueSettlementConfirmedNotifications E s c) w) = exportJobs w"
  "dlq (exec (enqueueSettlementConfirmedNotifications E s c) w) = dlq w"
  "webhookQueue (exec (enqueueSettlementConfirmedNotifications E s c) w) = webhookQueue w"
  "counters (exec (enqueueSettlementConfirmedNotifications E s c) w) = counters w"
  by (rule enqueue_keeps(3) [THEN keepsD], simp)+

section \<open>Life of a notification\<close>

lemma deliver_keeps: "(\<And>w g. f (ticks_update g w) = f w) \<Longrightarrow> keeps f (deliver E n)"
  unfolding deliver_def
  by (cases "nt_channel n") (auto simp: tick_def intro!: keeps_intros keeps_modify)

lemma deliver_frame [simp]:
  "contracts (exec (deliver E n) w) = contracts w"
  "evidences (exec (deliver E n) w) = evidences w"
  "disputes (exec (deliver E n) w) = disputes w"
  "decisions (exec (deliver E n) w) = decisions w" "xrplTxs (exec (deliver E n) w) = xrplTxs w"
  "notifications (exec (deliver E n) w) = notifications w"
  "outboxById (exec (deliver E n) w) = outboxById w"
  "outboxIdempotency (exec (deliver E n) w) = outboxIdempotency w"
  "audits (exec (deliver E n) w) = audits w" "events (exec (deliver E n) w) = events w"
  "ingestionDedup (exec (deliver E n) w) = ingestionDedup w"
  "delayedJobs (exec (deliver E n) w) = delayedJobs w"
  "verifierVotes (exec (deliver E n) w) = verifierVotes w"
  "verifierRegistry (exec (deliver E n) w) = verifierRegistry w"
  "settlements (exec (deliver E n) w) = settlements w"
  "exportJobs (exec (deliver E n) w) = exportJobs w" "dlq (exec (deliver E n) w) = dlq w"
  "webhookQueue (exec (deliver E n) w) = webhookQueue w"
  "counters (exec (deliver E n) w) = counters w"
  by (rule deliver_keeps [THEN keepsD], simp)+

text \<open>
  Later versions of a notification: its identity is fixed, its attempts only grow, and a delivered or
  dead-lettered one does not change any more.
\<close>

definition notif_step :: "NotificationEvent \<Rightarrow> NotificationEvent \<Rightarrow> bool" where
  "notif_step n n' = (nt_id n' = nt_id n \<and> nt_eventType n' = nt_eventType n \<and>
     nt_recipientId n' = nt_recipientId n \<and> nt_channel n' = nt_channel n \<and>
     nt_payload n' = nt_payload n \<and> nt_createdAt n' = nt_createdAt n \<and>
     getOr 0 (nt_attemptCount n) \<le> getOr 0 (nt_attemptCount n') \<and>
     (nt_status n = Sent \<longrightarrow> n' = n) \<and> (nt_deadLetter n = Some True \<longrightarrow> n' = n))"

interpretation nlife: minted_life notifications nt_id notif_step E "''ntf''" for E
  by unfold_locales (auto simp: notif_step_def)

text \<open>The retry budget: a notification that can still be delivered has attempts left.\<close>

definition within_budget :: "env \<Rightarrow> NotificationEvent \<Rightarrow> bool" where
  "within_budget E n = (getOr 0 (nt_attemptCount n) \<le> notificationMaxAttempts E \<and>
     (nt_status n \<in> {Queued, NRetryScheduled} \<longrightarrow>
        getOr 0 (nt_attemptCount n) < notificationMaxAttempts E \<and> nt_deadLetter n \<noteq> Some True) \<and>
     (nt_status n = NFailed \<longleftrightarrow> nt_deadLetter n = Some True))"

definition budget_ok :: "env \<Rightarrow> world \<Rightarrow> bool" where
  "budget_ok E w = entries (\<lambda>k. within_budget E) (notifications w)"

lemma budget_ok_same: "notifications w' = notifications w \<Longrightarrow> budget_ok E w \<Longrightarrow> budget_ok E w'"
  by (simp add: budget_ok_def)

lemma budget_ok_put:
  "notifications w' = jm_set (notifications w) k n \<Longrightarrow> within_budget E n \<Longrightarrow> budget_ok E w \<Longrightarrow>
   budget_ok E w'"
  by (auto simp: budget_ok_def)

text \<open>What one delivery attempt makes of a notification, given the provider's answer.\<close>

definition delivery_event :: "NotificationEvent \<Rightarrow> NotificationEvent" where
  "delivery_event n = n\<lparr>nt_payload := spread (nt_payload n)
     [(''_subject'', JStr (notificationSubjectForEventType (nt_eventType n))),
      (''_rendered'', JStr (renderNotificationBody (nt_eventType n) (nt_payload n)))]\<rparr>"

definition after_delivery ::
  "env \<Rightarrow> NotificationEvent \<Rightarrow> bool \<times> string option \<Rightarrow> string \<Rightarrow> int \<Rightarrow> NotificationEvent" where
  "after_delivery E n r t ms =
    (let k = getOr 0 (nt_attemptCount n) + 1; e = Some (getOr ''delivery_failed'' (snd r)) in
     if fst r then n\<lparr>nt_status := Sent, nt_updatedAt := Some t, nt_lastError := None, nt_nextAttemptAt := None\<rparr>
     else if notificationMaxAttempts E \<le> k
     then n\<lparr>nt_status := NFailed, nt_deadLetter := Some True, nt_attemptCount := Some k, nt_lastError := e,
         nt_nextAttemptAt := None, nt_updatedAt := Some t\<rparr>
     else n\<lparr>nt_status := NRetryScheduled, nt_attemptCount := Some k, nt_lastError := e,
         nt_nextAttemptAt := Some (toISOString (ms + backoffMs k (retryInitialBackoffMs E) (retryMaxBackoffMs E))),
         nt_updatedAt := Some t\<rparr>)"

lemma processOne_notifications:
  "notifications (exec (processOne E n) w) = jm_set (notifications w) (nt_id n)
     (after_delivery E n (valu (deliver E (delivery_event n)) w)
       (toISOString (clockMs E (ticks (exec (deliver E (delivery_event n)) w))))
       (clockMs E (Suc (ticks (exec (deliver E (delivery_event n)) w)))))"
proof (cases "valu (deliver E (delivery_event n)) w")
  case (Pair ok err)
  then show ?thesis
    unfolding processOne_def delivery_event_def [symmetric]
    by (simp add: run_simps after_delivery_def Let_def)
qed

lemma after_delivery_id [simp]: "nt_id (after_delivery E n r t ms) = nt_id n"
  by (simp add: after_delivery_def Let_def)

lemma after_delivery_step:
  "nt_status n \<noteq> Sent \<Longrightarrow> nt_deadLetter n \<noteq> Some True \<Longrightarrow> notif_step n (after_delivery E n r t ms)"
  by (simp add: after_delivery_def notif_step_def Let_def)

lemma after_delivery_budget:
  "within_budget E n \<Longrightarrow> nt_status n \<in> {Queued, NRetryScheduled} \<Longrightarrow>
   within_budget E (after_delivery E n r t ms)"
  by (auto simp: after_delivery_def within_budget_def Let_def)

lemma notificationDue_status:
  "notificationDue now n \<Longrightarrow> nt_status n \<in> {Queued, NRetryScheduled} \<and> nt_deadLetter n \<noteq> Some True"
  by (auto simp: notificationDue_def split: if_splits)

lemma due_notifications:
  assumes "nlife.coherent E w"
  shows "n \<in> set (valu (listDueNotifications E now lim) w) \<Longrightarrow>
      jm_get (notifications w) (nt_id n) = Some n \<and> notificationDue now n"
    and "distinct (map nt_id (valu (listDueNotifications E now lim) w))"
  using nlife.picked_stored [OF assms] nlife.picked_distinct [OF assms]
  unfolding listDueNotifications_def byLocale_def valu_gets by blast+

lemma processOne_tle: "ticks w \<le> ticks (exec (processOne E n) w)"
  using tle_notification_workers(3) by (simp add: steps_def ticks_le_def)

lemma processBatch_step:
  assumes "nlife.coherent E w"
  shows "nlife.life E w (exec (processBatch E) w) \<and>
    (budget_ok E w \<longrightarrow> budget_ok E (exec (processBatch E) w))"
proof -
  let ?w = "exec (nowIso E) w" and ?now = "valu (nowIso E) w"
  let ?due = "valu (listDueNotifications E ?now (notificationBatchSize E)) ?w"
  have l: "nlife.life E w ?w" by (rule nlife.same) (simp_all add: run_simps)
  then have c: "nlife.coherent E ?w" using assms by (rule nlife.life_coherent)
  have body: "nlife.life E v (exec (processOne E n) v) \<and> (budget_ok E v \<longrightarrow> budget_ok E (exec (processOne E n) v)) \<and>
      (\<forall>k. k \<noteq> nt_id n \<longrightarrow> jm_get (notifications (exec (processOne E n) v)) k = jm_get (notifications v) k)"
    if "n \<in> set ?due" "jm_get (notifications v) (nt_id n) = Some n" for n v
  proof -
    have st: "nt_status n \<in> {Queued, NRetryScheduled}" "nt_deadLetter n \<noteq> Some True"
      using due_notifications(1) [OF c that(1)] notificationDue_status by blast+
    then have "nt_status n \<noteq> Sent" by auto
    have "within_budget E n" if "budget_ok E v"
      using that \<open>jm_get (notifications v) (nt_id n) = Some n\<close>
      by (simp add: budget_ok_def jm.all_entries_def)
    then have "budget_ok E v \<longrightarrow> budget_ok E (exec (processOne E n) v)"
      using budget_ok_put [OF processOne_notifications] after_delivery_budget st(1) by blast
    moreover have "nlife.life E v (exec (processOne E n) v)"
      by (rule nlife.put [OF processOne_notifications after_delivery_id processOne_tle])
        (use that(2) st(2) \<open>nt_status n \<noteq> Sent\<close> in
          \<open>auto intro!: after_delivery_step\<close>)
    ultimately show ?thesis by (simp add: processOne_notifications)
  qed
  have "nlife.life E ?w (exec (for_each ?due (processOne E)) ?w) \<and>
      (budget_ok E ?w \<longrightarrow> budget_ok E (exec (for_each ?due (processOne E)) ?w))"
    by (rule nlife.life_each [OF c]) (use due_notifications [OF c] body in blast)+
  then show ?thesis
    using l nlife.life_trans [OF l] budget_ok_same [of ?w w E]
    by (simp add: processBatch_def run_simps repo_reads)
qed

section \<open>The outbox\<close>

text \<open>Later versions of an outbox row: its message and key are fixed, a dispatched row is final.\<close>

definition ox_step :: "NotificationOutboxRecord \<Rightarrow> NotificationOutboxRecord \<Rightarrow> bool" where
  "ox_step r r' = (ox_id r' = ox_id r \<and> ox_idempotencyKey r' = ox_idempotencyKey r \<and>
     ox_eventType r' = ox_eventType r \<and> ox_recipientId r' = ox_recipientId r \<and>
     ox_channel r' = ox_channel r \<and> ox_payload r' = ox_payload r \<and> ox_createdAt r' = ox_createdAt r \<and>
     (ox_status r = ODispatched \<longrightarrow> r' = r))"

interpretation olife: minted_life outboxById ox_id ox_step E "''nox''" for E
  by unfold_locales (auto simp: ox_step_def)

text \<open>The idempotency index and the rows describe each other.\<close>

definition outbox_index :: "world \<Rightarrow> bool" where
  "outbox_index w =
    ((\<forall>i r. jm_get (outboxById w) i = Some r \<longrightarrow> jm_get (outboxIdempotency w) (ox_idempotencyKey r) = Some i) \<and>
     (\<forall>k i. jm_get (outboxIdempotency w) k = Some i \<longrightarrow>
        (\<exists>r. jm_get (outboxById w) i = Some r \<and> ox_idempotencyKey r = k)))"

lemma outbox_index_same:
  "outboxById w' = outboxById w \<Longrightarrow> outboxIdempotency w' = outboxIdempotency w \<Longrightarrow>
   outbox_index w' = outbox_index w"
  by (simp add: outbox_index_def)

lemma outbox_index_put:
  assumes "outbox_index w" "outboxById w' = jm_set (outboxById w) i r'"
    "outboxIdempotency w' = outboxIdempotency w"
    "jm_get (outboxById w) i = Some r" "ox_idempotencyKey r' = ox_idempotencyKey r"
  shows "outbox_index w'"
proof -
  have k: "jm_get (outboxIdempotency w) k = Some i \<Longrightarrow> ox_idempotencyKey r = k" for k
    using assms(1,4) unfolding outbox_index_def by fastforce
  show ?thesis
    using assms k unfolding outbox_index_def by (auto split: if_splits)
qed

lemma outbox_index_insert:
  assumes "outbox_index w" "outboxById w' = jm_set (outboxById w) i r"
    "outboxIdempotency w' = jm_set (outboxIdempotency w) (ox_idempotencyKey r) i"
    "jm_get (outboxById w) i = None" "jm_get (outboxIdempotency w) (ox_idempotencyKey r) = None"
  shows "outbox_index w'"
proof -
  have "jm_get (outboxById w) j = Some s \<Longrightarrow> ox_idempotencyKey s \<noteq> ox_idempotencyKey r" for j s
    using assms(1,5) unfolding outbox_index_def by fastforce
  moreover have "jm_get (outboxIdempotency w) k = Some j \<Longrightarrow> j \<noteq> i" for k j
    using assms(1,4) unfolding outbox_index_def by fastforce
  ultimately show ?thesis
    using assms(1,2,3) unfolding outbox_index_def by auto
qed

text \<open>Two rows never carry the same idempotency key.\<close>

lemma outbox_index_unique:
  "outbox_index w \<Longrightarrow> jm_get (outboxById w) i = Some r \<Longrightarrow> jm_get (outboxById w) j = Some s \<Longrightarrow>
   ox_idempotencyKey r = ox_idempotencyKey s \<Longrightarrow> i = j"
  unfolding outbox_index_def by (metis option.inject)

lemma update_same_key:
  assumes "jm_get (outboxById w) (ox_id r') = Some r" "ox_idempotencyKey r' = ox_idempotencyKey r"
  shows "exec (updateNotificationOutbox r') w = outboxById_update (\<lambda>m. jm_set m (ox_id r') r') w"
  using assms by (simp add: updateNotificationOutbox_def)

text \<open>A stored row overwritten by a later version of itself.\<close>

lemma outbox_put:
  assumes "outboxById w' = jm_set (outboxById w) (ox_id r) r'" "outboxIdempotency w' = outboxIdempotency w"
    and "ticks w \<le> ticks w'" "jm_get (outboxById w) (ox_id r) = Some r" "ox_step r r'"
  shows "olife.life E w w' \<and> (outbox_index w \<longrightarrow> outbox_index w') \<and>
    (\<forall>k. k \<noteq> ox_id r \<longrightarrow> jm_get (outboxById w') k = jm_get (outboxById w) k)"
proof -
  have s: "ox_id r' = ox_id r" "ox_idempotencyKey r' = ox_idempotencyKey r"
    using assms(5) by (simp_all add: ox_step_def)
  then show ?thesis
    using olife.put [OF assms(1) s(1) assms(3,4,5)] outbox_index_put [OF _ assms(1,2,4) s(2)] assms(1)
    by simp
qed

lemma enqueueOutboxItem_step:
  assumes "inj (uuid16 E)"
  shows "olife.life E w (exec (enqueueOutboxItem E now it) w)"
    and "olife.coherent E w \<Longrightarrow> outbox_index w \<Longrightarrow> outbox_index (exec (enqueueOutboxItem E now it) w)"
proof -
  define row where "row = \<lparr> ox_id = ''nox_'' @ uuid16 E (ticks w),
    ox_idempotencyKey = domainNotificationIdempotencyKey E (fi_eventType it) (fi_recipientId it)
      (fi_channel it) (fi_payload it), ox_eventType = fi_eventType it, ox_recipientId = fi_recipientId it,
    ox_channel = fi_channel it, ox_payload = fi_payload it, ox_status = OPending, ox_attempts = 0,
    ox_lastError = None, ox_createdAt = now, ox_updatedAt = now, ox_processingStartedAt = None,
    ox_dispatchedNotificationId = None \<rparr>"
  let ?w = "exec (enqueueOutboxItem E now it) w"
  have id: "ox_id row = ''nox_'' @ uuid16 E (ticks w)" by (simp add: row_def)
  have t: "ticks w \<le> ticks ?w" using tle_enqueue(1) by (simp add: steps_def ticks_le_def)
  show "olife.life E w ?w"
  proof (cases "jm_has (outboxIdempotency w) (ox_idempotencyKey row)")
    case True
    then have "outboxById ?w = outboxById w"
      by (simp add: enqueueOutboxItem_def appendNotificationOutbox_def run_simps Let_def row_def)
    then show ?thesis using t by (rule olife.same)
  next
    case False
    then have o: "outboxById ?w = jm_set (outboxById w) (ox_id row) row" and "ticks w < ticks ?w"
      by (simp_all add: enqueueOutboxItem_def appendNotificationOutbox_def run_simps Let_def row_def
          emitEvent_def appendEvent_def)
    from olife.new [OF assms o HOL.refl _ _ this(2)] id show ?thesis by simp
  qed
  assume c: "olife.coherent E w" and i: "outbox_index w"
  show "outbox_index ?w"
  proof (cases "jm_has (outboxIdempotency w) (ox_idempotencyKey row)")
    case True
    then have "outboxById ?w = outboxById w" "outboxIdempotency ?w = outboxIdempotency w"
      by (simp_all add: enqueueOutboxItem_def appendNotificationOutbox_def run_simps Let_def row_def)
    with i outbox_index_same show ?thesis by blast
  next
    case False
    then have o: "outboxById ?w = jm_set (outboxById w) (ox_id row) row"
      "outboxIdempotency ?w = jm_set (outboxIdempotency w) (ox_idempotencyKey row) (ox_id row)"
      by (simp_all add: enqueueOutboxItem_def appendNotificationOutbox_def run_simps Let_def row_def)
    have "jm_get (outboxById w) (ox_id row) = None"
      using olife.not_yet [OF c assms order_refl] id by simp
    with False show ?thesis
      by (intro outbox_index_insert [OF i o]) (simp_all add: jm_has_def)
  qed
qed

lemma exec_claimOutboxRow [simp]:
  "exec (claimOutboxRow now r) w = outboxById_update (\<lambda>m. jm_set m (ox_id r) (claimedRow now r)) w"
  and valu_claimOutboxRow [simp]: "valu (claimOutboxRow now r) w = claimedRow now r"
  by (simp_all add: claimOutboxRow_def Let_def)

lemma claim_loop_other:
  "k \<notin> ox_id ` set xs \<Longrightarrow>
   jm_get (outboxById (exec (for_collect xs (claimOutboxRow now)) w)) k = jm_get (outboxById w) k"
  by (induction xs arbitrary: w) auto

lemma claim_loop:
  "distinct (map ox_id xs) \<Longrightarrow> r \<in> set xs \<Longrightarrow>
   jm_get (outboxById (exec (for_collect xs (claimOutboxRow now)) w)) (ox_id r) = Some (claimedRow now r)"
  by (induction xs arbitrary: w) (auto simp: claim_loop_other)

lemma valu_claim_loop: "valu (for_collect xs (claimOutboxRow now)) w = map (claimedRow now) xs"
  by (induction xs arbitrary: w) simp_all

lemma claimedRow_step: "ox_status r = OPending \<Longrightarrow> ox_step r (claimedRow now r)"
  by (simp add: ox_step_def claimedRow_def)

lemma claimedRow_id [simp]: "ox_id (claimedRow now r) = ox_id r"
  by (simp add: claimedRow_def)

lemma claim_step:
  fixes E' :: env and lim :: nat and now :: string
  assumes "olife.coherent E w"
  defines "m \<equiv> claimNotificationOutboxPending E' lim now"
  shows "olife.life E w (exec m w) \<and> (outbox_index w \<longrightarrow> outbox_index (exec m w))"
    and "u \<in> set (valu m w) \<Longrightarrow> jm_get (outboxById (exec m w)) (ox_id u) = Some u \<and> ox_status u = OProcessing"
    and "distinct (map ox_id (valu m w))"
proof -
  define xs where "xs = take lim (byLocale E' ox_createdAt
    (filter (\<lambda>r. ox_status r = OPending) (jm_values (outboxById w))))"
  have x: "jm_get (outboxById w) (ox_id r) = Some r" "ox_status r = OPending" if "r \<in> set xs" for r
    using olife.picked_stored [OF assms(1)] that unfolding xs_def byLocale_def by blast+
  have d: "distinct (map ox_id xs)"
    unfolding xs_def byLocale_def by (rule olife.picked_distinct [OF assms(1)])
  have e: "exec m w = exec (for_collect xs (claimOutboxRow now)) w"
    and v: "valu m w = map (claimedRow now) xs"
    by (simp_all add: m_def claimNotificationOutboxPending_def run_simps xs_def valu_claim_loop)
  show "olife.life E w (exec m w) \<and> (outbox_index w \<longrightarrow> outbox_index (exec m w))"
    unfolding e exec_for_collect
    by (rule olife.life_each [OF assms(1) x(1) d], assumption)
      (rule outbox_put [OF _ _ _ _ claimedRow_step], use x(2) in simp_all)
  show "u \<in> set (valu m w) \<Longrightarrow> jm_get (outboxById (exec m w)) (ox_id u) = Some u \<and> ox_status u = OProcessing"
    unfolding e v using claim_loop [OF d] by (auto simp: claimedRow_def)
  show "distinct (map ox_id (valu m w))"
    unfolding v using d by (simp add: comp_def)
qed

lemma recover_step:
  fixes sb now :: string
  assumes "olife.coherent E w"
  defines "m \<equiv> recoverStaleNotificationOutboxProcessing sb now"
  shows "olife.life E w (exec m w) \<and> (outbox_index w \<longrightarrow> outbox_index (exec m w))"
proof -
  have e: "exec m w = exec (for_each (jm_values (outboxById w))
      (\<lambda>r. do { recoverOutboxRow sb now r; ret () })) w"
    by (simp add: m_def recoverStaleNotificationOutboxProcessing_def exec_for_count)
  have g: "r \<in> set (jm_values (outboxById w)) \<Longrightarrow> jm_get (outboxById w) (ox_id r) = Some r" for r
    using olife.coherent_values [OF assms(1)] by blast
  have "olife.life E w' (exec (recoverOutboxRow sb now r) w') \<and>
        (outbox_index w' \<longrightarrow> outbox_index (exec (recoverOutboxRow sb now r) w')) \<and>
        (\<forall>k. k \<noteq> ox_id r \<longrightarrow> jm_get (outboxById (exec (recoverOutboxRow sb now r) w')) k =
          jm_get (outboxById w') k)"
    if st: "jm_get (outboxById w') (ox_id r) = Some r" for r w'
  proof (cases "staleProcessing sb r")
    case True
    then have "ox_step r (r\<lparr>ox_status := OPending, ox_processingStartedAt := None, ox_updatedAt := now\<rparr>)"
      by (simp add: ox_step_def staleProcessing_def)
    from outbox_put [OF _ _ _ st this] True show ?thesis by (simp add: recoverOutboxRow_def)
  qed (simp add: olife.life_refl recoverOutboxRow_def)
  then show ?thesis
    unfolding e
    by (intro olife.life_each [OF assms(1) g olife.coherent_distinct [OF assms(1)]]) simp_all
qed

section \<open>The invariant of the notification store\<close>

text \<open>
  What the environment must provide for the store's invariants: identifiers do not repeat, and the
  configuration is one that \<open>config.ts\<close> can produce (\<open>Math.max(1, ...)\<close>).
\<close>

definition env_ok :: "env \<Rightarrow> bool" where
  "env_ok E = (inj (uuid16 E) \<and> 1 \<le> notificationMaxAttempts E \<and> 1 \<le> outboxDispatchMaxAttempts E \<and>
     1 \<le> policyMaxNotFoundProbes E \<and> 1 \<le> verifierQuorumK E)"

lemma env_okD: "env_ok E \<Longrightarrow> inj (uuid16 E)" "env_ok E \<Longrightarrow> 1 \<le> notificationMaxAttempts E"
  by (simp_all add: env_ok_def)

definition notify_inv :: "env \<Rightarrow> world \<Rightarrow> bool" where
  "notify_inv E w = (nlife.coherent E w \<and> olife.coherent E w \<and> budget_ok E w \<and> outbox_index w)"

definition notify_rel :: "env \<Rightarrow> world \<Rightarrow> world \<Rightarrow> bool" where
  "notify_rel E w w' = (ticks w \<le> ticks w' \<and>
     (notify_inv E w \<longrightarrow> notify_inv E w' \<and> nlife.life E w w' \<and> olife.life E w w'))"

interpretation nrel: step_rel "notify_rel E" for E
proof unfold_locales
  show "notify_rel E w w" for w
    by (simp add: notify_rel_def nlife.life_refl olife.life_refl)
  show "notify_rel E w w''" if "notify_rel E w w'" "notify_rel E w' w''" for w w' w''
    using that unfolding notify_rel_def by (auto intro: nlife.life_trans olife.life_trans)
qed

named_theorems notify_intros \<open>operations that keep the notification store in order\<close>

lemmas nrel_io [notify_intros] = nrel.io

lemma notify_relI:
  assumes "ticks w \<le> ticks w'"
    and "notify_inv E w \<Longrightarrow> nlife.life E w w'" "notify_inv E w \<Longrightarrow> olife.life E w w'"
    and "notify_inv E w \<Longrightarrow> budget_ok E w' \<and> outbox_index w'"
  shows "notify_rel E w w'"
  using assms unfolding notify_rel_def notify_inv_def
  by (blast intro: nlife.life_coherent olife.life_coherent)

lemma notify_same:
  assumes "notifications w' = notifications w" "outboxById w' = outboxById w"
    "outboxIdempotency w' = outboxIdempotency w" "ticks w \<le> ticks w'"
  shows "notify_rel E w w'"
  by (rule notify_relI)
    (use assms outbox_index_same [OF assms(2,3)] budget_ok_same [OF assms(1)] in
      \<open>auto intro!: nlife.same olife.same simp: notify_inv_def\<close>)

lemma notify_keeps:
  "keeps notifications m \<Longrightarrow> keeps outboxById m \<Longrightarrow> keeps outboxIdempotency m \<Longrightarrow> steps ticks_le m \<Longrightarrow>
   steps (notify_rel E) m"
  by (auto simp: steps_def same_def ticks_le_def intro: notify_same)

lemma notify_modify [notify_intros]:
  "(\<And>w. notifications (g w) = notifications w \<and> outboxById (g w) = outboxById w \<and>
     outboxIdempotency (g w) = outboxIdempotency w \<and> ticks w \<le> ticks (g w)) \<Longrightarrow>
   steps (notify_rel E) (modify g)"
  by (auto simp: steps_def intro: notify_same)

lemma notify_utils [notify_intros]:
  "steps (notify_rel E) tick" "steps (notify_rel E) (dateNow E')" "steps (notify_rel E) (nowIso E')"
  "steps (notify_rel E) (randomId E' p)" "steps (notify_rel E) (bump n k)"
  "steps (notify_rel E) (writeAudit E' a)" "steps (notify_rel E) (emitEvent E' b c d e)"
  by (rule notify_keeps; (simp add: steps_def same_def run_simps; fail | rule tle_intros))+

text \<open>A message queued under a newly generated identifier.\<close>

lemma notify_new:
  assumes "env_ok E" "notifications w' = jm_set (notifications w) k (queuedNotification i et r ch pl now)"
    and "k = i" "i = ''ntf_'' @ uuid16 E n" "ticks w \<le> n" "n < ticks w'"
    and "outboxById w' = outboxById w" "outboxIdempotency w' = outboxIdempotency w"
  shows "notify_rel E w w'"
proof (rule notify_relI)
  have t: "ticks w \<le> ticks w'" using assms(5,6) by simp
  show "nlife.life E w w'"
    by (rule nlife.new [OF env_okD(1) [OF assms(1)] assms(2), where n = n])
      (use assms(3-6) in \<open>simp_all add: queuedNotification_def\<close>)
  show "ticks w \<le> ticks w'" by (rule t)
  show "olife.life E w w'" using assms(7) t by (rule olife.same)
  have "within_budget E (queuedNotification i et r ch pl now)"
    using env_okD(2) [OF assms(1)] by (simp add: within_budget_def queuedNotification_def)
  then show "notify_inv E w \<Longrightarrow> budget_ok E w' \<and> outbox_index w'"
    using budget_ok_put [OF assms(2)] outbox_index_same [OF assms(7,8)] by (simp add: notify_inv_def)
qed

lemma notify_enqueueOutboxItem:
  assumes "env_ok E"
  shows "steps (notify_rel E) (enqueueOutboxItem E now it)"
proof (rule stepsI)
  fix w
  let ?w = "exec (enqueueOutboxItem E now it) w"
  have "notifications ?w = notifications w"
    by (simp add: enqueueOutboxItem_def appendNotificationOutbox_def run_simps Let_def)
  moreover have "ticks w \<le> ticks ?w" using tle_enqueue(1) by (simp add: steps_def ticks_le_def)
  moreover note enqueueOutboxItem_step [OF env_okD(1) [OF assms], of w now it]
  ultimately show "notify_rel E w ?w"
    by (intro notify_relI) (auto simp: notify_inv_def intro: nlife.same budget_ok_same)
qed

lemma notify_enqueueDirectItem:
  assumes "env_ok E"
  shows "steps (notify_rel E) (enqueueDirectItem E now it)"
  by (rule stepsI, rule notify_new [OF assms _ HOL.refl HOL.refl order_refl])
    (simp_all add: enqueueDirectItem_def run_simps emitEvent_def appendEvent_def Let_def
      queuedNotification_def)

lemma notify_enqueue [notify_intros]:
  assumes "env_ok E"
  shows "steps (notify_rel E) (enqueueFanoutNotificationItems E items)"
    "steps (notify_rel E) (maybeEnqueueDomainNotifications E et rs pl)"
    "steps (notify_rel E) (enqueueSettlementConfirmedNotifications E s c)"
  unfolding enqueueFanoutNotificationItems_def maybeEnqueueDomainNotifications_def
    enqueueSettlementConfirmedNotifications_def
  by (intro notify_intros notify_enqueueOutboxItem notify_enqueueDirectItem assms)+

text \<open>Dispatching a claimed row: it becomes one notification, or a failed attempt is counted.\<close>

lemma dispatchFailed_writes:
  obtains r' where "outboxById (exec (dispatchFailed E row t msg) w) =
      outboxById (exec (updateNotificationOutbox r') w)"
    "outboxIdempotency (exec (dispatchFailed E row t msg) w) =
      outboxIdempotency (exec (updateNotificationOutbox r') w)"
    "ox_id r' = ox_id row" "ox_status row \<noteq> ODispatched \<Longrightarrow> ox_step row r'"
    "notifications (exec (dispatchFailed E row t msg) w) = notifications w"
proof (cases "outboxDispatchMaxAttempts E \<le> ox_attempts row + 1")
  case True
  show ?thesis
    by (rule that [of "row\<lparr>ox_status := ODead, ox_attempts := ox_attempts row + 1, ox_lastError := Some msg,
        ox_updatedAt := t, ox_processingStartedAt := None\<rparr>"])
      (use True in \<open>simp_all add: dispatchFailed_def Let_def ox_step_def updateNotificationOutbox_def
        exec_case_option split: option.splits\<close>)
next
  case False
  show ?thesis
    by (rule that [of "row\<lparr>ox_status := OPending, ox_attempts := ox_attempts row + 1,
        ox_lastError := Some msg, ox_updatedAt := t, ox_processingStartedAt := None\<rparr>"])
      (use False in \<open>simp_all add: dispatchFailed_def Let_def ox_step_def updateNotificationOutbox_def
        exec_case_option split: option.splits\<close>)
qed

lemma notify_put:
  assumes "outboxById w' = jm_set (outboxById w) (ox_id row) r'" "outboxIdempotency w' = outboxIdempotency w"
    and "ticks w \<le> ticks w'" "jm_get (outboxById w) (ox_id row) = Some row" "ox_step row r'"
    and "notifications w' = notifications w"
  shows "notify_rel E w w'"
  using outbox_put [OF assms(1-5), of E] assms(3,6)
  by (intro notify_relI) (auto simp: notify_inv_def intro: nlife.same budget_ok_same)

lemma dispatchOne_step:
  fixes sf :: "nat \<Rightarrow> string option" and t :: string
  assumes "env_ok E" "jm_get (outboxById w) (ox_id row) = Some row" "ox_status row = OProcessing"
  defines "w' \<equiv> exec (dispatchOneOutboxRow E sf t row) w"
  shows "notify_rel E w w' \<and> (\<forall>k. k \<noteq> ox_id row \<longrightarrow> jm_get (outboxById w') k = jm_get (outboxById w) k)"
proof -
  have tl: "ticks w \<le> ticks w'"
    using tle_notification_workers(1) by (simp add: w'_def steps_def ticks_le_def)
  show ?thesis
  proof (cases "sf (Suc (ticks w))")
    case (Some msg)
    let ?v = "w\<lparr>ticks := Suc (Suc (ticks w))\<rparr>"
    have e: "w' = exec (dispatchFailed E row t msg) ?v"
      using Some by (simp add: w'_def dispatchOneOutboxRow_def run_simps)
    obtain r' where r: "outboxById w' = outboxById (exec (updateNotificationOutbox r') ?v)"
      "outboxIdempotency w' = outboxIdempotency (exec (updateNotificationOutbox r') ?v)"
      "ox_id r' = ox_id row" "ox_step row r'" "notifications w' = notifications w"
      using dispatchFailed_writes [of E row t msg ?v] assms(3) unfolding e by force
    have "ox_idempotencyKey r' = ox_idempotencyKey row" using r(4) by (simp add: ox_step_def)
    then have "outboxById w' = jm_set (outboxById w) (ox_id row) r'"
      "outboxIdempotency w' = outboxIdempotency w"
      using update_same_key [of ?v r' row] assms(2) r(1-3) by simp_all
    with notify_put [OF this tl assms(2) r(4,5)] show ?thesis by simp
  next
    case None
    let ?n = "queuedNotification (''ntf_'' @ uuid16 E (ticks w)) (ox_eventType row)
      (ox_recipientId row) (ox_channel row) (ox_payload row) t"
    define r' where "r' = row\<lparr>ox_status := ODispatched, ox_updatedAt := t,
      ox_dispatchedNotificationId := Some (''ntf_'' @ uuid16 E (ticks w)), ox_processingStartedAt := None,
      ox_lastError := None\<rparr>"
    let ?v = "exec (do { saveNotification ?n; emitEvent E ''notification.requested'' ''notification''
        (''ntf_'' @ uuid16 E (ticks w))
        [(''channel'', JStr (channel_str (ox_channel row))), (''eventType'', JStr (ox_eventType row)),
         (''fromOutbox'', JBool True), (''outboxId'', JStr (ox_id row))] }) (w\<lparr>ticks := Suc (Suc (ticks w))\<rparr>)"
    have e: "w' = exec (updateNotificationOutbox r') ?v"
      using None by (simp add: w'_def dispatchOneOutboxRow_def run_simps r'_def)
    have v: "outboxById ?v = outboxById w" "outboxIdempotency ?v = outboxIdempotency w"
      "notifications ?v = jm_set (notifications w) (nt_id ?n) ?n" "ticks w < ticks ?v"
      by (simp_all add: run_simps emitEvent_def appendEvent_def Let_def)
    have 1: "notify_rel E w ?v"
      by (rule notify_new [OF assms(1) v(3) _ HOL.refl order_refl v(4) v(1,2)])
        (simp add: queuedNotification_def)
    have u: "w' = outboxById_update (\<lambda>m. jm_set m (ox_id r') r') ?v"
      unfolding e by (rule update_same_key [of _ r' row]) (use v(1) assms(2) in \<open>simp_all add: r'_def\<close>)
    have 2: "notify_rel E ?v w'"
      using assms(2,3) v(1) unfolding u
      by (intro notify_put [of _ _ row r']) (simp_all add: r'_def ox_step_def)
    have "jm_get (outboxById w') k = jm_get (outboxById w) k" if "k \<noteq> ox_id row" for k
      using that v(1) unfolding u by (simp add: r'_def)
    with nrel.trans [OF 1 2] show ?thesis by blast
  qed
qed

lemma notify_of_olife:
  assumes "notify_inv E w \<Longrightarrow> olife.life E w w' \<and> (outbox_index w \<longrightarrow> outbox_index w')"
    and "notifications w' = notifications w" "ticks w \<le> ticks w'"
  shows "notify_rel E w w'"
  using assms by (intro notify_relI) (auto simp: notify_inv_def intro: nlife.same budget_ok_same)

lemma outbox_ops_notifications [simp]:
  "notifications (exec (recoverStaleNotificationOutboxProcessing sb now) w) = notifications w"
  "notifications (exec (claimNotificationOutboxPending E lim now) w) = notifications w"
proof -
  have "keeps notifications (recoverStaleNotificationOutboxProcessing sb now)"
    "keeps notifications (claimNotificationOutboxPending E lim now)"
    unfolding recoverStaleNotificationOutboxProcessing_def recoverOutboxRow_def
      claimNotificationOutboxPending_def claimOutboxRow_def Let_def
    by (intro keeps_intros keeps_modify; simp)+
  then show "notifications (exec (recoverStaleNotificationOutboxProcessing sb now) w) = notifications w"
    "notifications (exec (claimNotificationOutboxPending E lim now) w) = notifications w"
    by (simp_all add: keepsD)
qed

lemma notify_claim [notify_intros]:
  "steps (notify_rel E) (claimNotificationOutboxPending E' lim now)"
  "steps (notify_rel E) (recoverStaleNotificationOutboxProcessing sb now)"
  using tle_guarded(3) [of E' lim now] tle_guarded(5) [of sb now] claim_step(1) recover_step
  by (auto simp: steps_def ticks_le_def notify_inv_def intro!: notify_of_olife)

lemma notify_dispatch_claimed:
  assumes "env_ok E" "\<And>u. u \<in> set us \<Longrightarrow> jm_get (outboxById w) (ox_id u) = Some u \<and> ox_status u = OProcessing"
    "distinct (map ox_id us)" "notify_inv E w"
  shows "notify_rel E w (exec (for_each us (dispatchOneOutboxRow E sf t)) w)"
proof -
  have "notify_rel E w (exec (for_each us (dispatchOneOutboxRow E sf t)) w)"
    using assms(2-)
  proof (induction us arbitrary: w)
    case (Cons u us)
    let ?v = "exec (dispatchOneOutboxRow E sf t u) w"
    have s: "notify_rel E w ?v" "\<And>k. k \<noteq> ox_id u \<Longrightarrow> jm_get (outboxById ?v) k = jm_get (outboxById w) k"
      using dispatchOne_step [OF assms(1)] Cons.prems(1) [of u] by auto
    have "notify_rel E ?v (exec (for_each us (dispatchOneOutboxRow E sf t)) ?v)"
    proof (rule Cons.IH)
      show "jm_get (outboxById ?v) (ox_id x) = Some x \<and> ox_status x = OProcessing" if "x \<in> set us" for x
        using Cons.prems(1) [of x] Cons.prems(2) that s(2) [of "ox_id x"] by (auto simp: image_iff)
      show "distinct (map ox_id us)" using Cons.prems(2) by simp
      show "notify_inv E ?v" using s(1) Cons.prems(3) by (simp add: notify_rel_def)
    qed
    with s(1) show ?case using nrel.trans by simp
  qed (simp add: nrel.refl)
  then show ?thesis .
qed

lemma notify_runOutboxFanoutTick [notify_intros]:
  assumes "env_ok E"
  shows "steps (notify_rel E) (runOutboxFanoutTick E sf)"
proof (rule stepsI)
  fix w :: world
  let ?t = "toISOString (clockMs E (ticks w))"
  let ?sb = "toISOString (clockMs E (Suc (ticks w)) - outboxStaleProcessingMs E)"
  let ?v = "exec (do { nowIso E; dateNow E; recoverStaleNotificationOutboxProcessing ?sb ?t }) w"
  let ?claim = "claimNotificationOutboxPending E (outboxFanoutBatchSize E) ?t"
  let ?loop = "for_each (valu ?claim ?v) (dispatchOneOutboxRow E sf ?t)"
  have e: "exec (runOutboxFanoutTick E sf) w = exec ?loop (exec ?claim ?v)"
    by (simp add: runOutboxFanoutTick_def run_simps Let_def)
  have 1: "notify_rel E w ?v"
    by (rule stepsD) (intro notify_intros)
  have 2: "notify_rel E ?v (exec ?claim ?v)"
    by (rule stepsD) (rule notify_claim)
  have 3: "notify_rel E (exec ?claim ?v) (exec ?loop (exec ?claim ?v))" if "notify_inv E w"
  proof -
    have i: "notify_inv E ?v" "notify_inv E (exec ?claim ?v)"
      using 1 2 that by (simp_all add: notify_rel_def)
    then have c: "olife.coherent E ?v" by (simp add: notify_inv_def)
    show ?thesis
      by (rule notify_dispatch_claimed [OF assms claim_step(2,3) [OF c] i(2)])
  qed
  have "ticks (exec ?claim ?v) \<le> ticks (exec ?loop (exec ?claim ?v))"
    by (rule tleD) (intro tle_intros)
  moreover have "ticks w \<le> ticks (exec ?claim ?v)"
    using 1 2 unfolding notify_rel_def by linarith
  ultimately show "notify_rel E w (exec (runOutboxFanoutTick E sf) w)"
    unfolding e using nrel.trans [OF nrel.trans [OF 1 2] 3] unfolding notify_rel_def
    by (meson order_trans)
qed

lemma notify_processBatch [notify_intros]: "steps (notify_rel E) (processBatch E)"
proof (rule stepsI)
  fix w
  have "keeps outboxById (processBatch E)" "keeps outboxIdempotency (processBatch E)"
    unfolding processBatch_def processOne_def listDueNotifications_def saveNotification_def
    by (rule keeps_intros keeps_modify deliver_keeps | simp add: steps_def same_def run_simps; fail)+
  then have o: "outboxById (exec (processBatch E) w) = outboxById w"
    "outboxIdempotency (exec (processBatch E) w) = outboxIdempotency w"
    by (simp_all add: keepsD)
  have t: "ticks w \<le> ticks (exec (processBatch E) w)" by (rule tleD) (rule tle_intros)
  show "notify_rel E w (exec (processBatch E) w)"
    using processBatch_step [of E w] o t outbox_index_same [OF o]
    by (intro notify_relI) (auto simp: notify_inv_def intro: olife.same)
qed

lemma notify_v1 [notify_intros]:
  "(\<And>auth. steps (notify_rel E) (h auth)) \<Longrightarrow> steps (notify_rel E) (v1 E' req roles scopes h)"
  by (rule steps_v1) (auto intro: nrel.refl)

lemma notify_dispatchOneChannel:
  assumes "env_ok E"
  shows "steps (notify_rel E) (dispatchOneChannel E auth d now channel)"
  by (rule stepsI, rule notify_new [OF assms _ HOL.refl HOL.refl order_refl])
    (simp_all add: dispatchOneChannel_def run_simps writeAudit_def appendAudit_def emitEvent_def
      appendEvent_def Let_def queuedNotification_def)

lemma notify_postNotificationH: "env_ok E \<Longrightarrow> steps (notify_rel E) (postNotificationH E body auth)"
proof (rule stepsI)
  fix w assume E: "env_ok E"
  show "notify_rel E w (exec (postNotificationH E body auth) w)"
  proof (cases "safeParse notifySchema body")
    case None
    then show ?thesis by (simp add: postNotificationH_def nrel.refl)
  next
    case (Some d)
    show ?thesis
      by (rule notify_new [OF E _ HOL.refl HOL.refl order_refl])
        (use Some in \<open>simp_all add: postNotificationH_def run_simps writeAudit_def appendAudit_def
          emitEvent_def appendEvent_def Let_def queuedNotification_def safeParse_def\<close>)
  qed
qed

lemma notify_retryOutboxH: "steps (notify_rel E) (retryOutboxH E i auth)"
proof (rule stepsI)
  fix w
  have t: "ticks w \<le> ticks (exec (retryOutboxH E i auth) w)"
    unfolding retryOutboxH_def by (rule tleD) (auto intro!: tle_intros)
  show "notify_rel E w (exec (retryOutboxH E i auth) w)"
  proof (cases "jm_get (outboxById w) i")
    case None
    then show ?thesis by (simp add: retryOutboxH_def run_simps nrel.refl)
  next
    case (Some row)
    let ?r = "row\<lparr>ox_status := OPending, ox_attempts := 0, ox_lastError := None,
      ox_updatedAt := toISOString (clockMs E (ticks w)), ox_processingStartedAt := None,
      ox_dispatchedNotificationId := None\<rparr>"
    show ?thesis
    proof (cases "notify_inv E w \<and> ox_status row = ODead")
      case True
      then have k: "ox_id row = i" using Some olife.coherent_key by (auto simp: notify_inv_def)
      have "exec (updateNotificationOutbox ?r) (w\<lparr>ticks := Suc (ticks w)\<rparr>) =
          outboxById_update (\<lambda>m. jm_set m i ?r) (w\<lparr>ticks := Suc (ticks w)\<rparr>)"
        using update_same_key [of "w\<lparr>ticks := Suc (ticks w)\<rparr>" ?r row] Some k by simp
      then show ?thesis
        using True Some k t
        by (intro notify_put [of _ _ row ?r]) (simp_all add: retryOutboxH_def run_simps ox_step_def)
    next
      case False
      then show ?thesis
        using Some t by (cases "notify_inv E w") (auto simp: notify_rel_def retryOutboxH_def run_simps
            nlife.life_refl olife.life_refl)
    qed
  qed
qed

lemma notify_routes [notify_intros]:
  assumes "env_ok E"
  shows "steps (notify_rel E) (postNotification E req nb)"
    "steps (notify_rel E) (postNotificationDispatch E req nd)"
    "steps (notify_rel E) (retryOutbox E req i)"
  unfolding postNotification_def postNotificationDispatch_def postNotificationDispatchH_def
    retryOutbox_def
  by (intro notify_intros notify_dispatchOneChannel notify_postNotificationH notify_retryOutboxH assms)+

section \<open>Observations that the background work does not change\<close>

text \<open>
  Besides its own table, a handler writes logs, counters, ticks and notifications. An observation
  that is independent of these is kept by every handler that does not write what it observes.
\<close>

definition core_obs :: "(world \<Rightarrow> 'a) \<Rightarrow> bool" where
  "core_obs f = (unnotified f \<and> (\<forall>w g h. f (audits_update g w) = f w \<and> f (counters_update h w) = f w))"

lemma core_obs_fields [simp]:
  "core_obs contracts" "core_obs evidences" "core_obs disputes" "core_obs decisions"
  "core_obs xrplTxs" "core_obs ingestionDedup" "core_obs delayedJobs"
  "core_obs verifierVotes" "core_obs verifierRegistry" "core_obs settlements"
  "core_obs exportJobs" "core_obs dlq" "core_obs webhookQueue"
  by (simp_all add: core_obs_def unnotified_def)

named_theorems core_intros \<open>operations that a core observation does not see\<close>

lemma core_ticks: "core_obs f \<Longrightarrow> f (ticks_update g w) = f w"
  by (simp add: core_obs_def unnotifiedD)

lemma core_utils [core_intros]:
  assumes "core_obs f"
  shows "keeps f tick" "keeps f (dateNow E)" "keeps f (nowIso E)" "keeps f (randomId E p)"
    "keeps f (bump n k)" "keeps f (writeAudit E a)" "keeps f (emitEvent E b c d e)"
  using assms unfolding core_obs_def unnotified_def
  by (simp_all add: steps_def same_def run_simps bump_def writeAudit_def appendAudit_def emitEvent_def
      appendEvent_def Let_def)

lemma core_enqueue [core_intros]:
  assumes "core_obs f"
  shows "keeps f (enqueueFanoutNotificationItems E items)"
    "keeps f (maybeEnqueueDomainNotifications E et rs pl)"
    "keeps f (enqueueSettlementConfirmedNotifications E s c)"
  using assms by (auto simp: core_obs_def intro: enqueue_keeps)

lemma core_notify_writes [core_intros]:
  assumes "core_obs f"
  shows "keeps f (saveNotification n)" "keeps f (updateNotificationOutbox row)"
    "keeps f (appendNotificationOutbox row)" "keeps f (claimNotificationOutboxPending E lim now)"
    "keeps f (recoverStaleNotificationOutboxProcessing sb now)"
proof -
  have u: "unnotified f" using assms by (simp add: core_obs_def)
  show "keeps f (saveNotification n)" "keeps f (appendNotificationOutbox row)"
    using u by (rule unnotified_keeps)+
  show "keeps f (updateNotificationOutbox row)" "keeps f (claimNotificationOutboxPending E lim now)"
    "keeps f (recoverStaleNotificationOutboxProcessing sb now)"
    unfolding updateNotificationOutbox_def claimNotificationOutboxPending_def claimOutboxRow_def
      recoverStaleNotificationOutboxProcessing_def recoverOutboxRow_def Let_def
    by (intro keeps_intros keeps_modify unnotifiedD [OF u])+
qed

lemma core_reads [core_intros]:
  "keeps f (getContract i)" "keeps f (hasContract i)" "keeps f (getEvidence i)"
  "keeps f (findEvidenceByCid i)" "keeps f (countEvidenceVersions i j k)"
  "keeps f (hasEvidence i)" "keeps f (listEvidencesPastRetention i)"
  "keeps f (getDispute i)" "keeps f (listDisputeVerifierVotes i)"
  "keeps f (listDisputeVerifierRegistry E)" "keeps f (getXrplTx i)"
  "keeps f listXrplTxs" "keeps f (listXrplSubscribeAccounts n)"
  "keeps f (getNotification i)" "keeps f (listDueNotifications E i n)"
  "keeps f (getNotificationOutbox i)" "keeps f (listNotificationOutboxPage E x p)"
  "keeps f (listEvents a b c)" "keeps f (listContractsPage E cf p)"
  "keeps f (listDisputesPage E df p)" "keeps f (listXrplTxsPage E xf p)"
  "keeps f getOperatorStatsSummary" "keeps f (getSettlement i)"
  "keeps f (listSettlementsPage E sf p)" "keeps f (getExportJob i)"
  by (simp_all add: steps_def same_def repo_reads)

lemma core_writes [core_intros]:
  assumes "core_obs f"
  shows "(\<And>w g. f (contracts_update g w) = f w) \<Longrightarrow> keeps f (saveContract c)"
    "(\<And>w g. f (evidences_update g w) = f w) \<Longrightarrow> keeps f (saveEvidence e)"
    "(\<And>w g. f (evidences_update g w) = f w) \<Longrightarrow> keeps f (deleteEvidence i)"
    "(\<And>w g. f (disputes_update g w) = f w) \<Longrightarrow> keeps f (saveDispute d)"
    "(\<And>w g. f (verifierVotes_update g w) = f w) \<Longrightarrow> keeps f (appendDisputeVerifierVote v)"
    "(\<And>w g. f (verifierRegistry_update g w) = f w) \<Longrightarrow> keeps f (upsertDisputeVerifierRegistryEntry r)"
    "(\<And>w g. f (decisions_update g w) = f w) \<Longrightarrow> keeps f (saveDecision cd)"
    "(\<And>w g. f (xrplTxs_update g w) = f w) \<Longrightarrow> keeps f (saveXrplTx t)"
    "(\<And>w g. f (delayedJobs_update g w) = f w) \<Longrightarrow> keeps f (deleteDelayedJob i)"
    "(\<And>w g. f (exportJobs_update g w) = f w) \<Longrightarrow> keeps f (createExportJob j)"
    "(\<And>w g. f (exportJobs_update g w) = f w) \<Longrightarrow> keeps f (updateExportJob j)"
    "(\<And>w g. f (settlements_update g w) = f w) \<Longrightarrow> keeps f (saveSettlement s)"
  by (simp_all add: steps_def same_def repo_writes)

lemma core_v1 [core_intros]: "(\<And>auth. keeps f (h auth)) \<Longrightarrow> keeps f (v1 E req roles scopes h)"
  by (rule steps_v1) (auto simp: same_def)

lemmas core_io [core_intros] = keeps_intros

lemma core_deliver [core_intros]: "core_obs f \<Longrightarrow> keeps f (deliver E n)"
  by (rule deliver_keeps) (simp add: core_ticks)

lemma core_notifications [core_intros]:
  assumes "core_obs f"
  shows "keeps f (processBatch E)" "keeps f (runOutboxFanoutTick E sf)"
    "keeps f (postNotification E req nb)" "keeps f (postNotificationDispatch E req nd)"
    "keeps f (retryOutbox E req i)"
  unfolding processBatch_def processOne_def runOutboxFanoutTick_def dispatchOneOutboxRow_def
    dispatchFailed_def postNotification_def postNotificationH_def postNotificationDispatch_def
    postNotificationDispatchH_def dispatchOneChannel_def retryOutbox_def retryOutboxH_def Let_def
  by (auto intro!: core_intros assms split: option.splits prod.splits)

section \<open>Properties\<close>

text \<open>A domain notification is enqueued at most once: asking for an outbox row again (same event
  type, recipient, channel and payload), at any later moment of the clock, leaves the outbox rows and
  the idempotency index as the first request left them.\<close>

lemma enqueue_idempotent:
  "let w' = exec (enqueueOutboxItem E now it) w in
   outboxById (exec (enqueueOutboxItem E now' it) w') = outboxById w' \<and>
   outboxIdempotency (exec (enqueueOutboxItem E now' it) w') = outboxIdempotency w' \<and>
   jm_has (outboxIdempotency w') (domainNotificationIdempotencyKey E (fi_eventType it)
     (fi_recipientId it) (fi_channel it) (fi_payload it))"
  by (simp add: enqueueOutboxItem_def appendNotificationOutbox_def run_simps Let_def jm_has_def)

text \<open>The delay before the next delivery attempt doubles with every failure, never shrinks, and
  stays between the configured initial delay and cap.\<close>

lemma backoff_bounds:
  assumes "0 < initial" "initial \<le> cap"
  shows "initial \<le> backoffMs n initial cap \<and> backoffMs n initial cap \<le> cap \<and>
    backoffMs n initial cap \<le> backoffMs (Suc n) initial cap \<and>
    (initial * 2 ^ n \<le> cap \<longrightarrow> backoffMs n initial cap = initial * 2 ^ n)"
proof -
  have "initial * 1 \<le> initial * 2 ^ n"
    using assms(1) by (intro mult_left_mono) auto
  moreover have "initial * 2 ^ n \<le> initial * 2 ^ Suc n"
    using assms(1) by (intro mult_left_mono) auto
  ultimately show ?thesis using assms unfolding backoffMs_def by (auto simp: min_def)
qed

end
