(* ===== verification/Xrpl.thy ===== *)
theory Xrpl
  imports Notifications
begin

text \<open>
  \<open>services/xrpl-escrow-protocol.ts\<close> (which fields of an escrow transaction are persisted) and
  \<open>services/xrpl.service.ts\<close> (the calls to rippled). The rippled client is the environment's
  \<open>rippledConnects\<close> / \<open>rippledRequest\<close> / \<open>rippledSubmit\<close>; a call that throws returns \<open>None\<close>.
\<close>

section \<open>Reading JSON\<close>

definition jtruthy :: "json \<Rightarrow> bool" where
  "jtruthy v = (case v of JUndef \<Rightarrow> False | JNull \<Rightarrow> False | JBool b \<Rightarrow> b | JNum i \<Rightarrow> i \<noteq> 0 | JFrac _ \<Rightarrow> True
     | JStr s \<Rightarrow> s \<noteq> '''' | JArr _ \<Rightarrow> True | JObj _ \<Rightarrow> True)"

definition asString :: "json \<Rightarrow> string option" where
  "asString v = (case v of JStr s \<Rightarrow> Some s | _ \<Rightarrow> None)"

definition asNumber :: "json \<Rightarrow> int option" where
  "asNumber v = (case v of JNum i \<Rightarrow> Some i | _ \<Rightarrow> None)"

definition asObject :: "json \<Rightarrow> payload option" where
  "asObject v = (case v of JObj o' \<Rightarrow> Some o' | _ \<Rightarrow> None)"

definition asArray :: "json \<Rightarrow> json list" where
  "asArray v = (case v of JArr xs \<Rightarrow> xs | _ \<Rightarrow> [])"

definition toJsString :: "json \<Rightarrow> string" where
  \<comment> \<open>\<open>String(v)\<close> of a scalar\<close>
  "toJsString v = (case v of JStr s \<Rightarrow> s | JUndef \<Rightarrow> ''undefined'' | _ \<Rightarrow> stringify v)"

text \<open>\<open>v?.f\<close> on a value that may not be an object.\<close>

definition jget :: "json \<Rightarrow> string \<Rightarrow> json" where
  "jget v f = (case v of JObj o' \<Rightarrow> jfield o' f | _ \<Rightarrow> JUndef)"

section \<open>Escrow protocol fields\<close>

record EscrowProtocolFields =
  ep_escrowOwner :: "string option"
  ep_escrowDestination :: "string option"
  ep_escrowOfferSequence :: "int option"
  ep_escrowSubmitterAccount :: "string option"

definition classicAddress :: "json \<Rightarrow> string option" where
  "classicAddress v = (case v of JStr s \<Rightarrow> if startsWith s ''r'' then Some s else None | _ \<Rightarrow> None)"

definition sequenceNumber :: "json \<Rightarrow> int option" where
  "sequenceNumber v = (case v of JNum i \<Rightarrow> Some i
     | JStr s \<Rightarrow> if allDigits s then Some (int (read_nat s)) else None | _ \<Rightarrow> None)"

definition mergeTxJsonLayers :: "payload \<Rightarrow> payload" where
  "mergeTxJsonLayers root = (case jfield root ''tx_json'' of JObj nested \<Rightarrow> spread nested root | _ \<Rightarrow> root)"

definition noEscrowFields :: EscrowProtocolFields where
  "noEscrowFields = \<lparr> ep_escrowOwner = None, ep_escrowDestination = None, ep_escrowOfferSequence = None,
     ep_escrowSubmitterAccount = None \<rparr>"

definition escrowProtocolFieldsFromTxJson :: "payload \<Rightarrow> EscrowProtocolFields" where
  "escrowProtocolFieldsFromTxJson tx =
    (let tt = jfield tx ''TransactionType'' in
     if tt \<noteq> JStr ''EscrowCreate'' \<and> tt \<noteq> JStr ''EscrowFinish'' \<and> tt \<noteq> JStr ''EscrowCancel''
     then noEscrowFields
     else (let submitter = classicAddress (jfield tx ''Account'') in
       if tt = JStr ''EscrowCreate'' then
         \<lparr> ep_escrowOwner = classicAddress (jfield tx ''Account''),
           ep_escrowDestination = classicAddress (jfield tx ''Destination''),
           ep_escrowOfferSequence = sequenceNumber (jfield tx ''Sequence''),
           ep_escrowSubmitterAccount = submitter \<rparr>
       else
         \<lparr> ep_escrowOwner = classicAddress (jfield tx ''Owner''),
           ep_escrowDestination = None,
           ep_escrowOfferSequence = sequenceNumber (jfield tx ''OfferSequence''),
           ep_escrowSubmitterAccount = submitter \<rparr>))"

section \<open>Calls to rippled\<close>

record LiveTxStatus =
  lt_txHash :: string
  lt_validated :: bool
  lt_ledgerIndex :: "int option"
  lt_resultCode :: "string option"
  lt_transactionType :: "string option"
  lt_account :: "string option"
  lt_escrow :: EscrowProtocolFields

definition getClient :: "env \<Rightarrow> bool io" where
  \<comment> \<open>whether the client connects; not connecting throws\<close>
  "getClient E = (if \<not> xrplEnabled E then ret False else do { n \<leftarrow> tick; ret (rippledConnects E n) })"

definition rippled :: "env \<Rightarrow> string \<Rightarrow> payload \<Rightarrow> payload option io" where
  "rippled E command args = do { n \<leftarrow> tick; ret (rippledRequest E n command args) }"

definition liveFromTx :: "string \<Rightarrow> payload \<Rightarrow> LiveTxStatus" where
  "liveFromTx txHash result =
    (let flat = mergeTxJsonLayers result in
     \<lparr> lt_txHash = (case jfield flat ''hash'' of JStr h \<Rightarrow> if h \<noteq> '''' then h else txHash | _ \<Rightarrow> txHash),
       lt_validated = jtruthy (jfield result ''validated''),
       lt_ledgerIndex = asNumber (jfield result ''ledger_index''),
       lt_resultCode = asString (jget (jfield result ''meta'') ''TransactionResult''),
       lt_transactionType = asString (jfield flat ''TransactionType''),
       lt_account = classicAddress (jfield flat ''Account''),
       lt_escrow = escrowProtocolFieldsFromTxJson flat \<rparr>)"

text \<open>\<open>getTxStatus\<close>: throws when there is no client (\<open>None\<close>), is \<open>null\<close> when the request fails.\<close>

definition getTxStatus :: "env \<Rightarrow> string \<Rightarrow> LiveTxStatus option option io" where
  "getTxStatus E txHash = do {
     connected \<leftarrow> getClient E;
     if \<not> connected then ret None
     else do {
       response \<leftarrow> rippled E ''tx'' [(''transaction'', JStr txHash)];
       ret (Some (map_option (liveFromTx txHash) response)) } }"

record EscrowLedgerObject =
  eo_ledgerEntryIndex :: string
  eo_account :: string
  eo_destination :: string
  eo_amount :: string
  eo_finishAfter :: "int option"
  eo_cancelAfter :: "int option"
  eo_previousTxnId :: "string option"
  eo_previousTxnLedgerSeq :: "int option"
  eo_flags :: "int option"

record AccountEscrowsPage =
  ae_escrows :: "EscrowLedgerObject list"
  ae_ledgerHash :: "string option"
  ae_ledgerIndex :: "int option"
  ae_nextMarker :: json

definition ledgerAmountToDisplay :: "json \<Rightarrow> string" where
  "ledgerAmountToDisplay amount = (case amount of JStr s \<Rightarrow> s | JObj _ \<Rightarrow> stringify amount
     | JArr _ \<Rightarrow> stringify amount | _ \<Rightarrow> '''')"

definition escrowObject :: "json \<Rightarrow> EscrowLedgerObject" where
  "escrowObject o' =
    \<lparr> eo_ledgerEntryIndex = toJsString (jget o' ''index''), eo_account = toJsString (jget o' ''Account''),
      eo_destination = toJsString (jget o' ''Destination''),
      eo_amount = ledgerAmountToDisplay (jget o' ''Amount''),
      eo_finishAfter = asNumber (jget o' ''FinishAfter''), eo_cancelAfter = asNumber (jget o' ''CancelAfter''),
      eo_previousTxnId = (if jtruthy (jget o' ''PreviousTxnID'') then
        Some (toJsString (jget o' ''PreviousTxnID'')) else None),
      eo_previousTxnLedgerSeq = asNumber (jget o' ''PreviousTxnLgrSeq''),
      eo_flags = asNumber (jget o' ''Flags'') \<rparr>"

definition getAccountEscrowsPage ::
  "env \<Rightarrow> string \<Rightarrow> int option \<Rightarrow> json \<Rightarrow> AccountEscrowsPage option io" where
  "getAccountEscrowsPage E account limit marker = do {
     connected \<leftarrow> getClient E;
     if \<not> connected then ret None
     else do {
       let lim = min 400 (max 10 (getOr 50 limit));
       response \<leftarrow> rippled E ''account_objects'' ([(''account'', JStr account),
         (''ledger_index'', JStr ''validated''), (''type'', JStr ''escrow''), (''limit'', JNum lim)] @
         (if marker \<noteq> JUndef \<and> marker \<noteq> JNull then [(''marker'', marker)] else []));
       ret (map_option (\<lambda>result.
         \<lparr> ae_escrows = map escrowObject
             (filter (\<lambda>o'. jget o' ''LedgerEntryType'' = JStr ''Escrow'')
               (asArray (jfield result ''account_objects''))),
           ae_ledgerHash = asString (jfield result ''ledger_hash''),
           ae_ledgerIndex = asNumber (jfield result ''ledger_index''),
           ae_nextMarker = jfield result ''marker'' \<rparr>) response) } }"

definition liveFromEntry :: "json \<Rightarrow> (string \<times> LiveTxStatus) option" where
  "liveFromEntry entry =
    (case jget entry ''tx'' of
       JObj tx \<Rightarrow>
        (if \<not> jtruthy (jfield tx ''hash'') then None
         else (let flat = mergeTxJsonLayers tx; h = toJsString (jfield tx ''hash'') in
           Some (h, \<lparr> lt_txHash = h, lt_validated = jtruthy (jget entry ''validated''),
             lt_ledgerIndex = asNumber (jget entry ''ledger_index''),
             lt_resultCode = asString (jget (jget entry ''meta'') ''TransactionResult''),
             lt_transactionType = asString (jfield flat ''TransactionType''),
             lt_account = classicAddress (jfield flat ''Account''),
             lt_escrow = escrowProtocolFieldsFromTxJson flat \<rparr>)))
     | _ \<Rightarrow> None)"

fun collectLive :: "json list \<Rightarrow> (string, LiveTxStatus) jsmap \<Rightarrow> (string, LiveTxStatus) jsmap" where
  "collectLive [] out = out"
| "collectLive (e # es) out = collectLive es
     (case liveFromEntry e of None \<Rightarrow> out | Some (h, l) \<Rightarrow> jm_set out h l)"

definition getAccountTxResults :: "env \<Rightarrow> string \<Rightarrow> (string, LiveTxStatus) jsmap option io" where
  "getAccountTxResults E account = do {
     connected \<leftarrow> getClient E;
     if \<not> connected then ret None
     else do {
       response \<leftarrow> rippled E ''account_tx'' [(''account'', JStr account), (''ledger_index_min'', JNum (-1)),
         (''ledger_index_max'', JNum (-1)), (''limit'', JNum 50)];
       ret (map_option (\<lambda>result. collectLive (asArray (jfield result ''transactions'')) []) response) } }"

text \<open>\<open>submitAndWaitFromWallet\<close>: the wallet is the seed it was made from.\<close>

definition submitAndWaitFromWallet :: "env \<Rightarrow> payload \<Rightarrow> string \<Rightarrow> string option io" where
  "submitAndWaitFromWallet E transaction seed = do {
     connected \<leftarrow> getClient E;
     if \<not> connected then ret None
     else do {
       n \<leftarrow> tick;
       ret (case rippledSubmit E n transaction seed of
         None \<Rightarrow> None
       | Some result \<Rightarrow>
          (case jfield result ''hash'' of JStr h \<Rightarrow> if h = '''' then None else Some (toUpperCase h)
           | _ \<Rightarrow> None)) } }"

section \<open>Frames\<close>

text \<open>A call to rippled changes nothing in the store but the tick count.\<close>

lemma xrpl_calls_keep:
  assumes "\<And>w g. f (ticks_update g w) = f w"
  shows "keeps f (getTxStatus E h)" "keeps f (getAccountEscrowsPage E a l m)"
    "keeps f (getAccountTxResults E a)" "keeps f (submitAndWaitFromWallet E t s)"
  unfolding getTxStatus_def getAccountEscrowsPage_def getAccountTxResults_def
    submitAndWaitFromWallet_def getClient_def rippled_def tick_def Let_def
  by (intro keeps_intros keeps_modify assms)+

lemma tle_xrpl [tle_intros]:
  "steps ticks_le (getTxStatus E h)" "steps ticks_le (getAccountEscrowsPage E a l m)"
  "steps ticks_le (getAccountTxResults E a)" "steps ticks_le (submitAndWaitFromWallet E t s)"
  unfolding getTxStatus_def getAccountEscrowsPage_def getAccountTxResults_def
    submitAndWaitFromWallet_def getClient_def rippled_def Let_def
  by (intro tle_intros)+

lemma notify_xrpl [notify_intros]:
  "steps (notify_rel E') (getTxStatus E h)" "steps (notify_rel E') (getAccountEscrowsPage E a l m)"
  "steps (notify_rel E') (getAccountTxResults E a)" "steps (notify_rel E') (submitAndWaitFromWallet E t s)"
  by (intro notify_keeps xrpl_calls_keep tle_xrpl; simp)+

lemma getTxStatus_frame [simp]:
  "contracts (exec (getTxStatus E h) w) = contracts w"
  "evidences (exec (getTxStatus E h) w) = evidences w"
  "disputes (exec (getTxStatus E h) w) = disputes w"
  "decisions (exec (getTxStatus E h) w) = decisions w"
  "xrplTxs (exec (getTxStatus E h) w) = xrplTxs w"
  "notifications (exec (getTxStatus E h) w) = notifications w"
  "outboxById (exec (getTxStatus E h) w) = outboxById w"
  "outboxIdempotency (exec (getTxStatus E h) w) = outboxIdempotency w"
  "audits (exec (getTxStatus E h) w) = audits w" "events (exec (getTxStatus E h) w) = events w"
  "ingestionDedup (exec (getTxStatus E h) w) = ingestionDedup w"
  "delayedJobs (exec (getTxStatus E h) w) = delayedJobs w"
  "verifierVotes (exec (getTxStatus E h) w) = verifierVotes w"
  "verifierRegistry (exec (getTxStatus E h) w) = verifierRegistry w"
  "settlements (exec (getTxStatus E h) w) = settlements w"
  "exportJobs (exec (getTxStatus E h) w) = exportJobs w"
  "dlq (exec (getTxStatus E h) w) = dlq w"
  "webhookQueue (exec (getTxStatus E h) w) = webhookQueue w"
  "counters (exec (getTxStatus E h) w) = counters w"
  by (rule xrpl_calls_keep(1) [THEN keepsD], simp)+

lemma getAccountTxResults_frame [simp]:
  "contracts (exec (getAccountTxResults E a) w) = contracts w"
  "evidences (exec (getAccountTxResults E a) w) = evidences w"
  "disputes (exec (getAccountTxResults E a) w) = disputes w"
  "decisions (exec (getAccountTxResults E a) w) = decisions w"
  "xrplTxs (exec (getAccountTxResults E a) w) = xrplTxs w"
  "notifications (exec (getAccountTxResults E a) w) = notifications w"
  "outboxById (exec (getAccountTxResults E a) w) = outboxById w"
  "outboxIdempotency (exec (getAccountTxResults E a) w) = outboxIdempotency w"
  "audits (exec (getAccountTxResults E a) w) = audits w"
  "events (exec (getAccountTxResults E a) w) = events w"
  "ingestionDedup (exec (getAccountTxResults E a) w) = ingestionDedup w"
  "delayedJobs (exec (getAccountTxResults E a) w) = delayedJobs w"
  "verifierVotes (exec (getAccountTxResults E a) w) = verifierVotes w"
  "verifierRegistry (exec (getAccountTxResults E a) w) = verifierRegistry w"
  "settlements (exec (getAccountTxResults E a) w) = settlements w"
  "exportJobs (exec (getAccountTxResults E a) w) = exportJobs w"
  "dlq (exec (getAccountTxResults E a) w) = dlq w"
  "webhookQueue (exec (getAccountTxResults E a) w) = webhookQueue w"
  "counters (exec (getAccountTxResults E a) w) = counters w"
  by (rule xrpl_calls_keep(3) [THEN keepsD], simp)+

lemma submitAndWait_frame [simp]:
  "contracts (exec (submitAndWaitFromWallet E t s) w) = contracts w"
  "evidences (exec (submitAndWaitFromWallet E t s) w) = evidences w"
  "disputes (exec (submitAndWaitFromWallet E t s) w) = disputes w"
  "decisions (exec (submitAndWaitFromWallet E t s) w) = decisions w"
  "xrplTxs (exec (submitAndWaitFromWallet E t s) w) = xrplTxs w"
  "notifications (exec (submitAndWaitFromWallet E t s) w) = notifications w"
  "outboxById (exec (submitAndWaitFromWallet E t s) w) = outboxById w"
  "outboxIdempotency (exec (submitAndWaitFromWallet E t s) w) = outboxIdempotency w"
  "audits (exec (submitAndWaitFromWallet E t s) w) = audits w"
  "events (exec (submitAndWaitFromWallet E t s) w) = events w"
  "ingestionDedup (exec (submitAndWaitFromWallet E t s) w) = ingestionDedup w"
  "delayedJobs (exec (submitAndWaitFromWallet E t s) w) = delayedJobs w"
  "verifierVotes (exec (submitAndWaitFromWallet E t s) w) = verifierVotes w"
  "verifierRegistry (exec (submitAndWaitFromWallet E t s) w) = verifierRegistry w"
  "settlements (exec (submitAndWaitFromWallet E t s) w) = settlements w"
  "exportJobs (exec (submitAndWaitFromWallet E t s) w) = exportJobs w"
  "dlq (exec (submitAndWaitFromWallet E t s) w) = dlq w"
  "webhookQueue (exec (submitAndWaitFromWallet E t s) w) = webhookQueue w"
  "counters (exec (submitAndWaitFromWallet E t s) w) = counters w"
  by (rule xrpl_calls_keep(4) [THEN keepsD], simp)+

end
