(* ===== verification/Contracts.thy ===== *)
theory Contracts
  imports Xrpl
begin

text \<open>
  The contract routes of \<open>index.ts\<close>: creation, listing, reading, the status machine of
  \<open>isContractStatusTransitionAllowed\<close> and the escrow anchor, which moves a contract to
  \<open>escrow_validated\<close> when rippled reports the validated \<open>EscrowCreate\<close>.
\<close>

section \<open>Operations\<close>

definition parseOptionalIso :: "env \<Rightarrow> string option \<Rightarrow> string option option" where
  \<comment> \<open>\<open>None\<close>: the timestamp does not parse and the function throws\<close>
  "parseOptionalIso E value =
    (case value of None \<Rightarrow> Some None
     | Some v \<Rightarrow> if v = '''' then Some None
         else (case dateParse E v of None \<Rightarrow> None | Some _ \<Rightarrow> Some (Some v)))"

fun isContractStatusTransitionAllowed :: "ContractStatus \<Rightarrow> ContractStatus \<Rightarrow> bool" where
  "isContractStatusTransitionAllowed Draft to = (to \<in> set [EscrowPending, Cancelled])"
| "isContractStatusTransitionAllowed EscrowPending to = (to \<in> set [EscrowValidated, Cancelled])"
| "isContractStatusTransitionAllowed EscrowValidated to = (to \<in> set [Active, Cancelled])"
| "isContractStatusTransitionAllowed Active to = (to \<in> set [CClosed, Cancelled])"
| "isContractStatusTransitionAllowed CClosed to = False"
| "isContractStatusTransitionAllowed Cancelled to = False"

record createContractBody =
  cb_tenantId :: string
  cb_landlordId :: string
  cb_depositAmount :: "string option"
  cb_stakeAmount :: "string option"
  cb_startsAt :: "string option"
  cb_endsAt :: "string option"

definition optionally :: "('a \<Rightarrow> bool) \<Rightarrow> 'a option \<Rightarrow> bool" where
  "optionally P v = (case v of None \<Rightarrow> True | Some x \<Rightarrow> P x)"

definition createContractSchema :: "env \<Rightarrow> createContractBody \<Rightarrow> bool" where
  "createContractSchema E b = (cb_tenantId b \<noteq> '''' \<and> cb_landlordId b \<noteq> '''' \<and>
     optionally allDigits (cb_depositAmount b) \<and> optionally allDigits (cb_stakeAmount b) \<and>
     optionally (zodDatetime E) (cb_startsAt b) \<and> optionally (zodDatetime E) (cb_endsAt b))"

definition newContract :: "createContractBody \<Rightarrow> string \<Rightarrow> string \<Rightarrow> Contract" where
  "newContract d i now = \<lparr> ct_id = i, ct_tenantId = cb_tenantId d, ct_landlordId = cb_landlordId d,
     ct_status = Draft, ct_escrowCreateTxHash = None, ct_depositAmount = cb_depositAmount d,
     ct_stakeAmount = cb_stakeAmount d, ct_startsAt = cb_startsAt d, ct_endsAt = cb_endsAt d,
     ct_createdAt = now, ct_updatedAt = now \<rparr>"

definition postContractH ::
  "env \<Rightarrow> createContractBody option \<Rightarrow> BluesafeAuth option \<Rightarrow> Contract option handler" where
  "postContractH E body auth =
    (case safeParse (createContractSchema E) body of
       None \<Rightarrow> ret (HttpErr 400 ''B2_VALIDATION_ERROR'')
     | Some d \<Rightarrow>
        if \<not> assertCreateContractAllowed E auth (cb_tenantId d) (cb_landlordId d)
        then ret (HttpErr 403 ''B2_FORBIDDEN'')
        else do {
          now \<leftarrow> nowIso E;
          i \<leftarrow> randomId E ''ctr'';
          saveContract (newContract d i now);
          writeAudit E (audit ''contract'' i ''contract.created'' ''operator_local'' None
            (Some [(''tenantId'', JStr (cb_tenantId d)), (''landlordId'', JStr (cb_landlordId d)),
              (''status'', JStr ''draft''), (''depositAmount'', jopt (cb_depositAmount d)),
              (''stakeAmount'', jopt (cb_stakeAmount d)), (''startsAt'', jopt (cb_startsAt d)),
              (''endsAt'', jopt (cb_endsAt d))]) None);
          emitEvent E ''contract.created'' ''contract'' i [(''status'', JStr ''draft'')];
          created \<leftarrow> getContract i;
          ret (HttpOk 201 created) })"

definition postContract :: "env \<Rightarrow> request \<Rightarrow> createContractBody option \<Rightarrow> Contract option handler" where
  "postContract E req body = v1 E req anyRole [] (postContractH E body)"

record contractListQuery =
  cq_limit :: "int option"
  cq_offset :: "int option"
  cq_status :: "ContractStatus option"
  cq_tenantId :: "string option"
  cq_landlordId :: "string option"
  cq_updatedFrom :: "string option"
  cq_updatedTo :: "string option"

definition contractListQuerySchema :: "contractListQuery \<Rightarrow> bool" where
  "contractListQuerySchema q = (pageOk (cq_limit q) (cq_offset q) \<and>
     optionally (\<lambda>s. 1 \<le> length s) (cq_tenantId q) \<and> optionally (\<lambda>s. 1 \<le> length s) (cq_landlordId q) \<and>
     optionally (\<lambda>s. 4 \<le> length s) (cq_updatedFrom q) \<and> optionally (\<lambda>s. 4 \<le> length s) (cq_updatedTo q))"

text \<open>The caller's own identity overrides the filter of a tenant or landlord.\<close>

definition scopedContractFilter ::
  "env \<Rightarrow> BluesafeAuth option \<Rightarrow> ContractListFilter \<Rightarrow> ContractListFilter" where
  "scopedContractFilter E auth f =
    (case auth of None \<Rightarrow> f
     | Some a \<Rightarrow>
        if \<not> authEnabled E then f
        else if ba_role a = Tenant then f\<lparr>cf_tenantId := ba_tenantId a\<rparr>
        else if ba_role a = Landlord then f\<lparr>cf_landlordId := ba_landlordId a\<rparr>
        else f)"

definition listContractsH ::
  "env \<Rightarrow> contractListQuery option \<Rightarrow> BluesafeAuth option \<Rightarrow> Contract Paginated handler" where
  "listContractsH E query auth =
    (case safeParse contractListQuerySchema query of
       None \<Rightarrow> ret (HttpErr 400 ''B2_VALIDATION_ERROR'')
     | Some q \<Rightarrow>
        (case (parseOptionalIso E (cq_updatedFrom q), parseOptionalIso E (cq_updatedTo q)) of
           (Some updatedFrom, Some updatedTo) \<Rightarrow> do {
             let f = \<lparr> cf_status = cq_status q, cf_tenantId = cq_tenantId q, cf_landlordId = cq_landlordId q,
               cf_updatedFrom = updatedFrom, cf_updatedTo = updatedTo \<rparr>;
             page \<leftarrow> listContractsPage E (scopedContractFilter E auth f)
               (pageParams (cq_limit q) (cq_offset q));
             ret (HttpOk 200 page) }
         | _ \<Rightarrow> ret (HttpErr 400 ''B2_VALIDATION_ERROR'')))"

definition listContracts ::
  "env \<Rightarrow> request \<Rightarrow> contractListQuery option \<Rightarrow> Contract Paginated handler" where
  "listContracts E req query = v1 E req anyRole [] (listContractsH E query)"

definition getContractH :: "env \<Rightarrow> string \<Rightarrow> BluesafeAuth option \<Rightarrow> Contract handler" where
  "getContractH E contractId auth = do {
     contract \<leftarrow> getContract contractId;
     (case contract of
        None \<Rightarrow> ret (HttpErr 404 ''B2_NOT_FOUND'')
      | Some c \<Rightarrow>
         if \<not> canAccessContract E auth c then ret (HttpErr 403 ''B2_FORBIDDEN'')
         else ret (HttpOk 200 c)) }"

definition getContractRoute :: "env \<Rightarrow> request \<Rightarrow> string \<Rightarrow> Contract handler" where
  "getContractRoute E req contractId = v1 E req anyRole [] (getContractH E contractId)"

definition statusPayload :: "Contract \<Rightarrow> payload" where
  "statusPayload c = [(''contractId'', JStr (ct_id c)), (''status'', JStr (contractStatus_str (ct_status c)))]"

definition patchContractStatusH ::
  "env \<Rightarrow> string \<Rightarrow> ContractStatus option \<Rightarrow> BluesafeAuth option \<Rightarrow> Contract handler" where
  "patchContractStatusH E contractId body auth =
    (case body of
       None \<Rightarrow> ret (HttpErr 400 ''B2_VALIDATION_ERROR'')
     | Some to \<Rightarrow> do {
        contract \<leftarrow> getContract contractId;
        (case contract of
           None \<Rightarrow> ret (HttpErr 404 ''B2_NOT_FOUND'')
         | Some contract \<Rightarrow>
            if \<not> canAccessContract E auth contract then ret (HttpErr 403 ''B2_FORBIDDEN'')
            else if \<not> isContractStatusTransitionAllowed (ct_status contract) to
            then ret (HttpErr 409 ''B2_VALIDATION_ERROR'')
            else do {
              let before = ct_status contract;
              t \<leftarrow> nowIso E;
              let contract = contract\<lparr>ct_status := to, ct_updatedAt := t\<rparr>;
              saveContract contract;
              writeAudit E (audit ''contract'' (ct_id contract) ''contract.status_changed'' ''operator_local''
                (Some [(''status'', JStr (contractStatus_str before))])
                (Some [(''status'', JStr (contractStatus_str (ct_status contract)))]) None);
              emitEvent E ''contract.status_changed'' ''contract'' (ct_id contract)
                [(''before'', JStr (contractStatus_str before)),
                 (''after'', JStr (contractStatus_str (ct_status contract)))];
              contractForN \<leftarrow> getContract (ct_id contract);
              (case contractForN of
                 None \<Rightarrow> ret ()
               | Some n \<Rightarrow>
                  if ct_status contract = CClosed then
                    maybeEnqueueDomainNotifications E ''contract.lifecycle_closed''
                      (contractPartyRecipientIds n) (statusPayload contract)
                  else if ct_status contract = Cancelled then
                    maybeEnqueueDomainNotifications E ''refund.contract_cancelled''
                      (contractPartyRecipientIds n) (statusPayload contract)
                  else ret ());
              ret (HttpOk 200 contract) }) })"

definition patchContractStatus :: "env \<Rightarrow> request \<Rightarrow> string \<Rightarrow> ContractStatus option \<Rightarrow> Contract handler" where
  "patchContractStatus E req contractId body = v1 E req anyRole [] (patchContractStatusH E contractId body)"

text \<open>
  The lookups of the escrow anchor: \<open>tx\<close> first, then the account histories of the two parties. A call
  that throws ends the whole \<open>try\<close> block (\<open>None\<close>).
\<close>

definition lookupEscrowTx :: "env \<Rightarrow> Contract \<Rightarrow> string \<Rightarrow> LiveTxStatus option option io" where
  "lookupEscrowTx E contract txHash = do {
     first \<leftarrow> getTxStatus E txHash;
     (case first of
        None \<Rightarrow> ret None
      | Some (Some live) \<Rightarrow> ret (Some (Some live))
      | Some None \<Rightarrow> do {
         second \<leftarrow> (if ct_tenantId contract \<noteq> '''' then getAccountTxResults E (ct_tenantId contract)
           else ret (Some []));
         (case second of
            None \<Rightarrow> ret None
          | Some m \<Rightarrow>
             (case jm_get m txHash of
                Some live \<Rightarrow> ret (Some (Some live))
              | None \<Rightarrow> do {
                 third \<leftarrow> (if ct_landlordId contract \<noteq> '''' then getAccountTxResults E (ct_landlordId contract)
                   else ret (Some []));
                 ret (map_option (\<lambda>m'. jm_get m' txHash) third) })) }) }"

definition confirmsEscrow :: "LiveTxStatus option option \<Rightarrow> bool" where
  "confirmsEscrow live = (case live of Some (Some l) \<Rightarrow>
      lt_validated l \<and> lt_resultCode l = Some ''tesSUCCESS'' \<and> lt_transactionType l = Some ''EscrowCreate''
    | _ \<Rightarrow> False)"

definition contractEscrowAnchorSchema :: "string \<Rightarrow> bool" where
  "contractEscrowAnchorSchema txHash = (8 \<le> length txHash \<and> length txHash \<le> 128)"

definition escrowAnchorH :: "env \<Rightarrow> string \<Rightarrow> string option \<Rightarrow> BluesafeAuth option \<Rightarrow> Contract handler" where
  "escrowAnchorH E contractId body auth =
    (case safeParse contractEscrowAnchorSchema body of
       None \<Rightarrow> ret (HttpErr 400 ''B2_VALIDATION_ERROR'')
     | Some raw \<Rightarrow> do {
        contract \<leftarrow> getContract contractId;
        (case contract of
           None \<Rightarrow> ret (HttpErr 404 ''B2_NOT_FOUND'')
         | Some contract \<Rightarrow>
            if \<not> canAccessContract E auth contract then ret (HttpErr 403 ''B2_FORBIDDEN'')
            else if ct_status contract = Active \<or> ct_status contract = CClosed \<or> ct_status contract = Cancelled
            then ret (HttpErr 409 ''B2_VALIDATION_ERROR'')
            else (let txHash = trim raw in
              if ct_status contract = EscrowValidated \<and> truthy (ct_escrowCreateTxHash contract) \<and>
                 ct_escrowCreateTxHash contract \<noteq> Some txHash
              then ret (HttpErr 409 ''B2_VALIDATION_ERROR'')
              else if ct_status contract = Draft \<and> \<not> isContractStatusTransitionAllowed Draft EscrowPending
              then ret (HttpErr 409 ''B2_VALIDATION_ERROR'')
              else do {
                let beforeStatus = ct_status contract;
                let beforeEscrowHash = ct_escrowCreateTxHash contract;
                let pending = (if ct_status contract = Draft then EscrowPending else ct_status contract);
                live \<leftarrow> (if xrplEnabled E then lookupEscrowTx E contract txHash else ret None);
                let reconciled = (confirmsEscrow live \<and> pending = EscrowPending \<and>
                  isContractStatusTransitionAllowed EscrowPending EscrowValidated);
                t \<leftarrow> nowIso E;
                let contract = contract\<lparr>ct_escrowCreateTxHash := Some txHash,
                  ct_status := (if reconciled then EscrowValidated else pending), ct_updatedAt := t\<rparr>;
                saveContract contract;
                writeAudit E (audit ''contract'' (ct_id contract) ''contract.escrow_anchor_updated''
                  ''operator_local''
                  (Some [(''status'', JStr (contractStatus_str beforeStatus)),
                    (''escrowCreateTxHash'', jopt beforeEscrowHash)])
                  (Some [(''status'', JStr (contractStatus_str (ct_status contract))),
                    (''escrowCreateTxHash'', JStr txHash), (''reconciledToValidated'', JBool reconciled)])
                  None);
                emitEvent E ''contract.escrow_anchor_updated'' ''contract'' (ct_id contract)
                  [(''txHash'', JStr txHash), (''status'', JStr (contractStatus_str (ct_status contract))),
                   (''reconciledToValidated'', JBool reconciled)];
                ret (HttpOk 200 contract) })) })"

definition escrowAnchor :: "env \<Rightarrow> request \<Rightarrow> string \<Rightarrow> string option \<Rightarrow> Contract handler" where
  "escrowAnchor E req contractId body = v1 E req anyRole [] (escrowAnchorH E contractId body)"

section \<open>Life of a contract\<close>

abbreviation contract_moves :: "ContractStatus \<Rightarrow> ContractStatus \<Rightarrow> bool" where
  "contract_moves \<equiv> isContractStatusTransitionAllowed\<^sup>*\<^sup>*"

text \<open>The reachable statuses, computed.\<close>

fun contract_reach :: "ContractStatus \<Rightarrow> ContractStatus set" where
  "contract_reach Draft = {Draft, EscrowPending, EscrowValidated, Active, CClosed, Cancelled}"
| "contract_reach EscrowPending = {EscrowPending, EscrowValidated, Active, CClosed, Cancelled}"
| "contract_reach EscrowValidated = {EscrowValidated, Active, CClosed, Cancelled}"
| "contract_reach Active = {Active, CClosed, Cancelled}"
| "contract_reach CClosed = {CClosed}"
| "contract_reach Cancelled = {Cancelled}"

lemma contract_moves_reach: "contract_moves s t \<Longrightarrow> t \<in> contract_reach s"
proof (induction rule: rtranclp_induct)
  case base
  show ?case by (cases s) auto
next
  case (step t u)
  then show ?case by (cases s; cases t) auto
qed

text \<open>
  Later versions of a contract: parties, amounts and dates are fixed; the status moves along allowed
  transitions; a closed or cancelled contract does not change; once validated, the escrow hash stays.
\<close>

definition ct_step :: "Contract \<Rightarrow> Contract \<Rightarrow> bool" where
  "ct_step c c' = (ct_id c' = ct_id c \<and> ct_tenantId c' = ct_tenantId c \<and>
     ct_landlordId c' = ct_landlordId c \<and> ct_depositAmount c' = ct_depositAmount c \<and>
     ct_stakeAmount c' = ct_stakeAmount c \<and> ct_startsAt c' = ct_startsAt c \<and>
     ct_endsAt c' = ct_endsAt c \<and> ct_createdAt c' = ct_createdAt c \<and>
     contract_moves (ct_status c) (ct_status c') \<and>
     (ct_status c \<in> {CClosed, Cancelled} \<longrightarrow> c' = c) \<and>
     (ct_status c \<in> {EscrowValidated, Active} \<and> truthy (ct_escrowCreateTxHash c) \<longrightarrow>
        ct_escrowCreateTxHash c' = ct_escrowCreateTxHash c))"

lemma ct_step_trans:
  assumes "ct_step c c'" "ct_step c' c''"
  shows "ct_step c c''"
proof -
  have "ct_status c' \<in> contract_reach (ct_status c)"
    using assms(1) by (intro contract_moves_reach) (simp add: ct_step_def)
  moreover have "contract_moves (ct_status c) (ct_status c'')"
    using assms unfolding ct_step_def by (meson rtranclp_trans)
  ultimately show ?thesis
    using assms by (auto simp: ct_step_def)
qed

interpretation clife: minted_life contracts ct_id ct_step E "''ctr''" for E
  by unfold_locales (simp add: ct_step_def, rule ct_step_trans)

lemma ct_step_status:
  assumes "isContractStatusTransitionAllowed (ct_status c) to"
  shows "ct_step c (c\<lparr>ct_status := to, ct_updatedAt := t\<rparr>)"
  using assms by (cases "ct_status c") (auto simp: ct_step_def)

section \<open>Contract handlers in the life cycle\<close>

lemma clife_postContractH:
  assumes "env_ok E"
  shows "steps (clife.life E) (postContractH E body auth)"
proof (rule stepsI)
  fix w
  show "clife.life E w (exec (postContractH E body auth) w)"
  proof (cases "\<exists>d. safeParse (createContractSchema E) body = Some d \<and>
      assertCreateContractAllowed E auth (cb_tenantId d) (cb_landlordId d)")
    case False
    then have "exec (postContractH E body auth) w = w"
      by (auto simp: postContractH_def split: option.splits)
    then show ?thesis by (simp add: clife.life_refl)
  next
    case True
    then obtain d where d: "safeParse (createContractSchema E) body = Some d"
      "assertCreateContractAllowed E auth (cb_tenantId d) (cb_landlordId d)" by blast
    let ?now = "toISOString (clockMs E (ticks w))" and ?i = "''ctr_'' @ uuid16 E (Suc (ticks w))"
    have "contracts (exec (postContractH E body auth) w) = jm_set (contracts w) ?i (newContract d ?i ?now)"
      and "Suc (ticks w) < ticks (exec (postContractH E body auth) w)"
      using d by (simp_all add: postContractH_def run_simps newContract_def writeAudit_def
          appendAudit_def emitEvent_def appendEvent_def Let_def del: safeParse_Some)
    from clife.new [OF env_okD(1) [OF assms] this(1) _ _ _ this(2)] show ?thesis
      by (simp add: newContract_def)
  qed
qed

lemma patchContractStatusH_denied:
  assumes "body = None \<or> jm_get (contracts w) i = None \<or>
    (\<exists>c. jm_get (contracts w) i = Some c \<and> (\<not> canAccessContract E auth c \<or>
      \<not> isContractStatusTransitionAllowed (ct_status c) (the body)))"
  shows "exec (patchContractStatusH E i body auth) w = w"
  using assms by (auto simp: patchContractStatusH_def run_simps split: option.splits)

lemma patchContractStatusH_contracts:
  assumes "jm_get (contracts w) i = Some c" "canAccessContract E auth c"
    "isContractStatusTransitionAllowed (ct_status c) to"
  shows "contracts (exec (patchContractStatusH E i (Some to) auth) w) =
    jm_set (contracts w) (ct_id c) (c\<lparr>ct_status := to, ct_updatedAt := toISOString (clockMs E (ticks w))\<rparr>)"
  using assms by (simp add: patchContractStatusH_def run_simps Let_def split: option.splits)

lemma tle_patchContractStatusH [tle_intros]: "steps ticks_le (patchContractStatusH E i body auth)"
  unfolding patchContractStatusH_def by (auto intro!: tle_intros)

lemma clife_patchContractStatusH: "steps (clife.life E) (patchContractStatusH E i body auth)"
proof (rule stepsI)
  fix w
  show "clife.life E w (exec (patchContractStatusH E i body auth) w)"
  proof (cases "\<exists>c to. body = Some to \<and> jm_get (contracts w) i = Some c \<and> canAccessContract E auth c \<and>
      isContractStatusTransitionAllowed (ct_status c) to")
    case False
    then have "exec (patchContractStatusH E i body auth) w = w"
      by (intro patchContractStatusH_denied) (cases body; cases "jm_get (contracts w) i"; auto)
    then show ?thesis by (simp add: clife.life_refl)
  next
    case True
    then obtain c to where c: "body = Some to" "jm_get (contracts w) i = Some c" "canAccessContract E auth c"
      "isContractStatusTransitionAllowed (ct_status c) to" by blast
    note p = patchContractStatusH_contracts [OF c(2-4), folded c(1)]
    have t: "ticks w \<le> ticks (exec (patchContractStatusH E i body auth) w)" by (rule tleD) (rule tle_intros)
    show ?thesis
      by (rule clife.update [OF p _ HOL.refl c(2) _ t]) (use c(4) in \<open>simp_all add: ct_step_status\<close>)
  qed
qed

lemma lookupEscrowTx_keeps:
  "(\<And>w g. f (ticks_update g w) = f w) \<Longrightarrow> keeps f (lookupEscrowTx E c h)"
  unfolding lookupEscrowTx_def by (intro keeps_intros xrpl_calls_keep)

lemma lookupEscrowTx_contracts [simp]: "contracts (exec (lookupEscrowTx E c h) w) = contracts w"
  by (rule lookupEscrowTx_keeps [THEN keepsD]) simp

lemma tle_lookupEscrowTx [tle_intros]: "steps ticks_le (lookupEscrowTx E c h)"
  unfolding lookupEscrowTx_def by (auto intro!: tle_intros split: option.splits)

lemma tle_escrowAnchorH [tle_intros]: "steps ticks_le (escrowAnchorH E i body auth)"
  unfolding escrowAnchorH_def Let_def by (auto intro!: tle_intros split: option.splits)

text \<open>The guards of the escrow anchor, and the contract it writes when they pass.\<close>

definition anchorable :: "env \<Rightarrow> BluesafeAuth option \<Rightarrow> Contract \<Rightarrow> string \<Rightarrow> bool" where
  "anchorable E auth c raw = (contractEscrowAnchorSchema raw \<and> canAccessContract E auth c \<and>
     ct_status c \<in> {Draft, EscrowPending, EscrowValidated} \<and>
     (ct_status c = EscrowValidated \<and> truthy (ct_escrowCreateTxHash c) \<longrightarrow>
        ct_escrowCreateTxHash c = Some (trim raw)))"

definition anchored :: "Contract \<Rightarrow> string \<Rightarrow> bool \<Rightarrow> string \<Rightarrow> Contract" where
  "anchored c txHash confirmed t = c\<lparr>ct_escrowCreateTxHash := Some txHash,
     ct_status := (if ct_status c = EscrowValidated \<or> confirmed then EscrowValidated else EscrowPending),
     ct_updatedAt := t\<rparr>"

lemma anchored_step:
  "anchorable E auth c raw \<Longrightarrow> ct_step c (anchored c (trim raw) b t)"
proof -
  assume a: "anchorable E auth c raw"
  have "contract_moves Draft EscrowPending" "contract_moves EscrowPending EscrowValidated" by auto
  moreover from this have "contract_moves Draft EscrowValidated" by (rule rtranclp_trans)
  ultimately show ?thesis
    using a by (cases "ct_status c") (auto simp: ct_step_def anchored_def anchorable_def)
qed

lemma escrowAnchorH_denied:
  assumes "\<And>c raw. body = Some raw \<Longrightarrow> jm_get (contracts w) i = Some c \<Longrightarrow> \<not> anchorable E auth c raw"
  shows "exec (escrowAnchorH E i body auth) w = w"
proof (cases "safeParse contractEscrowAnchorSchema body")
  case None
  then show ?thesis by (simp add: escrowAnchorH_def)
next
  case (Some raw)
  then have r: "body = Some raw" "contractEscrowAnchorSchema raw" by simp_all
  show ?thesis
  proof (cases "jm_get (contracts w) i")
    case None
    with r show ?thesis by (simp add: escrowAnchorH_def run_simps safeParse_def)
  next
    case (Some c)
    then have "\<not> anchorable E auth c raw" using assms r by auto
    with Some r show ?thesis
      by (cases "ct_status c") (auto simp: escrowAnchorH_def run_simps anchorable_def Let_def safeParse_def)
  qed
qed

lemma escrowAnchorH_contracts:
  assumes "jm_get (contracts w) i = Some c" "anchorable E auth c raw"
  defines "m \<equiv> if xrplEnabled E then lookupEscrowTx E c (trim raw) else ret None"
  shows "contracts (exec (escrowAnchorH E i (Some raw) auth) w) = jm_set (contracts w) (ct_id c)
     (anchored c (trim raw) (confirmsEscrow (valu m w)) (toISOString (clockMs E (ticks (exec m w)))))"
  using assms
  by (cases "ct_status c")
    (auto simp: escrowAnchorH_def run_simps anchorable_def anchored_def Let_def safeParse_def)

lemma clife_escrowAnchorH: "steps (clife.life E) (escrowAnchorH E i body auth)"
proof (rule stepsI)
  fix w
  show "clife.life E w (exec (escrowAnchorH E i body auth) w)"
  proof (cases "\<exists>c raw. body = Some raw \<and> jm_get (contracts w) i = Some c \<and> anchorable E auth c raw")
    case False
    then have "exec (escrowAnchorH E i body auth) w = w" by (intro escrowAnchorH_denied) auto
    then show ?thesis by (simp add: clife.life_refl)
  next
    case True
    then obtain c raw where c: "body = Some raw" "jm_get (contracts w) i = Some c"
      "anchorable E auth c raw" by blast
    note p = escrowAnchorH_contracts [OF c(2,3), folded c(1)]
    have t: "ticks w \<le> ticks (exec (escrowAnchorH E i body auth) w)" by (rule tleD) (rule tle_intros)
    show ?thesis
      by (rule clife.update [OF p _ HOL.refl c(2) anchored_step [OF c(3)] t]) (simp add: anchored_def)
  qed
qed

section \<open>Routes\<close>

lemma tle_contract_routes [tle_intros]:
  "steps ticks_le (postContract E req cb)" "steps ticks_le (patchContractStatus E req i to)"
  "steps ticks_le (escrowAnchor E req i h)"
  unfolding postContract_def postContractH_def patchContractStatus_def escrowAnchor_def
  by (auto intro!: tle_intros)

lemma core_lookupEscrowTx [core_intros]: "core_obs f \<Longrightarrow> keeps f (lookupEscrowTx E c h)"
  by (rule lookupEscrowTx_keeps) (simp add: core_ticks)

lemma core_contract_routes [core_intros]:
  assumes "core_obs f" "\<And>w g. f (contracts_update g w) = f w"
  shows "keeps f (postContract E req cb)" "keeps f (patchContractStatus E req i to)"
    "keeps f (escrowAnchor E req i h)"
  unfolding postContract_def postContractH_def patchContractStatus_def patchContractStatusH_def
    escrowAnchor_def escrowAnchorH_def Let_def
  by (auto intro!: core_intros assms split: option.splits)

lemma notify_saveContract [notify_intros]: "steps (notify_rel E) (saveContract c)"
  unfolding saveContract_def by (rule notify_modify) simp

lemma notify_reads [notify_intros]:
  "steps (notify_rel E) (getContract i)" "steps (notify_rel E) (hasContract i)"
  "steps (notify_rel E) (getEvidence i)" "steps (notify_rel E) (findEvidenceByCid i)"
  "steps (notify_rel E) (countEvidenceVersions i j k)" "steps (notify_rel E) (hasEvidence i)"
  "steps (notify_rel E) (listEvidencesPastRetention i)" "steps (notify_rel E) (getDispute i)"
  "steps (notify_rel E) (listDisputeVerifierVotes i)"
  "steps (notify_rel E) (listDisputeVerifierRegistry E')" "steps (notify_rel E) (getXrplTx i)"
  "steps (notify_rel E) listXrplTxs" "steps (notify_rel E) (getSettlement i)"
  "steps (notify_rel E) (getExportJob i)" "steps (notify_rel E) (listDisputesPage E' df p)"
  by (simp_all add: steps_def repo_reads nrel.refl)

lemma notify_lookupEscrowTx [notify_intros]: "steps (notify_rel E') (lookupEscrowTx E c h)"
  unfolding lookupEscrowTx_def by (auto intro!: notify_intros split: option.splits)

lemma notify_contract_routes [notify_intros]:
  assumes "env_ok E"
  shows "steps (notify_rel E) (postContract E req cb)" "steps (notify_rel E) (patchContractStatus E req i to)"
    "steps (notify_rel E) (escrowAnchor E req i h)"
  unfolding postContract_def postContractH_def patchContractStatus_def patchContractStatusH_def
    escrowAnchor_def escrowAnchorH_def Let_def
  by (auto intro!: notify_intros assms split: option.splits)

lemma clife_v1: "(\<And>auth. steps (clife.life E) (h auth)) \<Longrightarrow> steps (clife.life E) (v1 E' req roles scopes h)"
  by (rule steps_v1) (auto intro: clife.life_refl)

lemma clife_contract_routes:
  assumes "env_ok E"
  shows "steps (clife.life E) (postContract E req cb)" "steps (clife.life E) (patchContractStatus E req i to)"
    "steps (clife.life E) (escrowAnchor E req i h)"
  unfolding postContract_def patchContractStatus_def escrowAnchor_def
  by (intro clife_v1 clife_postContractH clife_patchContractStatusH clife_escrowAnchorH assms)+

section \<open>Properties\<close>

text \<open>The status route, branch by branch. A malformed body, an unknown contract, a caller who is
  not a party or staff, and a transition outside the table are answered 400, 404, 403 and 409 and
  leave the store untouched; otherwise exactly this contract is rewritten with the new status, one
  audit record with the old and the new status is appended, and no dispute, settlement, tracked
  transaction or evidence changes.\<close>

lemma patch_contract_status:
  "let m = patchContractStatusH E i body auth; w' = exec m w in
   case body of None \<Rightarrow> valu m w = HttpErr 400 ''B2_VALIDATION_ERROR'' \<and> w' = w
   | Some to \<Rightarrow>
     (case jm_get (contracts w) i of None \<Rightarrow> valu m w = HttpErr 404 ''B2_NOT_FOUND'' \<and> w' = w
      | Some c \<Rightarrow>
        if \<not> canAccessContract E auth c then valu m w = HttpErr 403 ''B2_FORBIDDEN'' \<and> w' = w
        else if \<not> isContractStatusTransitionAllowed (ct_status c) to
        then valu m w = HttpErr 409 ''B2_VALIDATION_ERROR'' \<and> w' = w
        else (\<exists>t a. valu m w = HttpOk 200 (c\<lparr>ct_status := to, ct_updatedAt := t\<rparr>) \<and>
          contracts w' = jm_set (contracts w) (ct_id c) (c\<lparr>ct_status := to, ct_updatedAt := t\<rparr>) \<and>
          audits w' = audits w @ [a] \<and> au_action a = ''contract.status_changed'' \<and>
          au_entityId a = ct_id c \<and>
          au_before a = Some [(''status'', JStr (contractStatus_str (ct_status c)))] \<and>
          au_after a = Some [(''status'', JStr (contractStatus_str to))] \<and>
          disputes w' = disputes w \<and> settlements w' = settlements w \<and> xrplTxs w' = xrplTxs w \<and>
          evidences w' = evidences w))"
  by (auto simp: patchContractStatusH_def run_simps Let_def writeAudit_appends split: option.splits)

text \<open>The contract list shows a tenant or a landlord only their own contracts, whatever filter
  they send: every item of a page is a contract that the caller may read.\<close>

lemma list_contracts_scoped:
  assumes "admitted E auth" "valu (listContractsH E q auth) w = HttpOk n page" "c \<in> set (pg_items page)"
  shows "canAccessContract E auth c \<and> c \<in> set (jm_values (contracts w))"
proof -
  obtain f p where pg: "page = paginate p (byLocaleDesc E ct_updatedAt
      (filter (contractMatches (scopedContractFilter E auth f)) (jm_values (contracts w))))"
    using assms(2) by (auto simp: listContractsH_def listContractsPage_def Let_def split: option.splits)
  then have m: "contractMatches (scopedContractFilter E auth f) c" "c \<in> set (jm_values (contracts w))"
    using assms(3) set_slice by (fastforce simp: paginate_def)+
  show ?thesis
  proof (cases "authEnabled E")
    case True
    with assms(1) obtain a where a: "auth = Some a" "ba_role a = Tenant \<longrightarrow> truthy (ba_tenantId a)"
      "ba_role a = Landlord \<longrightarrow> truthy (ba_landlordId a)"
      by (auto simp: admitted_def split: option.splits)
    with True m show ?thesis
      by (cases "ba_role a")
        (auto simp: canAccessContract_def scopedContractFilter_def contractMatches_def flt_def)
  qed (use m in \<open>simp add: canAccessContract_def\<close>)
qed

text \<open>The escrow anchor accepts a hash exactly in the states draft, escrow_pending and
  escrow_validated (there only the hash already recorded); it then stores the trimmed hash, and the
  contract becomes escrow_validated only if it already was or if XRPL is enabled and rippled returned
  a validated, successful EscrowCreate for this hash; in every other case nothing changes.\<close>

lemma escrow_anchor:
  "let m = escrowAnchorH E i (Some raw) auth; w' = exec m w in
   case jm_get (contracts w) i of None \<Rightarrow> w' = w
   | Some c \<Rightarrow>
      if \<not> anchorable E auth c raw then w' = w
      else (\<exists>t live. contracts w' = jm_set (contracts w) (ct_id c)
          (anchored c (trim raw) (xrplEnabled E \<and> confirmsEscrow live) t) \<and>
        live = valu (lookupEscrowTx E c (trim raw)) w \<and> disputes w' = disputes w \<and> xrplTxs w' = xrplTxs w)"
proof -
  have d: "keeps disputes (escrowAnchorH E i (Some raw) auth)" "keeps xrplTxs (escrowAnchorH E i (Some raw) auth)"
    unfolding escrowAnchorH_def Let_def by (auto intro!: core_intros split: option.splits)
  show ?thesis
    using escrowAnchorH_denied [of "Some raw" w i E auth] escrowAnchorH_contracts [of w i _ E auth raw]
      keepsD [OF d(1), of w] keepsD [OF d(2), of w]
    by (auto simp: Let_def confirmsEscrow_def split: option.splits)
qed

end
