(* ===== verification/XrplTracking.thy ===== *)
theory XrplTracking
  imports Contracts
begin

text \<open>
  Tracking of XRPL transactions: applying a ledger outcome to a tracked transaction and to the
  dispute whose execution waits for it (\<open>services/xrpl-tx-reconcile.ts\<close>), the tracking routes of
  \<open>index.ts\<close> (track, list, read, refresh, escrows, backfill), the policy worker
  (\<open>services/xrpl-tx-policy.worker.ts\<close>), the transaction handler of the subscribe worker
  (\<open>services/xrpl-subscribe.worker.ts\<close>) and its token bucket (\<open>services/xrpl-subscribe-rate.ts\<close>).
\<close>

section \<open>Applying a ledger outcome\<close>

definition recordXrplTxOutcomeClassified :: "OutcomeClass \<Rightarrow> unit io" where
  "recordXrplTxOutcomeClassified c = do { bump ''reconcileApplyTotal'' 1; bump (outcome_str c) 1 }"

definition trackingStatusOf :: "bool \<Rightarrow> OutcomeClass \<Rightarrow> TxTrackingStatus" where
  "trackingStatusOf validated c =
    (if validated \<and> c = Success then ValidatedSuccess
     else if validated then ValidatedFail else PendingValidation)"

definition preferTruthy :: "string option \<Rightarrow> string option \<Rightarrow> string option" where
  "preferTruthy new old = (if truthy new then new else old)"

text \<open>The fields of the tracked transaction after the assignments of \<open>applyLiveTxStatus\<close>.\<close>

definition withLiveStatus :: "LiveTxStatus \<Rightarrow> string \<Rightarrow> XrplTransaction \<Rightarrow> XrplTransaction" where
  "withLiveStatus live now tx =
    (let acct = map_option trim (lt_account live); c = classifyXrplResultCode (lt_resultCode live) in
     tx\<lparr>tx_account := (if truthy acct \<and> \<not> truthy (tx_account tx) then acct else tx_account tx),
       tx_txType := (if truthy (lt_transactionType live) then the (lt_transactionType live) else tx_txType tx),
       tx_escrowOwner := preferTruthy (ep_escrowOwner (lt_escrow live)) (tx_escrowOwner tx),
       tx_escrowDestination := preferTruthy (ep_escrowDestination (lt_escrow live)) (tx_escrowDestination tx),
       tx_escrowOfferSequence := orElse (ep_escrowOfferSequence (lt_escrow live)) (tx_escrowOfferSequence tx),
       tx_escrowSubmitterAccount :=
         preferTruthy (ep_escrowSubmitterAccount (lt_escrow live)) (tx_escrowSubmitterAccount tx),
       tx_lastCheckedAt := now,
       tx_validated := lt_validated live,
       tx_ledgerIndex := lt_ledgerIndex live,
       tx_resultCode := lt_resultCode live,
       tx_outcomeClass := Some c,
       tx_trackingStatus := trackingStatusOf (lt_validated live) c\<rparr>)"

definition outcomePayload :: "XrplTransaction \<Rightarrow> DisputeStatus \<Rightarrow> payload" where
  "outcomePayload tx s = [(''status'', JStr (disputeStatus_str s)), (''resultCode'', jopt (tx_resultCode tx)),
     (''outcomeClass'', jopt (map_option outcome_str (tx_outcomeClass tx)))]"

text \<open>The second half of \<open>applyLiveTxStatus\<close>: an execution that waits for this transaction ends.\<close>

definition resolveDispute :: "env \<Rightarrow> XrplTransaction \<Rightarrow> unit io" where
  "resolveDispute E tracked =
    (if truthy (tx_disputeId tracked) \<and> tx_validated tracked then do {
       dispute \<leftarrow> getDispute (the (tx_disputeId tracked));
       (case dispute of
          None \<Rightarrow> ret ()
        | Some d \<Rightarrow>
           if ds_status d \<noteq> ExecutionPending then ret ()
           else do {
             let before = ds_status d;
             let nextStatus = (if tx_outcomeClass tracked = Some Success then Executed else Rejected);
             t \<leftarrow> nowIso E;
             let d = d\<lparr>ds_status := nextStatus, ds_updatedAt := t\<rparr>;
             saveDispute d;
             writeAudit E (audit ''dispute'' (ds_id d) ''dispute.execution_status_updated'' ''system''
               (Some [(''status'', JStr (disputeStatus_str before))])
               (Some (outcomePayload tracked nextStatus)) None);
             emitEvent E ''dispute.execution_status_updated'' ''dispute'' (ds_id d)
               (outcomePayload tracked nextStatus);
             contractN \<leftarrow> getContract (ds_contractId d);
             (case contractN of
                None \<Rightarrow> ret ()
              | Some c \<Rightarrow>
                 maybeEnqueueDomainNotifications E
                   (if nextStatus = Executed then ''dispute.execution_completed''
                    else ''refund.dispute_execution_failed'')
                   (contractPartyRecipientIds c)
                   [(''disputeId'', JStr (ds_id d)), (''contractId'', JStr (ds_contractId d)),
                    (''txHash'', JStr (tx_txHash tracked)),
                    (''outcomeClass'', jopt (map_option outcome_str (tx_outcomeClass tracked)))]) }) }
     else ret ())"

definition applyLiveTxStatus :: "env \<Rightarrow> string \<Rightarrow> LiveTxStatus \<Rightarrow> bool io" where
  "applyLiveTxStatus E txHash live = do {
     tracked \<leftarrow> getXrplTx txHash;
     (case tracked of
        None \<Rightarrow> ret False
      | Some tx \<Rightarrow> do {
         now \<leftarrow> nowIso E;
         let tracked = withLiveStatus live now tx;
         recordXrplTxOutcomeClassified (classifyXrplResultCode (lt_resultCode live));
         saveXrplTx tracked;
         resolveDispute E tracked;
         ret True }) }"

section \<open>Routes\<close>

text \<open>
  \<open>params.txType\<close> and \<open>params.network\<close> are always given by the callers, so the fallbacks behind
  their \<open>??\<close> are not reached. \<open>randomId\<close> is only called for a new transaction.
\<close>

definition upsertTrackedTx ::
  "env \<Rightarrow> string \<Rightarrow> string \<Rightarrow> string option \<Rightarrow> string option \<Rightarrow> Network \<Rightarrow> unit io" where
  "upsertTrackedTx E txHash txType account disputeId network = do {
     now \<leftarrow> nowIso E;
     existing \<leftarrow> getXrplTx txHash;
     (case existing of
        Some e \<Rightarrow> saveXrplTx (e\<lparr>tx_txHash := txHash, tx_txType := txType,
          tx_account := orElse account (tx_account e), tx_disputeId := orElse disputeId (tx_disputeId e),
          tx_network := network, tx_lastCheckedAt := now\<rparr>)
      | None \<Rightarrow> do {
         i \<leftarrow> randomId E ''xrt'';
         saveXrplTx \<lparr> tx_id = i, tx_txHash = txHash, tx_txType = txType, tx_account = account,
           tx_disputeId = disputeId, tx_network = network, tx_trackingStatus = PendingValidation,
           tx_validated = False, tx_ledgerIndex = None, tx_resultCode = None, tx_outcomeClass = None,
           tx_retries = 0, tx_lastCheckedAt = now, tx_escrowOwner = None, tx_escrowDestination = None,
           tx_escrowOfferSequence = None, tx_escrowSubmitterAccount = None \<rparr> }) }"

record trackBody =
  tb_txHash :: string
  tb_txType :: string
  tb_account :: "string option"
  tb_network :: Network

definition trackTxSchema :: "trackBody \<Rightarrow> bool" where
  "trackTxSchema b = (8 \<le> length (tb_txHash b) \<and> tb_txType b \<noteq> '''' \<and>
     optionally (\<lambda>a. 20 \<le> length a) (tb_account b))"

text \<open>A throw of \<open>getTxStatus\<close> reaches Express, which answers 500.\<close>

definition postTrackH :: "env \<Rightarrow> trackBody option \<Rightarrow> BluesafeAuth option \<Rightarrow>
    (string \<times> TxTrackingStatus \<times> bool \<times> string option) handler" where
  "postTrackH E body auth =
    (case safeParse trackTxSchema body of
       None \<Rightarrow> ret (HttpErr 400 ''B2_VALIDATION_ERROR'')
     | Some b \<Rightarrow> do {
        upsertTrackedTx E (tb_txHash b) (tb_txType b) (tb_account b) None (tb_network b);
        live \<leftarrow> (if xrplEnabled E then getTxStatus E (tb_txHash b) else ret (Some None));
        (case live of
           None \<Rightarrow> ret (HttpErr 500 ''B2_INTERNAL_ERROR'')
         | Some l \<Rightarrow> do {
            (case l of None \<Rightarrow> ret False | Some l \<Rightarrow> applyLiveTxStatus E (tb_txHash b) l);
            tracked \<leftarrow> getXrplTx (tb_txHash b);
            writeAudit E (audit ''xrpl_tx'' (tb_txHash b) ''escrow.tx_submitted'' ''system'' None
              (Some [(''txType'', JStr (tb_txType b)), (''network'', JStr (network_str (tb_network b)))]) None);
            emitEvent E ''escrow.tx_submitted'' ''xrpl_tx'' (tb_txHash b)
              [(''txType'', JStr (tb_txType b)), (''network'', JStr (network_str (tb_network b))),
               (''account'', jopt (orElse (Option.bind tracked tx_account) (tb_account b)))];
            ret (HttpOk 202 (tb_txHash b, getOr PendingValidation (map_option tx_trackingStatus tracked),
              getOr False (map_option tx_validated tracked), Option.bind tracked tx_account)) }) })"

definition postTrack :: "env \<Rightarrow> request \<Rightarrow> trackBody option \<Rightarrow>
    (string \<times> TxTrackingStatus \<times> bool \<times> string option) handler" where
  "postTrack E req body = v1 E req anyRole [] (postTrackH E body)"

record xrplTxListQuery =
  xq_limit :: "int option"
  xq_offset :: "int option"
  xq_account :: "string option"
  xq_trackingStatus :: "string option"
  xq_validated :: "bool option"
  xq_network :: "Network option"

definition xrplTxListQuerySchema :: "xrplTxListQuery \<Rightarrow> bool" where
  "xrplTxListQuerySchema q = (pageOk (xq_limit q) (xq_offset q) \<and>
     optionally (\<lambda>a. 20 \<le> length a) (xq_account q) \<and> optionally (\<lambda>s. 1 \<le> length s) (xq_trackingStatus q))"

definition listXrplTxRoute :: "env \<Rightarrow> request \<Rightarrow> xrplTxListQuery option \<Rightarrow> XrplTransaction Paginated handler" where
  "listXrplTxRoute E req query = v1 E req anyRole [] (\<lambda>auth.
     case safeParse xrplTxListQuerySchema query of
       None \<Rightarrow> ret (HttpErr 400 ''B2_VALIDATION_ERROR'')
     | Some q \<Rightarrow> do {
        page \<leftarrow> listXrplTxsPage E \<lparr> xf_account = xq_account q, xf_trackingStatus = xq_trackingStatus q,
          xf_validated = xq_validated q, xf_network = xq_network q \<rparr> (pageParams (xq_limit q) (xq_offset q));
        ret (HttpOk 200 page) })"

definition hintFor :: "XrplTransaction \<Rightarrow> string" where
  "hintFor latest = xrplTxClientPolicyHint (tx_trackingStatus latest) (tx_validated latest)
     (getOr (classifyXrplResultCode (tx_resultCode latest)) (tx_outcomeClass latest)) (tx_resultCode latest)"

text \<open>The answer of the two read routes: the latest row and its hint.\<close>

definition latestTx :: "string \<Rightarrow> (XrplTransaction \<times> string) handler" where
  "latestTx txHash = do {
     latest \<leftarrow> getXrplTx txHash;
     (case latest of None \<Rightarrow> ret (HttpErr 500 ''B2_INTERNAL_ERROR'')
      | Some l \<Rightarrow> ret (HttpOk 200 (l, hintFor l))) }"

definition getXrplTxH ::
  "env \<Rightarrow> string \<Rightarrow> string option \<Rightarrow> BluesafeAuth option \<Rightarrow> (XrplTransaction \<times> string) handler" where
  "getXrplTxH E txHash refresh auth = do {
     tx \<leftarrow> getXrplTx txHash;
     (case tx of
        None \<Rightarrow> ret (HttpErr 404 ''B2_NOT_FOUND'')
      | Some _ \<Rightarrow> do {
         let shouldRefresh = (truthy refresh \<and> toLowerCase (the refresh) = ''true'');
         live \<leftarrow> (if shouldRefresh \<and> xrplEnabled E then getTxStatus E txHash else ret (Some None));
         (case live of
            None \<Rightarrow> ret (HttpErr 500 ''B2_INTERNAL_ERROR'')
          | Some l \<Rightarrow> do {
             (case l of None \<Rightarrow> ret False | Some l \<Rightarrow> applyLiveTxStatus E txHash l);
             latestTx txHash }) }) }"

definition getXrplTxRoute ::
  "env \<Rightarrow> request \<Rightarrow> string \<Rightarrow> string option \<Rightarrow> (XrplTransaction \<times> string) handler" where
  "getXrplTxRoute E req txHash refresh = v1 E req anyRole [] (getXrplTxH E txHash refresh)"

definition refreshXrplTxH :: "env \<Rightarrow> string \<Rightarrow> BluesafeAuth option \<Rightarrow> (XrplTransaction \<times> string) handler" where
  "refreshXrplTxH E txHash auth = do {
     tx \<leftarrow> getXrplTx txHash;
     (case tx of
        None \<Rightarrow> ret (HttpErr 404 ''B2_NOT_FOUND'')
      | Some _ \<Rightarrow>
         if \<not> xrplEnabled E then ret (HttpErr 400 ''B2_VALIDATION_ERROR'')
         else do {
           live \<leftarrow> getTxStatus E txHash;
           (case live of
              None \<Rightarrow> ret (HttpErr 500 ''B2_INTERNAL_ERROR'')
            | Some None \<Rightarrow> ret (HttpErr 404 ''B2_NOT_FOUND'')
            | Some (Some l) \<Rightarrow> do {
               applyLiveTxStatus E txHash l;
               latestTx txHash }) }) }"

definition refreshXrplTx :: "env \<Rightarrow> request \<Rightarrow> string \<Rightarrow> (XrplTransaction \<times> string) handler" where
  "refreshXrplTx E req txHash = v1 E req staff [] (refreshXrplTxH E txHash)"

definition parseRippledMarker :: "string option \<Rightarrow> json" where
  "parseRippledMarker raw = (case raw of None \<Rightarrow> JUndef
     | Some r \<Rightarrow> if r = '''' then JUndef else getOr (JStr r) (jsonParse r))"

definition getAccountEscrowsH :: "env \<Rightarrow> string \<Rightarrow> int option \<Rightarrow> string option \<Rightarrow>
    BluesafeAuth option \<Rightarrow> AccountEscrowsPage handler" where
  "getAccountEscrowsH E rawAccount limit marker auth = do {
     let account = trim rawAccount;
     if length account < 25 \<or> 50 < length account \<or> \<not> startsWith account ''r''
     then ret (HttpErr 400 ''B2_VALIDATION_ERROR'')
     else if getOr 50 limit < 10 \<or> 200 < getOr 50 limit then ret (HttpErr 400 ''B2_VALIDATION_ERROR'')
     else if \<not> xrplEnabled E then ret (HttpErr 400 ''B2_VALIDATION_ERROR'')
     else do {
       page \<leftarrow> getAccountEscrowsPage E account (Some (getOr 50 limit)) (parseRippledMarker marker);
       (case page of
          None \<Rightarrow> ret (HttpErr 502 ''B2_XRPL_UPSTREAM_ERROR'')
        | Some page \<Rightarrow> do {
           writeAudit E (audit ''xrpl_account'' account ''xrpl.account_objects_escrow'' ''operator_local''
             None None (Some [(''count'', JNum (int (length (ae_escrows page)))),
               (''ledgerIndex'', jopti (ae_ledgerIndex page))]));
           ret (HttpOk 200 page) }) } }"

definition getAccountEscrows ::
  "env \<Rightarrow> request \<Rightarrow> string \<Rightarrow> int option \<Rightarrow> string option \<Rightarrow> AccountEscrowsPage handler" where
  "getAccountEscrows E req account limit marker =
     v1 E req anyRole [] (getAccountEscrowsH E account limit marker)"

section \<open>Backfill\<close>

record backfillBody =
  bb_account :: string
  bb_fromLedger :: "int option"
  bb_resultCode :: "string option"

definition backfillSchema :: "backfillBody \<Rightarrow> bool" where
  "backfillSchema b = (20 \<le> length (bb_account b) \<and> optionally (\<lambda>l. 0 \<le> l) (bb_fromLedger b))"

definition recordXrplBackfillLiveApply :: "nat \<Rightarrow> unit io" where
  "recordXrplBackfillLiveApply n = (if 0 < n then bump ''backfillLiveApplyTotal'' n else ret ())"

definition backfillLiveOne ::
  "env \<Rightarrow> string \<Rightarrow> (string, LiveTxStatus) jsmap \<Rightarrow> XrplTransaction \<Rightarrow> bool io" where
  "backfillLiveOne E account liveStatuses tracked =
    (if truthy (tx_account tracked) \<and> tx_account tracked \<noteq> Some account then ret False
     else case jm_get liveStatuses (tx_txHash tracked) of
       None \<Rightarrow> ret False
     | Some live \<Rightarrow> applyLiveTxStatus E (tx_txHash tracked) live)"

text \<open>One iteration of the simulated backfill: the tracked transaction it stores before it applies it.\<close>

definition simulatedTx :: "string \<Rightarrow> int \<Rightarrow> string \<Rightarrow> XrplTransaction \<Rightarrow> XrplTransaction" where
  "simulatedTx resultCode fromLedger now tx =
    (let retries = tx_retries tx + 1;
         rc = (if 2 \<le> retries then resultCode else ''terQUEUED'');
         c = classifyXrplResultCode (Some rc);
         tx = tx\<lparr>tx_retries := retries, tx_lastCheckedAt := now, tx_resultCode := Some rc,
           tx_outcomeClass := Some c\<rparr> in
     if c = Success then tx\<lparr>tx_validated := True, tx_trackingStatus := ValidatedSuccess,
       tx_ledgerIndex := Some (fromLedger + int retries)\<rparr>
     else if c = Retryable \<and> retries < 3 then tx\<lparr>tx_trackingStatus := TRetryScheduled\<rparr>
     else if c = Retryable then tx\<lparr>tx_trackingStatus := ValidatedFail, tx_validated := False\<rparr>
     else tx\<lparr>tx_trackingStatus := ValidatedFail, tx_validated := True\<rparr>)"

definition liveOfTx :: "XrplTransaction \<Rightarrow> LiveTxStatus" where
  "liveOfTx tx = \<lparr> lt_txHash = tx_txHash tx, lt_validated = tx_validated tx,
     lt_ledgerIndex = tx_ledgerIndex tx, lt_resultCode = tx_resultCode tx, lt_transactionType = None,
     lt_account = None, lt_escrow = noEscrowFields \<rparr>"

definition backfillSimulatedOne :: "env \<Rightarrow> string \<Rightarrow> int \<Rightarrow> XrplTransaction \<Rightarrow> bool io" where
  "backfillSimulatedOne E resultCode fromLedger tx =
    (if tx_validated tx then ret False
     else do {
       now \<leftarrow> nowIso E;
       let tx = simulatedTx resultCode fromLedger now tx;
       saveXrplTx tx;
       applyLiveTxStatus E (tx_txHash tx) (liveOfTx tx);
       ret True })"

text \<open>\<open>None\<close>: live mode is off or the account history could not be read, and the simulation runs.\<close>

definition backfillLive :: "env \<Rightarrow> string \<Rightarrow> nat option io" where
  "backfillLive E account =
    (if \<not> xrplEnabled E then ret None
     else do {
       statuses \<leftarrow> getAccountTxResults E account;
       (case statuses of
          None \<Rightarrow> do {
            writeAudit E (audit ''xrpl_backfill'' account ''xrpl.backfill.live_failed'' ''operator_local''
              None None (Some [(''error'', JStr ''unknown error'')]));
            ret None }
        | Some m \<Rightarrow> do {
            txs \<leftarrow> listXrplTxs;
            updated \<leftarrow> for_count txs (backfillLiveOne E account m);
            recordXrplBackfillLiveApply updated;
            writeAudit E (audit ''xrpl_backfill'' account ''xrpl.backfill.live'' ''operator_local''
              None None (Some [(''updated'', JNum (int updated)), (''liveMode'', JBool True)]));
            ret (Some updated) }) })"

definition backfillH :: "env \<Rightarrow> backfillBody option \<Rightarrow> BluesafeAuth option \<Rightarrow> (nat \<times> bool) handler" where
  "backfillH E body auth =
    (case safeParse backfillSchema body of
       None \<Rightarrow> ret (HttpErr 400 ''B2_VALIDATION_ERROR'')
     | Some b \<Rightarrow> do {
        let resultCode = getOr ''tesSUCCESS'' (bb_resultCode b);
        live \<leftarrow> backfillLive E (bb_account b);
        (case live of
           Some updated \<Rightarrow> ret (HttpOk 200 (updated, True))
         | None \<Rightarrow> do {
            txs \<leftarrow> listXrplTxs;
            updated \<leftarrow> for_count txs (backfillSimulatedOne E resultCode (getOr 1 (bb_fromLedger b)));
            writeAudit E (audit ''xrpl_backfill'' (bb_account b) ''xrpl.backfill'' ''operator_local'' None None
              (Some [(''updated'', JNum (int updated)), (''resultCode'', JStr resultCode)]));
            ret (HttpOk 200 (updated, False)) }) })"

definition backfill :: "env \<Rightarrow> request \<Rightarrow> backfillBody option \<Rightarrow> (nat \<times> bool) handler" where
  "backfill E req body = v1 E req staff [] (backfillH E body)"

section \<open>Policy worker\<close>

definition XRPL_TX_POLICY_JOB_KIND :: string where
  "XRPL_TX_POLICY_JOB_KIND = ''xrpl_tx_policy_probe''"

definition xrplTxPolicyJobId :: "string \<Rightarrow> string" where
  "xrplTxPolicyJobId txHash = ''xrpl_policy:'' @ txHash"

definition policyJobBackoffMs :: "int \<Rightarrow> int \<Rightarrow> nat \<Rightarrow> int" where
  "policyJobBackoffMs baseIntervalMs maxBackoffMs nextAttempts =
    (let n = min nextAttempts 14; raw = baseIntervalMs * 2 ^ n in
     min maxBackoffMs (max baseIntervalMs raw))"

text \<open>\<open>ageMs(...) < timeout\<close>; an unparsable timestamp is infinitely old.\<close>

definition youngerThan :: "env \<Rightarrow> int \<Rightarrow> string \<Rightarrow> int \<Rightarrow> bool" where
  "youngerThan E nowMs lastCheckedAt timeout =
    (case dateParse E lastCheckedAt of None \<Rightarrow> False | Some t \<Rightarrow> nowMs - t < timeout)"

definition isPolicyCandidate :: "XrplTransaction \<Rightarrow> bool" where
  "isPolicyCandidate tx =
    (if tx_validated tx then False
     else if tx_trackingStatus tx \<noteq> PendingValidation \<and> tx_trackingStatus tx \<noteq> TRetryScheduled then False
     else if tx_outcomeClass tx = Some ManualReview then False
     else True)"

definition policyBackfillAccount :: "env \<Rightarrow> XrplTransaction \<Rightarrow> unit io" where
  "policyBackfillAccount E tx = do {
     bump ''accountBackfillTried'' 1;
     live \<leftarrow> getTxStatus E (tx_txHash tx);
     (case live of
        Some (Some l) \<Rightarrow>
         if \<not> truthy (map_option trim (lt_account l)) then ret ()
         else do {
           stored \<leftarrow> getXrplTx (tx_txHash tx);
           let latest = getOr tx stored;
           if truthy (tx_account latest) then ret ()
           else do {
             t \<leftarrow> nowIso E;
             saveXrplTx (latest\<lparr>tx_account := map_option trim (lt_account l), tx_lastCheckedAt := t\<rparr>);
             bump ''accountBackfillUpdated'' 1;
             writeAudit E (audit ''xrpl_tx'' (tx_txHash tx) ''xrpl.tx_account_backfilled'' ''system'' None None
               (Some [(''account'', jopt (map_option trim (lt_account l))), (''source'', JStr ''tx'')]));
             ret () } }
      | _ \<Rightarrow> ret ()) }"

text \<open>
  The enqueueing loop looks at the objects of the map: the account backfill has already refreshed
  the ones it changed, so each is read again from the store.
\<close>

definition policyEnqueueOne :: "env \<Rightarrow> string \<Rightarrow> string \<Rightarrow> unit io" where
  "policyEnqueueOne E now txHash = do {
     tx \<leftarrow> getXrplTx txHash;
     (case tx of
        None \<Rightarrow> ret ()
      | Some tx \<Rightarrow>
         if \<not> isPolicyCandidate tx then ret ()
         else do {
           nowMs \<leftarrow> dateNow E;
           if youngerThan E nowMs (tx_lastCheckedAt tx) (policyPendingTimeoutMs E) then ret ()
           else do {
             createDelayedJobIfAbsent \<lparr> dj_id = xrplTxPolicyJobId (tx_txHash tx),
               dj_kind = XRPL_TX_POLICY_JOB_KIND, dj_payload = [(''txHash'', JStr (tx_txHash tx))],
               dj_runAfter = now, dj_attempts = 0, dj_maxAttempts = 64, dj_lockedUntil = None,
               dj_lastError = None, dj_createdAt = now, dj_updatedAt = now \<rparr>;
             ret () } }) }"

definition policyRequeue :: "env \<Rightarrow> DelayedJob \<Rightarrow> string option \<Rightarrow> unit io" where
  "policyRequeue E job lastError = do {
     let nextAttempts = dj_attempts job + 1;
     let backoff = policyJobBackoffMs (policyIntervalMs E) (policyMaxBackoffMs E) nextAttempts;
     ms \<leftarrow> dateNow E;
     t \<leftarrow> nowIso E;
     bumpDelayedJob (dj_id job) (toISOString (ms + backoff)) nextAttempts lastError t;
     bump ''jobsRequeued'' 1 }"

text \<open>The lookups of a probe: \<open>None\<close> when a call throws.\<close>

definition policyLookup :: "env \<Rightarrow> string \<Rightarrow> XrplTransaction \<Rightarrow> LiveTxStatus option option io" where
  "policyLookup E txHash tx = do {
     live \<leftarrow> getTxStatus E txHash;
     (case live of
        Some None \<Rightarrow>
         if truthy (tx_account tx) then do {
           m \<leftarrow> getAccountTxResults E (the (tx_account tx));
           ret (map_option (\<lambda>m. jm_get m txHash) m) }
         else ret (Some None)
      | _ \<Rightarrow> ret live) }"

definition exhaustedTx :: "XrplTransaction \<Rightarrow> XrplTransaction" where
  "exhaustedTx tx = tx\<lparr>tx_outcomeClass := Some ManualReview,
     tx_resultCode := Some (getOr ''not_found_after_policy'' (tx_resultCode tx)),
     tx_trackingStatus := ValidatedFail, tx_validated := False\<rparr>"

definition policyNotFound :: "env \<Rightarrow> DelayedJob \<Rightarrow> string \<Rightarrow> XrplTransaction \<Rightarrow> unit io" where
  "policyNotFound E job txHash tx = do {
     stored \<leftarrow> getXrplTx txHash;
     let latest = getOr tx stored;
     let probes = tx_retries latest + 1;
     t \<leftarrow> nowIso E;
     let updated = latest\<lparr>tx_retries := probes, tx_lastCheckedAt := t\<rparr>;
     if policyMaxNotFoundProbes E \<le> probes then do {
       saveXrplTx (exhaustedTx updated);
       recordXrplTxOutcomeClassified ManualReview;
       deleteDelayedJob (dj_id job);
       bump ''jobsResolved'' 1;
       bump ''policyExhausted'' 1;
       writeAudit E (audit ''xrpl_tx'' txHash ''xrpl.tx_policy_exhausted'' ''system'' None None
         (Some [(''probes'', JNum (int probes)), (''account'', joptn (tx_account tx))]));
       emitEvent E ''xrpl.tx_policy_exhausted'' ''xrpl_tx'' txHash
         [(''probes'', JNum (int probes)), (''account'', joptn (tx_account tx)),
          (''resultCode'', jopt (tx_resultCode (exhaustedTx updated)))];
       ret () }
     else do {
       saveXrplTx updated;
       policyRequeue E job None } }"

definition policyJob :: "env \<Rightarrow> DelayedJob \<Rightarrow> unit io" where
  "policyJob E job =
    (let txHash = getOr '''' (asString (jfield (dj_payload job) ''txHash'')) in
     if txHash = '''' then do { deleteDelayedJob (dj_id job); bump ''jobsDeletedStale'' 1 }
     else do {
       tx \<leftarrow> getXrplTx txHash;
       (case tx of
          None \<Rightarrow> do { deleteDelayedJob (dj_id job); bump ''jobsDeletedStale'' 1 }
        | Some tx \<Rightarrow>
           if \<not> isPolicyCandidate tx then do { deleteDelayedJob (dj_id job); bump ''jobsDeletedStale'' 1 }
           else do {
             live \<leftarrow> policyLookup E txHash tx;
             (case live of
                None \<Rightarrow> do {
                  bump ''jobErrors'' 1;
                  policyRequeue E job (Some ''error'') }
              | Some (Some l) \<Rightarrow> do {
                  applyLiveTxStatus E txHash l;
                  deleteDelayedJob (dj_id job);
                  bump ''jobsResolved'' 1 }
              | Some None \<Rightarrow> policyNotFound E job txHash tx) }) })"

definition policyTick :: "env \<Rightarrow> int \<Rightarrow> unit io" where
  "policyTick E lockTtlMs =
    (if \<not> xrplEnabled E then ret ()
     else do {
       now \<leftarrow> nowIso E;
       txs \<leftarrow> listXrplTxs;
       for_each (take (policyAccountBackfillPerTick E)
         (filter (\<lambda>t. \<not> truthy (tx_account t) \<and> \<not> tx_validated t \<and> isPolicyCandidate t) txs))
         (policyBackfillAccount E);
       for_each (map tx_txHash txs) (policyEnqueueOne E now);
       jobs \<leftarrow> claimDueDelayedJobs E XRPL_TX_POLICY_JOB_KIND now (policyBatchSize E) lockTtlMs;
       bump ''jobsClaimed'' (length jobs);
       for_each jobs (policyJob E);
       bump ''tickCount'' 1 })"

section \<open>Subscribe worker: transactions\<close>

text \<open>
  The token bucket in thousandths of a token, so that the refill \<open>elapsed / 1000 * refillPerSec\<close> is
  exact; \<open>refillPerSec\<close> is an integer of the configuration.
\<close>

record TokenBucket =
  bk_capacity :: int
  bk_refillPerSec :: int
  bk_tokens :: int
  bk_lastRefillMs :: int

definition newTokenBucket :: "int \<Rightarrow> int \<Rightarrow> int \<Rightarrow> TokenBucket" where
  "newTokenBucket capacity refillPerSec nowMs = \<lparr> bk_capacity = capacity, bk_refillPerSec = refillPerSec,
     bk_tokens = 1000 * capacity, bk_lastRefillMs = nowMs \<rparr>"

definition tryConsume :: "int \<Rightarrow> TokenBucket \<Rightarrow> bool \<times> TokenBucket" where
  "tryConsume now b =
    (let elapsed = now - bk_lastRefillMs b;
         b = (if 0 < elapsed \<and> 0 < bk_refillPerSec b
           then b\<lparr>bk_tokens := min (1000 * bk_capacity b) (bk_tokens b + elapsed * bk_refillPerSec b),
             bk_lastRefillMs := now\<rparr> else b) in
     if 1000 \<le> bk_tokens b then (True, b\<lparr>bk_tokens := bk_tokens b - 1000\<rparr>) else (False, b))"

definition txJsonFromStream :: "payload \<Rightarrow> json" where
  "txJsonFromStream s =
    (if jfield s ''transaction'' \<in> {JUndef, JNull} then jfield s ''tx_json'' else jfield s ''transaction'')"

definition longHash :: "json \<Rightarrow> string option" where
  "longHash v = (case v of JStr h \<Rightarrow> if 8 \<le> length h then Some h else None | _ \<Rightarrow> None)"

definition txHashFromStream :: "payload \<Rightarrow> string option" where
  "txHashFromStream s = (case longHash (jfield s ''hash'') of
     Some h \<Rightarrow> Some h | None \<Rightarrow> longHash (jget (txJsonFromStream s) ''hash''))"

definition accountFromStream :: "payload \<Rightarrow> string option" where
  "accountFromStream s = classicAddress (jget (txJsonFromStream s) ''Account'')"

text \<open>The event after the rate limiter; \<open>admit\<close> is the answer of the bucket.\<close>

definition handleTransaction :: "env \<Rightarrow> bool \<Rightarrow> payload \<Rightarrow> unit io" where
  "handleTransaction E admit stream =
    (if \<not> jtruthy (jfield stream ''validated'') then ret ()
     else if \<not> admit then bump ''transactionStreamThrottled'' 1
     else case txHashFromStream stream of
       None \<Rightarrow> ret ()
     | Some hash \<Rightarrow>
        (let ledgerIndex = getOr (-1) (asNumber (jfield stream ''ledger_index'')) in
         if ledgerIndex < 0 then ret ()
         else do {
           tracked \<leftarrow> getXrplTx hash;
           (case tracked of
              None \<Rightarrow> ret ()
            | Some _ \<Rightarrow> do {
               let resultCode = orElse (asString (jfield stream ''engine_result''))
                 (asString (jget (jfield stream ''meta'') ''TransactionResult''));
               inserted \<leftarrow> tryRecordXrplIngestionEvent ledgerIndex hash ''xrpl_subscribe_transaction'';
               if \<not> inserted then ret ()
               else do {
                 let flat = (case txJsonFromStream stream of JObj inner \<Rightarrow> mergeTxJsonLayers inner | _ \<Rightarrow> []);
                 applyLiveTxStatus E hash \<lparr> lt_txHash = hash, lt_validated = True,
                   lt_ledgerIndex = Some ledgerIndex, lt_resultCode = resultCode,
                   lt_transactionType = asString (jfield flat ''TransactionType''),
                   lt_account = accountFromStream stream,
                   lt_escrow = escrowProtocolFieldsFromTxJson flat \<rparr>;
                 bump ''transactionStreamProcessed'' 1 } }) }))"

section \<open>Life of a dispute\<close>

text \<open>
  The status machine that the dispute routes and the reconciliation implement together: review and
  back, decision, execution request, outcome. No route sets \<open>closed\<close>.
\<close>

fun dispute_edge :: "DisputeStatus \<Rightarrow> DisputeStatus \<Rightarrow> bool" where
  "dispute_edge Filed t = (t \<in> {UnderReview, Decided})"
| "dispute_edge UnderReview t = (t \<in> {Filed, Decided})"
| "dispute_edge Decided t = (t = ExecutionPending)"
| "dispute_edge ExecutionPending t = (t \<in> {Executed, Rejected})"
| "dispute_edge Executed t = False"
| "dispute_edge DClosed t = False"
| "dispute_edge Rejected t = False"

abbreviation dispute_moves :: "DisputeStatus \<Rightarrow> DisputeStatus \<Rightarrow> bool" where
  "dispute_moves \<equiv> dispute_edge\<^sup>*\<^sup>*"

definition ds_step :: "DisputeCase \<Rightarrow> DisputeCase \<Rightarrow> bool" where
  "ds_step d d' = (ds_id d' = ds_id d \<and> ds_contractId d' = ds_contractId d \<and>
     ds_raisedBy d' = ds_raisedBy d \<and> ds_reasonCode d' = ds_reasonCode d \<and>
     ds_evidenceBundle d' = ds_evidenceBundle d \<and> ds_createdAt d' = ds_createdAt d \<and>
     dispute_moves (ds_status d) (ds_status d'))"

lemma ds_step_trans: "ds_step d d' \<Longrightarrow> ds_step d' d'' \<Longrightarrow> ds_step d d''"
  unfolding ds_step_def by (auto intro: rtranclp_trans)

interpretation dlife: minted_life disputes ds_id ds_step E "''dsp''" for E
  by unfold_locales (simp add: ds_step_def, rule ds_step_trans)

text \<open>An executed or rejected dispute keeps its status for ever.\<close>

lemma dispute_final: "dispute_moves s t \<Longrightarrow> s \<in> {Executed, Rejected, DClosed} \<Longrightarrow> t = s"
  by (induction rule: rtranclp_induct) auto

section \<open>Consistency of tracked transactions\<close>

text \<open>
  The status, the validation flag and the outcome class of a tracked transaction say the same thing:
  \<open>validated_success\<close> exactly for a validated success, and a validated transaction is never pending.
\<close>

definition tx_consistent :: "XrplTransaction \<Rightarrow> bool" where
  "tx_consistent tx =
    ((tx_trackingStatus tx = ValidatedSuccess \<longleftrightarrow> tx_validated tx \<and> tx_outcomeClass tx = Some Success) \<and>
     (tx_validated tx \<longrightarrow> tx_trackingStatus tx \<in> {ValidatedSuccess, ValidatedFail}) \<and>
     (tx_validated tx \<longrightarrow> tx_outcomeClass tx = Some (classifyXrplResultCode (tx_resultCode tx))))"

definition txs_ok :: "world \<Rightarrow> bool" where
  "txs_ok w = (jm_ok (xrplTxs w) \<and> entries (\<lambda>h tx. tx_txHash tx = h \<and> tx_consistent tx) (xrplTxs w))"

lemma txs_ok_put:
  "txs_ok w \<Longrightarrow> xrplTxs w' = jm_set (xrplTxs w) h tx \<Longrightarrow> tx_txHash tx = h \<Longrightarrow> tx_consistent tx \<Longrightarrow> txs_ok w'"
  by (auto simp: txs_ok_def)

lemma txs_ok_same: "xrplTxs w' = xrplTxs w \<Longrightarrow> txs_ok w' = txs_ok w"
  by (simp add: txs_ok_def)

lemma txs_okD:
  "txs_ok w \<Longrightarrow> jm_get (xrplTxs w) h = Some tx \<Longrightarrow> tx_txHash tx = h \<and> tx_consistent tx"
  by (auto simp: txs_ok_def jm.all_entries_def)

lemma withLiveStatus_consistent: "tx_consistent (withLiveStatus live now tx)"
  by (simp add: tx_consistent_def withLiveStatus_def trackingStatusOf_def Let_def)

lemma withLiveStatus_hash [simp]:
  "tx_txHash (withLiveStatus live now tx) = tx_txHash tx"
  "tx_id (withLiveStatus live now tx) = tx_id tx" "tx_disputeId (withLiveStatus live now tx) = tx_disputeId tx"
  "tx_validated (withLiveStatus live now tx) = lt_validated live"
  "tx_outcomeClass (withLiveStatus live now tx) = Some (classifyXrplResultCode (lt_resultCode live))"
  "tx_retries (withLiveStatus live now tx) = tx_retries tx"
  by (simp_all add: withLiveStatus_def Let_def)

section \<open>Frames of the reconciliation\<close>

lemma tle_apply [tle_intros]:
  "steps ticks_le (recordXrplTxOutcomeClassified c)" "steps ticks_le (resolveDispute E tx)"
  "steps ticks_le (applyLiveTxStatus E h live)" "steps ticks_le (upsertTrackedTx E h ty a d n)"
  unfolding recordXrplTxOutcomeClassified_def resolveDispute_def applyLiveTxStatus_def upsertTrackedTx_def
  by (auto intro!: tle_intros split: option.splits)

lemma core_outcome [core_intros]: "core_obs f \<Longrightarrow> keeps f (recordXrplTxOutcomeClassified c)"
  unfolding recordXrplTxOutcomeClassified_def by (intro core_intros)

lemma core_resolveDispute [core_intros]:
  assumes "core_obs f" "\<And>w g. f (disputes_update g w) = f w"
  shows "keeps f (resolveDispute E tx)"
  unfolding resolveDispute_def Let_def by (auto intro!: core_intros assms split: option.splits)

lemma core_upsertTrackedTx [core_intros]:
  assumes "core_obs f" "\<And>w g. f (xrplTxs_update g w) = f w"
  shows "keeps f (upsertTrackedTx E h ty a d n)"
  unfolding upsertTrackedTx_def by (auto intro!: core_intros assms split: option.splits)

lemma core_applyLiveTxStatus [core_intros]:
  assumes "core_obs f" "\<And>w g. f (disputes_update g w) = f w" "\<And>w g. f (xrplTxs_update g w) = f w"
  shows "keeps f (applyLiveTxStatus E h live)"
  unfolding applyLiveTxStatus_def Let_def by (auto intro!: core_intros assms split: option.splits)

lemma notify_writes [notify_intros]:
  "steps (notify_rel E) (saveDispute d)" "steps (notify_rel E) (saveXrplTx t)"
  "steps (notify_rel E) (saveDecision cd)" "steps (notify_rel E) (appendDisputeVerifierVote v)"
  "steps (notify_rel E) (upsertDisputeVerifierRegistryEntry r)" "steps (notify_rel E) (saveEvidence e)"
  "steps (notify_rel E) (deleteEvidence i)" "steps (notify_rel E) (deleteDelayedJob i)"
  "steps (notify_rel E) (createExportJob j)" "steps (notify_rel E) (updateExportJob j)"
  "steps (notify_rel E) (saveSettlement s)"
  unfolding repo_writes by (rule notify_modify, simp)+

lemma notify_apply [notify_intros]:
  assumes "env_ok E"
  shows "steps (notify_rel E) (recordXrplTxOutcomeClassified c)" "steps (notify_rel E) (resolveDispute E tx)"
    "steps (notify_rel E) (applyLiveTxStatus E h live)" "steps (notify_rel E) (upsertTrackedTx E h ty a d n)"
  unfolding recordXrplTxOutcomeClassified_def resolveDispute_def applyLiveTxStatus_def upsertTrackedTx_def Let_def
  by (auto intro!: notify_intros assms split: option.splits)

section \<open>Effects of the reconciliation\<close>

definition resolves :: "world \<Rightarrow> XrplTransaction \<Rightarrow> DisputeCase \<Rightarrow> bool" where
  "resolves w tx d = (truthy (tx_disputeId tx) \<and> tx_validated tx \<and>
     jm_get (disputes w) (the (tx_disputeId tx)) = Some d \<and> ds_status d = ExecutionPending)"

definition resolved :: "XrplTransaction \<Rightarrow> string \<Rightarrow> DisputeCase \<Rightarrow> DisputeCase" where
  "resolved tx t d = d\<lparr>ds_status := (if tx_outcomeClass tx = Some Success then Executed else Rejected),
     ds_updatedAt := t\<rparr>"

lemma resolveDispute_disputes:
  "resolves w tx d \<Longrightarrow> disputes (exec (resolveDispute E tx) w) =
     jm_set (disputes w) (ds_id d) (resolved tx (toISOString (clockMs E (ticks w))) d)"
  by (simp add: resolves_def resolved_def resolveDispute_def run_simps Let_def split: option.splits)

lemma resolveDispute_idle:
  assumes "\<And>d. \<not> resolves w tx d"
  shows "exec (resolveDispute E tx) w = w"
proof (cases "truthy (tx_disputeId tx) \<and> tx_validated tx")
  case True
  then show ?thesis
    using assms by (cases "jm_get (disputes w) (the (tx_disputeId tx))")
      (auto simp: resolves_def resolveDispute_def run_simps)
qed (auto simp: resolveDispute_def)

lemma resolveDispute_xrplTxs [simp]: "xrplTxs (exec (resolveDispute E tx) w) = xrplTxs w"
  by (rule keepsD) (rule core_resolveDispute; simp)

lemma resolved_step: "ds_status d = ExecutionPending \<Longrightarrow> ds_step d (resolved tx t d)"
  by (auto simp: ds_step_def resolved_def)

named_theorems dlife_intros \<open>operations inside the life cycle of disputes\<close>

lemmas dlife_io [dlife_intros] = dlife.io

lemma dlife_core: "keeps disputes m \<Longrightarrow> steps ticks_le m \<Longrightarrow> steps (dlife.life E) m"
  by (rule dlife.step_same)

lemma dlife_utils [dlife_intros]:
  "steps (dlife.life E) tick" "steps (dlife.life E) (dateNow E')" "steps (dlife.life E) (nowIso E')"
  "steps (dlife.life E) (randomId E' p)" "steps (dlife.life E) (bump n k)"
  "steps (dlife.life E) (writeAudit E' a)" "steps (dlife.life E) (emitEvent E' b c d e)"
  "steps (dlife.life E) (maybeEnqueueDomainNotifications E' et rs pl)"
  "steps (dlife.life E) (saveXrplTx tx)" "steps (dlife.life E) (recordXrplTxOutcomeClassified oc)"
  "steps (dlife.life E) (getXrplTx i)" "steps (dlife.life E) (getContract i)"
  "steps (dlife.life E) (getDispute i)" "steps (dlife.life E) listXrplTxs"
  "steps (dlife.life E) (upsertTrackedTx E' h ty ac di nw)" "steps (dlife.life E) (getTxStatus E' h)"
  "steps (dlife.life E) (getAccountTxResults E' h)" "steps (dlife.life E) (deleteDelayedJob i)"
  "steps (dlife.life E) (bumpDelayedJob i ra at le ua)" "steps (dlife.life E) (createDelayedJobIfAbsent job)"
  "steps (dlife.life E) (claimDueDelayedJobs E' kd now lim ttl)"
  "steps (dlife.life E) (tryRecordXrplIngestionEvent li h sr)"
  unfolding bumpDelayedJob_def createDelayedJobIfAbsent_def claimDueDelayedJobs_def
    tryRecordXrplIngestionEvent_def
  by (rule dlife_core; (auto intro!: core_intros tle_intros keeps_modify xrpl_calls_keep
      split: option.splits; fail))+

lemma dlife_resolveDispute [dlife_intros]: "steps (dlife.life E) (resolveDispute E tx)"
proof (rule stepsI)
  fix w
  show "dlife.life E w (exec (resolveDispute E tx) w)"
  proof (cases "\<exists>d. resolves w tx d")
    case True
    then obtain d where d: "resolves w tx d" by blast
    then have g: "jm_get (disputes w) (the (tx_disputeId tx)) = Some d" "ds_status d = ExecutionPending"
      by (simp_all add: resolves_def)
    have t: "ticks w \<le> ticks (exec (resolveDispute E tx) w)" by (rule tleD) (rule tle_intros)
    show ?thesis
      by (rule dlife.update [OF resolveDispute_disputes [OF d] _ HOL.refl g(1) resolved_step [OF g(2)] t])
        (simp add: resolved_def)
  next
    case False
    then have "exec (resolveDispute E tx) w = w" by (intro resolveDispute_idle) auto
    then show ?thesis by (simp add: dlife.life_refl)
  qed
qed

lemma dlife_applyLiveTxStatus [dlife_intros]: "steps (dlife.life E) (applyLiveTxStatus E h live)"
  unfolding applyLiveTxStatus_def by (auto intro!: dlife_intros)

text \<open>The tracked transaction after \<open>applyLiveTxStatus\<close>; an unknown hash changes nothing.\<close>

lemma applyLiveTxStatus_xrplTxs:
  "jm_get (xrplTxs w) h = Some tx \<Longrightarrow> xrplTxs (exec (applyLiveTxStatus E h live) w) =
     jm_set (xrplTxs w) (tx_txHash tx) (withLiveStatus live (toISOString (clockMs E (ticks w))) tx)"
  by (simp add: applyLiveTxStatus_def recordXrplTxOutcomeClassified_def run_simps Let_def)

lemma applyLiveTxStatus_unknown:
  "jm_get (xrplTxs w) h = None \<Longrightarrow> exec (applyLiveTxStatus E h live) w = w \<and>
     \<not> valu (applyLiveTxStatus E h live) w"
  by (simp add: applyLiveTxStatus_def run_simps)

lemma preserves_applyLiveTxStatus: "preserves txs_ok (applyLiveTxStatus E h live)"
proof (rule preservesI)
  fix w assume ok: "txs_ok w"
  show "txs_ok (exec (applyLiveTxStatus E h live) w)"
  proof (cases "jm_get (xrplTxs w) h")
    case (Some tx)
    then show ?thesis
      using txs_okD [OF ok Some]
      by (intro txs_ok_put [OF ok applyLiveTxStatus_xrplTxs [OF Some]] withLiveStatus_consistent) simp
  qed (simp add: applyLiveTxStatus_unknown ok)
qed

lemma preserves_upsertTrackedTx: "preserves txs_ok (upsertTrackedTx E h ty a d n)"
proof (rule preservesI)
  fix w assume ok: "txs_ok w"
  show "txs_ok (exec (upsertTrackedTx E h ty a d n) w)"
  proof (cases "jm_get (xrplTxs w) h")
    case None
    then show ?thesis
      by (intro txs_ok_put [OF ok, of _ h])
        (auto simp: upsertTrackedTx_def run_simps tx_consistent_def)
  next
    case (Some e)
    then show ?thesis
      using txs_okD [OF ok Some]
      by (intro txs_ok_put [OF ok, of _ h]) (auto simp: upsertTrackedTx_def run_simps tx_consistent_def)
  qed
qed

named_theorems txs_intros \<open>operations that keep tracked transactions consistent\<close>

lemmas txs_io [txs_intros] = inv.io

lemma txs_core: "keeps xrplTxs m \<Longrightarrow> preserves txs_ok m"
  by (erule preserves_of_keeps) (simp add: txs_ok_def)

lemmas txs_apply [txs_intros] = preserves_applyLiveTxStatus preserves_upsertTrackedTx

lemma txs_utils [txs_intros]:
  "preserves txs_ok tick" "preserves txs_ok (dateNow E')" "preserves txs_ok (nowIso E')"
  "preserves txs_ok (randomId E' p)" "preserves txs_ok (bump n k)"
  "preserves txs_ok (writeAudit E' a)" "preserves txs_ok (emitEvent E' b c d e)"
  "preserves txs_ok (maybeEnqueueDomainNotifications E' et rs pl)"
  "preserves txs_ok (recordXrplTxOutcomeClassified oc)"
  "preserves txs_ok (getXrplTx i)" "preserves txs_ok (getContract i)"
  "preserves txs_ok (getDispute i)" "preserves txs_ok listXrplTxs"
  "preserves txs_ok (getTxStatus E' h)" "preserves txs_ok (saveDispute ds)"
  "preserves txs_ok (getAccountTxResults E' h)" "preserves txs_ok (deleteDelayedJob i)"
  "preserves txs_ok (bumpDelayedJob i ra at le ua)" "preserves txs_ok (createDelayedJobIfAbsent job)"
  "preserves txs_ok (claimDueDelayedJobs E' kd now lim ttl)"
  "preserves txs_ok (tryRecordXrplIngestionEvent li h sr)"
  unfolding bumpDelayedJob_def createDelayedJobIfAbsent_def claimDueDelayedJobs_def
    tryRecordXrplIngestionEvent_def
  by (rule txs_core; (auto intro!: core_intros keeps_modify xrpl_calls_keep split: option.splits; fail))+

section \<open>Routes and workers\<close>

lemma dlife_v1 [dlife_intros]:
  "(\<And>auth. steps (dlife.life E) (h auth)) \<Longrightarrow> steps (dlife.life E) (v1 E' req roles scopes h)"
  by (rule steps_v1) (auto intro: dlife.life_refl)

lemma txs_v1 [txs_intros]:
  "(\<And>auth. preserves txs_ok (h auth)) \<Longrightarrow> preserves txs_ok (v1 E' req roles scopes h)"
  by (rule steps_v1) (auto simp: inv_rel_def)

lemmas tracking_defs = postTrack_def postTrackH_def getXrplTxRoute_def getXrplTxH_def latestTx_def
  refreshXrplTx_def refreshXrplTxH_def getAccountEscrows_def getAccountEscrowsH_def

lemmas backfill_defs = backfill_def backfillH_def backfillLive_def backfillLiveOne_def
  backfillSimulatedOne_def recordXrplBackfillLiveApply_def

lemmas policy_defs = policyTick_def policyBackfillAccount_def policyEnqueueOne_def policyJob_def
  policyLookup_def policyNotFound_def policyRequeue_def

lemma tle_tracking [tle_intros]:
  "steps ticks_le (postTrack E req tb)" "steps ticks_le (getXrplTxRoute E req h rf)"
  "steps ticks_le (refreshXrplTx E req h)" "steps ticks_le (getAccountEscrows E req a l m)"
  "steps ticks_le (backfill E req bb)" "steps ticks_le (policyTick E ttl)"
  "steps ticks_le (handleTransaction E adm str)"
  unfolding tracking_defs backfill_defs policy_defs handleTransaction_def Let_def
  by (auto intro!: tle_intros split: option.splits json.splits)

lemma core_jobs [core_intros]:
  assumes "core_obs f"
  shows "(\<And>w g. f (delayedJobs_update g w) = f w) \<Longrightarrow> keeps f (createDelayedJobIfAbsent j)"
    "(\<And>w g. f (delayedJobs_update g w) = f w) \<Longrightarrow> keeps f (bumpDelayedJob i ra at le ua)"
    "(\<And>w g. f (delayedJobs_update g w) = f w) \<Longrightarrow> keeps f (claimDueDelayedJobs E kd now lim ttl)"
    "(\<And>w g. f (ingestionDedup_update g w) = f w) \<Longrightarrow> keeps f (tryRecordXrplIngestionEvent li h sr)"
  unfolding createDelayedJobIfAbsent_def bumpDelayedJob_def claimDueDelayedJobs_def
    tryRecordXrplIngestionEvent_def Let_def
  by (auto intro!: core_intros keeps_modify split: option.splits)

lemma core_xrpl [core_intros]:
  assumes "core_obs f"
  shows "keeps f (getTxStatus E h)" "keeps f (getAccountEscrowsPage E a l m)"
    "keeps f (getAccountTxResults E a)" "keeps f (submitAndWaitFromWallet E t s)"
  using xrpl_calls_keep [of f] core_ticks [OF assms] by auto

lemma core_tracking [core_intros]:
  assumes "core_obs f" "\<And>w g. f (disputes_update g w) = f w" "\<And>w g. f (xrplTxs_update g w) = f w"
    "\<And>w g. f (delayedJobs_update g w) = f w" "\<And>w g. f (ingestionDedup_update g w) = f w"
  shows "keeps f (postTrack E req tb)" "keeps f (getXrplTxRoute E req h rf)"
    "keeps f (refreshXrplTx E req h)" "keeps f (getAccountEscrows E req a l m)"
    "keeps f (backfill E req bb)" "keeps f (policyTick E ttl)" "keeps f (handleTransaction E adm str)"
  unfolding tracking_defs backfill_defs policy_defs handleTransaction_def Let_def
  by (auto intro!: core_intros assms split: option.splits json.splits)

lemma notify_jobs [notify_intros]:
  "steps (notify_rel E) (createDelayedJobIfAbsent j)" "steps (notify_rel E) (bumpDelayedJob i ra at le ua)"
  "steps (notify_rel E) (claimDueDelayedJobs E' kd now lim ttl)"
  "steps (notify_rel E) (tryRecordXrplIngestionEvent li h sr)"
  unfolding createDelayedJobIfAbsent_def bumpDelayedJob_def claimDueDelayedJobs_def
    tryRecordXrplIngestionEvent_def Let_def
  by (auto intro!: notify_intros split: option.splits)

lemma notify_tracking [notify_intros]:
  assumes "env_ok E"
  shows "steps (notify_rel E) (postTrack E req tb)" "steps (notify_rel E) (getXrplTxRoute E req h rf)"
    "steps (notify_rel E) (refreshXrplTx E req h)" "steps (notify_rel E) (getAccountEscrows E req a l m)"
    "steps (notify_rel E) (backfill E req bb)" "steps (notify_rel E) (policyTick E ttl)"
    "steps (notify_rel E) (handleTransaction E adm str)"
  unfolding tracking_defs backfill_defs policy_defs handleTransaction_def Let_def
  by (auto intro!: notify_intros assms split: option.splits json.splits)

lemma dlife_tracking [dlife_intros]:
  "steps (dlife.life E) (postTrack E req tb)" "steps (dlife.life E) (getXrplTxRoute E req h rf)"
  "steps (dlife.life E) (refreshXrplTx E req h)" "steps (dlife.life E) (backfill E req bb)"
  "steps (dlife.life E) (policyTick E ttl)" "steps (dlife.life E) (handleTransaction E adm str)"
  unfolding tracking_defs backfill_defs policy_defs handleTransaction_def Let_def
  by (auto intro!: dlife_intros split: option.splits json.splits)

text \<open>The workers store only transactions that they have read and rebuilt consistently.\<close>

lemma txs_save [txs_intros]: "tx_consistent t \<Longrightarrow> preserves txs_ok (saveXrplTx t)"
  unfolding saveXrplTx_def by (rule preserves_modify, erule txs_ok_put [where tx = t]) simp_all

lemma simulatedTx_consistent: "\<not> tx_validated tx \<Longrightarrow> tx_consistent (simulatedTx rc l now tx)"
  by (simp add: tx_consistent_def simulatedTx_def Let_def)

lemma exhaustedTx_consistent: "tx_consistent (exhaustedTx tx)"
  by (simp add: tx_consistent_def exhaustedTx_def)

lemma txs_read_bind:
  assumes "\<And>x. (\<And>t. x = Some t \<Longrightarrow> tx_consistent t) \<Longrightarrow> preserves txs_ok (f x)"
  shows "preserves txs_ok (State_Monad.bind (getXrplTx h) f)"
  using assms
  by (intro preserves_bind [where Q = "\<lambda>x. \<forall>t. x = Some t \<longrightarrow> tx_consistent t"] txs_intros)
    (auto simp: getXrplTx_def dest: txs_okD)

lemma txs_list_bind:
  assumes "\<And>xs. (\<And>t. t \<in> set xs \<Longrightarrow> tx_consistent t) \<Longrightarrow> preserves txs_ok (f xs)"
  shows "preserves txs_ok (State_Monad.bind listXrplTxs f)"
  using assms
  by (intro preserves_bind [where Q = "\<lambda>xs. \<forall>t \<in> set xs. tx_consistent t"] txs_intros)
    (auto simp: listXrplTxs_def txs_ok_def jm_values_get dest: jm.all_entries_vals)

lemma consistent_recheck:
  "tx_consistent tx \<Longrightarrow> tx_consistent (tx\<lparr>tx_retries := n, tx_lastCheckedAt := t\<rparr>)"
  "tx_consistent tx \<Longrightarrow> tx_consistent (tx\<lparr>tx_account := a, tx_lastCheckedAt := t\<rparr>)"
  by (auto simp: tx_consistent_def)

lemma txs_policy_parts:
  assumes "tx_consistent tx"
  shows "preserves txs_ok (policyBackfillAccount E tx)" "preserves txs_ok (policyNotFound E job h tx)"
proof -
  have l: "tx_consistent (getOr tx x)" if "\<And>t. x = Some t \<Longrightarrow> tx_consistent t" for x
    using that assms by (cases x) auto
  show "preserves txs_ok (policyBackfillAccount E tx)"
    unfolding policyBackfillAccount_def Let_def
    by (auto intro!: txs_read_bind txs_intros consistent_recheck l split: option.splits)
  show "preserves txs_ok (policyNotFound E job h tx)"
    unfolding policyNotFound_def policyRequeue_def Let_def
    by (auto intro!: txs_read_bind txs_intros consistent_recheck exhaustedTx_consistent l)
qed

lemma txs_tracking [txs_intros]:
  "preserves txs_ok (postTrack E req tb)" "preserves txs_ok (getXrplTxRoute E req h rf)"
  "preserves txs_ok (refreshXrplTx E req h)" "preserves txs_ok (handleTransaction E adm str)"
  unfolding tracking_defs handleTransaction_def Let_def
  by (auto intro!: txs_intros split: option.splits json.splits)

lemma txs_backfill [txs_intros]: "preserves txs_ok (backfill E req bb)"
  unfolding backfill_defs Let_def
  by (auto intro!: txs_list_bind txs_intros simulatedTx_consistent split: option.splits)

lemma txs_policyTick [txs_intros]: "preserves txs_ok (policyTick E ttl)"
  unfolding policyTick_def policyEnqueueOne_def policyJob_def policyLookup_def policyRequeue_def Let_def
  by (auto intro!: txs_list_bind txs_read_bind txs_intros txs_policy_parts dest!: in_set_takeD
      split: option.splits)

section \<open>Properties\<close>

lemma applyLiveTxStatus_disputes:
  fixes live tx h w E
  assumes "jm_get (xrplTxs w) h = Some tx"
  defines "tx' \<equiv> withLiveStatus live (toISOString (clockMs E (ticks w))) tx"
  shows "if \<exists>d. resolves w tx' d
     then \<exists>d t. resolves w tx' d \<and> disputes (exec (applyLiveTxStatus E h live) w) =
       jm_set (disputes w) (ds_id d) (d\<lparr>ds_status := (if classifyXrplResultCode (lt_resultCode live) = Success
         then Executed else Rejected), ds_updatedAt := t\<rparr>)
     else disputes (exec (applyLiveTxStatus E h live) w) = disputes w"
proof -
  define w1 where "w1 = exec (do { nowIso E;
    recordXrplTxOutcomeClassified (classifyXrplResultCode (lt_resultCode live));
    saveXrplTx (withLiveStatus live (toISOString (clockMs E (ticks w))) tx) }) w"
  have e: "exec (applyLiveTxStatus E h live) w = exec (resolveDispute E tx') w1"
    using assms(1) by (simp add: applyLiveTxStatus_def run_simps Let_def w1_def tx'_def)
  have d1: "disputes w1 = disputes w"
    by (simp add: w1_def recordXrplTxOutcomeClassified_def run_simps)
  have r: "resolves w1 tx' d = resolves w tx' d" for d
    by (simp add: resolves_def d1)
  have res: "resolved tx' t d = d\<lparr>ds_status := (if classifyXrplResultCode (lt_resultCode live) = Success
      then Executed else Rejected), ds_updatedAt := t\<rparr>" for t d
    by (simp add: resolved_def tx'_def withLiveStatus_def Let_def)
  show ?thesis
  proof (cases "\<exists>d. resolves w tx' d")
    case True
    then obtain d where d: "resolves w tx' d" ..
    have "disputes (exec (applyLiveTxStatus E h live) w) = jm_set (disputes w) (ds_id d)
      (resolved tx' (toISOString (clockMs E (ticks w1))) d)"
      unfolding e by (rule resolveDispute_disputes [of w1 tx' d E, unfolded r d1, OF d])
    with d True show ?thesis unfolding res by (simp only: if_True) blast
  next
    case False
    then show ?thesis
      unfolding e using resolveDispute_idle [of w1 tx' E] r d1 by simp
  qed
qed

text \<open>C7: applying a ledger outcome. The tracked transaction takes over the outcome, in a consistent
  state; the dispute it belongs to changes only if the outcome is validated and the dispute is waiting
  for its execution, and then it becomes executed for a success-class result and rejected for every
  other one.\<close>

theorem apply_live_tx_status:
  assumes "jm_get (xrplTxs w) h = Some tx"
  shows "let w' = exec (applyLiveTxStatus E h live) w;
             tx' = withLiveStatus live (toISOString (clockMs E (ticks w))) tx in
    valu (applyLiveTxStatus E h live) w \<and>
    xrplTxs w' = jm_set (xrplTxs w) (tx_txHash tx) tx' \<and> tx_consistent tx' \<and>
    contracts w' = contracts w \<and> settlements w' = settlements w \<and>
    (if \<exists>d. resolves w tx' d
     then \<exists>d t. resolves w tx' d \<and> disputes w' = jm_set (disputes w) (ds_id d)
       (d\<lparr>ds_status := (if classifyXrplResultCode (lt_resultCode live) = Success then Executed else Rejected),
          ds_updatedAt := t\<rparr>)
     else disputes w' = disputes w)"
proof -
  define tx' where "tx' = withLiveStatus live (toISOString (clockMs E (ticks w))) tx"
  have c: "contracts (exec (applyLiveTxStatus E h live) w) = contracts w"
    "settlements (exec (applyLiveTxStatus E h live) w) = settlements w"
    by (rule keepsD, rule core_intros; simp)+
  have v: "valu (applyLiveTxStatus E h live) w"
    using assms by (simp add: applyLiveTxStatus_def run_simps Let_def)
  show ?thesis
    unfolding Let_def tx'_def [symmetric]
    using applyLiveTxStatus_disputes [OF assms, of live E, folded tx'_def] c v applyLiveTxStatus_xrplTxs [OF assms, of E live, folded tx'_def]
      withLiveStatus_consistent [of live _ tx, folded tx'_def]
    by (intro conjI) (simp_all only: tx'_def withLiveStatus_consistent)
qed

definition core_same :: "world \<Rightarrow> world \<Rightarrow> bool" where
  "core_same v w = (xrplTxs w = xrplTxs v \<and> disputes w = disputes v \<and> contracts w = contracts v \<and>
     settlements w = settlements v \<and> notifications w = notifications v \<and> audits w = audits v \<and>
     events w = events v)"

text \<open>The deduplication key of a stream event, and what a second delivery finds.\<close>

definition ingestion_seen :: "world \<Rightarrow> int \<Rightarrow> string \<Rightarrow> bool" where
  "ingestion_seen w ledger hash =
     (\<not> valu (tryRecordXrplIngestionEvent ledger hash ''xrpl_subscribe_transaction'') w)"

lemma handleTransaction_bad:
  assumes "\<not> jtruthy (jfield stream ''validated'') \<or> txHashFromStream stream = None \<or>
    getOr (-1) (asNumber (jfield stream ''ledger_index'')) < 0"
  shows "core_same w (exec (handleTransaction E adm stream) w)"
  using assms
  by (cases "txHashFromStream stream"; cases "jtruthy (jfield stream ''validated'')"; cases adm)
    (simp_all add: handleTransaction_def core_same_def Let_def)

lemma handleTransaction_records:
  assumes "jtruthy (jfield stream ''validated'')" "txHashFromStream stream = Some h"
    "\<not> getOr (-1) (asNumber (jfield stream ''ledger_index'')) < 0" "jm_get (xrplTxs w) h = Some tx"
  shows "ingestion_seen (exec (handleTransaction E True stream) w)
    (getOr (-1) (asNumber (jfield stream ''ledger_index''))) h"
proof -
  have k: "ingestionDedup (exec (applyLiveTxStatus E g live) v) = ingestionDedup v" for g live v
    by (rule keepsD, rule core_intros; simp)
  show ?thesis
    using assms
    by (simp add: handleTransaction_def ingestion_seen_def tryRecordXrplIngestionEvent_def run_simps Let_def k)
qed

lemma handleTransaction_seen:
  assumes "jtruthy (jfield stream ''validated'')" "txHashFromStream stream = Some h"
    "\<not> getOr (-1) (asNumber (jfield stream ''ledger_index'')) < 0"
    "ingestion_seen w (getOr (-1) (asNumber (jfield stream ''ledger_index''))) h"
  shows "core_same w (exec (handleTransaction E adm stream) w)"
proof (cases "adm \<and> jm_has (xrplTxs w) h")
  case True
  then obtain tx where "jm_get (xrplTxs w) h = Some tx" by (auto simp: jm_has_def)
  with True assms show ?thesis
    by (simp add: handleTransaction_def ingestion_seen_def tryRecordXrplIngestionEvent_def run_simps Let_def
        core_same_def split: if_splits)
qed (use assms in \<open>auto simp: handleTransaction_def run_simps Let_def core_same_def jm_has_def
    split: option.splits\<close>)

text \<open>A validated stream event is processed at most once: delivering the same transaction event
  again changes no tracked transaction, dispute, contract, notification, audit or domain event.\<close>

lemma transaction_event_once:
  "let w' = exec (handleTransaction E True stream) w; w'' = exec (handleTransaction E adm stream) w' in
    xrplTxs w'' = xrplTxs w' \<and> disputes w'' = disputes w' \<and> contracts w'' = contracts w' \<and>
    settlements w'' = settlements w' \<and> notifications w'' = notifications w' \<and>
    audits w'' = audits w' \<and> events w'' = events w'"
proof -
  let ?li = "getOr (-1) (asNumber (jfield stream ''ledger_index''))"
  consider (bad) "\<not> jtruthy (jfield stream ''validated'') \<or> txHashFromStream stream = None \<or> ?li < 0"
    | (unknown) h where "jtruthy (jfield stream ''validated'')" "txHashFromStream stream = Some h"
        "\<not> ?li < 0" "jm_get (xrplTxs w) h = None"
    | (known) h tx where "jtruthy (jfield stream ''validated'')" "txHashFromStream stream = Some h"
        "\<not> ?li < 0" "jm_get (xrplTxs w) h = Some tx"
    by (cases "txHashFromStream stream"; cases "jm_get (xrplTxs w) (the (txHashFromStream stream))") auto
  then show ?thesis
  proof cases
    case bad
    then have "core_same v (exec (handleTransaction E a stream) v)" for a v
      by (rule handleTransaction_bad)
    then show ?thesis unfolding Let_def core_same_def by blast
  next
    case unknown
    then show ?thesis by (simp add: handleTransaction_def run_simps Let_def)
  next
    case known
    then have "ingestion_seen (exec (handleTransaction E True stream) w) ?li h"
      by (simp add: handleTransaction_records)
    with known show ?thesis
      unfolding Let_def using handleTransaction_seen by (simp add: core_same_def)
  qed
qed

lemma policyRequeue_frame [simp]:
  "xrplTxs (exec (policyRequeue E job le) w) = xrplTxs w"
  "disputes (exec (policyRequeue E job le) w) = disputes w"
  by (simp_all add: policyRequeue_def bumpDelayedJob_def run_simps Let_def split: option.splits)

lemma policyRequeue_job:
  assumes "jm_get (delayedJobs w) (dj_id job) = Some j"
  shows "\<exists>t t'. jm_get (delayedJobs (exec (policyRequeue E job le) w)) (dj_id job) =
    Some (j\<lparr>dj_runAfter := t, dj_attempts := dj_attempts job + 1, dj_lastError := le, dj_updatedAt := t',
      dj_lockedUntil := None\<rparr>)"
  using assms by (auto simp: policyRequeue_def bumpDelayedJob_def run_simps Let_def)

lemma policyNotFound_exhausted:
  assumes "jm_get (xrplTxs w) h = Some tx" "policyMaxNotFoundProbes E \<le> tx_retries tx + 1"
  shows "xrplTxs (exec (policyNotFound E job h tx) w) = jm_set (xrplTxs w) (tx_txHash tx)
      (exhaustedTx (tx\<lparr>tx_retries := tx_retries tx + 1, tx_lastCheckedAt := toISOString (clockMs E (ticks w))\<rparr>))"
    "delayedJobs (exec (policyNotFound E job h tx) w) = jm_delete (delayedJobs w) (dj_id job)"
    "disputes (exec (policyNotFound E job h tx) w) = disputes w"
  using assms
  by (simp_all add: policyNotFound_def recordXrplTxOutcomeClassified_def exhaustedTx_def run_simps Let_def)

lemma policyNotFound_again:
  assumes "jm_get (xrplTxs w) h = Some tx" "\<not> policyMaxNotFoundProbes E \<le> tx_retries tx + 1"
  shows "\<exists>v. exec (policyNotFound E job h tx) w = exec (policyRequeue E job None) v \<and>
    xrplTxs v = jm_set (xrplTxs w) (tx_txHash tx)
      (tx\<lparr>tx_retries := tx_retries tx + 1, tx_lastCheckedAt := toISOString (clockMs E (ticks w))\<rparr>) \<and>
    delayedJobs v = delayedJobs w \<and> disputes v = disputes w"
  using assms by (auto simp: policyNotFound_def run_simps Let_def)

text \<open>The policy worker gives up. A probe that finds nothing on the ledger counts one retry and
  requeues the job, and the probe that reaches the configured budget ends the tracking: the
  transaction is marked for manual review, it is no longer a candidate for probes and its job is
  deleted.\<close>

lemma policy_probe_not_found:
  assumes "jm_get (xrplTxs w) h = Some tx" "tx_txHash tx = h" "jm_get (delayedJobs w) (dj_id job) = Some j"
  shows "let w' = exec (policyNotFound E job h tx) w in
    (\<exists>tx'. xrplTxs w' = jm_set (xrplTxs w) h tx' \<and> tx_retries tx' = tx_retries tx + 1 \<and>
      (if policyMaxNotFoundProbes E \<le> tx_retries tx + 1
       then \<not> isPolicyCandidate tx' \<and> tx_outcomeClass tx' = Some ManualReview \<and>
         tx_trackingStatus tx' = ValidatedFail \<and> delayedJobs w' = jm_delete (delayedJobs w) (dj_id job)
       else isPolicyCandidate tx' = isPolicyCandidate tx \<and>
         (\<exists>j'. jm_get (delayedJobs w') (dj_id job) = Some j' \<and> dj_attempts j' = dj_attempts job + 1 \<and>
           dj_lockedUntil j' = None))) \<and>
    disputes w' = disputes w"
proof (cases "policyMaxNotFoundProbes E \<le> tx_retries tx + 1")
  case True
  show ?thesis
    using True policyNotFound_exhausted [OF assms(1) True, of job] assms(2)
    by (auto simp: Let_def exhaustedTx_def isPolicyCandidate_def)
next
  case False
  obtain v where v: "exec (policyNotFound E job h tx) w = exec (policyRequeue E job None) v"
    "xrplTxs v = jm_set (xrplTxs w) h
      (tx\<lparr>tx_retries := tx_retries tx + 1, tx_lastCheckedAt := toISOString (clockMs E (ticks w))\<rparr>)"
    "delayedJobs v = delayedJobs w" "disputes v = disputes w"
    using policyNotFound_again [OF assms(1) False, of job] assms(2) by auto
  obtain j' where j': "jm_get (delayedJobs (exec (policyRequeue E job None) v)) (dj_id job) = Some j'"
    "dj_attempts j' = dj_attempts job + 1" "dj_lockedUntil j' = None"
    using policyRequeue_job [of v job j E None] assms(3) v(3) by auto
  show ?thesis
    unfolding Let_def v(1) policyRequeue_frame v(2,4) if_not_P [OF False]
    by (rule conjI, rule exI [of _ "tx\<lparr>tx_retries := tx_retries tx + 1,
      tx_lastCheckedAt := toISOString (clockMs E (ticks w))\<rparr>"]) (simp_all add: isPolicyCandidate_def j')
qed

text \<open>The grants of a bucket over a sequence of calls at the given times.\<close>

fun grants :: "int list \<Rightarrow> TokenBucket \<Rightarrow> nat \<times> TokenBucket" where
  "grants [] b = (0, b)"
| "grants (t # ts) b = (let (ok, b) = tryConsume t b; (n, b) = grants ts b in ((if ok then 1 else 0) + n, b))"

lemma tryConsume_account:
  assumes "tryConsume t b = (ok, b')" "0 \<le> bk_refillPerSec b" "0 \<le> bk_tokens b" "bk_lastRefillMs b \<le> T" "t \<le> T"
  shows "bk_tokens b' + (if ok then 1000 else 0) \<le>
      bk_tokens b + bk_refillPerSec b * (bk_lastRefillMs b' - bk_lastRefillMs b)"
    "0 \<le> bk_capacity b \<Longrightarrow> 0 \<le> bk_tokens b'" "bk_refillPerSec b' = bk_refillPerSec b" "bk_capacity b' = bk_capacity b"
    "bk_lastRefillMs b' \<le> T"
proof -
  have m: "bk_lastRefillMs b * bk_refillPerSec b \<le> t * bk_refillPerSec b" if "bk_lastRefillMs b < t"
    using that assms(2) by (simp add: mult_right_mono)
  have m': "bk_lastRefillMs b * bk_refillPerSec b \<le> bk_tokens b + t * bk_refillPerSec b" if "bk_lastRefillMs b < t"
    using m [OF that] assms(3) by simp
  show "bk_tokens b' + (if ok then 1000 else 0) \<le>
      bk_tokens b + bk_refillPerSec b * (bk_lastRefillMs b' - bk_lastRefillMs b)"
    "bk_refillPerSec b' = bk_refillPerSec b" "bk_capacity b' = bk_capacity b" "bk_lastRefillMs b' \<le> T"
    using assms by (auto simp: tryConsume_def Let_def algebra_simps split: if_splits)
  show "0 \<le> bk_tokens b'" if "0 \<le> bk_capacity b"
    using assms that m' by (auto simp: tryConsume_def Let_def algebra_simps split: if_splits)
qed

lemma grants_account:
  assumes "grants ts b = (n, b')" "0 \<le> bk_refillPerSec b" "0 \<le> bk_capacity b" "0 \<le> bk_tokens b"
    "bk_lastRefillMs b \<le> T" "\<And>t. t \<in> set ts \<Longrightarrow> t \<le> T"
  shows "bk_tokens b' + 1000 * int n \<le>
    bk_tokens b + bk_refillPerSec b * (bk_lastRefillMs b' - bk_lastRefillMs b) \<and>
    0 \<le> bk_tokens b' \<and> bk_lastRefillMs b' \<le> T"
  using assms
proof (induction ts arbitrary: b n)
  case (Cons t ts)
  obtain ok c where c: "tryConsume t b = (ok, c)" by fastforce
  obtain m where m: "grants ts c = (m, b')" "n = (if ok then 1 else 0) + m"
    using Cons.prems(1) c by (auto split: prod.splits)
  note a = tryConsume_account [OF c Cons.prems(2,4,5)]
  have "bk_tokens b' + 1000 * int m \<le>
    bk_tokens c + bk_refillPerSec c * (bk_lastRefillMs b' - bk_lastRefillMs c) \<and>
    0 \<le> bk_tokens b' \<and> bk_lastRefillMs b' \<le> T"
    using Cons.IH [OF m(1)] a Cons.prems by simp
  then show ?case
    using a(1,3) Cons.prems m(2) by (auto simp: algebra_simps split: if_splits)
qed simp

text \<open>The rate limit of the transaction stream. However often and at whatever times the worker
  asks, between the creation of the bucket and time \<open>T\<close> it grants at most the capacity plus what
  refills in that time.\<close>

lemma token_bucket_rate:
  assumes "0 \<le> capacity" "0 \<le> rate" "t0 \<le> T" "\<And>t. t \<in> set ts \<Longrightarrow> t \<le> T"
  shows "1000 * int (fst (grants ts (newTokenBucket capacity rate t0))) \<le> 1000 * capacity + rate * (T - t0)"
proof -
  obtain n b where nb: "grants ts (newTokenBucket capacity rate t0) = (n, b)" by fastforce
  have b: "bk_tokens b + 1000 * int n \<le> 1000 * capacity + rate * (bk_lastRefillMs b - t0)"
    "0 \<le> bk_tokens b" "bk_lastRefillMs b \<le> T"
    using grants_account [OF nb, of T] assms by (auto simp: newTokenBucket_def)
  have "rate * (bk_lastRefillMs b - t0) \<le> rate * (T - t0)"
    using b(3) assms(2) by (simp add: mult_left_mono)
  with b nb show ?thesis by simp
qed

text \<open>A transaction that the ledger reports without a result code yet is never probed again. The
  outcome of an answer that is not validated and carries no result code is \<open>manual_review\<close>, although
  the transaction is still pending, and the policy worker takes no such transaction.\<close>

lemma unvalidated_report_ends_tracking:
  assumes "jm_get (xrplTxs w) h = Some tx" "tx_txHash tx = h" "\<not> lt_validated live" "lt_resultCode live = None"
  shows "\<exists>tx'. jm_get (xrplTxs (exec (applyLiveTxStatus E h live) w)) h = Some tx' \<and>
    tx_trackingStatus tx' = PendingValidation \<and> \<not> isPolicyCandidate tx'"
  using assms
  by (simp add: applyLiveTxStatus_xrplTxs withLiveStatus_def Let_def trackingStatusOf_def isPolicyCandidate_def
      classifyXrplResultCode_def)

end
