(* ===== verification/Disputes.thy ===== *)
theory Disputes
  imports XrplTracking
begin

text \<open>
  The dispute routes of \<open>index.ts\<close>: filing, review and back, verifier votes and their tally, escalation
  by hand and by the review-deadline scan, decision, execution through the XRPL
  (\<open>services/execution-policy.ts\<close>, \<open>services/execution-submit.ts\<close>) and the verifier registry; with the
  invariants that a verifier votes once per dispute and that a dispute has exactly one decision
  from the moment it is decided.
\<close>

section \<open>Filing and review\<close>

definition canAccessDispute :: "env \<Rightarrow> BluesafeAuth option \<Rightarrow> DisputeCase \<Rightarrow> bool io" where
  "canAccessDispute E auth dispute = do {
     contract \<leftarrow> getContract (ds_contractId dispute);
     ret (case contract of None \<Rightarrow> False | Some c \<Rightarrow> canAccessContract E auth c) }"

definition isDisputeReviewStatusAllowed :: "DisputeStatus \<Rightarrow> DisputeStatus \<Rightarrow> bool" where
  "isDisputeReviewStatusAllowed from to =
    (if from = Filed \<and> to = UnderReview then True else if from = UnderReview \<and> to = Filed then True else False)"

record createDisputeBody =
  db_contractId :: string
  db_raisedBy :: RaisedBy
  db_reasonCode :: string
  db_evidenceIds :: "string list"

definition createDisputeSchema :: "createDisputeBody \<Rightarrow> bool" where
  "createDisputeSchema b = (db_contractId b \<noteq> '''' \<and> db_reasonCode b \<noteq> '''' \<and>
     db_evidenceIds b \<noteq> [] \<and> (\<forall>i \<in> set (db_evidenceIds b). i \<noteq> ''''))"

text \<open>The loop over the evidence identifiers: the first missing or foreign one ends the request.\<close>

fun checkEvidenceIds :: "string \<Rightarrow> string list \<Rightarrow> (nat \<times> string) option io" where
  "checkEvidenceIds contractId [] = ret None"
| "checkEvidenceIds contractId (i # is) = do {
     ev \<leftarrow> getEvidence i;
     (case ev of
        None \<Rightarrow> ret (Some (404, ''B2_NOT_FOUND''))
      | Some e \<Rightarrow>
         if ev_contractId e \<noteq> contractId then ret (Some (400, ''B2_VALIDATION_ERROR''))
         else checkEvidenceIds contractId is) }"

definition newDispute :: "createDisputeBody \<Rightarrow> string \<Rightarrow> string \<Rightarrow> DisputeCase" where
  "newDispute b i now = \<lparr> ds_id = i, ds_contractId = db_contractId b, ds_raisedBy = db_raisedBy b,
     ds_reasonCode = db_reasonCode b, ds_status = Filed, ds_evidenceBundle = db_evidenceIds b,
     ds_createdAt = now, ds_updatedAt = now, ds_reviewDeadlineAt = None, ds_escalatedAt = None \<rparr>"

text \<open>What follows the checks: store, audit, event, notification.\<close>

definition fileDispute :: "env \<Rightarrow> createDisputeBody \<Rightarrow> Contract \<Rightarrow> (string \<times> string) handler" where
  "fileDispute E b contract = do {
     disputeId \<leftarrow> randomId E ''dsp'';
     now \<leftarrow> nowIso E;
     saveDispute (newDispute b disputeId now);
     writeAudit E (audit ''dispute'' disputeId ''dispute.filed'' (raisedBy_str (db_raisedBy b)) None
       (Some [(''contractId'', JStr (db_contractId b)),
         (''evidenceCount'', JNum (int (length (db_evidenceIds b)))),
         (''reasonCode'', JStr (db_reasonCode b))]) None);
     emitEvent E ''dispute.filed'' ''dispute'' disputeId [(''contractId'', JStr (db_contractId b)),
       (''raisedBy'', JStr (raisedBy_str (db_raisedBy b))), (''reasonCode'', JStr (db_reasonCode b))];
     maybeEnqueueDomainNotifications E ''dispute.filed'' (contractPartyRecipientIds contract)
       [(''disputeId'', JStr disputeId), (''contractId'', JStr (db_contractId b)),
        (''raisedBy'', JStr (raisedBy_str (db_raisedBy b))), (''reasonCode'', JStr (db_reasonCode b))];
     ret (HttpOk 201 (disputeId, now)) }"

definition postDisputeH ::
  "env \<Rightarrow> createDisputeBody option \<Rightarrow> BluesafeAuth option \<Rightarrow> (string \<times> string) handler" where
  "postDisputeH E body auth =
    (case safeParse createDisputeSchema body of
       None \<Rightarrow> ret (HttpErr 400 ''B2_VALIDATION_ERROR'')
     | Some b \<Rightarrow> do {
        contract \<leftarrow> getContract (db_contractId b);
        (case contract of
           None \<Rightarrow> ret (HttpErr 404 ''B2_NOT_FOUND'')
         | Some c \<Rightarrow>
            if \<not> canAccessContract E auth c then ret (HttpErr 403 ''B2_FORBIDDEN'')
            else do {
              bad \<leftarrow> checkEvidenceIds (db_contractId b) (db_evidenceIds b);
              (case bad of
                 Some (st, code) \<Rightarrow> ret (HttpErr st code)
               | None \<Rightarrow> fileDispute E b c) }) })"

definition postDispute :: "env \<Rightarrow> request \<Rightarrow> createDisputeBody option \<Rightarrow> (string \<times> string) handler" where
  "postDispute E req body = v1 E req anyRole [] (postDisputeH E body)"

text \<open>
  The dispute after a review patch. \<open>setUTCDate(getUTCDate() + n)\<close> moves the instant by \<open>n\<close> days of
  86,400,000 ms, as UTC has no clock changes.
\<close>

definition reviewPatched :: "env \<Rightarrow> DisputeStatus \<Rightarrow> string \<Rightarrow> int \<Rightarrow> DisputeCase \<Rightarrow> DisputeCase" where
  "reviewPatched E next now dueFrom d =
    (let d = d\<lparr>ds_status := next, ds_updatedAt := now\<rparr>;
         d = (if next = UnderReview
           then d\<lparr>ds_reviewDeadlineAt := Some (toISOString (dueFrom + 86400000 * reviewDeadlineDays E))\<rparr> else d) in
     if next = Filed then d\<lparr>ds_reviewDeadlineAt := None, ds_escalatedAt := None\<rparr> else d)"

definition applyReviewPatch ::
  "env \<Rightarrow> DisputeCase \<Rightarrow> DisputeStatus \<Rightarrow> BluesafeAuth option \<Rightarrow> (DisputeStatus \<times> string) handler" where
  "applyReviewPatch E dispute next auth = do {
     let before = ds_status dispute;
     now \<leftarrow> nowIso E;
     due \<leftarrow> (if next = UnderReview then dateNow E else ret 0);
     let dispute = reviewPatched E next now due dispute;
     saveDispute dispute;
     writeAudit E (audit ''dispute'' (ds_id dispute) ''dispute.status_patched''
       (getOr ''system'' (map_option (\<lambda>a. role_str (ba_role a)) auth))
       (Some [(''status'', JStr (disputeStatus_str before))])
       (Some [(''status'', JStr (disputeStatus_str (ds_status dispute)))]) None);
     (if next = UnderReview then do {
       emitEvent E ''dispute.review_started'' ''dispute'' (ds_id dispute)
         [(''fromStatus'', JStr (disputeStatus_str before))];
       contract \<leftarrow> getContract (ds_contractId dispute);
       (case contract of
          None \<Rightarrow> ret ()
        | Some c \<Rightarrow>
           maybeEnqueueDomainNotifications E ''dispute.review_started'' (contractPartyRecipientIds c)
             [(''disputeId'', JStr (ds_id dispute)), (''contractId'', JStr (ds_contractId dispute))]) }
     else ret ());
     ret (HttpOk 200 (ds_status dispute, ds_updatedAt dispute)) }"

definition disputeStatusPatchSchema :: "DisputeStatus \<Rightarrow> bool" where
  "disputeStatusPatchSchema s = (s \<in> {UnderReview, Filed})"

definition patchDisputeStatusH ::
  "env \<Rightarrow> string \<Rightarrow> DisputeStatus option \<Rightarrow> BluesafeAuth option \<Rightarrow> (DisputeStatus \<times> string) handler" where
  "patchDisputeStatusH E disputeId body auth =
    (case safeParse disputeStatusPatchSchema body of
       None \<Rightarrow> ret (HttpErr 400 ''B2_VALIDATION_ERROR'')
     | Some next \<Rightarrow> do {
        dispute \<leftarrow> getDispute disputeId;
        (case dispute of
           None \<Rightarrow> ret (HttpErr 404 ''B2_NOT_FOUND'')
         | Some d \<Rightarrow> do {
            ok \<leftarrow> canAccessDispute E auth d;
            if \<not> ok then ret (HttpErr 403 ''B2_FORBIDDEN'')
            else if \<not> isDisputeReviewStatusAllowed (ds_status d) next
            then ret (HttpErr 409 ''B2_VALIDATION_ERROR'')
            else if next = Filed \<and> authEnabled E \<and> map_option ba_role auth \<noteq> Some Operator
            then ret (HttpErr 403 ''B2_FORBIDDEN'')
            else applyReviewPatch E d next auth }) })"

definition patchDisputeStatus ::
  "env \<Rightarrow> request \<Rightarrow> string \<Rightarrow> DisputeStatus option \<Rightarrow> (DisputeStatus \<times> string) handler" where
  "patchDisputeStatus E req disputeId body = v1 E req anyRole [] (patchDisputeStatusH E disputeId body)"

section \<open>Votes, escalation, reading\<close>

record voteBody =
  vb_verifierId :: string
  vb_recommendation :: DisputeDecisionChoice

definition disputeVerifierVoteSchema :: "voteBody \<Rightarrow> bool" where
  "disputeVerifierVoteSchema b = (vb_verifierId b \<noteq> '''')"

definition recordVote :: "env \<Rightarrow> string \<Rightarrow> voteBody \<Rightarrow> string handler" where
  "recordVote E disputeId b = do {
     i \<leftarrow> randomId E ''dvv'';
     now \<leftarrow> nowIso E;
     appendDisputeVerifierVote \<lparr> vv_id = i, vv_disputeId = disputeId, vv_verifierId = vb_verifierId b,
       vv_recommendation = vb_recommendation b, vv_createdAt = now \<rparr>;
     emitEvent E ''dispute.verifier_vote'' ''dispute'' disputeId
       [(''verifierId'', JStr (vb_verifierId b)), (''recommendation'', JStr (decision_str (vb_recommendation b)))];
     writeAudit E (audit ''dispute'' disputeId ''dispute.verifier_vote'' (vb_verifierId b) None None
       (Some [(''recommendation'', JStr (decision_str (vb_recommendation b)))]));
     ret (HttpOk 201 disputeId) }"

definition postVerifierVoteH ::
  "env \<Rightarrow> string \<Rightarrow> voteBody option \<Rightarrow> BluesafeAuth option \<Rightarrow> string handler" where
  "postVerifierVoteH E disputeId body auth =
    (case safeParse disputeVerifierVoteSchema body of
       None \<Rightarrow> ret (HttpErr 400 ''B2_VALIDATION_ERROR'')
     | Some b \<Rightarrow> do {
        dispute \<leftarrow> getDispute disputeId;
        (case dispute of
           None \<Rightarrow> ret (HttpErr 404 ''B2_NOT_FOUND'')
         | Some d \<Rightarrow> do {
            ok \<leftarrow> canAccessDispute E auth d;
            if \<not> ok then ret (HttpErr 403 ''B2_FORBIDDEN'')
            else if ds_status d \<notin> {Filed, UnderReview} then ret (HttpErr 409 ''B2_VALIDATION_ERROR'')
            else do {
              priorVotes \<leftarrow> listDisputeVerifierVotes disputeId;
              if list_ex (\<lambda>v. vv_verifierId v = vb_verifierId b) priorVotes
              then ret (HttpErr 409 ''B2_CONFLICT'')
              else recordVote E disputeId b } }) })"

definition postVerifierVote :: "env \<Rightarrow> request \<Rightarrow> string \<Rightarrow> voteBody option \<Rightarrow> string handler" where
  "postVerifierVote E req disputeId body =
     v1 E req [Operator, Verifier, Auditor] [] (postVerifierVoteH E disputeId body)"

text \<open>The tally object, in the order in which its keys appear; every recommendation is a non-empty string.\<close>

definition voteTally :: "DisputeVerifierVoteRecord list \<Rightarrow> (DisputeDecisionChoice, nat) jsmap" where
  "voteTally rows = tally (map vv_recommendation rows) []"

definition maxCount :: "(DisputeDecisionChoice, nat) jsmap \<Rightarrow> nat" where
  "maxCount t = fold max (jm_values t) 0"

record reviewState =
  rs_status :: DisputeStatus
  rs_reviewDeadlineAt :: "string option"
  rs_escalatedAt :: "string option"
  rs_votes :: "DisputeVerifierVoteRecord list"
  rs_tally :: "(DisputeDecisionChoice, nat) jsmap"
  rs_quorumMet :: bool
  rs_quorumK :: nat

definition getReviewStateH :: "env \<Rightarrow> string \<Rightarrow> BluesafeAuth option \<Rightarrow> reviewState handler" where
  "getReviewStateH E disputeId auth = do {
     dispute \<leftarrow> getDispute disputeId;
     (case dispute of
        None \<Rightarrow> ret (HttpErr 404 ''B2_NOT_FOUND'')
      | Some d \<Rightarrow> do {
         ok \<leftarrow> canAccessDispute E auth d;
         if \<not> ok then ret (HttpErr 403 ''B2_FORBIDDEN'')
         else do {
           rows \<leftarrow> listDisputeVerifierVotes disputeId;
           let tally = voteTally rows;
           ret (HttpOk 200 \<lparr> rs_status = ds_status d, rs_reviewDeadlineAt = ds_reviewDeadlineAt d,
             rs_escalatedAt = ds_escalatedAt d, rs_votes = rows, rs_tally = tally,
             rs_quorumMet = (verifierQuorumK E \<le> maxCount tally), rs_quorumK = verifierQuorumK E \<rparr>) } }) }"

definition getReviewState :: "env \<Rightarrow> request \<Rightarrow> string \<Rightarrow> reviewState handler" where
  "getReviewState E req disputeId = v1 E req anyRole [] (getReviewStateH E disputeId)"

definition notifyParties :: "env \<Rightarrow> string \<Rightarrow> DisputeCase \<Rightarrow> payload \<Rightarrow> unit io" where
  "notifyParties E eventType d payload = do {
     contract \<leftarrow> getContract (ds_contractId d);
     (case contract of
        None \<Rightarrow> ret ()
      | Some c \<Rightarrow> maybeEnqueueDomainNotifications E eventType (contractPartyRecipientIds c) payload) }"

definition applyEscalation :: "env \<Rightarrow> DisputeCase \<Rightarrow> BluesafeAuth option \<Rightarrow> string handler" where
  "applyEscalation E dispute auth = do {
     t \<leftarrow> nowIso E;
     let dispute = dispute\<lparr>ds_updatedAt := t, ds_escalatedAt := Some t\<rparr>;
     saveDispute dispute;
     writeAudit E (audit ''dispute'' (ds_id dispute) ''dispute.escalated'' (actorRole auth) None
       (Some [(''escalatedAt'', JStr t)]) None);
     emitEvent E ''dispute.escalated'' ''dispute'' (ds_id dispute)
       [(''reviewDeadlineAt'', joptn (ds_reviewDeadlineAt dispute))];
     notifyParties E ''dispute.escalated'' dispute
       [(''disputeId'', JStr (ds_id dispute)), (''contractId'', JStr (ds_contractId dispute))];
     ret (HttpOk 200 t) }"

definition escalateDisputeH :: "env \<Rightarrow> string \<Rightarrow> BluesafeAuth option \<Rightarrow> string handler" where
  "escalateDisputeH E disputeId auth = do {
     dispute \<leftarrow> getDispute disputeId;
     (case dispute of
        None \<Rightarrow> ret (HttpErr 404 ''B2_NOT_FOUND'')
      | Some d \<Rightarrow> do {
         ok \<leftarrow> canAccessDispute E auth d;
         if \<not> ok then ret (HttpErr 403 ''B2_FORBIDDEN'')
         else applyEscalation E d auth }) }"

definition escalateDispute :: "env \<Rightarrow> request \<Rightarrow> string \<Rightarrow> string handler" where
  "escalateDispute E req disputeId = v1 E req [Operator] [ScDisputes] (escalateDisputeH E disputeId)"

record disputeListQuery =
  lq_limit :: "int option"
  lq_offset :: "int option"
  lq_contractId :: "string option"
  lq_status :: "DisputeStatus option"
  lq_updatedFrom :: "string option"
  lq_updatedTo :: "string option"

definition disputeListQuerySchema :: "disputeListQuery \<Rightarrow> bool" where
  "disputeListQuerySchema q = (pageOk (lq_limit q) (lq_offset q) \<and>
     optionally (\<lambda>s. 1 \<le> length s) (lq_contractId q) \<and> optionally (\<lambda>s. 4 \<le> length s) (lq_updatedFrom q) \<and>
     optionally (\<lambda>s. 4 \<le> length s) (lq_updatedTo q))"

definition listDisputes :: "env \<Rightarrow> request \<Rightarrow> disputeListQuery option \<Rightarrow> DisputeCase Paginated handler" where
  "listDisputes E req query = v1 E req anyRole [] (\<lambda>auth.
     case safeParse disputeListQuerySchema query of
       None \<Rightarrow> ret (HttpErr 400 ''B2_VALIDATION_ERROR'')
     | Some q \<Rightarrow>
        (case (parseOptionalIso E (lq_updatedFrom q), parseOptionalIso E (lq_updatedTo q)) of
           (Some updatedFrom, Some updatedTo) \<Rightarrow> do {
             page \<leftarrow> listDisputesPage E \<lparr> df_contractId = lq_contractId q, df_status = lq_status q,
               df_updatedFrom = updatedFrom, df_updatedTo = updatedTo \<rparr> (pageParams (lq_limit q) (lq_offset q));
             ret (HttpOk 200 page) }
         | _ \<Rightarrow> ret (HttpErr 400 ''B2_VALIDATION_ERROR'')))"

definition getDisputeRoute :: "env \<Rightarrow> request \<Rightarrow> string \<Rightarrow> DisputeCase handler" where
  "getDisputeRoute E req disputeId = v1 E req anyRole [] (\<lambda>auth. do {
     dispute \<leftarrow> getDispute disputeId;
     (case dispute of
        None \<Rightarrow> ret (HttpErr 404 ''B2_NOT_FOUND'')
      | Some d \<Rightarrow> do {
         ok \<leftarrow> canAccessDispute E auth d;
         if \<not> ok then ret (HttpErr 403 ''B2_FORBIDDEN'') else ret (HttpOk 200 d) }) })"

section \<open>Decision\<close>

text \<open>\<open>decidedBy\<close> has the one value \<open>verifier_mock\<close> and is not a field of the model's record.\<close>

record decisionBody =
  nb_decision :: DisputeDecisionChoice
  nb_memo :: "string option"

definition decisionSchema :: "decisionBody \<Rightarrow> bool" where
  "decisionSchema b = optionally (\<lambda>m. length m \<le> 500) (nb_memo b)"

definition recordDecision :: "env \<Rightarrow> DisputeCase \<Rightarrow> decisionBody \<Rightarrow> (DisputeStatus \<times> string) handler" where
  "recordDecision E dispute b = do {
     decisionId \<leftarrow> randomId E ''dcs'';
     created \<leftarrow> nowIso E;
     saveDecision \<lparr> cd_id = decisionId, cd_disputeId = ds_id dispute, cd_decision = nb_decision b,
       cd_memo = nb_memo b, cd_createdAt = created \<rparr>;
     let before = ds_status dispute;
     now \<leftarrow> nowIso E;
     let dispute = dispute\<lparr>ds_status := Decided, ds_updatedAt := now\<rparr>;
     saveDispute dispute;
     writeAudit E (audit ''dispute'' (ds_id dispute) ''dispute.decision_recorded'' ''verifier_mock''
       (Some [(''status'', JStr (disputeStatus_str before))])
       (Some [(''status'', JStr (disputeStatus_str (ds_status dispute))), (''decisionId'', JStr decisionId),
         (''decision'', JStr (decision_str (nb_decision b)))]) None);
     emitEvent E ''dispute.decision_recorded'' ''dispute'' (ds_id dispute)
       [(''decisionId'', JStr decisionId), (''decision'', JStr (decision_str (nb_decision b)))];
     notifyParties E ''dispute.decision_recorded'' dispute
       [(''disputeId'', JStr (ds_id dispute)), (''contractId'', JStr (ds_contractId dispute)),
        (''decisionId'', JStr decisionId), (''decision'', JStr (decision_str (nb_decision b)))];
     ret (HttpOk 200 (ds_status dispute, decisionId)) }"

definition postDecisionH ::
  "env \<Rightarrow> string \<Rightarrow> decisionBody option \<Rightarrow> BluesafeAuth option \<Rightarrow> (DisputeStatus \<times> string) handler" where
  "postDecisionH E disputeId body auth =
    (case safeParse decisionSchema body of
       None \<Rightarrow> ret (HttpErr 400 ''B2_VALIDATION_ERROR'')
     | Some b \<Rightarrow> do {
        dispute \<leftarrow> getDispute disputeId;
        (case dispute of
           None \<Rightarrow> ret (HttpErr 404 ''B2_NOT_FOUND'')
         | Some d \<Rightarrow> do {
            ok \<leftarrow> canAccessDispute E auth d;
            if \<not> ok then ret (HttpErr 403 ''B2_FORBIDDEN'')
            else if ds_status d \<notin> {Filed, UnderReview} then ret (HttpErr 409 ''B2_VALIDATION_ERROR'')
            else recordDecision E d b }) })"

definition postDecision ::
  "env \<Rightarrow> request \<Rightarrow> string \<Rightarrow> decisionBody option \<Rightarrow> (DisputeStatus \<times> string) handler" where
  "postDecision E req disputeId body =
     v1 E req [Operator, Verifier, Auditor] [] (postDecisionH E disputeId body)"

section \<open>Execution\<close>

datatype ExecutionTxType = EscrowFinish | EscrowCancel

fun executionTxType_str :: "ExecutionTxType \<Rightarrow> string" where
  "executionTxType_str EscrowFinish = ''EscrowFinish''"
| "executionTxType_str EscrowCancel = ''EscrowCancel''"

record executionBody =
  xb_txType :: ExecutionTxType
  xb_owner :: string
  xb_offerSequence :: json
  xb_network :: Network
  xb_txHash :: "string option"

definition offerSequenceOk :: "json \<Rightarrow> bool" where
  "offerSequenceOk j = (case j of JNum n \<Rightarrow> 0 \<le> n | JStr s \<Rightarrow> s \<noteq> '''' | _ \<Rightarrow> False)"

definition executionSchema :: "executionBody \<Rightarrow> bool" where
  "executionSchema b = (20 \<le> length (xb_owner b) \<and> offerSequenceOk (xb_offerSequence b) \<and>
     optionally (\<lambda>h. length h = 64 \<and> allHexDigits h) (xb_txHash b))"

definition syntheticExecutionPathEffective :: "env \<Rightarrow> bool" where
  "syntheticExecutionPathEffective E = (syntheticExecutionHashEnabled E \<and> deploymentTier E = Dev)"

definition buildExecutionTx :: "ExecutionTxType \<Rightarrow> string \<Rightarrow> json \<Rightarrow> payload" where
  "buildExecutionTx txType owner offerSequence =
     [(''TransactionType'', JStr (executionTxType_str txType)), (''Account'', JStr owner),
      (''Owner'', JStr owner), (''OfferSequence'', offerSequence)]"

text \<open>\<open>None\<close>: the submission threw; \<open>Some None\<close>: submission is not configured.\<close>

definition trySubmitDisputeExecution ::
  "env \<Rightarrow> ExecutionTxType \<Rightarrow> string \<Rightarrow> json \<Rightarrow> string option option io" where
  "trySubmitDisputeExecution E txType owner offerSequence =
    (if \<not> submitEnabled E \<or> trim (submitSeed E) = '''' then ret (Some None)
     else if \<not> xrplEnabled E then ret (Some None)
     else (let wallet = trim (submitSeed E) in
       if walletAddress E wallet \<noteq> owner then ret None
       else do {
         h \<leftarrow> submitAndWaitFromWallet E (buildExecutionTx txType owner offerSequence) wallet;
         ret (map_option Some h) }))"

text \<open>Where the hash of an execution comes from, or the error that ends the request.\<close>

datatype executionHash = ExecHash string bool | ExecErr nat string

definition executionTxHash :: "env \<Rightarrow> DisputeCase \<Rightarrow> executionBody \<Rightarrow> executionHash io" where
  "executionTxHash E dispute b =
    (case xb_txHash b of
       Some h \<Rightarrow> ret (ExecHash (toUpperCase h) False)
     | None \<Rightarrow> do {
        submitted \<leftarrow> trySubmitDisputeExecution E (xb_txType b) (xb_owner b) (xb_offerSequence b);
        (case submitted of
           None \<Rightarrow> ret (ExecErr 502 ''B2_EXECUTION_SUBMIT_FAILED'')
         | Some (Some h) \<Rightarrow> ret (ExecHash h False)
         | Some None \<Rightarrow>
            if \<not> syntheticExecutionPathEffective E then ret (ExecErr 400 ''B2_VALIDATION_ERROR'')
            else do {
              ms \<leftarrow> dateNow E;
              ret (ExecHash (toUpperCase (take 64 (sha256Hex E (ds_id dispute @ '':'' @
                executionTxType_str (xb_txType b) @ '':'' @ show_int ms)))) True) }) })"

definition recordExecutionRequest :: "bool \<Rightarrow> unit io" where
  "recordExecutionRequest synthetic = bump (if synthetic then ''syntheticTotal'' else ''ledgerTxTotal'') 1"

text \<open>
  The lookup and the tracking of the execution transaction, before the dispute is touched: the error
  code when the lookup throws or the transaction on the ledger has another type.
\<close>

definition trackExecution ::
  "env \<Rightarrow> DisputeCase \<Rightarrow> executionBody \<Rightarrow> string \<Rightarrow> bool \<Rightarrow> (nat \<times> string) option io" where
  "trackExecution E dispute b txHash ledgerBacked =
    (let track = upsertTrackedTx E txHash (executionTxType_str (xb_txType b)) (Some (xb_owner b))
           (Some (ds_id dispute)) (xb_network b) in
     if xrplEnabled E then do {
       live \<leftarrow> getTxStatus E txHash;
       (case live of
          None \<Rightarrow> ret (Some (500, ''B2_INTERNAL_ERROR''))
        | Some l \<Rightarrow>
           if ledgerBacked \<and> truthy (Option.bind l lt_transactionType) \<and>
              Option.bind l lt_transactionType \<noteq> Some (executionTxType_str (xb_txType b))
           then ret (Some (409, ''B2_VALIDATION_ERROR''))
           else do {
             track;
             (case l of None \<Rightarrow> ret False | Some l \<Rightarrow> applyLiveTxStatus E txHash l);
             ret None }) }
     else do { track; ret None })"

definition requestExecution :: "env \<Rightarrow> DisputeCase \<Rightarrow> executionBody \<Rightarrow> string \<Rightarrow> bool \<Rightarrow> string \<Rightarrow>
    BluesafeAuth option \<Rightarrow> (string \<times> string \<times> bool) handler" where
  "requestExecution E dispute b txHash synthetic now auth = do {
     recordExecutionRequest synthetic;
     let before = ds_status dispute;
     let dispute = dispute\<lparr>ds_status := ExecutionPending, ds_updatedAt := now\<rparr>;
     saveDispute dispute;
     writeAudit E (audit ''dispute'' (ds_id dispute) ''dispute.execution_requested'' (actorRole auth)
       (Some [(''status'', JStr (disputeStatus_str before))])
       (Some [(''status'', JStr (disputeStatus_str (ds_status dispute))), (''txHash'', JStr txHash),
         (''txType'', JStr (executionTxType_str (xb_txType b))), (''synthetic'', JBool synthetic)]) None);
     emitEvent E ''dispute.execution_requested'' ''dispute'' (ds_id dispute)
       [(''txHash'', JStr txHash), (''txType'', JStr (executionTxType_str (xb_txType b))),
        (''network'', JStr (network_str (xb_network b))), (''synthetic'', JBool synthetic)];
     notifyParties E ''dispute.execution_requested'' dispute
       [(''disputeId'', JStr (ds_id dispute)), (''contractId'', JStr (ds_contractId dispute)),
        (''txHash'', JStr txHash), (''txType'', JStr (executionTxType_str (xb_txType b))),
        (''synthetic'', JBool synthetic)];
     requestId \<leftarrow> randomId E ''exec'';
     ret (HttpOk 202 (requestId, txHash, synthetic)) }"

definition postExecutionH :: "env \<Rightarrow> string \<Rightarrow> executionBody option \<Rightarrow> BluesafeAuth option \<Rightarrow>
    (string \<times> string \<times> bool) handler" where
  "postExecutionH E disputeId body auth =
    (case safeParse executionSchema body of
       None \<Rightarrow> ret (HttpErr 400 ''B2_VALIDATION_ERROR'')
     | Some b \<Rightarrow> do {
        dispute \<leftarrow> getDispute disputeId;
        (case dispute of
           None \<Rightarrow> ret (HttpErr 404 ''B2_NOT_FOUND'')
         | Some d \<Rightarrow> do {
            ok \<leftarrow> canAccessDispute E auth d;
            if \<not> ok then ret (HttpErr 403 ''B2_FORBIDDEN'')
            else if ds_status d \<noteq> Decided then ret (HttpErr 409 ''B2_VALIDATION_ERROR'')
            else do {
              hash \<leftarrow> executionTxHash E d b;
              (case hash of
                 ExecErr st code \<Rightarrow> ret (HttpErr st code)
               | ExecHash txHash synthetic \<Rightarrow> do {
                  now \<leftarrow> nowIso E;
                  bad \<leftarrow> trackExecution E d b txHash (\<not> synthetic);
                  (case bad of
                     Some (st, code) \<Rightarrow> ret (HttpErr st code)
                   | None \<Rightarrow> requestExecution E d b txHash synthetic now auth) }) } }) })"

definition postExecution :: "env \<Rightarrow> request \<Rightarrow> string \<Rightarrow> executionBody option \<Rightarrow>
    (string \<times> string \<times> bool) handler" where
  "postExecution E req disputeId body =
     v1 E req [Operator, Verifier, Auditor] [] (postExecutionH E disputeId body)"

section \<open>Review-deadline scan and verifier registry\<close>

definition slaEscalate :: "env \<Rightarrow> DisputeCase \<Rightarrow> unit io" where
  "slaEscalate E d = do {
     t \<leftarrow> nowIso E;
     let d = d\<lparr>ds_updatedAt := t, ds_escalatedAt := Some t\<rparr>;
     saveDispute d;
     writeAudit E (audit ''dispute'' (ds_id d) ''dispute.escalated'' ''system'' None
       (Some [(''escalatedAt'', JStr t)]) (Some [(''source'', JStr ''review_sla_auto'')]));
     emitEvent E ''dispute.escalated'' ''dispute'' (ds_id d)
       [(''contractId'', JStr (ds_contractId d)), (''reviewDeadlineAt'', jopt (ds_reviewDeadlineAt d)),
        (''source'', JStr ''review_sla_auto'')];
     notifyParties E ''dispute.escalated'' d
       [(''disputeId'', JStr (ds_id d)), (''contractId'', JStr (ds_contractId d))] }"

definition overdue :: "env \<Rightarrow> int \<Rightarrow> DisputeCase \<Rightarrow> bool" where
  "overdue E nowMs d = (truthy (ds_reviewDeadlineAt d) \<and>
     (case dateParse E (the (ds_reviewDeadlineAt d)) of None \<Rightarrow> False | Some t \<Rightarrow> t \<le> nowMs))"

text \<open>One iteration: (deadline expired, escalated).\<close>

definition slaScanOne :: "env \<Rightarrow> int \<Rightarrow> DisputeCase \<Rightarrow> (bool \<times> bool) io" where
  "slaScanOne E nowMs d =
    (if \<not> overdue E nowMs d then ret (False, False)
     else if slaAutoEscalate E then
       (if truthy (ds_escalatedAt d) then ret (False, False)
        else do { slaEscalate E d; ret (False, True) })
     else do {
       emitEvent E ''dispute.review_deadline_expired'' ''dispute'' (ds_id d)
         [(''contractId'', JStr (ds_contractId d)), (''reviewDeadlineAt'', jopt (ds_reviewDeadlineAt d))];
       notifyParties E ''dispute.review_deadline_expired'' d
         [(''disputeId'', JStr (ds_id d)), (''contractId'', JStr (ds_contractId d)),
          (''reviewDeadlineAt'', jopt (ds_reviewDeadlineAt d))];
       ret (True, False) })"

definition slaScanH :: "env \<Rightarrow> BluesafeAuth option \<Rightarrow> (nat \<times> nat \<times> nat) handler" where
  "slaScanH E auth = do {
     nowMs \<leftarrow> dateNow E;
     page \<leftarrow> listDisputesPage E \<lparr> df_contractId = None, df_status = Some UnderReview, df_updatedFrom = None,
       df_updatedTo = None \<rparr> \<lparr> lp_limit = 500, lp_offset = 0 \<rparr>;
     flags \<leftarrow> for_collect (pg_items page) (slaScanOne E nowMs);
     ret (HttpOk 200 (length (pg_items page), length (filter fst flags), length (filter snd flags))) }"

definition slaScan :: "env \<Rightarrow> request \<Rightarrow> (nat \<times> nat \<times> nat) handler" where
  "slaScan E req = v1 E req [Operator] [ScSla] (slaScanH E)"

definition listVerifierRegistry :: "env \<Rightarrow> request \<Rightarrow> DisputeVerifierRegistryEntry list handler" where
  "listVerifierRegistry E req = v1 E req [Operator, Verifier, Auditor] [] (\<lambda>auth. do {
     items \<leftarrow> listDisputeVerifierRegistry E;
     ret (HttpOk 200 items) })"

record registryBody =
  gb_verifierId :: string
  gb_displayLabel :: "string option"
  gb_active :: bool

definition disputeVerifierRegistryUpsertSchema :: "registryBody \<Rightarrow> bool" where
  "disputeVerifierRegistryUpsertSchema b = (1 \<le> length (gb_verifierId b) \<and> length (gb_verifierId b) \<le> 256 \<and>
     optionally (\<lambda>l. 1 \<le> length l \<and> length l \<le> 256) (gb_displayLabel b))"

definition upsertVerifierH ::
  "env \<Rightarrow> registryBody option \<Rightarrow> BluesafeAuth option \<Rightarrow> DisputeVerifierRegistryEntry handler" where
  "upsertVerifierH E body auth =
    (case safeParse disputeVerifierRegistryUpsertSchema body of
       None \<Rightarrow> ret (HttpErr 400 ''B2_VALIDATION_ERROR'')
     | Some b \<Rightarrow> do {
        items \<leftarrow> listDisputeVerifierRegistry E;
        let existing = find (\<lambda>e. vr_verifierId e = gb_verifierId b) items;
        t \<leftarrow> nowIso E;
        i \<leftarrow> (case existing of Some e \<Rightarrow> ret (vr_id e) | None \<Rightarrow> randomId E ''dvr'');
        let entry = \<lparr> vr_id = i, vr_verifierId = gb_verifierId b, vr_displayLabel = gb_displayLabel b,
          vr_active = gb_active b, vr_createdAt = getOr t (map_option vr_createdAt existing) \<rparr>;
        upsertDisputeVerifierRegistryEntry entry;
        writeAudit E (audit ''dispute_verifier_registry'' i ''dispute_verifier_registry.upsert'' (actorRole auth)
          None (Some [(''verifierId'', JStr (vr_verifierId entry)), (''active'', JBool (vr_active entry)),
            (''displayLabel'', jopt (vr_displayLabel entry))]) None);
        ret (HttpOk (if existing = None then 201 else 200) entry) })"

definition upsertVerifier ::
  "env \<Rightarrow> request \<Rightarrow> registryBody option \<Rightarrow> DisputeVerifierRegistryEntry handler" where
  "upsertVerifier E req body = v1 E req [Operator] [ScRegistry] (upsertVerifierH E body)"

section \<open>Frames\<close>

lemma checkEvidenceIds_exec [simp]: "exec (checkEvidenceIds c is) w = w"
  by (induction "is") (auto simp: run_simps split: option.splits)

lemma canAccessDispute_exec [simp]: "exec (canAccessDispute E auth d) w = w"
  by (simp add: canAccessDispute_def run_simps)

lemma pure_steps:
  "(\<And>w. R w w) \<Longrightarrow> steps R (checkEvidenceIds c is)" "(\<And>w. R w w) \<Longrightarrow> steps R (canAccessDispute E auth d)"
  by (simp_all add: steps_def)

lemmas dispute_parts = fileDispute_def applyReviewPatch_def recordVote_def notifyParties_def
  applyEscalation_def recordDecision_def trySubmitDisputeExecution_def executionTxHash_def
  recordExecutionRequest_def trackExecution_def requestExecution_def slaEscalate_def slaScanOne_def

lemmas dispute_handlers = postDisputeH_def patchDisputeStatusH_def postVerifierVoteH_def escalateDisputeH_def
  postDecisionH_def postExecutionH_def slaScanH_def upsertVerifierH_def

lemmas dispute_routes = postDispute_def patchDisputeStatus_def postVerifierVote_def escalateDispute_def
  postDecision_def postExecution_def slaScan_def upsertVerifier_def

lemma tle_pure [tle_intros]:
  "steps ticks_le (checkEvidenceIds c is)" "steps ticks_le (canAccessDispute E auth d)"
  by (rule pure_steps, simp add: ticks_le_def)+

lemma tle_dispute_parts [tle_intros]:
  "steps ticks_le (notifyParties E et d p)" "steps ticks_le (fileDispute E cb c)"
  "steps ticks_le (applyReviewPatch E d nx auth)" "steps ticks_le (recordVote E i vb)"
  "steps ticks_le (applyEscalation E d auth)" "steps ticks_le (recordDecision E d nb)"
  "steps ticks_le (trySubmitDisputeExecution E ty ow os)" "steps ticks_le (executionTxHash E d xb)"
  "steps ticks_le (recordExecutionRequest sy)" "steps ticks_le (trackExecution E d xb h lb)"
  "steps ticks_le (requestExecution E d xb h sy now auth)" "steps ticks_le (slaEscalate E d)"
  "steps ticks_le (slaScanOne E ms d)"
  unfolding dispute_parts Let_def by (auto intro!: tle_intros split: option.splits)

lemma tle_dispute_handlers [tle_intros]:
  "steps ticks_le (postDisputeH E cb auth)" "steps ticks_le (patchDisputeStatusH E i st auth)"
  "steps ticks_le (postVerifierVoteH E i vb auth)" "steps ticks_le (escalateDisputeH E i auth)"
  "steps ticks_le (postDecisionH E i nb auth)" "steps ticks_le (postExecutionH E i xb auth)"
  "steps ticks_le (slaScanH E auth)" "steps ticks_le (upsertVerifierH E gb auth)"
  unfolding dispute_handlers Let_def
  by (auto intro!: tle_intros split: option.splits executionHash.splits)

lemma tle_dispute_routes [tle_intros]:
  "steps ticks_le (postDispute E req cb)" "steps ticks_le (patchDisputeStatus E req i st)"
  "steps ticks_le (postVerifierVote E req i vb)" "steps ticks_le (escalateDispute E req i)"
  "steps ticks_le (postDecision E req i nb)" "steps ticks_le (postExecution E req i xb)"
  "steps ticks_le (slaScan E req)" "steps ticks_le (upsertVerifier E req gb)"
  unfolding dispute_routes by (intro tle_intros)+

lemma core_pure [core_intros]: "keeps f (checkEvidenceIds c is)" "keeps f (canAccessDispute E auth d)"
  by (rule pure_steps, simp add: same_def)+

lemma core_notifyParties [core_intros]: "core_obs f \<Longrightarrow> keeps f (notifyParties E et d p)"
  unfolding notifyParties_def by (auto intro!: core_intros split: option.splits)

lemma core_submit [core_intros]:
  assumes "core_obs f"
  shows "keeps f (trySubmitDisputeExecution E ty ow os)" "keeps f (executionTxHash E d xb)"
    "keeps f (recordExecutionRequest sy)"
  unfolding trySubmitDisputeExecution_def executionTxHash_def recordExecutionRequest_def Let_def
  by (auto intro!: core_intros assms xrpl_calls_keep simp: core_ticks [OF assms] split: option.splits)

lemma core_dispute_routes [core_intros]:
  assumes "core_obs f" "\<And>w g. f (disputes_update g w) = f w"
  shows "keeps f (postDispute E req cb)" "keeps f (patchDisputeStatus E req i st)"
    "keeps f (escalateDispute E req i)" "keeps f (slaScan E req)"
  unfolding dispute_routes dispute_handlers dispute_parts Let_def
  by (auto intro!: core_intros assms split: option.splits)

lemma core_vote_route [core_intros]:
  assumes "core_obs f"
  shows "(\<And>w g. f (verifierVotes_update g w) = f w) \<Longrightarrow> keeps f (postVerifierVote E req i vb)"
    "(\<And>w g. f (verifierRegistry_update g w) = f w) \<Longrightarrow> keeps f (upsertVerifier E req gb)"
    "(\<And>w g. f (disputes_update g w) = f w) \<Longrightarrow> (\<And>w g. f (decisions_update g w) = f w) \<Longrightarrow>
      keeps f (postDecision E req i nb)"
  unfolding dispute_routes dispute_handlers recordVote_def recordDecision_def Let_def
  by (auto intro!: core_intros assms split: option.splits)

lemma core_trackExecution [core_intros]:
  assumes "core_obs f" "\<And>w g. f (disputes_update g w) = f w" "\<And>w g. f (xrplTxs_update g w) = f w"
  shows "keeps f (trackExecution E d xb h lb)" "keeps f (postExecution E req i body)"
proof -
  show t: "keeps f (trackExecution E d xb h lb)" for d xb h lb
    unfolding trackExecution_def Let_def
    by (auto intro!: core_intros assms xrpl_calls_keep simp: core_ticks [OF assms(1)] split: option.splits)
  show "keeps f (postExecution E req i body)"
    unfolding postExecution_def postExecutionH_def requestExecution_def Let_def
    by (auto intro!: core_intros assms t split: option.splits executionHash.splits)
qed

lemma notify_pure [notify_intros]:
  "steps (notify_rel E') (checkEvidenceIds c is)" "steps (notify_rel E') (canAccessDispute E auth d)"
  by (rule pure_steps, rule nrel.refl)+

lemma notify_notifyParties [notify_intros]: "env_ok E \<Longrightarrow> steps (notify_rel E) (notifyParties E et d p)"
  unfolding notifyParties_def by (auto intro!: notify_intros split: option.splits)

lemma notify_dispute_routes [notify_intros]:
  assumes "env_ok E"
  shows "steps (notify_rel E) (postDispute E req cb)" "steps (notify_rel E) (patchDisputeStatus E req i st)"
    "steps (notify_rel E) (postVerifierVote E req i vb)" "steps (notify_rel E) (escalateDispute E req i)"
    "steps (notify_rel E) (postDecision E req i nb)" "steps (notify_rel E) (postExecution E req i xb)"
    "steps (notify_rel E) (slaScan E req)" "steps (notify_rel E) (upsertVerifier E req gb)"
  unfolding dispute_routes dispute_handlers fileDispute_def applyReviewPatch_def recordVote_def
    applyEscalation_def recordDecision_def trySubmitDisputeExecution_def executionTxHash_def
    recordExecutionRequest_def trackExecution_def requestExecution_def slaEscalate_def slaScanOne_def Let_def
  by (auto intro!: notify_intros assms split: option.splits executionHash.splits)

lemma txs_dispute_routes [txs_intros]:
  "preserves txs_ok (postDispute E req cb)" "preserves txs_ok (patchDisputeStatus E req i st)"
  "preserves txs_ok (postVerifierVote E req i vb)" "preserves txs_ok (escalateDispute E req i)"
  "preserves txs_ok (postDecision E req i nb)" "preserves txs_ok (slaScan E req)"
  "preserves txs_ok (upsertVerifier E req gb)"
  by (rule txs_core; rule core_intros; simp)+

lemma txs_postExecution [txs_intros]: "preserves txs_ok (postExecution E req i xb)"
proof -
  have c: "preserves txs_ok (canAccessDispute E auth d)" "preserves txs_ok (notifyParties E et d p)"
    "preserves txs_ok (executionTxHash E d b)" "preserves txs_ok (recordExecutionRequest sy)"
    for auth d et p b sy
    by (rule txs_core, rule core_intros; simp)+
  show ?thesis
    unfolding postExecution_def postExecutionH_def trackExecution_def requestExecution_def Let_def
    by (auto intro!: txs_intros c split: option.splits executionHash.splits)
qed

section \<open>One decision per case\<close>

interpretation dclife: minted_life decisions cd_id "(=)" E "''dcs''" for E
  by unfold_locales auto

definition past_review :: "DisputeStatus \<Rightarrow> bool" where
  "past_review s = (s \<notin> {Filed, UnderReview})"

definition decisions_of :: "world \<Rightarrow> string \<Rightarrow> CaseDecision list" where
  "decisions_of w i = filter (\<lambda>c. cd_disputeId c = i) (jm_values (decisions w))"

text \<open>A dispute past review has exactly one decision, every other identifier has none.\<close>

definition one_decision :: "world \<Rightarrow> bool" where
  "one_decision w = (\<forall>i. length (decisions_of w i) =
     (case jm_get (disputes w) i of None \<Rightarrow> 0 | Some d \<Rightarrow> if past_review (ds_status d) then 1 else 0))"

definition case_ok :: "env \<Rightarrow> world \<Rightarrow> bool" where
  "case_ok E w = (dlife.coherent E w \<and> dclife.coherent E w \<and> one_decision w)"

definition case_rel :: "env \<Rightarrow> world \<Rightarrow> world \<Rightarrow> bool" where
  "case_rel E w w' = (dlife.life E w w' \<and> dclife.life E w w' \<and> (case_ok E w \<longrightarrow> one_decision w'))"

lemma case_relD: "case_rel E w w' \<Longrightarrow> case_ok E w \<Longrightarrow> case_ok E w'"
  by (auto simp: case_rel_def case_ok_def intro: dlife.life_coherent dclife.life_coherent)

interpretation crel: step_rel "case_rel E" for E
proof
  show "case_rel E w w" for w
    by (auto simp: case_rel_def case_ok_def intro: dlife.life_refl dclife.life_refl)
  show "case_rel E w w''" if "case_rel E w w'" "case_rel E w' w''" for w w' w''
    using that case_relD [OF that(1)]
    by (auto simp: case_rel_def intro: dlife.life_trans dclife.life_trans)
qed

named_theorems case_intros \<open>operations that keep decisions and disputes together\<close>

lemmas case_io [case_intros] = crel.io

lemma case_same:
  "disputes w' = disputes w \<Longrightarrow> decisions w' = decisions w \<Longrightarrow> ticks w \<le> ticks w' \<Longrightarrow> case_rel E w w'"
  by (auto simp: case_rel_def case_ok_def one_decision_def decisions_of_def intro: dlife.same dclife.same)

lemma case_core: "keeps disputes m \<Longrightarrow> keeps decisions m \<Longrightarrow> steps ticks_le m \<Longrightarrow> steps (case_rel E) m"
  by (auto simp: steps_def same_def ticks_le_def intro: case_same)

text \<open>A dispute is written back with a status on the same side of the decision.\<close>

lemma case_put:
  assumes "disputes w' = jm_set (disputes w) (ds_id u) v" "ds_id v = ds_id u" "decisions w' = decisions w"
    and "jm_get (disputes w) i = Some u" "ds_step u v" "past_review (ds_status v) = past_review (ds_status u)"
    and "ticks w \<le> ticks w'"
  shows "case_rel E w w'"
proof -
  have l: "dlife.life E w w'" by (rule dlife.update [OF assms(1,2) HOL.refl assms(4,5,7)])
  have "one_decision w'" if "case_ok E w"
  proof -
    have "ds_id u = i" using that assms(4) dlife.coherent_key [of E w i u] by (simp add: case_ok_def)
    with that assms show ?thesis by (auto simp: case_ok_def one_decision_def decisions_of_def)
  qed
  with l assms(3,7) show ?thesis by (simp add: case_rel_def dclife.same)
qed

lemma resolved_past: "ds_status d = ExecutionPending \<Longrightarrow> past_review (ds_status (resolved tx t d))"
  by (simp add: past_review_def resolved_def)

lemma case_resolveDispute [case_intros]: "steps (case_rel E) (resolveDispute E tx)"
proof (rule stepsI)
  fix w
  show "case_rel E w (exec (resolveDispute E tx) w)"
  proof (cases "\<exists>d. resolves w tx d")
    case True
    then obtain d where d: "resolves w tx d" by blast
    then have g: "jm_get (disputes w) (the (tx_disputeId tx)) = Some d" "ds_status d = ExecutionPending"
      by (simp_all add: resolves_def)
    have t: "ticks w \<le> ticks (exec (resolveDispute E tx) w)" by (rule tleD) (rule tle_intros)
    have k: "decisions (exec (resolveDispute E tx) w) = decisions w"
      by (rule keepsD, rule core_intros; simp)
    show ?thesis
      using resolved_past [OF g(2)]
      by (intro case_put [OF resolveDispute_disputes [OF d] _ k g(1) resolved_step [OF g(2)] _ t])
        (simp_all add: resolved_def g past_review_def)
  next
    case False
    then have "exec (resolveDispute E tx) w = w" by (intro resolveDispute_idle) auto
    then show ?thesis by (simp add: crel.refl)
  qed
qed

lemma case_utils [case_intros]:
  "steps (case_rel E) tick" "steps (case_rel E) (dateNow E')" "steps (case_rel E) (nowIso E')"
  "steps (case_rel E) (randomId E' p)" "steps (case_rel E) (bump n k)"
  "steps (case_rel E) (writeAudit E' a)" "steps (case_rel E) (emitEvent E' b c d e)"
  "steps (case_rel E) (maybeEnqueueDomainNotifications E' et rs pl)"
  "steps (case_rel E) (saveXrplTx tx)" "steps (case_rel E) (recordXrplTxOutcomeClassified oc)"
  "steps (case_rel E) (getXrplTx i)" "steps (case_rel E) (getContract i)"
  "steps (case_rel E) (getDispute i)" "steps (case_rel E) listXrplTxs"
  "steps (case_rel E) (upsertTrackedTx E' h ty ac di nw)" "steps (case_rel E) (getTxStatus E' h)"
  "steps (case_rel E) (getAccountTxResults E' h)" "steps (case_rel E) (deleteDelayedJob i)"
  "steps (case_rel E) (bumpDelayedJob i ra at le ua)" "steps (case_rel E) (createDelayedJobIfAbsent job)"
  "steps (case_rel E) (claimDueDelayedJobs E' kd now lim ttl)"
  "steps (case_rel E) (tryRecordXrplIngestionEvent li h sr)" "steps (case_rel E) (notifyParties E' et ds pl)"
  "steps (case_rel E) (canAccessDispute E' au ds)" "steps (case_rel E) (executionTxHash E' ds xb)"
  unfolding bumpDelayedJob_def createDelayedJobIfAbsent_def claimDueDelayedJobs_def
    tryRecordXrplIngestionEvent_def
  by (rule case_core; (auto intro!: core_intros tle_intros keeps_modify xrpl_calls_keep
      split: option.splits; fail))+

lemma case_applyLiveTxStatus [case_intros]: "steps (case_rel E) (applyLiveTxStatus E h live)"
  unfolding applyLiveTxStatus_def by (auto intro!: case_intros)

lemma case_v1 [case_intros]:
  "(\<And>auth. steps (case_rel E) (h auth)) \<Longrightarrow> steps (case_rel E) (v1 E' req roles scopes h)"
  by (rule steps_v1) (auto intro: crel.refl)

lemma case_tracking [case_intros]:
  "steps (case_rel E) (postTrack E req tb)" "steps (case_rel E) (getXrplTxRoute E req h rf)"
  "steps (case_rel E) (refreshXrplTx E req h)" "steps (case_rel E) (backfill E req bb)"
  "steps (case_rel E) (policyTick E ttl)" "steps (case_rel E) (handleTransaction E adm str)"
  unfolding tracking_defs backfill_defs policy_defs handleTransaction_def Let_def
  by (auto intro!: case_intros split: option.splits json.splits)

section \<open>The dispute handlers in the life cycle\<close>

lemma notifyParties_frame [simp]:
  "contracts (exec (notifyParties E et d p) w) = contracts w"
  "disputes (exec (notifyParties E et d p) w) = disputes w"
  "decisions (exec (notifyParties E et d p) w) = decisions w"
  "xrplTxs (exec (notifyParties E et d p) w) = xrplTxs w"
  "verifierVotes (exec (notifyParties E et d p) w) = verifierVotes w"
  by (rule keepsD, rule core_intros; simp)+

lemma review_step:
  assumes "isDisputeReviewStatusAllowed (ds_status d) next"
  shows "ds_step d (reviewPatched E next now due d)"
    "past_review (ds_status (reviewPatched E next now due d)) = past_review (ds_status d)"
    "ds_id (reviewPatched E next now due d) = ds_id d"
  using assms
  by (auto simp: isDisputeReviewStatusAllowed_def reviewPatched_def ds_step_def past_review_def Let_def
      split: if_splits)

lemma applyReviewPatch_disputes:
  "\<exists>due. disputes (exec (applyReviewPatch E d next auth) w) = jm_set (disputes w) (ds_id d)
     (reviewPatched E next (toISOString (clockMs E (ticks w))) due d)"
  "decisions (exec (applyReviewPatch E d next auth) w) = decisions w"
proof -
  have i: "ds_id (reviewPatched E next now due d) = ds_id d" for now due
    by (simp add: reviewPatched_def Let_def)
  show "\<exists>due. disputes (exec (applyReviewPatch E d next auth) w) = jm_set (disputes w) (ds_id d)
     (reviewPatched E next (toISOString (clockMs E (ticks w))) due d)"
    by (rule exI [of _ "if next = UnderReview then clockMs E (Suc (ticks w)) else 0"])
      (simp add: applyReviewPatch_def run_simps Let_def i split: option.splits)
  show "decisions (exec (applyReviewPatch E d next auth) w) = decisions w"
    by (rule keepsD) (auto simp: applyReviewPatch_def Let_def intro!: core_intros split: option.splits)
qed

lemma applyEscalation_disputes:
  "disputes (exec (applyEscalation E d auth) w) = jm_set (disputes w) (ds_id d)
     (d\<lparr>ds_updatedAt := toISOString (clockMs E (ticks w)), ds_escalatedAt := Some (toISOString (clockMs E (ticks w)))\<rparr>)"
  "decisions (exec (applyEscalation E d auth) w) = decisions w"
  by (simp_all add: applyEscalation_def run_simps Let_def)

lemma slaEscalate_disputes:
  "disputes (exec (slaEscalate E d) w) = jm_set (disputes w) (ds_id d)
     (d\<lparr>ds_updatedAt := toISOString (clockMs E (ticks w)), ds_escalatedAt := Some (toISOString (clockMs E (ticks w)))\<rparr>)"
  "decisions (exec (slaEscalate E d) w) = decisions w"
  by (simp_all add: slaEscalate_def run_simps Let_def)

lemma escalated_step: "ds_step d (d\<lparr>ds_updatedAt := t, ds_escalatedAt := e\<rparr>)"
  by (simp add: ds_step_def)

lemma patchDisputeStatusH_cases:
  "exec (patchDisputeStatusH E i body auth) w = w \<or>
   (\<exists>d next. body = Some next \<and> jm_get (disputes w) i = Some d \<and>
     isDisputeReviewStatusAllowed (ds_status d) next \<and>
     exec (patchDisputeStatusH E i body auth) w = exec (applyReviewPatch E d next auth) w)"
  by (auto simp: patchDisputeStatusH_def run_simps split: option.splits)

lemma case_patchDisputeStatusH: "steps (case_rel E) (patchDisputeStatusH E i body auth)"
proof (rule stepsI)
  fix w
  have t: "ticks w \<le> ticks (exec (patchDisputeStatusH E i body auth) w)" by (rule tleD) (rule tle_intros)
  show "case_rel E w (exec (patchDisputeStatusH E i body auth) w)"
  proof (rule disjE [OF patchDisputeStatusH_cases [of E i body auth w]])
    assume "\<exists>d next. body = Some next \<and> jm_get (disputes w) i = Some d \<and>
     isDisputeReviewStatusAllowed (ds_status d) next \<and>
     exec (patchDisputeStatusH E i body auth) w = exec (applyReviewPatch E d next auth) w"
    then obtain d nx where d: "jm_get (disputes w) i = Some d" "isDisputeReviewStatusAllowed (ds_status d) nx"
      "exec (patchDisputeStatusH E i body auth) w = exec (applyReviewPatch E d nx auth) w" by blast
    obtain due where p: "disputes (exec (applyReviewPatch E d nx auth) w) = jm_set (disputes w) (ds_id d)
      (reviewPatched E nx (toISOString (clockMs E (ticks w))) due d)"
      using applyReviewPatch_disputes(1) by blast
    show ?thesis
      unfolding d(3)
      by (rule case_put [OF p review_step(3) [OF d(2)] applyReviewPatch_disputes(2) d(1)
            review_step(1,2) [OF d(2)] t [unfolded d(3)]])
  qed (simp add: crel.refl)
qed

lemma case_escalateDisputeH: "steps (case_rel E) (escalateDisputeH E i auth)"
proof (rule stepsI)
  fix w
  have "exec (escalateDisputeH E i auth) w = w \<or>
    (\<exists>d. jm_get (disputes w) i = Some d \<and> exec (escalateDisputeH E i auth) w = exec (applyEscalation E d auth) w)"
    by (auto simp: escalateDisputeH_def run_simps split: option.splits)
  moreover have "case_rel E w (exec (applyEscalation E d auth) w)" if "jm_get (disputes w) i = Some d" for d
    by (rule case_put [OF applyEscalation_disputes(1) _ applyEscalation_disputes(2) that escalated_step])
      (simp_all add: tleD [OF tle_dispute_parts(5)])
  ultimately show "case_rel E w (exec (escalateDisputeH E i auth) w)" by (auto simp: crel.refl)
qed

lemma past_review_new: "\<not> past_review Filed" by (simp add: past_review_def)

text \<open>What follows a generated identifier runs at a later tick.\<close>

lemma randomId_ticks:
  assumes "\<And>x. steps ticks_le (f x)"
  shows "ticks w < ticks (exec (State_Monad.bind (randomId E p) f) w)"
  using tleD [OF assms, of "exec (randomId E p) w" "valu (randomId E p) w"] by (simp add: run_simps)

lemma fileDispute_disputes:
  "disputes (exec (fileDispute E b c) w) = jm_set (disputes w) (''dsp_'' @ uuid16 E (ticks w))
     (newDispute b (''dsp_'' @ uuid16 E (ticks w)) (toISOString (clockMs E (Suc (ticks w)))))"
  "decisions (exec (fileDispute E b c) w) = decisions w"
  "ticks w < ticks (exec (fileDispute E b c) w)"
proof -
  show "disputes (exec (fileDispute E b c) w) = jm_set (disputes w) (''dsp_'' @ uuid16 E (ticks w))
     (newDispute b (''dsp_'' @ uuid16 E (ticks w)) (toISOString (clockMs E (Suc (ticks w)))))"
    "decisions (exec (fileDispute E b c) w) = decisions w"
    by (simp_all add: fileDispute_def run_simps newDispute_def)
  show "ticks w < ticks (exec (fileDispute E b c) w)"
    unfolding fileDispute_def by (rule randomId_ticks) (auto intro!: tle_intros)
qed

lemma postDisputeH_cases:
  "exec (postDisputeH E body auth) w = w \<or>
   (\<exists>b c. exec (postDisputeH E body auth) w = exec (fileDispute E b c) w)"
  by (auto simp: postDisputeH_def run_simps split: option.splits prod.splits)

lemma case_fileDispute:
  assumes "env_ok E"
  shows "case_rel E w (exec (fileDispute E b c) w)"
proof -
  let ?i = "''dsp_'' @ uuid16 E (ticks w)" and ?w' = "exec (fileDispute E b c) w"
  note f = fileDispute_disputes [where E = E and b = b and c = c and w = w]
  have "dlife.life E w ?w'"
    by (rule dlife.new [OF env_okD(1) [OF assms] f(1) _ _ _ f(3)]) (simp_all add: newDispute_def)
  moreover have "one_decision ?w'" if "case_ok E w"
  proof -
    have "jm_get (disputes w) ?i = None"
      using that dlife.not_yet [OF _ env_okD(1) [OF assms] order_refl, of w] by (simp add: case_ok_def)
    with that f(1,2) show ?thesis
      by (auto simp: case_ok_def one_decision_def decisions_of_def newDispute_def past_review_new)
  qed
  moreover have "dclife.life E w ?w'" using f by (intro dclife.same) auto
  ultimately show ?thesis by (simp add: case_rel_def)
qed

lemma case_postDisputeH: "env_ok E \<Longrightarrow> steps (case_rel E) (postDisputeH E body auth)"
proof (rule stepsI)
  fix w assume "env_ok E"
  then show "case_rel E w (exec (postDisputeH E body auth) w)"
    using postDisputeH_cases [of E body auth w] case_fileDispute [of E w] by (auto simp: crel.refl)
qed

lemma slaScanOne_step:
  assumes "jm_get (disputes w) (ds_id d) = Some d"
  shows "case_rel E w (exec (slaScanOne E ms d) w)"
    "k \<noteq> ds_id d \<Longrightarrow> jm_get (disputes (exec (slaScanOne E ms d) w)) k = jm_get (disputes w) k"
proof -
  have e: "case_rel E w (exec (slaEscalate E d) w)"
    by (rule case_put [OF slaEscalate_disputes(1) _ slaEscalate_disputes(2) assms escalated_step])
      (simp_all add: tleD [OF tle_dispute_parts(12)])
  have n: "case_rel E w (exec (do { emitEvent E a b c p; notifyParties E et d p'; ret x }) w)"
    for a b c p et p' and x :: "bool \<times> bool"
    by (rule stepsD) (auto intro!: case_intros)
  show "case_rel E w (exec (slaScanOne E ms d) w)"
    using e n by (simp add: slaScanOne_def crel.refl)
  show "jm_get (disputes (exec (slaScanOne E ms d) w)) k = jm_get (disputes w) k" if "k \<noteq> ds_id d"
    using that by (simp add: slaScanOne_def slaEscalate_disputes)
qed

lemma case_incoherent:
  "\<not> dlife.coherent E w \<Longrightarrow> decisions w' = decisions w \<Longrightarrow> ticks w \<le> ticks w' \<Longrightarrow> case_rel E w w'"
  by (auto simp: case_rel_def case_ok_def dlife.life_def intro: minted_mono dclife.same)

definition underReviewItems :: "env \<Rightarrow> world \<Rightarrow> DisputeCase list" where
  "underReviewItems E w = take 500 (byLocaleDesc E ds_updatedAt
     (filter (\<lambda>d. ds_status d = UnderReview) (jm_values (disputes w))))"

lemma slaScanH_exec:
  "exec (slaScanH E auth) w = exec (for_each (underReviewItems E w)
     (\<lambda>d. do { slaScanOne E (clockMs E (ticks w)) d; ret () })) (exec (dateNow E) w)"
proof -
  have "disputeMatches \<lparr> df_contractId = None, df_status = Some UnderReview, df_updatedFrom = None,
    df_updatedTo = None \<rparr> = (\<lambda>d. ds_status d = UnderReview)"
    by (auto simp: fun_eq_iff disputeMatches_def flt_def flt_enum_def notBefore_def notAfter_def)
  then show ?thesis
    by (simp add: slaScanH_def run_simps exec_for_collect underReviewItems_def listDisputesPage_def paginate_def
        slice_def)
qed

lemma case_slaScanH: "steps (case_rel E) (slaScanH E auth)"
proof (rule stepsI)
  fix w
  let ?v = "exec (dateNow E) w" and ?f = "\<lambda>d. do { slaScanOne E (clockMs E (ticks w)) d; ret () }"
  have v: "case_rel E w ?v" by (rule stepsD) (rule case_intros)
  show "case_rel E w (exec (slaScanH E auth) w)"
  proof (cases "dlife.coherent E ?v")
    case True
    have "dlife.life E ?v (exec (for_each (underReviewItems E w) ?f) ?v) \<and>
      case_rel E ?v (exec (for_each (underReviewItems E w) ?f) ?v)"
    proof (rule dlife.life_each_rel [OF crel.refl crel.trans True])
      show "jm_get (disputes ?v) (ds_id x) = Some x" if "x \<in> set (underReviewItems E w)" for x
        using dlife.picked_stored(1) [OF True] that
        by (simp add: underReviewItems_def byLocaleDesc_def run_simps)
      show "distinct (map ds_id (underReviewItems E w))"
        using dlife.picked_distinct [OF True] by (simp add: underReviewItems_def byLocaleDesc_def run_simps)
    qed (use slaScanOne_step in \<open>auto simp: case_rel_def\<close>)
    with v show ?thesis unfolding slaScanH_exec by (blast intro: crel.trans)
  next
    case False
    have "\<not> dlife.coherent E w"
      using False v dlife.life_coherent by (auto simp: case_rel_def)
    moreover have "decisions (exec (slaScanH E auth) w) = decisions w"
      by (rule keepsD) (auto simp: slaScanH_def slaScanOne_def slaEscalate_def Let_def intro!: core_intros)
    ultimately show ?thesis by (rule case_incoherent) (rule tleD, rule tle_intros)
  qed
qed

lemma jm_values_new: "jm_get m k = None \<Longrightarrow> jm_values (jm_set m k v) = jm_values m @ [v]"
  by (induction m k v rule: jm_set.induct) (auto simp: jm_values_def jm_get_def split: if_splits)

lemma recordDecision_frame:
  "disputes (exec (recordDecision E d b) w) = jm_set (disputes w) (ds_id d)
     (d\<lparr>ds_status := Decided, ds_updatedAt := toISOString (clockMs E (Suc (Suc (ticks w))))\<rparr>)"
  "decisions (exec (recordDecision E d b) w) = jm_set (decisions w) (''dcs_'' @ uuid16 E (ticks w))
     \<lparr> cd_id = ''dcs_'' @ uuid16 E (ticks w), cd_disputeId = ds_id d, cd_decision = nb_decision b,
       cd_memo = nb_memo b, cd_createdAt = toISOString (clockMs E (Suc (ticks w))) \<rparr>"
  "ticks w < ticks (exec (recordDecision E d b) w)"
proof -
  show "disputes (exec (recordDecision E d b) w) = jm_set (disputes w) (ds_id d)
     (d\<lparr>ds_status := Decided, ds_updatedAt := toISOString (clockMs E (Suc (Suc (ticks w))))\<rparr>)"
    "decisions (exec (recordDecision E d b) w) = jm_set (decisions w) (''dcs_'' @ uuid16 E (ticks w))
     \<lparr> cd_id = ''dcs_'' @ uuid16 E (ticks w), cd_disputeId = ds_id d, cd_decision = nb_decision b,
       cd_memo = nb_memo b, cd_createdAt = toISOString (clockMs E (Suc (ticks w))) \<rparr>"
    by (simp_all add: recordDecision_def run_simps Let_def)
  show "ticks w < ticks (exec (recordDecision E d b) w)"
    unfolding recordDecision_def by (rule randomId_ticks) (auto intro!: tle_intros)
qed

lemma decided_step:
  "ds_status d \<in> {Filed, UnderReview} \<Longrightarrow> ds_step d (d\<lparr>ds_status := Decided, ds_updatedAt := t\<rparr>)"
  by (auto simp: ds_step_def)

lemma case_recordDecision:
  assumes "env_ok E" "jm_get (disputes w) i = Some d" "ds_status d \<in> {Filed, UnderReview}"
  shows "case_rel E w (exec (recordDecision E d b) w)"
proof -
  note f = recordDecision_frame [where E = E and d = d and b = b and w = w]
  have t: "ticks w \<le> ticks (exec (recordDecision E d b) w)" using f(3) by simp
  have l: "dlife.life E w (exec (recordDecision E d b) w)"
    by (rule dlife.update [OF f(1) _ HOL.refl assms(2) decided_step [OF assms(3)] t]) simp
  have m: "dclife.life E w (exec (recordDecision E d b) w)"
    by (rule dclife.new [OF env_okD(1) [OF assms(1)] f(2) _ _ _ f(3)]) simp_all
  have "one_decision (exec (recordDecision E d b) w)" if "case_ok E w"
  proof -
    have "ds_id d = i" using that assms(2) dlife.coherent_key [of E w i d] by (simp add: case_ok_def)
    moreover have "jm_get (decisions w) (''dcs_'' @ uuid16 E (ticks w)) = None"
      using that dclife.not_yet [OF _ env_okD(1) [OF assms(1)] order_refl, of w] by (simp add: case_ok_def)
    ultimately show ?thesis
      using that assms(2,3) f(1,2)
      by (auto simp: case_ok_def one_decision_def decisions_of_def jm_values_new past_review_def)
  qed
  with l m show ?thesis by (simp add: case_rel_def)
qed

lemma case_postDecisionH:
  assumes "env_ok E"
  shows "steps (case_rel E) (postDecisionH E i body auth)"
proof (rule stepsI)
  fix w
  have "exec (postDecisionH E i body auth) w = w \<or>
    (\<exists>d b. jm_get (disputes w) i = Some d \<and> ds_status d \<in> {Filed, UnderReview} \<and>
      exec (postDecisionH E i body auth) w = exec (recordDecision E d b) w)"
    by (auto simp: postDecisionH_def run_simps split: option.splits)
  then show "case_rel E w (exec (postDecisionH E i body auth) w)"
    using case_recordDecision [OF assms] crel.refl by fastforce
qed

text \<open>
  Tracking the execution transaction leaves a decided dispute as it is: the transaction now belongs to
  this dispute, and only a dispute in \<open>execution_pending\<close> is resolved by an outcome.
\<close>

lemma applyLive_other:
  assumes "jm_get (xrplTxs w) h = Some tx" "tx_disputeId tx = Some i"
    "\<And>d. jm_get (disputes w) i = Some d \<Longrightarrow> ds_status d \<noteq> ExecutionPending"
  shows "disputes (exec (applyLiveTxStatus E h live) w) = disputes w"
proof -
  have "exec (resolveDispute E (withLiveStatus live t tx)) v = v" if "disputes v = disputes w" for t v
    using assms(2,3) that by (intro resolveDispute_idle) (auto simp: resolves_def)
  with assms(1) show ?thesis
    by (simp add: applyLiveTxStatus_def recordXrplTxOutcomeClassified_def run_simps Let_def)
qed

lemma upsertTrackedTx_get:
  "\<exists>tx. jm_get (xrplTxs (exec (upsertTrackedTx E h ty a (Some i) n) w)) h = Some tx \<and> tx_disputeId tx = Some i"
  by (cases "jm_get (xrplTxs w) h") (simp_all add: upsertTrackedTx_def run_simps)

lemma upsertTrackedTx_disputes [simp]:
  "disputes (exec (upsertTrackedTx E h ty a i n) w) = disputes w"
  by (rule keepsD, rule core_intros; simp)

lemma trackExecution_disputes:
  assumes "\<And>d'. jm_get (disputes w) (ds_id d) = Some d' \<Longrightarrow> ds_status d' \<noteq> ExecutionPending"
  shows "disputes (exec (trackExecution E d b h lb) w) = disputes w"
proof -
  have "disputes (exec (applyLiveTxStatus E h live) (exec (upsertTrackedTx E h ty a (Some (ds_id d)) n) v)) =
      disputes v" if "disputes v = disputes w" for live ty a n v
    using upsertTrackedTx_get [where E = E and h = h and ty = ty and a = a and i = "ds_id d" and n = n and w = v] assms that
    by (auto intro!: applyLive_other [where i = "ds_id d", THEN trans])
  then show ?thesis
    by (auto simp: trackExecution_def Let_def run_simps split: option.splits)
qed

lemma requestExecution_frame:
  "disputes (exec (requestExecution E d b h sy now auth) w) = jm_set (disputes w) (ds_id d)
     (d\<lparr>ds_status := ExecutionPending, ds_updatedAt := now\<rparr>)"
  "decisions (exec (requestExecution E d b h sy now auth) w) = decisions w"
  "xrplTxs (exec (requestExecution E d b h sy now auth) w) = xrplTxs w"
  by (simp_all add: requestExecution_def recordExecutionRequest_def run_simps Let_def)

lemma postExecutionH_cases:
  "exec (postExecutionH E i body auth) w = w \<or>
   (\<exists>d b h sy. body = Some b \<and> jm_get (disputes w) i = Some d \<and> ds_status d = Decided \<and>
     (let v = exec (nowIso E) (exec (executionTxHash E d b) w); v' = exec (trackExecution E d b h sy) v;
        now = valu (nowIso E) (exec (executionTxHash E d b) w) in
      exec (postExecutionH E i body auth) w \<in>
        {exec (executionTxHash E d b) w, v', exec (requestExecution E d b h (\<not> sy) now auth) v'}))"
proof (cases "\<exists>d b. body = Some b \<and> jm_get (disputes w) i = Some d \<and> ds_status d = Decided \<and>
    executionSchema b \<and> valu (canAccessDispute E auth d) w")
  case True
  then obtain d b where d: "body = Some b" "jm_get (disputes w) i = Some d" "ds_status d = Decided"
    "executionSchema b" "valu (canAccessDispute E auth d) w" by blast
  show ?thesis
  proof (cases "valu (executionTxHash E d b) w")
    case (ExecHash h sy)
    with d show ?thesis
      by (intro disjI2 exI [of _ d] exI [of _ b] exI [of _ h] exI [of _ "\<not> sy"])
        (auto simp: postExecutionH_def run_simps Let_def safeParse_def split: option.splits)
  next
    case (ExecErr st code)
    with d show ?thesis
      by (intro disjI2 exI [of _ d] exI [of _ b])
        (auto simp: postExecutionH_def run_simps Let_def safeParse_def)
  qed
next
  case False
  then show ?thesis
    by (intro disjI1) (auto simp: postExecutionH_def run_simps split: option.splits)
qed

lemma executionTxHash_disputes [simp]:
  "disputes (exec (executionTxHash E d b) w) = disputes w"
  "decisions (exec (executionTxHash E d b) w) = decisions w"
  by (rule keepsD, rule core_intros; simp)+

lemma pending_step: "ds_status d = Decided \<Longrightarrow> ds_step d (d\<lparr>ds_status := ExecutionPending, ds_updatedAt := t\<rparr>)"
  by (auto simp: ds_step_def)

lemma trackExecution_decisions [simp]: "decisions (exec (trackExecution E d b h lb) w) = decisions w"
  by (rule keepsD, rule core_intros; simp)

lemma case_postExecutionH: "steps (case_rel E) (postExecutionH E i body auth)"
proof (rule stepsI)
  fix w
  let ?w' = "exec (postExecutionH E i body auth) w"
  have t: "ticks w \<le> ticks ?w'" by (rule tleD) (rule tle_intros)
  show "case_rel E w ?w'"
  proof (cases "dlife.coherent E w")
    case False
    have "decisions ?w' = decisions w"
      by (rule keepsD) (auto simp: postExecutionH_def requestExecution_def Let_def intro!: core_intros
          split: option.splits executionHash.splits)
    with False show ?thesis using t by (rule case_incoherent)
  next
    case True
    show ?thesis
    proof (rule disjE [OF postExecutionH_cases [of E i body auth w]])
      assume "\<exists>d b h sy. body = Some b \<and> jm_get (disputes w) i = Some d \<and> ds_status d = Decided \<and>
        (let v = exec (nowIso E) (exec (executionTxHash E d b) w); v' = exec (trackExecution E d b h sy) v;
        now = valu (nowIso E) (exec (executionTxHash E d b) w) in
        ?w' \<in> {exec (executionTxHash E d b) w, v', exec (requestExecution E d b h (\<not> sy) now auth) v'})"
      then obtain d b h sy where d: "jm_get (disputes w) i = Some d" "ds_status d = Decided" and
        e: "let v = exec (nowIso E) (exec (executionTxHash E d b) w); v' = exec (trackExecution E d b h sy) v;
        now = valu (nowIso E) (exec (executionTxHash E d b) w) in
        ?w' \<in> {exec (executionTxHash E d b) w, v', exec (requestExecution E d b h (\<not> sy) now auth) v'}"
        by blast
      have k: "ds_id d = i" using True d(1) dlife.coherent_key [of E w i d] by simp
      have tr: "disputes (exec (trackExecution E d b h sy) (exec (nowIso E) (exec (executionTxHash E d b) w))) =
        disputes w"
        using d k by (subst trackExecution_disputes) (auto simp: run_simps)
      from e consider "disputes ?w' = disputes w \<and> decisions ?w' = decisions w"
        | now where "disputes ?w' = jm_set (disputes w) (ds_id d)
            (d\<lparr>ds_status := ExecutionPending, ds_updatedAt := now\<rparr>)" "decisions ?w' = decisions w"
        using tr by (auto simp: Let_def requestExecution_frame run_simps)
      then show ?thesis
      proof cases
        case 1
        then show ?thesis using t by (intro case_same) simp_all
      next
        case (2 now)
        show ?thesis
          by (rule case_put [OF 2(1) _ 2(2) d(1) pending_step [OF d(2)] _ t])
            (simp_all add: past_review_def d(2))
      qed
    qed (simp add: crel.refl)
  qed
qed

lemma case_dispute_routes [case_intros]:
  assumes "env_ok E"
  shows "steps (case_rel E) (postDispute E req cb)" "steps (case_rel E) (patchDisputeStatus E req i st)"
    "steps (case_rel E) (escalateDispute E req i)" "steps (case_rel E) (postDecision E req i nb)"
    "steps (case_rel E) (postExecution E req i xb)" "steps (case_rel E) (slaScan E req)"
  unfolding postDispute_def patchDisputeStatus_def escalateDispute_def postDecision_def postExecution_def
    slaScan_def
  by (intro case_v1 case_postDisputeH case_patchDisputeStatusH case_escalateDisputeH case_postDecisionH
      case_postExecutionH case_slaScanH assms)+

section \<open>One vote per verifier\<close>

definition ballot_ok :: "string \<Rightarrow> DisputeVerifierVoteRecord list \<Rightarrow> bool" where
  "ballot_ok i vs = (distinct (map vv_verifierId vs) \<and> (\<forall>v \<in> set vs. vv_disputeId v = i))"

definition votes_ok :: "world \<Rightarrow> bool" where
  "votes_ok w = entries ballot_ok (verifierVotes w)"

lemma votes_of: "votes_ok w \<Longrightarrow> ballot_ok i (getOr [] (jm_get (verifierVotes w) i))"
  by (cases "jm_get (verifierVotes w) i") (auto simp: votes_ok_def ballot_ok_def jm.all_entries_def)

lemma votes_core: "keeps verifierVotes m \<Longrightarrow> preserves votes_ok m"
  by (erule preserves_of_keeps) (simp add: votes_ok_def)

lemma recordVote_votes:
  "\<exists>v. verifierVotes (exec (recordVote E i b) w) =
     jm_set (verifierVotes w) i (getOr [] (jm_get (verifierVotes w) i) @ [v]) \<and>
     vv_disputeId v = i \<and> vv_verifierId v = vb_verifierId b \<and> vv_recommendation v = vb_recommendation b"
  "disputes (exec (recordVote E i b) w) = disputes w" "contracts (exec (recordVote E i b) w) = contracts w"
  by (rule exI [of _ "\<lparr> vv_id = ''dvv_'' @ uuid16 E (ticks w), vv_disputeId = i, vv_verifierId = vb_verifierId b,
      vv_recommendation = vb_recommendation b, vv_createdAt = toISOString (clockMs E (Suc (ticks w))) \<rparr>"])
    (simp_all add: recordVote_def run_simps)

text \<open>The guards of the voting route.\<close>

definition may_vote :: "env \<Rightarrow> BluesafeAuth option \<Rightarrow> world \<Rightarrow> string \<Rightarrow> bool" where
  "may_vote E auth w i = (\<exists>d c. jm_get (disputes w) i = Some d \<and> jm_get (contracts w) (ds_contractId d) = Some c \<and>
     canAccessContract E auth c \<and> ds_status d \<in> {Filed, UnderReview})"

definition voted :: "world \<Rightarrow> string \<Rightarrow> string \<Rightarrow> bool" where
  "voted w i verifier = (\<exists>v \<in> set (getOr [] (jm_get (verifierVotes w) i)). vv_verifierId v = verifier)"

lemma postVerifierVoteH_run:
  "disputeVerifierVoteSchema b \<Longrightarrow> may_vote E auth w i \<Longrightarrow> \<not> voted w i (vb_verifierId b) \<Longrightarrow>
     exec (postVerifierVoteH E i (Some b) auth) w = exec (recordVote E i b) w \<and>
     valu (postVerifierVoteH E i (Some b) auth) w = HttpOk 201 i"
  "disputeVerifierVoteSchema b \<Longrightarrow> may_vote E auth w i \<Longrightarrow> voted w i (vb_verifierId b) \<Longrightarrow>
     exec (postVerifierVoteH E i (Some b) auth) w = w \<and>
     valu (postVerifierVoteH E i (Some b) auth) w = HttpErr 409 ''B2_CONFLICT''"
  "\<not> may_vote E auth w i \<Longrightarrow> exec (postVerifierVoteH E i body auth) w = w"
  by (auto simp: postVerifierVoteH_def may_vote_def voted_def safeParse_def run_simps canAccessDispute_def
      list_ex_iff recordVote_def split: option.splits)

lemma postVerifierVoteH_cases:
  "exec (postVerifierVoteH E i body auth) w = w \<or>
   (\<exists>b. \<not> voted w i (vb_verifierId b) \<and>
     exec (postVerifierVoteH E i body auth) w = exec (recordVote E i b) w)"
  by (auto simp: postVerifierVoteH_def voted_def run_simps list_ex_iff split: option.splits)

lemma votes_postVerifierVote: "preserves votes_ok (postVerifierVote E req i body)"
proof -
  have "preserves votes_ok (postVerifierVoteH E i body auth)" for auth
  proof (rule preservesI)
    fix w assume ok: "votes_ok w"
    show "votes_ok (exec (postVerifierVoteH E i body auth) w)"
    proof (rule disjE [OF postVerifierVoteH_cases [of E i body auth w]])
      assume "\<exists>b. \<not> voted w i (vb_verifierId b) \<and>
        exec (postVerifierVoteH E i body auth) w = exec (recordVote E i b) w"
      then obtain b where b: "\<not> voted w i (vb_verifierId b)"
        "exec (postVerifierVoteH E i body auth) w = exec (recordVote E i b) w" by blast
      obtain v where v: "verifierVotes (exec (recordVote E i b) w) =
          jm_set (verifierVotes w) i (getOr [] (jm_get (verifierVotes w) i) @ [v])"
        "vv_disputeId v = i" "vv_verifierId v = vb_verifierId b"
        using recordVote_votes(1) [where i = i and E = E and b = b and w = w] by (elim exE conjE)
      have "ballot_ok i (getOr [] (jm_get (verifierVotes w) i) @ [v])"
        using votes_of [OF ok, of i] b(1) v(2,3)
        unfolding ballot_ok_def voted_def by (simp add: image_iff) metis
      with ok show ?thesis unfolding b(2) votes_ok_def v(1) by (rule jm.all_entries_put)
    qed (simp add: ok)
  qed
  then have "steps (inv_rel votes_ok) (postVerifierVoteH E i body auth)" for auth by simp
  then show ?thesis
    unfolding postVerifierVote_def by (intro steps_v1) (auto simp: inv_rel_def)
qed

section \<open>Properties\<close>

lemma fold_max_ge: "K \<le> fold max xs (a::nat) \<longleftrightarrow> K \<le> a \<or> (\<exists>x \<in> set xs. K \<le> x)"
  by (induction xs arbitrary: a) (auto simp: le_max_iff_disj)

lemma jm_ok_tally: "jm_ok r \<Longrightarrow> jm_ok (tally ks r)"
  by (induction ks arbitrary: r) simp_all

text \<open>The number of ballots for a choice is the number of verifiers who recommend it.\<close>

lemma tally_verifiers:
  assumes "ballot_ok i vs"
  shows "getOr 0 (jm_get (voteTally vs) r) = card {vv_verifierId v | v. v \<in> set vs \<and> vv_recommendation v = r}"
proof -
  have "count_list (map vv_recommendation vs) r = length (filter (\<lambda>v. vv_recommendation v = r) vs)"
    by (induction vs) auto
  also have "\<dots> = length (map vv_verifierId (filter (\<lambda>v. vv_recommendation v = r) vs))" by simp
  also have "\<dots> = card (set (map vv_verifierId (filter (\<lambda>v. vv_recommendation v = r) vs)))"
    using assms by (intro distinct_card [symmetric] distinct_map_filter) (simp add: ballot_ok_def)
  also have "set (map vv_verifierId (filter (\<lambda>v. vv_recommendation v = r) vs)) =
      {vv_verifierId v | v. v \<in> set vs \<and> vv_recommendation v = r}" by auto
  finally show ?thesis by (simp add: voteTally_def tally_count)
qed

lemma quorum_iff:
  assumes "1 \<le> K"
  shows "K \<le> maxCount (voteTally vs) \<longleftrightarrow> (\<exists>r. K \<le> getOr 0 (jm_get (voteTally vs) r))"
proof -
  have "jm_ok (voteTally vs)" unfolding voteTally_def by (rule jm_ok_tally) (simp add: jm_ok_def)
  then have "K \<le> maxCount (voteTally vs) \<longleftrightarrow> (\<exists>r n. jm_get (voteTally vs) r = Some n \<and> K \<le> n)"
    using assms unfolding maxCount_def fold_max_ge by (metis jm_values_get not_one_le_zero le_zero_eq)
  also have "\<dots> \<longleftrightarrow> (\<exists>r. K \<le> getOr 0 (jm_get (voteTally vs) r))"
    using assms by (intro ex_cong1) (auto split: option.splits simp: getOr_def)
  finally show ?thesis .
qed

text \<open>The review state. The tally shown for a recommendation is the number of different verifiers
  who gave it, and the quorum flag is set exactly when at least \<open>K\<close> different verifiers agree on one
  recommendation.\<close>

lemma review_state_quorum:
  assumes "votes_ok w" "1 \<le> verifierQuorumK E" "valu (getReviewStateH E i auth) w = HttpOk n s"
  shows "(\<forall>r. getOr 0 (jm_get (rs_tally s) r) =
      card {vv_verifierId v | v. v \<in> set (rs_votes s) \<and> vv_recommendation v = r}) \<and>
    (rs_quorumMet s \<longleftrightarrow> (\<exists>r. verifierQuorumK E \<le>
      card {vv_verifierId v | v. v \<in> set (rs_votes s) \<and> vv_recommendation v = r}))"
proof -
  let ?vs = "getOr [] (jm_get (verifierVotes w) i)"
  have s: "rs_votes s = ?vs" "rs_tally s = voteTally ?vs"
    "rs_quorumMet s = (verifierQuorumK E \<le> maxCount (voteTally ?vs))"
    using assms(3) by (auto simp: getReviewStateH_def run_simps Let_def split: option.splits if_splits)
  note t = tally_verifiers [OF votes_of [OF assms(1), of i]]
  show ?thesis
    unfolding s quorum_iff [OF assms(2)] t by simp
qed


text \<open>The review patch. The route moves a dispute only between filed and under_review; entering
  review sets the deadline to the configured number of days after the request, going back clears the
  deadline and the escalation; it is refused for a caller without access to the contract, and going
  back is reserved to operators.\<close>

lemma dispute_review_patch:
  assumes "jm_get (disputes w) i = Some d" "ds_id d = i" "jm_get (contracts w) (ds_contractId d) = Some c"
  shows "let m = patchDisputeStatusH E i (Some next) auth; w' = exec m w in
    if next \<notin> {UnderReview, Filed} then valu m w = HttpErr 400 ''B2_VALIDATION_ERROR'' \<and> w' = w
    else if \<not> canAccessContract E auth c then valu m w = HttpErr 403 ''B2_FORBIDDEN'' \<and> w' = w
    else if {ds_status d, next} \<noteq> {Filed, UnderReview} then valu m w = HttpErr 409 ''B2_VALIDATION_ERROR'' \<and> w' = w
    else if next = Filed \<and> authEnabled E \<and> map_option ba_role auth \<noteq> Some Operator
    then valu m w = HttpErr 403 ''B2_FORBIDDEN'' \<and> w' = w
    else (\<exists>d'. jm_get (disputes w') i = Some d' \<and> ds_status d' = next \<and>
      ds_contractId d' = ds_contractId d \<and> ds_evidenceBundle d' = ds_evidenceBundle d \<and>
      ds_reviewDeadlineAt d' = (if next = Filed then None
        else Some (toISOString (clockMs E (Suc (ticks w)) + 86400000 * reviewDeadlineDays E))) \<and>
      ds_escalatedAt d' = (if next = Filed then None else ds_escalatedAt d) \<and>
      (\<forall>k. k \<noteq> i \<longrightarrow> jm_get (disputes w') k = jm_get (disputes w) k))"
proof -
  let ?m = "patchDisputeStatusH E i (Some next) auth"
  have acc: "valu (canAccessDispute E auth d) w = canAccessContract E auth c"
    using assms(3) by (simp add: canAccessDispute_def run_simps)
  have al: "isDisputeReviewStatusAllowed (ds_status d) next \<longleftrightarrow> {ds_status d, next} = {Filed, UnderReview}"
    by (cases "ds_status d"; cases "next") (auto simp: isDisputeReviewStatusAllowed_def doubleton_eq_iff)
  define v where "v = exec (applyReviewPatch E d next auth) w"
  have ap: "disputes v = jm_set (disputes w) i
      (reviewPatched E next (toISOString (clockMs E (ticks w)))
        (if next = UnderReview then clockMs E (Suc (ticks w)) else 0) d)"
    using assms(2)
    by (simp add: v_def applyReviewPatch_def run_simps Let_def reviewPatched_def split: option.splits)
  consider "next \<notin> {UnderReview, Filed}" | "next \<in> {UnderReview, Filed}" "\<not> canAccessContract E auth c"
    | "next \<in> {UnderReview, Filed}" "canAccessContract E auth c" "{ds_status d, next} \<noteq> {Filed, UnderReview}"
    | "next \<in> {UnderReview, Filed}" "canAccessContract E auth c" "{ds_status d, next} = {Filed, UnderReview}"
      "next = Filed \<and> authEnabled E \<and> map_option ba_role auth \<noteq> Some Operator"
    | (ok) "next \<in> {UnderReview, Filed}" "canAccessContract E auth c" "{ds_status d, next} = {Filed, UnderReview}"
      "\<not> (next = Filed \<and> authEnabled E \<and> map_option ba_role auth \<noteq> Some Operator)" by blast
  then show ?thesis
  proof cases
    case ok
    then have "exec ?m w = v"
      using assms(1) acc al by (auto simp: patchDisputeStatusH_def run_simps safeParse_def
          disputeStatusPatchSchema_def v_def)
    with ok ap show ?thesis by (auto simp: Let_def reviewPatched_def)
  qed (use assms(1) acc al in \<open>auto simp: patchDisputeStatusH_def run_simps safeParse_def Let_def
      disputeStatusPatchSchema_def\<close>)
qed

lemma checkEvidenceIds_ok:
  "valu (checkEvidenceIds c is) w = None \<longleftrightarrow>
     (\<forall>i \<in> set is. \<exists>e. jm_get (evidences w) i = Some e \<and> ev_contractId e = c)"
  by (induction "is") (auto simp: run_simps split: option.splits)

text \<open>C31: a dispute is filed only with evidence of its own contract. The route answers 201 exactly if
  the body is well formed, the contract exists and the caller may access it and every listed evidence
  exists and belongs to it; then one dispute with status filed is added under a new identifier, and
  otherwise the store does not change.\<close>

theorem file_dispute:
  "let m = postDisputeH E (Some b) auth; w' = exec m w;
       acceptable = (createDisputeSchema b \<and>
         (\<exists>c. jm_get (contracts w) (db_contractId b) = Some c \<and> canAccessContract E auth c) \<and>
         list_all (\<lambda>i. \<exists>e. jm_get (evidences w) i = Some e \<and> ev_contractId e = db_contractId b)
           (db_evidenceIds b)) in
   if acceptable
   then \<exists>i t. valu m w = HttpOk 201 (i, t) \<and> i = ''dsp_'' @ uuid16 E (ticks w) \<and>
     disputes w' = jm_set (disputes w) i (newDispute b i t) \<and> contracts w' = contracts w \<and>
     evidences w' = evidences w \<and> decisions w' = decisions w
   else w' = w \<and> (\<exists>st code. valu m w = HttpErr st code)"
proof -
  have e: "evidences (exec (fileDispute E b c) w) = evidences w" "contracts (exec (fileDispute E b c) w) = contracts w"
    for c by (simp_all add: fileDispute_def run_simps)
  have v: "valu (fileDispute E b c) w = HttpOk 201 (''dsp_'' @ uuid16 E (ticks w),
      toISOString (clockMs E (Suc (ticks w))))" for c
    by (simp add: fileDispute_def run_simps)
  show ?thesis
    using checkEvidenceIds_ok [of "db_contractId b" "db_evidenceIds b" w] unfolding list_all_iff
    by (cases "valu (checkEvidenceIds (db_contractId b) (db_evidenceIds b)) w")
      (auto simp: postDisputeH_def safeParse_def run_simps Let_def e v fileDispute_disputes split: option.splits)
qed

lemma postExecutionH_ok:
  assumes "valu (postExecutionH E i (Some b) auth) w = HttpOk st (rid, h, sy)"
  obtains d where "jm_get (disputes w) i = Some d" "ds_status d = Decided" "executionSchema b"
    "valu (canAccessDispute E auth d) w" "valu (executionTxHash E d b) w = ExecHash h sy"
    "let v = exec (nowIso E) (exec (executionTxHash E d b) w); v' = exec (trackExecution E d b h (\<not> sy)) v in
     valu (trackExecution E d b h (\<not> sy)) v = None \<and>
     exec (postExecutionH E i (Some b) auth) w = exec (requestExecution E d b h sy
       (toISOString (clockMs E (ticks (exec (executionTxHash E d b) w)))) auth) v'"
proof -
  from assms obtain d where d: "executionSchema b" "jm_get (disputes w) i = Some d"
    "valu (canAccessDispute E auth d) w" "ds_status d = Decided"
    by (auto simp: postExecutionH_def run_simps safeParse_def split: option.splits if_splits)
  obtain h' sy' where e: "valu (executionTxHash E d b) w = ExecHash h' sy'"
    using assms d by (auto simp: postExecutionH_def run_simps safeParse_def split: executionHash.splits)
  let ?v = "exec (nowIso E) (exec (executionTxHash E d b) w)"
  have n: "valu (trackExecution E d b h' (\<not> sy')) ?v = None"
    using assms d e by (auto simp: postExecutionH_def run_simps safeParse_def split: option.splits)
  have "valu (requestExecution E d b x y z u) v = HttpOk st (rid, h, sy) \<Longrightarrow> x = h \<and> y = sy" for x y z u v
    by (simp add: requestExecution_def run_simps Let_def)
  then have "h' = h" "sy' = sy"
    using assms d e n by (auto simp: postExecutionH_def run_simps safeParse_def)
  with d e n show ?thesis
    by (intro that [of d]) (simp_all add: postExecutionH_def run_simps safeParse_def Let_def)
qed

lemma executionTxHash_strict:
  assumes "\<not> syntheticExecutionPathEffective E" "valu (executionTxHash E d b) w = ExecHash h sy"
  shows "\<not> sy \<and> (case xb_txHash b of Some h' \<Rightarrow> h = toUpperCase h'
    | None \<Rightarrow> valu (trySubmitDisputeExecution E (xb_txType b) (xb_owner b) (xb_offerSequence b)) w = Some (Some h))"
  using assms by (auto simp: executionTxHash_def run_simps split: option.splits)

lemma trackExecution_tracks:
  assumes "valu (trackExecution E d b h lb) w = None"
  shows "\<exists>tx. jm_get (xrplTxs (exec (trackExecution E d b h lb) w)) h = Some tx \<and> tx_disputeId tx = Some (ds_id d)"
proof -
  let ?up = "upsertTrackedTx E h (executionTxType_str (xb_txType b)) (Some (xb_owner b)) (Some (ds_id d)) (xb_network b)"
  have u: "\<exists>tx. jm_get (xrplTxs (exec ?up v)) h = Some tx \<and> tx_disputeId tx = Some (ds_id d)" for v
    by (rule upsertTrackedTx_get)
  have a: "\<exists>tx. jm_get (xrplTxs (exec (applyLiveTxStatus E h l) v)) h = Some tx \<and> tx_disputeId tx = Some (ds_id d)"
    if "jm_get (xrplTxs v) h = Some tx" "tx_disputeId tx = Some (ds_id d)" for v l tx
    using that applyLiveTxStatus_xrplTxs [OF that(1), of E l]
    by (cases "tx_txHash tx = h") auto
  show ?thesis
    using assms u a by (fastforce simp: trackExecution_def Let_def run_simps split: option.splits if_splits)
qed

text \<open>C10: on the strict tier no execution is backed by a made-up hash. When synthetic hashes are off or the
  tier is strict, an accepted execution request carries the hash given in the body or the hash of a
  transaction that was submitted to the ledger and is not marked synthetic; the dispute is then
  execution_pending and the transaction is tracked for it.\<close>

theorem execution_ledger_backed:
  assumes "deploymentTier E = Strict \<or> \<not> syntheticExecutionHashEnabled E"
    and "valu (postExecutionH E i (Some b) auth) w = HttpOk st (rid, h, sy)"
    and "jm_get (disputes w) i = Some d" "ds_id d = i"
  shows "\<not> sy \<and>
    (case xb_txHash b of Some h' \<Rightarrow> h = toUpperCase h'
     | None \<Rightarrow> valu (trySubmitDisputeExecution E (xb_txType b) (xb_owner b) (xb_offerSequence b)) w = Some (Some h)) \<and>
    (let w' = exec (postExecutionH E i (Some b) auth) w in
     map_option ds_status (jm_get (disputes w') i) = Some ExecutionPending \<and>
     (\<exists>tx. jm_get (xrplTxs w') h = Some tx \<and> tx_disputeId tx = Some i))"
proof -
  have s: "\<not> syntheticExecutionPathEffective E"
    using assms(1) by (auto simp: syntheticExecutionPathEffective_def)
  from postExecutionH_ok [OF assms(2)] assms(3) have e: "valu (executionTxHash E d b) w = ExecHash h sy"
    and r: "let v = exec (nowIso E) (exec (executionTxHash E d b) w); v' = exec (trackExecution E d b h (\<not> sy)) v in
     valu (trackExecution E d b h (\<not> sy)) v = None \<and>
     exec (postExecutionH E i (Some b) auth) w = exec (requestExecution E d b h sy
       (toISOString (clockMs E (ticks (exec (executionTxHash E d b) w)))) auth) v'"
    by auto
  let ?v = "exec (nowIso E) (exec (executionTxHash E d b) w)"
  have n: "valu (trackExecution E d b h (\<not> sy)) ?v = None"
    and x: "exec (postExecutionH E i (Some b) auth) w = exec (requestExecution E d b h sy
       (toISOString (clockMs E (ticks (exec (executionTxHash E d b) w)))) auth)
         (exec (trackExecution E d b h (\<not> sy)) ?v)"
    using r by (simp_all add: Let_def)
  show ?thesis
    using executionTxHash_strict [OF s e] trackExecution_tracks [OF n] assms(4)
    by (simp add: x requestExecution_frame Let_def)
qed

text \<open>A loop over objects with different keys whose body rewrites only its own object.\<close>

lemma for_each_own:
  assumes "distinct (map key xs)" "\<And>x. x \<in> set xs \<Longrightarrow> jm_get (proj w) (key x) = Some x"
    and step: "\<And>x w. x \<in> set xs \<Longrightarrow> jm_get (proj w) (key x) = Some x \<Longrightarrow>
      Q x (jm_get (proj (exec (f x) w)) (key x)) \<and>
      (\<forall>k. k \<noteq> key x \<longrightarrow> jm_get (proj (exec (f x) w)) k = jm_get (proj w) k)"
  shows "(\<forall>x \<in> set xs. Q x (jm_get (proj (exec (for_each xs f) w)) (key x))) \<and>
    (\<forall>k. k \<notin> key ` set xs \<longrightarrow> jm_get (proj (exec (for_each xs f) w)) k = jm_get (proj w) k)"
  using assms
proof (induction xs arbitrary: w)
  case (Cons x xs)
  let ?w = "exec (f x) w"
  have s: "Q x (jm_get (proj ?w) (key x))" "\<And>k. k \<noteq> key x \<Longrightarrow> jm_get (proj ?w) k = jm_get (proj w) k"
    using Cons.prems(2,3) [of x] by auto
  have new: "key x \<notin> key ` set xs" using Cons.prems(1) by auto
  have g: "jm_get (proj ?w) (key y) = Some y" if "y \<in> set xs" for y
  proof -
    have "key y \<noteq> key x" using new that by (metis image_eqI)
    then show ?thesis using s(2) Cons.prems(2) [of y] that by simp
  qed
  have ih: "(\<forall>y \<in> set xs. Q y (jm_get (proj (exec (for_each xs f) ?w)) (key y))) \<and>
    (\<forall>k. k \<notin> key ` set xs \<longrightarrow> jm_get (proj (exec (for_each xs f) ?w)) k = jm_get (proj ?w) k)"
    using Cons.prems by (intro Cons.IH g) auto
  show ?case using ih s new by auto
qed simp

text \<open>The deadline scan. With automatic escalation, every dispute among the scanned ones (the 500 most
  recently updated under review) whose deadline has passed and that is not yet escalated is escalated,
  at the current time, and no other dispute changes.\<close>

lemma sla_scan_escalates:
  assumes "dlife.coherent E w" "slaAutoEscalate E" "jm_get (disputes w) i = Some d"
  shows "if d \<in> set (underReviewItems E w) \<and> overdue E (clockMs E (ticks w)) d \<and> \<not> truthy (ds_escalatedAt d)
    then \<exists>t. jm_get (disputes (exec (slaScanH E auth) w)) i = Some (d\<lparr>ds_updatedAt := t, ds_escalatedAt := Some t\<rparr>)
    else jm_get (disputes (exec (slaScanH E auth) w)) i = Some d"
proof -
  let ?ms = "clockMs E (ticks w)" and ?v = "exec (dateNow E) w"
  define Q where "Q x r = (if overdue E ?ms x \<and> \<not> truthy (ds_escalatedAt x)
    then \<exists>t. r = Some (x\<lparr>ds_updatedAt := t, ds_escalatedAt := Some t\<rparr>) else r = Some x)" for x r
  have d: "distinct (map ds_id (underReviewItems E w))"
    unfolding underReviewItems_def byLocaleDesc_def by (rule dlife.picked_distinct [OF assms(1)])
  have g: "jm_get (disputes ?v) (ds_id x) = Some x" if "x \<in> set (underReviewItems E w)" for x
    using dlife.picked_stored(1) [OF assms(1)] that
    by (simp add: underReviewItems_def byLocaleDesc_def run_simps)
  have "(\<forall>x \<in> set (underReviewItems E w). Q x (jm_get (disputes (exec (slaScanH E auth) w)) (ds_id x))) \<and>
    (\<forall>k. k \<notin> ds_id ` set (underReviewItems E w) \<longrightarrow>
      jm_get (disputes (exec (slaScanH E auth) w)) k = jm_get (disputes ?v) k)"
    unfolding slaScanH_exec
  proof (rule for_each_own [where proj = disputes and key = ds_id and Q = Q, OF d g])
    fix x and v :: world assume x: "jm_get (disputes v) (ds_id x) = Some x"
    show "Q x (jm_get (disputes (exec (do { slaScanOne E ?ms x; ret () }) v)) (ds_id x)) \<and>
      (\<forall>k. k \<noteq> ds_id x \<longrightarrow> jm_get (disputes (exec (do { slaScanOne E ?ms x; ret () }) v)) k = jm_get (disputes v) k)"
      using x slaScanOne_step(2) [OF x] assms(2)
      by (auto simp: Q_def slaScanOne_def slaEscalate_disputes)
  qed
  note scan = this
  have k: "ds_id d = i" using assms(1,3) by (simp add: dlife.coherent_key)
  show ?thesis
  proof (cases "d \<in> set (underReviewItems E w)")
    case True
    with scan k have "Q d (jm_get (disputes (exec (slaScanH E auth) w)) i)" by blast
    with True show ?thesis by (simp add: Q_def split: if_splits)
  next
    case False
    have "x = d" if "x \<in> set (underReviewItems E w)" "ds_id x = i" for x
      using g [OF that(1)] that(2) assms(3) by (simp add: run_simps)
    with False have "i \<notin> ds_id ` set (underReviewItems E w)" by blast
    with scan have "jm_get (disputes (exec (slaScanH E auth) w)) i = jm_get (disputes ?v) i" by blast
    with False assms(3) show ?thesis by (simp add: run_simps)
  qed
qed

text \<open>An execution whose transaction is already validated when it is requested is not resolved by it. The
  route applies the ledger outcome while the dispute is still decided, then sets it to
  execution_pending: the outcome is recorded in the tracked transaction, but the dispute keeps
  waiting, and the policy worker does not look at a validated transaction again.\<close>

lemma execution_stuck:
  assumes "jm_get (disputes w) i = Some d" "ds_id d = i" "ds_status d = Decided" "executionSchema b"
    and "jm_get (contracts w) (ds_contractId d) = Some c" "canAccessContract E auth c"
    and "xb_txHash b = Some h" "xrplEnabled E"
    and live: "valu (getTxStatus E (toUpperCase h)) (exec (nowIso E) w) = Some (Some live)"
    and "lt_validated live" "lt_transactionType live = Some (executionTxType_str (xb_txType b))"
  shows "let w' = exec (postExecutionH E i (Some b) auth) w in
    map_option ds_status (jm_get (disputes w') i) = Some ExecutionPending \<and>
    (\<exists>tx. jm_get (xrplTxs w') (toUpperCase h) = Some tx \<and> tx_disputeId tx = Some i \<and> tx_validated tx \<and>
      \<not> isPolicyCandidate tx)"
proof -
  let ?H = "toUpperCase h" and ?v = "exec (nowIso E) w"
  let ?up = "upsertTrackedTx E ?H (executionTxType_str (xb_txType b)) (Some (xb_owner b)) (Some i) (xb_network b)"
  define u where "u = exec ?up (exec (getTxStatus E ?H) ?v)"
  obtain tx where tx: "jm_get (xrplTxs u) ?H = Some tx" "tx_disputeId tx = Some i"
    unfolding u_def using upsertTrackedTx_get by blast
  have acc: "valu (canAccessDispute E auth d) w" using assms(5,6) by (simp add: canAccessDispute_def run_simps)
  have e: "valu (executionTxHash E d b) w = ExecHash ?H False" "exec (executionTxHash E d b) w = w"
    using assms(7) by (simp_all add: executionTxHash_def)
  have t: "valu (trackExecution E d b ?H True) ?v = None"
    "exec (trackExecution E d b ?H True) ?v = exec (applyLiveTxStatus E ?H live) u"
    using live assms(2,8,11) by (simp_all add: trackExecution_def Let_def run_simps u_def)
  have x: "exec (postExecutionH E i (Some b) auth) w = exec (requestExecution E d b ?H False
      (valu (nowIso E) w) auth) (exec (applyLiveTxStatus E ?H live) u)"
    using assms(1-4) acc e t by (simp add: postExecutionH_def run_simps safeParse_def)
  have "tx_txHash tx = ?H"
    using tx(1) unfolding u_def by (auto simp: upsertTrackedTx_def run_simps split: option.splits)
  then show ?thesis
    using applyLiveTxStatus_xrplTxs [OF tx(1), of E live] tx(2) assms(2,10)
    by (simp add: x requestExecution_frame Let_def isPolicyCandidate_def)
qed

end
