(* ===== verification/Settlements.thy ===== *)
theory Settlements
  imports Disputes
begin

text \<open>
  Monthly settlements: the rows that a validated ledger close touches
  (\<open>services/settlement-ledger.ts\<close>, \<open>handleLedgerClosed\<close> of \<open>services/xrpl-subscribe.worker.ts\<close>) and the
  settlement routes of \<open>index.ts\<close>.
\<close>

section \<open>Ledger closes\<close>

definition RIPPLE_EPOCH_UNIX_SEC :: int where
  "RIPPLE_EPOCH_UNIX_SEC = 946684800"

record LedgerStream =
  ls_ledger_index :: int
  ls_ledger_hash :: "string option"
  ls_ledger_time :: "int option"
  ls_txn_count :: "int option"

text \<open>Seconds since the Ripple epoch, or the clock when the stream carries no time.\<close>

definition utcDateFromRippleLedgerTime :: "env \<Rightarrow> int option \<Rightarrow> int io" where
  "utcDateFromRippleLedgerTime E ledgerTime =
    (case ledgerTime of None \<Rightarrow> dateNow E | Some t \<Rightarrow> ret ((RIPPLE_EPOCH_UNIX_SEC + t) * 1000))"

definition calendarMonthFromLedgerStream :: "env \<Rightarrow> LedgerStream \<Rightarrow> (int \<times> int) io" where
  "calendarMonthFromLedgerStream E stream = do {
     d \<leftarrow> utcDateFromRippleLedgerTime E (ls_ledger_time stream);
     ret (getUTCFullYear d, getUTCMonth1 d) }"

definition recordSettlementLedgerCloseTouch :: "nat \<Rightarrow> unit io" where
  "recordSettlementLedgerCloseTouch n = do {
     bump ''ledgerCloseTouchInvocations'' 1;
     bump ''contractsTouchedTotal'' n }"

definition ledgerEntity :: "int \<Rightarrow> string" where
  "ledgerEntity i = ''ledger:'' @ show_int i"

definition afterSettlementLedgerClosedEvent :: "env \<Rightarrow> LedgerStream \<Rightarrow> bool \<Rightarrow> unit io" where
  "afterSettlementLedgerClosedEvent E stream touchEnabled =
    (if \<not> touchEnabled then ret ()
     else do {
       ym \<leftarrow> calendarMonthFromLedgerStream E stream;
       (case ym of (year, month) \<Rightarrow> do {
          now \<leftarrow> nowIso E;
          n \<leftarrow> touchSettlementsOnLedgerClose year month (ls_ledger_index stream) now;
          recordSettlementLedgerCloseTouch n;
          emitEvent E ''settlement.period_touched'' ''xrpl_ledger'' (ledgerEntity (ls_ledger_index stream))
            [(''periodYear'', JNum year), (''periodMonth'', JNum month), (''contractsTouched'', JNum (int n)),
             (''ledgerIndex'', JNum (ls_ledger_index stream)), (''ledgerHash'', joptn (ls_ledger_hash stream))];
          ret () }) })"

text \<open>The counter of closes; the wall-clock averages of the health page are not part of the store.\<close>

definition recordXrplSubscribeLedgerClosed :: "env \<Rightarrow> int \<Rightarrow> unit io" where
  "recordXrplSubscribeLedgerClosed E ledgerIndex = do { bump ''ledgerClosedEvents'' 1; dateNow E; ret () }"

definition handleLedgerClosed :: "env \<Rightarrow> LedgerStream \<Rightarrow> bool \<Rightarrow> unit io" where
  "handleLedgerClosed E stream settlementTouchEnabled = do {
     let ledgerIndex = ls_ledger_index stream;
     let syntheticHash = ledgerEntity ledgerIndex;
     inserted \<leftarrow> tryRecordXrplIngestionEvent ledgerIndex syntheticHash ''xrpl_subscribe_ledger_closed'';
     if \<not> inserted then ret ()
     else do {
       recordXrplSubscribeLedgerClosed E ledgerIndex;
       emitEvent E ''settlement.ledger_closed'' ''xrpl_ledger'' syntheticHash
         [(''ledgerIndex'', JNum ledgerIndex), (''ledgerHash'', jopt (ls_ledger_hash stream)),
          (''ledgerTime'', jopti (ls_ledger_time stream)), (''txnCount'', jopti (ls_txn_count stream))];
       afterSettlementLedgerClosedEvent E stream settlementTouchEnabled } }"

section \<open>Routes\<close>

definition settlementTransitionAllowed :: "SettlementStatus \<Rightarrow> SettlementStatus \<Rightarrow> bool" where
  "settlementTransitionAllowed from to =
    (if from = to then True
     else if from = Archived then False
     else if to = Archived then True
     else if from = Collecting \<and> (to = Accrued \<or> to = Confirmed) then True
     else if from = Accrued \<and> to = Confirmed then True
     else False)"

definition canAccessSettlement :: "env \<Rightarrow> BluesafeAuth option \<Rightarrow> SettlementRecord \<Rightarrow> bool io" where
  "canAccessSettlement E auth s = do {
     contract \<leftarrow> getContract (st_contractId s);
     ret (case contract of None \<Rightarrow> False | Some c \<Rightarrow> canAccessContract E auth c) }"

record settlementListQuery =
  sq_limit :: "int option"
  sq_offset :: "int option"
  sq_contractId :: "string option"
  sq_status :: "SettlementStatus option"
  sq_periodYear :: "int option"
  sq_periodMonth :: "int option"

definition settlementListQuerySchema :: "settlementListQuery \<Rightarrow> bool" where
  "settlementListQuerySchema q = (pageOk (sq_limit q) (sq_offset q) \<and>
     optionally (\<lambda>s. 1 \<le> length s) (sq_contractId q) \<and> optionally (\<lambda>y. 2000 \<le> y \<and> y \<le> 2100) (sq_periodYear q) \<and>
     optionally (\<lambda>m. 1 \<le> m \<and> m \<le> 12) (sq_periodMonth q))"

definition listSettlementsH :: "env \<Rightarrow> settlementListQuery option \<Rightarrow> BluesafeAuth option \<Rightarrow>
    SettlementRecord Paginated handler" where
  "listSettlementsH E query auth =
    (case safeParse settlementListQuerySchema query of
       None \<Rightarrow> ret (HttpErr 400 ''B2_VALIDATION_ERROR'')
     | Some q \<Rightarrow> do {
        page \<leftarrow> listSettlementsPage E \<lparr> sf_contractId = sq_contractId q, sf_status = sq_status q,
          sf_periodYear = sq_periodYear q, sf_periodMonth = sq_periodMonth q \<rparr>
          (pageParams (sq_limit q) (sq_offset q));
        flags \<leftarrow> for_collect (pg_items page) (\<lambda>s. do { ok \<leftarrow> canAccessSettlement E auth s; ret (s, ok) });
        ret (HttpOk 200 (page\<lparr>pg_items := map fst (filter snd flags)\<rparr>)) })"

definition listSettlements ::
  "env \<Rightarrow> request \<Rightarrow> settlementListQuery option \<Rightarrow> SettlementRecord Paginated handler" where
  "listSettlements E req query = v1 E req anyRole [] (listSettlementsH E query)"

definition getSettlementH :: "env \<Rightarrow> string \<Rightarrow> BluesafeAuth option \<Rightarrow> SettlementRecord handler" where
  "getSettlementH E settlementId auth = do {
     s \<leftarrow> getSettlement settlementId;
     (case s of
        None \<Rightarrow> ret (HttpErr 404 ''B2_NOT_FOUND'')
      | Some s \<Rightarrow> do {
         ok \<leftarrow> canAccessSettlement E auth s;
         if \<not> ok then ret (HttpErr 403 ''B2_FORBIDDEN'') else ret (HttpOk 200 s) }) }"

definition getSettlementRoute :: "env \<Rightarrow> request \<Rightarrow> string \<Rightarrow> SettlementRecord handler" where
  "getSettlementRoute E req settlementId = v1 E req anyRole [] (getSettlementH E settlementId)"

record settlementPatchBody =
  sb_status :: "SettlementStatus option"
  sb_amountMinor :: "int option"
  sb_currencyCode :: "string option"
  sb_batchId :: "string option"

definition settlementStatusPatchSchema :: "settlementPatchBody \<Rightarrow> bool" where
  "settlementStatusPatchSchema b = (optionally (\<lambda>s. s \<noteq> Collecting) (sb_status b) \<and>
     optionally (\<lambda>a. 0 \<le> a) (sb_amountMinor b) \<and>
     optionally (\<lambda>c. 1 \<le> length c \<and> length c \<le> 32) (sb_currencyCode b) \<and>
     optionally (\<lambda>c. 1 \<le> length c \<and> length c \<le> 128) (sb_batchId b) \<and>
     (sb_status b \<noteq> None \<or> sb_amountMinor b \<noteq> None \<or> sb_currencyCode b \<noteq> None \<or> sb_batchId b \<noteq> None))"

definition patchedSettlement :: "settlementPatchBody \<Rightarrow> string \<Rightarrow> SettlementRecord \<Rightarrow> SettlementRecord" where
  "patchedSettlement b t s =
    (let nextStatus = getOr (st_status s) (sb_status b) in
     s\<lparr>st_status := nextStatus, st_updatedAt := t, st_amountMinor := orElse (sb_amountMinor b) (st_amountMinor s),
       st_currencyCode := orElse (sb_currencyCode b) (st_currencyCode s),
       st_batchId := orElse (sb_batchId b) (st_batchId s),
       st_confirmedAt := (if nextStatus = Confirmed \<and> \<not> truthy (st_confirmedAt s) then Some t
         else st_confirmedAt s)\<rparr>)"

definition changes :: "'a option \<Rightarrow> 'a option \<Rightarrow> bool" where
  "changes new old = (new \<noteq> None \<and> new \<noteq> old)"

definition settlementRef :: "SettlementRecord \<Rightarrow> payload" where
  "settlementRef s = [(''contractId'', JStr (st_contractId s)),
     (''periodYear'', JNum (st_periodYear s)), (''periodMonth'', JNum (st_periodMonth s))]"

definition notifySettlement :: "env \<Rightarrow> string \<Rightarrow> string \<Rightarrow> SettlementRecord \<Rightarrow> unit io" where
  "notifySettlement E eventType settlementId s = do {
     contract \<leftarrow> getContract (st_contractId s);
     (case contract of
        None \<Rightarrow> ret ()
      | Some c \<Rightarrow> maybeEnqueueDomainNotifications E eventType (contractPartyRecipientIds c)
          ((''settlementId'', JStr settlementId) # settlementRef s)) }"

definition settlementFinancials :: "SettlementRecord \<Rightarrow> payload" where
  "settlementFinancials s = [(''amountMinor'', jopti (st_amountMinor s)), (''currencyCode'', jopt (st_currencyCode s)),
     (''batchId'', jopt (st_batchId s))]"

text \<open>What follows the checks of the status route.\<close>

definition applySettlementPatch :: "env \<Rightarrow> string \<Rightarrow> SettlementRecord \<Rightarrow> settlementPatchBody \<Rightarrow> BluesafeAuth option \<Rightarrow>
    SettlementRecord handler" where
  "applySettlementPatch E settlementId s b auth = do {
     t \<leftarrow> nowIso E;
     let updated = patchedSettlement b t s;
     let nextStatus = st_status updated;
     saveSettlement updated;
     let statusChanged = changes (sb_status b) (Some (st_status s));
     let financialChanged = (changes (sb_amountMinor b) (st_amountMinor s) \<or>
       changes (sb_currencyCode b) (st_currencyCode s) \<or> changes (sb_batchId b) (st_batchId s));
     writeAudit E (audit ''settlement'' settlementId ''settlement.status_patched'' (actorRole auth)
       (Some ((''status'', JStr (settlementStatus_str (st_status s))) # settlementFinancials s))
       (Some ((''status'', JStr (settlementStatus_str nextStatus)) # settlementFinancials updated @
         [(''confirmedAt'', jopt (st_confirmedAt updated))])) None);
     (if statusChanged then do {
        emitEvent E ''settlement.status_updated'' ''settlement'' settlementId
          (settlementRef s @ [(''status'', JStr (settlementStatus_str nextStatus))]);
        ret () }
      else ret ());
     (if financialChanged then do {
        emitEvent E ''settlement.financials_attached'' ''settlement'' settlementId
          (settlementRef s @ settlementFinancials updated);
        notifySettlement E ''settlement.financials_attached'' settlementId s }
      else ret ());
     (if nextStatus = Accrued then notifySettlement E ''settlement.accrued'' settlementId s else ret ());
     (if nextStatus = Confirmed \<and> autoNotifyOnConfirmed E then do {
        contract \<leftarrow> getContract (st_contractId s);
        (case contract of
           None \<Rightarrow> ret ()
         | Some c \<Rightarrow> enqueueSettlementConfirmedNotifications E updated c) }
      else ret ());
     ret (HttpOk 200 updated) }"

definition patchSettlementH :: "env \<Rightarrow> string \<Rightarrow> settlementPatchBody option \<Rightarrow> BluesafeAuth option \<Rightarrow>
    SettlementRecord handler" where
  "patchSettlementH E settlementId body auth =
    (case safeParse settlementStatusPatchSchema body of
       None \<Rightarrow> ret (HttpErr 400 ''B2_VALIDATION_ERROR'')
     | Some b \<Rightarrow> do {
        s \<leftarrow> getSettlement settlementId;
        (case s of
           None \<Rightarrow> ret (HttpErr 404 ''B2_NOT_FOUND'')
         | Some s \<Rightarrow>
            if \<not> optionally (settlementTransitionAllowed (st_status s)) (sb_status b)
            then ret (HttpErr 409 ''B2_VALIDATION_ERROR'')
            else applySettlementPatch E settlementId s b auth) })"

definition patchSettlement ::
  "env \<Rightarrow> request \<Rightarrow> string \<Rightarrow> settlementPatchBody option \<Rightarrow> SettlementRecord handler" where
  "patchSettlement E req settlementId body =
     v1 E req [Operator] [ScSettlements] (patchSettlementH E settlementId body)"

section \<open>Frames\<close>

lemmas ledger_defs = handleLedgerClosed_def recordXrplSubscribeLedgerClosed_def
  afterSettlementLedgerClosedEvent_def calendarMonthFromLedgerStream_def utcDateFromRippleLedgerTime_def
  recordSettlementLedgerCloseTouch_def

lemmas settlement_defs = patchSettlement_def patchSettlementH_def applySettlementPatch_def notifySettlement_def

lemma tle_enqueue_settlement [tle_intros]: "steps ticks_le (enqueueSettlementConfirmedNotifications E s c)"
  unfolding enqueueSettlementConfirmedNotifications_def by (rule tle_intros)

lemma tle_settlements [tle_intros]:
  "steps ticks_le (handleLedgerClosed E str te)" "steps ticks_le (patchSettlement E req i sb)"
  unfolding ledger_defs settlement_defs Let_def by (auto intro!: tle_intros split: option.splits)

lemma core_touch [core_intros]:
  assumes "core_obs f" "\<And>w g. f (settlements_update g w) = f w"
  shows "keeps f (touchSettlementsOnLedgerClose y m l now)"
  unfolding touchSettlementsOnLedgerClose_def touchOneContract_def Let_def
  by (auto intro!: core_intros keeps_modify assms)

lemma core_ingestion [core_intros]:
  "(\<And>w g. f (ingestionDedup_update g w) = f w) \<Longrightarrow> keeps f (tryRecordXrplIngestionEvent l h s)"
  unfolding tryRecordXrplIngestionEvent_def by (auto intro!: core_io keeps_modify)

lemma core_settlements [core_intros]:
  assumes "core_obs f" "\<And>w g. f (settlements_update g w) = f w"
  shows "keeps f (patchSettlement E req i sb)"
    "(\<And>w g. f (ingestionDedup_update g w) = f w) \<Longrightarrow> keeps f (handleLedgerClosed E str te)"
  unfolding ledger_defs settlement_defs Let_def
  by (auto intro!: core_intros assms split: option.splits)

lemma notify_touch [notify_intros]:
  "steps (notify_rel E) (touchSettlementsOnLedgerClose y m l now)"
  "steps (notify_rel E) (tryRecordXrplIngestionEvent li h sr)"
  unfolding touchSettlementsOnLedgerClose_def touchOneContract_def tryRecordXrplIngestionEvent_def Let_def
  by (auto intro!: notify_intros)

lemma notify_settlements [notify_intros]:
  assumes "env_ok E"
  shows "steps (notify_rel E) (patchSettlement E req i sb)" "steps (notify_rel E) (handleLedgerClosed E str te)"
  unfolding ledger_defs settlement_defs enqueueSettlementConfirmedNotifications_def Let_def
  by (auto intro!: notify_intros assms split: option.splits)

section \<open>Life of a settlement\<close>

text \<open>
  Later versions of a settlement: contract, period and creation are fixed, the status moves along the
  transition table, the close counter never goes back, an archived row counts no further closes, and
  the confirmation time is set once.
\<close>

definition st_step :: "SettlementRecord \<Rightarrow> SettlementRecord \<Rightarrow> bool" where
  "st_step s s' = (st_id s' = st_id s \<and> st_contractId s' = st_contractId s \<and>
     st_periodYear s' = st_periodYear s \<and> st_periodMonth s' = st_periodMonth s \<and>
     st_createdAt s' = st_createdAt s \<and> settlementTransitionAllowed (st_status s) (st_status s') \<and>
     getOr 0 (st_ledgerCloseCount s) \<le> getOr 0 (st_ledgerCloseCount s') \<and>
     (st_status s = Archived \<longrightarrow> st_lastLedgerIndex s' = st_lastLedgerIndex s \<and>
        getOr 0 (st_ledgerCloseCount s') = getOr 0 (st_ledgerCloseCount s)) \<and>
     (truthy (st_confirmedAt s) \<longrightarrow> st_confirmedAt s' = st_confirmedAt s))"

lemma transition_refl [simp]: "settlementTransitionAllowed s s"
  by (simp add: settlementTransitionAllowed_def)

lemma transition_trans:
  "settlementTransitionAllowed a b \<Longrightarrow> settlementTransitionAllowed b c \<Longrightarrow> settlementTransitionAllowed a c"
  by (cases a; cases b; cases c) (auto simp: settlementTransitionAllowed_def)

lemma archived_final: "settlementTransitionAllowed Archived s \<Longrightarrow> s = Archived"
  by (cases s) (auto simp: settlementTransitionAllowed_def)

interpretation slife: lifecycle settlements st_id "\<lambda>_ _. True" st_step
proof
  show "st_step s s" for s by (simp add: st_step_def)
  show "st_step s s''" if "st_step s s'" "st_step s' s''" for s s' s''
    using that archived_final transition_trans unfolding st_step_def by (smt (verit) order_trans)
qed

lemma slife_core: "keeps settlements m \<Longrightarrow> steps slife.life m"
  by (rule slife.life_keeps) simp_all

lemma slife_write:
  assumes "settlements w' = jm_set (settlements w) i s'" "st_id s' = i"
    "\<And>s. jm_get (settlements w) i = Some s \<Longrightarrow> st_id s = i \<Longrightarrow> st_step s s'"
  shows "slife.life w w'"
  using assms by (intro slife.life_put) auto

lemma touched_step:
  "st_id s = i \<Longrightarrow> st_status s \<noteq> Archived \<Longrightarrow> st_step s (touchedSettlement y m l now i c (Some s))"
  by (auto simp: st_step_def touchedSettlement_def withSettlementDefaults_def Let_def)

lemma slife_touch: "steps slife.life (touchSettlementsOnLedgerClose y m l now)"
proof -
  have "steps slife.life (touchOneContract y m l now c)" for c
  proof (rule stepsI)
    fix w
    let ?i = "settlementDeterministicId (ct_id c) y m"
    show "slife.life w (exec (touchOneContract y m l now c) w)"
    proof (cases "ct_status c \<in> {Active, EscrowValidated} \<and>
        map_option st_status (jm_get (settlements w) ?i) \<noteq> Some Archived")
      case True
      then have put: "settlements (exec (touchOneContract y m l now c) w) = jm_set (settlements w) ?i
          (touchedSettlement y m l now ?i (ct_id c) (jm_get (settlements w) ?i))"
        by (auto simp: touchOneContract_def run_simps Let_def)
      have "st_id (touchedSettlement y m l now ?i (ct_id c) (jm_get (settlements w) ?i)) = ?i"
        if "slife.coherent w"
        using that slife.coherent_key [of w ?i]
        by (cases "jm_get (settlements w) ?i") (auto simp: touchedSettlement_def withSettlementDefaults_def Let_def)
      then show ?thesis
        using True touched_step by (cases "slife.coherent w")
          (force intro: slife_write [OF put], simp add: slife.life_def)
    next
      case False
      then have "exec (touchOneContract y m l now c) w = w"
        by (auto simp: touchOneContract_def run_simps Let_def)
      then show ?thesis by (simp add: slife.life_refl)
    qed
  qed
  then show ?thesis
    unfolding touchSettlementsOnLedgerClose_def by (auto intro!: slife.io)
qed

lemma slife_handleLedgerClosed: "steps slife.life (handleLedgerClosed E str te)"
  unfolding ledger_defs Let_def
  by (auto intro!: slife.io slife_touch split: option.splits; rule slife_core; auto intro!: core_intros)

lemma patched_step:
  assumes "optionally (settlementTransitionAllowed (st_status s)) (sb_status b)"
  shows "st_step s (withSettlementDefaults (patchedSettlement b t (withSettlementDefaults s)))"
  using assms
  by (auto simp: st_step_def patchedSettlement_def withSettlementDefaults_def optionally_def Let_def
      split: option.splits)

lemma applySettlementPatch_settlements:
  "settlements (exec (applySettlementPatch E i s b auth) w) = jm_set (settlements w) (st_id s)
     (withSettlementDefaults (patchedSettlement b (toISOString (clockMs E (ticks w))) s))"
  "valu (applySettlementPatch E i s b auth) w =
     HttpOk 200 (patchedSettlement b (toISOString (clockMs E (ticks w))) s)"
proof -
  have k: "settlements (exec (notifySettlement E et i' s') v) = settlements v"
    "settlements (exec (enqueueSettlementConfirmedNotifications E s' c) v) = settlements v" for et i' s' c v
    by (rule keepsD, auto simp: notifySettlement_def intro!: core_intros split: option.splits)+
  show "settlements (exec (applySettlementPatch E i s b auth) w) = jm_set (settlements w) (st_id s)
     (withSettlementDefaults (patchedSettlement b (toISOString (clockMs E (ticks w))) s))"
    "valu (applySettlementPatch E i s b auth) w =
     HttpOk 200 (patchedSettlement b (toISOString (clockMs E (ticks w))) s)"
    by (simp_all add: applySettlementPatch_def run_simps Let_def k patchedSettlement_def split: option.splits)
qed

lemma slife_patchSettlement: "steps slife.life (patchSettlement E req i body)"
proof -
  have "steps slife.life (patchSettlementH E i body auth)" for auth
  proof (rule stepsI)
    fix w
    have "exec (patchSettlementH E i body auth) w = w \<or>
      (\<exists>s b. jm_get (settlements w) i = Some s \<and>
        optionally (settlementTransitionAllowed (st_status s)) (sb_status b) \<and>
        exec (patchSettlementH E i body auth) w =
          exec (applySettlementPatch E i (withSettlementDefaults s) b auth) w)"
      by (auto simp: patchSettlementH_def run_simps withSettlementDefaults_def split: option.splits)
    then show "slife.life w (exec (patchSettlementH E i body auth) w)"
    proof (elim disjE exE conjE)
      fix s b
      assume s: "jm_get (settlements w) i = Some s"
        "optionally (settlementTransitionAllowed (st_status s)) (sb_status b)"
        "exec (patchSettlementH E i body auth) w =
          exec (applySettlementPatch E i (withSettlementDefaults s) b auth) w"
      have i: "st_id (withSettlementDefaults x) = st_id x" "st_id (patchedSettlement b t x) = st_id x" for t x
        by (simp_all add: withSettlementDefaults_def patchedSettlement_def Let_def)
      show ?thesis
      proof (cases "slife.coherent w")
        case True
        with s(1) have "st_id s = i" by (simp add: slife.coherent_key)
        with s(1,2) show ?thesis
          unfolding s(3)
          by (intro slife_write [OF applySettlementPatch_settlements(1)]) (auto simp: i intro: patched_step)
      qed (simp add: slife.life_def)
    qed (simp add: slife.life_refl)
  qed
  then show ?thesis unfolding patchSettlement_def by (intro steps_v1) (auto intro: slife.life_refl)
qed

section \<open>Properties\<close>

text \<open>A ledger close is counted once. A second delivery of the close of the same ledger, whatever it
  carries, changes no settlement, event, counter or notification.\<close>

lemma ledger_close_once:
  assumes "ls_ledger_index stream' = ls_ledger_index stream"
  shows "let w' = exec (handleLedgerClosed E stream te) w in exec (handleLedgerClosed E stream' te') w' = w'"
proof -
  have k: "ingestionDedup (exec (afterSettlementLedgerClosedEvent E stream te) v) = ingestionDedup v" for v
    by (rule keepsD) (auto simp: ledger_defs intro!: core_intros split: option.splits)
  have "ingestionKey (ls_ledger_index stream) (ledgerEntity (ls_ledger_index stream)) ''xrpl_subscribe_ledger_closed''
    \<in> set (ingestionDedup (exec (handleLedgerClosed E stream te) w))"
    by (simp add: handleLedgerClosed_def tryRecordXrplIngestionEvent_def recordXrplSubscribeLedgerClosed_def
        run_simps Let_def k)
  then show ?thesis
    by (simp add: assms handleLedgerClosed_def [of E stream'] tryRecordXrplIngestionEvent_def run_simps Let_def)
qed

text \<open>The loop over the contracts, with different row identifiers.\<close>

definition touchable :: "world \<Rightarrow> int \<Rightarrow> int \<Rightarrow> Contract \<Rightarrow> bool" where
  "touchable w y m c = (ct_status c \<in> {Active, EscrowValidated} \<and>
     map_option st_status (jm_get (settlements w) (settlementDeterministicId (ct_id c) y m)) \<noteq> Some Archived)"

lemma touchOneContract_row:
  "settlements (exec (touchOneContract y m l now c) w) =
    (let i = settlementDeterministicId (ct_id c) y m in
     if touchable w y m c
     then jm_set (settlements w) i (touchedSettlement y m l now i (ct_id c) (jm_get (settlements w) i))
     else settlements w)"
  by (auto simp: touchOneContract_def touchable_def run_simps Let_def)

lemma touch_rows:
  assumes "inj_on (\<lambda>c. settlementDeterministicId (ct_id c) y m) (set cs)" "distinct cs" "c \<in> set cs"
  shows "jm_get (settlements (exec (for_count cs (touchOneContract y m l now)) w))
      (settlementDeterministicId (ct_id c) y m) =
    (let i = settlementDeterministicId (ct_id c) y m in
     if touchable w y m c then Some (touchedSettlement y m l now i (ct_id c) (jm_get (settlements w) i))
     else jm_get (settlements w) i)"
  using assms
proof (induction cs arbitrary: w)
  case (Cons x xs)
  let ?id = "\<lambda>c. settlementDeterministicId (ct_id c) y m"
  let ?w = "exec (touchOneContract y m l now x) w"
  have other: "jm_get (settlements ?w) (?id z) = jm_get (settlements w) (?id z)" if "z \<in> set xs" for z
  proof -
    have "?id z \<noteq> ?id x" using Cons.prems(1,2) that by (auto simp: inj_on_def)
    then show ?thesis by (simp add: touchOneContract_row Let_def)
  qed
  have rest: "jm_get (settlements (exec (for_count xs (touchOneContract y m l now)) v)) (?id x) =
      jm_get (settlements v) (?id x)" for v
  proof -
    have "?id x \<noteq> ?id z" if "z \<in> set xs" for z using Cons.prems(1,2) that by (auto simp: inj_on_def)
    then show ?thesis
      by (induction xs arbitrary: v) (auto simp: touchOneContract_row Let_def)
  qed
  show ?case
  proof (cases "c = x")
    case True
    then show ?thesis by (simp add: rest touchOneContract_row Let_def)
  next
    case False
    with Cons.prems have c: "c \<in> set xs" by simp
    have "touchable ?w y m c = touchable w y m c" by (simp add: touchable_def other [OF c])
    with Cons.IH [of ?w] Cons.prems c show ?thesis by (simp add: other [OF c] Let_def)
  qed
qed simp

text \<open>What a ledger close does to the settlements of the month. With touching enabled, the first
  delivery of a ledger close gives every active or escrow-validated contract its row of the ledger's
  calendar month: a new collecting row with count 1, or the existing row with the ledger index
  recorded and the count raised by one; an archived row stays as it is. (The row identifiers of
  different contracts must differ.)\<close>

lemma ledger_close_touches:
  assumes "ls_ledger_time stream = Some t"
    and "y = getUTCFullYear ((RIPPLE_EPOCH_UNIX_SEC + t) * 1000)" "m = getUTCMonth1 ((RIPPLE_EPOCH_UNIX_SEC + t) * 1000)"
    and fresh: "ingestionKey (ls_ledger_index stream) (ledgerEntity (ls_ledger_index stream))
      ''xrpl_subscribe_ledger_closed'' \<notin> set (ingestionDedup w)"
    and "inj_on (\<lambda>c. settlementDeterministicId (ct_id c) y m) (set (jm_values (contracts w)))"
      "distinct (jm_values (contracts w))" "c \<in> set (jm_values (contracts w))"
  shows "let w' = exec (handleLedgerClosed E stream True) w; i = settlementDeterministicId (ct_id c) y m in
    case jm_get (settlements w) i of
      None \<Rightarrow> if ct_status c \<in> {Active, EscrowValidated}
        then \<exists>s. jm_get (settlements w') i = Some s \<and> st_status s = Collecting \<and> st_contractId s = ct_id c \<and>
          st_periodYear s = y \<and> st_periodMonth s = m \<and> st_ledgerCloseCount s = Some 1
        else jm_get (settlements w') i = None
    | Some s0 \<Rightarrow> if ct_status c \<in> {Active, EscrowValidated} \<and> st_status s0 \<noteq> Archived
        then \<exists>s. jm_get (settlements w') i = Some s \<and> st_status s = st_status s0 \<and>
          st_lastLedgerIndex s = Some (ls_ledger_index stream) \<and>
          st_ledgerCloseCount s = Some (getOr 0 (st_ledgerCloseCount s0) + 1)
        else jm_get (settlements w') i = Some s0"
proof -
  let ?i = "settlementDeterministicId (ct_id c) y m"
  have c: "valu (calendarMonthFromLedgerStream E stream) u = (y, m)"
    "exec (calendarMonthFromLedgerStream E stream) u = u" for u
    by (simp_all add: calendarMonthFromLedgerStream_def utcDateFromRippleLedgerTime_def assms(1-3) run_simps)
  have touch: "settlements (exec (afterSettlementLedgerClosedEvent E stream True) u) =
    settlements (exec (touchSettlementsOnLedgerClose y m (ls_ledger_index stream) (valu (nowIso E) u))
      (exec (nowIso E) u))" for u
    by (simp add: afterSettlementLedgerClosedEvent_def recordSettlementLedgerCloseTouch_def c run_simps)
  obtain u where "exec (handleLedgerClosed E stream True) w = exec (afterSettlementLedgerClosedEvent E stream True) u"
    and u: "settlements u = settlements w" "contracts u = contracts w"
  proof (rule that)
    show "exec (handleLedgerClosed E stream True) w = exec (afterSettlementLedgerClosedEvent E stream True)
        (exec (do { inserted \<leftarrow> tryRecordXrplIngestionEvent (ls_ledger_index stream)
            (ledgerEntity (ls_ledger_index stream)) ''xrpl_subscribe_ledger_closed'';
          recordXrplSubscribeLedgerClosed E (ls_ledger_index stream);
          emitEvent E ''settlement.ledger_closed'' ''xrpl_ledger'' (ledgerEntity (ls_ledger_index stream))
            [(''ledgerIndex'', JNum (ls_ledger_index stream)), (''ledgerHash'', jopt (ls_ledger_hash stream)),
             (''ledgerTime'', jopti (ls_ledger_time stream)), (''txnCount'', jopti (ls_txn_count stream))] }) w)"
      using fresh by (simp add: handleLedgerClosed_def tryRecordXrplIngestionEvent_def run_simps Let_def)
  qed (simp_all add: recordXrplSubscribeLedgerClosed_def tryRecordXrplIngestionEvent_def run_simps Let_def)
  then obtain v now where v: "settlements v = settlements w" "contracts v = contracts w" and
    x: "settlements (exec (handleLedgerClosed E stream True) w) =
      settlements (exec (touchSettlementsOnLedgerClose y m (ls_ledger_index stream) now) v)"
    using touch [of u] by (intro that [of "exec (nowIso E) u"]) (simp_all add: run_simps)
  have tv: "touchable v y m c = touchable w y m c" by (simp add: touchable_def v)
  have "jm_get (settlements (exec (handleLedgerClosed E stream True) w)) ?i =
    (if touchable w y m c
     then Some (touchedSettlement y m (ls_ledger_index stream) now ?i (ct_id c) (jm_get (settlements w) ?i))
     else jm_get (settlements w) ?i)"
    unfolding x using touch_rows [OF assms(5-7), of "ls_ledger_index stream" now v]
    by (simp add: touchSettlementsOnLedgerClose_def run_simps v tv Let_def)
  then show ?thesis
    by (auto simp: touchable_def touchedSettlement_def withSettlementDefaults_def Let_def split: option.splits)
qed

lemma defaults_fields [simp]:
  "st_id (withSettlementDefaults s) = st_id s" "st_status (withSettlementDefaults s) = st_status s"
  "st_amountMinor (withSettlementDefaults s) = st_amountMinor s"
  "st_batchId (withSettlementDefaults s) = st_batchId s"
  "st_confirmedAt (withSettlementDefaults s) = st_confirmedAt s"
  "st_currencyCode (withSettlementDefaults s) = Some (getOr ''XRP'' (st_currencyCode s))"
  by (simp_all add: withSettlementDefaults_def)

text \<open>The settlement route, branch by branch. A malformed body, an unknown settlement and a status
  change outside the transition table are answered 400, 404 and 409 and leave the store untouched;
  otherwise exactly this settlement is rewritten: the status and the amount, currency and batch given
  in the body, everything else as before, and the confirmation time is set when the row is confirmed
  and has none yet. No contract, dispute, transaction or evidence changes.\<close>

lemma patch_settlement:
  "let m = patchSettlementH E i body auth; w' = exec m w in
   case safeParse settlementStatusPatchSchema body of
     None \<Rightarrow> valu m w = HttpErr 400 ''B2_VALIDATION_ERROR'' \<and> w' = w
   | Some b \<Rightarrow>
     (case jm_get (settlements w) i of None \<Rightarrow> valu m w = HttpErr 404 ''B2_NOT_FOUND'' \<and> w' = w
      | Some s \<Rightarrow>
        if \<not> optionally (settlementTransitionAllowed (st_status s)) (sb_status b)
        then valu m w = HttpErr 409 ''B2_VALIDATION_ERROR'' \<and> w' = w
        else (\<exists>t. let to = getOr (st_status s) (sb_status b);
            s' = (withSettlementDefaults s)\<lparr>st_status := to, st_updatedAt := t,
              st_amountMinor := orElse (sb_amountMinor b) (st_amountMinor s),
              st_currencyCode := Some (getOr (getOr ''XRP'' (st_currencyCode s)) (sb_currencyCode b)),
              st_batchId := orElse (sb_batchId b) (st_batchId s),
              st_confirmedAt := (if to = Confirmed \<and> \<not> truthy (st_confirmedAt s) then Some t
                else st_confirmedAt s)\<rparr> in
          valu m w = HttpOk 200 s' \<and> settlements w' = jm_set (settlements w) (st_id s) s' \<and>
          contracts w' = contracts w \<and> disputes w' = disputes w \<and> xrplTxs w' = xrplTxs w \<and>
          evidences w' = evidences w))"
proof (cases "\<exists>b s. body = Some b \<and> settlementStatusPatchSchema b \<and> jm_get (settlements w) i = Some s \<and>
    optionally (settlementTransitionAllowed (st_status s)) (sb_status b)")
  case True
  then obtain b s where bs: "body = Some b" "settlementStatusPatchSchema b" "jm_get (settlements w) i = Some s"
    "optionally (settlementTransitionAllowed (st_status s)) (sb_status b)" by blast
  let ?s = "withSettlementDefaults s" and ?t = "toISOString (clockMs E (ticks w))"
  have m: "exec (patchSettlementH E i body auth) w = exec (applySettlementPatch E i ?s b auth) w"
    "valu (patchSettlementH E i body auth) w = valu (applySettlementPatch E i ?s b auth) w"
    using bs by (simp_all add: patchSettlementH_def safeParse_def run_simps)
  have k: "keeps f (applySettlementPatch E i ?s b auth)"
    if "core_obs f" "\<And>w g. f (settlements_update g w) = f w" for f :: "world \<Rightarrow> 'x"
    unfolding applySettlementPatch_def notifySettlement_def Let_def
    by (auto intro!: core_intros that split: option.splits)
  have d: "withSettlementDefaults (patchedSettlement b ?t ?s) = patchedSettlement b ?t ?s"
    by (cases "sb_currencyCode b") (simp_all add: patchedSettlement_def withSettlementDefaults_def Let_def)
  have p: "patchedSettlement b ?t ?s =
     ?s\<lparr>st_status := getOr (st_status s) (sb_status b), st_updatedAt := ?t,
       st_amountMinor := orElse (sb_amountMinor b) (st_amountMinor s),
       st_currencyCode := Some (getOr (getOr ''XRP'' (st_currencyCode s)) (sb_currencyCode b)),
       st_batchId := orElse (sb_batchId b) (st_batchId s),
       st_confirmedAt := (if getOr (st_status s) (sb_status b) = Confirmed \<and> \<not> truthy (st_confirmedAt s)
         then Some ?t else st_confirmedAt s)\<rparr>"
    by (cases "sb_currencyCode b") (simp_all add: patchedSettlement_def Let_def)
  have q: "safeParse settlementStatusPatchSchema body = Some b"
    "(\<not> optionally (settlementTransitionAllowed (st_status s)) (sb_status b)) = False"
    using bs by simp_all
  note r = applySettlementPatch_settlements [of E i ?s b auth w, unfolded d, unfolded p defaults_fields]
  show ?thesis
    unfolding Let_def q bs(3) option.case if_False m r
    by (rule exI [of _ ?t]) (simp add: keepsD [OF k])
qed (auto simp: patchSettlementH_def run_simps safeParse_def Let_def split: option.splits)

text \<open>The settlement list shows a caller only settlements of contracts the caller may read; they are
  rows of the store.\<close>

lemma list_settlements_scoped:
  assumes "valu (listSettlementsH E q auth) w = HttpOk n page" "s \<in> set (pg_items page)"
  shows "\<exists>c. jm_get (contracts w) (st_contractId s) = Some c \<and> canAccessContract E auth c"
proof -
  have loop: "valu (for_collect xs (\<lambda>s. do { ok \<leftarrow> canAccessSettlement E auth s; ret (s, ok) })) w =
      map (\<lambda>s. (s, valu (canAccessSettlement E auth s) w)) xs" for xs
    by (induction xs) (simp_all add: canAccessSettlement_def run_simps getContract_def)
  from assms obtain xs where "s \<in> set (map fst (filter snd (map (\<lambda>s. (s, valu (canAccessSettlement E auth s) w)) xs)))"
    by (auto simp: listSettlementsH_def run_simps loop listSettlementsPage_def split: option.splits)
  then have "valu (canAccessSettlement E auth s) w" by auto
  then show ?thesis by (auto simp: canAccessSettlement_def getContract_def split: option.splits)
qed

end
