(* ===== verification/Evidence.thy ===== *)
theory Evidence
  imports Contracts
begin

text \<open>
  The evidence vault: MIME policy (\<open>services/evidence-mime.ts\<close>), AES-GCM envelope
  (\<open>services/evidence-crypto.ts\<close>), data key resolution (\<open>services/evidence-dek.ts\<close>), IPFS storage
  (\<open>services/ipfs.service.ts\<close>, \<open>services/evidence-ipfs-fetch.ts\<close>) and the evidence routes of \<open>index.ts\<close>:
  upload, verification, metadata, content, legal hold and the retention run. Bytes are characters.
\<close>

section \<open>MIME policy\<close>

fun byCategory :: "EvidenceCategory \<Rightarrow> string list" where
  "byCategory ContractPdf = [''application/pdf'']"
| "byCategory UtilityBill = [''application/pdf'', ''image/jpeg'', ''image/png'']"
| "byCategory Photo = [''image/jpeg'', ''image/png'', ''image/webp'']"
| "byCategory Receipt = [''application/pdf'', ''image/jpeg'', ''image/png'']"
| "byCategory OtherCategory = [''application/pdf'', ''image/jpeg'', ''image/png'', ''image/webp'', ''text/plain'',
     ''text/markdown'', ''application/octet-stream'']"

fun category_str :: "EvidenceCategory \<Rightarrow> string" where
  "category_str ContractPdf = ''contract_pdf''"
| "category_str UtilityBill = ''utility_bill''"
| "category_str Photo = ''photo''"
| "category_str Receipt = ''receipt''"
| "category_str OtherCategory = ''other''"

definition orOctet :: "string \<Rightarrow> string" where
  "orOctet mimeType = (if mimeType = '''' then ''application/octet-stream'' else mimeType)"

text \<open>\<open>False\<close> where the function throws.\<close>

definition assertMimeAllowedForEvidenceCategory :: "string \<Rightarrow> EvidenceCategory \<Rightarrow> bool" where
  "assertMimeAllowedForEvidenceCategory mimeType category =
    (let normalized = toLowerCase (trim (takeWhile (\<lambda>c. c \<noteq> CHR '';'') (orOctet mimeType)))
     in normalized \<in> set (byCategory category))"

section \<open>Envelope encryption\<close>

definition EVIDENCE_ENCRYPTION_SCHEME :: string where
  "EVIDENCE_ENCRYPTION_SCHEME = ''aes-256-gcm-v1''"

datatype vaultError = BadEnvKey | BadStubKey | NoWrappedDek | UnwrapFailed | UnwrapHttp nat | NoPlaintextKey
  | BadUnwrappedKey | CiphertextTooShort | AuthTagMismatch | NoPinataJwt | UploadFailed | UploadHttp nat
  | NoIpfsHash | GatewayFailed | GatewayHttp nat

definition getEvidenceEncryptionKey :: "env \<Rightarrow> vaultError + string option" where
  "getEvidenceEncryptionKey E =
    (let raw = trim (encryptionKeyBase64 E) in
     if raw = '''' then Inr None
     else let buf = base64Decode E raw in
       if length buf \<noteq> 32 then Inl BadEnvKey else Inr (Some buf))"

definition decryptEvidenceBuffer :: "env \<Rightarrow> string \<Rightarrow> string \<Rightarrow> vaultError + string" where
  "decryptEvidenceBuffer E payload key =
    (if length payload < 12 + 16 then Inl CiphertextTooShort
     else let iv = take 12 payload;
         tag = drop (length payload - 16) payload;
         enc = drop 12 (take (length payload - 16) payload) in
       (case aesGcmDecrypt E key iv enc tag of None \<Rightarrow> Inl AuthTagMismatch | Some p \<Rightarrow> Inr p))"

definition encryptEvidenceBuffer :: "env \<Rightarrow> string \<Rightarrow> string \<Rightarrow> string io" where
  "encryptEvidenceBuffer E plaintext key = do {
     n \<leftarrow> tick;
     let iv = randomBytes E n 12;
     ret (case aesGcmEncrypt E key iv plaintext of (ciphertext, tag) \<Rightarrow> iv @ ciphertext @ tag) }"

definition recordEvidenceDekResolution :: "string \<Rightarrow> unit io" where
  "recordEvidenceDekResolution source = bump (''dek:'' @ source) 1"

text \<open>The sidecar's answer; the total of the unwrap times is not kept.\<close>

definition unwrapDek :: "env \<Rightarrow> string \<Rightarrow> string \<Rightarrow> (vaultError + (string \<times> string) option) io" where
  "unwrapDek E httpUrl wrapped = do {
     dateNow E;
     n \<leftarrow> tick;
     (case fetch E n httpUrl (JObj [(''ciphertext'', JStr wrapped)]) of
        FetchThrew _ \<Rightarrow> ret (Inl UnwrapFailed)
      | FetchResp st txt body \<Rightarrow> do {
         dateNow E;
         bump ''httpUnwrapCount'' 1;
         if \<not> fetched_ok (FetchResp st txt body) then ret (Inl (UnwrapHttp st))
         else (case jfield body ''plaintextKeyBase64'' of
             JStr s \<Rightarrow>
               if s = '''' then ret (Inl NoPlaintextKey)
               else (let key = base64Decode E s in
                 if length key \<noteq> 32 then ret (Inl BadUnwrappedKey)
                 else do { recordEvidenceDekResolution ''kms_http''; ret (Inr (Some (key, ''kms_http''))) })
           | _ \<Rightarrow> ret (Inl NoPlaintextKey)) }) }"

definition resolveEvidenceDataKey :: "env \<Rightarrow> (vaultError + (string \<times> string) option) io" where
  "resolveEvidenceDataKey E =
    (case getEvidenceEncryptionKey E of
       Inl e \<Rightarrow> do { recordEvidenceDekResolution ''env_error''; ret (Inl e) }
     | Inr (Some envKey) \<Rightarrow> do { recordEvidenceDekResolution ''env''; ret (Inr (Some (envKey, ''env''))) }
     | Inr None \<Rightarrow>
        let stub = trim (kmsStubDekBase64 E) in
        if stub \<noteq> '''' then
          (let buf = base64Decode E stub in
           if length buf \<noteq> 32 then ret (Inl BadStubKey)
           else do { recordEvidenceDekResolution ''kms_stub''; ret (Inr (Some (buf, ''kms_stub''))) })
        else
          let httpUrl = trim (kmsHttpUnwrapUrl E) in
          if httpUrl \<noteq> '''' then
            (let wrapped = trim (kmsWrappedDekBase64 E) in
             if wrapped = '''' then ret (Inl NoWrappedDek) else unwrapDek E httpUrl wrapped)
          else do { recordEvidenceDekResolution ''none''; ret (Inr None) })"

section \<open>IPFS\<close>

record UploadToIpfsInput =
  ui_buffer :: string
  ui_fileName :: string
  ui_mimeType :: string
  ui_sha256 :: string

definition pinOnce :: "env \<Rightarrow> UploadToIpfsInput \<Rightarrow> (vaultError + (string \<times> StorageProvider)) io" where
  "pinOnce E input = do {
     n \<leftarrow> tick;
     ret (case fetch E n (pinataEndpoint E) (JObj [(''file'', JStr (ui_buffer input)),
            (''filename'', JStr (ui_fileName input)), (''type'', JStr (orOctet (ui_mimeType input)))]) of
            FetchThrew _ \<Rightarrow> Inl UploadFailed
          | FetchResp st txt body \<Rightarrow>
              if \<not> fetched_ok (FetchResp st txt body) then Inl (UploadHttp st)
              else (case jfield body ''IpfsHash'' of
                  JStr h \<Rightarrow> if h = '''' then Inl NoIpfsHash else Inr (h, Pinata)
                | _ \<Rightarrow> Inl NoIpfsHash)) }"

text \<open>The retry loop, by the attempts left; the pauses between the attempts change no state.\<close>

fun pinAttempts :: "env \<Rightarrow> UploadToIpfsInput \<Rightarrow> nat \<Rightarrow> vaultError \<Rightarrow>
    (vaultError + (string \<times> StorageProvider)) io" where
  "pinAttempts E input 0 lastErr = ret (Inl lastErr)"
| "pinAttempts E input (Suc n) lastErr = do {
     r \<leftarrow> pinOnce E input;
     (case r of Inr ok \<Rightarrow> ret (Inr ok) | Inl e \<Rightarrow> pinAttempts E input n e) }"

definition uploadViaPinata :: "env \<Rightarrow> UploadToIpfsInput \<Rightarrow> (vaultError + (string \<times> StorageProvider)) io" where
  "uploadViaPinata E input =
    (if pinataJwt E = '''' then ret (Inl NoPinataJwt)
     else pinAttempts E input (pinataMaxAttempts E) UploadFailed)"

definition upload :: "env \<Rightarrow> UploadToIpfsInput \<Rightarrow> (vaultError + (string \<times> StorageProvider)) io" where
  "upload E input =
    (if ipfsPinata E then uploadViaPinata E input
     else ret (Inr (generateCidFromHash (ui_sha256 input), MockStorage)))"

definition uriUnreserved :: "char \<Rightarrow> bool" where
  "uriUnreserved c = ((CHR ''a'' \<le> c \<and> c \<le> CHR ''z'') \<or> (CHR ''A'' \<le> c \<and> c \<le> CHR ''Z'') \<or> isDigit c \<or>
     c \<in> set ''-_.!~*()'' \<or> c = CHR 0x27)"

definition encodeURIComponent :: "string \<Rightarrow> string" where
  "encodeURIComponent s = concat (map (\<lambda>c. if uriUnreserved c then [c]
     else [CHR ''%'', toUpperChar (hexDigit (of_char c div 16)), toUpperChar (hexDigit (of_char c mod 16))]) s)"

text \<open>\<open>False\<close> where the call throws.\<close>

definition unpinIfPinata :: "env \<Rightarrow> string \<Rightarrow> StorageProvider \<Rightarrow> bool io" where
  "unpinIfPinata E cid storageProvider =
    (if storageProvider \<noteq> Pinata \<or> \<not> ipfsPinata E then ret True
     else if pinataJwt E = '''' then ret True
     else do {
       n \<leftarrow> tick;
       ret (fetched_ok (fetch E n (pinataUnpinBaseUrl E @ ''/'' @ encodeURIComponent cid) JUndef)) })"

definition fetchEvidenceBytesFromPublicGateway :: "env \<Rightarrow> string \<Rightarrow> (vaultError + string) io" where
  "fetchEvidenceBytesFromPublicGateway E cid = do {
     let g = ipfsGatewayBase E;
     let base = (if endsWith g ''/'' then butlast g else g);
     n \<leftarrow> tick;
     ret (case fetch E n (base @ ''/'' @ cid) JUndef of
            FetchThrew _ \<Rightarrow> Inl GatewayFailed
          | FetchResp st bytes pl \<Rightarrow>
              if \<not> fetched_ok (FetchResp st bytes pl) then Inl (GatewayHttp st) else Inr bytes) }"

section \<open>Upload\<close>

record UploadedFile =
  uf_buffer :: string
  uf_originalname :: string
  uf_mimetype :: string

text \<open>What multer hands over: the file or none, or an error.\<close>

datatype multerOutcome = MulterFile "UploadedFile option" | LimitFileSize | MulterError

record evidenceUploadForm =
  fo_contractId :: string
  fo_disputeId :: "string option"
  fo_category :: "EvidenceCategory option"
  fo_uploaderId :: "string option"
  fo_retentionDays :: "int option"

definition evidenceUploadFormSchema :: "evidenceUploadForm \<Rightarrow> bool" where
  "evidenceUploadFormSchema b = (fo_contractId b \<noteq> '''' \<and> optionally (\<lambda>s. s \<noteq> '''') (fo_disputeId b) \<and>
     optionally (\<lambda>s. s \<noteq> '''') (fo_uploaderId b) \<and> optionally (\<lambda>d. 0 < d) (fo_retentionDays b))"

record evidenceUploaded =
  er_evidenceId :: string
  er_cid :: string
  er_sha256 :: string
  er_version :: nat
  er_createdAt :: string
  er_encryptionScheme :: "string option"
  er_retainUntil :: "string option"
  er_retentionClass :: EvidenceRetentionClass

fun provider_str :: "StorageProvider \<Rightarrow> string" where
  "provider_str MockStorage = ''mock''"
| "provider_str Pinata = ''pinata''"

definition uploaderOf :: "evidenceUploadForm \<Rightarrow> string" where
  "uploaderOf b = (let u = trim (getOr '''' (fo_uploaderId b)) in if u = '''' then ''operator_local'' else u)"

text \<open>The payload of the upload: the bytes themselves, or the envelope under the data key.\<close>

definition sealPayload :: "env \<Rightarrow> string \<Rightarrow> (vaultError + string \<times> string option) io" where
  "sealPayload E plaintext = do {
     resolved \<leftarrow> resolveEvidenceDataKey E;
     (case resolved of
        Inl e \<Rightarrow> ret (Inl e)
      | Inr None \<Rightarrow> ret (Inr (plaintext, None))
      | Inr (Some (key, source)) \<Rightarrow> do {
         payload \<leftarrow> encryptEvidenceBuffer E plaintext key;
         ret (Inr (payload, Some source)) }) }"

definition retainUntilOf :: "env \<Rightarrow> int option \<Rightarrow> string option io" where
  "retainUntilOf E retentionDays =
    (case retentionDays of
       None \<Rightarrow> ret None
     | Some d \<Rightarrow> do {
        t \<leftarrow> dateNow E;
        ret (Some (toISOString (t + min d (int (maxRetentionDays E)) * 86400000))) })"

definition newEvidence :: "evidenceUploadForm \<Rightarrow> UploadedFile \<Rightarrow> string \<Rightarrow> string \<Rightarrow> string \<Rightarrow> string option \<Rightarrow>
    nat \<Rightarrow> string \<Rightarrow> string option \<Rightarrow> StorageProvider \<Rightarrow> EvidenceFile" where
  "newEvidence b file evidenceId cid hash scheme version createdAt retainUntil provider = \<lparr>
     ev_id = evidenceId, ev_contractId = fo_contractId b, ev_disputeId = fo_disputeId b,
     ev_uploaderId = uploaderOf b, ev_category = getOr OtherCategory (fo_category b), ev_cid = cid,
     ev_sha256 = hash, ev_mimeType = orOctet (uf_mimetype file), ev_sizeBytes = length (uf_buffer file),
     ev_version = version, ev_isEncrypted = (scheme \<noteq> None), ev_encryptionScheme = scheme,
     ev_retainUntil = retainUntil, ev_retentionClass = Standard, ev_jurisdiction = None,
     ev_legalHoldUntil = None, ev_storageProvider = provider, ev_createdAt = createdAt,
     ev_localContentHashSeed = hash \<rparr>"

definition evidenceAuditAfter :: "env \<Rightarrow> EvidenceFile \<Rightarrow> string option \<Rightarrow> payload" where
  "evidenceAuditAfter E e dekSource =
     [(''cid'', JStr (ev_cid e)), (''version'', JNum (int (ev_version e))), (''contractId'', JStr (ev_contractId e)),
      (''disputeId'', jopt (ev_disputeId e)), (''category'', JStr (category_str (ev_category e))),
      (''provider'', JStr (provider_str (ev_storageProvider e))),
      (''encryptionScheme'', joptn (ev_encryptionScheme e)), (''retainUntil'', joptn (ev_retainUntil e))] @
     (if kmsKeyRef E = '''' then [] else [(''kmsKeyRef'', JStr (kmsKeyRef E))]) @
     (case dekSource of None \<Rightarrow> [] | Some s \<Rightarrow> [(''dekSource'', JStr s)])"

text \<open>What follows a successful upload to IPFS.\<close>

definition recordEvidence :: "env \<Rightarrow> evidenceUploadForm \<Rightarrow> UploadedFile \<Rightarrow> string option \<Rightarrow> string \<Rightarrow> StorageProvider \<Rightarrow>
    evidenceUploaded handler" where
  "recordEvidence E b file dekSource upCid provider = do {
     let hash = sha256Hex E (uf_buffer file);
     let cid = (if upCid = '''' then generateCidFromHash hash else upCid);
     evidenceId \<leftarrow> randomId E ''evd'';
     n \<leftarrow> countEvidenceVersions (fo_contractId b) (fo_disputeId b) (getOr OtherCategory (fo_category b));
     createdAt \<leftarrow> nowIso E;
     retainUntil \<leftarrow> retainUntilOf E (fo_retentionDays b);
     let e = newEvidence b file evidenceId cid hash (map_option (\<lambda>_. EVIDENCE_ENCRYPTION_SCHEME) dekSource)
       (n + 1) createdAt retainUntil provider;
     saveEvidence e;
     writeAudit E (audit ''evidence'' evidenceId ''evidence.uploaded'' (uploaderOf b) None
       (Some (evidenceAuditAfter E e dekSource)) None);
     emitEvent E ''evidence.uploaded'' ''evidence'' evidenceId
       [(''contractId'', JStr (ev_contractId e)), (''disputeId'', jopt (ev_disputeId e)),
        (''cid'', JStr cid), (''version'', JNum (int (ev_version e)))];
     ret (HttpOk 201 \<lparr> er_evidenceId = evidenceId, er_cid = cid, er_sha256 = hash,
       er_version = ev_version e, er_createdAt = createdAt, er_encryptionScheme = ev_encryptionScheme e,
       er_retainUntil = retainUntil, er_retentionClass = ev_retentionClass e \<rparr>) }"

text \<open>What follows the checks of the upload.\<close>

definition storeEvidence :: "env \<Rightarrow> evidenceUploadForm \<Rightarrow> UploadedFile \<Rightarrow> evidenceUploaded handler" where
  "storeEvidence E b file = do {
     sealed \<leftarrow> sealPayload E (uf_buffer file);
     (case sealed of
        Inl _ \<Rightarrow> ret (HttpErr 500 ''B2_CONFIG_ERROR'')
      | Inr (payload, dekSource) \<Rightarrow> do {
         up \<leftarrow> upload E \<lparr> ui_buffer = payload,
           ui_fileName = (if uf_originalname file = '''' then ''evidence.bin'' else uf_originalname file),
           ui_mimeType = orOctet (uf_mimetype file), ui_sha256 = sha256Hex E (uf_buffer file) \<rparr>;
         (case up of
            Inl _ \<Rightarrow> ret (HttpErr 502 ''B2_IPFS_UPLOAD_FAILED'')
          | Inr (upCid, provider) \<Rightarrow> recordEvidence E b file dekSource upCid provider) }) }"

definition disputeOnContract :: "string option \<Rightarrow> string \<Rightarrow> bool io" where
  "disputeOnContract disputeId contractId =
    (case disputeId of
       None \<Rightarrow> ret True
     | Some i \<Rightarrow> do {
        d \<leftarrow> getDispute i;
        ret (case d of None \<Rightarrow> False | Some d \<Rightarrow> ds_contractId d = contractId) })"

definition handlePostEvidence :: "env \<Rightarrow> UploadedFile option \<Rightarrow> evidenceUploadForm option \<Rightarrow> BluesafeAuth option \<Rightarrow>
    evidenceUploaded handler" where
  "handlePostEvidence E file body auth =
    (case file of
       None \<Rightarrow> ret (HttpErr 400 ''B2_VALIDATION_ERROR'')
     | Some file \<Rightarrow>
    (case safeParse evidenceUploadFormSchema body of
       None \<Rightarrow> ret (HttpErr 400 ''B2_VALIDATION_ERROR'')
     | Some b \<Rightarrow>
       if (case fo_retentionDays b of None \<Rightarrow> False | Some d \<Rightarrow> int (maxRetentionDays E) < d)
       then ret (HttpErr 400 ''B2_VALIDATION_ERROR'')
       else do {
        contract \<leftarrow> getContract (fo_contractId b);
        (case contract of
           None \<Rightarrow> ret (HttpErr 404 ''B2_NOT_FOUND'')
         | Some c \<Rightarrow>
           if \<not> canAccessContract E auth c then ret (HttpErr 403 ''B2_FORBIDDEN'')
           else do {
            onContract \<leftarrow> disputeOnContract (fo_disputeId b) (fo_contractId b);
            if \<not> onContract then ret (HttpErr 400 ''B2_VALIDATION_ERROR'')
            else if \<not> assertMimeAllowedForEvidenceCategory (orOctet (uf_mimetype file))
              (getOr OtherCategory (fo_category b))
            then ret (HttpErr 400 ''B2_EVIDENCE_MIME_NOT_ALLOWED'')
            else storeEvidence E b file }) }))"

definition postEvidence :: "env \<Rightarrow> request \<Rightarrow> multerOutcome \<Rightarrow> evidenceUploadForm option \<Rightarrow>
    evidenceUploaded handler" where
  "postEvidence E req multer body = v1 E req anyRole [] (\<lambda>auth.
     case multer of
       LimitFileSize \<Rightarrow> ret (HttpErr 413 ''B2_EVIDENCE_TOO_LARGE'')
     | MulterError \<Rightarrow> ret (HttpErr 500 ''B2_INTERNAL_ERROR'')
     | MulterFile file \<Rightarrow> handlePostEvidence E file body auth)"

section \<open>Reading routes\<close>

record verifyBody =
  ve_cid :: string
  ve_expectedSha256 :: string

definition verifyEvidenceSchema :: "verifyBody \<Rightarrow> bool" where
  "verifyEvidenceSchema b = (8 \<le> length (ve_cid b) \<and> 32 \<le> length (ve_expectedSha256 b))"

definition verifyEvidenceH :: "env \<Rightarrow> verifyBody option \<Rightarrow> BluesafeAuth option \<Rightarrow>
    (bool \<times> string \<times> string) handler" where
  "verifyEvidenceH E body auth =
    (case safeParse verifyEvidenceSchema body of
       None \<Rightarrow> ret (HttpErr 400 ''B2_VALIDATION_ERROR'')
     | Some b \<Rightarrow> do {
        evidence \<leftarrow> findEvidenceByCid (ve_cid b);
        (case evidence of
           None \<Rightarrow> ret (HttpErr 404 ''B2_NOT_FOUND'')
         | Some e \<Rightarrow> do {
            contract \<leftarrow> getContract (ev_contractId e);
            if \<not> (case contract of None \<Rightarrow> False | Some c \<Rightarrow> canAccessContract E auth c)
            then ret (HttpErr 403 ''B2_FORBIDDEN'')
            else do {
              let verified = (ev_sha256 e = ve_expectedSha256 b);
              writeAudit E (audit ''evidence'' (ev_id e) ''evidence.verified'' ''system'' None None
                (Some [(''verified'', JBool verified)]));
              ret (HttpOk 200 (verified, ve_cid b, ev_sha256 e)) } }) })"

definition verifyEvidence :: "env \<Rightarrow> request \<Rightarrow> verifyBody option \<Rightarrow> (bool \<times> string \<times> string) handler" where
  "verifyEvidence E req body = v1 E req anyRole [] (verifyEvidenceH E body)"

text \<open>The answer leaves \<open>localContentHashSeed\<close> out.\<close>

definition withoutSeed :: "EvidenceFile \<Rightarrow> EvidenceFile" where
  "withoutSeed e = e\<lparr>ev_localContentHashSeed := ''''\<rparr>"

text \<open>Lookup and access check that the routes on one evidence share.\<close>

definition withEvidence :: "env \<Rightarrow> string \<Rightarrow> BluesafeAuth option \<Rightarrow> (EvidenceFile \<Rightarrow> 'a handler) \<Rightarrow> 'a handler" where
  "withEvidence E evidenceId auth k = do {
     evidence \<leftarrow> getEvidence evidenceId;
     (case evidence of
        None \<Rightarrow> ret (HttpErr 404 ''B2_NOT_FOUND'')
      | Some e \<Rightarrow> do {
         contract \<leftarrow> getContract (ev_contractId e);
         if \<not> (case contract of None \<Rightarrow> False | Some c \<Rightarrow> canAccessContract E auth c)
         then ret (HttpErr 403 ''B2_FORBIDDEN'')
         else k e }) }"

definition getEvidenceH :: "env \<Rightarrow> string \<Rightarrow> BluesafeAuth option \<Rightarrow> EvidenceFile handler" where
  "getEvidenceH E evidenceId auth = withEvidence E evidenceId auth (\<lambda>e. do {
     writeAudit E (audit ''evidence'' (ev_id e) ''evidence.read'' ''operator_local'' None None None);
     ret (HttpOk 200 (withoutSeed e)) })"

definition getEvidenceRoute :: "env \<Rightarrow> request \<Rightarrow> string \<Rightarrow> EvidenceFile handler" where
  "getEvidenceRoute E req evidenceId = v1 E req anyRole [] (getEvidenceH E evidenceId)"

definition fetchEvidence :: "env \<Rightarrow> EvidenceFile \<Rightarrow> (vaultError + string) io" where
  "fetchEvidence E e =
    (if ev_storageProvider e = MockStorage
     then ret (Inr (''mock-evidence:'' @ ev_id e @ '':'' @ take 48 (ev_sha256 e)))
     else fetchEvidenceBytesFromPublicGateway E (ev_cid e))"

text \<open>Decryption of the downloaded bytes, with the error answer of the route.\<close>

definition openContent :: "env \<Rightarrow> EvidenceFile \<Rightarrow> string \<Rightarrow> string handler" where
  "openContent E e body =
    (if ev_encryptionScheme e \<noteq> Some ''aes-256-gcm-v1'' then ret (HttpOk 200 body)
     else do {
       resolved \<leftarrow> resolveEvidenceDataKey E;
       ret (case resolved of
          Inl _ \<Rightarrow> HttpErr 500 ''B2_CONFIG_ERROR''
        | Inr None \<Rightarrow> HttpErr 500 ''B2_CONFIG_ERROR''
        | Inr (Some (key, _)) \<Rightarrow>
           (case decryptEvidenceBuffer E body key of
              Inl _ \<Rightarrow> HttpErr 502 ''B2_EVIDENCE_DECRYPT_FAILED''
            | Inr plain \<Rightarrow> HttpOk 200 plain)) })"

text \<open>The answer is the content type and the bytes.\<close>

definition getEvidenceContentH :: "env \<Rightarrow> string \<Rightarrow> BluesafeAuth option \<Rightarrow> (string \<times> string) handler" where
  "getEvidenceContentH E evidenceId auth = withEvidence E evidenceId auth (\<lambda>e. do {
     fetched \<leftarrow> fetchEvidence E e;
     (case fetched of
        Inl _ \<Rightarrow> ret (HttpErr 502 ''B2_EVIDENCE_FETCH_FAILED'')
      | Inr bytes \<Rightarrow> do {
         opened \<leftarrow> openContent E e bytes;
         (case opened of
            HttpErr st c \<Rightarrow> ret (HttpErr st c)
          | HttpOk _ body \<Rightarrow>
             if ev_storageProvider e \<noteq> MockStorage \<and> sha256Hex E body \<noteq> ev_sha256 e
             then ret (HttpErr 502 ''B2_EVIDENCE_INTEGRITY'')
             else do {
               writeAudit E (audit ''evidence'' (ev_id e) ''evidence.content_downloaded''
                 (getOr ''operator_local'' (map_option (\<lambda>a. role_str (ba_role a)) auth)) None None
                 (Some [(''storageProvider'', JStr (provider_str (ev_storageProvider e)))]));
               ret (HttpOk 200 (orOctet (ev_mimeType e), body)) }) }) })"

definition getEvidenceContent :: "env \<Rightarrow> request \<Rightarrow> string \<Rightarrow> (string \<times> string) handler" where
  "getEvidenceContent E req evidenceId = v1 E req anyRole [] (getEvidenceContentH E evidenceId)"

section \<open>Metadata and retention\<close>

text \<open>A field of the patch is absent (\<open>None\<close>), \<open>null\<close> (\<open>Some None\<close>) or a value.\<close>

record evidenceMetadataPatch =
  mp_retentionClass :: "EvidenceRetentionClass option"
  mp_jurisdiction :: "string option option"
  mp_legalHoldUntil :: "string option option"
  mp_retainUntil :: "string option option"

definition evidenceMetadataPatchSchema :: "evidenceMetadataPatch \<Rightarrow> bool" where
  "evidenceMetadataPatchSchema b =
    (optionally (optionally (\<lambda>s. 1 \<le> length s \<and> length s \<le> 128)) (mp_jurisdiction b) \<and>
     optionally (optionally (\<lambda>s. 8 \<le> length s)) (mp_legalHoldUntil b) \<and>
     optionally (optionally (\<lambda>s. 8 \<le> length s)) (mp_retainUntil b))"

text \<open>A patched timestamp: the old one, none, or the parsed new one; \<open>None\<close> where parsing throws.\<close>

definition patchIso :: "env \<Rightarrow> string option option \<Rightarrow> string option \<Rightarrow> string option option" where
  "patchIso E new old =
    (case new of None \<Rightarrow> Some old | Some None \<Rightarrow> Some None | Some (Some v) \<Rightarrow> parseOptionalIso E (Some v))"

definition patchedEvidence :: "env \<Rightarrow> evidenceMetadataPatch \<Rightarrow> EvidenceFile \<Rightarrow> EvidenceFile option" where
  "patchedEvidence E b e =
    (case patchIso E (mp_legalHoldUntil b) (ev_legalHoldUntil e) of
       None \<Rightarrow> None
     | Some hold \<Rightarrow>
        (case patchIso E (mp_retainUntil b) (ev_retainUntil e) of
           None \<Rightarrow> None
         | Some until \<Rightarrow> Some (e\<lparr>ev_retentionClass := getOr (ev_retentionClass e) (mp_retentionClass b),
             ev_jurisdiction := getOr (ev_jurisdiction e) (mp_jurisdiction b),
             ev_legalHoldUntil := hold, ev_retainUntil := until\<rparr>)))"

definition retentionFields :: "EvidenceFile \<Rightarrow> payload" where
  "retentionFields e = [(''retentionClass'', JStr (retentionClass_str (ev_retentionClass e))),
     (''jurisdiction'', joptn (ev_jurisdiction e)), (''legalHoldUntil'', joptn (ev_legalHoldUntil e)),
     (''retainUntil'', joptn (ev_retainUntil e))]"

definition patchEvidenceMetadataH :: "env \<Rightarrow> string \<Rightarrow> evidenceMetadataPatch option \<Rightarrow> BluesafeAuth option \<Rightarrow>
    EvidenceFile handler" where
  "patchEvidenceMetadataH E evidenceId body auth =
    (case safeParse evidenceMetadataPatchSchema body of
       None \<Rightarrow> ret (HttpErr 400 ''B2_VALIDATION_ERROR'')
     | Some b \<Rightarrow> withEvidence E evidenceId auth (\<lambda>evidence.
        case patchedEvidence E b evidence of
          None \<Rightarrow> ret (HttpErr 400 ''B2_VALIDATION_ERROR'')
        | Some nxt \<Rightarrow> do {
           saveEvidence nxt;
           writeAudit E (audit ''evidence'' evidenceId ''evidence.metadata_updated'' (actorRole auth)
             (Some (retentionFields evidence)) (Some (retentionFields nxt)) None);
           emitEvent E ''evidence.metadata_updated'' ''evidence'' evidenceId
             [(''contractId'', JStr (ev_contractId nxt))];
           ret (HttpOk 200 (withoutSeed nxt)) }))"

definition patchEvidenceMetadata ::
  "env \<Rightarrow> request \<Rightarrow> string \<Rightarrow> evidenceMetadataPatch option \<Rightarrow> EvidenceFile handler" where
  "patchEvidenceMetadata E req evidenceId body =
     v1 E req [Operator] [ScEvidence] (patchEvidenceMetadataH E evidenceId body)"

definition purgeEvidence :: "env \<Rightarrow> BluesafeAuth option \<Rightarrow> EvidenceFile \<Rightarrow> string io" where
  "purgeEvidence E auth ev = do {
     unpinIfPinata E (ev_cid ev) (ev_storageProvider ev);
     deleteEvidence (ev_id ev);
     writeAudit E (audit ''evidence'' (ev_id ev) ''evidence.retention_purged'' (actorRole auth) None None
       (Some [(''retainUntil'', jopt (ev_retainUntil ev)), (''contractId'', JStr (ev_contractId ev)),
         (''retentionClass'', JStr (retentionClass_str (ev_retentionClass ev))),
         (''legalHoldUntil'', joptn (ev_legalHoldUntil ev))]));
     emitEvent E ''evidence.retention_purged'' ''evidence'' (ev_id ev)
       [(''contractId'', JStr (ev_contractId ev))];
     ret (ev_id ev) }"

definition retentionRunH :: "env \<Rightarrow> BluesafeAuth option \<Rightarrow> (nat \<times> nat \<times> string list) handler" where
  "retentionRunH E auth = do {
     now \<leftarrow> nowIso E;
     past \<leftarrow> listEvidencesPastRetention now;
     purged \<leftarrow> for_collect past (purgeEvidence E auth);
     ret (HttpOk 200 (length past, length purged, purged)) }"

definition retentionRun :: "env \<Rightarrow> request \<Rightarrow> (nat \<times> nat \<times> string list) handler" where
  "retentionRun E req = v1 E req [Operator] [ScPurge] (retentionRunH E)"

record retentionDueItem =
  rd_id :: string
  rd_contractId :: string
  rd_disputeId :: "string option"
  rd_retainUntil :: "string option"
  rd_retentionClass :: EvidenceRetentionClass
  rd_jurisdiction :: "string option"
  rd_legalHoldUntil :: "string option"
  rd_category :: EvidenceCategory
  rd_createdAt :: string

definition retentionDue :: "env \<Rightarrow> request \<Rightarrow> (nat \<times> retentionDueItem list) handler" where
  "retentionDue E req = v1 E req [Operator, Verifier, Auditor] [] (\<lambda>auth. do {
     now \<leftarrow> nowIso E;
     past \<leftarrow> listEvidencesPastRetention now;
     ret (HttpOk 200 (length past, map (\<lambda>e. \<lparr> rd_id = ev_id e, rd_contractId = ev_contractId e,
       rd_disputeId = ev_disputeId e, rd_retainUntil = ev_retainUntil e, rd_retentionClass = ev_retentionClass e,
       rd_jurisdiction = ev_jurisdiction e, rd_legalHoldUntil = ev_legalHoldUntil e,
       rd_category = ev_category e, rd_createdAt = ev_createdAt e \<rparr>) past)) })"

section \<open>Frames\<close>

lemmas vault_defs = resolveEvidenceDataKey_def unwrapDek_def recordEvidenceDekResolution_def
  encryptEvidenceBuffer_def pinOnce_def uploadViaPinata_def upload_def unpinIfPinata_def
  fetchEvidenceBytesFromPublicGateway_def sealPayload_def retainUntilOf_def disputeOnContract_def
  fetchEvidence_def openContent_def

lemmas evidence_defs = postEvidence_def handlePostEvidence_def storeEvidence_def recordEvidence_def
  verifyEvidence_def verifyEvidenceH_def getEvidenceRoute_def getEvidenceH_def getEvidenceContent_def
  getEvidenceContentH_def patchEvidenceMetadata_def patchEvidenceMetadataH_def withEvidence_def
  retentionRun_def retentionRunH_def purgeEvidence_def

lemmas evidence_splits = option.splits sum.splits prod.splits http.splits multerOutcome.splits
  fetched.splits json.splits

text \<open>The vault services write counters and ticks only.\<close>

lemma vault_steps:
  assumes R: "step_rel R" and u: "steps R tick" "\<And>E. steps R (dateNow E)" "\<And>n k. steps R (bump n k)"
    and g: "\<And>i. steps R (getDispute i)"
  shows "steps R (sealPayload E s)" "steps R (upload E inp)" "steps R (unpinIfPinata E c p)"
    "steps R (retainUntilOf E d)" "steps R (disputeOnContract di ci)" "steps R (fetchEvidence E e)"
    "steps R (openContent E e b)"
proof -
  note io = step_rel.io [OF R]
  have pin: "steps R (pinAttempts E inp n err)" for n err
    by (induction n arbitrary: err) (auto intro!: io u simp: pinOnce_def split: sum.splits)
  show "steps R (sealPayload E s)" "steps R (upload E inp)" "steps R (unpinIfPinata E c p)"
    "steps R (retainUntilOf E d)" "steps R (disputeOnContract di ci)" "steps R (fetchEvidence E e)"
    "steps R (openContent E e b)"
    unfolding vault_defs Let_def by (auto intro!: io u g pin split: evidence_splits)
qed

lemmas tle_vault [tle_intros] = vault_steps [OF tle.step_rel_axioms]

lemma tle_evidence [tle_intros]:
  "steps ticks_le (postEvidence E req mu fo)" "steps ticks_le (verifyEvidence E req vb)"
  "steps ticks_le (getEvidenceRoute E req i)" "steps ticks_le (getEvidenceContent E req i)"
  "steps ticks_le (patchEvidenceMetadata E req i mp)" "steps ticks_le (retentionRun E req)"
  unfolding evidence_defs Let_def by (auto intro!: tle_intros split: evidence_splits)

lemmas core_vault [core_intros] = vault_steps [OF frame.step_rel_axioms]

lemma core_evidence_reads [core_intros]:
  assumes "core_obs f"
  shows "keeps f (verifyEvidence E req vb)" "keeps f (getEvidenceRoute E req i)"
    "keeps f (getEvidenceContent E req i)"
  unfolding evidence_defs Let_def by (auto intro!: core_intros assms split: evidence_splits)

lemma core_evidence [core_intros]:
  assumes "core_obs f" "\<And>w g. f (evidences_update g w) = f w"
  shows "keeps f (postEvidence E req mu fo)" "keeps f (patchEvidenceMetadata E req i mp)"
    "keeps f (retentionRun E req)"
  unfolding evidence_defs Let_def by (auto intro!: core_intros assms split: evidence_splits)

lemma notify_evidence_writes [notify_intros]:
  "steps (notify_rel E) (saveEvidence e)" "steps (notify_rel E) (deleteEvidence i)"
  unfolding saveEvidence_def deleteEvidence_def by (rule notify_modify, simp)+

lemmas notify_vault [notify_intros] = vault_steps [OF nrel.step_rel_axioms]

lemma notify_evidence [notify_intros]:
  assumes "env_ok E"
  shows "steps (notify_rel E) (postEvidence E req mu fo)" "steps (notify_rel E) (verifyEvidence E req vb)"
    "steps (notify_rel E) (getEvidenceRoute E req i)" "steps (notify_rel E) (getEvidenceContent E req i)"
    "steps (notify_rel E) (patchEvidenceMetadata E req i mp)" "steps (notify_rel E) (retentionRun E req)"
  unfolding evidence_defs Let_def by (auto intro!: notify_intros assms split: evidence_splits)

section \<open>Life of an evidence\<close>

text \<open>
  Later versions of an evidence differ in the retention metadata only. Unlike the other objects an
  evidence can be deleted; its identifier is never used again.
\<close>

definition ev_step :: "EvidenceFile \<Rightarrow> EvidenceFile \<Rightarrow> bool" where
  "ev_step e e' = (e' = e\<lparr>ev_retentionClass := ev_retentionClass e', ev_jurisdiction := ev_jurisdiction e',
     ev_legalHoldUntil := ev_legalHoldUntil e', ev_retainUntil := ev_retainUntil e'\<rparr>)"

lemma ev_step_refl [simp]: "ev_step e e"
  by (simp add: ev_step_def)

lemma ev_step_trans: "ev_step a b \<Longrightarrow> ev_step b c \<Longrightarrow> ev_step a c"
  by (cases a; cases b; cases c) (simp add: ev_step_def)

definition ev_ok :: "env \<Rightarrow> world \<Rightarrow> bool" where
  "ev_ok E w = (jm_ok (evidences w) \<and>
     (\<forall>k e. jm_get (evidences w) k = Some e \<longrightarrow> ev_id e = k \<and> minted E ''evd'' w k))"

definition ev_rel :: "env \<Rightarrow> world \<Rightarrow> world \<Rightarrow> bool" where
  "ev_rel E w w' = (ticks w \<le> ticks w' \<and> (ev_ok E w \<longrightarrow> ev_ok E w' \<and>
     (\<forall>k e'. jm_get (evidences w') k = Some e' \<longrightarrow>
        (case jm_get (evidences w) k of None \<Rightarrow> \<not> minted E ''evd'' w k | Some e \<Rightarrow> ev_step e e'))))"

lemma ev_rel_trans:
  assumes "ev_rel E w w'" "ev_rel E w' w''"
  shows "ev_rel E w w''"
proof -
  have t: "ticks w \<le> ticks w'" "ticks w' \<le> ticks w''" using assms by (simp_all add: ev_rel_def)
  have "case jm_get (evidences w) k of None \<Rightarrow> \<not> minted E ''evd'' w k | Some e \<Rightarrow> ev_step e e''"
    if ok: "ev_ok E w" and k: "jm_get (evidences w'') k = Some e''" for k e''
  proof (cases "jm_get (evidences w') k")
    case None
    with assms ok k have n: "\<not> minted E ''evd'' w' k" by (force simp: ev_rel_def)
    then have "\<not> minted E ''evd'' w k" using minted_mono t(1) by blast
    with ok show ?thesis by (auto simp: ev_ok_def split: option.splits)
  next
    case (Some e')
    with assms ok k have "ev_step e' e''" by (force simp: ev_rel_def)
    moreover have "case jm_get (evidences w) k of None \<Rightarrow> \<not> minted E ''evd'' w k | Some e \<Rightarrow> ev_step e e'"
      using assms ok Some by (simp add: ev_rel_def)
    ultimately show ?thesis by (auto intro: ev_step_trans split: option.splits)
  qed
  with assms t show ?thesis by (auto simp: ev_rel_def)
qed

interpretation evrel: step_rel "ev_rel E" for E
proof
  show "ev_rel E w w" for w by (auto simp: ev_rel_def ev_ok_def split: option.splits)
qed (rule ev_rel_trans)

lemma ev_rel_same: "evidences w' = evidences w \<Longrightarrow> ticks w \<le> ticks w' \<Longrightarrow> ev_rel E w w'"
  by (auto simp: ev_rel_def ev_ok_def intro: minted_mono split: option.splits)

lemma ev_core: "keeps evidences m \<Longrightarrow> steps ticks_le m \<Longrightarrow> steps (ev_rel E) m"
  by (auto simp: steps_def same_def ticks_le_def intro: ev_rel_same)

lemma ev_rel_update:
  assumes "evidences w' = jm_set (evidences w) (ev_id e) e'" "jm_get (evidences w) i = Some e"
    "ev_step e e'" "ticks w \<le> ticks w'"
  shows "ev_rel E w w'"
proof -
  have "ev_id e' = ev_id e" using assms(3) by (cases e; cases e') (simp add: ev_step_def)
  then show ?thesis using assms by (auto simp: ev_rel_def ev_ok_def intro: minted_mono split: option.splits)
qed

lemma ev_rel_new:
  assumes "inj (uuid16 E)" "evidences w' = jm_set (evidences w) (ev_id e) e"
    "ev_id e = ''evd'' @ ''_'' @ uuid16 E n" "ticks w \<le> n" "n < ticks w'"
  shows "ev_rel E w w'"
proof -
  have "\<not> minted E ''evd'' w (ev_id e)" "minted E ''evd'' w' (ev_id e)"
    using minted_fresh [OF assms(1,4), of "''evd''"] minted_new [OF assms(5), of E "''evd''"]
    by (simp_all add: assms(3))
  moreover have "ticks w \<le> ticks w'" using assms(4,5) by simp
  ultimately show ?thesis
    using assms(2) by (auto simp: ev_rel_def ev_ok_def intro: minted_mono split: option.splits)
qed

lemma ev_rel_delete: "steps (ev_rel E) (deleteEvidence i)"
  by (auto simp: steps_def deleteEvidence_def ev_rel_def ev_ok_def minted_def split: option.splits if_splits)

lemma ev_reads:
  "steps (ev_rel E) (getContract i)" "steps (ev_rel E) (getDispute i)"
  "steps (ev_rel E) tick" "steps (ev_rel E) (dateNow E')" "steps (ev_rel E) (nowIso E')" "steps (ev_rel E) (bump n k)"
  "steps (ev_rel E) (writeAudit E' a)" "steps (ev_rel E) (emitEvent E' b c d e)"
  "steps (ev_rel E) (listEvidencesPastRetention now)"
  by (rule ev_core; auto intro!: core_intros tle_intros)+

lemmas ev_intros = evrel.io ev_reads ev_rel_delete vault_steps [OF evrel.step_rel_axioms]

lemma ev_recordEvidence:
  assumes "env_ok E"
  shows "steps (ev_rel E) (recordEvidence E b file ds c p)"
proof (rule stepsI)
  fix w
  let ?w' = "exec (recordEvidence E b file ds c p) w"
  obtain e where "evidences ?w' = jm_set (evidences w) (ev_id e) e"
    "ev_id e = ''evd'' @ ''_'' @ uuid16 E (ticks w)" "ticks w < ticks ?w'"
    by (cases "fo_retentionDays b")
      (force simp: recordEvidence_def run_simps countEvidenceVersions_def retainUntilOf_def saveEvidence_def
        newEvidence_def writeAudit_def appendAudit_def emitEvent_def appendEvent_def Let_def)+
  then show "ev_rel E w ?w'" by (intro ev_rel_new [OF env_okD(1) [OF assms]]) auto
qed

lemma ev_v1: "(\<And>auth. steps (ev_rel E) (h auth)) \<Longrightarrow> steps (ev_rel E) (v1 E' req roles scopes h)"
  by (rule steps_v1) (auto intro: evrel.refl)

lemma ev_patchEvidenceMetadataH: "steps (ev_rel E) (patchEvidenceMetadataH E i body auth)"
proof (rule stepsI)
  fix w
  let ?w' = "exec (patchEvidenceMetadataH E i body auth) w"
  have "?w' = w \<or> (\<exists>b e e'. jm_get (evidences w) i = Some e \<and> patchedEvidence E b e = Some e' \<and>
    evidences ?w' = jm_set (evidences w) (ev_id e) e')"
    by (auto simp: patchEvidenceMetadataH_def withEvidence_def run_simps getEvidence_def getContract_def
        saveEvidence_def patchedEvidence_def split: option.splits)
  moreover have "ev_step e e'" if "patchedEvidence E b e = Some e'" for b e e'
    using that by (auto simp: patchedEvidence_def ev_step_def split: option.splits)
  moreover have "ticks w \<le> ticks ?w'"
    unfolding patchEvidenceMetadataH_def withEvidence_def
    by (rule tleD) (auto intro!: tle_intros split: option.splits)
  ultimately show "ev_rel E w ?w'" by (auto intro: ev_rel_update evrel.refl)
qed

lemma ev_evidence_routes:
  assumes "env_ok E"
  shows "steps (ev_rel E) (postEvidence E req mu fo)" "steps (ev_rel E) (verifyEvidence E req vb)"
    "steps (ev_rel E) (getEvidenceRoute E req i)" "steps (ev_rel E) (getEvidenceContent E req i)"
    "steps (ev_rel E) (patchEvidenceMetadata E req i mp)" "steps (ev_rel E) (retentionRun E req)"
proof -
  show "steps (ev_rel E) (verifyEvidence E req vb)"
    "steps (ev_rel E) (getEvidenceRoute E req i)" "steps (ev_rel E) (getEvidenceContent E req i)"
    by (rule ev_core; auto intro!: core_intros tle_intros)+
  show "steps (ev_rel E) (postEvidence E req mu fo)"
    unfolding postEvidence_def handlePostEvidence_def storeEvidence_def
    by (auto intro!: ev_v1 ev_intros ev_recordEvidence assms split: evidence_splits)
  show "steps (ev_rel E) (patchEvidenceMetadata E req i mp)"
    unfolding patchEvidenceMetadata_def by (intro ev_v1 ev_patchEvidenceMetadataH)
  show "steps (ev_rel E) (retentionRun E req)"
    unfolding retentionRun_def retentionRunH_def purgeEvidence_def by (intro ev_v1 ev_intros)
qed

section \<open>Properties\<close>

lemma decrypt_encrypt:
  assumes "\<And>iv. length iv = 12 \<Longrightarrow> length (snd (aesGcmEncrypt E k iv p)) = 16 \<and>
      aesGcmDecrypt E k iv (fst (aesGcmEncrypt E k iv p)) (snd (aesGcmEncrypt E k iv p)) = Some p"
    and "\<And>n. length (randomBytes E n 12) = 12"
  shows "decryptEvidenceBuffer E (valu (encryptEvidenceBuffer E p k) w) k = Inr p"
proof -
  let ?iv = "randomBytes E (ticks w) 12"
  obtain c t where ct: "aesGcmEncrypt E k ?iv p = (c, t)" by force
  have len: "length ?iv = 12" "length t = 16" "aesGcmDecrypt E k ?iv c t = Some p"
    using assms(1) [of ?iv] assms(2) by (simp_all add: ct)
  then show ?thesis
    by (simp add: encryptEvidenceBuffer_def decryptEvidenceBuffer_def run_simps ct Let_def)
qed

lemma resolve_fixed:
  "trim (kmsHttpUnwrapUrl E) = '''' \<Longrightarrow> valu (resolveEvidenceDataKey E) w = valu (resolveEvidenceDataKey E) v"
  by (auto simp: resolveEvidenceDataKey_def run_simps Let_def split: sum.splits option.splits)


text \<open>Integrity of downloads. Bytes are served only to a caller who may access the contract of the
  evidence, and bytes that come from IPFS are served only if their SHA-256 digest is the stored one;
  a download never changes an evidence.\<close>

lemma evidence_content_integrity:
  assumes "valu (getEvidenceContentH E i auth) w = HttpOk st (mime, body)"
  shows "\<exists>e c. jm_get (evidences w) i = Some e \<and> jm_get (contracts w) (ev_contractId e) = Some c \<and>
    canAccessContract E auth c \<and> (ev_storageProvider e = Pinata \<longrightarrow> sha256Hex E body = ev_sha256 e) \<and>
    evidences (exec (getEvidenceContentH E i auth) w) = evidences w"
proof -
  have "keeps evidences (getEvidenceContentH E i auth)"
    unfolding getEvidenceContentH_def withEvidence_def
    by (auto intro!: core_intros split: evidence_splits)
  from keepsD [OF this, of w] assms show ?thesis
    by (auto simp: getEvidenceContentH_def withEvidence_def run_simps getEvidence_def getContract_def
        split: option.splits sum.splits http.splits if_splits)
qed

text \<open>The row of an upload.\<close>

lemma recordEvidence_row:
  fixes E b f ds c p v
  defines "e \<equiv> newEvidence b f (''evd_'' @ uuid16 E (ticks v))
      (if c = '''' then generateCidFromHash (sha256Hex E (uf_buffer f)) else c) (sha256Hex E (uf_buffer f))
      (map_option (\<lambda>_. EVIDENCE_ENCRYPTION_SCHEME) ds)
      (valu (countEvidenceVersions (fo_contractId b) (fo_disputeId b) (getOr OtherCategory (fo_category b))) v + 1)
      (toISOString (clockMs E (Suc (ticks v))))
      (map_option (\<lambda>d. toISOString (clockMs E (Suc (Suc (ticks v))) + min d (int (maxRetentionDays E)) * 86400000))
        (fo_retentionDays b)) p"
  shows "evidences (exec (recordEvidence E b f ds c p) v) = jm_set (evidences v) (ev_id e) e"
    and "\<exists>r. valu (recordEvidence E b f ds c p) v = HttpOk 201 r \<and> er_evidenceId r = ev_id e"
  by (cases "fo_retentionDays b"; simp add: e_def recordEvidence_def run_simps countEvidenceVersions_def
      retainUntilOf_def saveEvidence_def newEvidence_def writeAudit_def appendAudit_def emitEvent_def
      appendEvent_def Let_def)+

definition uploadedRow :: "env \<Rightarrow> world \<Rightarrow> evidenceUploadForm \<Rightarrow> UploadedFile \<Rightarrow> EvidenceFile \<Rightarrow> bool" where
  "uploadedRow E w b f e = (ev_contractId e = fo_contractId b \<and> ev_disputeId e = fo_disputeId b \<and>
     ev_category e = getOr OtherCategory (fo_category b) \<and> ev_sha256 e = sha256Hex E (uf_buffer f) \<and>
     ev_version e = length (filter (\<lambda>x. ev_contractId x = ev_contractId e \<and> ev_disputeId x = ev_disputeId e \<and>
       ev_category x = ev_category e) (jm_values (evidences w))) + 1 \<and>
     ev_retentionClass e = Standard \<and> ev_legalHoldUntil e = None)"

lemma storeEvidence_row:
  "case valu (storeEvidence E b f) w of
     HttpErr st code \<Rightarrow> evidences (exec (storeEvidence E b f) w) = evidences w
   | HttpOk st r \<Rightarrow> (\<exists>e. evidences (exec (storeEvidence E b f) w) = jm_set (evidences w) (ev_id e) e \<and>
       ev_id e = er_evidenceId r \<and> uploadedRow E w b f e)"
proof -
  have k: "evidences (exec (sealPayload E s) v) = evidences v" "evidences (exec (upload E inp) v) = evidences v" for s inp v
    by (rule keepsD, auto intro!: core_intros)+
  have u: "uploadedRow E w b f (newEvidence b f i cid (sha256Hex E (uf_buffer f)) s
      (valu (countEvidenceVersions (fo_contractId b) (fo_disputeId b) (getOr OtherCategory (fo_category b))) v + 1) t r p)"
    if "evidences v = evidences w" for i cid s t r p v
    using that by (simp add: uploadedRow_def newEvidence_def countEvidenceVersions_def)
  show ?thesis
  proof (cases "valu (sealPayload E (uf_buffer f)) w")
    case (Inl err)
    then show ?thesis by (simp add: storeEvidence_def k)
  next
    case (Inr sealed)
    obtain payload ds where "sealed = (payload, ds)" by force
    note seal = Inr [unfolded this]
    let ?v = "exec (sealPayload E (uf_buffer f)) w"
    let ?up = "upload E \<lparr> ui_buffer = payload,
      ui_fileName = (if uf_originalname f = '''' then ''evidence.bin'' else uf_originalname f),
      ui_mimeType = orOctet (uf_mimetype f), ui_sha256 = sha256Hex E (uf_buffer f) \<rparr>"
    show ?thesis
    proof (cases "valu ?up ?v")
      case (Inl err)
      with seal show ?thesis by (simp add: storeEvidence_def k)
    next
      case (Inr res)
      obtain c p where "res = (c, p)" by force
      with Inr seal have s: "exec (storeEvidence E b f) w = exec (recordEvidence E b f ds c p) (exec ?up ?v)"
        "valu (storeEvidence E b f) w = valu (recordEvidence E b f ds c p) (exec ?up ?v)"
        by (simp_all add: storeEvidence_def)
      have v: "evidences (exec ?up ?v) = evidences w" by (simp add: k)
      obtain r where r: "valu (recordEvidence E b f ds c p) (exec ?up ?v) = HttpOk 201 r"
        using recordEvidence_row(2) by blast
      show ?thesis
        unfolding s r http.case
        using recordEvidence_row [of E b f ds c p "exec ?up ?v"] u [OF v] v r by (auto intro!: exI)
    qed
  qed
qed

text \<open>C25: an upload, as its answer tells it. On an error the evidence table is as before. On success the
  form was well formed, the contract exists and the caller may access it, a named dispute is one of
  this contract, the MIME type is allowed for the category, and exactly one new row is stored: it
  belongs to the contract, carries the SHA-256 of the uploaded bytes, and its version is one more than
  the number of versions stored for the same contract, dispute and category.\<close>

theorem post_evidence:
  "let m = handlePostEvidence E file body auth; w' = exec m w in
   case valu m w of HttpErr st code \<Rightarrow> evidences w' = evidences w
   | HttpOk st r \<Rightarrow> (\<exists>f b c e. file = Some f \<and> body = Some b \<and> evidenceUploadFormSchema b \<and>
       jm_get (contracts w) (fo_contractId b) = Some c \<and> canAccessContract E auth c \<and>
       optionally (\<lambda>i. map_option ds_contractId (jm_get (disputes w) i) = Some (fo_contractId b)) (fo_disputeId b) \<and>
       assertMimeAllowedForEvidenceCategory (uf_mimetype f) (getOr OtherCategory (fo_category b)) \<and>
       evidences w' = jm_set (evidences w) (ev_id e) e \<and> ev_id e = er_evidenceId r \<and> uploadedRow E w b f e)"
proof -
  have orOctet: "assertMimeAllowedForEvidenceCategory (orOctet x) c = assertMimeAllowedForEvidenceCategory x c" for x c
    by (simp add: assertMimeAllowedForEvidenceCategory_def orOctet_def)
  let ?m = "handlePostEvidence E file body auth"
  note defs = handlePostEvidence_def disputeOnContract_def getContract_def getDispute_def run_simps orOctet
    optionally_def
  show ?thesis
  proof (cases "\<exists>f b c. file = Some f \<and> safeParse evidenceUploadFormSchema body = Some b \<and>
      jm_get (contracts w) (fo_contractId b) = Some c")
    case True
    then obtain f b c where x: "file = Some f" "safeParse evidenceUploadFormSchema body = Some b"
      "jm_get (contracts w) (fo_contractId b) = Some c" by blast
    let ?ok = "(case fo_retentionDays b of None \<Rightarrow> True | Some d \<Rightarrow> d \<le> int (maxRetentionDays E)) \<and>
      canAccessContract E auth c \<and>
      optionally (\<lambda>i. map_option ds_contractId (jm_get (disputes w) i) = Some (fo_contractId b)) (fo_disputeId b) \<and>
      assertMimeAllowedForEvidenceCategory (uf_mimetype f) (getOr OtherCategory (fo_category b))"
    show ?thesis
    proof (cases ?ok)
      case True
      with x have "exec ?m w = exec (storeEvidence E b f) w" "valu ?m w = valu (storeEvidence E b f) w"
        by (auto simp: defs simp del: safeParse_Some split: option.splits)
      with True x storeEvidence_row [of E b f w] show ?thesis by (auto split: http.splits)
    next
      case False
      with x have "exec ?m w = w \<and> (\<exists>st code. valu ?m w = HttpErr st code)"
        by (auto simp: defs not_less simp del: safeParse_Some split: option.splits if_splits)
      then show ?thesis by auto
    qed
  next
    case False
    then have "exec ?m w = w \<and> (\<exists>st code. valu ?m w = HttpErr st code)"
      by (auto simp: defs simp del: safeParse_Some split: option.splits if_splits)
    then show ?thesis by auto
  qed
qed

text \<open>The purge loop, row by row.\<close>

lemma purgeEvidence_run:
  "evidences (exec (purgeEvidence E auth e) w) = jm_delete (evidences w) (ev_id e)"
  "valu (purgeEvidence E auth e) w = ev_id e"
proof -
  have k: "evidences (exec (unpinIfPinata E c p) w) = evidences w" for c p
    by (rule keepsD) (auto intro!: core_intros)
  show "evidences (exec (purgeEvidence E auth e) w) = jm_delete (evidences w) (ev_id e)"
    "valu (purgeEvidence E auth e) w = ev_id e"
    by (simp_all add: purgeEvidence_def deleteEvidence_def run_simps k)
qed

lemma purge_all:
  "jm_get (evidences (exec (for_collect xs (purgeEvidence E auth)) w)) k =
     (if k \<in> ev_id ` set xs then None else jm_get (evidences w) k)"
  "valu (for_collect xs (purgeEvidence E auth)) w = map ev_id xs"
  by (induction xs arbitrary: w) (auto simp: purgeEvidence_run)

text \<open>C30: the retention run removes exactly the rows that are past their retention date and not on
  hold, reports their identifiers, and leaves every other row as it was; a row under legal hold
  without an end date is never removed, and no contract, dispute or decision changes.\<close>

theorem retention_run:
  assumes "ev_ok E w"
  shows "let w' = exec (retentionRunH E auth) w; now = toISOString (clockMs E (ticks w));
      due = filter (pastRetention now) (jm_values (evidences w)) in
    valu (retentionRunH E auth) w = HttpOk 200 (length due, length due, map ev_id due) \<and>
    (\<forall>k. jm_get (evidences w') k =
       (case jm_get (evidences w) k of None \<Rightarrow> None | Some e \<Rightarrow>
          if pastRetention now e then None else Some e)) \<and>
    (\<forall>k e. jm_get (evidences w) k = Some e \<and> ev_retentionClass e = LegalHold \<and> \<not> truthy (ev_legalHoldUntil e) \<longrightarrow>
       jm_get (evidences w') k = Some e) \<and>
    contracts w' = contracts w \<and> disputes w' = disputes w \<and> decisions w' = decisions w"
proof -
  let ?w' = "exec (retentionRunH E auth) w" and ?now = "toISOString (clockMs E (ticks w))"
  let ?due = "filter (pastRetention ?now) (jm_values (evidences w))"
  have keep: "keeps f (retentionRunH E auth)" if "core_obs f" "\<And>w g. f (evidences_update g w) = f w"
    for f :: "world \<Rightarrow> 'x"
    unfolding retentionRunH_def purgeEvidence_def by (auto intro!: core_intros that)
  have due: "k \<in> ev_id ` set ?due \<longleftrightarrow> (\<exists>e. jm_get (evidences w) k = Some e \<and> pastRetention ?now e)" for k
    using assms jm_values_get [of "evidences w"] by (fastforce simp: ev_ok_def image_iff)
  have get: "jm_get (evidences ?w') k = (case jm_get (evidences w) k of None \<Rightarrow> None | Some e \<Rightarrow>
      if pastRetention ?now e then None else Some e)" for k
    using due [of k] by (auto simp: retentionRunH_def listEvidencesPastRetention_def run_simps purge_all
        split: option.splits)
  have hold: "\<not> pastRetention ?now e" if "ev_retentionClass e = LegalHold" "\<not> truthy (ev_legalHoldUntil e)" for e
    using that by (simp add: pastRetention_def evidenceBlockedFromRetentionPurge_def)
  have v: "valu (retentionRunH E auth) w = HttpOk 200 (length ?due, length ?due, map ev_id ?due)"
    by (simp add: retentionRunH_def listEvidencesPastRetention_def run_simps purge_all)
  show ?thesis
    unfolding Let_def using get hold v by (simp add: keepsD [OF keep])
qed

text \<open>Retention in time. For an evidence uploaded at time \<open>t\<close> with \<open>d\<close> retention days, within the years
  1970 to 9999, the comparison of timestamps as strings is the comparison of times: a retention run at
  time \<open>T\<close> purges it exactly if \<open>T\<close> is later than \<open>t\<close> plus \<open>d\<close> days (at most the configured maximum).\<close>

lemma retention_clock:
  fixes E b f i cid h s n ca p w d
  defines "until \<equiv> clockMs E (ticks w) + min d (int (maxRetentionDays E)) * 86400000"
    and "e \<equiv> newEvidence b f i cid h s n ca (valu (retainUntilOf E (Some d)) w) p"
  assumes "0 \<le> until" "0 \<le> T" "getUTCFullYear until \<le> 9999" "getUTCFullYear T \<le> 9999"
  shows "pastRetention (toISOString T) e \<longleftrightarrow> until < T"
proof -
  have "toISOString until < toISOString T \<longleftrightarrow> until < T"
    using toISOString_less [of until T] toISOString_less [of T until] assms(3-6)
    by (cases until T rule: linorder_cases) auto
  moreover have "toISOString until \<noteq> ''''" by (simp add: toISOString_def Let_def)
  ultimately show ?thesis
    by (simp add: e_def until_def pastRetention_def evidenceBlockedFromRetentionPurge_def newEvidence_def
        retainUntilOf_def run_simps)
qed

end
