(* ===== verification/Audits.thy ===== *)
theory Audits
  imports Contracts
begin

text \<open>
  The audit log as a resource: the listings of \<open>memory-repository.ts\<close>, the keyset cursor
  (\<open>services/audit-cursor.ts\<close>), the CSV rows (\<open>services/audit-csv.ts\<close>), the report routes of \<open>index.ts\<close>, the
  export jobs with their worker (\<open>services/export-job.worker.ts\<close>) and the signed artifact links
  (\<open>services/export-artifact-token.ts\<close>).
\<close>

section \<open>Listings\<close>

definition auditMatches :: "AuditFilter \<Rightarrow> AuditLog \<Rightarrow> bool" where
  "auditMatches f log = (flt (af_entityType f) (au_entityType log) \<and> flt (af_entityId f) (au_entityId log) \<and>
     notBefore (af_from f) (au_createdAt log) \<and> notAfter (af_to f) (au_createdAt log))"

text \<open>\<open>a.createdAt.localeCompare(b.createdAt)\<close>, then the identifiers.\<close>

definition auditLe :: "env \<Rightarrow> AuditLog \<Rightarrow> AuditLog \<Rightarrow> bool" where
  "auditLe E a b =
    (if localeLe E (au_createdAt a) (au_createdAt b) \<and> localeLe E (au_createdAt b) (au_createdAt a)
     then localeLe E (au_id a) (au_id b) else localeLe E (au_createdAt a) (au_createdAt b))"

definition auditRows :: "env \<Rightarrow> AuditFilter \<Rightarrow> world \<Rightarrow> AuditLog list" where
  "auditRows E f w = sortBy (auditLe E) (filter (auditMatches f) (audits w))"

definition listAudits :: "env \<Rightarrow> AuditFilter \<Rightarrow> AuditLog list io" where
  "listAudits E f = gets (auditRows E f)"

definition listAuditsPage :: "env \<Rightarrow> AuditFilter \<Rightarrow> ListParams \<Rightarrow> AuditLog Paginated io" where
  "listAuditsPage E f p = gets (\<lambda>w. paginate p (auditRows E f w))"

section \<open>Cursor\<close>

record AuditCursorPayload =
  cu_createdAt :: string
  cu_id :: string

definition encodeAuditCursor :: "AuditCursorPayload \<Rightarrow> string" where
  "encodeAuditCursor p = base64urlEncode (stringify (JObj [(''c'', JStr (cu_createdAt p)), (''i'', JStr (cu_id p))]))"

definition decodeAuditCursor :: "string \<Rightarrow> AuditCursorPayload option" where
  "decodeAuditCursor raw =
    (case jsonParse (base64urlDecode raw) of
       Some (JObj o') \<Rightarrow>
        (case (jfield o' ''c'', jfield o' ''i'') of
           (JStr c, JStr i) \<Rightarrow> if c \<noteq> '''' \<and> i \<noteq> '''' then Some \<lparr> cu_createdAt = c, cu_id = i \<rparr> else None
         | _ \<Rightarrow> None)
     | _ \<Rightarrow> None)"

record AuditKeysetPage =
  kp_items :: "AuditLog list"
  kp_nextCursor :: "string option"

definition afterCursor :: "AuditCursorPayload \<Rightarrow> AuditLog \<Rightarrow> bool" where
  "afterCursor dec x = (cu_createdAt dec < au_createdAt x \<or>
     (au_createdAt x = cu_createdAt dec \<and> cu_id dec < au_id x))"

text \<open>\<open>findIndex\<close>, the length of the list when nothing is found.\<close>

definition startAfter :: "AuditCursorPayload \<Rightarrow> AuditLog list \<Rightarrow> nat" where
  "startAfter dec rows = length (takeWhile (\<lambda>x. \<not> afterCursor dec x) rows)"

definition keysetPage :: "nat \<Rightarrow> nat \<Rightarrow> AuditLog list \<Rightarrow> AuditKeysetPage" where
  "keysetPage start limit rows =
    (let window = slice start (limit + 1) rows;
         hasMore = limit < length window;
         items = (if hasMore then take limit window else window) in
     \<lparr> kp_items = items, kp_nextCursor =
        (if hasMore \<and> items \<noteq> [] then Some (encodeAuditCursor
           \<lparr> cu_createdAt = au_createdAt (last items), cu_id = au_id (last items) \<rparr>) else None) \<rparr>)"

text \<open>\<open>None\<close>: the cursor does not decode and the call throws.\<close>

definition listAuditsAfterCursor :: "env \<Rightarrow> AuditFilter \<Rightarrow> nat \<Rightarrow> string option \<Rightarrow> AuditKeysetPage option io" where
  "listAuditsAfterCursor E f limit cursor = gets (\<lambda>w.
     let rows = auditRows E f w in
     if truthy cursor then
       (case decodeAuditCursor (the cursor) of
          None \<Rightarrow> None
        | Some dec \<Rightarrow> Some (keysetPage (startAfter dec rows) limit rows))
     else Some (keysetPage 0 limit rows))"

record auditsListQuery =
  aq_entityType :: "string option"
  aq_entityId :: "string option"
  aq_from :: "string option"
  aq_to :: "string option"
  aq_limit :: "int option"
  aq_cursor :: "string option"

definition auditsListQuerySchema :: "auditsListQuery \<Rightarrow> bool" where
  "auditsListQuerySchema q = (optionally (\<lambda>s. s \<noteq> '''') (aq_entityType q) \<and> optionally (\<lambda>s. s \<noteq> '''') (aq_entityId q) \<and>
     optionally (\<lambda>l. 1 \<le> l \<and> l \<le> 2000) (aq_limit q))"

text \<open>The window of a report: \<open>parseOptionalIso(value?.trim() || undefined)\<close> for both ends.\<close>

definition trimmed :: "string option \<Rightarrow> string option" where
  "trimmed s = (let t = trim (getOr '''' s) in if t = '''' then None else Some t)"

definition parseWindow :: "env \<Rightarrow> string option \<Rightarrow> string option \<Rightarrow> (string option \<times> string option) option" where
  "parseWindow E from to =
    (case (parseOptionalIso E (trimmed from), parseOptionalIso E (trimmed to)) of
       (Some f, Some t) \<Rightarrow> Some (f, t) | _ \<Rightarrow> None)"

text \<open>The answer: the items, and in keyset mode the next cursor.\<close>

definition listAuditsH :: "env \<Rightarrow> auditsListQuery option \<Rightarrow> BluesafeAuth option \<Rightarrow>
    (AuditLog list \<times> string option) handler" where
  "listAuditsH E query auth =
    (case safeParse auditsListQuerySchema query of
       None \<Rightarrow> ret (HttpErr 400 ''B2_VALIDATION_ERROR'')
     | Some q \<Rightarrow>
       (case parseWindow E (aq_from q) (aq_to q) of
          None \<Rightarrow> ret (HttpErr 400 ''B2_VALIDATION_ERROR'')
        | Some (from, to) \<Rightarrow> do {
           let f = \<lparr> af_entityType = aq_entityType q, af_entityId = aq_entityId q, af_from = from, af_to = to \<rparr>;
           let cursorTrim = trimmed (aq_cursor q);
           dateNow E;
           if aq_limit q \<noteq> None \<or> cursorTrim \<noteq> None then do {
             let limit = min 2000 (max 1 (getOr 100 (aq_limit q)));
             if cursorTrim \<noteq> None \<and> decodeAuditCursor (the cursorTrim) = None
             then ret (HttpErr 400 ''B2_VALIDATION_ERROR'')
             else do {
               page \<leftarrow> listAuditsAfterCursor E f (nat limit) cursorTrim;
               (case page of
                  None \<Rightarrow> ret (HttpErr 400 ''B2_VALIDATION_ERROR'')
                | Some page \<Rightarrow> do {
                   dateNow E;
                   ret (HttpOk 200 (kp_items page, kp_nextCursor page)) }) } }
           else do {
             logs \<leftarrow> listAudits E f;
             dateNow E;
             ret (HttpOk 200 (logs, None)) } }))"

definition listAuditsRoute :: "env \<Rightarrow> request \<Rightarrow> auditsListQuery option \<Rightarrow> (AuditLog list \<times> string option) handler" where
  "listAuditsRoute E req query = v1 E req [Operator, Verifier, Auditor] [] (listAuditsH E query)"

section \<open>Exports\<close>

definition csvCell :: "string \<Rightarrow> string" where
  "csvCell value =
    (if list_ex (\<lambda>c. c \<in> set [CHR 0x22, CHR '','', CHR 0x0D, CHR 0x0A]) value
     then [CHR 0x22] @ concat (map (\<lambda>c. if c = CHR 0x22 then [CHR 0x22, CHR 0x22] else [c]) value) @ [CHR 0x22]
     else value)"

definition auditLogCsvHeader :: string where
  "auditLogCsvHeader = joinWith '','' [''id'', ''entityType'', ''entityId'', ''action'', ''actorId'', ''createdAt'',
     ''beforeJson'', ''afterJson'', ''metadataJson'']"

definition jsonOrEmpty :: "payload option \<Rightarrow> string" where
  "jsonOrEmpty p = (case p of None \<Rightarrow> '''' | Some o' \<Rightarrow> stringify (JObj o'))"

definition auditFields :: "AuditLog \<Rightarrow> string list" where
  "auditFields log = [au_id log, au_entityType log, au_entityId log, au_action log, au_actorId log,
     au_createdAt log, jsonOrEmpty (au_before log), jsonOrEmpty (au_after log), jsonOrEmpty (au_metadata log)]"

definition auditLogToCsvRow :: "AuditLog \<Rightarrow> string" where
  "auditLogToCsvRow log = joinWith '','' (map csvCell (auditFields log))"

text \<open>The log as JSON; \<open>id\<close> and \<open>createdAt\<close> are set before the parameters are spread.\<close>

definition jobj :: "payload option \<Rightarrow> json" where
  "jobj p = (case p of None \<Rightarrow> JUndef | Some o' \<Rightarrow> JObj o')"

definition auditJson :: "AuditLog \<Rightarrow> json" where
  "auditJson log = JObj [(''id'', JStr (au_id log)), (''createdAt'', JStr (au_createdAt log)),
     (''entityType'', JStr (au_entityType log)), (''entityId'', JStr (au_entityId log)),
     (''action'', JStr (au_action log)), (''actorId'', JStr (au_actorId log)),
     (''before'', jobj (au_before log)), (''after'', jobj (au_after log)), (''metadata'', jobj (au_metadata log))]"

text \<open>
  The loop that pages through the log: it ends when the maximum is reached, a page is empty or the
  offset reaches the total. The fuel counts the pages; every page but the last adds a row.
\<close>

fun exportPages :: "env \<Rightarrow> AuditFilter \<Rightarrow> nat \<Rightarrow> nat \<Rightarrow> nat \<Rightarrow> nat \<Rightarrow> nat \<Rightarrow> AuditLog list io" where
  "exportPages E f maxExport pageSize exported offset 0 = ret []"
| "exportPages E f maxExport pageSize exported offset (Suc fuel) =
    (if \<not> exported < maxExport then ret []
     else do {
       let tk = min pageSize (maxExport - exported);
       dateNow E;
       page \<leftarrow> listAuditsPage E f \<lparr> lp_limit = tk, lp_offset = offset \<rparr>;
       dateNow E;
       let written = take (maxExport - exported) (pg_items page);
       let exported = exported + length written;
       if pg_items page = [] then ret written
       else do {
         let offset = offset + length (pg_items page);
         if pg_total page \<le> offset then ret written
         else do {
           rest \<leftarrow> exportPages E f maxExport pageSize exported offset fuel;
           ret (written @ rest) } } })"

definition exportLogs :: "env \<Rightarrow> AuditFilter \<Rightarrow> nat \<Rightarrow> nat \<Rightarrow> AuditLog list io" where
  "exportLogs E f maxExport pageSize = exportPages E f maxExport pageSize 0 0 (Suc maxExport)"

definition lines :: "string list \<Rightarrow> string" where
  "lines ls = concat (map (\<lambda>l. l @ [CHR 0x0A]) ls)"

record reportAuditsQuery =
  ra_from :: "string option"
  ra_to :: "string option"
  ra_entityType :: "string option"
  ra_entityId :: "string option"
  ra_limit :: "int option"

definition reportAuditsNdjsonQuerySchema :: "reportAuditsQuery \<Rightarrow> bool" where
  "reportAuditsNdjsonQuerySchema q = (optionally (\<lambda>s. s \<noteq> '''') (ra_entityType q) \<and>
     optionally (\<lambda>s. s \<noteq> '''') (ra_entityId q) \<and> optionally (\<lambda>l. 1 \<le> l \<and> l \<le> 100000) (ra_limit q))"

text \<open>The two report routes differ in how they print a row.\<close>

definition reportAuditsH :: "env \<Rightarrow> string \<Rightarrow> (AuditLog \<Rightarrow> string) \<Rightarrow> reportAuditsQuery option \<Rightarrow>
    BluesafeAuth option \<Rightarrow> string handler" where
  "reportAuditsH E prolog row query auth =
    (case safeParse reportAuditsNdjsonQuerySchema query of
       None \<Rightarrow> ret (HttpErr 400 ''B2_VALIDATION_ERROR'')
     | Some q \<Rightarrow>
       (case parseWindow E (ra_from q) (ra_to q) of
          None \<Rightarrow> ret (HttpErr 400 ''B2_VALIDATION_ERROR'')
        | Some (from, to) \<Rightarrow> do {
           let maxExport = nat (getOr 50000 (ra_limit q));
           logs \<leftarrow> exportLogs E \<lparr> af_entityType = ra_entityType q, af_entityId = ra_entityId q,
             af_from = from, af_to = to \<rparr> maxExport (min 500 maxExport);
           ret (HttpOk 200 (prolog @ lines (map row logs))) }))"

definition reportAuditsNdjson :: "env \<Rightarrow> request \<Rightarrow> reportAuditsQuery option \<Rightarrow> string handler" where
  "reportAuditsNdjson E req query = v1 E req [Operator, Verifier, Auditor] []
     (reportAuditsH E '''' (\<lambda>log. stringify (auditJson log)) query)"

text \<open>The byte order mark, the header line, the rows.\<close>

definition reportAuditsCsv :: "env \<Rightarrow> request \<Rightarrow> reportAuditsQuery option \<Rightarrow> string handler" where
  "reportAuditsCsv E req query = v1 E req [Operator, Verifier, Auditor] []
     (reportAuditsH E (utf8 0xFEFF @ lines [auditLogCsvHeader]) auditLogToCsvRow query)"

section \<open>Export jobs\<close>

record createExportJobBody =
  je_kind :: string
  je_filter :: AuditFilter
  je_maxExport :: "int option"

definition createExportJobSchema :: "createExportJobBody \<Rightarrow> bool" where
  "createExportJobSchema b = (je_kind b = ''audits_ndjson'' \<and>
     optionally (\<lambda>s. s \<noteq> '''') (af_entityType (je_filter b)) \<and>
     optionally (\<lambda>s. s \<noteq> '''') (af_entityId (je_filter b)) \<and>
     optionally (\<lambda>l. 1 \<le> l \<and> l \<le> 100000) (je_maxExport b))"

definition postExportJobH :: "env \<Rightarrow> createExportJobBody option \<Rightarrow> BluesafeAuth option \<Rightarrow> string handler" where
  "postExportJobH E body auth =
    (case safeParse createExportJobSchema body of
       None \<Rightarrow> ret (HttpErr 400 ''B2_VALIDATION_ERROR'')
     | Some b \<Rightarrow> do {
        t \<leftarrow> nowIso E;
        i \<leftarrow> randomId E ''exp'';
        createExportJob \<lparr> ej_id = i, ej_kind = je_kind b, ej_status = JPending, ej_filter = je_filter b,
          ej_maxExport = nat (getOr 25000 (je_maxExport b)), ej_resultNdjson = None, ej_error = None,
          ej_createdAt = t, ej_updatedAt = t \<rparr>;
        ret (HttpOk 202 i) })"

definition postExportJob :: "env \<Rightarrow> request \<Rightarrow> createExportJobBody option \<Rightarrow> string handler" where
  "postExportJob E req body = v1 E req [Operator, Verifier] [ScExport] (postExportJobH E body)"

text \<open>The result is shown for a completed job only.\<close>

definition getExportJobH :: "string \<Rightarrow> BluesafeAuth option \<Rightarrow> (ExportJobRecord \<times> nat option) handler" where
  "getExportJobH jobId auth = do {
     j \<leftarrow> getExportJob jobId;
     ret (case j of
        None \<Rightarrow> HttpErr 404 ''B2_NOT_FOUND''
      | Some j \<Rightarrow>
         (let result = (if ej_status j = JCompleted then ej_resultNdjson j else None) in
          HttpOk 200 (j\<lparr>ej_resultNdjson := result\<rparr>,
            if truthy result then map_option length result else None))) }"

definition getExportJobRoute :: "env \<Rightarrow> request \<Rightarrow> string \<Rightarrow> (ExportJobRecord \<times> nat option) handler" where
  "getExportJobRoute E req jobId = v1 E req [Operator, Verifier, Auditor] [] (getExportJobH jobId)"

definition MAX_RESULT_BYTES :: nat where
  "MAX_RESULT_BYTES = 8 * 1024 * 1024"

text \<open>
  \<open>buf.subarray(0, n).toString("utf8")\<close> of well-formed UTF-8: a character cut in two at the end is
  replaced by one U+FFFD.
\<close>

definition contByte :: "char \<Rightarrow> bool" where
  "contByte c = (128 \<le> (of_char c :: nat) \<and> (of_char c :: nat) < 192)"

definition needsCont :: "char \<Rightarrow> nat" where
  "needsCont c = (let n = (of_char c :: nat) in
     if n < 192 then 0 else if n < 224 then 1 else if n < 240 then 2 else 3)"

definition utf8Cut :: "nat \<Rightarrow> string \<Rightarrow> string" where
  "utf8Cut n s =
    (let t = take n s;
         k = length (takeWhile contByte (rev t));
         m = length t - k in
     if 0 < m \<and> k < needsCont (t ! (m - 1)) then take (m - 1) t @ utf8 0xFFFD else t)"

definition truncateResult :: "string \<Rightarrow> string" where
  "truncateResult result =
    (if MAX_RESULT_BYTES < length result
     then utf8Cut MAX_RESULT_BYTES result @ [CHR 0x0A] @
       stringify (JObj [(''truncated'', JBool True), (''maxBytes'', JNum (int MAX_RESULT_BYTES))]) @ [CHR 0x0A]
     else result)"

definition recordExportJobOutcome :: "bool \<Rightarrow> unit io" where
  "recordExportJobOutcome ok = bump (if ok then ''exportJobsCompleted'' else ''exportJobsFailed'') 1"

definition runExportJob :: "env \<Rightarrow> ExportJobRecord \<Rightarrow> unit io" where
  "runExportJob E job =
    (if ej_kind job \<noteq> ''audits_ndjson'' then do {
       t \<leftarrow> nowIso E;
       updateExportJob (job\<lparr>ej_status := JFailed, ej_error := Some (''unsupported export kind: '' @ ej_kind job),
         ej_updatedAt := t\<rparr>);
       recordExportJobOutcome False }
     else do {
       logs \<leftarrow> exportLogs E (ej_filter job) (ej_maxExport job) 500;
       let resultNdjson = truncateResult (lines (map (\<lambda>log. stringify (auditJson log)) logs));
       t \<leftarrow> nowIso E;
       updateExportJob (job\<lparr>ej_status := JCompleted, ej_resultNdjson := Some resultNdjson, ej_error := None,
         ej_updatedAt := t\<rparr>);
       recordExportJobOutcome True })"

text \<open>The in-memory repository does not throw, so the error branch of a job is the unsupported kind.\<close>

definition runExportJobTick :: "env \<Rightarrow> unit io" where
  "runExportJobTick E = do {
     now \<leftarrow> nowIso E;
     claimed \<leftarrow> claimExportJobsPending E (exportBatchSize E) now;
     for_each claimed (runExportJob E) }"

section \<open>Signed artifact links\<close>

record ExportArtifactTokenPayload =
  tp_jobId :: string
  tp_exp :: int

text \<open>The digest is printed in base64url, so it contains no dot.\<close>

definition artifactSignature :: "env \<Rightarrow> string \<Rightarrow> string \<Rightarrow> string" where
  "artifactSignature E secret payloadB64 = base64urlEncode (hmacSha256 E secret payloadB64)"

definition signExportArtifactToken :: "env \<Rightarrow> string \<Rightarrow> string \<Rightarrow> int \<Rightarrow> string" where
  "signExportArtifactToken E secret jobId expUnixSec =
    (let payloadB64 = base64urlEncode (stringify (JObj [(''jobId'', JStr jobId), (''exp'', JNum expUnixSec)])) in
     payloadB64 @ ''.'' @ artifactSignature E secret payloadB64)"

text \<open>The token, split at its last dot.\<close>

definition splitToken :: "string \<Rightarrow> (string \<times> string) option" where
  "splitToken token =
    (if CHR ''.'' \<notin> set token then None
     else let sig = rev (takeWhile (\<lambda>c. c \<noteq> CHR ''.'') (rev token));
         payload = take (length token - length sig - 1) token in
       if payload = '''' then None else Some (payload, sig))"

definition verifyExportArtifactToken :: "env \<Rightarrow> string \<Rightarrow> string \<Rightarrow> ExportArtifactTokenPayload option io" where
  "verifyExportArtifactToken E secret token =
    (case splitToken token of
       None \<Rightarrow> ret None
     | Some (payloadB64, sig) \<Rightarrow>
        if sig \<noteq> artifactSignature E secret payloadB64 then ret None
        else (case jsonParse (base64urlDecode payloadB64) of
            Some (JObj rec) \<Rightarrow>
             (case (jfield rec ''jobId'', jfield rec ''exp'') of
                (JStr jobId, JNum exp) \<Rightarrow> do {
                  ms \<leftarrow> dateNow E;
                  ret (if exp < ms div 1000 then None else Some \<lparr> tp_jobId = jobId, tp_exp = exp \<rparr>) }
              | _ \<Rightarrow> ret None)
          | _ \<Rightarrow> ret None))"

text \<open>The answer: the token of the download path and its expiry.\<close>

definition getArtifactUrlH :: "env \<Rightarrow> string \<Rightarrow> BluesafeAuth option \<Rightarrow> (string \<times> string) handler" where
  "getArtifactUrlH E jobId auth =
    (if artifactSigningSecret E = '''' then ret (HttpErr 503 ''B2_UNAVAILABLE'')
     else do {
       j \<leftarrow> getExportJob jobId;
       (case j of
          None \<Rightarrow> ret (HttpErr 404 ''B2_NOT_FOUND'')
        | Some j \<Rightarrow>
           if ej_status j \<noteq> JCompleted then ret (HttpErr 409 ''B2_VALIDATION_ERROR'')
           else do {
             ms \<leftarrow> dateNow E;
             let exp = ms div 1000 + artifactUrlTtlSec E;
             ret (HttpOk 200 (signExportArtifactToken E (artifactSigningSecret E) jobId exp, toISOString (exp * 1000))) }) })"

definition getArtifactUrl :: "env \<Rightarrow> request \<Rightarrow> string \<Rightarrow> (string \<times> string) handler" where
  "getArtifactUrl E req jobId = v1 E req [Operator, Verifier, Auditor] [] (getArtifactUrlH E jobId)"

text \<open>The download needs no role: the token is the authorization.\<close>

definition getExportArtifact :: "env \<Rightarrow> string \<Rightarrow> string handler" where
  "getExportArtifact E token =
    (if artifactSigningSecret E = '''' then ret (HttpErr 503 ''B2_UNAVAILABLE'')
     else do {
       payload \<leftarrow> verifyExportArtifactToken E (artifactSigningSecret E) token;
       (case payload of
          None \<Rightarrow> ret (HttpErr 401 ''B2_UNAUTHORIZED'')
        | Some p \<Rightarrow> do {
           job \<leftarrow> getExportJob (tp_jobId p);
           ret (case job of
              None \<Rightarrow> HttpErr 404 ''B2_NOT_FOUND''
            | Some j \<Rightarrow>
               if ej_status j \<noteq> JCompleted then HttpErr 404 ''B2_NOT_FOUND''
               else (case ej_resultNdjson j of None \<Rightarrow> HttpErr 404 ''B2_NOT_FOUND'' | Some r \<Rightarrow> HttpOk 200 r)) }) })"

section \<open>Reports and events\<close>

record reportSummaryQuery =
  rq_from :: "string option"
  rq_to :: "string option"
  rq_tenantId :: "string option"
  rq_landlordId :: "string option"

definition reportSummaryQuerySchema :: "reportSummaryQuery \<Rightarrow> bool" where
  "reportSummaryQuerySchema q = (optionally (\<lambda>s. s \<noteq> '''') (rq_tenantId q) \<and> optionally (\<lambda>s. s \<noteq> '''') (rq_landlordId q))"

definition reportSummary :: "env \<Rightarrow> request \<Rightarrow> reportSummaryQuery option \<Rightarrow> ReportSummary handler" where
  "reportSummary E req query = v1 E req [Operator, Verifier, Auditor] [] (\<lambda>auth.
     case safeParse reportSummaryQuerySchema query of
       None \<Rightarrow> ret (HttpErr 400 ''B2_VALIDATION_ERROR'')
     | Some q \<Rightarrow>
       (case parseWindow E (rq_from q) (rq_to q) of
          None \<Rightarrow> ret (HttpErr 400 ''B2_VALIDATION_ERROR'')
        | Some (from, to) \<Rightarrow> do {
           s \<leftarrow> getReportsSummary E \<lparr> rp_from = from, rp_to = to, rp_tenantId = rq_tenantId q,
             rp_landlordId = rq_landlordId q \<rparr>;
           ret (HttpOk 200 s) }))"

definition statsSummary :: "env \<Rightarrow> request \<Rightarrow> OperatorStatsSummary handler" where
  "statsSummary E req = v1 E req [Operator, Verifier, Auditor] [] (\<lambda>auth. do {
     s \<leftarrow> getOperatorStatsSummary;
     ret (HttpOk 200 s) })"

record eventListQuery =
  eq_entityType :: "string option"
  eq_entityId :: "string option"
  eq_eventType :: "string option"

definition eventListQuerySchema :: "eventListQuery \<Rightarrow> bool" where
  "eventListQuerySchema q = (optionally (\<lambda>s. s \<noteq> '''') (eq_entityType q) \<and> optionally (\<lambda>s. s \<noteq> '''') (eq_entityId q) \<and>
     optionally (\<lambda>s. s \<noteq> '''') (eq_eventType q))"

definition listEventsRoute :: "env \<Rightarrow> request \<Rightarrow> eventListQuery option \<Rightarrow> EventEnvelope list handler" where
  "listEventsRoute E req query = v1 E req anyRole [] (\<lambda>auth.
     case safeParse eventListQuerySchema query of
       None \<Rightarrow> ret (HttpErr 400 ''B2_VALIDATION_ERROR'')
     | Some q \<Rightarrow> do {
        items \<leftarrow> listEvents (eq_entityType q) (eq_entityId q) (eq_eventType q);
        ret (HttpOk 200 items) })"

section \<open>Keyset pages\<close>

lemma decode_encode_cursor:
  assumes "cu_createdAt p \<noteq> ''''" "cu_id p \<noteq> ''''"
  shows "decodeAuditCursor (encodeAuditCursor p) = Some p"
proof -
  have "jsonParse (stringify (JObj [(''c'', JStr (cu_createdAt p)), (''i'', JStr (cu_id p))])) =
    Some (JObj [(''c'', JStr (cu_createdAt p)), (''i'', JStr (cu_id p))])"
    by (rule parse_stringify) simp
  then show ?thesis
    using assms by (simp add: decodeAuditCursor_def encodeAuditCursor_def jfield_def del: stringify.simps)
qed

text \<open>The order of the rows, when \<open>localeCompare\<close> agrees with the code unit order on what is stored.\<close>

definition auditKey :: "AuditLog \<Rightarrow> string \<times> string" where
  "auditKey a = (au_createdAt a, au_id a)"

definition keyLess :: "string \<times> string \<Rightarrow> string \<times> string \<Rightarrow> bool" where
  "keyLess p q = (fst p < fst q \<or> (fst p = fst q \<and> snd p < snd q))"

definition audits_ordered :: "env \<Rightarrow> world \<Rightarrow> bool" where
  "audits_ordered E w = (distinct (map auditKey (audits w)) \<and>
     (\<forall>a \<in> set (audits w). au_createdAt a \<noteq> '''' \<and> au_id a \<noteq> '''' \<and> (\<forall>b \<in> set (audits w).
       localeLe E (au_createdAt a) (au_createdAt b) = (au_createdAt a \<le> au_createdAt b) \<and>
       localeLe E (au_id a) (au_id b) = (au_id a \<le> au_id b))))"

lemma insertBy_cong: "(\<And>y. y \<in> set xs \<Longrightarrow> le x y = le' x y) \<Longrightarrow> insertBy le x xs = insertBy le' x xs"
  by (induction xs) auto

lemma sortBy_cong: "(\<And>x y. x \<in> set xs \<Longrightarrow> y \<in> set xs \<Longrightarrow> le x y = le' x y) \<Longrightarrow> sortBy le xs = sortBy le' xs"
proof (induction xs)
  case (Cons x xs)
  then have "sortBy le xs = sortBy le' xs" by simp
  moreover have "insertBy le x (sortBy le' xs) = insertBy le' x (sortBy le' xs)"
    using Cons.prems by (intro insertBy_cong) simp
  ultimately show ?case by (simp add: sortBy_def)
qed (simp add: sortBy_def)

lemma keyLess_trans: "keyLess p q \<Longrightarrow> keyLess q r \<Longrightarrow> keyLess p r"
  by (auto simp: keyLess_def)

lemma keyLess_total: "keyLess p q \<or> p = q \<or> keyLess q p"
  by (cases p; cases q) (auto simp: keyLess_def)

lemma keyLess_irrefl: "\<not> keyLess p p"
  by (simp add: keyLess_def)

lemma auditRows_sorted:
  assumes "audits_ordered E w"
  shows "sorted_wrt (\<lambda>a b. keyLess (auditKey a) (auditKey b)) (auditRows E f w)"
proof -
  let ?xs = "filter (auditMatches f) (audits w)"
  let ?le = "\<lambda>a b. keyLess (auditKey a) (auditKey b) \<or> auditKey a = auditKey b"
  have "auditRows E f w = sortBy ?le ?xs"
    unfolding auditRows_def using assms
    by (intro sortBy_cong) (auto simp: audits_ordered_def auditLe_def keyLess_def auditKey_def)
  moreover have "sorted_wrt ?le (sortBy ?le ?xs)"
    by (rule sorted_sortBy) (use keyLess_total in blast, use keyLess_trans in metis)
  moreover have "distinct (map auditKey (sortBy ?le ?xs))"
    using assms by (simp add: distinct_map_sortBy distinct_map_filter audits_ordered_def)
  ultimately have s: "sorted_wrt ?le (auditRows E f w)" "distinct (map auditKey (auditRows E f w))" by simp_all
  have "sorted_wrt (\<lambda>a b. keyLess (auditKey a) (auditKey b)) ys"
    if "sorted_wrt ?le ys" "distinct (map auditKey ys)" for ys
    using that by (induction ys) force+
  then show ?thesis using s by blast
qed

lemma startAfter_nth:
  assumes "sorted_wrt (\<lambda>a b. keyLess (auditKey a) (auditKey b)) rows" "k < length rows"
  shows "startAfter \<lparr> cu_createdAt = au_createdAt (rows ! k), cu_id = au_id (rows ! k) \<rparr> rows = Suc k"
proof -
  let ?c = "\<lparr> cu_createdAt = au_createdAt (rows ! k), cu_id = au_id (rows ! k) \<rparr>"
  have after: "afterCursor ?c x \<longleftrightarrow> keyLess (auditKey (rows ! k)) (auditKey x)" for x
    by (auto simp: afterCursor_def keyLess_def auditKey_def)
  have lt: "keyLess (auditKey (rows ! i)) (auditKey (rows ! j))" if "i < j" "j < length rows" for i j
    using assms(1) that by (simp add: sorted_wrt_iff_nth_less)
  have "\<not> afterCursor ?c (rows ! i)" if "i < Suc k" for i
  proof (cases "i = k")
    case False
    with that lt [of i k] assms(2) have "keyLess (auditKey (rows ! i)) (auditKey (rows ! k))" by simp
    then show ?thesis unfolding after using keyLess_trans keyLess_irrefl by blast
  qed (simp add: after keyLess_irrefl)
  moreover have "Suc k < length rows \<Longrightarrow> afterCursor ?c (rows ! Suc k)"
    using lt [of k "Suc k"] by (simp add: after)
  ultimately have "takeWhile (\<lambda>x. \<not> afterCursor ?c x) rows = take (Suc k) rows"
    using assms(2) by (intro takeWhile_eq_take_P_nth) auto
  then show ?thesis using assms(2) by (simp add: startAfter_def)
qed

text \<open>A client that follows the cursors until there is none.\<close>

fun followCursors :: "env \<Rightarrow> AuditFilter \<Rightarrow> nat \<Rightarrow> world \<Rightarrow> nat \<Rightarrow> string option \<Rightarrow> AuditLog list option" where
  "followCursors E f limit w 0 cursor = None"
| "followCursors E f limit w (Suc n) cursor =
    (case valu (listAuditsAfterCursor E f limit cursor) w of
       None \<Rightarrow> None
     | Some p \<Rightarrow>
        (case kp_nextCursor p of
           None \<Rightarrow> Some (kp_items p)
         | Some c \<Rightarrow> map_option (\<lambda>rest. kp_items p @ rest) (followCursors E f limit w n (Some c))))"

lemma keysetPage_cases:
  assumes "0 < limit"
  shows "if start + limit < length rows
    then keysetPage start limit rows = \<lparr> kp_items = take limit (drop start rows), kp_nextCursor = Some (encodeAuditCursor
      \<lparr> cu_createdAt = au_createdAt (rows ! (start + limit - 1)), cu_id = au_id (rows ! (start + limit - 1)) \<rparr>) \<rparr>
    else keysetPage start limit rows = \<lparr> kp_items = drop start rows, kp_nextCursor = None \<rparr>"
proof (cases "start + limit < length rows")
  case True
  let ?items = "take limit (drop start rows)"
  have l: "length ?items = limit" using True by simp
  then have n: "?items \<noteq> []" using assms by auto
  have "last ?items = ?items ! (limit - 1)" using l n by (simp add: last_conv_nth)
  also have "\<dots> = rows ! (start + limit - 1)" using True assms by simp
  finally have "last ?items = rows ! (start + limit - 1)" .
  moreover have "limit < length (slice start (limit + 1) rows)" using True by (simp add: slice_def)
  ultimately show ?thesis using True n by (simp add: keysetPage_def slice_def Let_def)
qed (simp add: keysetPage_def slice_def Let_def)

lemma followCursors_rest:
  assumes o: "audits_ordered E w" and l: "0 < limit" and s: "start \<le> length (auditRows E f w)"
    and c: "cursor = None \<and> start = 0 \<or> 0 < start \<and> cursor = Some (encodeAuditCursor
      \<lparr> cu_createdAt = au_createdAt (auditRows E f w ! (start - 1)), cu_id = au_id (auditRows E f w ! (start - 1)) \<rparr>)"
    and n: "length (auditRows E f w) - start < n"
  shows "followCursors E f limit w n cursor = Some (drop start (auditRows E f w))"
  using s c n
proof (induction n arbitrary: start cursor)
  case (Suc n)
  let ?rows = "auditRows E f w"
  let ?key = "\<lambda>k. \<lparr> cu_createdAt = au_createdAt (?rows ! k), cu_id = au_id (?rows ! k) \<rparr>"
  have enc: "decodeAuditCursor (encodeAuditCursor (?key k)) = Some (?key k)" if "k < length ?rows" for k
  proof (rule decode_encode_cursor)
    have "?rows ! k \<in> set (audits w)" using that nth_mem [OF that] by (auto simp: auditRows_def)
    then show "cu_createdAt (?key k) \<noteq> ''''" "cu_id (?key k) \<noteq> ''''" using o by (auto simp: audits_ordered_def)
  qed
  have page: "valu (listAuditsAfterCursor E f limit cursor) w = Some (keysetPage start limit ?rows)"
  proof (cases "start = 0")
    case True
    with Suc.prems(2) show ?thesis by (simp add: listAuditsAfterCursor_def Let_def)
  next
    case False
    with Suc.prems have k: "start - 1 < length ?rows" "cursor = Some (encodeAuditCursor (?key (start - 1)))" by auto
    have "encodeAuditCursor (?key (start - 1)) \<noteq> ''''" using enc [OF k(1)] by (auto simp: decodeAuditCursor_def base64urlDecode_def jsonParse_def jspace_def)
    with k enc [OF k(1)] startAfter_nth [OF auditRows_sorted [OF o] k(1)] False show ?thesis
      by (simp add: listAuditsAfterCursor_def Let_def)
  qed
  show ?case
  proof (cases "start + limit < length ?rows")
    case True
    have "followCursors E f limit w n (Some (encodeAuditCursor (?key (start + limit - 1)))) = Some (drop (start + limit) ?rows)"
      using True l Suc.prems by (intro Suc.IH) auto
    moreover have "take limit (drop start ?rows) @ drop (start + limit) ?rows = drop start ?rows"
      by (metis append_take_drop_id drop_drop add.commute)
    ultimately show ?thesis using keysetPage_cases [OF l, of start ?rows] True by (simp add: page)
  next
    case False
    then show ?thesis using keysetPage_cases [OF l, of start ?rows] by (simp add: page)
  qed
qed simp

section \<open>The paging loop\<close>

lemma exec_exportPages: "audits (exec (exportPages E f m p x o' n) w) = audits w"
  by (induction n arbitrary: x o' w) (simp_all add: listAuditsPage_def run_simps Let_def)

lemma auditRows_cong: "audits w' = audits w \<Longrightarrow> auditRows E f w' = auditRows E f w"
  by (simp add: auditRows_def)

lemma exportPages_rows:
  assumes "0 < p" "m - x < n"
  shows "valu (exportPages E f m p x o' n) w = take (m - x) (drop o' (auditRows E f w))"
  using assms(2)
proof (induction n arbitrary: x o' w)
  case (Suc n)
  let ?rows = "auditRows E f w" and ?t = "min p (m - x)"
  let ?items = "take ?t (drop o' ?rows)"
  show ?case
  proof (cases "x < m")
    case True
    let ?w = "w\<lparr>ticks := Suc (Suc (ticks w))\<rparr>"
    have r: "auditRows E f ?w = ?rows" "auditRows E f (w\<lparr>ticks := Suc (ticks w)\<rparr>) = ?rows"
      by (simp_all add: auditRows_def)
    have items: "take (m - x) ?items = ?items" by (simp add: min_def)
    show ?thesis
    proof (cases "?items = [] \<or> length ?rows \<le> o' + length ?items")
      case stop: True
      have "take (m - x) (drop o' ?rows) = ?items"
      proof (cases "?items = []")
        case True
        with assms(1) \<open>x < m\<close> have "drop o' ?rows = []" by (simp add: min_def split: if_splits)
        then show ?thesis by simp
      next
        case False
        with stop have "length (drop o' ?rows) \<le> ?t" by (auto simp: min_def split: if_splits)
        then show ?thesis by simp
      qed
      with stop True items show ?thesis
        by (auto simp: listAuditsPage_def paginate_def slice_def run_simps Let_def r)
    next
      case False
      then have len: "length ?items = ?t" "0 < ?t" by (auto simp: min_def split: if_splits)
      have "valu (exportPages E f m p (x + ?t) (o' + ?t) n) ?w = take (m - (x + ?t)) (drop (o' + ?t) ?rows)"
        using Suc.prems len(2) by (subst Suc.IH) (auto simp: r)
      moreover have "?items @ take (m - (x + ?t)) (drop (o' + ?t) ?rows) = take (m - x) (drop o' ?rows)"
      proof -
        have "take (?t + (m - (x + ?t))) (drop o' ?rows) = ?items @ take (m - (x + ?t)) (drop ?t (drop o' ?rows))"
          by (rule take_add)
        moreover have "?t + (m - (x + ?t)) = m - x" using True by simp
        ultimately show ?thesis by (simp add: add.commute)
      qed
      ultimately show ?thesis
        using True False items len
        by (auto simp: listAuditsPage_def paginate_def slice_def run_simps Let_def r)
    qed
  qed simp
qed simp

lemma exportLogs_rows: "0 < p \<Longrightarrow> valu (exportLogs E f m p) w = take m (auditRows E f w)"
  unfolding exportLogs_def by (subst exportPages_rows) simp_all

section \<open>Reading CSV back\<close>

text \<open>A reader of CSV records (RFC 4180): the cells of the first line, and what follows the line feed.\<close>

fun csvQuoted :: "string \<Rightarrow> (string \<times> string) option" where
  "csvQuoted (a # b # s) =
    (if a = CHR 0x22 then (if b = CHR 0x22 then map_option (\<lambda>(v, r). (CHR 0x22 # v, r)) (csvQuoted s)
       else Some ([], b # s))
     else map_option (\<lambda>(v, r). (a # v, r)) (csvQuoted (b # s)))"
| "csvQuoted [a] = (if a = CHR 0x22 then Some ([], []) else None)"
| "csvQuoted [] = None"

definition csvPlain :: "char \<Rightarrow> bool" where
  "csvPlain c = (c \<notin> set [CHR 0x22, CHR '','', CHR 0x0D, CHR 0x0A])"

definition csvReadCell :: "string \<Rightarrow> (string \<times> string) option" where
  "csvReadCell s =
    (case s of c # cs \<Rightarrow> if c = CHR 0x22 then csvQuoted cs else Some (takeWhile csvPlain s, dropWhile csvPlain s)
     | [] \<Rightarrow> Some ([], []))"

fun csvReadRecord :: "nat \<Rightarrow> string \<Rightarrow> (string list \<times> string) option" where
  "csvReadRecord 0 s = None"
| "csvReadRecord (Suc n) s =
    (case csvReadCell s of
       None \<Rightarrow> None
     | Some (v, []) \<Rightarrow> None
     | Some (v, c # r) \<Rightarrow>
        if c = CHR '','' then map_option (\<lambda>(vs, r'). (v # vs, r')) (csvReadRecord n r)
        else if c = CHR 0x0A then Some ([v], r)
        else None)"

definition csvEscaped :: "string \<Rightarrow> string" where
  "csvEscaped v = concat (map (\<lambda>c. if c = CHR 0x22 then [CHR 0x22, CHR 0x22] else [c]) v)"

lemma csvQuoted_escaped:
  assumes "c \<noteq> CHR 0x22"
  shows "csvQuoted (csvEscaped v @ CHR 0x22 # c # r) = Some (v, c # r)"
proof (induction v)
  case Nil
  with assms show ?case by (simp add: csvEscaped_def)
next
  case (Cons a v)
  obtain y ys where y: "csvEscaped v @ CHR 0x22 # c # r = y # ys" by (cases "csvEscaped v") auto
  show ?case
  proof (cases "a = CHR 0x22")
    case True
    then have "csvEscaped (a # v) @ CHR 0x22 # c # r = CHR 0x22 # CHR 0x22 # (csvEscaped v @ CHR 0x22 # c # r)"
      by (simp add: csvEscaped_def)
    with Cons True show ?thesis by simp
  next
    case False
    then have "csvEscaped (a # v) @ CHR 0x22 # c # r = a # y # ys" using y by (simp add: csvEscaped_def)
    with Cons False show ?thesis by (simp add: y)
  qed
qed

lemma csvReadCell_cell:
  assumes "c = CHR '','' \<or> c = CHR 0x0A"
  shows "csvReadCell (csvCell v @ c # r) = Some (v, c # r)"
proof (cases "list_all csvPlain v")
  case False
  then have "csvCell v = CHR 0x22 # csvEscaped v @ [CHR 0x22]"
    by (auto simp: csvCell_def csvPlain_def csvEscaped_def list_ex_iff list_all_iff)
  moreover have "c \<noteq> CHR 0x22" using assms by auto
  ultimately show ?thesis using csvQuoted_escaped [of c v r] by (simp add: csvReadCell_def)
next
  case True
  have np: "\<not> csvPlain c" using assms by (auto simp: csvPlain_def)
  have v: "csvCell v = v" using True by (auto simp: csvCell_def csvPlain_def list_ex_iff list_all_iff)
  have t: "takeWhile csvPlain (v @ c # r) = v" "dropWhile csvPlain (v @ c # r) = c # r"
    using True np by (auto simp: list_all_iff takeWhile_append dropWhile_append)
  have "hd (v @ c # r) \<noteq> CHR 0x22"
    using True assms by (cases v) (auto simp: csvPlain_def)
  then show ?thesis
    using t by (cases "v @ c # r") (auto simp: csvReadCell_def v)
qed

lemma csvReadRecord_row:
  assumes "vs \<noteq> []" "length vs \<le> n"
  shows "csvReadRecord n (joinWith '','' (map csvCell vs) @ CHR 0x0A # r) = Some (vs, r)"
  using assms
proof (induction vs arbitrary: n rule: induct_list012)
  case (2 v)
  then obtain k where "n = Suc k" by (cases n) auto
  then show ?case using csvReadCell_cell [of "CHR 0x0A" v r] by simp
next
  case (3 v v' vs)
  then obtain k where k: "n = Suc k" "length (v' # vs) \<le> k" by (cases n) auto
  then have "csvReadRecord k (joinWith '','' (map csvCell (v' # vs)) @ CHR 0x0A # r) = Some (v' # vs, r)"
    by (intro 3(2)) auto
  then show ?case
    using k(1) csvReadCell_cell [of "CHR '',''" v "joinWith '','' (map csvCell (v' # vs)) @ CHR 0x0A # r"] by simp
qed simp

section \<open>Artifact links\<close>

lemma b64char_dot: "b64char n \<noteq> CHR ''.''"
proof (cases "n < 64")
  case True
  then show ?thesis using b64val_char [of n] by (auto simp: b64val_def)
qed (simp add: b64char_def)

lemma splitToken_sign:
  assumes "p \<noteq> ''''" "CHR ''.'' \<notin> set sig"
  shows "splitToken (p @ ''.'' @ sig) = Some (p, sig)"
proof -
  have "takeWhile (\<lambda>c. c \<noteq> CHR ''.'') (rev (p @ ''.'' @ sig)) = rev sig"
    using assms(2) by (simp add: takeWhile_append)
  with assms(1) show ?thesis by (simp add: splitToken_def Let_def)
qed

lemma verify_sign:
  "valu (verifyExportArtifactToken E secret (signExportArtifactToken E secret jobId exp)) w =
    (if clockMs E (ticks w) div 1000 \<le> exp then Some \<lparr> tp_jobId = jobId, tp_exp = exp \<rparr> else None)"
proof -
  let ?j = "JObj [(''jobId'', JStr jobId), (''exp'', JNum exp)]"
  let ?p = "base64urlEncode (stringify ?j)"
  have "CHR ''.'' \<notin> set (base64urlEncode x)" for x using b64char_dot by (fastforce simp: base64urlEncode_def)
  moreover have "?p \<noteq> ''''"
  proof
    assume "?p = ''''"
    then have "base64urlDecode ?p = ''''" by (simp add: base64urlDecode_def)
    then show False by simp
  qed
  ultimately have "splitToken (signExportArtifactToken E secret jobId exp) = Some (?p, artifactSignature E secret ?p)"
    unfolding signExportArtifactToken_def Let_def artifactSignature_def by (intro splitToken_sign)
  moreover have "jsonParse (stringify ?j) = Some ?j" by (rule parse_stringify) simp
  ultimately show ?thesis
    by (simp add: verifyExportArtifactToken_def run_simps jfield_def del: stringify.simps)
qed

section \<open>Frames\<close>

lemmas audit_defs = listAuditsRoute_def listAuditsH_def listAudits_def listAuditsAfterCursor_def listAuditsPage_def
  reportAuditsNdjson_def reportAuditsCsv_def reportAuditsH_def postExportJob_def postExportJobH_def
  runExportJobTick_def runExportJob_def recordExportJobOutcome_def getArtifactUrl_def getArtifactUrlH_def
  getExportArtifact_def verifyExportArtifactToken_def reportSummary_def

lemma pages_steps:
  assumes R: "step_rel R" and d: "\<And>E. steps R (dateNow E)"
  shows "steps R (exportPages E f m p x o' n)"
proof (induction n arbitrary: x o')
  case (Suc n)
  then show ?case unfolding exportPages.simps listAuditsPage_def Let_def by (auto intro!: step_rel.io [OF R] d)
qed (auto intro!: step_rel.io [OF R])

lemma export_steps: "step_rel R \<Longrightarrow> (\<And>E. steps R (dateNow E)) \<Longrightarrow> steps R (exportLogs E f m p)"
  unfolding exportLogs_def by (rule pages_steps)

lemmas tle_pages [tle_intros] = export_steps [OF tle.step_rel_axioms]

lemma tle_audits [tle_intros]:
  "steps ticks_le (listAuditsRoute E req aq)" "steps ticks_le (reportAuditsNdjson E req ra)"
  "steps ticks_le (reportAuditsCsv E req ra)" "steps ticks_le (postExportJob E req je)"
  "steps ticks_le (runExportJobTick E)" "steps ticks_le (getArtifactUrl E req i)"
  "steps ticks_le (getExportArtifact E tk)" "steps ticks_le (reportSummary E req rs)"
  unfolding audit_defs Let_def by (auto intro!: tle_intros split: option.splits prod.splits json.splits)

lemmas core_pages [core_intros] = export_steps [OF frame.step_rel_axioms]

lemma core_reports [core_intros]: "core_obs f \<Longrightarrow> keeps f (getReportsSummary E rp)"
  unfolding getReportsSummary_def by (auto intro!: core_intros)

lemma core_audit_reads [core_intros]:
  assumes "core_obs f"
  shows "keeps f (listAuditsRoute E req aq)" "keeps f (reportAuditsNdjson E req ra)"
    "keeps f (reportAuditsCsv E req ra)" "keeps f (getArtifactUrl E req i)" "keeps f (getExportArtifact E tk)"
    "keeps f (reportSummary E req rs)"
  unfolding audit_defs Let_def
  by (auto intro!: core_intros assms split: option.splits prod.splits json.splits)

lemma core_export_jobs [core_intros]:
  assumes "core_obs f" "\<And>w g. f (exportJobs_update g w) = f w"
  shows "keeps f (postExportJob E req je)" "keeps f (runExportJobTick E)"
  unfolding audit_defs claimExportJobsPending_def Let_def
  by (auto intro!: core_intros keeps_modify assms split: option.splits)

lemmas notify_pages [notify_intros] = export_steps [OF nrel.step_rel_axioms]

lemma notify_export_writes [notify_intros]:
  "steps (notify_rel E) (createExportJob j)" "steps (notify_rel E) (updateExportJob j)"
  "steps (notify_rel E) (claimExportJobsPending E' n t)" "steps (notify_rel E) (getReportsSummary E' rp)"
  unfolding createExportJob_def updateExportJob_def claimExportJobsPending_def getReportsSummary_def
    getOperatorStatsSummary_def Let_def
  by (auto intro!: notify_intros)

lemma notify_audits [notify_intros]:
  assumes "env_ok E"
  shows "steps (notify_rel E) (listAuditsRoute E req aq)" "steps (notify_rel E) (reportAuditsNdjson E req ra)"
    "steps (notify_rel E) (reportAuditsCsv E req ra)" "steps (notify_rel E) (postExportJob E req je)"
    "steps (notify_rel E) (runExportJobTick E)" "steps (notify_rel E) (getArtifactUrl E req i)"
    "steps (notify_rel E) (getExportArtifact E tk)" "steps (notify_rel E) (reportSummary E req rs)"
  unfolding audit_defs Let_def
  by (auto intro!: notify_intros assms split: option.splits prod.splits json.splits)

section \<open>Properties\<close>

text \<open>C33: keyset paging is complete. A client that starts without a cursor and follows the next cursors
  reaches the end, and the pages together are exactly the matching audit records, each once, in the
  order of the listing. (Identifiers and timestamps are different pairs, and \<open>localeCompare\<close> orders the
  stored ones as the code unit comparison of the cursor does.)\<close>

theorem audit_walk:
  assumes "audits_ordered E w" "0 < limit" "length (auditRows E f w) < n"
  shows "\<exists>rows. followCursors E f limit w n None = Some rows \<and> rows = valu (listAudits E f) w \<and>
    mset rows = mset (filter (auditMatches f) (audits w)) \<and>
    sorted_wrt (\<lambda>a b. keyLess (auditKey a) (auditKey b)) rows"
  using followCursors_rest [OF assms(1,2), of 0 f None n] assms(3) auditRows_sorted [OF assms(1), of f]
  by (simp add: listAudits_def) (simp add: auditRows_def)

text \<open>A report is the listing. For a valid query the paging loop ends, and the NDJSON and CSV reports
  contain exactly the first rows of the full listing, up to the requested limit (50,000 by default),
  whatever the page size; the audit log is not changed.\<close>

lemma audit_export:
  assumes "reportAuditsNdjsonQuerySchema q" "parseWindow E (ra_from q) (ra_to q) = Some (from, to)"
  shows "let f = \<lparr> af_entityType = ra_entityType q, af_entityId = ra_entityId q, af_from = from, af_to = to \<rparr>;
      m = reportAuditsH E prolog row (Some q) auth in
    valu m w = HttpOk 200 (prolog @ lines (map row (take (nat (getOr 50000 (ra_limit q))) (valu (listAudits E f) w)))) \<and>
    audits (exec m w) = audits w"
proof -
  have "0 < min 500 (nat (getOr 50000 (ra_limit q)))"
    using assms(1) by (cases "ra_limit q") (auto simp: reportAuditsNdjsonQuerySchema_def optionally_def)
  then show ?thesis
    using assms by (simp add: reportAuditsH_def safeParse_def Let_def exportLogs_rows listAudits_def)
      (simp add: exportLogs_def exec_exportPages del: exportPages.simps)
qed

text \<open>CSV rows can be read back. A reader of RFC 4180 records recovers from a line of the CSV report
  exactly the nine fields of the audit record, whatever commas, quotes or line breaks they contain.\<close>

lemma csv_round_trip:
  "csvReadRecord 9 (auditLogToCsvRow log @ CHR 0x0A # rest) = Some (auditFields log, rest)"
  unfolding auditLogToCsvRow_def by (rule csvReadRecord_row) (simp_all add: auditFields_def)

text \<open>Artifact links. The link issued for a completed export job serves the result of that job until
  its expiry, and is answered 401 afterwards.\<close>

lemma artifact_link:
  assumes "valu (getArtifactUrlH E i auth) w = HttpOk st (token, expires)"
    and "jm_get (exportJobs w') i = Some j" "ej_status j = JCompleted" "ej_resultNdjson j = Some r"
  shows "valu (getExportArtifact E token) w' =
    (if clockMs E (ticks w') div 1000 \<le> clockMs E (ticks w) div 1000 + artifactUrlTtlSec E
     then HttpOk 200 r else HttpErr 401 ''B2_UNAUTHORIZED'')"
proof -
  let ?exp = "clockMs E (ticks w) div 1000 + artifactUrlTtlSec E"
  have t: "token = signExportArtifactToken E (artifactSigningSecret E) i ?exp" "artifactSigningSecret E \<noteq> ''''"
    using assms(1) by (auto simp: getArtifactUrlH_def getExportJob_def run_simps Let_def split: if_splits option.splits)
  have k: "exportJobs (exec (verifyExportArtifactToken E s tk) v) = exportJobs v" for s tk v
    by (rule keepsD) (auto simp: verifyExportArtifactToken_def intro!: core_intros
        split: option.splits prod.splits json.splits)
  show ?thesis
    using assms(2-4) t(2) by (simp add: t(1) getExportArtifact_def verify_sign getExportJob_def k)
qed

text \<open>A pending export job of a supported kind is completed by the worker with the first rows of the
  listing, one JSON document per line, cut at the size limit; any other kind is marked failed.\<close>

lemma export_job_result:
  "\<exists>t. exportJobs (exec (runExportJob E job) w) = jm_set (exportJobs w) (ej_id job)
    (if ej_kind job = ''audits_ndjson''
     then job\<lparr>ej_status := JCompleted, ej_resultNdjson := Some (truncateResult (lines (map
       (\<lambda>log. stringify (auditJson log)) (take (ej_maxExport job) (valu (listAudits E (ej_filter job)) w))))),
       ej_error := None, ej_updatedAt := t\<rparr>
     else job\<lparr>ej_status := JFailed, ej_error := Some (''unsupported export kind: '' @ ej_kind job), ej_updatedAt := t\<rparr>)"
proof -
  have k: "exportJobs (exec (exportLogs E f m p) v) = exportJobs v" for f m p v
    by (rule keepsD) (auto intro!: core_intros)
  show ?thesis
    by (auto simp: runExportJob_def recordExportJobOutcome_def bump_def run_simps Let_def k exportLogs_rows listAudits_def)
qed

end
