(* ===== verification/Reputation.thy ===== *)
theory Reputation
  imports Contracts
begin

text \<open>
  Outbound reputation events: the internal hook routes of \<open>index.ts\<close>, the webhook delivery
  (\<open>services/reputation-outbound.ts\<close>) and its dead letter queue (\<open>services/reputation-dlq.ts\<close>). A delivery
  scheduled with \<open>setImmediate\<close> waits in the queue of the world until the event loop runs it.
\<close>

section \<open>Dead letter queue\<close>

definition MAX_DLQ :: nat where
  "MAX_DLQ = 500"

definition dlqRow :: "ReputationOutboundBody \<Rightarrow> string \<Rightarrow> nat option \<Rightarrow> string option \<Rightarrow>
    ReputationDlqEntry option \<Rightarrow> ReputationDlqEntry" where
  "dlqRow body failedAt httpStatus err prev =
     \<lparr> dq_idempotencyKey = rb_idempotencyKey body, dq_body = body, dq_failedAt = failedAt,
       dq_lastHttpStatus = httpStatus, dq_lastError = err,
       dq_attempts = getOr 0 (map_option dq_attempts prev) + 1 \<rparr>"

text \<open>The oldest entries, in the order of insertion, make room.\<close>

definition dropOldest :: "(string, ReputationDlqEntry) jsmap \<Rightarrow> (string, ReputationDlqEntry) jsmap" where
  "dropOldest m = (if MAX_DLQ < length m
     then foldl jm_delete m (take (length m - MAX_DLQ) (jm_keys m)) else m)"

definition recordReputationOutboundDlq :: "env \<Rightarrow> ReputationOutboundBody \<Rightarrow> nat option \<Rightarrow> string option \<Rightarrow> unit io" where
  "recordReputationOutboundDlq E body httpStatus err = do {
     prev \<leftarrow> gets (\<lambda>w. jm_get (dlq w) (rb_idempotencyKey body));
     failedAt \<leftarrow> nowIso E;
     modify (dlq_update (\<lambda>m. dropOldest (jm_set m (rb_idempotencyKey body) (dlqRow body failedAt httpStatus err prev)))) }"

definition removeReputationDlq :: "string \<Rightarrow> unit io" where
  "removeReputationDlq k = modify (dlq_update (\<lambda>m. jm_delete m k))"

definition listReputationDlq :: "int \<Rightarrow> ReputationDlqEntry list io" where
  "listReputationDlq limit = gets (\<lambda>w. take (nat (min 200 (max 1 limit))) (rev (jm_values (dlq w))))"

definition getReputationDlq :: "string \<Rightarrow> ReputationDlqEntry option io" where
  "getReputationDlq k = gets (\<lambda>w. jm_get (dlq w) k)"

section \<open>Delivery\<close>

definition scheduleReputationOutboundWebhook :: "env \<Rightarrow> ReputationOutboundBody \<Rightarrow> unit io" where
  "scheduleReputationOutboundWebhook E body =
    (if trim (reputationWebhookUrl E) = '''' then ret ()
     else modify (webhookQueue_update (\<lambda>q. q @ [body])))"

definition tokenRefs :: "ReputationOutboundBody \<Rightarrow> payload" where
  "tokenRefs b = (case rb_tokenStandardRefs b of
     Some (r # rs) \<Rightarrow> [(''tokenStandardRefs'', JArr (map JStr (r # rs)))] | _ \<Rightarrow> [])"

definition recordReputationOutboundDelivery :: "bool \<Rightarrow> unit io" where
  "recordReputationOutboundDelivery ok = bump (if ok then ''deliveredOk'' else ''deliveredFail'') 1"

definition deliverReputationOutboundWebhook :: "env \<Rightarrow> ReputationOutboundBody \<Rightarrow> string \<Rightarrow> unit io" where
  "deliverReputationOutboundWebhook E body url = do {
     let key = rb_idempotencyKey body;
     emittedAt \<leftarrow> nowIso E;
     let envelope = JObj [(''schemaVersion'', JStr ''bluesafe.reputation.v2''), (''idempotencyKey'', JStr key),
       (''eventType'', JStr (rb_eventType body)), (''subjectType'', JStr (rb_subjectType body)),
       (''subjectId'', JStr (rb_subjectId body)), (''emittedAt'', JStr emittedAt),
       (''payload'', JObj (spread (getOr [] (rb_payload body)) (tokenRefs body)))];
     n \<leftarrow> tick;
     (case fetch E n url envelope of
        FetchThrew e \<Rightarrow> do {
          recordReputationOutboundDelivery False;
          recordReputationOutboundDlq E body None (Some e);
          writeAudit E (audit ''reputation'' key ''reputation.outbound_delivery_failed'' ''reputation_webhook'' None None
            (Some [(''error'', JStr e)]));
          emitEvent E ''reputation.outbound_delivery_failed'' (rb_subjectType body) (rb_subjectId body)
            [(''idempotencyKey'', JStr key), (''error'', JStr e)];
          ret () }
      | FetchResp st txt pl \<Rightarrow>
          if \<not> fetched_ok (FetchResp st txt pl) then do {
            recordReputationOutboundDelivery False;
            recordReputationOutboundDlq E body (Some st) (Some (take 500 txt));
            writeAudit E (audit ''reputation'' key ''reputation.outbound_delivery_failed'' ''reputation_webhook'' None None
              (Some [(''httpStatus'', JNum (int st)), (''detail'', JStr (take 500 txt))]));
            emitEvent E ''reputation.outbound_delivery_failed'' (rb_subjectType body) (rb_subjectId body)
              [(''idempotencyKey'', JStr key), (''httpStatus'', JNum (int st))];
            ret () }
          else do {
            removeReputationDlq key;
            recordReputationOutboundDelivery True;
            writeAudit E (audit ''reputation'' key ''reputation.outbound_delivered'' ''reputation_webhook'' None None
              (Some [(''httpStatus'', JNum (int st))]));
            at \<leftarrow> nowIso E;
            emitEvent E ''reputation.outbound_delivered'' (rb_subjectType body) (rb_subjectId body)
              [(''idempotencyKey'', JStr key), (''at'', JStr at)];
            ret () }) }"

text \<open>One turn of the event loop: the first scheduled delivery runs.\<close>

definition runScheduledWebhook :: "env \<Rightarrow> unit io" where
  "runScheduledWebhook E = do {
     q \<leftarrow> gets webhookQueue;
     (case q of
        [] \<Rightarrow> ret ()
      | body # rest \<Rightarrow> do {
         modify (webhookQueue_update (\<lambda>_. rest));
         deliverReputationOutboundWebhook E body (trim (reputationWebhookUrl E)) }) }"

section \<open>Routes\<close>

text \<open>The bearer token of the internal hooks; without a configured token every caller passes.\<close>

definition internalAuth :: "env \<Rightarrow> request \<Rightarrow> bool" where
  "internalAuth E req =
    (let tok = trim (getOr '''' (metricsScrapeToken E)) in
     tok = '''' \<or> rq_header req ''authorization'' = Some (''Bearer '' @ tok))"

definition reputationOutboundSchema :: "ReputationOutboundBody \<Rightarrow> bool" where
  "reputationOutboundSchema b =
    (1 \<le> length (rb_idempotencyKey b) \<and> length (rb_idempotencyKey b) \<le> 256 \<and>
     1 \<le> length (rb_eventType b) \<and> length (rb_eventType b) \<le> 128 \<and>
     1 \<le> length (rb_subjectType b) \<and> length (rb_subjectType b) \<le> 64 \<and>
     1 \<le> length (rb_subjectId b) \<and> length (rb_subjectId b) \<le> 256 \<and>
     optionally (\<lambda>rs. length rs \<le> 32 \<and> list_all (\<lambda>r. 1 \<le> length r \<and> length r \<le> 64) rs) (rb_tokenStandardRefs b))"

definition postReputationEvent :: "env \<Rightarrow> request \<Rightarrow> ReputationOutboundBody option \<Rightarrow> unit handler" where
  "postReputationEvent E req body =
    (if \<not> internalAuth E req then ret (HttpErr 401 ''B2_UNAUTHORIZED'')
     else case safeParse reputationOutboundSchema body of
       None \<Rightarrow> ret (HttpErr 400 ''B2_VALIDATION_ERROR'')
     | Some b \<Rightarrow>
       if xlsAllowlist E \<noteq> [] \<and> \<not> list_all (\<lambda>r. r \<in> set (xlsAllowlist E)) (getOr [] (rb_tokenStandardRefs b))
       then ret (HttpErr 400 ''B2_VALIDATION_ERROR'')
       else do {
         emitEvent E ''reputation.outbound_queued'' (rb_subjectType b) (rb_subjectId b)
           (spread (spread [(''idempotencyKey'', JStr (rb_idempotencyKey b)), (''eventType'', JStr (rb_eventType b))]
             (getOr [] (rb_payload b))) (tokenRefs b));
         writeAudit E (audit ''reputation'' (rb_idempotencyKey b) ''reputation.outbound_queued'' ''internal_hook'' None None
           (Some [(''eventType'', JStr (rb_eventType b)), (''subjectType'', JStr (rb_subjectType b)),
             (''subjectId'', JStr (rb_subjectId b))]));
         scheduleReputationOutboundWebhook E b;
         ret (HttpOk 202 ()) })"

text \<open>\<open>Number(limit) || 50\<close>: a missing, unreadable or zero limit is 50.\<close>

definition getReputationDelivery :: "env \<Rightarrow> request \<Rightarrow> int option \<Rightarrow> ReputationDlqEntry list handler" where
  "getReputationDelivery E req limit =
    (if \<not> internalAuth E req then ret (HttpErr 401 ''B2_UNAUTHORIZED'')
     else do {
       let l = getOr 0 limit;
       items \<leftarrow> listReputationDlq (min 200 (max 1 (if l = 0 then 50 else l)));
       ret (HttpOk 200 items) })"

definition retryReputationDelivery :: "env \<Rightarrow> request \<Rightarrow> string option \<Rightarrow> string handler" where
  "retryReputationDelivery E req key =
    (if \<not> internalAuth E req then ret (HttpErr 401 ''B2_UNAUTHORIZED'')
     else case safeParse (\<lambda>k. 1 \<le> length k \<and> length k \<le> 256) key of
       None \<Rightarrow> ret (HttpErr 400 ''B2_VALIDATION_ERROR'')
     | Some k \<Rightarrow> do {
        entry \<leftarrow> getReputationDlq k;
        (case entry of
           None \<Rightarrow> ret (HttpErr 404 ''B2_NOT_FOUND'')
         | Some e \<Rightarrow> do {
            scheduleReputationOutboundWebhook E (dq_body e);
            writeAudit E (audit ''reputation'' (dq_idempotencyKey e) ''reputation.outbound_retry_queued'' ''internal_hook''
              None None (Some [(''attempts'', JNum (int (dq_attempts e)))]));
            ret (HttpOk 202 (dq_idempotencyKey e)) }) })"

section \<open>Bound of the queue\<close>

definition dlq_ok :: "world \<Rightarrow> bool" where
  "dlq_ok w = (jm_ok (dlq w) \<and> length (dlq w) \<le> MAX_DLQ \<and>
     entries (\<lambda>k e. dq_idempotencyKey e = k \<and> rb_idempotencyKey (dq_body e) = k) (dlq w))"

lemma length_jm_set: "length (jm_set m k v) = (if jm_get m k = None then Suc (length m) else length m)"
  by (induction m k v rule: jm_set.induct) auto

lemma delete_prefix: "jm_ok m \<Longrightarrow> foldl jm_delete m (take d (jm_keys m)) = drop d m"
proof (induction m arbitrary: d)
  case (Cons kv m)
  obtain k v where kv: "kv = (k, v)" by (cases kv)
  have "jm_delete (kv # m) k = m"
    using Cons.prems by (force simp: kv jm_ok_def jm_delete_def filter_id_conv)
  with Cons show ?case by (cases d) (auto simp: kv jm_keys_def jm_ok_def)
qed (simp add: jm_keys_def)

lemma dropOldest_drop: "jm_ok m \<Longrightarrow> dropOldest m = drop (length m - MAX_DLQ) m"
  by (simp add: dropOldest_def delete_prefix)

lemma jm_get_drop: "jm_ok m \<Longrightarrow> jm_get (drop d m) k = Some v \<Longrightarrow> jm_get m k = Some v"
proof -
  assume m: "jm_ok m" "jm_get (drop d m) k = Some v"
  then have "(k, v) \<in> set m" by (auto simp: jm_get_def dest: map_of_SomeD in_set_dropD)
  with m(1) show ?thesis by (simp add: jm_ok_def jm_get_def)
qed

text \<open>The entry that was written last survives the cut.\<close>

lemma dropOldest_set:
  assumes "jm_ok m" "length m \<le> MAX_DLQ"
  shows "jm_get (dropOldest (jm_set m k v)) k = Some v" "jm_ok (dropOldest (jm_set m k v))"
    "length (dropOldest (jm_set m k v)) \<le> MAX_DLQ"
    "entries P (jm_set m k v) \<Longrightarrow> entries P (dropOldest (jm_set m k v))"
proof -
  let ?m = "jm_set m k v" and ?d = "length (jm_set m k v) - MAX_DLQ"
  have ok: "jm_ok ?m" using assms(1) by simp
  have d: "dropOldest ?m = drop ?d ?m" using ok by (rule dropOldest_drop)
  show "length (dropOldest ?m) \<le> MAX_DLQ" unfolding d by simp
  show "jm_ok (dropOldest ?m)" unfolding d using ok by (simp add: jm_ok_def drop_map [symmetric])
  show "entries P (dropOldest ?m)" if "entries P ?m"
    unfolding d using that jm_get_drop [OF ok] by (auto simp: jm.all_entries_def)
  show "jm_get (dropOldest ?m) k = Some v"
  proof (cases "jm_get m k = None")
    case True
    have app: "jm_get m k = None \<Longrightarrow> jm_set m k v = m @ [(k, v)]"
      by (induction m k v rule: jm_set.induct) auto
    have "?d \<le> length m" using assms(2) by (simp add: length_jm_set True MAX_DLQ_def)
    then have "dropOldest ?m = drop ?d m @ [(k, v)]" unfolding d by (simp add: app [OF True])
    moreover have "jm_get (drop ?d m) k = None"
      using True jm_get_drop [OF assms(1)] by (cases "jm_get (drop ?d m) k") fastforce+
    ultimately show ?thesis by (simp add: jm_get_def map_add_def)
  next
    case False
    then have "?d = 0" using assms(2) by (auto simp: length_jm_set)
    then show ?thesis unfolding d by simp
  qed
qed

section \<open>Frames\<close>

lemmas reputation_defs = postReputationEvent_def retryReputationDelivery_def runScheduledWebhook_def
  deliverReputationOutboundWebhook_def recordReputationOutboundDelivery_def recordReputationOutboundDlq_def
  removeReputationDlq_def scheduleReputationOutboundWebhook_def getReputationDlq_def

lemma tle_reputation [tle_intros]:
  "steps ticks_le (postReputationEvent E req b)" "steps ticks_le (retryReputationDelivery E req k)"
  "steps ticks_le (runScheduledWebhook E)"
  unfolding reputation_defs Let_def by (auto intro!: tle_intros split: option.splits list.splits fetched.splits)

lemma core_reputation [core_intros]:
  assumes "core_obs f" "\<And>w g. f (dlq_update g w) = f w" "\<And>w g. f (webhookQueue_update g w) = f w"
  shows "keeps f (postReputationEvent E req b)" "keeps f (retryReputationDelivery E req k)"
    "keeps f (runScheduledWebhook E)"
  unfolding reputation_defs Let_def
  by (auto intro!: core_intros keeps_modify assms split: option.splits list.splits fetched.splits)

lemma notify_reputation [notify_intros]:
  assumes "env_ok E"
  shows "steps (notify_rel E) (postReputationEvent E req b)" "steps (notify_rel E) (retryReputationDelivery E req k)"
    "steps (notify_rel E) (runScheduledWebhook E)"
  unfolding reputation_defs Let_def
  by (auto intro!: notify_intros assms split: option.splits list.splits fetched.splits)

section \<open>A delivery\<close>

lemma webhook_turn:
  assumes "dlq_ok w" "webhookQueue w = body # rest"
  shows "\<exists>envelope. let w' = exec (runScheduledWebhook E) w; k = rb_idempotencyKey body;
      r = fetch E (Suc (ticks w)) (trim (reputationWebhookUrl E)) envelope in
    webhookQueue w' = rest \<and> dlq_ok w' \<and>
    (if fetched_ok r then jm_get (dlq w') k = None
     else \<exists>e. jm_get (dlq w') k = Some e \<and> dq_body e = body \<and>
       dq_attempts e = getOr 0 (map_option dq_attempts (jm_get (dlq w) k)) + 1)"
proof -
  let ?w' = "exec (runScheduledWebhook E) w" and ?k = "rb_idempotencyKey body"
  define envelope where "envelope = JObj [(''schemaVersion'', JStr ''bluesafe.reputation.v2''), (''idempotencyKey'', JStr ?k),
       (''eventType'', JStr (rb_eventType body)), (''subjectType'', JStr (rb_subjectType body)),
       (''subjectId'', JStr (rb_subjectId body)), (''emittedAt'', JStr (toISOString (clockMs E (ticks w)))),
       (''payload'', JObj (spread (getOr [] (rb_payload body)) (tokenRefs body)))]"
  let ?r = "fetch E (Suc (ticks w)) (trim (reputationWebhookUrl E)) envelope"
  have q: "webhookQueue ?w' = rest"
    and d: "if fetched_ok ?r then dlq ?w' = jm_delete (dlq w) ?k
      else \<exists>t st err. dlq ?w' = dropOldest (jm_set (dlq w) ?k (dlqRow body t st err (jm_get (dlq w) ?k)))"
    using assms(2)
    by (cases ?r; auto simp: envelope_def fetched_ok_def reputation_defs bump_def writeAudit_def appendAudit_def
        emitEvent_def appendEvent_def run_simps Let_def)+
  have ok: "jm_ok (dlq w)" "length (dlq w) \<le> MAX_DLQ"
    "entries (\<lambda>k e. dq_idempotencyKey e = k \<and> rb_idempotencyKey (dq_body e) = k) (dlq w)"
    using assms(1) by (simp_all add: dlq_ok_def)
  have "dlq_ok ?w' \<and> (if fetched_ok ?r then jm_get (dlq ?w') ?k = None
     else \<exists>e. jm_get (dlq ?w') ?k = Some e \<and> dq_body e = body \<and>
       dq_attempts e = getOr 0 (map_option dq_attempts (jm_get (dlq w) ?k)) + 1)"
  proof (cases "fetched_ok ?r")
    case True
    have "length (jm_delete (dlq w) ?k) \<le> MAX_DLQ"
      unfolding jm_delete_def using ok(2) by (rule order_trans [OF length_filter_le])
    with True d ok show ?thesis by (auto simp: dlq_ok_def)
  next
    case False
    with d obtain t st err where m: "dlq ?w' = dropOldest (jm_set (dlq w) ?k (dlqRow body t st err (jm_get (dlq w) ?k)))"
      by auto
    let ?e = "dlqRow body t st err (jm_get (dlq w) ?k)"
    have e: "dq_idempotencyKey ?e = ?k" "dq_body ?e = body"
      "dq_attempts ?e = getOr 0 (map_option dq_attempts (jm_get (dlq w) ?k)) + 1"
      by (simp_all add: dlqRow_def)
    have "entries (\<lambda>k e. dq_idempotencyKey e = k \<and> rb_idempotencyKey (dq_body e) = k) (jm_set (dlq w) ?k ?e)"
      by (rule jm.all_entries_put [OF ok(3)]) (simp add: e)
    then have "dlq_ok ?w'"
      unfolding dlq_ok_def m using dropOldest_set(2,3) [OF ok(1,2)] dropOldest_set(4) [OF ok(1,2)] by blast
    with False e dropOldest_set(1) [OF ok(1,2)] show ?thesis unfolding m by simp
  qed
  with q show ?thesis unfolding Let_def by blast
qed

lemma dlq_core: "keeps dlq m \<Longrightarrow> preserves dlq_ok m"
  by (erule preserves_of_keeps) (simp add: dlq_ok_def)

lemma keeps_dlq_routes: "keeps dlq (postReputationEvent E req b)" "keeps dlq (retryReputationDelivery E req k)"
  unfolding postReputationEvent_def retryReputationDelivery_def scheduleReputationOutboundWebhook_def getReputationDlq_def Let_def
  by (auto intro!: core_intros keeps_modify split: option.splits)

lemma dlq_reputation:
  "preserves dlq_ok (postReputationEvent E req b)" "preserves dlq_ok (retryReputationDelivery E req k)"
  "preserves dlq_ok (runScheduledWebhook E)"
proof -
  show "preserves dlq_ok (postReputationEvent E req b)" "preserves dlq_ok (retryReputationDelivery E req k)"
    by (rule dlq_core, rule keeps_dlq_routes)+
  show "preserves dlq_ok (runScheduledWebhook E)"
  proof (rule preservesI)
    fix w assume "dlq_ok w"
    then show "dlq_ok (exec (runScheduledWebhook E) w)"
      using webhook_turn [of w]
      by (cases "webhookQueue w") (fastforce simp: runScheduledWebhook_def run_simps Let_def)+
  qed
qed

end
