(* ===== verification/Server.thy ===== *)
theory Server
  imports Settlements Evidence Audits Reputation
begin

text \<open>
  The service as a whole: the requests and the background workers as one step relation on the store,
  the invariant of the reachable stores and the life cycles of the stored objects along a run.
  Requests and worker ticks run one after the other here; each handler runs to its end before the
  next step begins.
\<close>

section \<open>Steps\<close>

inductive server_step :: "env \<Rightarrow> world \<Rightarrow> world \<Rightarrow> bool" for E :: env where
  post_contract: "server_step E w (exec (postContract E req cb) w)"
| patch_contract: "server_step E w (exec (patchContractStatus E req i cs) w)"
| anchor: "server_step E w (exec (escrowAnchor E req i h) w)"
| track: "server_step E w (exec (postTrack E req tb) w)"
| read_tx: "server_step E w (exec (getXrplTxRoute E req i rf) w)"
| refresh_tx: "server_step E w (exec (refreshXrplTx E req i) w)"
| run_backfill: "server_step E w (exec (backfill E req bb) w)"
| policy_worker: "server_step E w (exec (policyTick E ttl) w)"
| subscribe_worker: "server_step E w (exec (handleTransaction E adm stream) w)"
| post_dispute: "server_step E w (exec (postDispute E req db) w)"
| patch_dispute: "server_step E w (exec (patchDisputeStatus E req i ds) w)"
| post_vote: "server_step E w (exec (postVerifierVote E req i vb) w)"
| escalate: "server_step E w (exec (escalateDispute E req i) w)"
| decide: "server_step E w (exec (postDecision E req i nb) w)"
| execute: "server_step E w (exec (postExecution E req i xb) w)"
| sla_scan: "server_step E w (exec (slaScan E req) w)"
| ledger_closed: "server_step E w (exec (handleLedgerClosed E lstream touch) w)"
| patch_settlement: "server_step E w (exec (patchSettlement E req i sb) w)"
| post_evidence: "server_step E w (exec (postEvidence E req mu fo) w)"
| verify_evidence: "server_step E w (exec (verifyEvidence E req ve) w)"
| read_evidence: "server_step E w (exec (getEvidenceRoute E req i) w)"
| download_evidence: "server_step E w (exec (getEvidenceContent E req i) w)"
| patch_evidence: "server_step E w (exec (patchEvidenceMetadata E req i mp) w)"
| retention: "server_step E w (exec (retentionRun E req) w)"
| registry: "server_step E w (exec (upsertVerifier E req gb) w)"
| post_notification: "server_step E w (exec (postNotification E req nn) w)"
| dispatch_notification: "server_step E w (exec (postNotificationDispatch E req nd) w)"
| retry_outbox: "server_step E w (exec (retryOutbox E req i) w)"
| notification_worker: "server_step E w (exec (processBatch E) w)"
| outbox_worker: "server_step E w (exec (runOutboxFanoutTick E saveFails) w)"
| list_audits: "server_step E w (exec (listAuditsRoute E req aq) w)"
| audits_ndjson: "server_step E w (exec (reportAuditsNdjson E req ra) w)"
| audits_csv: "server_step E w (exec (reportAuditsCsv E req ra) w)"
| report_summary: "server_step E w (exec (reportSummary E req rs) w)"
| post_export_job: "server_step E w (exec (postExportJob E req je) w)"
| export_worker: "server_step E w (exec (runExportJobTick E) w)"
| artifact_url: "server_step E w (exec (getArtifactUrl E req i) w)"
| artifact: "server_step E w (exec (getExportArtifact E tk) w)"
| reputation_event: "server_step E w (exec (postReputationEvent E req rb) w)"
| reputation_retry: "server_step E w (exec (retryReputationDelivery E req rk) w)"
| webhook_delivery: "server_step E w (exec (runScheduledWebhook E) w)"

abbreviation server_run :: "env \<Rightarrow> world \<Rightarrow> world \<Rightarrow> bool" where
  "server_run E \<equiv> (server_step E)\<^sup>*\<^sup>*"

definition reachable :: "env \<Rightarrow> world \<Rightarrow> bool" where
  "reachable E w = server_run E empty_world w"

section \<open>What every step keeps\<close>

definition server_rel :: "env \<Rightarrow> world \<Rightarrow> world \<Rightarrow> bool" where
  "server_rel E w w' = (notify_rel E w w' \<and> clife.life E w w' \<and> case_rel E w w' \<and>
     inv_rel txs_ok w w' \<and> inv_rel votes_ok w w' \<and> slife.life w w' \<and> ev_rel E w w' \<and> inv_rel dlq_ok w w')"

interpretation srel: step_rel "server_rel E" for E
  by unfold_locales
    (auto simp: server_rel_def inv_rel_def nrel.refl clife.life_refl crel.refl slife.life_refl evrel.refl
      intro: nrel.trans clife.life_trans crel.trans slife.life_trans evrel.trans)

lemma server_stepsI:
  assumes "steps (notify_rel E) m" "steps (clife.life E) m" "steps (case_rel E) m"
    "preserves txs_ok m" "preserves votes_ok m" "steps slife.life m" "steps (ev_rel E) m" "preserves dlq_ok m"
  shows "steps (server_rel E) m"
  using assms by (simp add: server_rel_def steps_def)

lemma clife_core: "keeps contracts m \<Longrightarrow> steps ticks_le m \<Longrightarrow> steps (clife.life E) m"
  by (rule clife.step_same)

lemmas server_core = clife_core case_core txs_core votes_core slife_core ev_core dlq_core

lemma server_contracts:
  assumes "env_ok E"
  shows "steps (server_rel E) (postContract E req cb)" "steps (server_rel E) (patchContractStatus E req i cs)"
    "steps (server_rel E) (escrowAnchor E req i h)"
  by (intro server_stepsI notify_contract_routes clife_contract_routes case_core txs_core votes_core slife_core ev_core dlq_core
      core_contract_routes tle_contract_routes assms; simp)+

lemma server_notifications:
  assumes "env_ok E"
  shows "steps (server_rel E) (postNotification E req nn)" "steps (server_rel E) (postNotificationDispatch E req nd)"
    "steps (server_rel E) (retryOutbox E req i)" "steps (server_rel E) (processBatch E)"
    "steps (server_rel E) (runOutboxFanoutTick E sf)"
  by (intro server_stepsI notify_routes notify_processBatch notify_runOutboxFanoutTick server_core
      core_notifications tle_intros assms; simp)+

lemma server_tracking:
  assumes "env_ok E"
  shows "steps (server_rel E) (postTrack E req tb)" "steps (server_rel E) (getXrplTxRoute E req i rf)"
    "steps (server_rel E) (refreshXrplTx E req i)" "steps (server_rel E) (backfill E req bb)"
    "steps (server_rel E) (policyTick E ttl)" "steps (server_rel E) (handleTransaction E adm str)"
  by (intro server_stepsI notify_tracking case_tracking txs_tracking txs_backfill txs_policyTick
      clife_core votes_core slife_core ev_core dlq_core core_tracking tle_tracking assms; simp)+

lemma server_disputes:
  assumes "env_ok E"
  shows "steps (server_rel E) (postDispute E req db)" "steps (server_rel E) (patchDisputeStatus E req i ds)"
    "steps (server_rel E) (escalateDispute E req i)" "steps (server_rel E) (postDecision E req i nb)"
    "steps (server_rel E) (postExecution E req i xb)" "steps (server_rel E) (slaScan E req)"
  by (intro server_stepsI notify_dispute_routes case_dispute_routes txs_dispute_routes txs_postExecution
      clife_core votes_core slife_core ev_core dlq_core core_dispute_routes core_vote_route core_trackExecution tle_dispute_routes assms; simp)+

lemma server_votes:
  assumes "env_ok E"
  shows "steps (server_rel E) (postVerifierVote E req i vb)" "steps (server_rel E) (upsertVerifier E req gb)"
  by (intro server_stepsI notify_dispute_routes txs_dispute_routes votes_postVerifierVote
      server_core core_vote_route tle_dispute_routes assms; simp)+

lemma server_settlements:
  assumes "env_ok E"
  shows "steps (server_rel E) (handleLedgerClosed E str te)" "steps (server_rel E) (patchSettlement E req i sb)"
  by (intro server_stepsI notify_settlements slife_handleLedgerClosed slife_patchSettlement
      clife_core case_core txs_core votes_core ev_core dlq_core core_settlements tle_settlements assms; simp)+

lemma server_evidence:
  assumes "env_ok E"
  shows "steps (server_rel E) (postEvidence E req mu fo)" "steps (server_rel E) (verifyEvidence E req ve)"
    "steps (server_rel E) (getEvidenceRoute E req i)" "steps (server_rel E) (getEvidenceContent E req i)"
    "steps (server_rel E) (patchEvidenceMetadata E req i mp)" "steps (server_rel E) (retentionRun E req)"
  by (intro server_stepsI notify_evidence ev_evidence_routes clife_core case_core txs_core votes_core slife_core dlq_core
      core_evidence core_evidence_reads tle_evidence assms; simp)+

lemma server_audits:
  assumes "env_ok E"
  shows "steps (server_rel E) (listAuditsRoute E req aq)" "steps (server_rel E) (reportAuditsNdjson E req ra)"
    "steps (server_rel E) (reportAuditsCsv E req ra)" "steps (server_rel E) (reportSummary E req rs)"
    "steps (server_rel E) (postExportJob E req je)" "steps (server_rel E) (runExportJobTick E)"
    "steps (server_rel E) (getArtifactUrl E req i)" "steps (server_rel E) (getExportArtifact E tk)"
  by (intro server_stepsI notify_audits server_core core_audit_reads core_export_jobs tle_audits assms; simp)+

lemma server_reputation:
  assumes "env_ok E"
  shows "steps (server_rel E) (postReputationEvent E req rb)" "steps (server_rel E) (retryReputationDelivery E req rk)"
    "steps (server_rel E) (runScheduledWebhook E)"
  by (intro server_stepsI notify_reputation dlq_reputation clife_core case_core txs_core votes_core slife_core ev_core
      core_reputation tle_reputation assms; simp)+

lemmas server_ops = server_audits server_reputation server_settlements server_evidence server_contracts server_notifications server_tracking server_disputes server_votes

lemma server_step_rel:
  assumes "env_ok E" "server_step E w w'"
  shows "server_rel E w w'"
  using assms(2) by cases (simp_all add: server_ops [THEN stepsD] assms(1))

lemma server_run_rel:
  assumes "server_run E w w'" "env_ok E"
  shows "server_rel E w w'"
  using assms(1)
proof (induction rule: rtranclp_induct)
  case base
  show ?case by (rule srel.refl)
next
  case (step v v')
  from step.IH server_step_rel [OF assms(2) step.hyps(2)] show ?case by (rule srel.trans)
qed

section \<open>Invariant of the reachable stores\<close>

definition server_inv :: "env \<Rightarrow> world \<Rightarrow> bool" where
  "server_inv E w = (notify_inv E w \<and> clife.coherent E w \<and> case_ok E w \<and> txs_ok w \<and> votes_ok w \<and>
     slife.coherent w \<and> ev_ok E w \<and> dlq_ok w)"

lemma server_inv_empty: "server_inv E empty_world"
  by (simp add: server_inv_def notify_inv_def nlife.coherent_def olife.coherent_def clife.coherent_def
      dlife.coherent_def dclife.coherent_def slife.coherent_def ev_ok_def dlq_ok_def case_ok_def one_decision_def decisions_of_def txs_ok_def
      votes_ok_def budget_ok_def outbox_index_def empty_world_def jm_ok_def jm_values_def jm_get_def
      jm.all_entries_def)

lemma server_rel_inv: "server_rel E w w' \<Longrightarrow> server_inv E w \<Longrightarrow> server_inv E w'"
  by (auto simp: server_inv_def server_rel_def inv_rel_def notify_rel_def
      ev_rel_def intro: clife.life_coherent slife.life_coherent case_relD)

lemma reachable_inv: "env_ok E \<Longrightarrow> reachable E w \<Longrightarrow> server_inv E w"
  unfolding reachable_def using server_run_rel server_rel_inv server_inv_empty by blast

lemma reachable_trans: "reachable E w \<Longrightarrow> server_run E w w' \<Longrightarrow> reachable E w'"
  unfolding reachable_def by (rule rtranclp_trans)

end
