(* ===== verification/Scenario.thy ===== *)
theory Scenario
  imports Server
begin

text \<open>
  A sample configuration with sample external services, sample objects and stores, and a scenario: a
  run of the service from the empty store that creates a contract, stores evidence, files a dispute,
  queues a notification, tracks a transaction and closes a ledger.
\<close>

section \<open>Sample data\<close>

definition sample_env :: env where
  "sample_env = \<lparr>
    v1BearerToken = '''', mtlsClientCertSubjectHeader = '''', authEnabled = True,
    operatorConsoleScopesEnabled = True, ipfsPinata = False, pinataJwt = '''',
    pinataEndpoint = '''', pinataUnpinBaseUrl = '''', pinataMaxAttempts = 3, xrplEnabled = False,
    maxSubscribeAccounts = 3, policyIntervalMs = 1000, policyPendingTimeoutMs = 1000,
    policyBatchSize = 3, policyMaxNotFoundProbes = 3, policyAccountBackfillPerTick = 3,
    policyMaxBackoffMs = 1000, notificationMaxAttempts = 3, notificationBatchSize = 3,
    retryInitialBackoffMs = 1000, retryMaxBackoffMs = 8000, emailWebhookUrl = '''',
    pushWebhookUrl = '''', providerMode = '''', autoDomainEnqueue = False, domainOutbox = False,
    outboxFanoutBatchSize = 3, outboxStaleProcessingMs = 1000, outboxDispatchMaxAttempts = 3,
    exportBatchSize = 3, artifactSigningSecret = '''', artifactUrlTtlSec = 1000,
    metricsScrapeToken = None, reputationWebhookUrl = '''', xlsAllowlist = [],
    syntheticExecutionHashEnabled = False, deploymentTier = Strict, submitEnabled = False,
    submitSeed = '''', verifierQuorumK = 1, reviewDeadlineDays = 14, slaAutoEscalate = True,
    ledgerCloseTouchEnabled = False, autoNotifyOnConfirmed = False, maxRetentionDays = 3,
    encryptionKeyBase64 = '''', kmsKeyRef = '''', kmsStubDekBase64 = '''', kmsHttpUnwrapUrl = '''',
    kmsWrappedDekBase64 = '''', ipfsGatewayBase = '''',
    clockMs = (\<lambda>n. 1700000000000 + int n), uuid16 = show_nat, sha256Hex = (\<lambda>s. s),
    hmacSha256 = (\<lambda>k s. s), dateParse = (\<lambda>s. Some 0),
    localeLe = (\<lambda>a b. a \<le> b), zodDatetime = (\<lambda>s. True),
    rippledConnects = (\<lambda>n. False), rippledRequest = (\<lambda>n c p. None),
    rippledSubmit = (\<lambda>n p s. None), walletAddress = (\<lambda>s. s),
    fetch = (\<lambda>n u j. FetchThrew ''offline''), base64Decode = (\<lambda>s. s),
    randomBytes = (\<lambda>n k. replicate k CHR ''r''),
    aesGcmEncrypt = (\<lambda>k iv p. (p, replicate 16 CHR ''t'')), aesGcmDecrypt = (\<lambda>k i c t. Some c) \<rparr>"

lemma sample_env_simps [simp]:
  "v1BearerToken sample_env = ''''" "mtlsClientCertSubjectHeader sample_env = ''''"
  "authEnabled sample_env = True" "operatorConsoleScopesEnabled sample_env = True"
  "ipfsPinata sample_env = False" "pinataJwt sample_env = ''''" "pinataEndpoint sample_env = ''''"
  "pinataUnpinBaseUrl sample_env = ''''" "pinataMaxAttempts sample_env = 3"
  "xrplEnabled sample_env = False" "maxSubscribeAccounts sample_env = 3"
  "policyIntervalMs sample_env = 1000" "policyPendingTimeoutMs sample_env = 1000"
  "policyBatchSize sample_env = 3" "policyMaxNotFoundProbes sample_env = 3"
  "policyAccountBackfillPerTick sample_env = 3" "policyMaxBackoffMs sample_env = 1000"
  "notificationMaxAttempts sample_env = 3" "notificationBatchSize sample_env = 3"
  "retryInitialBackoffMs sample_env = 1000" "retryMaxBackoffMs sample_env = 8000"
  "emailWebhookUrl sample_env = ''''" "pushWebhookUrl sample_env = ''''"
  "providerMode sample_env = ''''" "autoDomainEnqueue sample_env = False"
  "domainOutbox sample_env = False" "outboxFanoutBatchSize sample_env = 3"
  "outboxStaleProcessingMs sample_env = 1000" "outboxDispatchMaxAttempts sample_env = 3"
  "exportBatchSize sample_env = 3" "artifactSigningSecret sample_env = ''''"
  "artifactUrlTtlSec sample_env = 1000" "metricsScrapeToken sample_env = None"
  "reputationWebhookUrl sample_env = ''''" "xlsAllowlist sample_env = []"
  "syntheticExecutionHashEnabled sample_env = False" "deploymentTier sample_env = Strict"
  "submitEnabled sample_env = False" "submitSeed sample_env = ''''" "verifierQuorumK sample_env = 1"
  "reviewDeadlineDays sample_env = 14" "slaAutoEscalate sample_env = True"
  "ledgerCloseTouchEnabled sample_env = False" "autoNotifyOnConfirmed sample_env = False"
  "maxRetentionDays sample_env = 3" "encryptionKeyBase64 sample_env = ''''"
  "kmsKeyRef sample_env = ''''" "kmsStubDekBase64 sample_env = ''''"
  "kmsHttpUnwrapUrl sample_env = ''''" "kmsWrappedDekBase64 sample_env = ''''"
  "ipfsGatewayBase sample_env = ''''" "clockMs sample_env = (\<lambda>n. 1700000000000 + int n)"
  "uuid16 sample_env = show_nat" "sha256Hex sample_env = (\<lambda>s. s)"
  "hmacSha256 sample_env = (\<lambda>k s. s)" "dateParse sample_env = (\<lambda>s. Some 0)"
  "localeLe sample_env = (\<lambda>a b. a \<le> b)" "zodDatetime sample_env = (\<lambda>s. True)"
  "rippledConnects sample_env = (\<lambda>n. False)"
  "rippledRequest sample_env = (\<lambda>n c p. None)"
  "rippledSubmit sample_env = (\<lambda>n p s. None)" "walletAddress sample_env = (\<lambda>s. s)"
  "fetch sample_env = (\<lambda>n u j. FetchThrew ''offline'')"
  "base64Decode sample_env = (\<lambda>s. s)" "randomBytes sample_env = (\<lambda>n k. replicate k CHR ''r'')"
  "aesGcmEncrypt sample_env = (\<lambda>k iv p. (p, replicate 16 CHR ''t''))"
  "aesGcmDecrypt sample_env = (\<lambda>k i c t. Some c)"
  by (simp_all add: sample_env_def)

lemma sample_env_ok: "env_ok sample_env"
  by (simp add: env_ok_def inj_def)

definition sample_req :: "string \<Rightarrow> (string \<times> string) list \<Rightarrow> request" where
  "sample_req meth headers = \<lparr> rq_method = meth, rq_header = map_of headers \<rparr>"

definition operator_auth :: "BluesafeAuth option" where
  "operator_auth = Some \<lparr> ba_role = Operator, ba_tenantId = None, ba_landlordId = None \<rparr>"

definition sample_contract :: Contract where
  "sample_contract = \<lparr> ct_id = ''c1'', ct_tenantId = ''t1'', ct_landlordId = ''l1'', ct_status = Active,
     ct_escrowCreateTxHash = None, ct_depositAmount = None, ct_stakeAmount = None, ct_startsAt = None,
     ct_endsAt = None, ct_createdAt = ''2026-01-01'', ct_updatedAt = ''2026-01-01'' \<rparr>"

definition sample_dispute :: "DisputeStatus \<Rightarrow> DisputeCase" where
  "sample_dispute s = \<lparr> ds_id = ''d1'', ds_contractId = ''c1'', ds_raisedBy = ByTenant,
     ds_reasonCode = ''deposit'', ds_status = s, ds_evidenceBundle = [''e1''], ds_createdAt = ''2026-01-01'',
     ds_updatedAt = ''2026-01-01'', ds_reviewDeadlineAt = Some ''2026-01-15'', ds_escalatedAt = None \<rparr>"

definition sample_tx :: XrplTransaction where
  "sample_tx = \<lparr> tx_id = ''x1'', tx_txHash = ''HASH0001'', tx_txType = ''EscrowFinish'', tx_account = None,
     tx_disputeId = Some ''d1'', tx_network = Testnet, tx_trackingStatus = PendingValidation,
     tx_validated = False, tx_ledgerIndex = None, tx_resultCode = None, tx_outcomeClass = None,
     tx_retries = 2, tx_lastCheckedAt = ''2026-01-01'', tx_escrowOwner = None, tx_escrowDestination = None,
     tx_escrowOfferSequence = None, tx_escrowSubmitterAccount = None \<rparr>"

definition sample_job :: DelayedJob where
  "sample_job = \<lparr> dj_id = ''j1'', dj_kind = ''k'', dj_payload = [], dj_runAfter = ''2026-01-01'',
     dj_attempts = 0, dj_maxAttempts = 9, dj_lockedUntil = None, dj_lastError = None,
     dj_createdAt = ''2026-01-01'', dj_updatedAt = ''2026-01-01'' \<rparr>"

definition live_report :: "bool \<Rightarrow> string option \<Rightarrow> LiveTxStatus" where
  "live_report v rc = \<lparr> lt_txHash = ''HASH0001'', lt_validated = v, lt_ledgerIndex = None, lt_resultCode = rc,
     lt_transactionType = None, lt_account = None, lt_escrow = noEscrowFields \<rparr>"

definition sample_world :: "DisputeStatus \<Rightarrow> world" where
  "sample_world s = empty_world\<lparr>contracts := [(''c1'', sample_contract)],
     disputes := [(''d1'', sample_dispute s)], xrplTxs := [(''HASH0001'', sample_tx)],
     delayedJobs := [(''j1'', sample_job)]\<rparr>"

lemmas samples = sample_world_def empty_world_def sample_contract_def sample_dispute_def sample_tx_def
  sample_job_def operator_auth_def jm_get_def

section \<open>Scenario\<close>

definition operator_request :: request where
  "operator_request = sample_req ''POST'' [(''x-bluesafe-role'', ''operator'')]"

lemma as_operator:
  "Operator \<in> set roles \<Longrightarrow> v1 sample_env operator_request roles [] h = h operator_auth"
  by (simp add: operator_request_def sample_req_def v1_def v1ApiTransportGuard_def bluesafeAuthMiddleware_def
      parseRole_def role_of_string_def blockAuditorWriteOperations_def requireRoles_def requireOperatorScopes_def
      trim_def isSpace_def toLowerCase_def toLowerChar_def trimmedHeader_def operator_auth_def Let_def)

lemmas scenario_simps = as_operator run_simps safeParse_def optionally_def canAccessContract_def operator_auth_def
  writeAudit_def appendAudit_def emitEvent_def appendEvent_def Let_def jm_get_def

text \<open>A contract.\<close>

definition first_body :: createContractBody where
  "first_body = \<lparr> cb_tenantId = ''t1'', cb_landlordId = ''l1'', cb_depositAmount = None,
     cb_stakeAmount = None, cb_startsAt = None, cb_endsAt = None \<rparr>"

definition contract_id :: string where
  "contract_id = ''ctr_'' @ show_nat 1"

definition first_contract :: Contract where
  "first_contract = newContract first_body contract_id (toISOString 1700000000000)"

definition world1 :: world where
  "world1 = exec (postContract sample_env operator_request (Some first_body)) empty_world"

lemma world1_facts:
  "contracts world1 = [(contract_id, first_contract)]" "evidences world1 = []" "disputes world1 = []"
  "notifications world1 = []" "xrplTxs world1 = []" "settlements world1 = []" "ingestionDedup world1 = []"
  "ticks world1 = 7"
  by (simp_all add: world1_def first_body_def first_contract_def contract_id_def postContract_def postContractH_def
      createContractSchema_def assertCreateContractAllowed_def newContract_def empty_world_def scenario_simps)

text \<open>Evidence for it.\<close>

definition first_form :: evidenceUploadForm where
  "first_form = \<lparr> fo_contractId = contract_id, fo_disputeId = None, fo_category = None, fo_uploaderId = None,
     fo_retentionDays = None \<rparr>"

definition first_file :: UploadedFile where
  "first_file = \<lparr> uf_buffer = ''meter reading'', uf_originalname = ''a.txt'', uf_mimetype = ''text/plain'' \<rparr>"

definition evidence_id :: string where
  "evidence_id = ''evd_'' @ show_nat 7"

definition world2 :: world where
  "world2 = exec (postEvidence sample_env operator_request (MulterFile (Some first_file)) (Some first_form)) world1"

lemma contract_id_neq [simp]: "contract_id \<noteq> []"
  by (simp add: contract_id_def)

lemma evidence_id_neq [simp]: "evidence_id \<noteq> []"
  by (simp add: evidence_id_def)

lemma world2_facts:
  "contracts world2 = [(contract_id, first_contract)]" "disputes world2 = []"
  "notifications world2 = []" "xrplTxs world2 = []" "settlements world2 = []" "ingestionDedup world2 = []"
  "map_option ev_contractId (jm_get (evidences world2) evidence_id) = Some contract_id"
  "map_option ev_retainUntil (jm_get (evidences world2) evidence_id) = Some None" "ticks world2 = 14"
  by (simp_all add: world2_def world1_facts first_form_def first_file_def first_contract_def first_body_def
      newContract_def evidence_id_def
      evidence_defs newEvidence_def vault_defs evidenceUploadFormSchema_def getEvidenceEncryptionKey_def trim_def
      assertMimeAllowedForEvidenceCategory_def orOctet_def toLowerCase_def toLowerChar_def isSpace_def
      getContract_def saveEvidence_def countEvidenceVersions_def bump_def jm_values_def scenario_simps)

text \<open>A dispute about it.\<close>

definition first_dispute :: createDisputeBody where
  "first_dispute = \<lparr> db_contractId = contract_id, db_raisedBy = ByTenant, db_reasonCode = ''deposit'',
     db_evidenceIds = [evidence_id] \<rparr>"

definition dispute_id :: string where
  "dispute_id = ''dsp_'' @ show_nat 14"

definition world3 :: world where
  "world3 = exec (postDispute sample_env operator_request (Some first_dispute)) world2"

lemma world3_facts:
  "contracts world3 = [(contract_id, first_contract)]" "evidences world3 = evidences world2"
  "notifications world3 = []" "xrplTxs world3 = []" "settlements world3 = []" "ingestionDedup world3 = []"
  "map_option ds_status (jm_get (disputes world3) dispute_id) = Some Filed"
proof -
  obtain e where e: "jm_get (evidences world2) evidence_id = Some e" "ev_contractId e = contract_id"
    using world2_facts(7) by auto
  note defs = world3_def world2_facts first_dispute_def postDispute_def postDisputeH_def createDisputeSchema_def
    fileDispute_def newDispute_def getContract_def getEvidence_def saveDispute_def dispute_id_def
    maybeEnqueueDomainNotifications_def e
  show "contracts world3 = [(contract_id, first_contract)]" "evidences world3 = evidences world2"
    "notifications world3 = []" "xrplTxs world3 = []" "settlements world3 = []" "ingestionDedup world3 = []"
    "map_option ds_status (jm_get (disputes world3) dispute_id) = Some Filed"
    by (simp_all add: defs as_operator run_simps safeParse_def canAccessContract_def operator_auth_def
        writeAudit_def appendAudit_def emitEvent_def appendEvent_def Let_def)
qed

text \<open>A notification, a tracked transaction.\<close>

definition world4 :: world where
  "world4 = exec (postNotification sample_env operator_request
     (Some \<lparr> nb_eventType = ''notice'', nb_recipientId = ''t1'', nb_channel = Inapp, nb_payload = [] \<rparr>)) world3"

definition world5 :: world where
  "world5 = exec (postTrack sample_env operator_request
     (Some \<lparr> tb_txHash = ''HASH0001'', tb_txType = ''Payment'', tb_account = None, tb_network = Testnet \<rparr>)) world4"

lemma world4_facts:
  "contracts world4 = [(contract_id, first_contract)]" "evidences world4 = evidences world2"
  "disputes world4 = disputes world3" "xrplTxs world4 = []" "settlements world4 = []" "ingestionDedup world4 = []"
  "\<exists>i n. notifications world4 = [(i, n)]"
  by (simp_all add: world4_def world3_facts postNotification_def postNotificationH_def notifySchema_def
      saveNotification_def queuedNotification_def scenario_simps)

lemma world5_facts:
  "contracts world5 = [(contract_id, first_contract)]" "evidences world5 = evidences world2"
  "disputes world5 = disputes world3" "settlements world5 = []" "ingestionDedup world5 = []"
  "notifications world5 = notifications world4" "\<exists>tx. xrplTxs world5 = [(''HASH0001'', tx)]"
  by (simp_all add: world5_def world4_facts postTrack_def postTrackH_def trackTxSchema_def upsertTrackedTx_def
      getXrplTx_def saveXrplTx_def scenario_simps)

text \<open>The contract's escrow is validated, and a ledger closes.\<close>

definition world6 :: world where
  "world6 = exec (patchContractStatus sample_env operator_request contract_id (Some EscrowPending)) world5"

definition world7 :: world where
  "world7 = exec (patchContractStatus sample_env operator_request contract_id (Some EscrowValidated)) world6"

definition first_close :: LedgerStream where
  "first_close = \<lparr> ls_ledger_index = 100, ls_ledger_hash = None, ls_ledger_time = Some 0, ls_txn_count = None \<rparr>"

definition world8 :: world where
  "world8 = exec (handleLedgerClosed sample_env first_close True) world7"

lemma world7_facts:
  "\<exists>c. contracts world7 = [(contract_id, c)] \<and> ct_id c = contract_id \<and> ct_status c = EscrowValidated"
  "evidences world7 = evidences world2" "disputes world7 = disputes world3" "settlements world7 = []"
  "ingestionDedup world7 = []" "notifications world7 = notifications world4" "xrplTxs world7 = xrplTxs world5"
  by (simp_all add: world7_def world6_def world5_facts patchContractStatus_def patchContractStatusH_def
      getContract_def saveContract_def first_contract_def newContract_def scenario_simps)

definition settlement_id :: string where
  "settlement_id = settlementDeterministicId contract_id 2000 1"

lemma ledger_month: "getUTCFullYear 946684800000 = 2000" "getUTCMonth1 946684800000 = 1"
  by code_simp+

lemma world8_facts:
  "\<exists>c. contracts world8 = [(contract_id, c)]"
  "evidences world8 = evidences world2" "disputes world8 = disputes world3"
  "notifications world8 = notifications world4" "xrplTxs world8 = xrplTxs world5"
  "map_option st_status (jm_get (settlements world8) settlement_id) = Some Collecting"
proof -
  obtain c where c: "contracts world7 = [(contract_id, c)]" "ct_id c = contract_id" "ct_status c = EscrowValidated"
    using world7_facts(1) by blast
  note defs = world8_def world7_facts(2-) c first_close_def handleLedgerClosed_def tryRecordXrplIngestionEvent_def
    recordXrplSubscribeLedgerClosed_def afterSettlementLedgerClosedEvent_def calendarMonthFromLedgerStream_def
    utcDateFromRippleLedgerTime_def RIPPLE_EPOCH_UNIX_SEC_def touchSettlementsOnLedgerClose_def touchOneContract_def
    recordSettlementLedgerCloseTouch_def bump_def jm_values_def ledger_month settlement_id_def touchedSettlement_def
  show "\<exists>c. contracts world8 = [(contract_id, c)]"
    "evidences world8 = evidences world2" "disputes world8 = disputes world3"
    "notifications world8 = notifications world4" "xrplTxs world8 = xrplTxs world5"
    "map_option st_status (jm_get (settlements world8) settlement_id) = Some Collecting"
    by (simp_all add: defs scenario_simps)
qed

lemma reach_step: "reachable E w \<Longrightarrow> server_step E w w' \<Longrightarrow> reachable E w'"
  unfolding reachable_def by (rule rtranclp.rtrancl_into_rtrancl)

lemma world8_reachable: "reachable sample_env world8"
proof -
  have "reachable sample_env empty_world" by (simp add: reachable_def)
  then have "reachable sample_env world1"
    unfolding world1_def by (rule reach_step) (rule server_step.post_contract)
  then have "reachable sample_env world2"
    unfolding world2_def by (rule reach_step) (rule server_step.post_evidence)
  then have "reachable sample_env world3"
    unfolding world3_def by (rule reach_step) (rule server_step.post_dispute)
  then have "reachable sample_env world4"
    unfolding world4_def by (rule reach_step) (rule server_step.post_notification)
  then have "reachable sample_env world5"
    unfolding world5_def by (rule reach_step) (rule server_step.track)
  then have "reachable sample_env world6"
    unfolding world6_def by (rule reach_step) (rule server_step.patch_contract)
  then have "reachable sample_env world7"
    unfolding world7_def by (rule reach_step) (rule server_step.patch_contract)
  then show ?thesis
    unfolding world8_def by (rule reach_step) (rule server_step.ledger_closed)
qed

end
