(* ===== verification/Witnesses.thy ===== *)
theory Witnesses
  imports Scenario
begin

text \<open>
  For each property with hypotheses of the component theories, an instance at which they hold.
\<close>

section \<open>Witnesses\<close>

theorem v1_gate_witness:
  "exec (v1 sample_env (sample_req ''POST'' [(''x-bluesafe-role'', ''auditor'')]) anyRole []
     (\<lambda>_. ret (HttpOk 200 ()))) (sample_world Filed) = sample_world Filed"
  using v1_gate [of sample_env "sample_req ''POST'' [(''x-bluesafe-role'', ''auditor'')]" Auditor anyRole "[]"
      "\<lambda>_. ret (HttpOk 200 ())" "sample_world Filed"]
  by (simp add: sample_req_def parseRole_def role_of_string_def toUpperCase_def
      toUpperChar_def trim_def isSpace_def toLowerCase_def toLowerChar_def)

theorem apply_live_tx_status_witness:
  "\<exists>d t. disputes (exec (applyLiveTxStatus sample_env ''HASH0001'' (live_report True (Some ''tesSUCCESS'')))
     (sample_world ExecutionPending)) = jm_set (disputes (sample_world ExecutionPending)) (ds_id d)
       (d\<lparr>ds_status := Executed, ds_updatedAt := t\<rparr>)"
proof -
  have g: "jm_get (xrplTxs (sample_world ExecutionPending)) ''HASH0001'' = Some sample_tx"
    by (simp add: samples)
  have r: "resolves (sample_world ExecutionPending)
      (withLiveStatus (live_report True (Some ''tesSUCCESS'')) now sample_tx) (sample_dispute ExecutionPending)"
    for now
    by (simp add: resolves_def live_report_def truthy_def samples)
  show ?thesis
    using apply_live_tx_status [OF g, of sample_env "live_report True (Some ''tesSUCCESS'')"] r
    by (auto simp: Let_def live_report_def classifyXrplResultCode_def startsWith_def split: if_splits)
qed

definition sample_vote :: voteBody where
  "sample_vote = \<lparr> vb_verifierId = ''v1'', vb_recommendation = FinishToTenant \<rparr>"


definition sample_execution :: executionBody where
  "sample_execution = \<lparr> xb_txType = EscrowFinish, xb_owner = replicate 20 CHR ''r'', xb_offerSequence = JNum 7,
     xb_network = Testnet, xb_txHash = Some (replicate 64 CHR ''a'') \<rparr>"

lemma sample_execution_ok: "executionSchema sample_execution"
  by (simp add: executionSchema_def sample_execution_def offerSequenceOk_def optionally_def allHexDigits_def
      isHexDigit_def list_all_iff)

theorem execution_ledger_backed_witness:
  "map_option ds_status (jm_get (disputes (exec (postExecutionH sample_env ''d1'' (Some sample_execution) operator_auth)
     (sample_world Decided))) ''d1'') = Some ExecutionPending"
proof -
  have tier: "deploymentTier sample_env = Strict \<or> \<not> syntheticExecutionHashEnabled sample_env" by simp
  have d: "jm_get (disputes (sample_world Decided)) ''d1'' = Some (sample_dispute Decided)"
    "ds_id (sample_dispute Decided) = ''d1''" by (simp_all add: samples)
  obtain st rid h sy where "valu (postExecutionH sample_env ''d1'' (Some sample_execution) operator_auth)
      (sample_world Decided) = HttpOk st (rid, h, sy)"
    using sample_execution_ok
    by (simp add: postExecutionH_def safeParse_def run_simps canAccessDispute_def canAccessContract_def samples
        executionTxHash_def trackExecution_def requestExecution_def Let_def split: option.splits)
      (auto simp: sample_execution_def)
  from execution_ledger_backed [OF tier this d] show ?thesis by (simp add: Let_def)
qed

definition review_world :: world where
  "review_world = empty_world\<lparr>ticks := 1, disputes :=
     [(''dsp_'' @ show_nat 0, (sample_dispute UnderReview)\<lparr>ds_id := ''dsp_'' @ show_nat 0\<rparr>)]\<rparr>"

definition live_env :: env where
  "live_env = sample_env\<lparr>xrplEnabled := True, rippledConnects := (\<lambda>_. True), rippledRequest := (\<lambda>_ _ _.
     Some [(''validated'', JBool True), (''TransactionType'', JStr ''EscrowFinish''),
       (''meta'', JObj [(''TransactionResult'', JStr ''tesSUCCESS'')])])\<rparr>"

text \<open>An evidence on IPFS and a gateway that serves its sealed bytes.\<close>

definition vault_env :: env where
  "vault_env = sample_env\<lparr>fetch := (\<lambda>n u j. FetchResp 200 ''meter reading'' [])\<rparr>"

definition pinned_evidence :: EvidenceFile where
  "pinned_evidence = (newEvidence first_form first_file ''e1'' ''cid1'' ''meter reading'' None 1 ''t'' None Pinata)
     \<lparr>ev_contractId := ''c1''\<rparr>"

definition vault_world :: world where
  "vault_world = (sample_world Filed)\<lparr>evidences := [(''e1'', pinned_evidence)]\<rparr>"

lemma vault_facts:
  "jm_get (evidences vault_world) ''e1'' = Some pinned_evidence"
  "jm_get (contracts vault_world) (ev_contractId pinned_evidence) = Some sample_contract"
  "canAccessContract vault_env operator_auth sample_contract" "ev_storageProvider pinned_evidence = Pinata"
  "ev_sha256 pinned_evidence = sha256Hex vault_env ''meter reading''" "ev_encryptionScheme pinned_evidence = None"
  "ev_mimeType pinned_evidence = ''text/plain''"
  by (simp_all add: vault_world_def pinned_evidence_def newEvidence_def samples canAccessContract_def vault_env_def
      first_file_def orOctet_def)

lemma vault_content:
  "valu (getEvidenceContentH vault_env ''e1'' operator_auth) vault_world = HttpOk 200 (''text/plain'', ''meter reading'')"
  using vault_facts by (simp add: getEvidenceContentH_def withEvidence_def fetchEvidence_def openContent_def
      fetchEvidenceBytesFromPublicGateway_def vault_env_def fetched_ok_def getEvidence_def getContract_def run_simps
      Let_def orOctet_def)


theorem retention_run_witness:
  "jm_get (evidences (exec (retentionRunH sample_env operator_auth) world8)) evidence_id =
     jm_get (evidences world8) evidence_id"
proof -
  have ok: "ev_ok sample_env world8"
    using reachable_inv [OF sample_env_ok world8_reachable] by (simp add: server_inv_def)
  obtain e where e: "jm_get (evidences world8) evidence_id = Some e" "ev_retainUntil e = None"
    using world8_facts(2) world2_facts(8) by auto
  from e(2) have "\<not> pastRetention now e" for now by (simp add: pastRetention_def)
  with retention_run [OF ok, of operator_auth] e(1) show ?thesis by (simp add: Let_def)
qed

section \<open>Audit log\<close>

definition sample_log :: "string \<Rightarrow> AuditLog" where
  "sample_log i = \<lparr> au_id = i, au_entityType = ''contract'', au_entityId = ''c1'', au_action = ''contract.created'',
     au_actorId = ''system'', au_before = None, au_after = None, au_metadata = None, au_createdAt = ''2026-01-01'' \<rparr>"

definition audit_world :: world where
  "audit_world = empty_world\<lparr>audits := [sample_log ''aud_b'', sample_log ''aud_a'']\<rparr>"

definition no_filter :: AuditFilter where
  "no_filter = \<lparr> af_entityType = None, af_entityId = None, af_from = None, af_to = None \<rparr>"

lemma audit_rows: "auditRows sample_env no_filter audit_world = [sample_log ''aud_a'', sample_log ''aud_b'']"
  by (simp add: auditRows_def sortBy_def auditLe_def auditMatches_def no_filter_def audit_world_def sample_log_def
      flt_def notBefore_def notAfter_def)

theorem audit_walk_witness:
  "followCursors sample_env no_filter 1 audit_world 5 None = Some [sample_log ''aud_a'', sample_log ''aud_b'']"
proof -
  have "audits_ordered sample_env audit_world"
    by (simp add: audits_ordered_def audit_world_def sample_log_def auditKey_def)
  from audit_walk [OF this, of 1 no_filter 5] show ?thesis by (simp add: audit_rows listAudits_def)
qed

definition sample_report :: reportAuditsQuery where
  "sample_report = \<lparr> ra_from = None, ra_to = None, ra_entityType = None, ra_entityId = None, ra_limit = Some 1 \<rparr>"

text \<open>A completed export job and a deployment that signs links.\<close>

definition signing_env :: env where
  "signing_env = sample_env\<lparr>artifactSigningSecret := ''secret''\<rparr>"

definition done_job :: ExportJobRecord where
  "done_job = \<lparr> ej_id = ''j1'', ej_kind = ''audits_ndjson'', ej_status = JCompleted, ej_filter = no_filter,
     ej_maxExport = 10, ej_resultNdjson = Some ''rows'', ej_error = None, ej_createdAt = ''t'', ej_updatedAt = ''t'' \<rparr>"

definition job_world :: world where
  "job_world = empty_world\<lparr>exportJobs := [(''j1'', done_job)]\<rparr>"

end
