(* ===== verification/XrplCore.thy ===== *)
theory XrplCore
  imports Codec "HOL-Library.Word"
begin

text \<open>
  The package \<open>packages/xrpl-core\<close>: hex and memo encoding, Ripple time, PREIMAGE-SHA-256 conditions and the
  builders of the transactions of its services (escrow, payment, insurance pool, credentials, NFTs,
  signer lists). Buffers are lists of bytes; a text is the list of its UTF-8 bytes. The hash function,
  the random source, the clock and xrpl.js are the record \<open>core_env\<close>. Errors are values: a
  \<open>RangeError\<close>, or a failure with its message.
\<close>

section \<open>Bytes and hex\<close>

type_synonym byte = "8 word"
type_synonym bytes = "byte list"

text \<open>\<open>Buffer.from(s, 'utf8')\<close>.\<close>

definition utf8Bytes :: "string \<Rightarrow> bytes" where
  "utf8Bytes s = map (\<lambda>c. of_nat (of_char c)) s"

definition upHexDigit :: "nat \<Rightarrow> char" where
  "upHexDigit n = (if n < 10 then char_of (48 + n) else char_of (55 + n))"

definition bytesToHex :: "bytes \<Rightarrow> string" where
  "bytesToHex b = concat (map (\<lambda>w. [upHexDigit (unat w div 16), upHexDigit (unat w mod 16)]) b)"

definition utf8ToHex :: "string \<Rightarrow> string" where
  "utf8ToHex s = bytesToHex (utf8Bytes s)"

text \<open>\<open>Buffer.from(h, 'hex')\<close> stops at the first pair that is not hexadecimal.\<close>

fun hexBytes :: "string \<Rightarrow> bytes" where
  "hexBytes (a # b # r) =
    (if isHexDigit a \<and> isHexDigit b then of_nat (hexVal a * 16 + hexVal b) # hexBytes r else [])"
| "hexBytes _ = []"

section \<open>Errors, time and the outside\<close>

datatype core_error = RangeError | Failure string

text \<open>A JavaScript number that stands for a whole count of seconds; \<open>None\<close> is \<open>NaN\<close> or infinite.\<close>

type_synonym number = "int option"

definition RIPPLE_EPOCH_OFFSET :: int where
  "RIPPLE_EPOCH_OFFSET = 946684800"

definition unixToRippleEpoch :: "number \<Rightarrow> core_error + int" where
  "unixToRippleEpoch unixSeconds =
    (case unixSeconds of
       None \<Rightarrow> Inl RangeError
     | Some s \<Rightarrow> if s < RIPPLE_EPOCH_OFFSET then Inl RangeError else Inr (s - RIPPLE_EPOCH_OFFSET))"

definition rippleEpochToUnix :: "int \<Rightarrow> int" where
  "rippleEpochToUnix rippleSeconds = rippleSeconds + RIPPLE_EPOCH_OFFSET"

definition addDaysUnix :: "number \<Rightarrow> int \<Rightarrow> number" where
  "addDaysUnix unixSeconds days = map_option (\<lambda>s. s + days * 86400) unixSeconds"

section \<open>Transactions\<close>

text \<open>XRP in drops, or an issued currency (issuer, currency, value).\<close>

datatype Amount = Drops string | Issued string string string

record Memo =
  MemoType :: "string option"
  MemoFormat :: "string option"
  MemoData :: "string option"

record EscrowCreate =
  ec_Account :: string
  ec_Destination :: string
  ec_Amount :: Amount
  ec_FinishAfter :: "int option"
  ec_CancelAfter :: "int option"
  ec_Condition :: "string option"
  ec_DestinationTag :: "int option"
  ec_Memos :: "Memo list option"

record EscrowFinish =
  ef_Account :: string
  ef_Owner :: string
  ef_OfferSequence :: int
  ef_Fulfillment :: "string option"
  ef_Condition :: "string option"
  ef_Memos :: "Memo list option"

record EscrowCancel =
  ek_Account :: string
  ek_Owner :: string
  ek_OfferSequence :: int
  ek_Memos :: "Memo list option"

record Payment =
  pm_Account :: string
  pm_Destination :: string
  pm_Amount :: Amount
  pm_DestinationTag :: "int option"
  pm_Memos :: "Memo list option"
  pm_InvoiceID :: "string option"

record NFTokenMint =
  nm_Account :: string
  nm_Destination :: "string option"
  nm_NFTokenTaxon :: nat
  nm_URI :: string
  nm_Flags :: nat
  nm_Memos :: "Memo list"

record SignerListSet =
  sl_Account :: string
  sl_SignerQuorum :: nat
  sl_SignerEntries :: "(string \<times> nat) list option"

record CredentialCreate =
  cc_Account :: string
  cc_Subject :: string
  cc_CredentialType :: string
  cc_Expiration :: "int option"
  cc_URI :: "string option"

datatype Tx = TxEscrowCreate EscrowCreate | TxEscrowFinish EscrowFinish | TxEscrowCancel EscrowCancel
  | TxPayment Payment | TxNFTokenMint NFTokenMint | TxSignerListSet SignerListSet
  | TxAccountSet string nat
  | TxCredentialCreate CredentialCreate
  | TxCredentialAccept string string string
  | TxCredentialDelete string string string string
  | TxPermissionedDomainSet string "(string \<times> string) list" "string option"

text \<open>What the services read of a response of \<open>submitAndWait\<close>.\<close>

record TxResponse =
  rs_hash :: "string option"
  rs_result :: string
  rs_nftoken_id :: "string option"

text \<open>An entry of the answer to \<open>account_objects\<close>.\<close>

record LedgerEntry =
  le_LedgerEntryType :: string
  le_Issuer :: string
  le_CredentialType :: string
  le_Expiration :: "int option"

text \<open>The code outside the package, each call numbered: \<open>ledger\<close> is autofill, signature and
  \<open>submitAndWait\<close> of xrpl.js for the given signers (\<open>None\<close> when it throws), \<open>autofills\<close> tells whether the
  autofill for a multisignature succeeds, \<open>accountObjects\<close> is the request of that name, and \<open>draw n i\<close>
  is \<open>Math.floor(Math.random() * (i + 1))\<close>.\<close>

record core_env =
  sha256 :: "bytes \<Rightarrow> bytes"
  freshBytes :: "nat \<Rightarrow> nat \<Rightarrow> bytes"
  draw :: "nat \<Rightarrow> nat \<Rightarrow> nat"
  unixMs :: "nat \<Rightarrow> int"
  ledger :: "nat \<Rightarrow> string list \<Rightarrow> Tx \<Rightarrow> TxResponse option"
  autofills :: "nat \<Rightarrow> Tx \<Rightarrow> bool"
  accountObjects :: "nat \<Rightarrow> string \<Rightarrow> LedgerEntry list option"

section \<open>Conditions\<close>

record PreimageCondition =
  pc_preimage :: bytes
  pc_condition :: string
  pc_fulfillment :: string

definition buildPreimageCondition :: "core_env \<Rightarrow> bytes \<Rightarrow> core_error + PreimageCondition" where
  "buildPreimageCondition E preimage =
    (if preimage = [] \<or> 127 < length preimage then Inl RangeError
     else let hash = sha256 E preimage;
         condition = [0xa0, 0x25, 0x80, 0x20] @ hash @ [0x81, 0x01, of_nat (length preimage)];
         inner = [0x80, of_nat (length preimage)] @ preimage;
         fulfillment = [0xa0, of_nat (length inner)] @ inner in
       Inr \<lparr> pc_preimage = preimage, pc_condition = bytesToHex condition, pc_fulfillment = bytesToHex fulfillment \<rparr>)"

definition checklistPreimage :: "core_env \<Rightarrow> string \<Rightarrow> core_error + PreimageCondition" where
  "checklistPreimage E canonicalJson = buildPreimageCondition E (sha256 E (utf8Bytes canonicalJson))"

text \<open>Reading past the end of a buffer gives \<open>undefined\<close>.\<close>

definition byteAt :: "bytes \<Rightarrow> nat \<Rightarrow> byte option" where
  "byteAt b i = (if i < length b then Some (b ! i) else None)"

definition restoreConditionFromFulfillment :: "core_env \<Rightarrow> string \<Rightarrow> core_error + string" where
  "restoreConditionFromFulfillment E fulfillmentHex =
    (let fulfillment = hexBytes fulfillmentHex in
     if byteAt fulfillment 0 \<noteq> Some 0xa0 \<or> byteAt fulfillment 2 \<noteq> Some 0x80
     then Inl (Failure ''not a PREIMAGE-SHA-256 fulfillment'')
     else let preimage = (case byteAt fulfillment 3 of None \<Rightarrow> [] | Some n \<Rightarrow> take (unat n) (drop 4 fulfillment)) in
       (case buildPreimageCondition E preimage of Inl e \<Rightarrow> Inl e | Inr c \<Rightarrow> Inr (pc_condition c)))"

section \<open>Memos\<close>

record MemoInput =
  mi_type :: "string option"
  mi_data :: "string option"
  mi_format :: "string option"

definition encodeMemo :: "MemoInput \<Rightarrow> Memo" where
  "encodeMemo m =
    \<lparr> MemoType = (if truthy (mi_type m) then map_option utf8ToHex (mi_type m) else None),
      MemoFormat = (if truthy (mi_format m) then map_option utf8ToHex (mi_format m) else None),
      MemoData = map_option utf8ToHex (mi_data m) \<rparr>"

definition encodeMemos :: "MemoInput list \<Rightarrow> Memo list" where
  "encodeMemos inputs = map encodeMemo inputs"

definition jsonMemo :: "string \<Rightarrow> json \<Rightarrow> MemoInput" where
  "jsonMemo t payload = \<lparr> mi_type = Some t, mi_data = Some (stringify payload), mi_format = Some ''application/json'' \<rparr>"

definition billPayload :: "string \<Rightarrow> string \<Rightarrow> string \<Rightarrow> json" where
  "billPayload yearMonth kepcoUsageHashHex billHashHex = JObj [(''ym'', JStr yearMonth),
     (''kepco'', JStr (toLowerCase kepcoUsageHashHex)), (''bill'', JStr (toLowerCase billHashHex))]"

definition utilityBillMemo :: "string \<Rightarrow> string \<Rightarrow> string \<Rightarrow> Memo" where
  "utilityBillMemo yearMonth kepcoUsageHashHex billHashHex =
     encodeMemo (jsonMemo ''UTILITY_BILL'' (billPayload yearMonth kepcoUsageHashHex billHashHex))"

section \<open>Submitting\<close>

text \<open>The state of a client of the ledger: the transactions handed over, with their signers, in order.\<close>

record core_state =
  sentTxs :: "(string list \<times> Tx) list"
  calls :: nat

definition callNo :: "('a core_state_scheme, nat) state" where
  "callNo = do { n \<leftarrow> gets calls; modify (\<lambda>s. s\<lparr>calls := Suc n\<rparr>); ret n }"

definition newRandomPreimage :: "core_env \<Rightarrow> ('a core_state_scheme, core_error + PreimageCondition) state" where
  "newRandomPreimage E = do { n \<leftarrow> callNo; ret (buildPreimageCondition E (freshBytes E n 32)) }"

definition submitAs :: "core_env \<Rightarrow> string list \<Rightarrow> Tx \<Rightarrow> ('a core_state_scheme, core_error + TxResponse) state" where
  "submitAs E signers tx = do {
     n \<leftarrow> callNo;
     modify (\<lambda>s. s\<lparr>sentTxs := sentTxs s @ [(signers, tx)]\<rparr>);
     ret (case ledger E n signers tx of None \<Rightarrow> Inl (Failure ''submit'') | Some r \<Rightarrow> Inr r) }"

definition signAndSubmit :: "core_env \<Rightarrow> Tx \<Rightarrow> string \<Rightarrow> ('a core_state_scheme, core_error + TxResponse) state" where
  "signAndSubmit E tx wallet = submitAs E [wallet] tx"

section \<open>Escrow\<close>

record DepositEscrowInput =
  de_tenant :: string
  de_landlord :: string
  de_amount :: Amount
  de_leaseEndUnix :: number
  de_finishOffsetDays :: "int option"
  de_cancelOffsetDays :: "int option"
  de_condition :: "PreimageCondition option"
  de_destinationTag :: "int option"
  de_memos :: "Memo list option"

record StakeEscrowInput =
  se_landlord :: string
  se_stakeHolder :: string
  se_amount :: Amount
  se_leaseEndUnix :: number
  se_finishOffsetDays :: "int option"
  se_cancelOffsetDays :: "int option"
  se_destinationTag :: "int option"
  se_memos :: "Memo list option"

definition escrowWindow :: "number \<Rightarrow> int option \<Rightarrow> int option \<Rightarrow> core_error + int \<times> int" where
  "escrowWindow leaseEnd finishOffset cancelOffset =
    (case unixToRippleEpoch (addDaysUnix leaseEnd (getOr 7 finishOffset)) of
       Inl e \<Rightarrow> Inl e
     | Inr f \<Rightarrow> (case unixToRippleEpoch (addDaysUnix leaseEnd (getOr 30 cancelOffset)) of
          Inl e \<Rightarrow> Inl e | Inr c \<Rightarrow> Inr (f, c)))"

definition buildDepositEscrow :: "DepositEscrowInput \<Rightarrow> core_error + EscrowCreate" where
  "buildDepositEscrow p =
    (case escrowWindow (de_leaseEndUnix p) (de_finishOffsetDays p) (de_cancelOffsetDays p) of
       Inl e \<Rightarrow> Inl e
     | Inr (finish, cancel) \<Rightarrow> Inr
        \<lparr> ec_Account = de_tenant p, ec_Destination = de_landlord p, ec_Amount = de_amount p,
          ec_FinishAfter = Some finish, ec_CancelAfter = Some cancel,
          ec_Condition = map_option pc_condition (de_condition p),
          ec_DestinationTag = de_destinationTag p, ec_Memos = de_memos p \<rparr>)"

definition buildStakeEscrow :: "StakeEscrowInput \<Rightarrow> core_error + EscrowCreate" where
  "buildStakeEscrow p =
    (case escrowWindow (se_leaseEndUnix p) (se_finishOffsetDays p) (se_cancelOffsetDays p) of
       Inl e \<Rightarrow> Inl e
     | Inr (finish, cancel) \<Rightarrow> Inr
        \<lparr> ec_Account = se_landlord p, ec_Destination = se_stakeHolder p, ec_Amount = se_amount p,
          ec_FinishAfter = Some finish, ec_CancelAfter = Some cancel, ec_Condition = None,
          ec_DestinationTag = se_destinationTag p, ec_Memos = se_memos p \<rparr>)"

record FinishInput =
  fi_account :: string
  fi_owner :: string
  fi_offerSequence :: int
  fi_fulfillment :: "string option"
  fi_memos :: "Memo list option"

definition buildFinish :: "core_env \<Rightarrow> FinishInput \<Rightarrow> core_error + EscrowFinish" where
  "buildFinish E p =
    (let tx = \<lparr> ef_Account = fi_account p, ef_Owner = fi_owner p, ef_OfferSequence = fi_offerSequence p,
         ef_Fulfillment = None, ef_Condition = None, ef_Memos = fi_memos p \<rparr> in
     if truthy (fi_fulfillment p) then
       (case restoreConditionFromFulfillment E (the (fi_fulfillment p)) of
          Inl e \<Rightarrow> Inl e
        | Inr c \<Rightarrow> Inr (tx\<lparr>ef_Fulfillment := fi_fulfillment p, ef_Condition := Some c\<rparr>))
     else Inr tx)"

definition buildCancel :: "string \<Rightarrow> string \<Rightarrow> int \<Rightarrow> Memo list option \<Rightarrow> EscrowCancel" where
  "buildCancel account owner offerSequence memos =
    \<lparr> ek_Account = account, ek_Owner = owner, ek_OfferSequence = offerSequence, ek_Memos = memos \<rparr>"

section \<open>Payments\<close>

definition sha256HexOf :: "core_env \<Rightarrow> string \<Rightarrow> string" where
  "sha256HexOf E input = toLowerCase (bytesToHex (sha256 E (utf8Bytes input)))"

record UtilityPaymentInput =
  up_tenant :: string
  up_landlord :: string
  up_amount :: Amount
  up_yearMonth :: string
  up_kepcoUsagePayload :: string
  up_invoicePayload :: string
  up_destinationTag :: "int option"

record VerificationResult =
  vr_match :: bool
  vr_kepcoUsageHashHex :: string
  vr_billHashHex :: string

definition verifyUtilityBill :: "core_env \<Rightarrow> UtilityPaymentInput \<Rightarrow> VerificationResult" where
  "verifyUtilityBill E p =
    (let kepcoUsageHashHex = sha256HexOf E (up_kepcoUsagePayload p);
         billHashHex = sha256HexOf E (up_invoicePayload p) in
     \<lparr> vr_match = (kepcoUsageHashHex = billHashHex), vr_kepcoUsageHashHex = kepcoUsageHashHex,
       vr_billHashHex = billHashHex \<rparr>)"

definition buildMonthlyUtilityPayment :: "core_env \<Rightarrow> UtilityPaymentInput \<Rightarrow> Payment" where
  "buildMonthlyUtilityPayment E p =
    (let v = verifyUtilityBill E p;
         memo = utilityBillMemo (up_yearMonth p) (vr_kepcoUsageHashHex v) (vr_billHashHex v) in
     \<lparr> pm_Account = up_tenant p, pm_Destination = up_landlord p, pm_Amount = up_amount p,
       pm_DestinationTag = up_destinationTag p, pm_Memos = Some [memo], pm_InvoiceID = None \<rparr>)"

definition monthlyUtilityPayment ::
    "core_env \<Rightarrow> UtilityPaymentInput \<Rightarrow> string \<Rightarrow> ('a core_state_scheme, core_error + TxResponse) state" where
  "monthlyUtilityPayment E p tenantWallet =
    (if \<not> vr_match (verifyUtilityBill E p)
     then throwE (Failure (''utility-bill mismatch for '' @ up_yearMonth p @ '': tenant should raise a dispute, not pay''))
     else signAndSubmit E (TxPayment (buildMonthlyUtilityPayment E p)) tenantWallet)"

definition buildPayment ::
    "string \<Rightarrow> string \<Rightarrow> Amount \<Rightarrow> int option \<Rightarrow> Memo list option \<Rightarrow> string option \<Rightarrow> Payment" where
  "buildPayment from to amount destinationTag memos invoiceID =
    \<lparr> pm_Account = from, pm_Destination = to, pm_Amount = amount, pm_DestinationTag = destinationTag,
      pm_Memos = memos, pm_InvoiceID = (if truthy invoiceID then invoiceID else None) \<rparr>"

section \<open>Insurance pool\<close>

definition buildDepositFromSlashing :: "string \<Rightarrow> string \<Rightarrow> Amount \<Rightarrow> string \<Rightarrow> Payment" where
  "buildDepositFromSlashing poolAccount funder amount disputeId = buildPayment funder poolAccount amount None
     (Some [encodeMemo (jsonMemo ''INSURANCE_DEPOSIT_SLASHING'' (JObj [(''disputeId'', JStr disputeId)]))]) None"

definition buildDepositFromFees :: "string \<Rightarrow> string \<Rightarrow> Amount \<Rightarrow> string \<Rightarrow> Payment" where
  "buildDepositFromFees poolAccount funder amount reason = buildPayment funder poolAccount amount None
     (Some [encodeMemo \<lparr> mi_type = Some ''INSURANCE_DEPOSIT_FEES'', mi_data = Some reason, mi_format = Some ''text/plain'' \<rparr>]) None"

definition depositFromSlashing :: "core_env \<Rightarrow> string \<Rightarrow> Amount \<Rightarrow> string \<Rightarrow> string \<Rightarrow>
    ('a core_state_scheme, core_error + TxResponse) state" where
  "depositFromSlashing E poolAccount amount disputeId funderWallet =
     signAndSubmit E (TxPayment (buildDepositFromSlashing poolAccount funderWallet amount disputeId)) funderWallet"

definition depositFromFees :: "core_env \<Rightarrow> string \<Rightarrow> Amount \<Rightarrow> string \<Rightarrow> string \<Rightarrow>
    ('a core_state_scheme, core_error + TxResponse) state" where
  "depositFromFees E poolAccount amount reason funderWallet =
     signAndSubmit E (TxPayment (buildDepositFromFees poolAccount funderWallet amount reason)) funderWallet"

definition buildCompensation :: "string \<Rightarrow> string \<Rightarrow> Amount \<Rightarrow> string \<Rightarrow> string \<Rightarrow> Payment" where
  "buildCompensation poolAccount to amount disputeId reason = buildPayment poolAccount to amount None
     (Some [encodeMemo (jsonMemo ''INSURANCE_PAYOUT''
       (JObj [(''disputeId'', JStr disputeId), (''reason'', JStr reason)]))]) None"

definition compensateUser :: "core_env \<Rightarrow> string \<Rightarrow> string \<Rightarrow> Amount \<Rightarrow> string \<Rightarrow> string \<Rightarrow> string \<Rightarrow>
    ('a core_state_scheme, core_error + TxResponse) state" where
  "compensateUser E poolAccount to amount disputeId reason poolWallet =
    (if poolWallet \<noteq> poolAccount then throwE (Failure ''poolWallet does not match poolAccount'')
     else signAndSubmit E (TxPayment (buildCompensation poolAccount to amount disputeId reason)) poolWallet)"

section \<open>Credentials\<close>

definition unixToRipple :: "int \<Rightarrow> int" where
  "unixToRipple unixSeconds = unixSeconds - 946684800"

record IssueCredentialInput =
  ic_issuer :: string
  ic_subject :: string
  ic_credentialType :: string
  ic_expirationUnix :: "int option"
  ic_documentUri :: "string option"

definition buildIssue :: "IssueCredentialInput \<Rightarrow> CredentialCreate" where
  "buildIssue p =
    \<lparr> cc_Account = ic_issuer p, cc_Subject = ic_subject p, cc_CredentialType = utf8ToHex (ic_credentialType p),
      cc_Expiration = map_option unixToRipple (ic_expirationUnix p),
      cc_URI = (if truthy (ic_documentUri p) then map_option utf8ToHex (ic_documentUri p) else None) \<rparr>"

definition buildAccept :: "string \<Rightarrow> string \<Rightarrow> string \<Rightarrow> Tx" where
  "buildAccept subject issuer credentialType = TxCredentialAccept subject issuer (utf8ToHex credentialType)"

definition buildRevoke :: "string \<Rightarrow> string \<Rightarrow> string \<Rightarrow> Tx" where
  "buildRevoke issuer subject credentialType = TxCredentialDelete issuer subject issuer (utf8ToHex credentialType)"

definition buildDomainSet :: "string \<Rightarrow> string option \<Rightarrow> (string \<times> string) list \<Rightarrow> Tx" where
  "buildDomainSet owner domainId issuers = TxPermissionedDomainSet owner
     (map (\<lambda>(issuer, credentialType). (issuer, utf8ToHex credentialType)) issuers)
     (if truthy domainId then domainId else None)"

definition issueCredential :: "core_env \<Rightarrow> IssueCredentialInput \<Rightarrow> string \<Rightarrow>
    ('a core_state_scheme, core_error + TxResponse) state" where
  "issueCredential E p issuerWallet = signAndSubmit E (TxCredentialCreate (buildIssue p)) issuerWallet"

definition acceptCredential :: "core_env \<Rightarrow> string \<Rightarrow> string \<Rightarrow> string \<Rightarrow> string \<Rightarrow>
    ('a core_state_scheme, core_error + TxResponse) state" where
  "acceptCredential E subject issuer credentialType subjectWallet =
     signAndSubmit E (buildAccept subject issuer credentialType) subjectWallet"

definition revokeCredential :: "core_env \<Rightarrow> string \<Rightarrow> string \<Rightarrow> string \<Rightarrow> string \<Rightarrow>
    ('a core_state_scheme, core_error + TxResponse) state" where
  "revokeCredential E issuer subject credentialType issuerWallet =
     signAndSubmit E (buildRevoke issuer subject credentialType) issuerWallet"

definition verifyCredential :: "core_env \<Rightarrow> string \<Rightarrow> string \<Rightarrow> string \<Rightarrow>
    ('a core_state_scheme, core_error + LedgerEntry option) state" where
  "verifyCredential E subject issuer credentialType = do {
     n \<leftarrow> callNo;
     (case accountObjects E n subject of
        None \<Rightarrow> throwE (Failure ''account_objects'')
      | Some objects \<Rightarrow>
         (case find (\<lambda>o'. le_LedgerEntryType o' = ''Credential'' \<and> le_Issuer o' = issuer \<and>
             le_CredentialType o' = utf8ToHex credentialType) objects of
            None \<Rightarrow> ret (Inr None)
          | Some m \<Rightarrow>
             (case le_Expiration m of
                None \<Rightarrow> ret (Inr (Some m))
              | Some x \<Rightarrow> do {
                 k \<leftarrow> callNo;
                 ret (Inr (if x \<le> unixToRipple (unixMs E k div 1000) then None else Some m)) }))) }"

section \<open>NFTs\<close>

datatype DisputeRuling = TENANT_WINS | LANDLORD_WINS | SYSTEM_FAULT

definition rulingText :: "DisputeRuling \<Rightarrow> string" where
  "rulingText r = (case r of TENANT_WINS \<Rightarrow> ''TENANT_WINS'' | LANDLORD_WINS \<Rightarrow> ''LANDLORD_WINS''
     | SYSTEM_FAULT \<Rightarrow> ''SYSTEM_FAULT'')"

definition uriToHex :: "string \<Rightarrow> core_error + string" where
  "uriToHex uri =
    (if uri = '''' then Inl (Failure ''URI must be non-empty'')
     else let hex = utf8ToHex uri in
       if 512 < length hex then Inl (Failure ''URI exceeds 256-byte XRPL limit after hex encoding'') else Inr hex)"

text \<open>The taxons 1, 2 and 3; no flag, in particular not \<open>tfTransferable\<close>.\<close>

definition mintTx :: "string \<Rightarrow> string option \<Rightarrow> nat \<Rightarrow> string \<Rightarrow> MemoInput list \<Rightarrow> core_error + NFTokenMint" where
  "mintTx issuer destination taxon uri memos =
    (case uriToHex uri of
       Inl e \<Rightarrow> Inl e
     | Inr hex \<Rightarrow> Inr \<lparr> nm_Account = issuer, nm_Destination = destination, nm_NFTokenTaxon = taxon, nm_URI = hex,
         nm_Flags = 0, nm_Memos = encodeMemos memos \<rparr>)"

record ContractNftInput =
  cn_issuer :: string
  cn_uri :: string
  cn_metadataHash :: string
  cn_propertyAddrHash :: string
  cn_tenant :: string
  cn_landlord :: string
  cn_depositAmountReadable :: string
  cn_startUnix :: int
  cn_endUnix :: int
  cn_memos :: "MemoInput list option"

definition buildContractNFT :: "ContractNftInput \<Rightarrow> core_error + NFTokenMint" where
  "buildContractNFT p = mintTx (cn_issuer p) None 1 (cn_uri p)
     (getOr [] (cn_memos p) @ [jsonMemo ''BLUESAFE_CONTRACT'' (JObj [(''tenant'', JStr (cn_tenant p)),
        (''landlord'', JStr (cn_landlord p)), (''deposit'', JStr (cn_depositAmountReadable p)),
        (''start'', JNum (cn_startUnix p)), (''end'', JNum (cn_endUnix p)),
        (''metadataHash'', JStr (toLowerCase (cn_metadataHash p))),
        (''propertyHash'', JStr (toLowerCase (cn_propertyAddrHash p)))])])"

record ReputationSbtInput =
  rp_issuer :: string
  rp_subject :: string
  rp_uri :: string
  rp_payloadHashHex :: string
  rp_previousNftId :: "string option"
  rp_memos :: "MemoInput list option"

definition buildReputationSBT :: "ReputationSbtInput \<Rightarrow> core_error + NFTokenMint" where
  "buildReputationSBT p = mintTx (rp_issuer p) (Some (rp_subject p)) 2 (rp_uri p)
     (getOr [] (rp_memos p) @ [jsonMemo ''BLUESAFE_REPUTATION'' (JObj [(''subject'', JStr (rp_subject p)),
        (''payload'', JStr (toLowerCase (rp_payloadHashHex p))), (''previous'', joptn (rp_previousNftId p))])])"

record voteCounts =
  vc_tenant :: nat
  vc_landlord :: nat
  vc_system :: nat

record DisputeNftInput =
  dn_issuer :: string
  dn_disputeId :: string
  dn_ruling :: DisputeRuling
  dn_votes :: voteCounts
  dn_panelAnonymizedHashes :: "string list"
  dn_evidenceUris :: "string list"
  dn_uri :: string
  dn_memos :: "MemoInput list option"

definition disputePayload :: "DisputeNftInput \<Rightarrow> json" where
  "disputePayload p = JObj [(''disputeId'', JStr (dn_disputeId p)), (''ruling'', JStr (rulingText (dn_ruling p))),
     (''votes'', JObj [(''tenant'', JNum (int (vc_tenant (dn_votes p)))), (''landlord'', JNum (int (vc_landlord (dn_votes p)))),
       (''system'', JNum (int (vc_system (dn_votes p))))]),
     (''panel'', JArr (map JStr (dn_panelAnonymizedHashes p))), (''evidence'', JArr (map JStr (dn_evidenceUris p)))]"

definition buildDisputeNFT :: "DisputeNftInput \<Rightarrow> core_error + NFTokenMint" where
  "buildDisputeNFT p = mintTx (dn_issuer p) None 3 (dn_uri p)
     (getOr [] (dn_memos p) @ [jsonMemo ''BLUESAFE_DISPUTE'' (disputePayload p)])"

record MintResult =
  mr_response :: TxResponse
  mr_nftokenId :: "string option"

definition mint :: "core_env \<Rightarrow> NFTokenMint \<Rightarrow> string \<Rightarrow> ('a core_state_scheme, core_error + MintResult) state" where
  "mint E tx issuerWallet = bindE (signAndSubmit E (TxNFTokenMint tx) issuerWallet)
     (\<lambda>res. ret (Inr \<lparr> mr_response = res, mr_nftokenId = rs_nftoken_id res \<rparr>))"

section \<open>Multisignature\<close>

record LeaseParties =
  lp_tenant :: string
  lp_landlord :: string
  lp_bluesafe :: string

definition buildSignerListSet :: "string \<Rightarrow> LeaseParties \<Rightarrow> SignerListSet" where
  "buildSignerListSet holderAccount parties =
    \<lparr> sl_Account = holderAccount, sl_SignerQuorum = 2,
      sl_SignerEntries = Some [(lp_tenant parties, 1), (lp_landlord parties, 1), (lp_bluesafe parties, 1)] \<rparr>"

definition buildSignerListClear :: "string \<Rightarrow> SignerListSet" where
  "buildSignerListClear holderAccount =
    \<lparr> sl_Account = holderAccount, sl_SignerQuorum = 0, sl_SignerEntries = None \<rparr>"

text \<open>Flag 4 is \<open>asfDisableMaster\<close>.\<close>

definition buildDisableMaster :: "string \<Rightarrow> Tx" where
  "buildDisableMaster holderAccount = TxAccountSet holderAccount 4"

definition submitSignerList :: "core_env \<Rightarrow> string \<Rightarrow> LeaseParties \<Rightarrow>
    ('a core_state_scheme, core_error + TxResponse) state" where
  "submitSignerList E holderWallet parties =
     signAndSubmit E (TxSignerListSet (buildSignerListSet holderWallet parties)) holderWallet"

definition prepareMultisig :: "core_env \<Rightarrow> Tx \<Rightarrow> ('a core_state_scheme, core_error + Tx) state" where
  "prepareMultisig E tx = do {
     n \<leftarrow> callNo;
     ret (if autofills E n tx then Inr tx else Inl (Failure ''autofill'')) }"

text \<open>A partial blob is the transaction with its signer; \<open>multisign\<close> of xrpl.js refuses blobs of different
  transactions.\<close>

definition broadcast :: "core_env \<Rightarrow> (Tx \<times> string) list \<Rightarrow> ('a core_state_scheme, core_error + TxResponse) state" where
  "broadcast E signedBlobs =
    (if length signedBlobs < 2 then throwE (Failure ''need at least 2 signed blobs to meet quorum'')
     else if \<not> list_all (\<lambda>b. fst b = fst (hd signedBlobs)) signedBlobs then throwE (Failure ''multisign'')
     else submitAs E (map snd signedBlobs) (fst (hd signedBlobs)))"

definition signAndBroadcast :: "core_env \<Rightarrow> Tx \<Rightarrow> string list \<Rightarrow> ('a core_state_scheme, core_error + TxResponse) state" where
  "signAndBroadcast E tx signers = bindE (prepareMultisig E tx)
     (\<lambda>prepared. broadcast E (map (\<lambda>w. (prepared, w)) signers))"

section \<open>Hex round trips\<close>

lemma of_char_char_of_small: "n < 256 \<Longrightarrow> of_char (char_of n :: char) = (n :: nat)"
  by (simp add: of_char_of)

lemma upHexDigit_val: "n < 16 \<Longrightarrow> hexVal (upHexDigit n) = n"
  by (simp add: hexVal_def upHexDigit_def of_char_char_of_small Let_def)

lemma upHexDigit_hex: "n < 16 \<Longrightarrow> isHexDigit (upHexDigit n)"
  by (simp add: isHexDigit_def isDigit_def upHexDigit_def less_eq_char_def of_char_char_of_small)

lemma hexBytes_bytesToHex [simp]: "hexBytes (bytesToHex b) = b"
proof (induction b)
  case (Cons w b)
  have "unat w < 256" by (rule order_less_le_trans [OF unsigned_less]) simp
  then have "unat w div 16 < 16" by simp
  moreover have "of_nat (unat w div 16 * 16 + unat w mod 16) = w" by (simp only: div_mult_mod_eq of_nat_unat ucast_id)
  ultimately show ?case using Cons by (simp add: bytesToHex_def upHexDigit_val upHexDigit_hex)
qed (simp add: bytesToHex_def)

lemma bytesToHex_eq [simp]: "bytesToHex a = bytesToHex b \<longleftrightarrow> a = b"
  using hexBytes_bytesToHex by metis

text \<open>The text behind a hexadecimal memo field.\<close>

definition hexText :: "string \<Rightarrow> string" where
  "hexText h = map (\<lambda>w. char_of (unat w)) (hexBytes h)"

lemma hexText_utf8ToHex [simp]: "hexText (utf8ToHex s) = s"
proof -
  have "char_of (unat (of_nat (of_char c) :: byte)) = c" for c :: char
    using of_char_less [of c] by (simp add: unat_of_nat)
  then show ?thesis by (simp add: hexText_def utf8ToHex_def utf8Bytes_def o_def)
qed

section \<open>Fulfillments\<close>

lemma buildPreimageCondition_Inr:
  assumes "buildPreimageCondition E p = Inr c"
  shows "p \<noteq> []" "length p \<le> 127"
    "hexBytes (pc_condition c) = [0xa0, 0x25, 0x80, 0x20] @ sha256 E p @ [0x81, 0x01, of_nat (length p)]"
    "hexBytes (pc_fulfillment c) = [0xa0, of_nat (length p + 2), 0x80, of_nat (length p)] @ p"
  using assms by (auto simp: buildPreimageCondition_def Let_def split: if_splits)

lemma restore_condition:
  assumes "buildPreimageCondition E p = Inr c"
  shows "restoreConditionFromFulfillment E (pc_fulfillment c) = Inr (pc_condition c)"
proof -
  note b = buildPreimageCondition_Inr [OF assms]
  have "unat (of_nat (length p) :: byte) = length p" using b(2) by (simp add: unat_of_nat)
  then show ?thesis
    using assms by (simp add: restoreConditionFromFulfillment_def b(4) byteAt_def Let_def)
qed

section \<open>Properties\<close>

text \<open>An escrow locked with a condition can be finished with its fulfillment. The EscrowFinish built
  from the fulfillment of a preimage carries exactly the condition that the deposit escrow was created
  with.\<close>

lemma escrow_condition_match:
  assumes "buildPreimageCondition E preimage = Inr c" "buildDepositEscrow p = Inr create" "de_condition p = Some c"
  shows "\<exists>fin. buildFinish E \<lparr> fi_account = account, fi_owner = de_tenant p, fi_offerSequence = n,
      fi_fulfillment = Some (pc_fulfillment c), fi_memos = memos \<rparr> = Inr fin \<and>
    ef_Owner fin = ec_Account create \<and> ef_Condition fin = ec_Condition create \<and>
    ef_Fulfillment fin = Some (pc_fulfillment c)"
proof -
  have "pc_fulfillment c \<noteq> ''''" using buildPreimageCondition_Inr(4) [OF assms(1)] by auto
  with restore_condition [OF assms(1)] assms(2,3) show ?thesis
    by (auto simp: buildFinish_def buildDepositEscrow_def Let_def split: sum.splits)
qed

text \<open>The hand-written DER. Every length octet of the condition is the length of what follows it (the
  digest has 32 bytes), and so is the outer one of the fulfillment; but the outer length of the
  fulfillment fits the one-byte form of DER only for preimages of at most 125 bytes, while the code
  accepts 127.\<close>

lemma condition_encoding:
  assumes "buildPreimageCondition E preimage = Inr c" "length (sha256 E preimage) = 32"
  shows "let cond = hexBytes (pc_condition c); ful = hexBytes (pc_fulfillment c) in
    length cond = 2 + unat (cond ! 1) \<and> take (unat (cond ! 3)) (drop 4 cond) = sha256 E preimage \<and>
    length ful = 2 + unat (ful ! 1) \<and> length ful = 4 + unat (ful ! 3) \<and> drop 4 ful = preimage \<and>
    (unat (ful ! 1) < 128 \<longleftrightarrow> length preimage \<le> 125)"
proof -
  note b = buildPreimageCondition_Inr [OF assms(1)]
  have u: "unat (of_nat (length preimage) :: byte) = length preimage"
    "unat (of_nat (length preimage + 2) :: byte) = length preimage + 2"
    by (subst unat_of_nat, use b(2) in simp)+
  then show ?thesis unfolding b(3,4) Let_def using assms(2) by (auto simp: nth_Cons' simp del: of_nat_add)
qed

text \<open>The lock window of a deposit escrow. A window is built exactly when the lease end is a time and
  both release times are after the Ripple epoch; the ledger times then are the lease end plus the
  offsets (7 and 30 days by default), so with the defaults the refund time is 23 days after the
  release time.\<close>

lemma escrow_window:
  "case buildDepositEscrow p of
     Inl e \<Rightarrow> e = RangeError \<and> (case de_leaseEndUnix p of None \<Rightarrow> True
       | Some t \<Rightarrow> t + getOr 7 (de_finishOffsetDays p) * 86400 < RIPPLE_EPOCH_OFFSET \<or>
           t + getOr 30 (de_cancelOffsetDays p) * 86400 < RIPPLE_EPOCH_OFFSET)
   | Inr tx \<Rightarrow> \<exists>t finish cancel. de_leaseEndUnix p = Some t \<and> ec_FinishAfter tx = Some finish \<and>
       ec_CancelAfter tx = Some cancel \<and> 0 \<le> finish \<and> 0 \<le> cancel \<and>
       rippleEpochToUnix finish = t + getOr 7 (de_finishOffsetDays p) * 86400 \<and>
       cancel = finish + (getOr 30 (de_cancelOffsetDays p) - getOr 7 (de_finishOffsetDays p)) * 86400"
  by (auto simp: buildDepositEscrow_def escrowWindow_def unixToRippleEpoch_def addDaysUnix_def rippleEpochToUnix_def
      left_diff_distrib split: option.splits if_splits)

text \<open>The monthly utility payment. It is submitted exactly when the digests of usage and invoice agree;
  then one Payment from tenant to landlord is handed over, and its memo decodes to the month and the
  two digests. On a mismatch nothing is sent.\<close>

lemma monthly_utility_payment:
  fixes s :: "'a core_state_scheme"
  shows "let r = valu (monthlyUtilityPayment E p w) s; s' = exec (monthlyUtilityPayment E p w) s;
      usage = sha256HexOf E (up_kepcoUsagePayload p); bill = sha256HexOf E (up_invoicePayload p) in
    if usage \<noteq> bill then s' = s \<and> (\<exists>msg. r = Inl (Failure msg))
    else \<exists>pay memo. sentTxs s' = sentTxs s @ [([w], TxPayment pay)] \<and> pm_Account pay = up_tenant p \<and>
      pm_Destination pay = up_landlord p \<and> pm_Amount pay = up_amount p \<and> pm_Memos pay = Some [memo] \<and>
      map_option hexText (MemoType memo) = Some ''UTILITY_BILL'' \<and>
      map_option (jsonParse \<circ> hexText) (MemoData memo) = Some (Some (billPayload (up_yearMonth p) usage bill))"
  by (simp add: monthlyUtilityPayment_def verifyUtilityBill_def signAndSubmit_def submitAs_def callNo_def
      buildMonthlyUtilityPayment_def utilityBillMemo_def encodeMemo_def jsonMemo_def parse_stringify billPayload_def
      Let_def del: stringify.simps)

text \<open>The rule of the ledger: the weights of the entries that signed reach the quorum.\<close>

definition quorumMet :: "SignerListSet \<Rightarrow> string list \<Rightarrow> bool" where
  "quorumMet l signers = (0 < sl_SignerQuorum l \<and> sl_SignerQuorum l \<le>
     sum_list (map snd (filter (\<lambda>e. fst e \<in> set signers) (getOr [] (sl_SignerEntries l)))))"

text \<open>C21: two of three. Under the signer list of a lease with three different parties a transaction is
  authorised exactly when two of the parties signed; no party alone, BlueSafe included, can move funds.
  The helper that collects the signatures hands a transaction over only with two signatures.\<close>

theorem two_of_three:
  fixes s :: "'a core_state_scheme"
  assumes "distinct [lp_tenant p, lp_landlord p, lp_bluesafe p]"
  shows "(quorumMet (buildSignerListSet holder p) signers \<longleftrightarrow>
      2 \<le> card (set signers \<inter> {lp_tenant p, lp_landlord p, lp_bluesafe p})) \<and>
    (sentTxs (exec (signAndBroadcast E tx signers) s) \<noteq> sentTxs s \<longrightarrow> 2 \<le> length signers)"
proof
  let ?P = "{lp_tenant p, lp_landlord p, lp_bluesafe p}"
  have "set signers \<inter> ?P = set (filter (\<lambda>x. x \<in> set signers) [lp_tenant p, lp_landlord p, lp_bluesafe p])"
    by auto
  then have "card (set signers \<inter> ?P) = length (filter (\<lambda>x. x \<in> set signers) [lp_tenant p, lp_landlord p, lp_bluesafe p])"
    using assms by (simp only: distinct_card distinct_filter)
  then show "quorumMet (buildSignerListSet holder p) signers \<longleftrightarrow> 2 \<le> card (set signers \<inter> ?P)"
    by (simp add: quorumMet_def buildSignerListSet_def)
  show "sentTxs (exec (signAndBroadcast E tx signers) s) \<noteq> sentTxs s \<longrightarrow> 2 \<le> length signers"
    by (auto simp: signAndBroadcast_def prepareMultisig_def broadcast_def callNo_def run_simps)
qed

text \<open>The life of a credential. A credential as issued by the issuing transaction, found on the ledger
  first, verifies exactly until its expiry time in Unix seconds; without expiry it always verifies.\<close>

lemma credential_expiry:
  fixes s :: "'a core_state_scheme"
  assumes "accountObjects E (calls s) (ic_subject p) = Some (e # rest)"
    and "le_LedgerEntryType e = ''Credential''" "le_Issuer e = cc_Account (buildIssue p)"
    and "le_CredentialType e = cc_CredentialType (buildIssue p)" "le_Expiration e = cc_Expiration (buildIssue p)"
  shows "valu (verifyCredential E (ic_subject p) (ic_issuer p) (ic_credentialType p)) s =
    Inr (case ic_expirationUnix p of None \<Rightarrow> Some e
      | Some t \<Rightarrow> if unixMs E (Suc (calls s)) div 1000 < t then Some e else None)"
  using assms by (auto simp: verifyCredential_def callNo_def buildIssue_def unixToRipple_def run_simps split: option.splits)

end
