(* ===== verification/JsBigInt.thy ===== *)
theory JsBigInt
  imports Codec
begin

text \<open>
  JavaScript's \<open>BigInt\<close> as far as the packages use it: the constructor on a text, and division. Both \<open>xrpl-core\<close>
  (slashing of a stake) and \<open>be1-xrpl\<close> (balances and quotes in drops) compute with it.
\<close>

text \<open>\<open>BigInt(s)\<close>: a blank text is 0; decimal literals may have a sign, and there are hexadecimal, octal and
  binary ones. The division rounds towards zero.\<close>

definition radixOf :: "char \<Rightarrow> nat" where
  "radixOf c = (if c \<in> {CHR ''x'', CHR ''X''} then 16 else if c \<in> {CHR ''o'', CHR ''O''} then 8
     else if c \<in> {CHR ''b'', CHR ''B''} then 2 else 0)"

definition readRadix :: "string \<Rightarrow> int option" where
  "readRadix s =
    (case s of
       z # x # ds \<Rightarrow>
        if z = CHR ''0'' \<and> ds \<noteq> [] \<and> list_all (\<lambda>c. isHexDigit c \<and> hexVal c < radixOf x) ds
        then Some (int (foldl (\<lambda>n c. n * radixOf x + hexVal c) 0 ds)) else None
     | _ \<Rightarrow> None)"

definition bigIntOf :: "string \<Rightarrow> int option" where
  "bigIntOf s =
    (case trim s of
       [] \<Rightarrow> Some 0
     | c # cs \<Rightarrow>
        if allDigits (c # cs) then Some (int (read_nat (c # cs)))
        else if c = CHR ''-'' \<and> allDigits cs then Some (- int (read_nat cs))
        else if c = CHR ''+'' \<and> allDigits cs then Some (int (read_nat cs))
        else readRadix (c # cs))"

definition bigDiv :: "int \<Rightarrow> int \<Rightarrow> int" where
  "bigDiv a b = sgn a * (\<bar>a\<bar> div b)"

lemma bigIntOf_show_nat: "bigIntOf (show_nat n) = Some (int n)"
proof -
  have d: "isDigit c \<Longrightarrow> \<not> isSpace c" for c by (auto simp: isDigit_def isSpace_def)
  have "list_all isDigit (show_nat n)" by (rule show_nat_digits)
  then have "dropWhile isSpace (show_nat n) = show_nat n" "dropWhile isSpace (rev (show_nat n)) = rev (show_nat n)"
    using d by (auto simp: dropWhile_eq_self_iff list_all_iff hd_rev)
  then have "trim (show_nat n) = show_nat n" by (simp add: trim_def)
  then show ?thesis by (auto simp: bigIntOf_def split: list.splits)
     (metis allDigits_show_nat read_show_nat show_nat_nonempty)+
qed

end
