(* ===== verification/Arbitration.thy ===== *)
theory Arbitration
  imports XrplCore JsBigInt
begin

text \<open>
  The verifier pool of \<open>packages/xrpl-core\<close> (\<open>dispute/DisputeService.ts\<close>): the roster of verifiers, the draw of
  a panel, the votes, the ruling and the transactions it triggers. The service keeps two maps of
  objects in memory; an object that is changed in place is written back to its map here.
\<close>

section \<open>Data\<close>

record EscrowRef =
  er_owner :: string
  er_sequence :: int
  er_fulfillment :: "string option"

record DisputeMeta =
  dm_leaseId :: string
  dm_parties :: LeaseParties
  dm_depositEscrow :: EscrowRef
  dm_stakeEscrow :: EscrowRef
  dm_stakeAmountDrops :: "string option"
  dm_evidenceUris :: "string list"

record DisputeSubmission =
  su_disputeId :: string
  su_claimant :: string
  su_evidenceHashHex :: string
  su_openedAtUnix :: int
  su_votingDeadlineUnix :: int
  su_panel :: "string list"
  su_votes :: "(string, DisputeRuling) jsmap"
  su_withdrawn :: bool
  su_ruling :: "DisputeRuling option"
  su_executedTxs :: "string list option"
  su_meta :: DisputeMeta

record VerifierEntry =
  vf_address :: string
  vf_active :: bool
  vf_region :: "string option"
  vf_brokerages :: "string list option"
  vf_casesHandled :: nat
  vf_votesWithMajority :: nat

record PanelSelectionParams =
  ps_panelSize :: "nat option"
  ps_excludeAddresses :: "string list option"
  ps_excludeRegion :: "string option"
  ps_excludeBrokerages :: "string list option"

record arb_state = core_state +
  panelDisputes :: "(string, DisputeSubmission) jsmap"
  panelVerifiers :: "(string, VerifierEntry) jsmap"
  votingPeriodSeconds :: int
  insurancePoolAccount :: string

type_synonym 'a arb = "(arb_state, core_error + 'a) state"

text \<open>A change of the stored object, seen by everyone who holds it.\<close>

definition touchDispute :: "string \<Rightarrow> (DisputeSubmission \<Rightarrow> DisputeSubmission) \<Rightarrow> (arb_state, unit) state" where
  "touchDispute i f = modify (panelDisputes_update (\<lambda>m. case jm_get m i of None \<Rightarrow> m | Some d \<Rightarrow> jm_set m i (f d)))"

definition touchVerifier :: "string \<Rightarrow> (VerifierEntry \<Rightarrow> VerifierEntry) \<Rightarrow> (arb_state, unit) state" where
  "touchVerifier a f = modify (panelVerifiers_update (\<lambda>m. case jm_get m a of None \<Rightarrow> m | Some e \<Rightarrow> jm_set m a (f e)))"

section \<open>Roster\<close>

definition registerVerifier :: "string \<Rightarrow> string option \<Rightarrow> string list option \<Rightarrow> unit arb" where
  "registerVerifier address region brokerages = do {
     known \<leftarrow> gets (\<lambda>s. jm_has (panelVerifiers s) address);
     if known then throwE (Failure ''verifier already registered'')
     else liftE (modify (panelVerifiers_update (\<lambda>m. jm_set m address
       \<lparr> vf_address = address, vf_active = True, vf_region = region, vf_brokerages = brokerages,
         vf_casesHandled = 0, vf_votesWithMajority = 0 \<rparr>))) }"

definition deactivateVerifier :: "string \<Rightarrow> unit arb" where
  "deactivateVerifier address = do {
     known \<leftarrow> gets (\<lambda>s. jm_has (panelVerifiers s) address);
     if \<not> known then throwE (Failure ''verifier not found'')
     else liftE (touchVerifier address (\<lambda>e. e\<lparr>vf_active := False\<rparr>)) }"

definition listVerifiers :: "arb_state \<Rightarrow> VerifierEntry list" where
  "listVerifiers s = jm_values (panelVerifiers s)"

definition panelDisputeById :: "string \<Rightarrow> arb_state \<Rightarrow> DisputeSubmission option" where
  "panelDisputeById i s = jm_get (panelDisputes s) i"

section \<open>Panel\<close>

definition eligible :: "PanelSelectionParams \<Rightarrow> VerifierEntry \<Rightarrow> bool" where
  "eligible opts v = (vf_active v \<and> vf_address v \<notin> set (getOr [] (ps_excludeAddresses opts)) \<and>
     \<not> (truthy (ps_excludeRegion opts) \<and> vf_region v = ps_excludeRegion opts) \<and>
     \<not> (ps_excludeBrokerages opts \<noteq> None \<and>
        list_ex (\<lambda>b. b \<in> set (the (ps_excludeBrokerages opts))) (getOr [] (vf_brokerages v))))"

definition swap :: "'a list \<Rightarrow> nat \<Rightarrow> nat \<Rightarrow> 'a list" where
  "swap arr i j = arr[i := arr ! j, j := arr ! i]"

text \<open>The loop of the partial Fisher-Yates shuffle: \<open>k\<close> rounds, from index \<open>i\<close> downwards.\<close>

fun shuffle :: "core_env \<Rightarrow> nat \<Rightarrow> nat \<Rightarrow> string list \<Rightarrow> (arb_state, string list) state" where
  "shuffle E 0 i arr = ret arr"
| "shuffle E (Suc k) i arr = do {
     n \<leftarrow> callNo;
     shuffle E k (i - 1) (swap arr i (draw E n i)) }"

definition selectVerifiers :: "core_env \<Rightarrow> PanelSelectionParams \<Rightarrow> string list arb" where
  "selectVerifiers E opts = do {
     let panelSize = getOr 5 (ps_panelSize opts);
     all \<leftarrow> gets (\<lambda>s. filter (eligible opts) (jm_values (panelVerifiers s)));
     if length all < panelSize
     then throwE (Failure (''not enough eligible verifiers: have '' @ show_nat (length all) @ '', need '' @ show_nat panelSize))
     else do {
       arr \<leftarrow> shuffle E panelSize (length all - 1) (map vf_address all);
       ret (Inr (drop (length arr - panelSize) arr)) } }"

section \<open>Submission and votes\<close>

definition randomDisputeId :: "core_env \<Rightarrow> (arb_state, string) state" where
  "randomDisputeId E = do {
     n \<leftarrow> callNo;
     ret (take 24 (toLowerCase (bytesToHex (sha256 E (freshBytes E n 16))))) }"

definition nowUnix :: "core_env \<Rightarrow> (arb_state, int) state" where
  "nowUnix E = do { n \<leftarrow> callNo; ret (unixMs E n div 1000) }"

definition noSelection :: PanelSelectionParams where
  "noSelection = \<lparr> ps_panelSize = None, ps_excludeAddresses = None, ps_excludeRegion = None, ps_excludeBrokerages = None \<rparr>"

definition submitDispute :: "core_env \<Rightarrow> string \<Rightarrow> string \<Rightarrow> DisputeMeta \<Rightarrow> PanelSelectionParams option \<Rightarrow>
    DisputeSubmission arb" where
  "submitDispute E claimant evidenceHashHex meta panelSelection =
    (let tenant = lp_tenant (dm_parties meta); landlord = lp_landlord (dm_parties meta);
         sel = getOr noSelection panelSelection in
     if claimant \<noteq> tenant \<and> claimant \<noteq> landlord then throwE (Failure ''claimant must be a lease party'')
     else do {
       disputeId \<leftarrow> randomDisputeId E;
       openedAtUnix \<leftarrow> nowUnix E;
       bindE (selectVerifiers E (sel\<lparr>ps_excludeAddresses :=
           Some (getOr [] (ps_excludeAddresses sel) @ [tenant, landlord])\<rparr>)) (\<lambda>panel. do {
         period \<leftarrow> gets votingPeriodSeconds;
         let submission = \<lparr> su_disputeId = disputeId, su_claimant = claimant, su_evidenceHashHex = evidenceHashHex,
           su_openedAtUnix = openedAtUnix, su_votingDeadlineUnix = openedAtUnix + period, su_panel = panel,
           su_votes = [], su_withdrawn = False, su_ruling = None, su_executedTxs = None, su_meta = meta \<rparr>;
         modify (panelDisputes_update (\<lambda>m. jm_set m disputeId submission));
         ret (Inr submission) }) })"

definition requireOpen :: "string \<Rightarrow> DisputeSubmission arb" where
  "requireOpen i = do {
     d \<leftarrow> gets (\<lambda>s. jm_get (panelDisputes s) i);
     ret (case d of
        None \<Rightarrow> Inl (Failure ''dispute not found'')
      | Some d \<Rightarrow> if su_withdrawn d then Inl (Failure ''dispute withdrawn'')
          else if su_ruling d \<noteq> None then Inl (Failure ''dispute already executed'') else Inr d) }"

definition collectVote :: "string \<Rightarrow> string \<Rightarrow> DisputeRuling \<Rightarrow> unit arb" where
  "collectVote i verifier ruling = bindE (requireOpen i) (\<lambda>d.
     if verifier \<notin> set (su_panel d) then throwE (Failure ''not on panel'')
     else if jm_has (su_votes d) verifier then throwE (Failure ''already voted'')
     else liftE (do {
       touchDispute i (\<lambda>d. d\<lparr>su_votes := jm_set (su_votes d) verifier ruling\<rparr>);
       touchVerifier verifier (\<lambda>e. e\<lparr>vf_casesHandled := vf_casesHandled e + 1\<rparr>) }))"

definition withdrawDispute :: "string \<Rightarrow> string \<Rightarrow> unit arb" where
  "withdrawDispute i claimant = bindE (requireOpen i) (\<lambda>d.
     if su_claimant d \<noteq> claimant then throwE (Failure ''not the claimant'')
     else liftE (touchDispute i (\<lambda>d. d\<lparr>su_withdrawn := True\<rparr>)))"

section \<open>Ruling\<close>

definition countVotes :: "DisputeSubmission \<Rightarrow> voteCounts" where
  "countVotes d = (let rs = jm_values (su_votes d) in
     \<lparr> vc_tenant = count_list rs TENANT_WINS, vc_landlord = count_list rs LANDLORD_WINS,
       vc_system = count_list rs SYSTEM_FAULT \<rparr>)"

definition computeRuling :: "core_env \<Rightarrow> DisputeSubmission \<Rightarrow> DisputeRuling arb" where
  "computeRuling E d =
    (let t = countVotes d; majority = length (su_panel d) div 2 + 1 in
     if majority \<le> vc_tenant t then ret (Inr TENANT_WINS)
     else if majority \<le> vc_landlord t then ret (Inr LANDLORD_WINS)
     else if majority \<le> vc_system t then ret (Inr SYSTEM_FAULT)
     else do {
       now \<leftarrow> nowUnix E;
       ret (if now < su_votingDeadlineUnix d then Inl (Failure ''no majority yet and voting still open'')
         else if vc_landlord t < vc_tenant t \<and> vc_system t < vc_tenant t then Inr TENANT_WINS
         else if vc_tenant t < vc_landlord t \<and> vc_system t < vc_landlord t then Inr LANDLORD_WINS
         else Inr SYSTEM_FAULT) })"

section \<open>Judgment\<close>

definition pushHash :: "string \<Rightarrow> TxResponse \<Rightarrow> unit arb" where
  "pushHash i res = liftE (if truthy (rs_hash res)
     then touchDispute i (\<lambda>d. d\<lparr>su_executedTxs := Some (getOr [] (su_executedTxs d) @ [the (rs_hash res)])\<rparr>)
     else ret ())"

definition submitPush :: "core_env \<Rightarrow> string \<Rightarrow> Tx \<Rightarrow> string \<Rightarrow> unit arb" where
  "submitPush E i tx wallet = bindE (signAndSubmit E tx wallet) (pushHash i)"

definition cancelDeposit :: "core_env \<Rightarrow> DisputeSubmission \<Rightarrow> string \<Rightarrow> unit arb" where
  "cancelDeposit E d signer = submitPush E (su_disputeId d) (TxEscrowCancel (buildCancel signer
     (er_owner (dm_depositEscrow (su_meta d))) (er_sequence (dm_depositEscrow (su_meta d))) None)) signer"

definition finishTx :: "core_env \<Rightarrow> string \<Rightarrow> EscrowRef \<Rightarrow> string option \<Rightarrow> core_error + Tx" where
  "finishTx E account ref fulfillment =
    (case buildFinish E \<lparr> fi_account = account, fi_owner = er_owner ref, fi_offerSequence = er_sequence ref,
         fi_fulfillment = fulfillment, fi_memos = None \<rparr> of
       Inl e \<Rightarrow> Inl e | Inr f \<Rightarrow> Inr (TxEscrowFinish f))"

definition finishDeposit :: "core_env \<Rightarrow> DisputeSubmission \<Rightarrow> string \<Rightarrow> unit arb" where
  "finishDeposit E d signer = bindE (ret (finishTx E signer (dm_depositEscrow (su_meta d))
     (er_fulfillment (dm_depositEscrow (su_meta d))))) (\<lambda>tx. submitPush E (su_disputeId d) tx signer)"

definition finishStake :: "core_env \<Rightarrow> DisputeSubmission \<Rightarrow> string \<Rightarrow> unit arb" where
  "finishStake E d signer = bindE (ret (finishTx E signer (dm_stakeEscrow (su_meta d)) None))
     (\<lambda>tx. submitPush E (su_disputeId d) tx signer)"

definition SLASH_TENANT_BPS :: int where
  "SLASH_TENANT_BPS = 7000"

definition BPS_DENOM :: int where
  "BPS_DENOM = 10000"

definition slashStake :: "core_env \<Rightarrow> DisputeSubmission \<Rightarrow> string \<Rightarrow> unit arb" where
  "slashStake E d funder =
    (if \<not> truthy (dm_stakeAmountDrops (su_meta d))
     then throwE (Failure ''slashStake requires meta.stakeAmountDrops (XRP drops as string)'')
     else bindE (finishStake E d funder) (\<lambda>_.
       (case bigIntOf (the (dm_stakeAmountDrops (su_meta d))) of
          None \<Rightarrow> throwE (Failure ''BigInt'')
        | Some drops \<Rightarrow> do {
           pool \<leftarrow> gets insurancePoolAccount;
           let toTenant = bigDiv (drops * SLASH_TENANT_BPS) BPS_DENOM;
           let toInsurance = drops - toTenant;
           bindE (submitPush E (su_disputeId d) (TxPayment (buildPayment funder (lp_tenant (dm_parties (su_meta d)))
               (Drops (show_int toTenant)) None None None)) funder)
             (\<lambda>_. submitPush E (su_disputeId d) (TxPayment (buildPayment funder pool
               (Drops (show_int toInsurance)) None None None)) funder) })))"

definition settle :: "core_env \<Rightarrow> DisputeSubmission \<Rightarrow> DisputeRuling \<Rightarrow> string \<Rightarrow> string \<Rightarrow> unit arb" where
  "settle E d ruling bluesafe poolFunder =
    (case ruling of
       TENANT_WINS \<Rightarrow> bindE (cancelDeposit E d bluesafe) (\<lambda>_. slashStake E d poolFunder)
     | LANDLORD_WINS \<Rightarrow> bindE (finishDeposit E d bluesafe) (\<lambda>_. finishStake E d bluesafe)
     | SYSTEM_FAULT \<Rightarrow> bindE (cancelDeposit E d bluesafe) (\<lambda>_. finishStake E d bluesafe))"

definition creditMajority :: "DisputeRuling \<Rightarrow> string \<times> DisputeRuling \<Rightarrow> (arb_state, unit) state" where
  "creditMajority ruling vote = (if snd vote = ruling
     then touchVerifier (fst vote) (\<lambda>e. e\<lparr>vf_votesWithMajority := vf_votesWithMajority e + 1\<rparr>) else ret ())"

definition executeJudgment :: "core_env \<Rightarrow> string \<Rightarrow> string \<Rightarrow> string \<Rightarrow> string \<Rightarrow> string \<Rightarrow> string list \<Rightarrow>
    DisputeSubmission option arb" where
  "executeJudgment E i bluesafe issuer poolFunder judgmentUri panelAnonymizedHashes =
     bindE (requireOpen i) (\<lambda>d.
     bindE (computeRuling E d) (\<lambda>ruling. do {
       touchDispute i (\<lambda>d. d\<lparr>su_ruling := Some ruling, su_executedTxs := Some []\<rparr>);
       bindE (settle E d ruling bluesafe poolFunder) (\<lambda>_.
       bindE (ret (buildDisputeNFT \<lparr> dn_issuer = issuer, dn_disputeId = su_disputeId d, dn_ruling = ruling,
           dn_votes = countVotes d, dn_panelAnonymizedHashes = panelAnonymizedHashes,
           dn_evidenceUris = dm_evidenceUris (su_meta d), dn_uri = judgmentUri, dn_memos = None \<rparr>)) (\<lambda>nft.
       bindE (mint E nft issuer) (\<lambda>m.
       bindE (pushHash i (mr_response m)) (\<lambda>_. liftE (do {
         for_each (su_votes d) (creditMajority ruling);
         gets (\<lambda>s. jm_get (panelDisputes s) i) }))))) }))"

section \<open>Drawing a panel\<close>

definition draws_ok :: "core_env \<Rightarrow> bool" where
  "draws_ok E = (\<forall>n i. draw E n i \<le> i)"

lemma mset_shuffle:
  assumes "draws_ok E" "k \<le> Suc i" "0 < k \<longrightarrow> i < length arr"
  shows "mset (valu (shuffle E k i arr) s) = mset arr"
  using assms(2,3)
proof (induction k arbitrary: i arr s)
  case (Suc k)
  let ?j = "draw E (valu callNo s) i"
  have "?j < length arr" using assms(1) Suc.prems by (metis draws_ok_def order_le_less_trans zero_less_Suc)
  then have m: "mset (swap arr i ?j) = mset arr"
    using Suc.prems mset_swap [of ?j arr i] by (simp add: swap_def)
  have "mset (valu (shuffle E k (i - 1) (swap arr i ?j)) s') = mset (swap arr i ?j)" for s'
  proof (cases k)
    case (Suc k')
    with Suc.prems show ?thesis by (intro Suc.IH) (auto simp: swap_def)
  qed simp
  with m show ?case by simp
qed simp

abbreviation stores :: "arb_state \<Rightarrow> (string, DisputeSubmission) jsmap \<times> (string, VerifierEntry) jsmap" where
  "stores s \<equiv> (panelDisputes s, panelVerifiers s)"

lemma keeps_callNo: "keeps stores callNo"
  by (auto simp: callNo_def intro!: io_intros)

lemma keeps_shuffle: "keeps stores (shuffle E k i arr)"
  by (induction E k i arr rule: shuffle.induct) (auto intro!: io_intros keeps_callNo)

lemma keeps_selectVerifiers: "keeps stores (selectVerifiers E opts)"
  unfolding selectVerifiers_def throwE_def Let_def by (auto intro!: io_intros keeps_shuffle)

lemma panel_drawn:
  assumes "draws_ok E" "jm_ok (panelVerifiers s)" "entries (\<lambda>k e. vf_address e = k) (panelVerifiers s)"
    and "valu (selectVerifiers E opts) s = Inr panel"
  shows "distinct panel" "length panel = getOr 5 (ps_panelSize opts)"
    "\<And>a. a \<in> set panel \<Longrightarrow> \<exists>e. jm_get (panelVerifiers s) a = Some e \<and> eligible opts e"
proof -
  let ?all = "filter (eligible opts) (jm_values (panelVerifiers s))" and ?n = "getOr 5 (ps_panelSize opts)"
  let ?arr = "valu (shuffle E ?n (length ?all - 1) (map vf_address ?all)) s"
  have n: "?n \<le> length ?all" and p: "panel = drop (length ?arr - ?n) ?arr"
    using assms(4) by (auto simp: selectVerifiers_def run_simps Let_def split: if_splits)
  have m: "mset ?arr = mset (map vf_address ?all)"
    by (rule mset_shuffle [OF assms(1)]) (use n in auto)
  have "map vf_address (jm_values (panelVerifiers s)) = jm_keys (panelVerifiers s)"
    using assms(2,3) by (force simp: jm_values_def jm_keys_def jm.all_entries_def jm_get_def jm_ok_def)
  then have "distinct (map vf_address (jm_values (panelVerifiers s)))"
    using assms(2) by (simp add: jm_ok_def jm_keys_def)
  then have "distinct (map vf_address ?all)" by (rule distinct_map_filter)
  then have "distinct ?arr" using m by (metis mset_eq_imp_distinct_iff)
  then show "distinct panel" unfolding p by simp
  have "length ?arr = length ?all" using m by (metis length_map size_mset)
  then show "length panel = ?n" unfolding p using n by simp
  fix a assume "a \<in> set panel"
  then have "a \<in> set ?arr" unfolding p by (rule in_set_dropD)
  then have "a \<in> vf_address ` set ?all" using m by (metis mset_eq_setD set_map)
  then show "\<exists>e. jm_get (panelVerifiers s) a = Some e \<and> eligible opts e"
    using assms(2,3) by (auto simp: jm_values_get jm.all_entries_def)
qed

section \<open>Invariant\<close>

lemma jm_get_apsnd: "jm_get (map (apsnd g) m) k = map_option g (jm_get m k)"
  by (induction m) auto

lemma jm_set_apsnd: "map (apsnd g) (jm_set m k v) = jm_set (map (apsnd g) m) k (g v)"
  by (induction m k v rule: jm_set.induct) auto

lemma jm_set_same: "jm_get m k = Some v \<Longrightarrow> jm_set m k v = m"
  by (induction m k v rule: jm_set.induct) (auto split: if_splits)

lemma filter_jm_set:
  "length (filter P (jm_values (jm_set m k v))) + (case jm_get m k of None \<Rightarrow> 0 | Some u \<Rightarrow> of_bool (P u)) =
     length (filter P (jm_values m)) + of_bool (P v)"
  by (induction m k v rule: jm_set.induct) (auto simp: jm_values_def split: option.splits)

text \<open>The disputes without the list of transaction hashes, which no decision of the service reads.\<close>

definition erase :: "DisputeSubmission \<Rightarrow> DisputeSubmission" where
  "erase d = d\<lparr>su_executedTxs := None\<rparr>"

definition frozen :: "arb_state \<Rightarrow> (string, DisputeSubmission) jsmap" where
  "frozen s = map (apsnd erase) (panelDisputes s)"

lemma frozen_get: "jm_get (frozen s) k = map_option erase (jm_get (panelDisputes s) k)"
  by (simp add: frozen_def jm_get_apsnd)

lemma erase_simps [simp]:
  "su_disputeId (erase d) = su_disputeId d" "su_claimant (erase d) = su_claimant d" "su_panel (erase d) = su_panel d"
  "su_votes (erase d) = su_votes d" "su_withdrawn (erase d) = su_withdrawn d" "su_ruling (erase d) = su_ruling d"
  "su_meta (erase d) = su_meta d" "su_votingDeadlineUnix (erase d) = su_votingDeadlineUnix d"
  by (simp_all add: erase_def)

definition sub_ok :: "(string, VerifierEntry) jsmap \<Rightarrow> DisputeSubmission \<Rightarrow> bool" where
  "sub_ok V d = (distinct (su_panel d) \<and> (\<forall>a \<in> set (su_panel d). jm_has V a) \<and>
     lp_tenant (dm_parties (su_meta d)) \<notin> set (su_panel d) \<and> lp_landlord (dm_parties (su_meta d)) \<notin> set (su_panel d) \<and>
     jm_ok (su_votes d) \<and> set (jm_keys (su_votes d)) \<subseteq> set (su_panel d) \<and>
     su_claimant d \<in> {lp_tenant (dm_parties (su_meta d)), lp_landlord (dm_parties (su_meta d))} \<and>
     (su_withdrawn d \<longrightarrow> su_ruling d = None))"

definition openVote :: "string \<Rightarrow> DisputeSubmission \<Rightarrow> bool" where
  "openVote v d = (su_ruling d = None \<and> jm_has (su_votes d) v)"

definition pending :: "(string, DisputeSubmission) jsmap \<Rightarrow> string \<Rightarrow> nat" where
  "pending D v = length (filter (openVote v) (jm_values D))"

definition arb_inv :: "(string, DisputeSubmission) jsmap \<Rightarrow> (string, VerifierEntry) jsmap \<Rightarrow> bool" where
  "arb_inv D V = (jm_ok D \<and> jm_ok V \<and> entries (\<lambda>k d. su_disputeId d = k \<and> sub_ok V d) D \<and>
     entries (\<lambda>k e. vf_address e = k \<and> vf_votesWithMajority e + pending D k \<le> vf_casesHandled e) V)"

definition arb_ok :: "arb_state \<Rightarrow> bool" where
  "arb_ok s = arb_inv (frozen s) (panelVerifiers s)"

lemma jm_has_get: "jm_has m k \<longleftrightarrow> jm_get m k \<noteq> None"
  by (simp add: jm_has_def)

lemma jm_keys_get: "k \<in> set (jm_keys m) \<longleftrightarrow> jm_get m k \<noteq> None"
  by (induction m) (auto simp: jm_keys_def)

lemma set_jm_keys_set: "set (jm_keys (jm_set m k v)) = insert k (set (jm_keys m))"
  by (auto simp: jm_keys_def jm_keys_set)

lemma pending_set_le: "pending (jm_set D k d) v \<le> pending D v + of_bool (openVote v d)"
  using filter_jm_set [of "openVote v" D k d] by (simp add: pending_def)

lemma pending_set:
  "jm_get D k = Some u \<Longrightarrow> pending (jm_set D k d) v + of_bool (openVote v u) = pending D v + of_bool (openVote v d)"
  using filter_jm_set [of "openVote v" D k d] by (simp add: pending_def)

lemma arb_invD:
  assumes "arb_inv D V"
  shows "jm_get D k = Some d \<Longrightarrow> su_disputeId d = k \<and> sub_ok V d"
    "jm_get V a = Some e \<Longrightarrow> vf_address e = a \<and> vf_votesWithMajority e + pending D a \<le> vf_casesHandled e"
    "jm_ok D" "jm_ok V"
  using assms by (auto simp: arb_inv_def jm.all_entries_def)

lemma jm_has_fst: "jm_has m k \<longleftrightarrow> k \<in> set (map fst m)"
  using jm_keys_get [of k m] by (simp add: jm_has_get jm_keys_def)

lemma sub_voter: "sub_ok V d \<Longrightarrow> jm_has (su_votes d) a \<Longrightarrow> jm_has V a"
  by (auto simp: sub_ok_def jm_has_fst [of "su_votes d"] jm_keys_def)

lemma pending_unknown:
  assumes "arb_inv D V" "jm_get V a = None"
  shows "pending D a = 0"
proof -
  have "\<not> openVote a d" if v: "d \<in> set (jm_values D)" for d
  proof -
    obtain k where "jm_get D k = Some d" using v jm_values_get [OF arb_invD(3) [OF assms(1)], of d] by auto
    with arb_invD(1) [OF assms(1)] have "sub_ok V d" by blast
    with assms(2) sub_voter [of V d a] show ?thesis by (auto simp: openVote_def jm_has_get [of V])
  qed
  then show ?thesis by (simp add: pending_def)
qed

text \<open>A dispute is added or replaced, a verifier is added or replaced.\<close>

lemma arb_inv_dispute:
  assumes "arb_inv D V" "sub_ok V d" "su_disputeId d = k" "\<And>a. openVote a d \<Longrightarrow> \<exists>u. jm_get D k = Some u \<and> openVote a u"
  shows "arb_inv (jm_set D k d) V"
proof -
  have p: "pending (jm_set D k d) a \<le> pending D a" for a
  proof (cases "openVote a d")
    case True
    with assms(4) obtain u where "jm_get D k = Some u" "openVote a u" by blast
    with pending_set [of D k u d a] True show ?thesis by simp
  next
    case False
    with pending_set_le [of D k d a] show ?thesis by simp
  qed
  show ?thesis
    using assms(1-3) le_trans [OF add_left_mono [OF p]] by (force simp: arb_inv_def jm.all_entries_def)
qed

lemma sub_ok_mono: "sub_ok V d \<Longrightarrow> (\<And>a. jm_has V a \<Longrightarrow> jm_has V' a) \<Longrightarrow> sub_ok V' d"
  by (auto simp: sub_ok_def)

lemma sub_ok_set: "sub_ok V d \<Longrightarrow> sub_ok (jm_set V a e) d"
  by (erule sub_ok_mono) (simp add: jm_has_get)

lemma arb_inv_verifier:
  assumes "arb_inv D V" "vf_address e = a" "vf_votesWithMajority e + pending D a \<le> vf_casesHandled e"
  shows "arb_inv D (jm_set V a e)"
  using assms by (auto simp: arb_inv_def jm.all_entries_def sub_ok_set)

lemma frozen_touch:
  "frozen (exec (touchDispute i f) s) = (case jm_get (panelDisputes s) i of None \<Rightarrow> frozen s
     | Some d \<Rightarrow> jm_set (frozen s) i (erase (f d)))"
  "panelVerifiers (exec (touchDispute i f) s) = panelVerifiers s"
  "panelVerifiers (exec (touchVerifier a g) s) = (case jm_get (panelVerifiers s) a of None \<Rightarrow> panelVerifiers s
     | Some e \<Rightarrow> jm_set (panelVerifiers s) a (g e))"
  "frozen (exec (touchVerifier a g) s) = frozen s"
  by (auto simp: touchDispute_def touchVerifier_def frozen_def jm_set_apsnd split: option.splits)

lemma requireOpen_run:
  "exec (requireOpen i) s = s"
  "valu (requireOpen i) s = Inr d \<longleftrightarrow> jm_get (panelDisputes s) i = Some d \<and> \<not> su_withdrawn d \<and> su_ruling d = None"
  by (auto simp: requireOpen_def split: option.splits)

lemma arb_register: "preserves arb_ok (registerVerifier a r b)"
proof (rule preservesI)
  fix s assume ok: "arb_ok s"
  show "arb_ok (exec (registerVerifier a r b) s)"
  proof (cases "jm_get (panelVerifiers s) a")
    case None
    have "arb_inv (frozen s) (jm_set (panelVerifiers s) a \<lparr> vf_address = a, vf_active = True, vf_region = r,
        vf_brokerages = b, vf_casesHandled = 0, vf_votesWithMajority = 0 \<rparr>)"
      using ok pending_unknown [OF _ None, of "frozen s"] by (intro arb_inv_verifier) (simp_all add: arb_ok_def)
    with None show ?thesis by (simp add: registerVerifier_def run_simps jm_has_get arb_ok_def frozen_def)
  qed (use ok in \<open>simp add: registerVerifier_def run_simps jm_has_get\<close>)
qed

lemma arb_deactivate: "preserves arb_ok (deactivateVerifier a)"
proof (rule preservesI)
  fix s assume ok: "arb_ok s"
  have "arb_inv (frozen s) (jm_set (panelVerifiers s) a (e\<lparr>vf_active := False\<rparr>))" if "jm_get (panelVerifiers s) a = Some e" for e
    using ok arb_invD(2) [OF _ that, of "frozen s"] by (intro arb_inv_verifier) (auto simp: arb_ok_def)
  with ok show "arb_ok (exec (deactivateVerifier a) s)"
    by (auto simp: deactivateVerifier_def run_simps jm_has_get arb_ok_def frozen_touch)
qed

lemma arb_select:
  assumes "draws_ok E" "arb_ok s" "valu (selectVerifiers E opts) s = Inr panel"
  shows "distinct panel \<and> (\<forall>a \<in> set panel. jm_has (panelVerifiers s) a \<and> a \<notin> set (getOr [] (ps_excludeAddresses opts)))"
proof -
  have "jm_ok (panelVerifiers s)" "entries (\<lambda>k e. vf_address e = k) (panelVerifiers s)"
    using assms(2) by (auto simp: arb_ok_def arb_inv_def jm.all_entries_def)
  note d = panel_drawn [OF assms(1) this assms(3)]
  have "jm_has (panelVerifiers s) a \<and> a \<notin> set (getOr [] (ps_excludeAddresses opts))" if a: "a \<in> set panel" for a
    using d(3) [OF a] \<open>entries _ _\<close> by (auto simp: eligible_def jm_has_get jm.all_entries_def)
  with d(1) show ?thesis by blast
qed

lemma keeps_stores_utils: "keeps stores (randomDisputeId E)" "keeps stores (nowUnix E)"
  unfolding randomDisputeId_def nowUnix_def by (auto intro!: io_intros keeps_callNo)

lemma arb_submit:
  assumes "draws_ok E"
  shows "preserves arb_ok (submitDispute E c h meta sel)"
proof (rule preservesI)
  fix s assume ok: "arb_ok s"
  let ?t = "lp_tenant (dm_parties meta)" and ?l = "lp_landlord (dm_parties meta)"
  let ?i = "valu (randomDisputeId E) s" and ?s1 = "exec (randomDisputeId E) s"
  let ?s2 = "exec (nowUnix E) ?s1" and ?at = "valu (nowUnix E) ?s1"
  let ?opts = "(getOr noSelection sel)\<lparr>ps_excludeAddresses :=
    Some (getOr [] (ps_excludeAddresses (getOr noSelection sel)) @ [?t, ?l])\<rparr>"
  let ?s3 = "exec (selectVerifiers E ?opts) ?s2"
  have st: "stores ?s2 = stores s" "stores ?s3 = stores s"
    using keeps_stores_utils [THEN keepsD] keeps_selectVerifiers [THEN keepsD] by metis+
  then have ok2: "arb_ok ?s2" and ok3: "arb_ok ?s3" and V: "panelVerifiers ?s3 = panelVerifiers s" and F: "frozen ?s3 = frozen s"
    using ok by (simp_all add: arb_ok_def frozen_def)
  show "arb_ok (exec (submitDispute E c h meta sel) s)"
  proof (cases "c \<noteq> ?t \<and> c \<noteq> ?l")
    case False
    show ?thesis
    proof (cases "valu (selectVerifiers E ?opts) ?s2")
      case (Inl e)
      with False ok3 show ?thesis by (auto simp: submitDispute_def run_simps Let_def)
    next
      case (Inr panel)
      let ?d = "\<lparr> su_disputeId = ?i, su_claimant = c, su_evidenceHashHex = h, su_openedAtUnix = ?at,
        su_votingDeadlineUnix = ?at + votingPeriodSeconds ?s3, su_panel = panel, su_votes = [],
        su_withdrawn = False, su_ruling = None, su_executedTxs = None, su_meta = meta \<rparr>"
      have "sub_ok (panelVerifiers s) (erase ?d)"
        using arb_select [OF assms ok2 Inr] st False by (auto simp: sub_ok_def jm_keys_def)
      then have "arb_inv (jm_set (frozen s) ?i (erase ?d)) (panelVerifiers s)"
        using ok by (intro arb_inv_dispute) (auto simp: arb_ok_def openVote_def jm_has_def)
      moreover have "exec (submitDispute E c h meta sel) s = ?s3\<lparr>panelDisputes := jm_set (panelDisputes ?s3) ?i ?d\<rparr>"
        using False Inr by (auto simp: submitDispute_def run_simps Let_def)
      ultimately show ?thesis using V F by (simp add: arb_ok_def) (simp add: frozen_def jm_set_apsnd)
    qed
  qed (use ok in \<open>simp add: submitDispute_def Let_def\<close>)
qed

lemma arb_vote: "preserves arb_ok (collectVote i v r)"
proof (rule preservesI)
  fix s assume ok: "arb_ok s"
  show "arb_ok (exec (collectVote i v r) s)"
  proof (cases "\<exists>d. valu (requireOpen i) s = Inr d \<and> v \<in> set (su_panel d) \<and> \<not> jm_has (su_votes d) v")
    case True
    then obtain d where d: "jm_get (panelDisputes s) i = Some d" "\<not> su_withdrawn d" "su_ruling d = None"
      "v \<in> set (su_panel d)" "\<not> jm_has (su_votes d) v" "valu (requireOpen i) s = Inr d"
      by (auto simp: requireOpen_run)
    let ?D = "frozen s" and ?V = "panelVerifiers s" and ?d = "erase (d\<lparr>su_votes := jm_set (su_votes d) v r\<rparr>)"
    have inv: "arb_inv ?D ?V" using ok by (simp add: arb_ok_def)
    have u: "jm_get ?D i = Some (erase d)" using d(1) by (simp add: frozen_get)
    then have sd: "su_disputeId d = i" "sub_ok ?V (erase d)" using arb_invD(1) [OF inv u] by auto
    then obtain e where e: "jm_get ?V v = Some e" using d(4) by (auto simp: sub_ok_def jm_has_get)
    have sd': "sub_ok ?V ?d" using sd(2) d(4) by (auto simp: sub_ok_def set_jm_keys_set)
    have p: "pending (jm_set ?D i ?d) a = pending ?D a + of_bool (a = v)" for a
      using pending_set [OF u, of ?d a] d(3,5) by (auto simp: openVote_def jm_has_get split: if_splits)
    have "arb_inv (jm_set ?D i ?d) (jm_set ?V v (e\<lparr>vf_casesHandled := vf_casesHandled e + 1\<rparr>))"
      using inv sd' sd(1) e arb_invD(2) [OF inv e] unfolding arb_inv_def jm.all_entries_def
      by (auto simp: p sub_ok_set)
    moreover have "exec (collectVote i v r) s = exec (touchVerifier v (\<lambda>e. e\<lparr>vf_casesHandled := vf_casesHandled e + 1\<rparr>))
        (exec (touchDispute i (\<lambda>d. d\<lparr>su_votes := jm_set (su_votes d) v r\<rparr>)) s)"
      using d(4-6) by (simp add: collectVote_def requireOpen_run(1))
    ultimately show ?thesis by (simp add: arb_ok_def frozen_touch d(1) e)
  next
    case False
    then have "exec (collectVote i v r) s = s"
      by (auto simp: collectVote_def run_simps requireOpen_run(1) split: sum.splits)
    with ok show ?thesis by simp
  qed
qed

lemma arb_withdraw: "preserves arb_ok (withdrawDispute i c)"
proof (rule preservesI)
  fix s assume ok: "arb_ok s"
  show "arb_ok (exec (withdrawDispute i c) s)"
  proof (cases "\<exists>d. valu (requireOpen i) s = Inr d \<and> su_claimant d = c")
    case True
    then obtain d where d: "jm_get (panelDisputes s) i = Some d" "su_ruling d = None" "valu (requireOpen i) s = Inr d"
      "su_claimant d = c" by (auto simp: requireOpen_run)
    have inv: "arb_inv (frozen s) (panelVerifiers s)" and u: "jm_get (frozen s) i = Some (erase d)"
      using ok d(1) by (simp_all add: arb_ok_def frozen_get)
    have "arb_inv (jm_set (frozen s) i (erase (d\<lparr>su_withdrawn := True\<rparr>))) (panelVerifiers s)"
      using inv arb_invD(1) [OF inv u] u d(2) by (intro arb_inv_dispute) (auto simp: sub_ok_def openVote_def)
    with d show ?thesis by (simp add: withdrawDispute_def run_simps requireOpen_run(1) arb_ok_def frozen_touch)
  next
    case False
    then have "exec (withdrawDispute i c) s = s"
      by (auto simp: withdrawDispute_def run_simps requireOpen_run(1) split: sum.splits)
    with ok show ?thesis by simp
  qed
qed

section \<open>Judgments\<close>

text \<open>What the transactions of a judgment leave alone: everything but the log of the ledger and the hashes.\<close>

abbreviation decided :: "arb_state \<Rightarrow> (string, DisputeSubmission) jsmap \<times> (string, VerifierEntry) jsmap \<times> string" where
  "decided s \<equiv> (frozen s, panelVerifiers s, insurancePoolAccount s)"

lemma keeps_submitAs: "keeps decided (submitAs E ws tx)"
  unfolding submitAs_def callNo_def by (auto intro!: io_intros simp: frozen_def)

lemma keeps_pushHash: "keeps decided (pushHash i res)"
proof (rule stepsI)
  fix s
  have "frozen (exec (pushHash i res) s) = frozen s"
    by (auto simp: pushHash_def run_simps frozen_touch frozen_get erase_def intro!: jm_set_same split: option.splits)
  moreover have "panelVerifiers (exec (pushHash i res) s) = panelVerifiers s"
    "insurancePoolAccount (exec (pushHash i res) s) = insurancePoolAccount s"
    by (simp_all add: pushHash_def run_simps touchDispute_def)
  ultimately show "same decided s (exec (pushHash i res) s)" by (simp add: same_def)
qed

lemma keeps_settlement:
  "keeps decided (submitPush E i tx w)" "keeps decided (settle E d r b p)" "keeps decided (mint E nft w)"
  unfolding settle_def cancelDeposit_def finishDeposit_def finishStake_def slashStake_def submitPush_def mint_def
    signAndSubmit_def bindE_def throwE_def Let_def
  by (auto intro!: io_intros keeps_submitAs keeps_pushHash split: DisputeRuling.splits)

text \<open>The verifiers that a loop over different voters credits.\<close>

lemma credit_loop:
  assumes "distinct (map fst vs)" "arb_inv (frozen s) (panelVerifiers s)"
    and "\<And>a e. a \<in> set (map fst vs) \<Longrightarrow> jm_get (panelVerifiers s) a = Some e \<Longrightarrow>
      vf_votesWithMajority e + pending (frozen s) a < vf_casesHandled e"
  shows "frozen (exec (for_each vs (creditMajority r)) s) = frozen s \<and>
    arb_inv (frozen s) (panelVerifiers (exec (for_each vs (creditMajority r)) s))"
  using assms
proof (induction vs arbitrary: s)
  case (Cons vote vs)
  obtain a x where v: "vote = (a, x)" by (cases vote)
  let ?s = "exec (creditMajority r vote) s"
  have f: "frozen ?s = frozen s" by (simp add: creditMajority_def run_simps frozen_touch)
  have g: "jm_get (panelVerifiers ?s) b = jm_get (panelVerifiers s) b" if "b \<noteq> a" for b
    using that by (auto simp: creditMajority_def run_simps frozen_touch v split: option.splits)
  have "arb_inv (frozen s) (panelVerifiers ?s)"
  proof (cases "x = r \<and> jm_get (panelVerifiers s) a \<noteq> None")
    case True
    then obtain e where e: "jm_get (panelVerifiers s) a = Some e" by auto
    have "arb_inv (frozen s) (jm_set (panelVerifiers s) a (e\<lparr>vf_votesWithMajority := vf_votesWithMajority e + 1\<rparr>))"
      using Cons.prems(2) arb_invD(2) [OF Cons.prems(2) e] Cons.prems(3) [OF _ e] v by (intro arb_inv_verifier) auto
    then show ?thesis using True e by (simp add: creditMajority_def v frozen_touch)
  next
    case False
    then have "panelVerifiers ?s = panelVerifiers s" by (auto simp: creditMajority_def v frozen_touch run_simps split: option.splits)
    with Cons.prems(2) show ?thesis by simp
  qed
  moreover have "vf_votesWithMajority e + pending (frozen ?s) b < vf_casesHandled e"
    if "b \<in> set (map fst vs)" "jm_get (panelVerifiers ?s) b = Some e" for b e
  proof -
    have "b \<noteq> a" using that(1) Cons.prems(1) v by auto
    then show ?thesis using Cons.prems(3) [of b e] that g [of b] f by simp
  qed
  ultimately show ?case using Cons.IH [of ?s] Cons.prems(1) f by simp
qed simp

text \<open>A judgment whose ruling is known: the ruling is written first; either everything is submitted and the
  verifiers are credited, or an error leaves the ruling behind.\<close>

lemma keeps_computeRuling: "keeps stores (computeRuling E d)"
  unfolding computeRuling_def Let_def by (auto intro!: io_intros keeps_stores_utils)

lemma execute_split:
  assumes "valu (requireOpen i) s = Inr d" "valu (computeRuling E d) s = Inr r"
  obtains s2 where "frozen s2 = jm_set (frozen s) i (erase (d\<lparr>su_ruling := Some r\<rparr>))" "panelVerifiers s2 = panelVerifiers s"
    "exec (executeJudgment E i b iss p uri hs) s \<in> {s2, exec (for_each (su_votes d) (creditMajority r)) s2}"
proof -
  have g: "jm_get (panelDisputes s) i = Some d" using assms(1) by (simp add: requireOpen_run)
  let ?s1 = "exec (touchDispute i (\<lambda>d. d\<lparr>su_ruling := Some r, su_executedTxs := Some []\<rparr>)) (exec (computeRuling E d) s)"
  have "stores (exec (computeRuling E d) s) = stores s" by (rule keepsD [OF keeps_computeRuling])
  then have f1: "frozen ?s1 = jm_set (frozen s) i (erase (d\<lparr>su_ruling := Some r\<rparr>))" "panelVerifiers ?s1 = panelVerifiers s"
    using g by (simp_all add: frozen_touch) (simp add: frozen_def erase_def)
  define rest where "rest = bindE (settle E d r b p) (\<lambda>_.
     bindE (ret (buildDisputeNFT \<lparr> dn_issuer = iss, dn_disputeId = su_disputeId d, dn_ruling = r,
         dn_votes = countVotes d, dn_panelAnonymizedHashes = hs,
         dn_evidenceUris = dm_evidenceUris (su_meta d), dn_uri = uri, dn_memos = None \<rparr>)) (\<lambda>nft.
     bindE (mint E nft iss) (\<lambda>m. pushHash i (mr_response m))))"
  have kr: "keeps decided rest"
    unfolding rest_def bindE_def by (auto intro!: io_intros keeps_settlement keeps_pushHash)
  have "exec (executeJudgment E i b iss p uri hs) s = (case valu rest ?s1 of Inl e \<Rightarrow> exec rest ?s1
      | Inr _ \<Rightarrow> exec (for_each (su_votes d) (creditMajority r)) (exec rest ?s1))"
    using assms by (simp add: rest_def executeJudgment_def requireOpen_run(1) split: sum.splits)
  then have "exec (executeJudgment E i b iss p uri hs) s \<in>
      {exec rest ?s1, exec (for_each (su_votes d) (creditMajority r)) (exec rest ?s1)}"
    by (cases "valu rest ?s1") simp_all
  moreover have "frozen (exec rest ?s1) = frozen ?s1" "panelVerifiers (exec rest ?s1) = panelVerifiers ?s1"
    using keepsD [OF kr, of ?s1] by simp_all
  ultimately show ?thesis using that [of "exec rest ?s1"] f1 by simp
qed

lemma arb_execute: "preserves arb_ok (executeJudgment E i b iss p uri hs)"
proof (rule preservesI)
  fix s assume ok: "arb_ok s"
  show "arb_ok (exec (executeJudgment E i b iss p uri hs) s)"
  proof (cases "\<exists>d r. valu (requireOpen i) s = Inr d \<and> valu (computeRuling E d) s = Inr r")
    case False
    have "stores (exec (executeJudgment E i b iss p uri hs) s) = stores s"
      using False keepsD [OF keeps_computeRuling]
      by (auto simp: executeJudgment_def run_simps requireOpen_run(1) split: sum.splits)
    with ok show ?thesis by (simp add: arb_ok_def frozen_def)
  next
    case True
    then obtain d r where d: "valu (requireOpen i) s = Inr d" "valu (computeRuling E d) s = Inr r" by blast
    then have g: "jm_get (panelDisputes s) i = Some d" "su_ruling d = None" "\<not> su_withdrawn d" by (simp_all add: requireOpen_run)
    let ?d = "erase (d\<lparr>su_ruling := Some r\<rparr>)"
    obtain s2 where s2: "frozen s2 = jm_set (frozen s) i ?d" "panelVerifiers s2 = panelVerifiers s"
      "exec (executeJudgment E i b iss p uri hs) s \<in> {s2, exec (for_each (su_votes d) (creditMajority r)) s2}"
      using execute_split [OF d] by blast
    have inv: "arb_inv (frozen s) (panelVerifiers s)" and u: "jm_get (frozen s) i = Some (erase d)"
      using ok g(1) by (simp_all add: arb_ok_def frozen_get)
    have sd: "su_disputeId d = i" "sub_ok (panelVerifiers s) (erase d)" using arb_invD(1) [OF inv u] by auto
    then have inv2: "arb_inv (frozen s2) (panelVerifiers s2)"
      unfolding s2 using inv g(2,3) by (intro arb_inv_dispute) (auto simp: sub_ok_def openVote_def)
    have credit: "vf_votesWithMajority e + pending (frozen s2) a < vf_casesHandled e"
      if "a \<in> set (map fst (su_votes d))" "jm_get (panelVerifiers s2) a = Some e" for a e
    proof -
      have "jm_has (su_votes d) a" using that(1) by (simp add: jm_has_fst)
      then have "pending (frozen s2) a + 1 = pending (frozen s) a"
        unfolding s2 using pending_set [OF u, of ?d a] g(2) by (simp add: openVote_def)
      with arb_invD(2) [OF inv, of a e] that(2) show ?thesis unfolding s2 by simp
    qed
    have "distinct (map fst (su_votes d))" using sd(2) by (simp add: sub_ok_def jm_ok_def)
    from credit_loop [OF this inv2 credit, of r] s2(3) inv2 show ?thesis by (auto simp: arb_ok_def)
  qed
qed

lemma execute_ruling:
  assumes "valu (requireOpen i) s = Inr d" "valu (computeRuling E d) s = Inr r"
  shows "\<exists>d'. jm_get (panelDisputes (exec (executeJudgment E i b iss p uri hs) s)) i = Some d' \<and>
    su_ruling d' = Some r \<and> \<not> su_withdrawn d'"
proof -
  let ?d = "erase (d\<lparr>su_ruling := Some r\<rparr>)"
  define s' where "s' = exec (executeJudgment E i b iss p uri hs) s"
  obtain s2 where s2: "frozen s2 = jm_set (frozen s) i ?d" "s' \<in> {s2, exec (for_each (su_votes d) (creditMajority r)) s2}"
    unfolding s'_def using execute_split [OF assms] by blast
  have "keeps frozen (for_each vs (creditMajority r))" for vs
    unfolding creditMajority_def touchVerifier_def by (auto intro!: io_intros simp: frozen_def)
  from keepsD [OF this] s2 have "frozen s' = jm_set (frozen s) i ?d" by auto
  then have "map_option erase (jm_get (panelDisputes s') i) = Some ?d" using frozen_get [of s' i] by simp
  then obtain d' where d': "jm_get (panelDisputes s') i = Some d'" "erase d' = ?d" by blast
  then have "su_ruling d' = su_ruling ?d" "su_withdrawn d' = su_withdrawn ?d" using erase_simps(5,6) [of d'] by simp_all
  with d'(1) assms(1) show ?thesis by (simp add: s'_def requireOpen_run)
qed

section \<open>Runs of the pool\<close>

inductive arb_step :: "core_env \<Rightarrow> arb_state \<Rightarrow> arb_state \<Rightarrow> bool" for E :: core_env where
  register: "arb_step E s (exec (registerVerifier a rg br) s)"
| deactivate: "arb_step E s (exec (deactivateVerifier a) s)"
| submit: "arb_step E s (exec (submitDispute E c h meta sel) s)"
| vote: "arb_step E s (exec (collectVote i v r) s)"
| withdraw: "arb_step E s (exec (withdrawDispute i c) s)"
| execute: "arb_step E s (exec (executeJudgment E i b iss p uri hs) s)"

definition newPool :: "string \<Rightarrow> arb_state" where
  "newPool pool = \<lparr> sentTxs = [], calls = 0, panelDisputes = [], panelVerifiers = [],
     votingPeriodSeconds = 7 * 24 * 60 * 60, insurancePoolAccount = pool \<rparr>"

definition arb_reachable :: "core_env \<Rightarrow> string \<Rightarrow> arb_state \<Rightarrow> bool" where
  "arb_reachable E pool = (arb_step E)\<^sup>*\<^sup>* (newPool pool)"

lemma arb_reachable_ok:
  assumes "draws_ok E" "arb_reachable E pool s"
  shows "arb_ok s"
  using assms(2) unfolding arb_reachable_def
proof (induction rule: rtranclp_induct)
  case base
  show ?case by (simp add: newPool_def arb_ok_def arb_inv_def frozen_def jm.all_entries_def jm_get_def jm_ok_def)
next
  case (step s s')
  from step.hyps(2) step.IH show ?case
    by cases (auto intro: arb_register [THEN preservesD] arb_deactivate [THEN preservesD] arb_submit [OF assms(1), THEN preservesD]
        arb_vote [THEN preservesD] arb_withdraw [THEN preservesD] arb_execute [THEN preservesD])
qed

lemma arb_reachable_sub:
  assumes "draws_ok E" "arb_reachable E pool s" "jm_get (panelDisputes s) i = Some d"
  shows "su_disputeId d = i" "sub_ok (panelVerifiers s) d"
proof -
  have "arb_inv (frozen s) (panelVerifiers s)" using arb_reachable_ok [OF assms(1,2)] by (simp add: arb_ok_def)
  from arb_invD(1) [OF this, of i "erase d"] assms(3) show "su_disputeId d = i" "sub_ok (panelVerifiers s) d"
    by (simp_all add: frozen_get sub_ok_def)
qed

section \<open>The ruling as an abstract vote\<close>

text \<open>The abstract view of a dispute: the ballots as a multiset, the number of seats, and whether the vote is
  closed. A ruling wins with more than half of the seats; after the close the strict winner of the
  plurality wins, and without one the fault is the system's.\<close>

definition verdict_spec :: "DisputeRuling multiset \<Rightarrow> nat \<Rightarrow> bool \<Rightarrow> DisputeRuling \<Rightarrow> bool" where
  "verdict_spec ballots seats closed r =
    (seats < 2 * count ballots r \<or>
     ((\<forall>q. 2 * count ballots q \<le> seats) \<and> closed \<and>
      (if \<exists>q. \<forall>q'. q' \<noteq> q \<longrightarrow> count ballots q' < count ballots q
       then \<forall>q'. q' \<noteq> r \<longrightarrow> count ballots q' < count ballots r else r = SYSTEM_FAULT)))"

lemma all_rulings: "(\<forall>q. P q) \<longleftrightarrow> P TENANT_WINS \<and> P LANDLORD_WINS \<and> P SYSTEM_FAULT"
  using DisputeRuling.exhaust by metis

lemma ex_rulings: "(\<exists>q. P q) \<longleftrightarrow> P TENANT_WINS \<or> P LANDLORD_WINS \<or> P SYSTEM_FAULT"
  using DisputeRuling.exhaust by metis

lemma ballots_total:
  "count_list rs TENANT_WINS + count_list rs LANDLORD_WINS + count_list rs SYSTEM_FAULT = length rs"
proof (induction rs)
  case (Cons r rs)
  then show ?case by (cases r) simp_all
qed simp

lemma votes_le_panel: "sub_ok V d \<Longrightarrow> length (jm_values (su_votes d)) \<le> length (su_panel d)"
proof -
  assume d: "sub_ok V d"
  then have "length (su_votes d) = card (set (jm_keys (su_votes d)))"
    using distinct_card [of "jm_keys (su_votes d)"] by (simp add: sub_ok_def jm_ok_def jm_keys_def)
  also have "\<dots> \<le> card (set (su_panel d))" using d by (intro card_mono) (simp_all add: sub_ok_def)
  finally show ?thesis using card_length [of "su_panel d"] by (simp add: jm_values_def)
qed

section \<open>Properties\<close>

text \<open>The rule on the three counts alone: at most one ruling has a majority of the seats.\<close>

definition rulingOf :: "nat \<Rightarrow> nat \<Rightarrow> nat \<Rightarrow> nat \<Rightarrow> bool \<Rightarrow> DisputeRuling option" where
  "rulingOf t l f n closed =
    (if n div 2 + 1 \<le> t then Some TENANT_WINS else if n div 2 + 1 \<le> l then Some LANDLORD_WINS
     else if n div 2 + 1 \<le> f then Some SYSTEM_FAULT else if \<not> closed then None
     else if l < t \<and> f < t then Some TENANT_WINS else if t < l \<and> f < l then Some LANDLORD_WINS else Some SYSTEM_FAULT)"

lemma computeRuling_rulingOf:
  fixes d :: DisputeSubmission
  defines "rs \<equiv> jm_values (su_votes d)"
  shows "valu (computeRuling E d) s = Inr r \<longleftrightarrow> rulingOf (count_list rs TENANT_WINS) (count_list rs LANDLORD_WINS)
    (count_list rs SYSTEM_FAULT) (length (su_panel d)) (su_votingDeadlineUnix d \<le> unixMs E (calls s) div 1000) = Some r"
  by (simp add: rulingOf_def computeRuling_def countVotes_def nowUnix_def callNo_def run_simps Let_def rs_def not_less)

lemma majority_half: "n div 2 + 1 \<le> (k :: nat) \<longleftrightarrow> n < 2 * k"
  by presburger

lemma rulingOf_verdict:
  assumes "count B TENANT_WINS + count B LANDLORD_WINS + count B SYSTEM_FAULT \<le> n"
  shows "rulingOf (count B TENANT_WINS) (count B LANDLORD_WINS) (count B SYSTEM_FAULT) n closed = Some r \<longleftrightarrow>
    verdict_spec B n closed r"
proof -
  obtain t l f where c: "count B TENANT_WINS = t" "count B LANDLORD_WINS = l" "count B SYSTEM_FAULT = f" by blast
  show ?thesis using assms unfolding rulingOf_def verdict_spec_def all_rulings ex_rulings majority_half c
    by (cases r; cases closed; cases "n < 2 * t"; cases "n < 2 * l"; cases "n < 2 * f"; simp add: c; linarith?)
qed

text \<open>C17: rulings refine the abstract vote. In every reachable pool the computed ruling of a dispute depends
  on the multiset of ballots, the size of the panel and the deadline only, and is exactly the verdict of
  the abstract vote; an error is reported exactly when there is none yet.\<close>

theorem ruling_refines_vote:
  assumes "draws_ok E" "arb_reachable E pool s" "jm_get (panelDisputes s) i = Some d"
  shows "\<forall>r. valu (computeRuling E d) s = Inr r \<longleftrightarrow>
    verdict_spec (mset (jm_values (su_votes d))) (length (su_panel d))
      (su_votingDeadlineUnix d \<le> unixMs E (calls s) div 1000) r"
proof
  fix r
  let ?B = "mset (jm_values (su_votes d))"
  have "length (jm_values (su_votes d)) \<le> length (su_panel d)" using votes_le_panel arb_reachable_sub(2) [OF assms] by blast
  then have "count ?B TENANT_WINS + count ?B LANDLORD_WINS + count ?B SYSTEM_FAULT \<le> length (su_panel d)"
    using ballots_total [of "jm_values (su_votes d)"] by (simp add: count_mset)
  from rulingOf_verdict [OF this] show "valu (computeRuling E d) s = Inr r \<longleftrightarrow> verdict_spec ?B (length (su_panel d))
      (su_votingDeadlineUnix d \<le> unixMs E (calls s) div 1000) r"
    by (simp add: computeRuling_rulingOf count_mset)
qed

text \<open>The panel. With draws in range a panel is drawn exactly when enough verifiers are eligible; it then
  has the requested number of different, active, registered verifiers, none of them excluded by address,
  region or brokerage, and the draw changes neither disputes nor verifiers.\<close>

lemma panel_selection:
  assumes "draws_ok E" "arb_reachable E pool s"
  shows "let n = getOr 5 (ps_panelSize opts) in
    stores (exec (selectVerifiers E opts) s) = stores s \<and>
    (case valu (selectVerifiers E opts) s of
       Inl e \<Rightarrow> length (filter (eligible opts) (jm_values (panelVerifiers s))) < n
     | Inr panel \<Rightarrow> length panel = n \<and> distinct panel \<and>
        (\<forall>a \<in> set panel. \<exists>e. jm_get (panelVerifiers s) a = Some e \<and> eligible opts e))"
proof -
  have ok: "jm_ok (panelVerifiers s)" "entries (\<lambda>k e. vf_address e = k) (panelVerifiers s)"
    using arb_reachable_ok [OF assms] by (auto simp: arb_ok_def arb_inv_def jm.all_entries_def)
  show ?thesis
  proof (cases "valu (selectVerifiers E opts) s")
    case (Inl e)
    then show ?thesis using keepsD [OF keeps_selectVerifiers, of E opts s]
      by (auto simp: selectVerifiers_def run_simps Let_def split: if_splits)
  next
    case (Inr panel)
    with panel_drawn [OF assms(1) ok this] keepsD [OF keeps_selectVerifiers, of E opts s] show ?thesis by simp
  qed
qed

text \<open>C18: the pool stays sound. In every reachable pool a dispute has a panel of different registered
  verifiers without the two parties; only panel members have voted, each once; the claimant is a party;
  a withdrawn dispute has no ruling; and no verifier was in the majority more often than it voted, even
  counting the votes of disputes that are still open.\<close>

theorem pool_invariant:
  assumes "draws_ok E" "arb_reachable E pool s"
  shows "(\<forall>i d. jm_get (panelDisputes s) i = Some d \<longrightarrow> su_disputeId d = i \<and> sub_ok (panelVerifiers s) d) \<and>
    (\<forall>a e. jm_get (panelVerifiers s) a = Some e \<longrightarrow>
      vf_votesWithMajority e + pending (panelDisputes s) a \<le> vf_casesHandled e)"
proof -
  have inv: "arb_inv (frozen s) (panelVerifiers s)" using arb_reachable_ok [OF assms] by (simp add: arb_ok_def)
  have "pending (frozen s) a = pending (panelDisputes s) a" for a
    by (simp add: pending_def frozen_def jm_values_def filter_map o_def openVote_def case_prod_beta)
  with arb_invD(2) [OF inv] arb_reachable_sub [OF assms] show ?thesis by fastforce
qed

text \<open>The transactions of a verdict, with their signers.\<close>

definition cancelOf :: "string \<Rightarrow> EscrowRef \<Rightarrow> string list \<times> Tx" where
  "cancelOf w ref = ([w], TxEscrowCancel \<lparr> ek_Account = w, ek_Owner = er_owner ref, ek_OfferSequence = er_sequence ref,
     ek_Memos = None \<rparr>)"

definition finishOf :: "string \<Rightarrow> EscrowRef \<Rightarrow> string option \<Rightarrow> string option \<Rightarrow> string list \<times> Tx" where
  "finishOf w ref ful cond = ([w], TxEscrowFinish \<lparr> ef_Account = w, ef_Owner = er_owner ref, ef_OfferSequence = er_sequence ref,
     ef_Fulfillment = ful, ef_Condition = cond, ef_Memos = None \<rparr>)"

definition dropsTo :: "string \<Rightarrow> string \<Rightarrow> nat \<Rightarrow> string list \<times> Tx" where
  "dropsTo w to n = ([w], TxPayment \<lparr> pm_Account = w, pm_Destination = to, pm_Amount = Drops (show_nat n),
     pm_DestinationTag = None, pm_Memos = None, pm_InvoiceID = None \<rparr>)"

definition verdictTxs :: "DisputeMeta \<Rightarrow> DisputeRuling \<Rightarrow> nat \<Rightarrow> string option \<Rightarrow> string \<Rightarrow> string \<Rightarrow> string \<Rightarrow>
    (string list \<times> Tx) list" where
  "verdictTxs m r stake cond bluesafe funder pool =
    (case r of
       TENANT_WINS \<Rightarrow> [cancelOf bluesafe (dm_depositEscrow m), finishOf funder (dm_stakeEscrow m) None None,
         dropsTo funder (lp_tenant (dm_parties m)) (stake * 7 div 10), dropsTo funder pool (stake - stake * 7 div 10)]
     | LANDLORD_WINS \<Rightarrow> [finishOf bluesafe (dm_depositEscrow m) (er_fulfillment (dm_depositEscrow m)) cond,
         finishOf bluesafe (dm_stakeEscrow m) None None]
     | SYSTEM_FAULT \<Rightarrow> [cancelOf bluesafe (dm_depositEscrow m), finishOf bluesafe (dm_stakeEscrow m) None None])"

definition answers :: "core_env \<Rightarrow> bool" where
  "answers E = (\<forall>n ws tx. ledger E n ws tx \<noteq> None)"

lemma submitPush_run:
  assumes "answers E"
  shows "valu (submitPush E i tx w) s = Inr ()" "sentTxs (exec (submitPush E i tx w) s) = sentTxs s @ [([w], tx)]"
    "insurancePoolAccount (exec (submitPush E i tx w) s) = insurancePoolAccount s"
proof -
  have "ledger E (calls s) [w] tx \<noteq> None" using assms by (simp add: answers_def)
  then obtain r where "ledger E (calls s) [w] tx = Some r" by blast
  then show "valu (submitPush E i tx w) s = Inr ()" "sentTxs (exec (submitPush E i tx w) s) = sentTxs s @ [([w], tx)]"
    "insurancePoolAccount (exec (submitPush E i tx w) s) = insurancePoolAccount s"
    by (simp_all add: submitPush_def signAndSubmit_def submitAs_def callNo_def pushHash_def touchDispute_def run_simps)
qed

lemma slash_amounts:
  "show_int (bigDiv (int n * SLASH_TENANT_BPS) BPS_DENOM) = show_nat (n * 7 div 10)"
  "show_int (int n - bigDiv (int n * SLASH_TENANT_BPS) BPS_DENOM) = show_nat (n - n * 7 div 10)"
proof -
  have "bigDiv (int n * SLASH_TENANT_BPS) BPS_DENOM = int (n * 7 div 10)"
    by (cases "n = 0") (auto simp: bigDiv_def SLASH_TENANT_BPS_def BPS_DENOM_def sgn_mult zdiv_int)
  moreover have "n * 7 div 10 \<le> n" by linarith
  ultimately show "show_int (bigDiv (int n * SLASH_TENANT_BPS) BPS_DENOM) = show_nat (n * 7 div 10)"
    "show_int (int n - bigDiv (int n * SLASH_TENANT_BPS) BPS_DENOM) = show_nat (n - n * 7 div 10)"
    by (simp_all add: show_int_def flip: of_nat_diff)
qed

lemma settle_run:
  assumes "answers E" "r = TENANT_WINS \<longrightarrow> dm_stakeAmountDrops (su_meta d) = Some (show_nat n)"
    and "r = LANDLORD_WINS \<longrightarrow> (case er_fulfillment (dm_depositEscrow (su_meta d)) of None \<Rightarrow> cond = None
      | Some f \<Rightarrow> \<exists>c. f \<noteq> '''' \<and> restoreConditionFromFulfillment E f = Inr c \<and> cond = Some c)"
  shows "valu (settle E d r b p) s = Inr ()"
    "sentTxs (exec (settle E d r b p) s) = sentTxs s @ verdictTxs (su_meta d) r n cond b p (insurancePoolAccount s)"
  using assms(2,3)
  by (cases r; auto simp: settle_def cancelDeposit_def slashStake_def finishDeposit_def finishStake_def finishTx_def buildFinish_def
      buildCancel_def buildPayment_def verdictTxs_def cancelOf_def finishOf_def dropsTo_def submitPush_run [OF assms(1)] run_simps
      bigIntOf_show_nat slash_amounts Let_def split: option.splits)+


text \<open>A judgment is executed at most once, and an interrupted one is never resumed. When the ruling was
  found and a later step fails, the dispute keeps the ruling, and every further attempt, whatever the
  ledger does then, is refused without submitting anything, although the remaining transactions are missing.\<close>

lemma judgment_interrupted:
  assumes "valu (requireOpen i) s = Inr d" "valu (computeRuling E d) s = Inr r"
    and "valu (executeJudgment E i b iss p uri hs) s = Inl e"
  shows "let s' = exec (executeJudgment E i b iss p uri hs) s in
    map_option su_ruling (jm_get (panelDisputes s') i) = Some (Some r) \<and>
    valu (executeJudgment E' i b' iss' p' uri' hs') s' = Inl (Failure ''dispute already executed'') \<and>
    exec (executeJudgment E' i b' iss' p' uri' hs') s' = s'"
proof -
  define s' where "s' = exec (executeJudgment E i b iss p uri hs) s"
  obtain d' where d': "jm_get (panelDisputes s') i = Some d'" "su_ruling d' = Some r" "\<not> su_withdrawn d'"
    unfolding s'_def using execute_ruling [OF assms(1,2)] by blast
  then have "valu (requireOpen i) s' = Inl (Failure ''dispute already executed'')" by (simp add: requireOpen_def)
  then have "valu (executeJudgment E' i b' iss' p' uri' hs') s' = Inl (Failure ''dispute already executed'')"
    "exec (executeJudgment E' i b' iss' p' uri' hs') s' = s'"
    by (simp_all add: executeJudgment_def requireOpen_run(1))
  with d' show ?thesis unfolding s'_def [symmetric] Let_def by simp
qed

end
