(* ===== verification/CoreWitnesses.thy ===== *)
theory CoreWitnesses
  imports Arbitration
begin

text \<open>
  Concrete inputs for the theorems about \<open>packages/xrpl-core\<close>: a sample outside world in which every
  submission is answered, a lease with its escrows, and a small pool with one verifier in which a dispute
  is submitted, voted on and judged.
\<close>

section \<open>Sample world\<close>

definition core_sample :: core_env where
  "core_sample = \<lparr> sha256 = (\<lambda>b. replicate 32 0), freshBytes = (\<lambda>n k. replicate k (of_nat n)), draw = (\<lambda>n i. i),
     unixMs = (\<lambda>n. 1700000000000 + int n),
     ledger = (\<lambda>n ws tx. Some \<lparr> rs_hash = Some ''H'', rs_result = ''tesSUCCESS'', rs_nftoken_id = None \<rparr>),
     autofills = (\<lambda>n tx. True),
     accountObjects = (\<lambda>n a. Some [\<lparr> le_LedgerEntryType = ''Credential'', le_Issuer = ''issuer'',
       le_CredentialType = utf8ToHex ''VERIFIER'', le_Expiration = Some (1800000000 - 946684800) \<rparr>]) \<rparr>"

definition core_start :: core_state where
  "core_start = \<lparr> sentTxs = [], calls = 0 \<rparr>"

definition lease :: LeaseParties where
  "lease = \<lparr> lp_tenant = ''t'', lp_landlord = ''l'', lp_bluesafe = ''b'' \<rparr>"

definition sample_deposit :: "PreimageCondition \<Rightarrow> DepositEscrowInput" where
  "sample_deposit c = \<lparr> de_tenant = ''t'', de_landlord = ''l'', de_amount = Drops ''5'', de_leaseEndUnix = Some 1700000000,
     de_finishOffsetDays = None, de_cancelOffsetDays = None, de_condition = Some c, de_destinationTag = None,
     de_memos = None \<rparr>"

section \<open>Transactions\<close>

theorem two_of_three_witness:
  "\<not> quorumMet (buildSignerListSet ''h'' lease) [''b''] \<and> quorumMet (buildSignerListSet ''h'' lease) [''b'', ''t'']"
  using two_of_three [of lease "''h''" "[''b'']" core_sample "buildDisableMaster ''h''" core_start]
    two_of_three [of lease "''h''" "[''b'', ''t'']" core_sample "buildDisableMaster ''h''" core_start]
  by (simp add: lease_def)

section \<open>A judged dispute\<close>

definition lease_meta :: DisputeMeta where
  "lease_meta = \<lparr> dm_leaseId = ''lease'', dm_parties = lease,
     dm_depositEscrow = \<lparr> er_owner = ''t'', er_sequence = 1, er_fulfillment = None \<rparr>,
     dm_stakeEscrow = \<lparr> er_owner = ''l'', er_sequence = 2, er_fulfillment = None \<rparr>,
     dm_stakeAmountDrops = Some (show_nat 1000), dm_evidenceUris = [] \<rparr>"

definition one_seat :: PanelSelectionParams where
  "one_seat = \<lparr> ps_panelSize = Some 1, ps_excludeAddresses = None, ps_excludeRegion = None, ps_excludeBrokerages = None \<rparr>"

definition case_id :: string where
  "case_id = take 24 (toLowerCase (bytesToHex (replicate 32 0)))"

definition pool1 :: arb_state where
  "pool1 = exec (registerVerifier ''v1'' None None) (newPool ''pool'')"

definition pool2 :: arb_state where
  "pool2 = exec (submitDispute core_sample ''t'' ''ev'' lease_meta (Some one_seat)) pool1"

definition pool3 :: arb_state where
  "pool3 = exec (collectVote case_id ''v1'' TENANT_WINS) pool2"

definition judged :: DisputeSubmission where
  "judged = \<lparr> su_disputeId = case_id, su_claimant = ''t'', su_evidenceHashHex = ''ev'', su_openedAtUnix = 1700000000,
     su_votingDeadlineUnix = 1700604800, su_panel = [''v1''], su_votes = [(''v1'', TENANT_WINS)], su_withdrawn = False,
     su_ruling = None, su_executedTxs = None, su_meta = lease_meta \<rparr>"

lemma pool3_reachable: "arb_reachable core_sample ''pool'' pool3"
proof -
  have "arb_reachable core_sample ''pool'' (newPool ''pool'')" by (simp add: arb_reachable_def)
  then have "arb_reachable core_sample ''pool'' pool1"
    unfolding pool1_def arb_reachable_def by (rule rtranclp.rtrancl_into_rtrancl) (rule arb_step.register)
  then have "arb_reachable core_sample ''pool'' pool2"
    unfolding pool2_def arb_reachable_def by (rule rtranclp.rtrancl_into_rtrancl) (rule arb_step.submit)
  then show ?thesis
    unfolding pool3_def arb_reachable_def by (rule rtranclp.rtrancl_into_rtrancl) (rule arb_step.vote)
qed

lemma pool2_facts:
  "panelDisputes pool2 = [(case_id, judged\<lparr>su_votes := []\<rparr>)]" "calls pool2 = 3" "insurancePoolAccount pool2 = ''pool''"
  "sentTxs pool2 = []" "map fst (panelVerifiers pool2) = [''v1'']"
  by (simp_all add: pool2_def pool1_def registerVerifier_def newPool_def submitDispute_def lease_meta_def lease_def one_seat_def
      randomDisputeId_def nowUnix_def callNo_def selectVerifiers_def eligible_def swap_def core_sample_def judged_def
      case_id_def jm_has_def jm_values_def jm_get_def run_simps Let_def)

lemma pool3_facts:
  "jm_get (panelDisputes pool3) case_id = Some judged" "calls pool3 = 3" "insurancePoolAccount pool3 = ''pool''"
  "sentTxs pool3 = []"
proof -
  have open2: "valu (requireOpen case_id) pool2 = Inr (judged\<lparr>su_votes := []\<rparr>)"
    by (simp add: requireOpen_def pool2_facts judged_def)
  show "jm_get (panelDisputes pool3) case_id = Some judged" "calls pool3 = 3" "insurancePoolAccount pool3 = ''pool''"
    "sentTxs pool3 = []"
    by (simp_all add: pool3_def collectVote_def open2 requireOpen_run(1) run_simps touchDispute_def touchVerifier_def
        pool2_facts jm_has_def judged_def)
qed

lemma core_sample_ok: "draws_ok core_sample" "answers core_sample"
  by (simp_all add: draws_ok_def answers_def core_sample_def)

lemma judged_ruling: "valu (requireOpen case_id) pool3 = Inr judged" "valu (computeRuling E judged) s = Inr TENANT_WINS"
  by (simp_all add: requireOpen_def pool3_facts computeRuling_def countVotes_def jm_values_def judged_def Let_def)

theorem ruling_refines_vote_witness:
  "verdict_spec {#TENANT_WINS#} 1 False TENANT_WINS"
proof -
  have "valu (computeRuling core_sample judged) pool3 = Inr TENANT_WINS" by (rule judged_ruling)
  with ruling_refines_vote [OF core_sample_ok(1) pool3_reachable pool3_facts(1)] show ?thesis
    by (simp add: pool3_facts judged_def jm_values_def core_sample_def)
qed

theorem pool_invariant_witness:
  "su_disputeId judged = case_id \<and> sub_ok (panelVerifiers pool3) judged"
  using pool_invariant [OF core_sample_ok(1) pool3_reachable] pool3_facts(1) by blast


text \<open>A ledger that answers the first submission only: the deposit is cancelled, the stake is not slashed.\<close>

definition flaky :: core_env where
  "flaky = core_sample\<lparr>ledger := (\<lambda>n ws tx. if n = 3 then ledger core_sample n ws tx else None)\<rparr>"

end
