(* ===== verification/JsNumber.thy ===== *)
theory JsNumber
  imports JsDate
begin

text \<open>
  JavaScript numbers, as far as the services compute with amounts: IEEE 754 doubles with rounding to
  nearest, ties to even; \<open>parseFloat\<close>, addition, subtraction, comparison, \<open>toFixed\<close> and the printing of a number.
  A finite double is kept as \<open>Fin n k\<close>, the number \<open>n / 2 ^ k\<close>; the zero of either sign is \<open>Fin 0 k\<close>.
\<close>

section \<open>Doubles\<close>

datatype double = NaN | Infinity | NegInfinity | Fin int nat

fun bitLen :: "nat \<Rightarrow> nat" where
  "bitLen n = (if n = 0 then 0 else Suc (bitLen (n div 2)))"

declare bitLen.simps [simp del]

text \<open>The exponent of the leading bit of the positive number \<open>n / d\<close>.\<close>

definition leadExp :: "nat \<Rightarrow> nat \<Rightarrow> int" where
  "leadExp n d = (let e = int (bitLen n) - int (bitLen d) in
     if d * 2 ^ nat e \<le> n * 2 ^ nat (- e) then e else e - 1)"

text \<open>The integer nearest to \<open>a / b\<close>, the even one of two.\<close>

definition roundEven :: "nat \<Rightarrow> nat \<Rightarrow> nat" where
  "roundEven a b = (let q = a div b; r = a mod b in
     if 2 * r < b \<or> (2 * r = b \<and> even q) then q else Suc q)"

text \<open>The double nearest to the number \<open>n / d\<close>: 53 significant bits, none below \<open>2 ^ -1074\<close>.\<close>

definition toDoubleNat :: "nat \<Rightarrow> nat \<Rightarrow> double" where
  "toDoubleNat n d =
    (if n = 0 then Fin 0 0
     else let q = max (leadExp n d - 52) (- 1074) in
       if 0 \<le> q
       then let m = roundEven n (d * 2 ^ nat q) * 2 ^ nat q in
         if 2 ^ 1024 \<le> m then Infinity else Fin (int m) 0
       else Fin (int (roundEven (n * 2 ^ nat (- q)) d)) (nat (- q)))"

definition negDouble :: "double \<Rightarrow> double" where
  "negDouble x = (case x of NaN \<Rightarrow> NaN | Infinity \<Rightarrow> NegInfinity | NegInfinity \<Rightarrow> Infinity | Fin n k \<Rightarrow> Fin (- n) k)"

definition toDouble :: "int \<Rightarrow> nat \<Rightarrow> double" where
  "toDouble n d = (if n < 0 then negDouble (toDoubleNat (nat (- n)) d) else toDoubleNat (nat n) d)"

definition isFinite :: "double \<Rightarrow> bool" where
  "isFinite x = (case x of Fin _ _ \<Rightarrow> True | _ \<Rightarrow> False)"

fun addDouble :: "double \<Rightarrow> double \<Rightarrow> double" where
  "addDouble (Fin a j) (Fin b k) = toDouble (a * 2 ^ k + b * 2 ^ j) (2 ^ (j + k))"
| "addDouble NaN y = NaN"
| "addDouble x NaN = NaN"
| "addDouble Infinity NegInfinity = NaN"
| "addDouble NegInfinity Infinity = NaN"
| "addDouble Infinity y = Infinity"
| "addDouble NegInfinity y = NegInfinity"
| "addDouble x Infinity = Infinity"
| "addDouble x NegInfinity = NegInfinity"

definition subDouble :: "double \<Rightarrow> double \<Rightarrow> double" where
  "subDouble x y = addDouble x (negDouble y)"

text \<open>\<open>x < y\<close>: false as soon as one of them is \<open>NaN\<close>.\<close>

fun ltDouble :: "double \<Rightarrow> double \<Rightarrow> bool" where
  "ltDouble (Fin a j) (Fin b k) = (a * 2 ^ k < b * 2 ^ j)"
| "ltDouble (Fin a j) Infinity = True"
| "ltDouble NegInfinity (Fin b k) = True"
| "ltDouble NegInfinity Infinity = True"
| "ltDouble _ _ = False"

fun leDouble :: "double \<Rightarrow> double \<Rightarrow> bool" where
  "leDouble (Fin a j) (Fin b k) = (a * 2 ^ k \<le> b * 2 ^ j)"
| "leDouble NaN y = False"
| "leDouble x NaN = False"
| "leDouble NegInfinity y = True"
| "leDouble x Infinity = True"
| "leDouble _ _ = False"

section \<open>Reading\<close>

text \<open>The optional exponent part of a decimal literal: ignored when it has no digit.\<close>

definition readExponent :: "string \<Rightarrow> int" where
  "readExponent s = (case s of
      [] \<Rightarrow> 0
    | c # r \<Rightarrow> if c \<noteq> CHR ''e'' \<and> c \<noteq> CHR ''E'' then 0
       else (let neg = (case r of d # _ \<Rightarrow> d = CHR ''-'' | [] \<Rightarrow> False);
                 t = (case r of d # r' \<Rightarrow> if d = CHR ''-'' \<or> d = CHR ''+'' then r' else r | [] \<Rightarrow> r);
                 n = int (read_nat (takeWhile isDigit t)) in
             if neg then - n else n))"

text \<open>The longest prefix that is an unsigned decimal literal.\<close>

definition readDecimal :: "string \<Rightarrow> double" where
  "readDecimal s =
    (if startsWith s ''Infinity'' then Infinity
     else let whole = takeWhile isDigit s;
         r = dropWhile isDigit s;
         frac = (case r of c # r' \<Rightarrow> if c = CHR ''.'' then takeWhile isDigit r' else [] | [] \<Rightarrow> []);
         r2 = (case r of c # r' \<Rightarrow> if c = CHR ''.'' then dropWhile isDigit r' else r | [] \<Rightarrow> []) in
       if whole = [] \<and> frac = [] then NaN
       else let e = readExponent r2 - int (length frac) in
         toDoubleNat (read_nat (whole @ frac) * 10 ^ nat e) (10 ^ nat (- e)))"

definition parseFloat :: "string \<Rightarrow> double" where
  "parseFloat s = (case dropWhile isSpace s of
      [] \<Rightarrow> NaN
    | c # r \<Rightarrow> if c = CHR ''-'' then negDouble (readDecimal r)
       else if c = CHR ''+'' then readDecimal r else readDecimal (c # r))"

section \<open>Printing\<close>

text \<open>The decimal digits of a finite positive double \<open>n / 2 ^ k\<close>: the least \<open>m\<close> with
  \<open>n / 2 ^ k < 10 ^ m\<close> (for \<open>m\<close> from the given start upwards), and the shortest decimal that reads back as the double.\<close>

fun decExp :: "nat \<Rightarrow> int \<Rightarrow> nat \<Rightarrow> nat \<Rightarrow> int" where
  "decExp 0 m n d = m"
| "decExp (Suc f) m n d = (if n * 10 ^ nat (- m) < d * 10 ^ nat m then m else decExp f (m + 1) n d)"

text \<open>The candidates with \<open>j\<close> digits: \<open>s\<close> times \<open>10 ^ (m - j)\<close> for the two integers around the quotient.\<close>

definition shortCand :: "nat \<Rightarrow> int \<Rightarrow> nat \<Rightarrow> nat \<Rightarrow> nat option" where
  "shortCand j m n d =
    (let e = m - int j;
         a = n * 10 ^ nat (- e);
         b = d * 10 ^ nat e;
         lo = a div b;
         reads = (\<lambda>s. toDoubleNat (s * 10 ^ nat e) (10 ^ nat (- e)) = toDoubleNat n d) in
     if reads lo \<and> (\<not> reads (Suc lo) \<or> 2 * (a mod b) \<le> b) then Some lo
     else if reads (Suc lo) then Some (Suc lo) else None)"

fun shortDigits :: "nat \<Rightarrow> nat \<Rightarrow> int \<Rightarrow> nat \<Rightarrow> nat \<Rightarrow> nat \<times> nat" where
  "shortDigits 0 j m n d = (n, j)"
| "shortDigits (Suc f) j m n d = (case shortCand j m n d of
     Some s \<Rightarrow> (s, j) | None \<Rightarrow> shortDigits f (Suc j) m n d)"

definition printExp :: "int \<Rightarrow> string" where
  "printExp e = (if 0 \<le> e then ''e+'' @ show_nat (nat e) else ''e-'' @ show_nat (nat (- e)))"

definition printDigits :: "string \<Rightarrow> int \<Rightarrow> string" where
  "printDigits ds m =
    (let k = int (length ds) in
     if k \<le> m \<and> m \<le> 21 then ds @ replicate (nat (m - k)) (CHR ''0'')
     else if 0 < m \<and> m \<le> 21 then take (nat m) ds @ ''.'' @ drop (nat m) ds
     else if - 6 < m \<and> m \<le> 0 then ''0.'' @ replicate (nat (- m)) (CHR ''0'') @ ds
     else if k = 1 then ds @ printExp (m - 1)
     else take 1 ds @ ''.'' @ drop 1 ds @ printExp (m - 1))"

definition printPositive :: "nat \<Rightarrow> nat \<Rightarrow> string" where
  "printPositive n k =
    (let m = decExp 700 (- 330) n (2 ^ k); (s, j) = shortDigits 17 1 m n (2 ^ k) in
     if s = 10 ^ j then printDigits ''1'' (m + 1) else printDigits (show_nat s) m)"

definition numberToString :: "double \<Rightarrow> string" where
  "numberToString x = (case x of
      NaN \<Rightarrow> ''NaN'' | Infinity \<Rightarrow> ''Infinity'' | NegInfinity \<Rightarrow> ''-Infinity''
    | Fin n k \<Rightarrow> if n = 0 then ''0'' else if n < 0 then CHR ''-'' # printPositive (nat (- n)) k
        else printPositive (nat n) k)"

text \<open>The integer nearest to \<open>a / b\<close>, the larger of two.\<close>

definition roundUp :: "nat \<Rightarrow> nat \<Rightarrow> nat" where
  "roundUp a b = (2 * a + b) div (2 * b)"

definition fixedPositive :: "nat \<Rightarrow> nat \<Rightarrow> nat \<Rightarrow> string" where
  "fixedPositive f n k =
    (let m = roundUp (n * 10 ^ f) (2 ^ k) in
     show_nat (m div 10 ^ f) @ (if f = 0 then '''' else ''.'' @ pad f (m mod 10 ^ f)))"

definition toFixed :: "nat \<Rightarrow> double \<Rightarrow> string" where
  "toFixed f x = (case x of
      Fin n k \<Rightarrow> if 10 ^ 21 * 2 ^ k \<le> \<bar>n\<bar> then numberToString x
        else if n < 0 then CHR ''-'' # fixedPositive f (nat (- n)) k else fixedPositive f (nat n) k
    | _ \<Rightarrow> numberToString x)"

text \<open>\<open>s.replace(/\.?0+$/, '')\<close>.\<close>

definition stripZeros :: "string \<Rightarrow> string" where
  "stripZeros s =
    (let r = dropWhile (\<lambda>c. c = CHR ''0'') (rev s) in
     if length r = length s then s
     else rev (case r of c # r' \<Rightarrow> if c = CHR ''.'' then r' else r | [] \<Rightarrow> []))"

section \<open>Whole numbers\<close>

text \<open>A whole number below \<open>2 ^ 53\<close> is a double, and the operations on such numbers are exact.\<close>

lemma bitLen_bounds: "0 < n \<Longrightarrow> 0 < bitLen n \<and> 2 ^ (bitLen n - 1) \<le> n \<and> n < 2 ^ bitLen n"
proof (induction n rule: bitLen.induct)
  case (1 n)
  show ?case
  proof (cases "n = 1")
    case False
    with 1 have "0 < bitLen (n div 2) \<and> 2 ^ (bitLen (n div 2) - 1) \<le> n div 2 \<and> n div 2 < 2 ^ bitLen (n div 2)"
      by auto
    then obtain b where b: "bitLen (n div 2) = Suc b" "2 ^ b \<le> n div 2" "n div 2 < 2 * 2 ^ b"
      by (cases "bitLen (n div 2)") auto
    from 1 b(1) have "bitLen n = Suc (Suc b)" by (simp add: bitLen.simps [of n])
    moreover have "2 * 2 ^ b \<le> n" "n < 4 * 2 ^ b" using b by auto
    ultimately show ?thesis by simp
  qed (simp add: bitLen.simps)
qed

lemma bitLen_unique:
  assumes "2 ^ b \<le> n" "n < 2 ^ Suc b"
  shows "bitLen n = Suc b"
proof -
  have "0 < n" using assms(1) by (metis gr0I not_le zero_less_numeral zero_less_power)
  from bitLen_bounds [OF this] have l: "0 < bitLen n" "2 ^ (bitLen n - 1) \<le> n" "n < 2 ^ bitLen n" by auto
  have "(2 :: nat) ^ b < 2 ^ bitLen n" using assms(1) l(3) by linarith
  then have "b < bitLen n" by (rule power_less_imp_less_exp [rotated]) simp
  moreover have "(2 :: nat) ^ (bitLen n - 1) < 2 ^ Suc b" using assms(2) l(2) by linarith
  then have "bitLen n - 1 < Suc b" by (rule power_less_imp_less_exp [rotated]) simp
  ultimately show ?thesis by simp
qed

lemma leadExp_multiple:
  assumes "0 < N" "0 < d"
  shows "leadExp (N * d) d = int (bitLen N) - 1"
proof -
  obtain b where b: "bitLen N = Suc b" "2 ^ b \<le> N" "N < 2 ^ Suc b"
    using bitLen_bounds [OF assms(1)] by (cases "bitLen N") auto
  obtain c where c: "bitLen d = Suc c" "2 ^ c \<le> d" "d < 2 ^ Suc c"
    using bitLen_bounds [OF assms(2)] by (cases "bitLen d") auto
  have lo: "2 ^ (b + c) \<le> N * d" using mult_mono [OF b(2) c(2)] by (simp add: power_add)
  have hi: "N * d < 2 ^ Suc (Suc (b + c))"
    using mult_strict_mono [OF b(3) c(3)] assms by (simp add: power_add mult_ac)
  have "bitLen (N * d) = Suc (b + c) \<or> bitLen (N * d) = Suc (Suc (b + c))"
  proof (cases "N * d < 2 ^ Suc (b + c)")
    case True
    with lo show ?thesis using bitLen_unique by blast
  next
    case False
    with hi show ?thesis using bitLen_unique [of "Suc (b + c)"] by simp
  qed
  then show ?thesis
  proof
    assume "bitLen (N * d) = Suc (b + c)"
    then show ?thesis using b c by (simp add: leadExp_def Let_def)
  next
    assume e: "bitLen (N * d) = Suc (Suc (b + c))"
    have "\<not> 2 ^ Suc b \<le> N" using b(3) by simp
    then show ?thesis using e b(1) c(1) assms
      by (simp add: leadExp_def Let_def nat_add_distrib mult.commute [of d])
  qed
qed

lemma roundEven_multiple [simp]: "0 < d \<Longrightarrow> roundEven (N * d) d = N"
  by (simp add: roundEven_def Let_def)

definition whole :: "double \<Rightarrow> nat \<Rightarrow> bool" where
  "whole x N = (\<exists>k. x = Fin (int N * 2 ^ k) k)"

lemma toDoubleNat_whole:
  assumes "0 < d" "N < 2 ^ 53"
  shows "whole (toDoubleNat (N * d) d) N"
proof (cases "N = 0")
  case False
  then have N: "0 < N" by simp
  have l: "leadExp (N * d) d = int (bitLen N) - 1" by (rule leadExp_multiple [OF N assms(1)])
  have b: "bitLen N \<le> 53"
  proof (rule ccontr)
    assume "\<not> bitLen N \<le> 53"
    then have "(2 :: nat) ^ 53 \<le> 2 ^ (bitLen N - 1)" by (intro power_increasing) auto
    with bitLen_bounds [OF N] assms(2) show False by linarith
  qed
  show ?thesis
  proof (cases "bitLen N = 53")
    case True
    have "N < 2 ^ 1024" using assms(2) power_increasing [of 53 1024 "2 :: nat"] by linarith
    with True N assms(1) l show ?thesis
      by (auto simp: toDoubleNat_def whole_def Let_def intro: exI [of _ 0])
  next
    case False
    define k where "k = 53 - bitLen N"
    have q: "max (leadExp (N * d) d - 52) (- 1074) = - int k" "0 < k" using b False l by (auto simp: k_def)
    have "roundEven (N * d * 2 ^ k) d = N * 2 ^ k"
      using roundEven_multiple [OF assms(1), of "N * 2 ^ k"] by (simp add: mult_ac)
    with q N assms(1) show ?thesis
      by (auto simp: toDoubleNat_def whole_def Let_def q(1))
  qed
qed (auto simp: toDoubleNat_def whole_def)

lemma addDouble_whole:
  assumes "whole x A" "whole y B" "A + B < 2 ^ 53"
  shows "whole (addDouble x y) (A + B)"
proof -
  obtain j k where "x = Fin (int A * 2 ^ j) j" "y = Fin (int B * 2 ^ k) k"
    using assms(1,2) by (auto simp: whole_def)
  moreover have "int A * 2 ^ j * 2 ^ k + int B * 2 ^ k * 2 ^ j = int ((A + B) * 2 ^ (j + k))"
    by (simp add: power_add algebra_simps)
  ultimately have "addDouble x y = toDouble (int ((A + B) * 2 ^ (j + k))) (2 ^ (j + k))" by simp
  then have "addDouble x y = toDoubleNat ((A + B) * 2 ^ (j + k)) (2 ^ (j + k))"
    unfolding toDouble_def by (simp only: of_nat_less_0_iff if_False nat_int)
  then show ?thesis using toDoubleNat_whole [of "2 ^ (j + k)" "A + B"] assms(3) by simp
qed

lemma leDouble_whole: "whole x A \<Longrightarrow> whole y B \<Longrightarrow> leDouble x y \<longleftrightarrow> A \<le> B"
  by (auto simp: whole_def mult.assoc mult.commute [of "2 ^ _"] power_add [symmetric] zle_int add.commute
      simp flip: of_nat_mult of_nat_power)

lemma ltDouble_whole: "whole x A \<Longrightarrow> whole y B \<Longrightarrow> ltDouble x y \<longleftrightarrow> A < B"
  by (auto simp: whole_def mult.assoc mult.commute [of "2 ^ _"] power_add [symmetric] zle_int add.commute
      simp flip: of_nat_mult of_nat_power)

lemma digit_char_cases:
  assumes "isDigit c"
  shows "\<not> isSpace c" "c \<noteq> CHR ''-''" "c \<noteq> CHR ''+''" "c \<noteq> CHR ''I''" "c \<noteq> CHR ''.''"
  using assms by (auto simp: isDigit_def isSpace_def less_eq_char_def)

lemma parseFloat_show_nat:
  assumes "N < 2 ^ 53"
  shows "whole (parseFloat (show_nat N)) N"
proof -
  obtain c r where s: "show_nat N = c # r" by (cases "show_nat N") auto
  have all: "list_all isDigit (show_nat N)" by (rule show_nat_digits)
  then have c: "isDigit c" by (simp add: s)
  have t: "takeWhile isDigit (show_nat N) = show_nat N" "dropWhile isDigit (show_nat N) = []"
    using all by (auto simp: list_all_iff)
  have "\<not> startsWith (show_nat N) ''Infinity''"
    using digit_char_cases(4) [OF c] by (simp add: startsWith_def s)
  then have "readDecimal (show_nat N) = toDoubleNat (N * 1) 1"
    by (simp add: readDecimal_def t readExponent_def)
  moreover have "parseFloat (show_nat N) = readDecimal (show_nat N)"
    using digit_char_cases [OF c] by (simp add: parseFloat_def s)
  ultimately show ?thesis using toDoubleNat_whole [of 1 N] assms by simp
qed

lemma pad_zero: "pad f 0 = replicate f (CHR ''0'')"
proof (induction f)
  case (Suc f)
  have "digit_char 0 = CHR ''0''" by (simp add: digit_char_def char_of_def bit_0)
  with Suc show ?case by (simp add: replicate_append_same)
qed simp

lemma pad_numeral: "pad (numeral k) n = pad (pred_numeral k) (n div 10) @ [digit_char (n mod 10)]"
  by (subst numeral_eq_Suc) (rule pad.simps(2))

lemma strip_show_nat: "0 < f \<Longrightarrow> stripZeros (show_nat N @ ''.'' @ replicate f (CHR ''0'')) = show_nat N"
  by (simp add: stripZeros_def dropWhile_append Let_def)

lemma toFixed_whole:
  assumes "whole x N" "N < 2 ^ 53" "0 < f"
  shows "stripZeros (toFixed f x) = show_nat N"
proof -
  obtain k where x: "x = Fin (int N * 2 ^ k) k" using assms(1) by (auto simp: whole_def)
  have n: "nat (int N * 2 ^ k) = N * 2 ^ k" by (metis nat_int of_nat_mult of_nat_numeral of_nat_power)
  have "roundUp (N * 2 ^ k * 10 ^ f) (2 ^ k) = N * 10 ^ f"
  proof -
    have "2 * (N * 2 ^ k * 10 ^ f) + 2 ^ k = 2 ^ k + (N * 10 ^ f) * (2 * 2 ^ k)" by (simp add: mult_ac)
    then show ?thesis unfolding roundUp_def by (simp only: div_mult_self1) simp
  qed
  then have "fixedPositive f (N * 2 ^ k) k = show_nat N @ ''.'' @ replicate f (CHR ''0'')"
    using assms(3) by (simp add: fixedPositive_def Let_def pad_zero)
  moreover have "\<not> 10 ^ 21 * 2 ^ k \<le> \<bar>int N * 2 ^ k\<bar>" using assms(2) by (simp add: abs_mult)
  ultimately have "toFixed f x = show_nat N @ ''.'' @ replicate f (CHR ''0'')"
    by (simp add: toFixed_def x n mult_less_0_iff)
  then show ?thesis using strip_show_nat [OF assms(3)] by simp
qed

end
