(* ===== verification/Be1Types.thy ===== *)
theory Be1Types
  imports XrplCore JsNumber JsBigInt
begin

text \<open>
  The data of the service \<open>be1-xrpl\<close>: the two tables, the messages it exchanges with the ledger, the
  errors it throws, and the record \<open>be1_env\<close> of the code outside it (xrpl.js and the ledger, the TypeORM
  repositories, node's cryptography, axios, nodemailer, BullMQ, the configuration and the clock). Every call of
  the outside carries its number, so that two calls with equal arguments may answer differently; what
  fails gives \<open>Inl\<close> and the message of the exception. Dates are milliseconds, texts are UTF-8 bytes.
\<close>

section \<open>Messages of the ledger\<close>

record Wallet =
  wl_classicAddress :: string
  wl_publicKey :: string
  wl_seed :: "string option"

text \<open>\<open>result.meta\<close>: absent or null, a text, or an object with its \<open>TransactionResult\<close>.\<close>

datatype Meta = NoMeta | MetaText string | MetaObject string

record TxResult =
  tr_hash :: string
  tr_meta :: Meta
  tr_ledger_index :: "int option"
  tr_txJsonSequence :: "int option"
  tr_Sequence :: "int option"
  tr_validated :: "bool option"

record TrustLine =
  tl_currency :: "string option"
  tl_limit :: "string option"
  tl_balance :: "string option"

record PaymentTx =
  pt_Account :: string
  pt_Destination :: string
  pt_Amount :: Amount
  pt_SendMax :: "string option"
  pt_Memos :: "Memo list option"

record SignerSpec =
  sg_account :: string
  sg_weight :: int
  sg_walletLocator :: "string option"

datatype Be1Tx = B1EscrowCreate EscrowCreate | B1EscrowFinish EscrowFinish | B1EscrowCancel EscrowCancel
  | B1Payment PaymentTx | B1SignerListSet string int "SignerSpec list" | B1NFTokenMint string int string
  | B1TrustSet string Amount

section \<open>Errors\<close>

text \<open>An \<open>Error\<close>, or one of the HTTP exceptions of Nest.\<close>

datatype be1_error = Err string | BadRequest string | NotFound string | Forbidden string

definition errMessage :: "be1_error \<Rightarrow> string" where
  "errMessage e = (case e of Err m \<Rightarrow> m | BadRequest m \<Rightarrow> m | NotFound m \<Rightarrow> m | Forbidden m \<Rightarrow> m)"

text \<open>The code points of a text that is not ASCII.\<close>

definition codePoints :: "nat list \<Rightarrow> string" where
  "codePoints ns = concat (map utf8 ns)"

section \<open>Tables\<close>

datatype Be1ContractStatus = Pending | Locked | Settled | KCancelled | Disputed

definition be1StatusText :: "Be1ContractStatus \<Rightarrow> string" where
  "be1StatusText s = (case s of Pending \<Rightarrow> ''pending'' | Locked \<Rightarrow> ''locked'' | Settled \<Rightarrow> ''settled''
     | KCancelled \<Rightarrow> ''cancelled'' | Disputed \<Rightarrow> ''disputed'')"

text \<open>The columns of a contract that are not ciphertext.\<close>

record contract_rest =
  k_id :: string
  k_tenantAddress :: string
  k_landlordAddress :: string
  k_contractAccountAddress :: "string option"
  k_assetMode :: string
  k_iouIssuer :: "string option"
  k_iouCurrency :: "string option"
  k_depositAmount :: string
  k_stakeAmount :: string
  k_depositEscrowSequence :: "int option"
  k_depositEscrowTxHash :: "string option"
  k_stakeEscrowSequence :: "int option"
  k_stakeEscrowTxHash :: "string option"
  k_signerListTxHash :: "string option"
  k_status :: Be1ContractStatus
  k_startsAt :: int
  k_endsAt :: int
  k_finishAfter :: int
  k_cancelAfter :: int
  k_tenantEmail :: "string option"
  k_createdAt :: int
  k_updatedAt :: int

record Be1Contract = contract_rest +
  k_tenantPiiCipher :: string
  k_landlordPiiCipher :: string
  k_contractAccountSeedCipher :: "string option"

datatype ReconciliationStatus = Matched | Mismatch | Failed

record Reconciliation =
  r_id :: string
  r_contractId :: string
  r_yearMonth :: string
  r_kepcoUsageKwh :: int
  r_kepcoChargeKrw :: int
  r_kepcoUsageHash :: string
  r_status :: ReconciliationStatus
  r_paymentTxHash :: "string option"
  r_errorMessage :: "string option"
  r_reportSentAt :: "int option"
  r_createdAt :: int

section \<open>Other messages\<close>

record EmailMessage =
  em_to :: string
  em_subject :: string
  em_text :: string

text \<open>A job of the queue \<open>xrpl-tx-retry\<close>; its kind is always \<open>reconcile-payment\<close>.\<close>

record XrplTxRetryJob =
  j_contractId :: string
  j_yearMonth :: string

record OpmBillData =
  ob_custNo :: string
  ob_billYm :: string
  ob_kwh :: int
  ob_billAmt :: int
  ob_dueDate :: string
  ob_measureFromDt :: string
  ob_measureToDt :: string

record OpmBillResponse =
  or_result :: string
  or_resultMsg :: "string option"
  or_data :: OpmBillData

section \<open>The outside\<close>

text \<open>What the services call of a TypeORM repository of entities \<open>'e\<close> on a database \<open>'d\<close>. A \<open>where\<close> clause is
  the predicate it denotes, a partial entity the function that sets its fields.\<close>

record ('d, 'e) repo =
  repo_save :: "'e \<Rightarrow> 'd \<Rightarrow> (string + 'e) \<times> 'd"
  repo_findOne :: "('e \<Rightarrow> bool) \<Rightarrow> 'd \<Rightarrow> (string + 'e option) \<times> 'd"
  repo_find :: "('e \<Rightarrow> bool) \<Rightarrow> 'd \<Rightarrow> (string + 'e list) \<times> 'd"
  repo_findDesc :: "('e \<Rightarrow> bool) \<Rightarrow> ('e \<Rightarrow> int) \<Rightarrow> 'd \<Rightarrow> (string + 'e list) \<times> 'd"
  repo_count :: "('e \<Rightarrow> bool) \<Rightarrow> 'd \<Rightarrow> (string + nat) \<times> 'd"
  repo_update :: "string \<Rightarrow> ('e \<Rightarrow> 'e) \<Rightarrow> 'd \<Rightarrow> (string + unit) \<times> 'd"

record 'd be1_env =
  isConnected :: "nat \<Rightarrow> bool"
  submitAndWait :: "nat \<Rightarrow> Be1Tx \<Rightarrow> Wallet \<Rightarrow> string + TxResult"
  account_lines :: "nat \<Rightarrow> string \<Rightarrow> string \<Rightarrow> string + TrustLine list option"
  account_info :: "nat \<Rightarrow> string \<Rightarrow> string + string"
  fundWallet :: "nat \<Rightarrow> Wallet \<Rightarrow> string + Wallet"
  path_find :: "nat \<Rightarrow> string \<Rightarrow> Amount \<Rightarrow> string + string option"
  path_find_close :: "nat \<Rightarrow> string + unit"
  walletGenerate :: "nat \<Rightarrow> Wallet"
  walletFromSeed :: "string \<Rightarrow> string + Wallet"
  isoTimeToRippleTime :: "string \<Rightarrow> int"
  convertStringToHex :: "string \<Rightarrow> string"
  convertHexToString :: "string \<Rightarrow> string"
  dropsToXrp :: "string \<Rightarrow> string + string"
  contractRepo :: "('d, Be1Contract) repo"
  recordRepo :: "('d, Reconciliation) repo"
  cfg :: "string \<Rightarrow> string option"
  hash256 :: "bytes \<Rightarrow> bytes"
  cryptoRandomBytes :: "nat \<Rightarrow> nat \<Rightarrow> bytes"
  gcmSeal :: "bytes \<Rightarrow> bytes \<Rightarrow> bytes \<Rightarrow> bytes \<times> bytes"
  gcmOpen :: "bytes \<Rightarrow> bytes \<Rightarrow> bytes \<Rightarrow> bytes \<Rightarrow> bytes option"
  httpGetBill :: "nat \<Rightarrow> string \<Rightarrow> (string \<times> string) list \<Rightarrow> string + OpmBillResponse"
  smtpSend :: "nat \<Rightarrow> string \<Rightarrow> EmailMessage \<Rightarrow> string + unit"
  queueAdd :: "nat \<Rightarrow> XrplTxRetryJob \<Rightarrow> string + unit"
  isEmail :: "string \<Rightarrow> bool"
  isUuid :: "string \<Rightarrow> bool"
  localeKorean :: "int \<Rightarrow> string"
  dateNow :: "nat \<Rightarrow> int"

section \<open>State\<close>

datatype WalletRole = tenant | landlord

text \<open>The database, the number of calls of the outside, the transactions submitted with their answers, the jobs
  of the retry queue, the mails handed over, and the two maps of the wallet service.\<close>

record 'd be1_state =
  b1db :: 'd
  b1calls :: nat
  b1sent :: "(Be1Tx \<times> (string + TxResult)) list"
  b1queue :: "XrplTxRetryJob list"
  b1mails :: "EmailMessage list"
  b1wallets :: "(WalletRole, Wallet) jsmap"
  b1connected :: "(WalletRole, bool) jsmap"

type_synonym ('d, 'a) be1 = "('d be1_state, be1_error + 'a) state"

definition nextCall :: "('d be1_state, nat) state" where
  "nextCall = do { n \<leftarrow> gets b1calls; modify (\<lambda>s. s\<lparr>b1calls := Suc n\<rparr>); ret n }"

definition errOf :: "string + 'a \<Rightarrow> be1_error + 'a" where
  "errOf r = (case r of Inl m \<Rightarrow> Inl (Err m) | Inr x \<Rightarrow> Inr x)"

lemma errOf_simps [simp]: "errOf (Inl m) = Inl (Err m)" "errOf (Inr x) = Inr x"
  by (simp_all add: errOf_def)

text \<open>One call of the outside.\<close>

definition outside :: "(nat \<Rightarrow> string + 'a) \<Rightarrow> ('d, 'a) be1" where
  "outside f = do { n \<leftarrow> nextCall; ret (errOf (f n)) }"

text \<open>One statement on the database.\<close>

definition dbCall :: "('d \<Rightarrow> (string + 'a) \<times> 'd) \<Rightarrow> ('d, 'a) be1" where
  "dbCall f = do {
     r \<leftarrow> gets (\<lambda>s. f (b1db s));
     modify (\<lambda>s. s\<lparr>b1db := snd r\<rparr>);
     ret (errOf (fst r)) }"

definition submitB :: "'d be1_env \<Rightarrow> Be1Tx \<Rightarrow> Wallet \<Rightarrow> ('d, TxResult) be1" where
  "submitB E tx wallet = do {
     n \<leftarrow> nextCall;
     modify (\<lambda>s. s\<lparr>b1sent := b1sent s @ [(tx, submitAndWait E n tx wallet)]\<rparr>);
     ret (errOf (submitAndWait E n tx wallet)) }"

text \<open>\<open>try { m } catch (err) { h(err) }\<close>.\<close>

definition catchE :: "('d, 'a) be1 \<Rightarrow> (be1_error \<Rightarrow> ('d, 'a) be1) \<Rightarrow> ('d, 'a) be1" where
  "catchE m h = do { r \<leftarrow> m; case r of Inl e \<Rightarrow> h e | Inr x \<Rightarrow> ret (Inr x) }"

text \<open>A computation that may throw, without effect on the state.\<close>

definition pureE :: "be1_error + 'a \<Rightarrow> ('d, 'a) be1" where
  "pureE r = ret r"

lemma run_pureE [simp, run_simps]: "exec (pureE r) s = s" "valu (pureE r) s = r"
  by (simp_all add: pureE_def)

lemma run_catchE [simp, run_simps]:
  "exec (catchE m h) s = (case valu m s of Inl e \<Rightarrow> exec (h e) (exec m s) | Inr x \<Rightarrow> exec m s)"
  "valu (catchE m h) s = (case valu m s of Inl e \<Rightarrow> valu (h e) (exec m s) | Inr x \<Rightarrow> Inr x)"
  by (simp_all add: catchE_def split: sum.splits)

lemma run_nextCall [simp, run_simps]:
  "exec nextCall s = s\<lparr>b1calls := Suc (b1calls s)\<rparr>" "valu nextCall s = b1calls s"
  by (simp_all add: nextCall_def)

lemma run_outside [simp, run_simps]:
  "exec (outside f) s = s\<lparr>b1calls := Suc (b1calls s)\<rparr>" "valu (outside f) s = errOf (f (b1calls s))"
  by (simp_all add: outside_def)

lemma run_dbCall [simp, run_simps]:
  "exec (dbCall f) s = s\<lparr>b1db := snd (f (b1db s))\<rparr>" "valu (dbCall f) s = errOf (fst (f (b1db s)))"
  by (simp_all add: dbCall_def)

lemma run_submitB [simp, run_simps]:
  "exec (submitB E tx w) s = s\<lparr>b1calls := Suc (b1calls s),
     b1sent := b1sent s @ [(tx, submitAndWait E (b1calls s) tx w)]\<rparr>"
  "valu (submitB E tx w) s = errOf (submitAndWait E (b1calls s) tx w)"
  by (simp_all add: submitB_def)

section \<open>What the services rely on\<close>

text \<open>
  A repository of TypeORM over a table. \<open>rows\<close> is the table, \<open>others\<close> the rest of the database, \<open>key\<close> the
  generated primary key, \<open>content\<close> an entity without its generated columns. A call that is rejected changes nothing.
\<close>

definition rejects :: "('d \<Rightarrow> 't) \<Rightarrow> 'd \<Rightarrow> (string + 'a) \<times> 'd \<Rightarrow> ('a \<Rightarrow> 'd \<Rightarrow> bool) \<Rightarrow> bool" where
  "rejects tables d r P = (case r of (Inl m, d') \<Rightarrow> tables d' = tables d | (Inr x, d') \<Rightarrow> P x d')"

definition repo_laws ::
    "('d \<Rightarrow> 'e list) \<Rightarrow> ('d \<Rightarrow> 'o) \<Rightarrow> ('e \<Rightarrow> string) \<Rightarrow> ('e \<Rightarrow> 'c) \<Rightarrow> ('d, 'e) repo \<Rightarrow> bool" where
  "repo_laws rows others key content R =
    ((\<forall>e d. rejects (\<lambda>d. (rows d, others d)) d (repo_save R e d) (\<lambda>x d'.
        rows d' = rows d @ [x] \<and> others d' = others d \<and> content x = content e \<and> key x \<notin> key ` set (rows d))) \<and>
     (\<forall>P d. rejects (\<lambda>d. (rows d, others d)) d (repo_findOne R P d) (\<lambda>x d'.
        rows d' = rows d \<and> others d' = others d \<and>
        (case x of None \<Rightarrow> \<forall>e \<in> set (rows d). \<not> P e | Some e \<Rightarrow> e \<in> set (rows d) \<and> P e))) \<and>
     (\<forall>P d. rejects (\<lambda>d. (rows d, others d)) d (repo_find R P d) (\<lambda>xs d'.
        rows d' = rows d \<and> others d' = others d \<and> mset xs = mset (filter P (rows d)))) \<and>
     (\<forall>P f d. rejects (\<lambda>d. (rows d, others d)) d (repo_findDesc R P f d) (\<lambda>xs d'.
        rows d' = rows d \<and> others d' = others d \<and> mset xs = mset (filter P (rows d)) \<and>
        sorted_wrt (\<lambda>a b. f b \<le> f a) xs)) \<and>
     (\<forall>P d. rejects (\<lambda>d. (rows d, others d)) d (repo_count R P d) (\<lambda>n d'.
        rows d' = rows d \<and> others d' = others d \<and> n = length (filter P (rows d)))) \<and>
     (\<forall>i f d. rejects (\<lambda>d. (rows d, others d)) d (repo_update R i f d) (\<lambda>x d'. others d' = others d \<and>
        list_all2 (\<lambda>e e'. if key e = i then key e' = i \<and> content e' = content (f e) else e' = e) (rows d) (rows d'))))"

definition contractContent :: "Be1Contract \<Rightarrow> Be1Contract" where
  "contractContent c = c\<lparr>k_id := '''', k_createdAt := 0, k_updatedAt := 0\<rparr>"

definition recordContent :: "Reconciliation \<Rightarrow> Reconciliation" where
  "recordContent r = r\<lparr>r_id := '''', r_createdAt := 0\<rparr>"

text \<open>The two repositories on the database with the tables \<open>cs d\<close> and \<open>rs d\<close>.\<close>

definition db_laws :: "('d \<Rightarrow> Be1Contract list) \<Rightarrow> ('d \<Rightarrow> Reconciliation list) \<Rightarrow> 'd be1_env \<Rightarrow> bool" where
  "db_laws cs rs E =
    (repo_laws cs rs k_id contractContent (contractRepo E) \<and>
     repo_laws rs cs r_id recordContent (recordRepo E))"

section \<open>The laws, call by call\<close>

lemma rejects_iff: "rejects t d r P \<longleftrightarrow> (case fst r of Inl m \<Rightarrow> t (snd r) = t d | Inr x \<Rightarrow> P x (snd r))"
  by (cases r) (auto simp: rejects_def split: sum.splits)

lemma repo_saveD:
  assumes "repo_laws rows others key content R"
  shows "others (snd (repo_save R e d)) = others d"
    "fst (repo_save R e d) = Inl m \<Longrightarrow> rows (snd (repo_save R e d)) = rows d"
    "fst (repo_save R e d) = Inr x \<Longrightarrow> rows (snd (repo_save R e d)) = rows d @ [x] \<and> content x = content e \<and>
       key x \<notin> key ` set (rows d)"
proof -
  have "rejects (\<lambda>d. (rows d, others d)) d (repo_save R e d) (\<lambda>x d'.
      rows d' = rows d @ [x] \<and> others d' = others d \<and> content x = content e \<and> key x \<notin> key ` set (rows d))"
    using assms unfolding repo_laws_def by blast
  then show "others (snd (repo_save R e d)) = others d"
    "fst (repo_save R e d) = Inl m \<Longrightarrow> rows (snd (repo_save R e d)) = rows d"
    "fst (repo_save R e d) = Inr x \<Longrightarrow> rows (snd (repo_save R e d)) = rows d @ [x] \<and> content x = content e \<and>
       key x \<notin> key ` set (rows d)"
    by (auto simp: rejects_iff split: sum.splits)
qed

text \<open>The reading calls change nothing.\<close>

lemma repo_readD:
  assumes "repo_laws rows others key content R"
  shows "rows (snd (repo_findOne R P d)) = rows d" "others (snd (repo_findOne R P d)) = others d"
    "rows (snd (repo_find R P d)) = rows d" "others (snd (repo_find R P d)) = others d"
    "rows (snd (repo_findDesc R P f d)) = rows d" "others (snd (repo_findDesc R P f d)) = others d"
    "rows (snd (repo_count R P d)) = rows d" "others (snd (repo_count R P d)) = others d"
proof -
  have "rejects (\<lambda>d. (rows d, others d)) d (repo_findOne R P d) (\<lambda>x d'. rows d' = rows d \<and> others d' = others d \<and>
      (case x of None \<Rightarrow> \<forall>e \<in> set (rows d). \<not> P e | Some e \<Rightarrow> e \<in> set (rows d) \<and> P e))"
    "rejects (\<lambda>d. (rows d, others d)) d (repo_find R P d) (\<lambda>xs d'.
      rows d' = rows d \<and> others d' = others d \<and> mset xs = mset (filter P (rows d)))"
    "rejects (\<lambda>d. (rows d, others d)) d (repo_findDesc R P f d) (\<lambda>xs d'.
      rows d' = rows d \<and> others d' = others d \<and> mset xs = mset (filter P (rows d)) \<and> sorted_wrt (\<lambda>a b. f b \<le> f a) xs)"
    "rejects (\<lambda>d. (rows d, others d)) d (repo_count R P d) (\<lambda>n d'.
      rows d' = rows d \<and> others d' = others d \<and> n = length (filter P (rows d)))"
    using assms unfolding repo_laws_def by blast+
  then show "rows (snd (repo_findOne R P d)) = rows d" "others (snd (repo_findOne R P d)) = others d"
    "rows (snd (repo_find R P d)) = rows d" "others (snd (repo_find R P d)) = others d"
    "rows (snd (repo_findDesc R P f d)) = rows d" "others (snd (repo_findDesc R P f d)) = others d"
    "rows (snd (repo_count R P d)) = rows d" "others (snd (repo_count R P d)) = others d"
    by (auto simp: rejects_iff split: sum.splits)
qed

lemma repo_findOneD:
  assumes "repo_laws rows others key content R"
  shows "fst (repo_findOne R P d) = Inr None \<Longrightarrow> e \<in> set (rows d) \<Longrightarrow> \<not> P e"
    "fst (repo_findOne R P d) = Inr (Some e) \<Longrightarrow> e \<in> set (rows d) \<and> P e"
proof -
  have "rejects (\<lambda>d. (rows d, others d)) d (repo_findOne R P d) (\<lambda>x d'. rows d' = rows d \<and> others d' = others d \<and>
      (case x of None \<Rightarrow> \<forall>e \<in> set (rows d). \<not> P e | Some e \<Rightarrow> e \<in> set (rows d) \<and> P e))"
    using assms unfolding repo_laws_def by blast
  then show "fst (repo_findOne R P d) = Inr None \<Longrightarrow> e \<in> set (rows d) \<Longrightarrow> \<not> P e"
    "fst (repo_findOne R P d) = Inr (Some e) \<Longrightarrow> e \<in> set (rows d) \<and> P e"
    by (auto simp: rejects_iff split: sum.splits)
qed

lemma repo_findD:
  assumes "repo_laws rows others key content R"
  shows "fst (repo_find R P d) = Inr xs \<Longrightarrow> mset xs = mset (filter P (rows d))"
    "fst (repo_findDesc R P f d) = Inr xs \<Longrightarrow> mset xs = mset (filter P (rows d)) \<and> sorted_wrt (\<lambda>a b. f b \<le> f a) xs"
    "fst (repo_count R P d) = Inr n \<Longrightarrow> n = length (filter P (rows d))"
proof -
  have "rejects (\<lambda>d. (rows d, others d)) d (repo_find R P d) (\<lambda>xs d'.
      rows d' = rows d \<and> others d' = others d \<and> mset xs = mset (filter P (rows d)))"
    "rejects (\<lambda>d. (rows d, others d)) d (repo_findDesc R P f d) (\<lambda>xs d'.
      rows d' = rows d \<and> others d' = others d \<and> mset xs = mset (filter P (rows d)) \<and> sorted_wrt (\<lambda>a b. f b \<le> f a) xs)"
    "rejects (\<lambda>d. (rows d, others d)) d (repo_count R P d) (\<lambda>n d'.
      rows d' = rows d \<and> others d' = others d \<and> n = length (filter P (rows d)))"
    using assms unfolding repo_laws_def by blast+
  then show "fst (repo_find R P d) = Inr xs \<Longrightarrow> mset xs = mset (filter P (rows d))"
    "fst (repo_findDesc R P f d) = Inr xs \<Longrightarrow> mset xs = mset (filter P (rows d)) \<and> sorted_wrt (\<lambda>a b. f b \<le> f a) xs"
    "fst (repo_count R P d) = Inr n \<Longrightarrow> n = length (filter P (rows d))"
    by (auto simp: rejects_iff)
qed

lemma repo_updateD:
  assumes "repo_laws rows others key content R"
  shows "others (snd (repo_update R i f d)) = others d"
    "fst (repo_update R i f d) = Inl m \<Longrightarrow> rows (snd (repo_update R i f d)) = rows d"
    "fst (repo_update R i f d) = Inr u \<Longrightarrow>
       list_all2 (\<lambda>e e'. if key e = i then key e' = i \<and> content e' = content (f e) else e' = e) (rows d) (rows (snd (repo_update R i f d)))"
proof -
  have "rejects (\<lambda>d. (rows d, others d)) d (repo_update R i f d) (\<lambda>x d'. others d' = others d \<and>
      list_all2 (\<lambda>e e'. if key e = i then key e' = i \<and> content e' = content (f e) else e' = e) (rows d) (rows d'))"
    using assms unfolding repo_laws_def by blast
  then show "others (snd (repo_update R i f d)) = others d"
    "fst (repo_update R i f d) = Inl m \<Longrightarrow> rows (snd (repo_update R i f d)) = rows d"
    "fst (repo_update R i f d) = Inr u \<Longrightarrow>
       list_all2 (\<lambda>e e'. if key e = i then key e' = i \<and> content e' = content (f e) else e' = e) (rows d) (rows (snd (repo_update R i f d)))"
    by (auto simp: rejects_iff split: sum.splits)
qed

text \<open>An update of the row that was saved last.\<close>

lemma update_last:
  assumes "list_all2 (\<lambda>e e'. if key e = i then key e' = i \<and> content e' = content (f e) else e' = e) (xs @ [x]) ys"
    and "key x = i" "i \<notin> key ` set xs"
  obtains y where "ys = xs @ [y]" "key y = i" "content y = content (f x)"
proof -
  obtain zs y where y: "ys = zs @ [y]" "list_all2 (\<lambda>e e'. if key e = i then key e' = i \<and> content e' = content (f e) else e' = e) xs zs"
    "key y = i" "content y = content (f x)"
    using assms(1,2) by (auto simp: list_all2_append1 list_all2_Cons1)
  have "zs = xs"
    using y(2) assms(3) by (induction rule: list_all2_induct) auto
  with y show thesis using that by simp
qed

end
