(* ===== verification/Be1Xrpl.thy ===== *)
theory Be1Xrpl
  imports Be1Types
begin

text \<open>
  The XRPL services of \<open>be1-xrpl\<close>: the client service, the issued-currency helpers, escrows, signer lists,
  settlement payments, trust lines, soulbound tokens, and the AES-GCM service that protects personal data.
\<close>

section \<open>The client service\<close>

definition getClient :: "'d be1_env \<Rightarrow> ('d, unit) be1" where
  "getClient E = do {
     n \<leftarrow> nextCall;
     if isConnected E n then ret (Inr ()) else throwE (Err ''XRPL client is not connected'') }"

definition generateAndFundWallet :: "'d be1_env \<Rightarrow> ('d, Wallet) be1" where
  "generateAndFundWallet E = bindE (getClient E) (\<lambda>_. do {
     n \<leftarrow> nextCall;
     outside (\<lambda>k. fundWallet E k (walletGenerate E n)) })"

text \<open>A failing request and a balance that is no number count as no account.\<close>

definition ensureTestnetXrpForFees :: "'d be1_env \<Rightarrow> Wallet \<Rightarrow> ('d, unit) be1" where
  "ensureTestnetXrpForFees E wallet = bindE (getClient E) (\<lambda>_. do {
     r \<leftarrow> outside (\<lambda>n. account_info E n (wl_classicAddress wallet));
     let enough = (case r of Inl e \<Rightarrow> False
       | Inr balance \<Rightarrow> (case bigIntOf balance of None \<Rightarrow> False | Some drops \<Rightarrow> 10000000 \<le> drops));
     if enough then ret (Inr ())
     else bindE (outside (\<lambda>n. fundWallet E n wallet)) (\<lambda>_. ret (Inr ())) })"

definition getXrpBalance :: "'d be1_env \<Rightarrow> string \<Rightarrow> ('d, string) be1" where
  "getXrpBalance E address = bindE (getClient E) (\<lambda>_.
     bindE (outside (\<lambda>n. account_info E n address)) (\<lambda>balanceDrops. pureE (errOf (dropsToXrp E balanceDrops))))"

section \<open>Issued currencies\<close>

definition isUpperAlnum :: "char \<Rightarrow> bool" where
  "isUpperAlnum c = ((CHR ''A'' \<le> c \<and> c \<le> CHR ''Z'') \<or> isDigit c)"

definition isUpperHex :: "char \<Rightarrow> bool" where
  "isUpperHex c = (isDigit c \<or> (CHR ''A'' \<le> c \<and> c \<le> CHR ''F''))"

definition normalizeIouCurrencyCode :: "string \<Rightarrow> be1_error + string" where
  "normalizeIouCurrencyCode raw =
    (let c = toUpperCase (trim raw) in
     if length c = 3 \<and> list_all isUpperAlnum c then Inr c
     else if length c = 40 \<and> list_all isUpperHex c then Inr c
     else Inl (Err (''Invalid IOU currency code (use 3-letter code or 40-char hex): '' @ raw)))"

definition buildIouAmount :: "string \<Rightarrow> string \<Rightarrow> string \<Rightarrow> be1_error + Amount" where
  "buildIouAmount issuer currency v =
    (case normalizeIouCurrencyCode currency of Inl e \<Rightarrow> Inl e | Inr c \<Rightarrow> Inr (Issued (trim issuer) c (trim v)))"

record FoundLine =
  fl_limit :: string
  fl_balance :: string
  fl_currency :: string

definition firstLine :: "string \<Rightarrow> TrustLine list \<Rightarrow> FoundLine option" where
  "firstLine want ls =
    (case find (\<lambda>l. toUpperCase (getOr '''' (tl_currency l)) = want) ls of
       None \<Rightarrow> None
     | Some l \<Rightarrow> Some \<lparr> fl_limit = getOr ''0'' (tl_limit l), fl_balance = getOr ''0'' (tl_balance l),
         fl_currency = getOr '''' (tl_currency l) \<rparr>)"

definition findTrustLine :: "'d be1_env \<Rightarrow> string \<Rightarrow> string \<Rightarrow> string \<Rightarrow> ('d, FoundLine option) be1" where
  "findTrustLine E account issuer currency = bindE (pureE (normalizeIouCurrencyCode currency)) (\<lambda>want.
     bindE (outside (\<lambda>n. account_lines E n account issuer)) (\<lambda>ls. ret (Inr (firstLine want (getOr [] ls)))))"

definition sumIouValueStrings :: "string \<Rightarrow> string \<Rightarrow> be1_error + string" where
  "sumIouValueStrings a b =
    (let x = addDouble (parseFloat a) (parseFloat b) in
     if \<not> isFinite x \<or> ltDouble x (Fin 0 0) then Inl (Err ''Invalid IOU amount sum'')
     else let t = stripZeros (toFixed 15 x) in Inr (if t = '''' then ''0'' else t))"

definition iouValueGte :: "string \<Rightarrow> string \<Rightarrow> bool" where
  "iouValueGte limit need = leDouble (parseFloat need) (parseFloat limit)"

definition getIouBalance :: "'d be1_env \<Rightarrow> string \<Rightarrow> string \<Rightarrow> string \<Rightarrow> ('d, Amount option) be1" where
  "getIouBalance E account issuer currency = bindE (getClient E) (\<lambda>_.
     bindE (findTrustLine E account issuer currency) (\<lambda>line.
       ret (Inr (map_option (\<lambda>l. Issued issuer (fl_currency l) (fl_balance l)) line))))"

section \<open>Escrows\<close>

record CreateEscrowParams =
  ce_account :: Wallet
  ce_destination :: string
  ce_amount :: Amount
  ce_finishAfter :: "int option"
  ce_cancelAfter :: "int option"
  ce_condition :: "string option"
  ce_destinationTag :: "int option"

record EscrowCreatedResult =
  er_txHash :: string
  er_escrowSequence :: int
  er_ledgerIndex :: int
  er_validated :: bool

record MutationResult =
  mu_txHash :: string
  mu_ledgerIndex :: int
  mu_validated :: bool

definition validateParams :: "CreateEscrowParams \<Rightarrow> be1_error + unit" where
  "validateParams p =
    (if ce_finishAfter p = None \<and> ce_cancelAfter p = None \<and> \<not> truthy (ce_condition p)
     then Inl (Err ''EscrowCreate requires at least one of: finishAfter, cancelAfter, condition'')
     else case (ce_finishAfter p, ce_cancelAfter p) of
       (Some f, Some c) \<Rightarrow> if c \<le> f then Inl (Err ''cancelAfter must be later than finishAfter'') else Inr ()
     | _ \<Rightarrow> Inr ())"

text \<open>The tests of \<open>result.meta\<close>, with the two messages of the service.\<close>

definition assertMeta :: "string \<Rightarrow> string \<Rightarrow> TxResult \<Rightarrow> be1_error + unit" where
  "assertMeta missing failed r =
    (case tr_meta r of
       MetaObject code \<Rightarrow> if code \<noteq> ''tesSUCCESS'' then Inl (Err (failed @ '': '' @ code)) else Inr ()
     | _ \<Rightarrow> Inl (Err missing))"

definition assertCreateSuccess :: "TxResult \<Rightarrow> be1_error + EscrowCreatedResult" where
  "assertCreateSuccess r =
    (case assertMeta ''EscrowCreate not validated: meta missing or string'' ''EscrowCreate failed'' r of
       Inl e \<Rightarrow> Inl e
     | Inr _ \<Rightarrow>
        (case orElse (tr_txJsonSequence r) (tr_Sequence r) of
           None \<Rightarrow> Inl (Err ''EscrowCreate response missing Sequence'')
         | Some s \<Rightarrow>
            (case tr_ledger_index r of
               None \<Rightarrow> Inl (Err ''EscrowCreate response missing ledger_index'')
             | Some l \<Rightarrow> Inr \<lparr> er_txHash = tr_hash r, er_escrowSequence = s, er_ledgerIndex = l,
                 er_validated = getOr False (tr_validated r) \<rparr>)))"

definition assertMutationSuccess :: "string \<Rightarrow> TxResult \<Rightarrow> be1_error + MutationResult" where
  "assertMutationSuccess label r =
    (case assertMeta (label @ '' not validated: meta missing or string'') (label @ '' failed'') r of
       Inl e \<Rightarrow> Inl e
     | Inr _ \<Rightarrow>
        (case tr_ledger_index r of
           None \<Rightarrow> Inl (Err (label @ '' response missing ledger_index''))
         | Some l \<Rightarrow> Inr \<lparr> mu_txHash = tr_hash r, mu_ledgerIndex = l, mu_validated = getOr False (tr_validated r) \<rparr>))"

definition escrowCreateTx :: "'d be1_env \<Rightarrow> CreateEscrowParams \<Rightarrow> Be1Tx" where
  "escrowCreateTx E p = B1EscrowCreate
    \<lparr> ec_Account = wl_classicAddress (ce_account p), ec_Destination = ce_destination p, ec_Amount = ce_amount p,
      ec_FinishAfter = map_option (\<lambda>t. isoTimeToRippleTime E (toISOString t)) (ce_finishAfter p),
      ec_CancelAfter = map_option (\<lambda>t. isoTimeToRippleTime E (toISOString t)) (ce_cancelAfter p),
      ec_Condition = (if truthy (ce_condition p) then ce_condition p else None),
      ec_DestinationTag = ce_destinationTag p, ec_Memos = None \<rparr>"

definition createEscrow :: "'d be1_env \<Rightarrow> CreateEscrowParams \<Rightarrow> ('d, EscrowCreatedResult) be1" where
  "createEscrow E p = bindE (pureE (validateParams p)) (\<lambda>_. bindE (getClient E) (\<lambda>_.
     bindE (submitB E (escrowCreateTx E p) (ce_account p)) (\<lambda>response. pureE (assertCreateSuccess response))))"

text \<open>\<open>!Number.isFinite(n) || n <= 0\<close> on a whole or not finite number.\<close>

definition notPositive :: "number \<Rightarrow> bool" where
  "notPositive n = (case n of None \<Rightarrow> True | Some i \<Rightarrow> i \<le> 0)"

definition finishEscrow :: "'d be1_env \<Rightarrow> Wallet \<Rightarrow> string \<Rightarrow> number \<Rightarrow> string option \<Rightarrow> string option \<Rightarrow>
    ('d, MutationResult) be1" where
  "finishEscrow E submitter owner offerSequence condition fulfillment =
    (if notPositive offerSequence then throwE (Err ''finishEscrow: offerSequence must be a positive integer'')
     else bindE (getClient E) (\<lambda>_.
       bindE (submitB E (B1EscrowFinish \<lparr> ef_Account = wl_classicAddress submitter, ef_Owner = owner,
           ef_OfferSequence = the offerSequence,
           ef_Fulfillment = (if truthy fulfillment then fulfillment else None),
           ef_Condition = (if truthy condition then condition else None), ef_Memos = None \<rparr>) submitter)
        (\<lambda>response. pureE (assertMutationSuccess ''EscrowFinish'' response))))"

definition cancelEscrow :: "'d be1_env \<Rightarrow> Wallet \<Rightarrow> string \<Rightarrow> number \<Rightarrow> ('d, MutationResult) be1" where
  "cancelEscrow E submitter owner offerSequence =
    (if notPositive offerSequence then throwE (Err ''cancelEscrow: offerSequence must be a positive integer'')
     else bindE (getClient E) (\<lambda>_.
       bindE (submitB E (B1EscrowCancel \<lparr> ek_Account = wl_classicAddress submitter, ek_Owner = owner,
           ek_OfferSequence = the offerSequence, ek_Memos = None \<rparr>) submitter)
        (\<lambda>response. pureE (assertMutationSuccess ''EscrowCancel'' response))))"

section \<open>Signer lists\<close>

definition MAX_SIGNERS :: nat where
  "MAX_SIGNERS = 32"

definition MIN_WEIGHT :: int where
  "MIN_WEIGHT = 1"

definition MAX_WEIGHT :: int where
  "MAX_WEIGHT = 65535"

text \<open>The loop over the signers: the accounts seen and the weight so far.\<close>

fun checkSigners :: "string \<Rightarrow> SignerSpec list \<Rightarrow> string list \<Rightarrow> int \<Rightarrow> be1_error + int" where
  "checkSigners owner [] seen totalWeight = Inr totalWeight"
| "checkSigners owner (s # ss) seen totalWeight =
    (if sg_weight s < MIN_WEIGHT \<or> MAX_WEIGHT < sg_weight s
     then Inl (Err (''signer weight out of range: '' @ show_int (sg_weight s) @ '' (must be '' @
       show_int MIN_WEIGHT @ ''-'' @ show_int MAX_WEIGHT @ '')''))
     else if sg_account s = owner then Inl (Err ''owner account cannot be in its own SignerList'')
     else if sg_account s \<in> set seen then Inl (Err (''duplicate signer account: '' @ sg_account s))
     else checkSigners owner ss (sg_account s # seen) (totalWeight + sg_weight s))"

definition validateSignerList :: "Wallet \<Rightarrow> SignerSpec list \<Rightarrow> int \<Rightarrow> be1_error + unit" where
  "validateSignerList account signers quorum =
    (if signers = [] then Inl (Err ''SignerListSet requires at least one signer'')
     else if MAX_SIGNERS < length signers
     then Inl (Err (''SignerListSet supports up to '' @ show_nat MAX_SIGNERS @ '' signers (got '' @
       show_nat (length signers) @ '')''))
     else if quorum \<le> 0 then Inl (Err ''quorum must be greater than 0'')
     else case checkSigners (wl_classicAddress account) signers [] 0 of
       Inl e \<Rightarrow> Inl e
     | Inr totalWeight \<Rightarrow> if totalWeight < quorum
         then Inl (Err (''quorum ('' @ show_int quorum @ '') exceeds sum of signer weights ('' @
           show_int totalWeight @ '')''))
         else Inr ())"

definition setSignerList :: "'d be1_env \<Rightarrow> Wallet \<Rightarrow> SignerSpec list \<Rightarrow> int \<Rightarrow> ('d, MutationResult) be1" where
  "setSignerList E account signers quorum = bindE (pureE (validateSignerList account signers quorum)) (\<lambda>_.
     bindE (getClient E) (\<lambda>_.
       bindE (submitB E (B1SignerListSet (wl_classicAddress account) quorum
           (map (\<lambda>s. s\<lparr>sg_walletLocator := (if truthy (sg_walletLocator s) then sg_walletLocator s else None)\<rparr>) signers))
           account)
        (\<lambda>response. pureE (assertMutationSuccess ''SignerListSet'' response))))"

section \<open>Settlement payments\<close>

definition assertPaymentSuccess :: "TxResult \<Rightarrow> be1_error + string" where
  "assertPaymentSuccess r = (case assertMeta ''Payment response meta missing or string'' ''Payment failed'' r of
     Inl e \<Rightarrow> Inl e | Inr _ \<Rightarrow> Inr (tr_hash r))"

record SubmitXrpPaymentParams =
  sp_sourceAddress :: string
  sp_destinationAddress :: string
  sp_sourceSeed :: string
  sp_amountDrops :: string
  sp_Memos :: "Memo list option"

definition settlementTx :: "SubmitXrpPaymentParams \<Rightarrow> Be1Tx" where
  "settlementTx p = B1Payment \<lparr> pt_Account = sp_sourceAddress p, pt_Destination = sp_destinationAddress p,
     pt_Amount = Drops (sp_amountDrops p), pt_SendMax = None,
     pt_Memos = (case sp_Memos p of Some (m # ms) \<Rightarrow> Some (m # ms) | _ \<Rightarrow> None) \<rparr>"

definition submitXrpPayment :: "'d be1_env \<Rightarrow> SubmitXrpPaymentParams \<Rightarrow> ('d, string) be1" where
  "submitXrpPayment E p = bindE (pureE (errOf (walletFromSeed E (sp_sourceSeed p)))) (\<lambda>wallet.
     if wl_classicAddress wallet \<noteq> sp_sourceAddress p
     then throwE (Err (''sourceSeed '' @ codePoints [51452, 49548] @ ''('' @ wl_classicAddress wallet @ '')'' @ codePoints [44032] @ '' sourceAddress('' @ sp_sourceAddress p @ '')'' @ codePoints [50752] @ '' '' @ codePoints [51068, 52824, 54616, 51648] @ '' '' @ codePoints [50506, 49845, 45768, 45796] @ ''.''))
     else if \<not> allDigits (sp_amountDrops p)
     then throwE (Err ''amountDrops must be a non-negative integer drops string'')
     else bindE (getClient E) (\<lambda>_. bindE (submitB E (settlementTx p) wallet)
       (\<lambda>response. pureE (assertPaymentSuccess response))))"

section \<open>Trust lines and soulbound tokens\<close>

definition submitTrustSet :: "'d be1_env \<Rightarrow> Wallet \<Rightarrow> Amount \<Rightarrow> ('d, string) be1" where
  "submitTrustSet E owner limitAmount = bindE (getClient E) (\<lambda>_.
     bindE (submitB E (B1TrustSet (wl_classicAddress owner) limitAmount) owner) (\<lambda>r.
       bindE (pureE (assertMeta ''TrustSet response meta missing or string'' ''TrustSet failed'' r))
         (\<lambda>_. ret (Inr (tr_hash r)))))"

definition assertTxSuccess :: "TxResult \<Rightarrow> be1_error + unit" where
  "assertTxSuccess r = assertMeta ''XRPL tx meta missing'' ''XRPL tx failed'' r"

definition assertMintSuccess :: "TxResult \<Rightarrow> be1_error + MutationResult" where
  "assertMintSuccess r =
    (case assertMeta ''NFTokenMint response meta missing or string'' ''NFTokenMint failed'' r of
       Inl e \<Rightarrow> Inl e
     | Inr _ \<Rightarrow>
        (case tr_ledger_index r of
           None \<Rightarrow> Inl (Err ''NFTokenMint response missing ledger_index'')
         | Some l \<Rightarrow> Inr \<lparr> mu_txHash = tr_hash r, mu_ledgerIndex = l, mu_validated = getOr False (tr_validated r) \<rparr>))"

definition mintSoulboundNft :: "'d be1_env \<Rightarrow> Wallet \<Rightarrow> number \<Rightarrow> string \<Rightarrow> ('d, MutationResult) be1" where
  "mintSoulboundNft E minter taxon uriUtf8 =
    (let uri = trim uriUtf8 in
     if uri = '''' then throwE (Err ''mintSoulboundNft: uriUtf8 must be non-empty'')
     else case taxon of
       None \<Rightarrow> throwE (Err ''mintSoulboundNft: taxon out of supported range'')
     | Some t \<Rightarrow> if t < 0 \<or> 0x7fffffff < t then throwE (Err ''mintSoulboundNft: taxon out of supported range'')
         else bindE (getClient E) (\<lambda>_.
           bindE (submitB E (B1NFTokenMint (wl_classicAddress minter) t (convertStringToHex E uri)) minter)
             (\<lambda>response. pureE (assertMintSuccess response))))"

section \<open>Encryption of personal data\<close>

definition base64Encode :: "bytes \<Rightarrow> string" where
  "base64Encode b =
    (let s = map (\<lambda>n. if n = 62 then CHR ''+'' else if n = 63 then CHR 0x2F else b64char n) (b64groups (map unat b)) in
     s @ replicate ((4 - length s mod 4) mod 4) (CHR ''=''))"

definition base64Decode :: "string \<Rightarrow> bytes" where
  "base64Decode s = utf8Bytes (base64urlDecode s)"

text \<open>The constructor: the key, or the message that every use of it throws.\<close>

definition encryptionKey :: "'d be1_env \<Rightarrow> be1_error + bytes" where
  "encryptionKey E =
    (if \<not> truthy (cfg E ''ENCRYPTION_MASTER_KEY'') then Inl (Err ''ENCRYPTION_MASTER_KEY is not configured'')
     else let decoded = base64Decode (the (cfg E ''ENCRYPTION_MASTER_KEY'')) in
       if length decoded \<noteq> 32
       then Inl (Err (''ENCRYPTION_MASTER_KEY must be 32 bytes base64 (got '' @ show_nat (length decoded) @ '' bytes)''))
       else Inr decoded)"

text \<open>\<open>buffer.toString('utf8')\<close> on bytes that are the encoding of a text.\<close>

definition utf8Text :: "bytes \<Rightarrow> string" where
  "utf8Text b = map (\<lambda>w. char_of (unat w)) b"

definition encrypt :: "'d be1_env \<Rightarrow> string \<Rightarrow> ('d, string) be1" where
  "encrypt E plaintext = bindE (pureE (encryptionKey E)) (\<lambda>key. do {
     n \<leftarrow> nextCall;
     let iv = cryptoRandomBytes E n 12;
     let (ciphertext, tag) = gcmSeal E key iv (utf8Bytes plaintext);
     ret (Inr (base64Encode (iv @ tag @ ciphertext))) })"

definition decrypt :: "'d be1_env \<Rightarrow> string \<Rightarrow> be1_error + string" where
  "decrypt E packaged =
    (case encryptionKey E of
       Inl e \<Rightarrow> Inl e
     | Inr key \<Rightarrow>
        let buf = base64Decode packaged in
        if length buf < 12 + 16 then Inl (Err ''ciphertext too short'')
        else (case gcmOpen E key (take 12 buf) (take 16 (drop 12 buf)) (drop 28 buf) of
            None \<Rightarrow> Inl (Err ''Unsupported state or unable to authenticate data'')
          | Some plaintext \<Rightarrow> Inr (utf8Text plaintext)))"

text \<open>What AES-GCM of node promises: the random source gives as many bytes as asked, a tag has 16 bytes,
  and what was sealed under a key and a nonce is opened with them.\<close>

definition crypto_laws :: "'d be1_env \<Rightarrow> bool" where
  "crypto_laws E =
    ((\<forall>n k. length (cryptoRandomBytes E n k) = k) \<and>
     (\<forall>key iv m. length (snd (gcmSeal E key iv m)) = 16) \<and>
     (\<forall>key iv m. gcmOpen E key iv (snd (gcmSeal E key iv m)) (fst (gcmSeal E key iv m)) = Some m))"

section \<open>Keys from the environment\<close>

definition getWallet :: "'d be1_env \<Rightarrow> string \<Rightarrow> be1_error + Wallet" where
  "getWallet E walletId =
    (if walletId \<noteq> ''operator'' then Inl (Err (''Unknown walletId: '' @ walletId))
     else if \<not> truthy (cfg E ''XRPL_OPERATOR_SEED'')
     then Inl (Err (''No seed configured for walletId='' @ [CHR 0x27] @ walletId @ [CHR 0x27] @ '' (env: XRPL_OPERATOR_SEED)''))
     else errOf (walletFromSeed E (the (cfg E ''XRPL_OPERATOR_SEED''))))"



section \<open>Escrows and payments: what success means\<close>

text \<open>The ledger accepted the transaction.\<close>

definition accepted :: "string + TxResult \<Rightarrow> bool" where
  "accepted r = (case r of Inl m \<Rightarrow> False | Inr x \<Rightarrow> tr_meta x = MetaObject ''tesSUCCESS'')"

lemma assertMeta_ok: "assertMeta a b r = Inr u \<longleftrightarrow> accepted (Inr r)"
  by (auto simp: assertMeta_def accepted_def split: Meta.splits)

lemma assertCreateSuccess_ok:
  "assertCreateSuccess r = Inr x \<Longrightarrow> accepted (Inr r) \<and> er_txHash x = tr_hash r \<and>
   Some (er_escrowSequence x) = orElse (tr_txJsonSequence r) (tr_Sequence r) \<and> Some (er_ledgerIndex x) = tr_ledger_index r"
  by (auto simp: assertCreateSuccess_def assertMeta_ok split: sum.splits option.splits)

lemma assertMutationSuccess_ok:
  "assertMutationSuccess l r = Inr x \<Longrightarrow> accepted (Inr r) \<and> mu_txHash x = tr_hash r \<and> Some (mu_ledgerIndex x) = tr_ledger_index r"
  by (auto simp: assertMutationSuccess_def assertMeta_ok split: sum.splits option.splits)

lemma run_getClient [simp, run_simps]:
  "exec (getClient E) s = s\<lparr>b1calls := Suc (b1calls s)\<rparr>"
  "valu (getClient E) s = (if isConnected E (b1calls s) then Inr () else Inl (Err ''XRPL client is not connected''))"
  by (simp_all add: getClient_def)

text \<open>The only part of the state that the services of the ledger change, besides the count of calls, is the
  list of transactions; they hand over at most one.\<close>

definition sends :: "'d be1_state \<Rightarrow> 'd be1_state \<Rightarrow> (Be1Tx \<times> (string + TxResult)) list \<Rightarrow> bool" where
  "sends s s' new = (b1sent s' = b1sent s @ new \<and> b1db s' = b1db s \<and> b1queue s' = b1queue s \<and> b1mails s' = b1mails s \<and>
     b1wallets s' = b1wallets s \<and> b1connected s' = b1connected s)"

lemma sends_trans: "sends s s' xs \<Longrightarrow> sends s' s'' ys \<Longrightarrow> sends s s'' (xs @ ys)"
  by (simp add: sends_def)

lemma errOf_Inr [simp]: "errOf r = Inr x \<longleftrightarrow> r = Inr x"
  by (cases r) auto

definition submits :: "Be1Tx \<Rightarrow> (TxResult \<Rightarrow> be1_error + 'a) \<Rightarrow> ('d, 'a) be1 \<Rightarrow> bool" where
  "submits tx f m = (\<forall>s. \<exists>new. sends s (exec m s) new \<and> (new = [] \<or> (\<exists>r. new = [(tx, r)])) \<and>
     (\<forall>x. valu m s = Inr x \<longrightarrow> (\<exists>r. new = [(tx, Inr r)] \<and> f r = Inr x)))"

lemma submits_checked: "submits tx f (bindE (getClient E) (\<lambda>_. bindE (submitB E tx w) (\<lambda>r. pureE (f r))))"
  unfolding submits_def
proof
  fix s
  show "\<exists>new. sends s (exec (bindE (getClient E) (\<lambda>_. bindE (submitB E tx w) (\<lambda>r. pureE (f r)))) s) new \<and>
      (new = [] \<or> (\<exists>r. new = [(tx, r)])) \<and>
      (\<forall>x. valu (bindE (getClient E) (\<lambda>_. bindE (submitB E tx w) (\<lambda>r. pureE (f r)))) s = Inr x \<longrightarrow>
        (\<exists>r. new = [(tx, Inr r)] \<and> f r = Inr x))"
    by (cases "isConnected E (b1calls s)"; cases "submitAndWait E (Suc (b1calls s)) tx w")
      (auto simp: sends_def)
qed

lemma submits_guard: "(\<And>u. submits tx f (m u)) \<Longrightarrow> submits tx f (bindE (pureE g) m)"
  unfolding submits_def by (cases g) (auto simp: sends_def)

lemma submits_throw: "submits tx f (throwE e)"
  by (auto simp: submits_def sends_def)

lemmas submits_intros = submits_checked submits_guard submits_throw

lemma submits_createEscrow: "submits (escrowCreateTx E p) assertCreateSuccess (createEscrow E p)"
  unfolding createEscrow_def by (intro submits_intros)

definition signerListTx :: "Wallet \<Rightarrow> SignerSpec list \<Rightarrow> int \<Rightarrow> Be1Tx" where
  "signerListTx account signers quorum = B1SignerListSet (wl_classicAddress account) quorum
     (map (\<lambda>s. s\<lparr>sg_walletLocator := (if truthy (sg_walletLocator s) then sg_walletLocator s else None)\<rparr>) signers)"

lemma submits_setSignerList:
  "submits (signerListTx w signers quorum) (assertMutationSuccess ''SignerListSet'') (setSignerList E w signers quorum)"
  unfolding setSignerList_def signerListTx_def by (intro submits_intros)

lemma submits_submitXrpPayment: "submits (settlementTx p) assertPaymentSuccess (submitXrpPayment E p)"
proof -
  have "submits (settlementTx p) assertPaymentSuccess (if b then throwE e else if c then throwE e' else
      bindE (getClient E) (\<lambda>_. bindE (submitB E (settlementTx p) w) (\<lambda>r. pureE (assertPaymentSuccess r))))" for b c e e' w
    by (auto intro: submits_intros)
  then show ?thesis unfolding submitXrpPayment_def by (intro submits_guard)
qed

lemma submitsE:
  assumes "submits tx f m"
  obtains new where "sends s (exec m s) new" "new = [] \<or> (\<exists>r. new = [(tx, r)])"
    "\<And>x. valu m s = Inr x \<Longrightarrow> \<exists>r. new = [(tx, Inr r)] \<and> f r = Inr x"
proof -
  from assms obtain new where "sends s (exec m s) new \<and> (new = [] \<or> (\<exists>r. new = [(tx, r)])) \<and>
      (\<forall>x. valu m s = Inr x \<longrightarrow> (\<exists>r. new = [(tx, Inr r)] \<and> f r = Inr x))"
    unfolding submits_def by metis
  then show thesis by (intro that [of new]) auto
qed

section \<open>Signer lists: the loop against its reference\<close>

lemma checkSigners_Inr:
  "checkSigners owner ss seen t = Inr t' \<longleftrightarrow>
    (\<forall>s \<in> set ss. MIN_WEIGHT \<le> sg_weight s \<and> sg_weight s \<le> MAX_WEIGHT \<and> sg_account s \<noteq> owner \<and> sg_account s \<notin> set seen) \<and>
    distinct (map sg_account ss) \<and> t' = t + sum_list (map sg_weight ss)"
  by (induction ss arbitrary: seen t) (auto simp: not_less image_iff)

text \<open>What the ledger documents for a signer list, as one condition.\<close>

definition signerListOk :: "string \<Rightarrow> SignerSpec list \<Rightarrow> int \<Rightarrow> bool" where
  "signerListOk owner signers quorum =
    (0 < length signers \<and> length signers \<le> 32 \<and> distinct (map sg_account signers) \<and> owner \<notin> sg_account ` set signers \<and>
     (\<forall>s \<in> set signers. 1 \<le> sg_weight s \<and> sg_weight s \<le> 65535) \<and>
     0 < quorum \<and> quorum \<le> sum_list (map sg_weight signers))"

text \<open>C22: the signer list that the service submits is exactly the kind that the ledger documents: validation passes if and only if there are 1 to 32 signers
  with different accounts, none of them the owner, weights from 1 to 65535, and a positive quorum that the weights reach.\<close>

theorem signer_list_validation:
  "validateSignerList w signers quorum = Inr () \<longleftrightarrow> signerListOk (wl_classicAddress w) signers quorum"
proof (cases "checkSigners (wl_classicAddress w) signers [] 0")
  case (Inl e)
  then have "\<not> (\<exists>t. checkSigners (wl_classicAddress w) signers [] 0 = Inr t)" by simp
  then have "\<not> signerListOk (wl_classicAddress w) signers quorum"
    unfolding checkSigners_Inr signerListOk_def MIN_WEIGHT_def MAX_WEIGHT_def by force
  with Inl show ?thesis by (auto simp: validateSignerList_def)
next
  case (Inr t)
  then have c: "\<forall>s \<in> set signers. 1 \<le> sg_weight s \<and> sg_weight s \<le> 65535 \<and> sg_account s \<noteq> wl_classicAddress w"
    "distinct (map sg_account signers)" "t = sum_list (map sg_weight signers)"
    by (simp_all add: checkSigners_Inr MIN_WEIGHT_def MAX_WEIGHT_def)
  have "validateSignerList w signers quorum = Inr () \<longleftrightarrow> signers \<noteq> [] \<and> length signers \<le> 32 \<and> 0 < quorum \<and> quorum \<le> t"
    by (auto simp: validateSignerList_def Inr MAX_SIGNERS_def)
  with c show ?thesis by (auto simp: signerListOk_def)
qed

section \<open>Currency codes and amounts\<close>

lemma toUpperChar_idem: "isUpperAlnum c \<Longrightarrow> toUpperChar c = c" "isUpperAlnum c \<Longrightarrow> \<not> isSpace c"
  by (auto simp: isUpperAlnum_def toUpperChar_def isSpace_def isDigit_def less_eq_char_def)

lemma isUpperHex_alnum: "isUpperHex c \<Longrightarrow> isUpperAlnum c"
  by (auto simp: isUpperHex_def isUpperAlnum_def less_eq_char_def)

lemma trim_no_space: "list_all (\<lambda>c. \<not> isSpace c) s \<Longrightarrow> trim s = s"
proof -
  have d: "dropWhile isSpace t = t" if "list_all (\<lambda>c. \<not> isSpace c) t" for t
    using that by (cases t) auto
  assume "list_all (\<lambda>c. \<not> isSpace c) s"
  then show ?thesis unfolding trim_def by (simp add: d list_all_rev)
qed

lemma upperAlnum_stable: "list_all isUpperAlnum c \<Longrightarrow> toUpperCase (trim c) = c"
proof -
  assume a: "list_all isUpperAlnum c"
  then have "list_all (\<lambda>c. \<not> isSpace c) c" by (auto simp: list_all_iff dest: toUpperChar_idem(2))
  then have "trim c = c" by (rule trim_no_space)
  moreover have "map toUpperChar c = c" using a by (induction c) (auto dest: toUpperChar_idem(1))
  ultimately show ?thesis by (simp add: toUpperCase_def)
qed

lemma normalize_alnum: "normalizeIouCurrencyCode raw = Inr c \<Longrightarrow>
    c = toUpperCase (trim raw) \<and> list_all isUpperAlnum c \<and> (length c = 3 \<or> (length c = 40 \<and> list_all isUpperHex c))"
  by (auto simp: normalizeIouCurrencyCode_def Let_def list_all_iff isUpperHex_alnum split: if_splits)

lemma normalize_idem: "normalizeIouCurrencyCode raw = Inr c \<Longrightarrow> normalizeIouCurrencyCode c = Inr c"
proof -
  assume "normalizeIouCurrencyCode raw = Inr c"
  then have n: "list_all isUpperAlnum c" "length c = 3 \<or> (length c = 40 \<and> list_all isUpperHex c)"
    by (auto dest: normalize_alnum)
  from upperAlnum_stable [OF n(1)] n show ?thesis by (auto simp: normalizeIouCurrencyCode_def)
qed

section \<open>Encryption\<close>

lemma char_of_of_nat: "n < 256 \<Longrightarrow> unat (of_nat n :: byte) = n"
  by (simp add: unat_of_nat)

lemma unat_byte_less: "unat (w :: byte) < 256"
  using unsigned_less [of w] by simp

lemma of_char_char_of: "n < 256 \<Longrightarrow> of_char (char_of n :: char) = (n :: nat)"
  by (simp add: of_char_of take_bit_eq_mod)

lemma b64val_standard:
  "n < 64 \<Longrightarrow> b64val (if n = 62 then CHR ''+'' else if n = 63 then CHR 0x2F else b64char n) = Some n"
proof (cases "n = 62 \<or> n = 63")
  case True
  then show ?thesis by (auto simp: b64val_def)
qed (simp add: b64val_char)

lemma base64_round_trip: "base64Decode (base64Encode b) = b"
proof -
  let ?c = "\<lambda>n. if n = 62 then CHR ''+'' else if n = 63 then CHR 0x2F else b64char n"
  have l: "\<forall>x \<in> set (map unat b). x < 256" by (auto simp: unat_byte_less)
  have m: "List.map_filter b64val (map ?c xs @ replicate k (CHR ''='')) = xs" if "\<forall>x \<in> set xs. x < 64" for xs k
  proof -
    have "List.map_filter b64val (replicate k (CHR ''='')) = []"
      by (induction k) (simp_all add: List.map_filter_simps b64val_def)
    with that show ?thesis
      by (induction xs) (auto simp: List.map_filter_simps b64val_standard)
  qed
  have "map (\<lambda>n. of_nat n :: byte) (map (\<lambda>n. of_char (char_of n :: char)) (map unat b)) = b"
    using unat_byte_less by (simp add: map_idI of_char_char_of)
  then show ?thesis
    unfolding base64Decode_def base64Encode_def base64urlDecode_def utf8Bytes_def Let_def
      m [OF b64groups_less [OF l]] b64bytes_groups [OF l] by (simp add: comp_def)
qed

lemma utf8_round_trip [simp]: "utf8Text (utf8Bytes s) = s"
  by (simp add: utf8Text_def utf8Bytes_def comp_def char_of_of_nat of_char_less map_idI)

lemma run_encrypt:
  "encryptionKey E = Inr key \<Longrightarrow> valu (encrypt E m) s =
     Inr (base64Encode (cryptoRandomBytes E (b1calls s) 12 @
       snd (gcmSeal E key (cryptoRandomBytes E (b1calls s) 12) (utf8Bytes m)) @
       fst (gcmSeal E key (cryptoRandomBytes E (b1calls s) 12) (utf8Bytes m))))"
  "encryptionKey E = Inl e \<Longrightarrow> valu (encrypt E m) s = Inl e"
  by (simp_all add: encrypt_def Let_def split: prod.splits)

lemma decrypt_sealed:
  assumes "crypto_laws E" "valu (encrypt E m) s = Inr c"
  shows "decrypt E c = Inr m"
proof (cases "encryptionKey E")
  case (Inr key)
  define iv where "iv = cryptoRandomBytes E (b1calls s) 12"
  define seal where "seal = gcmSeal E key iv (utf8Bytes m)"
  have "c = base64Encode (iv @ snd seal @ fst seal)"
    using assms(2) run_encrypt(1) [OF Inr, of m s] by (simp add: iv_def seal_def)
  then have "base64Decode c = iv @ snd seal @ fst seal" by (simp add: base64_round_trip)
  moreover have "length iv = 12" "length (snd seal) = 16" "gcmOpen E key iv (snd seal) (fst seal) = Some (utf8Bytes m)"
    using assms(1) by (auto simp: crypto_laws_def iv_def seal_def)
  ultimately show ?thesis using Inr by (simp add: decrypt_def)
next
  case (Inl e)
  with assms(2) run_encrypt(2) [OF Inl, of m s] show ?thesis by simp
qed

end
