(* ===== verification/Be1Contracts.thy ===== *)
theory Be1Contracts
  imports Be1Xrpl
begin

text \<open>
  The contracts of \<open>be1-xrpl\<close>: the request, the service that stores a contract and locks its deposit and stake on the
  ledger, the preparation of issued-currency contracts, and the routes.
\<close>

section \<open>The service\<close>

record CreateContractInput =
  ci_tenantAddress :: string
  ci_landlordAddress :: string
  ci_depositAmount :: string
  ci_stakeAmount :: string
  ci_startsAt :: int
  ci_endsAt :: int
  ci_finishAfter :: int
  ci_cancelAfter :: int
  ci_tenantPii :: string
  ci_landlordPii :: string
  ci_tenantEmail :: "string option"
  ci_assetMode :: "string option"
  ci_iouIssuer :: "string option"
  ci_iouCurrency :: "string option"

record ContractDto = contract_rest +
  dt_tenantPii :: string
  dt_landlordPii :: string
  dt_contractAccountSeed :: "string option"

definition toDto :: "'d be1_env \<Rightarrow> Be1Contract \<Rightarrow> be1_error + ContractDto" where
  "toDto E c =
    (case decrypt E (k_tenantPiiCipher c) of
       Inl e \<Rightarrow> Inl e
     | Inr tenantPii \<Rightarrow>
        (case decrypt E (k_landlordPiiCipher c) of
           Inl e \<Rightarrow> Inl e
         | Inr landlordPii \<Rightarrow>
            (let seed = (if truthy (k_contractAccountSeedCipher c)
                 then map_sum id Some (decrypt E (the (k_contractAccountSeedCipher c))) else Inr None) in
             case seed of
               Inl e \<Rightarrow> Inl e
             | Inr s \<Rightarrow> Inr (contract_rest.extend (contract_rest.truncate c)
                 \<lparr> dt_tenantPii = tenantPii, dt_landlordPii = landlordPii, dt_contractAccountSeed = s \<rparr>))))"

definition iouCurrencyColumn :: "string \<Rightarrow> CreateContractInput \<Rightarrow> be1_error + string option" where
  "iouCurrencyColumn assetMode input =
    (if assetMode = ''IOU'' \<and> truthy (ci_iouCurrency input)
     then map_sum id Some (normalizeIouCurrencyCode (the (ci_iouCurrency input))) else Inr None)"

definition newContract :: "CreateContractInput \<Rightarrow> string \<Rightarrow> string \<Rightarrow> string option \<Rightarrow> Be1Contract" where
  "newContract input tenantCipher landlordCipher iouCurrency =
    (let assetMode = getOr ''XRP'' (ci_assetMode input) in
     \<lparr> k_id = '''', k_tenantAddress = ci_tenantAddress input, k_landlordAddress = ci_landlordAddress input,
       k_contractAccountAddress = None, k_assetMode = assetMode,
       k_iouIssuer = (if assetMode = ''IOU'' then ci_iouIssuer input else None), k_iouCurrency = iouCurrency,
       k_depositAmount = ci_depositAmount input, k_stakeAmount = ci_stakeAmount input,
       k_depositEscrowSequence = None, k_depositEscrowTxHash = None, k_stakeEscrowSequence = None,
       k_stakeEscrowTxHash = None, k_signerListTxHash = None, k_status = Pending,
       k_startsAt = ci_startsAt input, k_endsAt = ci_endsAt input, k_finishAfter = ci_finishAfter input,
       k_cancelAfter = ci_cancelAfter input, k_tenantEmail = ci_tenantEmail input, k_createdAt = 0, k_updatedAt = 0,
       k_tenantPiiCipher = tenantCipher, k_landlordPiiCipher = landlordCipher, k_contractAccountSeedCipher = None \<rparr>)"

definition createRow :: "'d be1_env \<Rightarrow> CreateContractInput \<Rightarrow> ('d, ContractDto) be1" where
  "createRow E input =
     bindE (encrypt E (ci_tenantPii input)) (\<lambda>tenantCipher.
     bindE (encrypt E (ci_landlordPii input)) (\<lambda>landlordCipher.
     bindE (pureE (iouCurrencyColumn (getOr ''XRP'' (ci_assetMode input)) input)) (\<lambda>iouCurrency.
     bindE (dbCall (repo_save (contractRepo E) (newContract input tenantCipher landlordCipher iouCurrency))) (\<lambda>saved.
     pureE (toDto E saved)))))"

definition findById :: "'d be1_env \<Rightarrow> string \<Rightarrow> ('d, ContractDto option) be1" where
  "findById E i = bindE (dbCall (repo_findOne (contractRepo E) (\<lambda>c. k_id c = i))) (\<lambda>found.
     case found of None \<Rightarrow> ret (Inr None) | Some c \<Rightarrow> pureE (map_sum id Some (toDto E c)))"

fun toDtos :: "'d be1_env \<Rightarrow> Be1Contract list \<Rightarrow> be1_error + ContractDto list" where
  "toDtos E [] = Inr []"
| "toDtos E (c # cs) = (case toDto E c of Inl e \<Rightarrow> Inl e | Inr x \<Rightarrow> map_sum id (Cons x) (toDtos E cs))"

definition findAllLocked :: "'d be1_env \<Rightarrow> ('d, ContractDto list) be1" where
  "findAllLocked E = bindE (dbCall (repo_find (contractRepo E) (\<lambda>c. k_status c = Locked))) (\<lambda>rs. pureE (toDtos E rs))"

definition escrowAmounts :: "CreateContractInput \<Rightarrow> be1_error + Amount \<times> Amount" where
  "escrowAmounts input =
    (if getOr ''XRP'' (ci_assetMode input) = ''XRP''
     then Inr (Drops (ci_depositAmount input), Drops (ci_stakeAmount input))
     else if \<not> truthy (ci_iouIssuer input) \<or> \<not> truthy (ci_iouCurrency input)
     then Inl (Err ''IOU escrow requires iouIssuer and iouCurrency'')
     else case normalizeIouCurrencyCode (the (ci_iouCurrency input)) of
       Inl e \<Rightarrow> Inl e
     | Inr cur \<Rightarrow>
        (case buildIouAmount (the (ci_iouIssuer input)) cur (ci_depositAmount input) of
           Inl e \<Rightarrow> Inl e
         | Inr deposit \<Rightarrow> map_sum id (Pair deposit) (buildIouAmount (the (ci_iouIssuer input)) cur (ci_stakeAmount input))))"

definition escrowOf :: "CreateContractInput \<Rightarrow> Wallet \<Rightarrow> string \<Rightarrow> Amount \<Rightarrow> CreateEscrowParams" where
  "escrowOf input wallet destination amount =
    \<lparr> ce_account = wallet, ce_destination = destination, ce_amount = amount, ce_finishAfter = Some (ci_finishAfter input),
      ce_cancelAfter = Some (ci_cancelAfter input), ce_condition = None, ce_destinationTag = None \<rparr>"

definition lockSigners :: "CreateContractInput \<Rightarrow> string \<Rightarrow> SignerSpec list" where
  "lockSigners input operatorAddress = map (\<lambda>a. \<lparr> sg_account = a, sg_weight = 1, sg_walletLocator = None \<rparr>)
     [ci_tenantAddress input, ci_landlordAddress input, operatorAddress]"

definition lockPatch :: "Wallet \<Rightarrow> string \<Rightarrow> EscrowCreatedResult \<Rightarrow> EscrowCreatedResult \<Rightarrow> MutationResult \<Rightarrow>
    Be1Contract \<Rightarrow> Be1Contract" where
  "lockPatch wallet seedCipher deposit stake signerList c =
    c\<lparr>k_contractAccountAddress := Some (wl_classicAddress wallet), k_contractAccountSeedCipher := Some seedCipher,
      k_depositEscrowSequence := Some (er_escrowSequence deposit), k_depositEscrowTxHash := Some (er_txHash deposit),
      k_stakeEscrowSequence := Some (er_escrowSequence stake), k_stakeEscrowTxHash := Some (er_txHash stake),
      k_signerListTxHash := Some (mu_txHash signerList), k_status := Locked\<rparr>"

definition lockTenantDeposit :: "'d be1_env \<Rightarrow> CreateContractInput \<Rightarrow> Wallet \<Rightarrow> string \<Rightarrow> ('d, ContractDto) be1" where
  "lockTenantDeposit E input wallet operatorAddress =
     bindE (pureE (escrowAmounts input)) (\<lambda>(depositAmount, stakeAmount).
     bindE (createRow E input) (\<lambda>contract.
     bindE (createEscrow E (escrowOf input wallet (ci_tenantAddress input) depositAmount)) (\<lambda>deposit.
     bindE (createEscrow E (escrowOf input wallet (ci_landlordAddress input) stakeAmount)) (\<lambda>stake.
     bindE (setSignerList E wallet (lockSigners input operatorAddress) 2) (\<lambda>signerList.
     if \<not> truthy (wl_seed wallet) then throwE (Err ''contractWallet must have a seed for persistence'')
     else bindE (encrypt E (the (wl_seed wallet))) (\<lambda>seedCipher.
       bindE (dbCall (repo_update (contractRepo E) (k_id contract) (lockPatch wallet seedCipher deposit stake signerList))) (\<lambda>_.
       bindE (findById E (k_id contract)) (\<lambda>updated.
       case updated of
         None \<Rightarrow> throwE (Err (''Contract '' @ k_id contract @ '' disappeared after lock update''))
       | Some dto \<Rightarrow> ret (Inr dto)))))))))"

definition toContractResponse :: "ContractDto \<Rightarrow> contract_rest" where
  "toContractResponse dto =
    \<lparr> k_id = k_id dto, k_tenantAddress = k_tenantAddress dto, k_landlordAddress = k_landlordAddress dto,
      k_contractAccountAddress = k_contractAccountAddress dto, k_assetMode = k_assetMode dto,
      k_iouIssuer = k_iouIssuer dto, k_iouCurrency = k_iouCurrency dto, k_depositAmount = k_depositAmount dto,
      k_stakeAmount = k_stakeAmount dto, k_depositEscrowSequence = k_depositEscrowSequence dto,
      k_depositEscrowTxHash = k_depositEscrowTxHash dto, k_stakeEscrowSequence = k_stakeEscrowSequence dto,
      k_stakeEscrowTxHash = k_stakeEscrowTxHash dto, k_signerListTxHash = k_signerListTxHash dto,
      k_status = k_status dto, k_startsAt = k_startsAt dto, k_endsAt = k_endsAt dto,
      k_finishAfter = k_finishAfter dto, k_cancelAfter = k_cancelAfter dto, k_tenantEmail = k_tenantEmail dto,
      k_createdAt = k_createdAt dto, k_updatedAt = k_updatedAt dto \<rparr>"

section \<open>Issued-currency contracts\<close>

definition lineCovers :: "FoundLine option \<Rightarrow> string \<Rightarrow> bool" where
  "lineCovers line need = (case line of None \<Rightarrow> False | Some l \<Rightarrow> iouValueGte (fl_limit l) need)"

definition assertCounterpartyTrustLines :: "'d be1_env \<Rightarrow> string \<Rightarrow> string \<Rightarrow> string \<Rightarrow> string \<Rightarrow> string \<Rightarrow> string \<Rightarrow>
    ('d, unit) be1" where
  "assertCounterpartyTrustLines E tenantAddress landlordAddress issuer currency depositValue stakeValue =
     bindE (getClient E) (\<lambda>_.
     bindE (pureE (normalizeIouCurrencyCode currency)) (\<lambda>cur.
     bindE (findTrustLine E tenantAddress issuer cur) (\<lambda>tenantLine.
     if \<not> lineCovers tenantLine depositValue
     then throwE (BadRequest (codePoints [51076, 52264, 51064] @ ''('' @ tenantAddress @ '') '' @ codePoints [44228, 51221, 50640] @ '' issuer '' @ issuer @ '' '' @ codePoints [53685, 54868] @ '' '' @ cur @ '' trust line'' @ codePoints [51060] @ '' '' @ codePoints [50630, 44144, 45208] @ '' limit'' @ codePoints [51060] @ '' depositAmount('' @ depositValue @ '')'' @ codePoints [48372, 45796] @ '' '' @ codePoints [51089, 49845, 45768, 45796] @ ''. '' @ codePoints [51648, 44049, 50640, 49436] @ '' TrustSet'' @ codePoints [51012] @ '' '' @ codePoints [47676, 51200] @ '' '' @ codePoints [49444, 51221, 54616, 49464, 50836] @ ''.''))
     else bindE (findTrustLine E landlordAddress issuer cur) (\<lambda>landlordLine.
       if \<not> lineCovers landlordLine stakeValue
       then throwE (BadRequest (codePoints [51076, 45824, 51064] @ ''('' @ landlordAddress @ '') '' @ codePoints [44228, 51221, 50640] @ '' issuer '' @ issuer @ '' '' @ codePoints [53685, 54868] @ '' '' @ cur @ '' trust line'' @ codePoints [51060] @ '' '' @ codePoints [50630, 44144, 45208] @ '' limit'' @ codePoints [51060] @ '' stakeAmount('' @ stakeValue @ '')'' @ codePoints [48372, 45796] @ '' '' @ codePoints [51089, 49845, 45768, 45796] @ ''.''))
       else ret (Inr ())))))"

text \<open>\<open>config.get(key)?.trim()\<close>.\<close>

definition cfgTrim :: "'d be1_env \<Rightarrow> string \<Rightarrow> string option" where
  "cfgTrim E k = map_option trim (cfg E k)"

text \<open>The account that pays: the issuer when its seed is configured, else the operator if it holds enough.\<close>

definition fundingWallet :: "'d be1_env \<Rightarrow> Wallet \<Rightarrow> string \<Rightarrow> string \<Rightarrow> string \<Rightarrow> ('d, Wallet) be1" where
  "fundingWallet E operatorWallet issuer cur needed =
    (if truthy (cfgTrim E ''XRPL_IOU_ISSUER_SEED'')
     then bindE (pureE (errOf (walletFromSeed E (the (cfgTrim E ''XRPL_IOU_ISSUER_SEED''))))) (\<lambda>w.
       if wl_classicAddress w \<noteq> issuer
       then throwE (BadRequest (''XRPL_IOU_ISSUER_SEED '' @ codePoints [51452, 49548, 44032] @ '' XRPL_IOU_ISSUER '' @ codePoints [50752] @ '' '' @ codePoints [51068, 52824, 54616, 51648] @ '' '' @ codePoints [50506, 49845, 45768, 45796] @ ''.''))
       else bindE (ensureTestnetXrpForFees E w) (\<lambda>_. ret (Inr w)))
     else bindE (findTrustLine E (wl_classicAddress operatorWallet) issuer cur) (\<lambda>opLine.
       if (case opLine of None \<Rightarrow> True | Some l \<Rightarrow> ltDouble (parseFloat (fl_balance l)) (parseFloat needed))
       then throwE (BadRequest (''XRPL_OPERATOR_SEED '' @ codePoints [51648, 44049, 51032] @ '' '' @ cur @ ''(issuer '' @ issuer @ '') '' @ codePoints [51092, 50529, 51060] @ '' '' @ codePoints [48512, 51313, 54633, 45768, 45796] @ ''. '' @ codePoints [54596, 50836] @ '': '' @ needed @ '', '' @ codePoints [48372, 50976] @ '': '' @ (case opLine of None \<Rightarrow> ''0'' | Some l \<Rightarrow> fl_balance l) @ ''. ('' @ codePoints [48156, 54665] @ '' '' @ codePoints [51649, 51217] @ '' '' @ codePoints [49884] @ '' XRPL_IOU_ISSUER_SEED '' @ codePoints [49444, 51221] @ '')''))
       else ret (Inr operatorWallet)))"

definition iouPaymentTx :: "string \<Rightarrow> string \<Rightarrow> Amount \<Rightarrow> Be1Tx" where
  "iouPaymentTx from to amount = B1Payment \<lparr> pt_Account = from, pt_Destination = to, pt_Amount = amount,
     pt_SendMax = None, pt_Memos = None \<rparr>"

definition ensureTrustLineAndFundFromOperator ::
    "'d be1_env \<Rightarrow> Wallet \<Rightarrow> Wallet \<Rightarrow> string \<Rightarrow> string \<Rightarrow> string \<Rightarrow> string \<Rightarrow> ('d, unit) be1" where
  "ensureTrustLineAndFundFromOperator E contractWallet operatorWallet issuer currency depositValue stakeValue =
     bindE (getClient E) (\<lambda>_.
     bindE (pureE (normalizeIouCurrencyCode currency)) (\<lambda>cur.
     bindE (pureE (sumIouValueStrings depositValue stakeValue)) (\<lambda>needed.
     bindE (fundingWallet E operatorWallet issuer cur needed) (\<lambda>payer.
     bindE (pureE (buildIouAmount issuer cur ''1000000000'')) (\<lambda>limitAmount.
     bindE (submitTrustSet E contractWallet limitAmount) (\<lambda>_.
     bindE (pureE (buildIouAmount issuer cur needed)) (\<lambda>amount.
     bindE (submitB E (iouPaymentTx (wl_classicAddress payer) (wl_classicAddress contractWallet) amount) payer) (\<lambda>payRes.
     pureE (assertTxSuccess payRes)))))))))"

section \<open>Requests\<close>

record CreateContractDto =
  cd_assetMode :: "string option"
  cd_iouIssuer :: "string option"
  cd_iouCurrency :: "string option"
  cd_tenantAddress :: string
  cd_landlordAddress :: string
  cd_depositAmount :: string
  cd_stakeAmount :: string
  cd_startsAt :: int
  cd_endsAt :: int
  cd_finishAfter :: int
  cd_cancelAfter :: int
  cd_tenantPii :: string
  cd_landlordPii :: string
  cd_tenantEmail :: "string option"

text \<open>The regular expressions of the requests.\<close>

definition isAlnum :: "char \<Rightarrow> bool" where
  "isAlnum c = (isDigit c \<or> (CHR ''a'' \<le> c \<and> c \<le> CHR ''z'') \<or> (CHR ''A'' \<le> c \<and> c \<le> CHR ''Z''))"

definition isClassicAddress :: "string \<Rightarrow> bool" where
  "isClassicAddress s = (case s of [] \<Rightarrow> False
     | c # r \<Rightarrow> c = CHR ''r'' \<and> list_all isAlnum r \<and> 24 \<le> length r \<and> length r \<le> 34)"

definition isCurrencyCode :: "string \<Rightarrow> bool" where
  "isCurrencyCode s = ((length s = 3 \<and> list_all isAlnum s) \<or> (length s = 40 \<and> list_all isHexDigit s))"

definition isIouValue :: "string \<Rightarrow> bool" where
  "isIouValue s = (takeWhile isDigit s \<noteq> [] \<and> (case dropWhile isDigit s of [] \<Rightarrow> True
     | c # r \<Rightarrow> c = CHR ''.'' \<and> list_all isDigit r \<and> 1 \<le> length r \<and> length r \<le> 16))"

definition depositStakeShape :: "CreateContractDto \<Rightarrow> bool" where
  "depositStakeShape o' =
    (if getOr ''XRP'' (cd_assetMode o') = ''XRP'' then allDigits (cd_depositAmount o') \<and> allDigits (cd_stakeAmount o')
     else isIouValue (cd_depositAmount o') \<and> isIouValue (cd_stakeAmount o'))"

text \<open>\<open>@Transform\<close>: the empty text counts as absent.\<close>

definition transformDto :: "CreateContractDto \<Rightarrow> CreateContractDto" where
  "transformDto o' = o'\<lparr>cd_iouIssuer := (if truthy (cd_iouIssuer o') then cd_iouIssuer o' else None),
     cd_iouCurrency := (if truthy (cd_iouCurrency o') then cd_iouCurrency o' else None)\<rparr>"

definition optOk :: "(string \<Rightarrow> bool) \<Rightarrow> string option \<Rightarrow> bool" where
  "optOk P x = (case x of None \<Rightarrow> True | Some s \<Rightarrow> P s)"

definition validContractDto :: "'d be1_env \<Rightarrow> CreateContractDto \<Rightarrow> bool" where
  "validContractDto E o' =
    (optOk (\<lambda>m. m = ''XRP'' \<or> m = ''IOU'') (cd_assetMode o') \<and> optOk isClassicAddress (cd_iouIssuer o') \<and>
     optOk isCurrencyCode (cd_iouCurrency o') \<and> isClassicAddress (cd_tenantAddress o') \<and>
     isClassicAddress (cd_landlordAddress o') \<and> depositStakeShape o' \<and> cd_depositAmount o' \<noteq> '''' \<and>
     cd_stakeAmount o' \<noteq> '''' \<and> cd_tenantPii o' \<noteq> '''' \<and> cd_landlordPii o' \<noteq> '''' \<and> optOk (isEmail E) (cd_tenantEmail o'))"

definition orText :: "string \<Rightarrow> string \<Rightarrow> string" where
  \<comment> \<open>\<open>a || b\<close> on texts\<close>
  "orText a b = (if a = '''' then b else a)"

definition lockInput :: "CreateContractDto \<Rightarrow> string \<Rightarrow> string \<Rightarrow> string \<Rightarrow> CreateContractInput" where
  "lockInput o' assetMode iouIssuer iouCurrency =
    \<lparr> ci_tenantAddress = cd_tenantAddress o', ci_landlordAddress = cd_landlordAddress o',
      ci_depositAmount = cd_depositAmount o', ci_stakeAmount = cd_stakeAmount o', ci_startsAt = cd_startsAt o',
      ci_endsAt = cd_endsAt o', ci_finishAfter = cd_finishAfter o', ci_cancelAfter = cd_cancelAfter o',
      ci_tenantPii = cd_tenantPii o', ci_landlordPii = cd_landlordPii o', ci_tenantEmail = cd_tenantEmail o',
      ci_assetMode = Some assetMode, ci_iouIssuer = (if assetMode = ''IOU'' then Some iouIssuer else None),
      ci_iouCurrency = (if assetMode = ''IOU'' then Some iouCurrency else None) \<rparr>"

text \<open>The issuer and currency of an issued-currency contract, with the trust lines of the parties checked.\<close>

definition resolveIou :: "'d be1_env \<Rightarrow> CreateContractDto \<Rightarrow> ('d, string \<times> string) be1" where
  "resolveIou E o' =
    (let iouIssuer = orText (getOr '''' (map_option trim (cd_iouIssuer o'))) (getOr '''' (cfgTrim E ''XRPL_IOU_ISSUER''));
         iouCurrency = orText (getOr '''' (map_option trim (cd_iouCurrency o'))) (getOr '''' (cfgTrim E ''XRPL_IOU_CURRENCY'')) in
     if iouIssuer = '''' \<or> iouCurrency = ''''
     then throwE (BadRequest (''IOU '' @ codePoints [47784, 46300] @ '': '' @ codePoints [50836, 52397, 50640] @ '' iouIssuer/iouCurrency'' @ codePoints [47484] @ '' '' @ codePoints [45347, 44144, 45208] @ '', '' @ codePoints [54872, 44221, 48320, 49688] @ '' XRPL_IOU_ISSUER / XRPL_IOU_CURRENCY'' @ codePoints [47484] @ '' '' @ codePoints [49444, 51221, 54616, 49464, 50836] @ ''.''))
     else bindE (pureE (normalizeIouCurrencyCode iouCurrency)) (\<lambda>cur.
       bindE (assertCounterpartyTrustLines E (cd_tenantAddress o') (cd_landlordAddress o') iouIssuer cur
         (cd_depositAmount o') (cd_stakeAmount o')) (\<lambda>_. ret (Inr (iouIssuer, cur)))))"

definition postContractH :: "'d be1_env \<Rightarrow> CreateContractDto \<Rightarrow> ('d, contract_rest) be1" where
  "postContractH E o' =
    (let operatorSeed = getOr '''' (cfg E ''XRPL_OPERATOR_SEED''); assetMode = getOr ''XRP'' (cd_assetMode o') in
     if operatorSeed = '''' then throwE (BadRequest (''XRPL_OPERATOR_SEED '' @ codePoints [48120, 49444, 51221] @ '' '' @ codePoints [8212] @ '' '' @ codePoints [44228, 50557] @ '' '' @ codePoints [49373, 49457] @ '' '' @ codePoints [48520, 44032]))
     else bindE (pureE (errOf (walletFromSeed E operatorSeed))) (\<lambda>operatorWallet.
       bindE (if assetMode = ''IOU'' then resolveIou E o' else ret (Inr ('''', ''''))) (\<lambda>(iouIssuer, iouCurrency).
       bindE (generateAndFundWallet E) (\<lambda>contractWallet.
       bindE (if assetMode = ''IOU'' then ensureTrustLineAndFundFromOperator E contractWallet operatorWallet iouIssuer
           iouCurrency (cd_depositAmount o') (cd_stakeAmount o') else ret (Inr ())) (\<lambda>_.
       bindE (lockTenantDeposit E (lockInput o' assetMode iouIssuer iouCurrency) contractWallet
           (wl_classicAddress operatorWallet)) (\<lambda>locked.
       ret (Inr (toContractResponse locked))))))))"

text \<open>The route: \<open>ValidationPipe\<close> transforms and validates the body.\<close>

definition postContract :: "'d be1_env \<Rightarrow> CreateContractDto \<Rightarrow> ('d, contract_rest) be1" where
  "postContract E raw =
    (let o' = transformDto raw in
     if validContractDto E o' then postContractH E o' else throwE (BadRequest ''Bad Request Exception''))"

text \<open>\<open>ParseUUIDPipe\<close> and the lookup that two routes share.\<close>

definition lookupContract :: "'d be1_env \<Rightarrow> string \<Rightarrow> ('d, ContractDto) be1" where
  "lookupContract E i =
    (if \<not> isUuid E i then throwE (BadRequest ''Validation failed (uuid is expected)'')
     else bindE (findById E i) (\<lambda>found. case found of
         None \<Rightarrow> throwE (NotFound (''Contract '' @ i @ '' not found'')) | Some dto \<Rightarrow> ret (Inr dto)))"

definition findOne :: "'d be1_env \<Rightarrow> string \<Rightarrow> ('d, contract_rest) be1" where
  "findOne E i = bindE (lookupContract E i) (\<lambda>found. ret (Inr (toContractResponse found)))"

text \<open>The answer of \<open>balance\<close>; the last field is \<open>undefined\<close> (\<open>None\<close>) or the balance, which may be null.\<close>

record ContractBalance =
  cb_contractId :: string
  cb_address :: string
  cb_balanceXrp :: string
  cb_balanceIou :: "Amount option option"

definition balance :: "'d be1_env \<Rightarrow> string \<Rightarrow> ('d, ContractBalance) be1" where
  "balance E i = bindE (lookupContract E i) (\<lambda>found.
     if \<not> truthy (k_contractAccountAddress found)
     then throwE (BadRequest (''Contract '' @ i @ '' has no contractAccountAddress (locked '' @ codePoints [51204] @ ''?)''))
     else let address = the (k_contractAccountAddress found) in
       bindE (getXrpBalance E address) (\<lambda>balanceXrp.
       bindE (if k_assetMode found = ''IOU'' \<and> truthy (k_iouIssuer found) \<and> truthy (k_iouCurrency found)
           then bindE (getIouBalance E address (the (k_iouIssuer found)) (the (k_iouCurrency found))) (\<lambda>b. ret (Inr (Some b)))
           else ret (Inr None)) (\<lambda>balanceIou.
       ret (Inr \<lparr> cb_contractId = k_id found, cb_address = address, cb_balanceXrp = balanceXrp, cb_balanceIou = balanceIou \<rparr>))))"

section \<open>Storing a contract\<close>

lemma contractContentD:
  assumes "contractContent c = contractContent c'"
  shows "k_status c = k_status c'" "k_contractAccountAddress c = k_contractAccountAddress c'"
    "k_contractAccountSeedCipher c = k_contractAccountSeedCipher c'" "k_tenantPiiCipher c = k_tenantPiiCipher c'"
    "k_landlordPiiCipher c = k_landlordPiiCipher c'" "k_depositEscrowSequence c = k_depositEscrowSequence c'"
    "k_depositEscrowTxHash c = k_depositEscrowTxHash c'" "k_stakeEscrowSequence c = k_stakeEscrowSequence c'"
    "k_stakeEscrowTxHash c = k_stakeEscrowTxHash c'" "k_signerListTxHash c = k_signerListTxHash c'"
    "k_landlordAddress c = k_landlordAddress c'" "k_tenantAddress c = k_tenantAddress c'"
  using arg_cong [OF assms, of k_status] arg_cong [OF assms, of k_contractAccountAddress]
    arg_cong [OF assms, of k_contractAccountSeedCipher] arg_cong [OF assms, of k_tenantPiiCipher]
    arg_cong [OF assms, of k_landlordPiiCipher] arg_cong [OF assms, of k_depositEscrowSequence]
    arg_cong [OF assms, of k_depositEscrowTxHash] arg_cong [OF assms, of k_stakeEscrowSequence]
    arg_cong [OF assms, of k_stakeEscrowTxHash] arg_cong [OF assms, of k_signerListTxHash]
    arg_cong [OF assms, of k_landlordAddress] arg_cong [OF assms, of k_tenantAddress]
  by (simp_all add: contractContent_def)

lemma sends_refl: "sends s s []"
  by (simp add: sends_def)

lemma submitsD:
  assumes "submits tx f m"
  shows "\<exists>new. sends s (exec m s) new \<and> (\<forall>x. valu m s = Inr x \<longrightarrow> (\<exists>r. new = [(tx, Inr r)] \<and> f r = Inr x))"
  by (rule submitsE [OF assms, of s]) auto

lemma sends_encrypt: "sends s (exec (encrypt E m) s) []"
  by (cases "encryptionKey E") (simp_all add: encrypt_def sends_def Let_def split: prod.splits)

text \<open>The columns of personal data hold what the request gave, for whoever has the key.\<close>

definition sealedPii :: "'d be1_env \<Rightarrow> CreateContractInput \<Rightarrow> Be1Contract \<Rightarrow> bool" where
  "sealedPii E input c = (decrypt E (k_tenantPiiCipher c) = Inr (ci_tenantPii input) \<and>
     decrypt E (k_landlordPiiCipher c) = Inr (ci_landlordPii input))"

text \<open>A row that waits for its transactions.\<close>

definition freshRow :: "CreateContractInput \<Rightarrow> Be1Contract \<Rightarrow> bool" where
  "freshRow input c = (k_status c = Pending \<and> k_tenantAddress c = ci_tenantAddress input \<and>
     k_landlordAddress c = ci_landlordAddress input \<and> k_contractAccountAddress c = None \<and>
     k_contractAccountSeedCipher c = None \<and> k_depositEscrowTxHash c = None \<and> k_stakeEscrowTxHash c = None \<and>
     k_signerListTxHash c = None)"

lemma createRow_outcome:
  assumes "db_laws cs rs E"
  shows "b1sent (exec (createRow E input) s) = b1sent s \<and> rs (b1db (exec (createRow E input) s)) = rs (b1db s) \<and>
    ((cs (b1db (exec (createRow E input) s)) = cs (b1db s) \<and> (\<exists>e. valu (createRow E input) s = Inl e)) \<or>
     (\<exists>row. cs (b1db (exec (createRow E input) s)) = cs (b1db s) @ [row] \<and> k_id row \<notin> k_id ` set (cs (b1db s)) \<and>
        freshRow input row \<and> (crypto_laws E \<longrightarrow> sealedPii E input row) \<and> valu (createRow E input) s = toDto E row))"
proof -
  define s1 where "s1 = exec (encrypt E (ci_tenantPii input)) s"
  define s2 where "s2 = exec (encrypt E (ci_landlordPii input)) s1"
  have l: "repo_laws cs rs k_id contractContent (contractRepo E)" using assms by (simp add: db_laws_def)
  have k1: "b1sent s1 = b1sent s" "b1db s1 = b1db s" using sends_encrypt by (auto simp: s1_def sends_def)
  have k2: "b1sent s2 = b1sent s" "b1db s2 = b1db s" using sends_encrypt [of s1] k1 by (auto simp: s2_def sends_def)
  show ?thesis
  proof (cases "valu (encrypt E (ci_tenantPii input)) s")
    case (Inl e)
    with k1 show ?thesis by (simp add: createRow_def s1_def [symmetric])
  next
    case t: (Inr tc)
    show ?thesis
    proof (cases "valu (encrypt E (ci_landlordPii input)) s1")
      case (Inl e)
      with t k2 show ?thesis by (simp add: createRow_def s1_def [symmetric] s2_def [symmetric])
    next
      case u: (Inr lc)
      show ?thesis
      proof (cases "iouCurrencyColumn (getOr ''XRP'' (ci_assetMode input)) input")
        case (Inl e)
        with t u k2 show ?thesis by (simp add: createRow_def s1_def [symmetric] s2_def [symmetric])
      next
        case c: (Inr cur)
        define e where "e = newContract input tc lc cur"
        have run: "exec (createRow E input) s = s2\<lparr>b1db := snd (repo_save (contractRepo E) e (b1db s))\<rparr>"
          "valu (createRow E input) s = (case fst (repo_save (contractRepo E) e (b1db s)) of
             Inl m \<Rightarrow> Inl (Err m) | Inr x \<Rightarrow> toDto E x)"
          using t u c k2(2) by (auto simp: createRow_def s1_def [symmetric] s2_def [symmetric] e_def split: sum.splits)
        show ?thesis
        proof (cases "fst (repo_save (contractRepo E) e (b1db s))")
          case (Inl m)
          with run k2 repo_saveD(1,2) [OF l] show ?thesis by simp
        next
          case (Inr row)
          from repo_saveD(3) [OF l Inr] have r: "cs (snd (repo_save (contractRepo E) e (b1db s))) = cs (b1db s) @ [row]"
            "contractContent row = contractContent e" "k_id row \<notin> k_id ` set (cs (b1db s))" by auto
          have "freshRow input row" "k_tenantPiiCipher row = tc" "k_landlordPiiCipher row = lc"
            using contractContentD [OF r(2)] by (simp_all add: freshRow_def e_def newContract_def Let_def)
          with decrypt_sealed [OF _ t] decrypt_sealed [OF _ u] r run Inr k2 repo_saveD(1) [OF l]
          show ?thesis by (auto simp: sealedPii_def)
        qed
      qed
    qed
  qed
qed

lemma toDto_id: "toDto E c = Inr dto \<Longrightarrow> k_id dto = k_id c"
  by (auto simp: toDto_def Let_def contract_rest.defs split: sum.splits)

lemma findById_run:
  assumes "db_laws cs rs E"
  shows "b1sent (exec (findById E i) s) = b1sent s" "cs (b1db (exec (findById E i) s)) = cs (b1db s)"
    "rs (b1db (exec (findById E i) s)) = rs (b1db s)"
    "valu (findById E i) s = Inr (Some dto) \<Longrightarrow> \<exists>c \<in> set (cs (b1db s)). k_id c = i \<and> toDto E c = Inr dto"
    "valu (findById E i) s = Inr None \<Longrightarrow> i \<notin> k_id ` set (cs (b1db s))"
proof -
  have l: "repo_laws cs rs k_id contractContent (contractRepo E)" using assms by (simp add: db_laws_def)
  let ?r = "repo_findOne (contractRepo E) (\<lambda>c. k_id c = i) (b1db s)"
  have "exec (findById E i) s = s\<lparr>b1db := snd ?r\<rparr>"
    by (cases "fst ?r") (auto simp: findById_def split: option.splits)
  with repo_readD [OF l] show "b1sent (exec (findById E i) s) = b1sent s" "cs (b1db (exec (findById E i) s)) = cs (b1db s)"
    "rs (b1db (exec (findById E i) s)) = rs (b1db s)" by simp_all
  have v: "valu (findById E i) s = (case fst ?r of Inl m \<Rightarrow> Inl (Err m) | Inr None \<Rightarrow> Inr None
      | Inr (Some c) \<Rightarrow> map_sum id Some (toDto E c))"
    by (auto simp: findById_def split: sum.splits option.splits)
  show "\<exists>c \<in> set (cs (b1db s)). k_id c = i \<and> toDto E c = Inr dto" if a: "valu (findById E i) s = Inr (Some dto)"
  proof (cases "fst ?r")
    case (Inl m)
    with v a show ?thesis by simp
  next
    case (Inr x)
    with v a obtain c where c: "x = Some c" "toDto E c = Inr dto"
      by (cases x; cases "toDto E (the x)") auto
    from repo_findOneD(2) [OF l] Inr c(1) have "c \<in> set (cs (b1db s))" "k_id c = i" by blast+
    with c(2) show ?thesis by blast
  qed
  show "i \<notin> k_id ` set (cs (b1db s))" if a: "valu (findById E i) s = Inr None"
  proof -
    from v a have "fst ?r = Inr None"
      by (auto split: sum.splits option.splits simp: map_sum_def)
    from repo_findOneD(1) [OF l this] show ?thesis by auto
  qed
qed

section \<open>Locking deposit and stake\<close>

text \<open>The row is locked by the three transactions \<open>new\<close>: the escrow of the deposit for the tenant, the escrow of the stake
  for the landlord and the signer list of the two and the operator with quorum 2, all accepted by the ledger.\<close>

definition lockedBy :: "'d be1_env \<Rightarrow> CreateContractInput \<Rightarrow> Wallet \<Rightarrow> string \<Rightarrow> (Be1Tx \<times> (string + TxResult)) list \<Rightarrow>
    Be1Contract \<Rightarrow> bool" where
  "lockedBy E input wallet operatorAddress new row = (\<exists>depositAmount stakeAmount d k l.
     escrowAmounts input = Inr (depositAmount, stakeAmount) \<and>
     new = [(escrowCreateTx E (escrowOf input wallet (ci_tenantAddress input) depositAmount), Inr d),
            (escrowCreateTx E (escrowOf input wallet (ci_landlordAddress input) stakeAmount), Inr k),
            (signerListTx wallet (lockSigners input operatorAddress) 2, Inr l)] \<and>
     accepted (Inr d) \<and> accepted (Inr k) \<and> accepted (Inr l) \<and>
     k_depositEscrowTxHash row = Some (tr_hash d) \<and> k_depositEscrowSequence row = orElse (tr_txJsonSequence d) (tr_Sequence d) \<and>
     k_stakeEscrowTxHash row = Some (tr_hash k) \<and> k_stakeEscrowSequence row = orElse (tr_txJsonSequence k) (tr_Sequence k) \<and>
     k_signerListTxHash row = Some (tr_hash l) \<and> k_contractAccountAddress row = Some (wl_classicAddress wallet) \<and>
     k_contractAccountSeedCipher row \<noteq> None \<and>
     k_tenantAddress row = ci_tenantAddress input \<and> k_landlordAddress row = ci_landlordAddress input)"

text \<open>The seed of the contract account is stored as ciphertext too.\<close>

definition sealedSeed :: "'d be1_env \<Rightarrow> Wallet \<Rightarrow> Be1Contract \<Rightarrow> bool" where
  "sealedSeed E wallet c = (\<exists>seed cipher. wl_seed wallet = Some seed \<and> seed \<noteq> '''' \<and>
     k_contractAccountSeedCipher c = Some cipher \<and> decrypt E cipher = Inr seed)"

text \<open>What is left to do after the row and the three transactions.\<close>

definition persistLock :: "'d be1_env \<Rightarrow> Wallet \<Rightarrow> string \<Rightarrow> EscrowCreatedResult \<Rightarrow> EscrowCreatedResult \<Rightarrow> MutationResult \<Rightarrow>
    ('d, ContractDto) be1" where
  "persistLock E wallet i deposit stake signerList =
    (if \<not> truthy (wl_seed wallet) then throwE (Err ''contractWallet must have a seed for persistence'')
     else bindE (encrypt E (the (wl_seed wallet))) (\<lambda>seedCipher.
       bindE (dbCall (repo_update (contractRepo E) i (lockPatch wallet seedCipher deposit stake signerList))) (\<lambda>_.
       bindE (findById E i) (\<lambda>updated.
       case updated of
         None \<Rightarrow> throwE (Err (''Contract '' @ i @ '' disappeared after lock update''))
       | Some dto \<Rightarrow> ret (Inr dto)))))"

lemma persistLock_outcome:
  fixes wallet :: Wallet and d k :: EscrowCreatedResult and l :: MutationResult
  assumes laws: "db_laws cs rs E" and rows: "cs (b1db s) = old @ [row]" "k_id row = i" "i \<notin> k_id ` set old"
  defines "s' \<equiv> exec (persistLock E wallet i d k l) s"
  shows "b1sent s' = b1sent s \<and> rs (b1db s') = rs (b1db s) \<and>
    ((cs (b1db s') = cs (b1db s) \<and> (\<exists>e. valu (persistLock E wallet i d k l) s = Inl e)) \<or>
     (\<exists>row' cipher. cs (b1db s') = old @ [row'] \<and> k_id row' = i \<and> contractContent row' = contractContent (lockPatch wallet cipher d k l row) \<and>
        (crypto_laws E \<longrightarrow> sealedSeed E wallet row') \<and>
        (\<forall>dto. valu (persistLock E wallet i d k l) s = Inr dto \<longrightarrow> toDto E row' = Inr dto)))"
proof (cases "truthy (wl_seed wallet)")
  case False
  then show ?thesis by (simp add: s'_def persistLock_def)
next
  case True
  then obtain seed where seed: "wl_seed wallet = Some seed" "seed \<noteq> ''''" by (cases "wl_seed wallet") auto
  have lw: "repo_laws cs rs k_id contractContent (contractRepo E)" using laws by (simp add: db_laws_def)
  define s1 where "s1 = exec (encrypt E seed) s"
  have k1: "b1sent s1 = b1sent s" "b1db s1 = b1db s" using sends_encrypt by (auto simp: s1_def sends_def)
  show ?thesis
  proof (cases "valu (encrypt E seed) s")
    case (Inl e)
    with seed k1 show ?thesis by (simp add: s'_def persistLock_def s1_def)
  next
    case c: (Inr cipher)
    define u where "u = repo_update (contractRepo E) i (lockPatch wallet cipher d k l) (b1db s)"
    define s2 where "s2 = s1\<lparr>b1db := snd u\<rparr>"
    have m: "persistLock E wallet i d k l = bindE (encrypt E seed) (\<lambda>seedCipher.
       bindE (dbCall (repo_update (contractRepo E) i (lockPatch wallet seedCipher d k l))) (\<lambda>_.
       bindE (findById E i) (\<lambda>updated. case updated of
         None \<Rightarrow> throwE (Err (''Contract '' @ i @ '' disappeared after lock update'')) | Some dto \<Rightarrow> ret (Inr dto))))"
      unfolding persistLock_def seed(1) by (simp only: truthy_simps option.sel seed(2) simp_thms if_False)
    show ?thesis
    proof (cases "fst u")
      case (Inl e)
      then have "s' = s2" "valu (persistLock E wallet i d k l) s = Inl (Err e)"
        by (simp_all add: s'_def m c s1_def [symmetric] s2_def u_def k1)
      with Inl repo_updateD(1,2) [OF lw] k1 show ?thesis by (simp add: s2_def u_def)
    next
      case (Inr x)
      then have run: "s' = exec (findById E i) s2" "valu (persistLock E wallet i d k l) s = Inr dto \<longleftrightarrow>
          valu (findById E i) s2 = Inr (Some dto)" for dto
        by (auto simp: s'_def m c s1_def [symmetric] s2_def u_def k1 split: sum.splits option.splits)
      from repo_updateD(3) [OF lw, of i _ "b1db s"] Inr rows(1)
      have "list_all2 (\<lambda>e e'. if k_id e = i then k_id e' = i \<and>
          contractContent e' = contractContent (lockPatch wallet cipher d k l e) else e' = e) (old @ [row]) (cs (snd u))"
        by (simp add: u_def)
      from update_last [OF this rows(2,3)] obtain row' where row': "cs (snd u) = old @ [row']" "k_id row' = i"
        "contractContent row' = contractContent (lockPatch wallet cipher d k l row)" by metis
      have "k_contractAccountSeedCipher row' = Some cipher"
        using contractContentD(3) [OF row'(3)] by (simp add: lockPatch_def)
      then have "crypto_laws E \<longrightarrow> sealedSeed E wallet row'"
        using decrypt_sealed [OF _ c] seed by (auto simp: sealedSeed_def)
      moreover have "toDto E row' = Inr dto" if a: "valu (findById E i) s2 = Inr (Some dto)" for dto
      proof -
        from findById_run(4) [OF laws a] obtain e where e: "e \<in> set (old @ [row'])" "k_id e = i" "toDto E e = Inr dto"
          using row'(1) by (auto simp: s2_def)
        with rows(3) have "e = row'" by auto
        with e(3) show ?thesis by simp
      qed
      ultimately show ?thesis
        using row' run findById_run(1-3) [OF laws, of i s2] repo_updateD(1) [OF lw] k1
        by (auto simp: s2_def u_def)
    qed
  qed
qed

text \<open>The three transactions, with the results that the service reads off the answers.\<close>

definition lockTxs :: "'d be1_env \<Rightarrow> CreateContractInput \<Rightarrow> Wallet \<Rightarrow> string \<Rightarrow> Amount \<times> Amount \<Rightarrow>
    ('d, EscrowCreatedResult \<times> EscrowCreatedResult \<times> MutationResult) be1" where
  "lockTxs E input wallet operatorAddress amounts =
     bindE (createEscrow E (escrowOf input wallet (ci_tenantAddress input) (fst amounts))) (\<lambda>deposit.
     bindE (createEscrow E (escrowOf input wallet (ci_landlordAddress input) (snd amounts))) (\<lambda>stake.
     bindE (setSignerList E wallet (lockSigners input operatorAddress) 2) (\<lambda>signerList.
     ret (Inr (deposit, stake, signerList)))))"

lemma run_lockTenantDeposit:
  "exec (lockTenantDeposit E input wallet operatorAddress) s =
     exec (bindE (pureE (escrowAmounts input)) (\<lambda>amounts. bindE (createRow E input) (\<lambda>contract.
       bindE (lockTxs E input wallet operatorAddress amounts) (\<lambda>(d, k, l). persistLock E wallet (k_id contract) d k l)))) s"
  "valu (lockTenantDeposit E input wallet operatorAddress) s =
     valu (bindE (pureE (escrowAmounts input)) (\<lambda>amounts. bindE (createRow E input) (\<lambda>contract.
       bindE (lockTxs E input wallet operatorAddress amounts) (\<lambda>(d, k, l). persistLock E wallet (k_id contract) d k l)))) s"
  unfolding lockTenantDeposit_def lockTxs_def persistLock_def by (auto split: sum.splits prod.splits)

lemma lockTxs_outcome:
  fixes E :: "'d be1_env" and input :: CreateContractInput and wallet :: Wallet and operatorAddress :: string
    and amounts :: "Amount \<times> Amount"
  defines "m \<equiv> lockTxs E input wallet operatorAddress amounts"
  shows "\<exists>new. sends s (exec m s) new \<and> (\<forall>d k l. valu m s = Inr (d, k, l) \<longrightarrow>
    (\<exists>rd rk rl. new = [(escrowCreateTx E (escrowOf input wallet (ci_tenantAddress input) (fst amounts)), Inr rd),
       (escrowCreateTx E (escrowOf input wallet (ci_landlordAddress input) (snd amounts)), Inr rk),
       (signerListTx wallet (lockSigners input operatorAddress) 2, Inr rl)] \<and>
     assertCreateSuccess rd = Inr d \<and> assertCreateSuccess rk = Inr k \<and> assertMutationSuccess ''SignerListSet'' rl = Inr l))"
proof -
  let ?c1 = "createEscrow E (escrowOf input wallet (ci_tenantAddress input) (fst amounts))"
  let ?c2 = "createEscrow E (escrowOf input wallet (ci_landlordAddress input) (snd amounts))"
  let ?c3 = "setSignerList E wallet (lockSigners input operatorAddress) 2"
  define s1 where "s1 = exec ?c1 s"
  define s2 where "s2 = exec ?c2 s1"
  define s3 where "s3 = exec ?c3 s2"
  obtain n1 where n1: "sends s s1 n1" "\<And>x. valu ?c1 s = Inr x \<Longrightarrow>
      \<exists>r. n1 = [(escrowCreateTx E (escrowOf input wallet (ci_tenantAddress input) (fst amounts)), Inr r)] \<and> assertCreateSuccess r = Inr x"
    using submitsE [OF submits_createEscrow] unfolding s1_def by metis
  obtain n2 where n2: "sends s1 s2 n2" "\<And>x. valu ?c2 s1 = Inr x \<Longrightarrow>
      \<exists>r. n2 = [(escrowCreateTx E (escrowOf input wallet (ci_landlordAddress input) (snd amounts)), Inr r)] \<and> assertCreateSuccess r = Inr x"
    using submitsE [OF submits_createEscrow] unfolding s2_def by metis
  obtain n3 where n3: "sends s2 s3 n3" "\<And>x. valu ?c3 s2 = Inr x \<Longrightarrow>
      \<exists>r. n3 = [(signerListTx wallet (lockSigners input operatorAddress) 2, Inr r)] \<and> assertMutationSuccess ''SignerListSet'' r = Inr x"
    using submitsE [OF submits_setSignerList] unfolding s3_def by metis
  show ?thesis
  proof (cases "valu ?c1 s")
    case (Inl e)
    with n1(1) show ?thesis by (auto simp: m_def lockTxs_def s1_def [symmetric])
  next
    case c1: (Inr d)
    show ?thesis
    proof (cases "valu ?c2 s1")
      case (Inl e)
      with c1 sends_trans [OF n1(1) n2(1)] show ?thesis
        by (auto simp: m_def lockTxs_def s1_def [symmetric] s2_def [symmetric])
    next
      case c2: (Inr k)
      have "exec m s = s3" "valu m s = map_sum id (\<lambda>l. (d, k, l)) (valu ?c3 s2)"
        using c1 c2 by (auto simp: m_def lockTxs_def s1_def [symmetric] s2_def [symmetric] s3_def split: sum.splits)
      moreover have "sends s s3 (n1 @ n2 @ n3)"
        using sends_trans [OF sends_trans [OF n1(1) n2(1)] n3(1)] by simp
      ultimately show ?thesis
        using n1(2) [OF c1] n2(2) [OF c2] n3(2) by (intro exI [of _ "n1 @ n2 @ n3"]) (cases "valu ?c3 s2"; auto)
    qed
  qed
qed

text \<open>Every outcome of \<open>lockTenantDeposit\<close>.\<close>

lemma lock_outcome:
  fixes E :: "'d be1_env" and input :: CreateContractInput and wallet :: Wallet and operatorAddress :: string
  assumes laws: "db_laws cs rs E"
  defines "m \<equiv> lockTenantDeposit E input wallet operatorAddress"
  shows "\<exists>new. b1sent (exec m s) = b1sent s @ new \<and> rs (b1db (exec m s)) = rs (b1db s) \<and>
    ((cs (b1db (exec m s)) = cs (b1db s) \<and> (\<exists>e. valu m s = Inl e)) \<or>
     (\<exists>row. cs (b1db (exec m s)) = cs (b1db s) @ [row] \<and> k_id row \<notin> k_id ` set (cs (b1db s)) \<and>
        (crypto_laws E \<longrightarrow> sealedPii E input row) \<and>
        ((freshRow input row \<and> (\<exists>e. valu m s = Inl e)) \<or>
         (k_status row = Locked \<and> lockedBy E input wallet operatorAddress new row \<and> (crypto_laws E \<longrightarrow> sealedSeed E wallet row) \<and>
          (\<forall>dto. valu m s = Inr dto \<longrightarrow> toDto E row = Inr dto)))))"
proof (cases "escrowAmounts input")
  case (Inl e)
  then show ?thesis by (auto simp: m_def run_lockTenantDeposit)
next
  case a: (Inr amounts)
  define s1 where "s1 = exec (createRow E input) s"
  note o1 = createRow_outcome [OF laws, of input s, folded s1_def]
  show ?thesis
  proof (cases "valu (createRow E input) s")
    case (Inl e)
    then have "exec m s = s1" "valu m s = Inl e" by (simp_all add: m_def run_lockTenantDeposit a s1_def)
    with o1 show ?thesis by auto
  next
    case dto: (Inr dto)
    with o1 obtain row where row: "b1sent s1 = b1sent s" "rs (b1db s1) = rs (b1db s)"
      "cs (b1db s1) = cs (b1db s) @ [row]" "k_id row \<notin> k_id ` set (cs (b1db s))" "freshRow input row"
      "crypto_laws E \<longrightarrow> sealedPii E input row" "toDto E row = Inr dto" by auto
    define s2 where "s2 = exec (lockTxs E input wallet operatorAddress amounts) s1"
    obtain new where new: "sends s1 s2 new \<and> (\<forall>d k l. valu (lockTxs E input wallet operatorAddress amounts) s1 = Inr (d, k, l) \<longrightarrow>
      (\<exists>rd rk rl. new = [(escrowCreateTx E (escrowOf input wallet (ci_tenantAddress input) (fst amounts)), Inr rd),
       (escrowCreateTx E (escrowOf input wallet (ci_landlordAddress input) (snd amounts)), Inr rk),
       (signerListTx wallet (lockSigners input operatorAddress) 2, Inr rl)] \<and>
      assertCreateSuccess rd = Inr d \<and> assertCreateSuccess rk = Inr k \<and> assertMutationSuccess ''SignerListSet'' rl = Inr l))"
      using lockTxs_outcome [where s = s1 and E = E and input = input and wallet = wallet and operatorAddress = operatorAddress
        and amounts = amounts] unfolding s2_def by metis
    have k2: "b1sent s2 = b1sent s @ new" "b1db s2 = b1db s1" using new row(1) by (auto simp: sends_def)
    show ?thesis
    proof (cases "valu (lockTxs E input wallet operatorAddress amounts) s1")
      case (Inl e)
      then have "exec m s = s2" "valu m s = Inl e"
        using dto by (simp_all add: m_def run_lockTenantDeposit a s1_def [symmetric] s2_def)
      with k2 row show ?thesis by auto
    next
      case (Inr x)
      obtain d k l where x: "x = (d, k, l)" by (cases x)
      obtain rd rk rl where r: "new = [(escrowCreateTx E (escrowOf input wallet (ci_tenantAddress input) (fst amounts)), Inr rd),
         (escrowCreateTx E (escrowOf input wallet (ci_landlordAddress input) (snd amounts)), Inr rk),
         (signerListTx wallet (lockSigners input operatorAddress) 2, Inr rl)]"
        "assertCreateSuccess rd = Inr d" "assertCreateSuccess rk = Inr k" "assertMutationSuccess ''SignerListSet'' rl = Inr l"
        using new Inr x by blast
      let ?p = "persistLock E wallet (k_id row) d k l"
      have run: "exec m s = exec ?p s2" "valu m s = valu ?p s2"
        using dto Inr x toDto_id [OF row(7)] by (simp_all add: m_def run_lockTenantDeposit a s1_def [symmetric] s2_def)
      have "cs (b1db s2) = cs (b1db s) @ [row]" using k2 row by simp
      from persistLock_outcome [OF laws this refl row(4), of wallet d k l]
      consider (fail) e where "b1sent (exec m s) = b1sent s @ new" "rs (b1db (exec m s)) = rs (b1db s)"
          "cs (b1db (exec m s)) = cs (b1db s) @ [row]" "valu m s = Inl e"
        | (ok) row' cipher where "b1sent (exec m s) = b1sent s @ new" "rs (b1db (exec m s)) = rs (b1db s)"
          "cs (b1db (exec m s)) = cs (b1db s) @ [row']" "k_id row' = k_id row"
          "contractContent row' = contractContent (lockPatch wallet cipher d k l row)"
          "crypto_laws E \<longrightarrow> sealedSeed E wallet row'" "\<forall>dto. valu m s = Inr dto \<longrightarrow> toDto E row' = Inr dto"
        using k2 row(2,3) run by (auto simp only:)
      then show ?thesis
      proof cases
        case fail
        with row show ?thesis by auto
      next
        case ok
        note f = contractContentD [OF ok(5), unfolded lockPatch_def, simplified]
        have "lockedBy E input wallet operatorAddress new row'"
          unfolding lockedBy_def using a r assertCreateSuccess_ok [OF r(2)] assertCreateSuccess_ok [OF r(3)]
            assertMutationSuccess_ok [OF r(4)] f row(5) [unfolded freshRow_def]
          by (intro exI [of _ "fst amounts"] exI [of _ "snd amounts"] exI [of _ rd] exI [of _ rk] exI [of _ rl]) simp
        with ok row f show ?thesis by (auto simp: sealedPii_def)
      qed
    qed
  qed
qed

section \<open>Properties\<close>

text \<open>C8: no contract is locked on paper only. Whatever fails, \<open>lockTenantDeposit\<close> adds at most one row, under a new key; the row is locked only
  when the escrow of the deposit, the escrow of the stake and the signer list with quorum 2 were all submitted, in this order, and
  accepted, and it carries their hashes and sequences; otherwise the row waits as pending without account, seed and hashes. The
  reconciliations are not touched.\<close>

theorem lock_all_or_pending:
  assumes "db_laws cs rs E"
  shows "\<exists>new. b1sent (exec (lockTenantDeposit E input wallet operatorAddress) s) = b1sent s @ new \<and>
    rs (b1db (exec (lockTenantDeposit E input wallet operatorAddress) s)) = rs (b1db s) \<and>
    (cs (b1db (exec (lockTenantDeposit E input wallet operatorAddress) s)) = cs (b1db s) \<or>
     (\<exists>row. cs (b1db (exec (lockTenantDeposit E input wallet operatorAddress) s)) = cs (b1db s) @ [row] \<and>
        k_id row \<notin> k_id ` set (cs (b1db s)) \<and>
        (freshRow input row \<or> (k_status row = Locked \<and> lockedBy E input wallet operatorAddress new row))))"
proof -
  obtain new where "b1sent (exec (lockTenantDeposit E input wallet operatorAddress) s) = b1sent s @ new"
    "rs (b1db (exec (lockTenantDeposit E input wallet operatorAddress) s)) = rs (b1db s)"
    "cs (b1db (exec (lockTenantDeposit E input wallet operatorAddress) s)) = cs (b1db s) \<or>
     (\<exists>row. cs (b1db (exec (lockTenantDeposit E input wallet operatorAddress) s)) = cs (b1db s) @ [row] \<and>
        k_id row \<notin> k_id ` set (cs (b1db s)) \<and>
        (freshRow input row \<or> (k_status row = Locked \<and> lockedBy E input wallet operatorAddress new row)))"
    using lock_outcome [OF assms, where s = s and input = input and wallet = wallet and operatorAddress = operatorAddress] by (elim exE conjE) blast
  then show ?thesis by blast
qed

lemma toDto_sealed:
  assumes "toDto E row = Inr dto" "sealedPii E input row" "sealedSeed E wallet row"
  shows "dt_tenantPii dto = ci_tenantPii input \<and> dt_landlordPii dto = ci_landlordPii input \<and> dt_contractAccountSeed dto = wl_seed wallet"
proof -
  obtain seed cipher where s: "wl_seed wallet = Some seed" "k_contractAccountSeedCipher row = Some cipher" "decrypt E cipher = Inr seed"
    using assms(3) by (auto simp: sealedSeed_def)
  have "cipher \<noteq> ''''"
  proof
    assume "cipher = ''''"
    then have "decrypt E cipher \<noteq> Inr seed"
      by (auto simp: decrypt_def base64Decode_def base64urlDecode_def utf8Bytes_def List.map_filter_simps split: sum.splits)
    with s(3) show False by simp
  qed
  with s assms show ?thesis
    by (auto simp: toDto_def sealedPii_def Let_def contract_rest.defs)
qed

text \<open>C20: personal data survives the database. When \<open>lockTenantDeposit\<close> returns, the contract it returns is the new locked row read back, with the
  personal data of the request and the seed of the contract account decrypted to what was given.\<close>

theorem lock_round_trip:
  assumes laws: "db_laws cs rs E" and crypto: "crypto_laws E"
    and ok: "valu (lockTenantDeposit E input wallet operatorAddress) s = Inr dto"
  shows "\<exists>row. cs (b1db (exec (lockTenantDeposit E input wallet operatorAddress) s)) = cs (b1db s) @ [row] \<and> toDto E row = Inr dto \<and>
    k_status row = Locked \<and> dt_tenantPii dto = ci_tenantPii input \<and> dt_landlordPii dto = ci_landlordPii input \<and>
    dt_contractAccountSeed dto = wl_seed wallet"
proof -
  from lock_outcome [OF laws, where s = s and input = input and wallet = wallet and operatorAddress = operatorAddress] ok crypto obtain row where
    r: "cs (b1db (exec (lockTenantDeposit E input wallet operatorAddress) s)) = cs (b1db s) @ [row]" "sealedPii E input row"
      "sealedSeed E wallet row" "k_status row = Locked" "toDto E row = Inr dto" by auto
  with toDto_sealed [OF r(5,2,3)] show ?thesis by blast
qed

text \<open>C37: whole amounts are added exactly. For two whole amounts whose sum is below 2 to the 53, the decimal text that funds a contract is the text of their sum.\<close>

theorem iou_sum_exact:
  assumes "a + b < 2 ^ 53"
  shows "sumIouValueStrings (show_nat a) (show_nat b) = Inr (show_nat (a + b))"
proof -
  have w: "whole (parseFloat (show_nat a)) a" "whole (parseFloat (show_nat b)) b"
    using assms by (auto intro: parseFloat_show_nat)
  then have x: "whole (addDouble (parseFloat (show_nat a)) (parseFloat (show_nat b))) (a + b)"
    using assms by (rule addDouble_whole)
  then have "isFinite (addDouble (parseFloat (show_nat a)) (parseFloat (show_nat b)))"
    "\<not> ltDouble (addDouble (parseFloat (show_nat a)) (parseFloat (show_nat b))) (Fin 0 0)"
    by (auto simp: whole_def isFinite_def mult_less_0_iff)
  then show ?thesis
    using toFixed_whole [OF x assms, of 15] by (simp add: sumIouValueStrings_def Let_def)
qed

lemmas double_eval = parseFloat_def readDecimal_def isDigit_def isSpace_def read_nat_def digit_val_def toDoubleNat_def leadExp_def
  bitLen.simps roundEven_def Let_def readExponent_def startsWith_def toDouble_def isFinite_def

lemmas print_eval = toFixed_def fixedPositive_def roundUp_def show_nat.simps digit_char_def stripZeros_def char_of_def bit_0

text \<open>Decimal amounts are not. The deposit 1000.1 and the stake 50.3 are funded with the text 1050.400000000000091, which has nineteen significant digits,
  more than the sixteen that an issued amount of the ledger can carry.\<close>

lemma iou_sum_rounding: "sumIouValueStrings ''1000.1'' ''50.3'' = Inr ''1050.400000000000091''"
proof -
  have a: "parseFloat ''1000.1'' = Fin 8796972631510221 43" by (simp add: double_eval)
  have b: "parseFloat ''50.3'' = Fin 7079095664272998 47" by (simp add: double_eval)
  have p: "pad 15 400000000000091 = ''400000000000091''" by (simp add: pad_numeral digit_char_def char_of_def bit_0)
  show ?thesis by (simp add: sumIouValueStrings_def a b p double_eval print_eval)
qed

end
