(* ===== verification/Reconciler.thy ===== *)
theory Reconciler
  imports Be1Contracts
begin

text \<open>
  The monthly reconciliation of \<open>be1-xrpl\<close>: the usage read from KEPCO, the memo of the payment, the payment from the contract
  account to the landlord with its record, the report mail, the monthly run with its retry queue, and the routes.
\<close>

section \<open>The memo\<close>

record ReconcileMemoPayload =
  mp_contractId :: string
  mp_yearMonth :: string
  mp_kepcoUsageHash :: string
  mp_landlordClaimHash :: string
  mp_calculatedAmountDrops :: string

definition MEMO_TYPE :: string where
  "MEMO_TYPE = ''reconcile/v1''"

definition MAX_MEMO_BYTES :: nat where
  "MAX_MEMO_BYTES = 1024"

definition sha256Hex :: "'d be1_env \<Rightarrow> string \<Rightarrow> string" where
  "sha256Hex E input = toLowerCase (bytesToHex (hash256 E (utf8Bytes input)))"

definition memoPayload :: "ReconcileMemoPayload \<Rightarrow> json" where
  "memoPayload p = JObj [(''contractId'', JStr (mp_contractId p)), (''yearMonth'', JStr (mp_yearMonth p)),
     (''kepcoUsageHash'', JStr (mp_kepcoUsageHash p)), (''landlordClaimHash'', JStr (mp_landlordClaimHash p)),
     (''calculatedAmountDrops'', JStr (mp_calculatedAmountDrops p))]"

definition buildReconcileMemo :: "'d be1_env \<Rightarrow> ReconcileMemoPayload \<Rightarrow> be1_error + Memo" where
  "buildReconcileMemo E payload =
    (let json = stringify (memoPayload payload) in
     if MAX_MEMO_BYTES < length json
     then Inl (Err (''Memo data too large: '' @ show_nat (length json) @ '' bytes > '' @ show_nat MAX_MEMO_BYTES @ '' (XRPL Memo '' @ codePoints [54620, 44228] @ '')''))
     else Inr \<lparr> MemoType = Some (convertStringToHex E MEMO_TYPE),
       MemoFormat = Some (convertStringToHex E ''application/json''), MemoData = Some (convertStringToHex E json) \<rparr>)"

definition decodeReconcileMemo :: "'d be1_env \<Rightarrow> Memo \<Rightarrow> be1_error + json" where
  "decodeReconcileMemo E memo =
    (let t = convertHexToString E (getOr '''' (MemoType memo)) in
     if t \<noteq> MEMO_TYPE then Inl (Err (''Unexpected MemoType: '' @ t @ '' (expected '' @ MEMO_TYPE @ '')''))
     else case jsonParse (convertHexToString E (getOr '''' (MemoData memo))) of
         None \<Rightarrow> Inl (Err ''SyntaxError'') | Some v \<Rightarrow> Inr v)"

section \<open>The usage of a month\<close>

text \<open>The numbers are whole; the date is \<open>None\<close> when it is invalid.\<close>

record MonthlyUsage =
  us_contractId :: string
  us_yearMonth :: string
  us_usageKwh :: int
  us_chargeKrw :: int
  us_meterReadingDate :: "int option"

text \<open>\<open>Date.UTC(y, m, d)\<close> with \<open>m\<close> from 0; the years 0 to 99 are those of the twentieth century.\<close>

definition dateUTC :: "int \<Rightarrow> int \<Rightarrow> int \<Rightarrow> int" where
  "dateUTC y m d =
    (let y1 = (if 0 \<le> y \<and> y \<le> 99 then 1900 + y else y) + m div 12; m1 = m mod 12 in
     (day_from_year y1 + month_start (leap_year y1) (m1 + 1) + d - 1) * msPerDay)"

text \<open>\<open>new Date(`${yearMonth}-28T00:00:00Z`)\<close> for a text of the form \<open>dddd-dd\<close>; there is no other.\<close>

definition day28 :: "string \<Rightarrow> int option" where
  "day28 ym =
    (let y = take 4 ym; m = drop 5 ym; n = read_nat m in
     if length ym = 7 \<and> list_all isDigit y \<and> ym ! 4 = CHR ''-'' \<and> list_all isDigit m \<and> 1 \<le> n \<and> n \<le> 12
     then Some ((day_from_year (int (read_nat y)) + month_start (leap_year (int (read_nat y))) (int n) + 27) * msPerDay)
     else None)"

definition readUInt32BE :: "bytes \<Rightarrow> nat" where
  "readUInt32BE b = foldl (\<lambda>a w. a * 256 + unat w) 0 (take 4 b)"

definition mockMonthlyUsage :: "'d be1_env \<Rightarrow> string \<Rightarrow> string \<Rightarrow> MonthlyUsage" where
  "mockMonthlyUsage E contractId yearMonth =
    (let buf = hash256 E (utf8Bytes (contractId @ ''|'' @ yearMonth));
         usageKwh = int (readUInt32BE buf mod 400 + 100) in
     \<lparr> us_contractId = contractId, us_yearMonth = yearMonth, us_usageKwh = usageKwh, us_chargeKrw = usageKwh * 120,
       us_meterReadingDate = day28 yearMonth \<rparr>)"

text \<open>A date \<open>YYYYMMDD\<close> of the OPM interface; other texts give no date.\<close>

definition parseYyyymmdd :: "string \<Rightarrow> int option" where
  "parseYyyymmdd t =
    (if list_all isDigit (take 8 t)
     then Some (dateUTC (int (read_nat (take 4 t))) (int (read_nat (take 2 (drop 4 t))) - 1) (int (read_nat (take 2 (drop 6 t)))))
     else None)"

definition mapOpmBillToMonthlyUsage :: "string \<Rightarrow> OpmBillData \<Rightarrow> MonthlyUsage" where
  "mapOpmBillToMonthlyUsage contractId bill =
    \<lparr> us_contractId = contractId, us_yearMonth = take 4 (ob_billYm bill) @ ''-'' @ take 2 (drop 4 (ob_billYm bill)),
      us_usageKwh = ob_kwh bill, us_chargeKrw = ob_billAmt bill, us_meterReadingDate = parseYyyymmdd (ob_measureToDt bill) \<rparr>"

text \<open>\<open>s.replace('-', '')\<close>: the first occurrence only.\<close>

definition dropFirstDash :: "string \<Rightarrow> string" where
  "dropFirstDash s = takeWhile (\<lambda>c. c \<noteq> CHR ''-'') s @ drop 1 (dropWhile (\<lambda>c. c \<noteq> CHR ''-'') s)"

definition apiMonthlyUsage :: "'d be1_env \<Rightarrow> string \<Rightarrow> string \<Rightarrow> ('d, MonthlyUsage) be1" where
  "apiMonthlyUsage E contractId yearMonth =
    (let baseUrl = getOr '''' (cfg E ''KEPCO_API_BASE_URL''); serviceKey = getOr '''' (cfg E ''KEPCO_API_KEY'') in
     if baseUrl = '''' \<or> serviceKey = ''''
     then throwE (Err (''KEPCO_API_BASE_URL/KEPCO_API_KEY '' @ codePoints [48120, 49444, 51221] @ '' '' @ codePoints [8212] @ '' KepcoApiClient '' @ codePoints [54840, 52636] @ '' '' @ codePoints [48520, 44032] @ ''. KEPCO_USE_MOCK=true'' @ codePoints [47196] @ '' mock '' @ codePoints [51204, 54872] @ '' '' @ codePoints [44032, 45733] @ ''.''))
     else bindE (outside (\<lambda>n. httpGetBill E n (baseUrl @ ''/bill'') [(''serviceKey'', serviceKey),
         (''custNo'', contractId), (''billYm'', dropFirstDash yearMonth)])) (\<lambda>body.
       if or_result body \<noteq> ''SUCCESS''
       then throwE (Err (trim (''OPM bill API '' @ codePoints [49892, 54056] @ '': '' @ or_result body @ '' '' @ getOr '''' (or_resultMsg body))))
       else ret (Inr (mapOpmBillToMonthlyUsage contractId (or_data body)))))"

definition getMonthlyUsage :: "'d be1_env \<Rightarrow> string \<Rightarrow> string \<Rightarrow> ('d, MonthlyUsage) be1" where
  "getMonthlyUsage E contractId yearMonth =
    (if cfg E ''NODE_ENV'' = Some ''test'' \<or> cfg E ''KEPCO_USE_MOCK'' = Some ''true''
     then ret (Inr (mockMonthlyUsage E contractId yearMonth)) else apiMonthlyUsage E contractId yearMonth)"

definition usageJson :: "MonthlyUsage \<Rightarrow> json" where
  "usageJson u = JObj [(''contractId'', JStr (us_contractId u)), (''yearMonth'', JStr (us_yearMonth u)),
     (''usageKwh'', JNum (us_usageKwh u)), (''chargeKrw'', JNum (us_chargeKrw u)),
     (''meterReadingDate'', case us_meterReadingDate u of None \<Rightarrow> JNull | Some t \<Rightarrow> JStr (toISOString t))]"

section \<open>The report mail\<close>

definition newline :: string where
  "newline = [CHR 0x0A]"

text \<open>\<open>s.replace(/\/$/, '')\<close>.\<close>

definition dropSlash :: "string \<Rightarrow> string" where
  "dropSlash s = (if s \<noteq> [] \<and> last s = CHR 0x2F then butlast s else s)"

definition buildMonthlyReportEmail :: "'d be1_env \<Rightarrow> string \<Rightarrow> string \<Rightarrow> string \<Rightarrow> int \<Rightarrow> int \<Rightarrow> string \<Rightarrow> string \<Rightarrow> EmailMessage" where
  "buildMonthlyReportEmail E to contractId yearMonth usageKwh chargeKrw paymentTxHash explorerBaseUrl =
    (let explorerUrl = dropSlash explorerBaseUrl @ ''/transactions/'' @ paymentTxHash in
     \<lparr> em_to = to, em_subject = (''[BlueSafe] '' @ yearMonth @ '' '' @ codePoints [50900] @ '' '' @ codePoints [51221, 49328] @ '' '' @ codePoints [47532, 54252, 53944]),
       em_text = joinWith newline [
         (''BlueSafe '' @ codePoints [50900, 44036] @ '' '' @ codePoints [51221, 49328] @ '' '' @ codePoints [47532, 54252, 53944] @ '' '' @ codePoints [8212] @ '' '' @ yearMonth),
         '''',
         (codePoints [44228, 50557] @ '' ID: '' @ contractId),
         (codePoints [51204, 47141] @ '' '' @ codePoints [49324, 50857, 47049] @ ''(KEPCO): '' @ show_int usageKwh @ '' kWh''),
         (codePoints [52397, 44396] @ '' '' @ codePoints [44552, 50529] @ ''(KEPCO): '' @ codePoints [8361] @ localeKorean E chargeKrw),
         (''XRPL Payment '' @ codePoints [53944, 47004, 51117, 49496] @ '': '' @ paymentTxHash),
         '''',
         (codePoints [48660, 47197, 52404, 51064, 50640, 49436] @ '' '' @ codePoints [51649, 51217] @ '' '' @ codePoints [54869, 51064] @ '': '' @ explorerUrl),
         '''',
         (codePoints [51060] @ '' '' @ codePoints [51060, 47700, 51068, 51008] @ '' '' @ codePoints [47588, 50900] @ '' '' @ codePoints [51221, 49328] @ '' cron'' @ codePoints [51060] @ '' '' @ codePoints [51088, 46041] @ '' '' @ codePoints [48156, 49569, 54633, 45768, 45796] @ ''.''),
         (''XRPL Memo'' @ codePoints [50640, 45716] @ '' KEPCO '' @ codePoints [51025, 45813, 51032] @ '' SHA-256 '' @ codePoints [54644, 49884, 44032] @ '' '' @ codePoints [44592, 47197, 46104, 50612] @ '' '' @ codePoints [49324, 54980] @ '' '' @ codePoints [50948, 48320, 51312, 44032] @ '' '' @ codePoints [48520, 44032, 45733, 54633, 45768, 45796] @ ''.'')] \<rparr>)"

text \<open>A port in decimal digits, other than 0.\<close>

definition portOk :: "string option \<Rightarrow> bool" where
  "portOk p = (case p of None \<Rightarrow> False | Some t \<Rightarrow> allDigits (trim t) \<and> read_nat (trim t) \<noteq> 0)"

text \<open>The console adapter prints the message, the SMTP adapter sends it; both leave it among the mails.\<close>

definition sendEmail :: "'d be1_env \<Rightarrow> EmailMessage \<Rightarrow> ('d, unit) be1" where
  "sendEmail E message =
    bindE (if cfg E ''NODE_ENV'' = Some ''test'' \<or> cfg E ''EMAIL_USE_CONSOLE'' = Some ''true'' then ret (Inr ())
      else let host = getOr '''' (cfg E ''SMTP_HOST''); from = getOr '''' (cfg E ''EMAIL_FROM'') in
        if host = '''' \<or> \<not> portOk (cfg E ''SMTP_PORT'') \<or> from = ''''
        then throwE (Err (''SMTP_HOST/SMTP_PORT/EMAIL_FROM '' @ codePoints [48120, 49444, 51221] @ '' '' @ codePoints [8212] @ '' SmtpEmailService '' @ codePoints [54840, 52636] @ '' '' @ codePoints [48520, 44032] @ ''. EMAIL_USE_CONSOLE=true '' @ codePoints [47196] @ '' console '' @ codePoints [50612, 45841, 53552] @ '' '' @ codePoints [51204, 54872] @ '' '' @ codePoints [44032, 45733] @ ''.''))
        else outside (\<lambda>n. smtpSend E n from message))
     (\<lambda>_. liftE (modify (\<lambda>s. s\<lparr>b1mails := b1mails s @ [message]\<rparr>)))"

text \<open>A failure of the mail, or of the note that it was sent, is swallowed.\<close>

definition sendMonthlyReportSafely :: "'d be1_env \<Rightarrow> string \<Rightarrow> ContractDto \<Rightarrow> string \<Rightarrow> int \<Rightarrow> int \<Rightarrow> string \<Rightarrow> ('d, unit) be1" where
  "sendMonthlyReportSafely E recordId contract yearMonth usageKwh chargeKrw paymentTxHash =
    (if \<not> truthy (k_tenantEmail contract) then ret (Inr ())
     else catchE
      (bindE (sendEmail E (buildMonthlyReportEmail E (the (k_tenantEmail contract)) (k_id contract) yearMonth usageKwh
          chargeKrw paymentTxHash (getOr ''https://testnet.xrpl.org'' (cfg E ''XRPL_EXPLORER_URL'')))) (\<lambda>_. do {
        n \<leftarrow> nextCall;
        dbCall (repo_update (recordRepo E) recordId (\<lambda>r. r\<lparr>r_reportSentAt := Some (dateNow E n)\<rparr>)) }))
      (\<lambda>_. ret (Inr ())))"

section \<open>Reconciling one contract\<close>

definition isMatchedFor :: "string \<Rightarrow> string \<Rightarrow> Reconciliation \<Rightarrow> bool" where
  "isMatchedFor contractId yearMonth r = (r_contractId r = contractId \<and> r_yearMonth r = yearMonth \<and> r_status r = Matched)"

definition reconcilePayload :: "'d be1_env \<Rightarrow> string \<Rightarrow> string \<Rightarrow> MonthlyUsage \<Rightarrow> ReconcileMemoPayload" where
  "reconcilePayload E contractId yearMonth usage =
    (let usageHash = sha256Hex E (stringify (usageJson usage)) in
     \<lparr> mp_contractId = contractId, mp_yearMonth = yearMonth, mp_kepcoUsageHash = usageHash,
       mp_landlordClaimHash = usageHash, mp_calculatedAmountDrops = show_int (us_chargeKrw usage) \<rparr>)"

definition paymentParams :: "ContractDto \<Rightarrow> MonthlyUsage \<Rightarrow> Memo \<Rightarrow> SubmitXrpPaymentParams" where
  "paymentParams contract usage memo =
    \<lparr> sp_sourceAddress = the (k_contractAccountAddress contract), sp_destinationAddress = k_landlordAddress contract,
      sp_sourceSeed = the (dt_contractAccountSeed contract), sp_amountDrops = show_int (us_chargeKrw usage), sp_Memos = Some [memo] \<rparr>"

text \<open>The \<open>try\<close> block: the hash of the payment, or what was thrown.\<close>

definition payUsage :: "'d be1_env \<Rightarrow> string \<Rightarrow> string \<Rightarrow> ContractDto \<Rightarrow> MonthlyUsage \<Rightarrow> ('d, string) be1" where
  "payUsage E contractId yearMonth contract usage =
     bindE (pureE (buildReconcileMemo E (reconcilePayload E contractId yearMonth usage)))
       (\<lambda>memo. submitXrpPayment E (paymentParams contract usage memo))"

definition newRecord :: "'d be1_env \<Rightarrow> string \<Rightarrow> string \<Rightarrow> MonthlyUsage \<Rightarrow> be1_error + string \<Rightarrow> Reconciliation" where
  "newRecord E contractId yearMonth usage paid =
    \<lparr> r_id = '''', r_contractId = contractId, r_yearMonth = yearMonth, r_kepcoUsageKwh = us_usageKwh usage,
      r_kepcoChargeKrw = us_chargeKrw usage, r_kepcoUsageHash = sha256Hex E (stringify (usageJson usage)),
      r_status = (case paid of Inl e \<Rightarrow> Failed | Inr h \<Rightarrow> Matched),
      r_paymentTxHash = (case paid of Inl e \<Rightarrow> None | Inr h \<Rightarrow> Some h),
      r_errorMessage = (case paid of Inl e \<Rightarrow> Some (errMessage e) | Inr h \<Rightarrow> None), r_reportSentAt = None, r_createdAt = 0 \<rparr>"

text \<open>Payment, record, and the report when a hash was obtained.\<close>

definition payAndRecord :: "'d be1_env \<Rightarrow> string \<Rightarrow> string \<Rightarrow> ContractDto \<Rightarrow> MonthlyUsage \<Rightarrow> ('d, Reconciliation) be1" where
  "payAndRecord E contractId yearMonth contract usage = do {
     paid \<leftarrow> payUsage E contractId yearMonth contract usage;
     bindE (dbCall (repo_save (recordRepo E) (newRecord E contractId yearMonth usage paid))) (\<lambda>record.
       case paid of
         Inl e \<Rightarrow> throwE e
       | Inr txHash \<Rightarrow>
           bindE (if txHash = '''' then ret (Inr ()) else sendMonthlyReportSafely E (r_id record) contract yearMonth
               (us_usageKwh usage) (us_chargeKrw usage) txHash)
             (\<lambda>_. ret (Inr record))) }"

text \<open>The tests of the contract.\<close>

definition payableContract :: "string \<Rightarrow> ContractDto option \<Rightarrow> be1_error + ContractDto" where
  "payableContract contractId found =
    (case found of
       None \<Rightarrow> Inl (Err (''Contract '' @ contractId @ '' not found''))
     | Some contract \<Rightarrow>
        if k_status contract \<noteq> Locked
        then Inl (Err (''Contract '' @ contractId @ '' is not Locked (status='' @ be1StatusText (k_status contract) @ '')''))
        else if \<not> truthy (dt_contractAccountSeed contract) \<or> \<not> truthy (k_contractAccountAddress contract)
        then Inl (Err (''Contract '' @ contractId @ '' missing contractAccount info (seed/address)''))
        else Inr contract)"

definition reconcileContract :: "'d be1_env \<Rightarrow> string \<Rightarrow> string \<Rightarrow> ('d, Reconciliation) be1" where
  "reconcileContract E contractId yearMonth =
     bindE (dbCall (repo_findOne (recordRepo E) (isMatchedFor contractId yearMonth))) (\<lambda>alreadyMatched.
     case alreadyMatched of
       Some r \<Rightarrow> ret (Inr r)
     | None \<Rightarrow>
        bindE (findById E contractId) (\<lambda>found.
        bindE (pureE (payableContract contractId found)) (\<lambda>contract.
        bindE (getMonthlyUsage E contractId yearMonth) (\<lambda>usage.
        payAndRecord E contractId yearMonth contract usage))))"

section \<open>Runs and routes\<close>

fun reconcileAll :: "'d be1_env \<Rightarrow> string \<Rightarrow> ContractDto list \<Rightarrow> ('d, unit) be1" where
  "reconcileAll E yearMonth [] = ret (Inr ())"
| "reconcileAll E yearMonth (c # cs) = bindE
    (catchE (bindE (reconcileContract E (k_id c) yearMonth) (\<lambda>_. ret (Inr ())))
      (\<lambda>err. let job = \<lparr> j_contractId = k_id c, j_yearMonth = yearMonth \<rparr> in
         bindE (outside (\<lambda>n. queueAdd E n job)) (\<lambda>_. liftE (modify (\<lambda>s. s\<lparr>b1queue := b1queue s @ [job]\<rparr>)))))
    (\<lambda>_. reconcileAll E yearMonth cs)"

definition runMonthlyReconcile :: "'d be1_env \<Rightarrow> string \<Rightarrow> ('d, unit) be1" where
  "runMonthlyReconcile E yearMonth = bindE (findAllLocked E) (\<lambda>cs. reconcileAll E yearMonth cs)"

text \<open>The month before the one of the given instant in Seoul, nine hours ahead of UTC.\<close>

definition previousMonthInKst :: "int \<Rightarrow> string" where
  "previousMonthInKst now =
    (let t = now + 9 * 3600000; year = getUTCFullYear t; month = getUTCMonth1 t;
         prevMonth = (if month - 1 = 0 then 12 else month - 1); prevYear = (if month - 1 = 0 then year - 1 else year) in
     show_int prevYear @ ''-'' @ pad 2 (nat prevMonth))"

definition monthlyCron :: "'d be1_env \<Rightarrow> ('d, unit) be1" where
  "monthlyCron E = do { n \<leftarrow> nextCall; runMonthlyReconcile E (previousMonthInKst (dateNow E n)) }"

definition findReconciliationsByContractId :: "'d be1_env \<Rightarrow> string \<Rightarrow> ('d, Reconciliation list) be1" where
  "findReconciliationsByContractId E contractId =
     dbCall (repo_findDesc (recordRepo E) (\<lambda>r. r_contractId r = contractId) r_createdAt)"

definition runManualReconcile :: "'d be1_env \<Rightarrow> string option \<Rightarrow> string option \<Rightarrow> ('d, string \<times> int) be1" where
  "runManualReconcile E optYearMonth contractId = do {
     n \<leftarrow> nextCall;
     let yearMonth = getOr (previousMonthInKst (dateNow E n)) optYearMonth;
     if truthy contractId
     then bindE (reconcileContract E (the contractId) yearMonth) (\<lambda>_. ret (Inr (yearMonth, 1)))
     else bindE (dbCall (repo_count (recordRepo E) (\<lambda>r. r_yearMonth r = yearMonth))) (\<lambda>before.
       bindE (runMonthlyReconcile E yearMonth) (\<lambda>_.
       bindE (dbCall (repo_count (recordRepo E) (\<lambda>r. r_yearMonth r = yearMonth))) (\<lambda>after.
       ret (Inr (yearMonth, int after - int before))))) }"

text \<open>The worker of the retry queue.\<close>

definition processJob :: "'d be1_env \<Rightarrow> XrplTxRetryJob \<Rightarrow> ('d, unit) be1" where
  "processJob E job = bindE (reconcileContract E (j_contractId job) (j_yearMonth job)) (\<lambda>_. ret (Inr ()))"

record ReconciliationResponse =
  rr_id :: string
  rr_contractId :: string
  rr_yearMonth :: string
  rr_kepcoUsageKwh :: int
  rr_kepcoChargeKrw :: int
  rr_kepcoUsageHash :: string
  rr_status :: ReconciliationStatus
  rr_paymentTxHash :: "string option"
  rr_errorMessage :: "string option"
  rr_createdAt :: int

definition toReconciliationResponse :: "Reconciliation \<Rightarrow> ReconciliationResponse" where
  "toReconciliationResponse row =
    \<lparr> rr_id = r_id row, rr_contractId = r_contractId row, rr_yearMonth = r_yearMonth row,
      rr_kepcoUsageKwh = r_kepcoUsageKwh row, rr_kepcoChargeKrw = r_kepcoChargeKrw row,
      rr_kepcoUsageHash = r_kepcoUsageHash row, rr_status = r_status row, rr_paymentTxHash = r_paymentTxHash row,
      rr_errorMessage = r_errorMessage row, rr_createdAt = r_createdAt row \<rparr>"

definition listByContract :: "'d be1_env \<Rightarrow> string \<Rightarrow> ('d, ReconciliationResponse list) be1" where
  "listByContract E contractId = bindE (lookupContract E contractId) (\<lambda>_.
     bindE (findReconciliationsByContractId E contractId) (\<lambda>rows. ret (Inr (map toReconciliationResponse rows))))"

text \<open>\<open>NotProductionGuard\<close>.\<close>

definition notProduction :: "'d be1_env \<Rightarrow> be1_error + unit" where
  "notProduction E = (if cfg E ''NODE_ENV'' = Some ''production'' then Inl (NotFound ''Not Found'') else Inr ())"

definition isYearMonth :: "string \<Rightarrow> bool" where
  "isYearMonth s = (length s = 7 \<and> list_all isDigit (take 4 s) \<and> s ! 4 = CHR ''-'' \<and> list_all isDigit (drop 5 s))"

definition runManual :: "'d be1_env \<Rightarrow> string option \<Rightarrow> string option \<Rightarrow> ('d, string \<times> int) be1" where
  "runManual E yearMonth contractId = bindE (pureE (notProduction E)) (\<lambda>_.
     if \<not> optOk isYearMonth yearMonth then throwE (BadRequest ''Bad Request Exception'')
     else runManualReconcile E yearMonth contractId)"

section \<open>The report does not touch the books\<close>

text \<open>A record without the time of its report and without the time of its creation.\<close>

definition recCore :: "Reconciliation \<Rightarrow> Reconciliation" where
  "recCore r = r\<lparr>r_reportSentAt := None, r_createdAt := 0\<rparr>"

definition books :: "('d \<Rightarrow> Reconciliation list) \<Rightarrow> 'd be1_state \<Rightarrow> Reconciliation list" where
  "books rs s = map recCore (rs (b1db s))"

lemma recCore_eq: "recCore r = (recordContent r)\<lparr>r_id := r_id r, r_reportSentAt := None\<rparr>"
  by (simp add: recCore_def recordContent_def)

lemma isMatchedFor_core [simp]: "isMatchedFor c ym (recCore r) = isMatchedFor c ym r"
  by (simp add: isMatchedFor_def recCore_def)

lemma books_matched: "(\<exists>r \<in> set (books rs s). isMatchedFor c ym r) \<longleftrightarrow> (\<exists>r \<in> set (rs (b1db s)). isMatchedFor c ym r)"
  by (simp add: books_def)

text \<open>What sending a mail and noting its time changes.\<close>

definition quiet :: "('d \<Rightarrow> Be1Contract list) \<Rightarrow> ('d \<Rightarrow> Reconciliation list) \<Rightarrow> 'd be1_state \<Rightarrow> 'd be1_state \<Rightarrow> bool" where
  "quiet cs rs s s' = (b1sent s' = b1sent s \<and> b1queue s' = b1queue s \<and> cs (b1db s') = cs (b1db s) \<and> books rs s' = books rs s)"

interpretation quiet: step_rel "quiet cs rs" for cs rs
  by unfold_locales (auto simp: quiet_def)

lemma sendEmail_sends: "sends s (exec (sendEmail E message) s\<lparr>b1mails := b1mails s\<rparr>) []"
proof -
  have "keeps b1sent (sendEmail E message)" "keeps b1db (sendEmail E message)" "keeps b1queue (sendEmail E message)"
    "keeps b1wallets (sendEmail E message)" "keeps b1connected (sendEmail E message)"
    unfolding sendEmail_def outside_def nextCall_def bindE_def liftE_def throwE_def Let_def
    by (auto intro!: io_intros split: sum.splits)
  then show ?thesis by (simp add: sends_def keepsD)
qed

lemma update_report_books:
  assumes "repo_laws rs cs r_id recordContent R"
  shows "map recCore (rs (snd (repo_update R i (\<lambda>r. r\<lparr>r_reportSentAt := x\<rparr>) d))) = map recCore (rs d)"
proof (cases "fst (repo_update R i (\<lambda>r. r\<lparr>r_reportSentAt := x\<rparr>) d)")
  case (Inl m)
  with repo_updateD(2) [OF assms] show ?thesis by simp
next
  case (Inr u)
  from repo_updateD(3) [OF assms this] show ?thesis
  proof (induction rule: list_all2_induct)
    case (Cons e es e' es')
    have "recCore e' = recCore e"
    proof (cases "r_id e = i")
      case True
      with Cons(1) show ?thesis unfolding recCore_eq by (simp add: recordContent_def)
    qed (use Cons(1) in simp)
    with Cons(3) show ?case by simp
  qed simp
qed

lemma quiet_report:
  assumes "db_laws cs rs E"
  shows "steps (quiet cs rs) (sendMonthlyReportSafely E i contract ym kwh krw h)"
    "\<exists>u. valu (sendMonthlyReportSafely E i contract ym kwh krw h) s = Inr u"
proof -
  have l: "repo_laws rs cs r_id recordContent (recordRepo E)" using assms by (simp add: db_laws_def)
  have "steps (quiet cs rs) (sendEmail E message)" for message
    by (rule stepsI) (use sendEmail_sends [of _ E message] in \<open>auto simp: quiet_def sends_def books_def\<close>)
  moreover have "steps (quiet cs rs) nextCall"
    by (rule stepsI) (simp add: quiet_def books_def)
  moreover have "steps (quiet cs rs) (dbCall (repo_update (recordRepo E) i (\<lambda>r. r\<lparr>r_reportSentAt := Some x\<rparr>)))" for x
    by (rule stepsI) (use repo_updateD(1) [OF l] update_report_books [OF l] in \<open>simp add: quiet_def books_def\<close>)
  ultimately show "steps (quiet cs rs) (sendMonthlyReportSafely E i contract ym kwh krw h)"
    unfolding sendMonthlyReportSafely_def catchE_def bindE_def by (auto intro!: quiet.io)
  show "\<exists>u. valu (sendMonthlyReportSafely E i contract ym kwh krw h) s = Inr u"
    by (auto simp: sendMonthlyReportSafely_def split: sum.splits)
qed

section \<open>One payment and its record\<close>

text \<open>The transaction pays what the record says, and its memo names the contract, the month and the usage.\<close>

definition paymentOf :: "'d be1_env \<Rightarrow> Reconciliation \<Rightarrow> Be1Tx \<Rightarrow> bool" where
  "paymentOf E r tx = (\<exists>contract usage memo. tx = settlementTx (paymentParams contract usage memo) \<and>
     buildReconcileMemo E (reconcilePayload E (r_contractId r) (r_yearMonth r) usage) = Inr memo \<and>
     r_kepcoChargeKrw r = us_chargeKrw usage \<and> r_kepcoUsageHash r = sha256Hex E (stringify (usageJson usage)))"

definition recordOk :: "'d be1_env \<Rightarrow> (Be1Tx \<times> (string + TxResult)) list \<Rightarrow> Reconciliation \<Rightarrow> bool" where
  "recordOk E sent r = (case r_status r of
      Matched \<Rightarrow> r_errorMessage r = None \<and> (\<exists>tx res. (tx, Inr res) \<in> set sent \<and> accepted (Inr res) \<and>
        r_paymentTxHash r = Some (tr_hash res) \<and> paymentOf E r tx)
    | Failed \<Rightarrow> r_paymentTxHash r = None \<and> r_errorMessage r \<noteq> None
    | Mismatch \<Rightarrow> False)"

lemma assertPaymentSuccess_iff: "assertPaymentSuccess r = Inr h \<longleftrightarrow> accepted (Inr r) \<and> h = tr_hash r"
  by (cases "tr_meta r") (auto simp: assertPaymentSuccess_def assertMeta_def accepted_def)

lemma payUsage_outcome:
  "\<exists>new. sends s (exec (payUsage E c ym contract usage) s) new \<and> (\<forall>h. valu (payUsage E c ym contract usage) s = Inr h \<longrightarrow>
     (\<exists>memo res. new = [(settlementTx (paymentParams contract usage memo), Inr res)] \<and> accepted (Inr res) \<and> h = tr_hash res \<and>
        buildReconcileMemo E (reconcilePayload E c ym usage) = Inr memo))"
proof (cases "buildReconcileMemo E (reconcilePayload E c ym usage)")
  case (Inl e)
  then show ?thesis by (auto simp: payUsage_def intro: sends_refl)
next
  case (Inr memo)
  then have "exec (payUsage E c ym contract usage) s = exec (submitXrpPayment E (paymentParams contract usage memo)) s"
    "valu (payUsage E c ym contract usage) s = valu (submitXrpPayment E (paymentParams contract usage memo)) s"
    by (simp_all add: payUsage_def)
  moreover obtain new where "sends s (exec (submitXrpPayment E (paymentParams contract usage memo)) s) new"
    "\<forall>h. valu (submitXrpPayment E (paymentParams contract usage memo)) s = Inr h \<longrightarrow>
        (\<exists>r. new = [(settlementTx (paymentParams contract usage memo), Inr r)] \<and> assertPaymentSuccess r = Inr h)"
    using submitsD [OF submits_submitXrpPayment [of "paymentParams contract usage memo" E], of s] by (elim exE conjE)
  ultimately show ?thesis using Inr by (intro exI [of _ new]) (auto simp: assertPaymentSuccess_iff)
qed

lemma newRecord_simps [simp]:
  "r_contractId (newRecord E c ym usage paid) = c" "r_yearMonth (newRecord E c ym usage paid) = ym"
  "r_kepcoChargeKrw (newRecord E c ym usage paid) = us_chargeKrw usage"
  "r_kepcoUsageHash (newRecord E c ym usage paid) = sha256Hex E (stringify (usageJson usage))"
  "r_status (newRecord E c ym usage (Inl e)) = Failed" "r_status (newRecord E c ym usage (Inr h)) = Matched"
  "r_paymentTxHash (newRecord E c ym usage (Inl e)) = None" "r_paymentTxHash (newRecord E c ym usage (Inr h)) = Some h"
  "r_errorMessage (newRecord E c ym usage (Inl e)) = Some (errMessage e)" "r_errorMessage (newRecord E c ym usage (Inr h)) = None"
  by (simp_all add: newRecord_def)

text \<open>The columns that a saved record shares with the entity.\<close>

lemma recordContentD:
  assumes "recordContent r = recordContent r'"
  shows "r_contractId r = r_contractId r'" "r_yearMonth r = r_yearMonth r'" "r_status r = r_status r'"
    "r_paymentTxHash r = r_paymentTxHash r'" "r_errorMessage r = r_errorMessage r'" "r_kepcoChargeKrw r = r_kepcoChargeKrw r'"
    "r_kepcoUsageHash r = r_kepcoUsageHash r'"
  using arg_cong [OF assms, of r_contractId] arg_cong [OF assms, of r_yearMonth] arg_cong [OF assms, of r_status]
    arg_cong [OF assms, of r_paymentTxHash] arg_cong [OF assms, of r_errorMessage] arg_cong [OF assms, of r_kepcoChargeKrw]
    arg_cong [OF assms, of r_kepcoUsageHash]
  by (simp_all add: recordContent_def)

lemma recordOk_core [simp]: "recordOk E sent (recCore r) = recordOk E sent r"
  by (cases "r_status r") (simp_all add: recordOk_def paymentOf_def recCore_def)

lemma recordOk_mono: "recordOk E sent r \<Longrightarrow> set sent \<subseteq> set sent' \<Longrightarrow> recordOk E sent' r"
  by (fastforce simp: recordOk_def split: ReconciliationStatus.splits)

text \<open>The outcomes of a step: the contracts and the queue stay; the books stay and the step throws or finds a matched record, or they
  get one record for the contract and month, matched exactly when the step returns.\<close>

definition booked :: "'d be1_env \<Rightarrow> ('d \<Rightarrow> Be1Contract list) \<Rightarrow> ('d \<Rightarrow> Reconciliation list) \<Rightarrow> string \<Rightarrow> string \<Rightarrow>
    ('d, Reconciliation) be1 \<Rightarrow> 'd be1_state \<Rightarrow> bool" where
  "booked E cs rs c ym m s = (\<exists>new. b1sent (exec m s) = b1sent s @ new \<and> b1queue (exec m s) = b1queue s \<and>
     cs (b1db (exec m s)) = cs (b1db s) \<and>
     ((books rs (exec m s) = books rs s \<and> (case valu m s of Inl e \<Rightarrow> True
         | Inr r \<Rightarrow> new = [] \<and> r \<in> set (rs (b1db s)) \<and> isMatchedFor c ym r)) \<or>
      (\<exists>r. books rs (exec m s) = books rs s @ [r] \<and> r_id r \<notin> r_id ` set (books rs s) \<and>
         r_contractId r = c \<and> r_yearMonth r = ym \<and> recordOk E new r \<and>
         (case valu m s of Inl e \<Rightarrow> r_status r = Failed | Inr r' \<Rightarrow> r_status r = Matched \<and> recCore r' = r))))"

lemma recCore_id [simp]: "r_id (recCore r) = r_id r" "r_contractId (recCore r) = r_contractId r"
  "r_yearMonth (recCore r) = r_yearMonth r" "r_status (recCore r) = r_status r"
  by (simp_all add: recCore_def)

lemma booked_from:
  "booked E cs rs c ym m' t \<Longrightarrow> exec m s = exec m' t \<Longrightarrow> valu m s = valu m' t \<Longrightarrow> b1sent t = b1sent s \<Longrightarrow>
   b1queue t = b1queue s \<Longrightarrow> cs (b1db t) = cs (b1db s) \<Longrightarrow> rs (b1db t) = rs (b1db s) \<Longrightarrow> booked E cs rs c ym m s"
  unfolding booked_def books_def by (cases "valu m' t") simp_all

lemma payAndRecord_booked:
  assumes laws: "db_laws cs rs E"
  shows "booked E cs rs c ym (payAndRecord E c ym contract usage) s"
proof -
  let ?m = "payAndRecord E c ym contract usage"
  have l: "repo_laws rs cs r_id recordContent (recordRepo E)" using laws by (simp add: db_laws_def)
  define s1 where "s1 = exec (payUsage E c ym contract usage) s"
  define paid where "paid = valu (payUsage E c ym contract usage) s"
  obtain new where new: "sends s s1 new" "\<And>h. paid = Inr h \<Longrightarrow>
     (\<exists>memo res. new = [(settlementTx (paymentParams contract usage memo), Inr res)] \<and> accepted (Inr res) \<and> h = tr_hash res \<and>
        buildReconcileMemo E (reconcilePayload E c ym usage) = Inr memo)"
    using payUsage_outcome [of s E c ym contract usage] unfolding s1_def paid_def by (elim exE conjE) auto
  have k1: "b1sent s1 = b1sent s @ new" "b1db s1 = b1db s" "b1queue s1 = b1queue s" using new(1) by (auto simp: sends_def)
  define e where "e = newRecord E c ym usage paid"
  define sv where "sv = repo_save (recordRepo E) e (b1db s)"
  define s2 where "s2 = s1\<lparr>b1db := snd sv\<rparr>"
  have others: "cs (snd sv) = cs (b1db s)" unfolding sv_def by (rule repo_saveD(1) [OF l])
  show ?thesis
  proof (cases "fst sv")
    case (Inl msg)
    then have "exec ?m s = s2" "valu ?m s = Inl (Err msg)"
      by (simp_all add: payAndRecord_def s1_def [symmetric] paid_def [symmetric] e_def [symmetric] k1(2) sv_def [symmetric] s2_def)
    with k1 others repo_saveD(2) [OF l] Inl show ?thesis
      unfolding booked_def by (auto simp: s2_def books_def sv_def)
  next
    case (Inr r)
    from repo_saveD(3) [OF l Inr [unfolded sv_def]] have r: "rs (snd sv) = rs (b1db s) @ [r]"
      "recordContent r = recordContent e" "r_id r \<notin> r_id ` set (rs (b1db s))" by (auto simp: sv_def)
    note f = recordContentD [OF r(2), unfolded e_def]
    have b: "books rs s2 = books rs s @ [recCore r]" "r_id r \<notin> r_id ` set (books rs s)"
      using r by (auto simp: books_def s2_def image_image)
    have ok: "recordOk E new r"
    proof (cases paid)
      case (Inl x)
      with f show ?thesis by (simp add: recordOk_def)
    next
      case (Inr h)
      from new(2) [OF Inr] obtain memo res where p: "new = [(settlementTx (paymentParams contract usage memo), Inr res)]"
        "accepted (Inr res)" "h = tr_hash res" "buildReconcileMemo E (reconcilePayload E c ym usage) = Inr memo" by auto
      then have "paymentOf E r (settlementTx (paymentParams contract usage memo))"
        using f Inr unfolding paymentOf_def by auto
      with p f Inr show ?thesis by (auto simp: recordOk_def)
    qed
    define rest where "rest = (case paid of Inl x \<Rightarrow> throwE x | Inr h \<Rightarrow>
      bindE (if h = '''' then ret (Inr ()) else sendMonthlyReportSafely E (r_id r) contract ym (us_usageKwh usage) (us_chargeKrw usage) h)
        (\<lambda>_. ret (Inr r)))"
    have m: "exec ?m s = exec rest s2" "valu ?m s = valu rest s2"
      using Inr by (simp_all add: payAndRecord_def s1_def [symmetric] paid_def [symmetric] e_def [symmetric] k1(2)
          sv_def [symmetric] s2_def [symmetric] rest_def)
    have run: "quiet cs rs s2 (exec ?m s) \<and> valu ?m s = (case paid of Inl x \<Rightarrow> Inl x | Inr h \<Rightarrow> Inr r)"
    proof (cases paid)
      case (Inl x)
      then show ?thesis by (simp add: m rest_def quiet.refl)
    next
      case paid: (Inr h)
      let ?r = "sendMonthlyReportSafely E (r_id r) contract ym (us_usageKwh usage) (us_chargeKrw usage) h"
      obtain u where "valu ?r s2 = Inr u" using quiet_report(2) [OF laws] by blast
      moreover have "quiet cs rs s2 (exec ?r s2)" by (rule stepsD [OF quiet_report(1) [OF laws]])
      ultimately show ?thesis using paid by (simp add: m rest_def quiet.refl)
    qed
    then have q: "b1sent (exec ?m s) = b1sent s @ new" "b1queue (exec ?m s) = b1queue s"
      "cs (b1db (exec ?m s)) = cs (b1db s)" "books rs (exec ?m s) = books rs s @ [recCore r]"
      using k1 others b(1) by (auto simp: quiet_def s2_def)
    have "case valu ?m s of Inl x \<Rightarrow> r_status (recCore r) = Failed | Inr r' \<Rightarrow> r_status (recCore r) = Matched \<and> recCore r' = recCore r"
      using run f(3) by (cases paid) auto
    with q b(2) ok f show ?thesis
      unfolding booked_def by (intro exI [of _ new] conjI disjI2 exI [of _ "recCore r"]) simp_all
  qed
qed

text \<open>The reading of the usage touches neither the database nor the ledger.\<close>

lemma sends_getMonthlyUsage: "sends s (exec (getMonthlyUsage E c ym) s) []"
  by (auto simp: getMonthlyUsage_def apiMonthlyUsage_def sends_def Let_def split: sum.splits)

lemma reconcile_booked:
  assumes laws: "db_laws cs rs E"
  shows "booked E cs rs c ym (reconcileContract E c ym) s"
    "\<exists>r \<in> set (rs (b1db s)). isMatchedFor c ym r \<Longrightarrow>
      b1sent (exec (reconcileContract E c ym) s) = b1sent s \<and> books rs (exec (reconcileContract E c ym) s) = books rs s"
proof -
  let ?m = "reconcileContract E c ym"
  have l: "repo_laws rs cs r_id recordContent (recordRepo E)" using laws by (simp add: db_laws_def)
  define q where "q = repo_findOne (recordRepo E) (isMatchedFor c ym) (b1db s)"
  define s1 where "s1 = s\<lparr>b1db := snd q\<rparr>"
  have k1: "b1sent s1 = b1sent s" "b1queue s1 = b1queue s" "cs (b1db s1) = cs (b1db s)" "books rs s1 = books rs s"
    "rs (b1db s1) = rs (b1db s)"
    using repo_readD(1,2) [OF l] by (auto simp: s1_def q_def books_def)
  define s2 where "s2 = exec (findById E c) s1"
  have k2: "b1sent s2 = b1sent s" "b1queue s2 = b1queue s" "cs (b1db s2) = cs (b1db s)" "books rs s2 = books rs s"
    "rs (b1db s2) = rs (b1db s)"
    using findById_run(1-3) [OF laws, of c s1] k1 by (auto simp: s2_def books_def findById_def split: sum.splits option.splits)
  have "booked E cs rs c ym ?m s \<and> ((\<exists>r \<in> set (rs (b1db s)). isMatchedFor c ym r) \<longrightarrow>
      b1sent (exec ?m s) = b1sent s \<and> books rs (exec ?m s) = books rs s)"
  proof (cases "fst q")
    case (Inl msg)
    then have "exec ?m s = s1" "valu ?m s = Inl (Err msg)"
      by (simp_all add: reconcileContract_def q_def [symmetric] s1_def)
    with k1 show ?thesis by (auto simp: booked_def)
  next
    case (Inr found)
    show ?thesis
    proof (cases found)
      case (Some r)
      then have "exec ?m s = s1" "valu ?m s = Inr r"
        using Inr by (simp_all add: reconcileContract_def q_def [symmetric] s1_def)
      moreover have "r \<in> set (rs (b1db s))" "isMatchedFor c ym r"
        using repo_findOneD(2) [OF l] Inr Some unfolding q_def by blast+
      ultimately show ?thesis using k1 by (auto simp: booked_def)
    next
      case None
      have no: "\<not> isMatchedFor c ym r" if "r \<in> set (rs (b1db s))" for r
        using repo_findOneD(1) [OF l] Inr None that unfolding q_def by blast
      have run: "exec ?m s = exec (bindE (findById E c) (\<lambda>found. bindE (pureE (payableContract c found)) (\<lambda>contract.
          bindE (getMonthlyUsage E c ym) (\<lambda>usage. payAndRecord E c ym contract usage)))) s1"
        "valu ?m s = valu (bindE (findById E c) (\<lambda>found. bindE (pureE (payableContract c found)) (\<lambda>contract.
          bindE (getMonthlyUsage E c ym) (\<lambda>usage. payAndRecord E c ym contract usage)))) s1"
        using Inr None by (simp_all add: reconcileContract_def q_def [symmetric] s1_def)
      have early: "booked E cs rs c ym ?m s" if "exec ?m s = t" "valu ?m s = Inl e" "b1sent t = b1sent s"
          "b1queue t = b1queue s" "cs (b1db t) = cs (b1db s)" "books rs t = books rs s" for t e
        using that by (auto simp: booked_def)
      have "booked E cs rs c ym ?m s"
      proof (cases "valu (findById E c) s1")
        case (Inl e)
        then show ?thesis using run k2 by (intro early [of s2 e]) (simp_all add: s2_def)
      next
        case f: (Inr x)
        show ?thesis
        proof (cases "payableContract c x")
          case (Inl e)
          then show ?thesis using run k2 f by (intro early [of s2 e]) (simp_all add: s2_def)
        next
          case p: (Inr contract)
          define s3 where "s3 = exec (getMonthlyUsage E c ym) s2"
          have k3: "b1sent s3 = b1sent s" "b1queue s3 = b1queue s" "cs (b1db s3) = cs (b1db s)" "books rs s3 = books rs s"
            "rs (b1db s3) = rs (b1db s)"
            using sends_getMonthlyUsage [of s2 E c ym] k2 by (auto simp: s3_def sends_def books_def)
          show ?thesis
          proof (cases "valu (getMonthlyUsage E c ym) s2")
            case (Inl e)
            then show ?thesis using run k3 f p by (intro early [of s3 e]) (simp_all add: s2_def [symmetric] s3_def)
          next
            case u: (Inr usage)
            have "exec ?m s = exec (payAndRecord E c ym contract usage) s3"
              "valu ?m s = valu (payAndRecord E c ym contract usage) s3"
              using run f p u by (simp_all add: s2_def [symmetric] s3_def)
            with payAndRecord_booked [OF laws] show ?thesis by (rule booked_from) (use k3 in simp_all)
          qed
        qed
      qed
      with no show ?thesis by blast
    qed
  qed
  then show "booked E cs rs c ym ?m s" "\<exists>r \<in> set (rs (b1db s)). isMatchedFor c ym r \<Longrightarrow>
      b1sent (exec ?m s) = b1sent s \<and> books rs (exec ?m s) = books rs s" by blast+
qed

section \<open>The books\<close>

text \<open>Different keys, every record well formed and every matched one backed by an accepted payment, and at most one matched
  record for a contract and month.\<close>

definition bookInv :: "'d be1_env \<Rightarrow> ('d \<Rightarrow> Reconciliation list) \<Rightarrow> 'd be1_state \<Rightarrow> bool" where
  "bookInv E rs s = (distinct (map r_id (books rs s)) \<and> (\<forall>r \<in> set (books rs s). recordOk E (b1sent s) r) \<and>
     (\<forall>c ym. length (filter (isMatchedFor c ym) (books rs s)) \<le> 1))"

lemma bookInv_same: "bookInv E rs s \<Longrightarrow> books rs s' = books rs s \<Longrightarrow> set (b1sent s) \<subseteq> set (b1sent s') \<Longrightarrow> bookInv E rs s'"
  by (auto simp: bookInv_def intro: recordOk_mono)

lemma reconcile_bookInv:
  assumes laws: "db_laws cs rs E" and inv: "bookInv E rs s"
  shows "bookInv E rs (exec (reconcileContract E c ym) s)"
proof -
  let ?s = "exec (reconcileContract E c ym) s"
  from reconcile_booked(1) [OF laws, of c ym s] obtain new where new: "b1sent ?s = b1sent s @ new"
    and b: "books rs ?s = books rs s \<or> (\<exists>r. books rs ?s = books rs s @ [r] \<and> r_id r \<notin> r_id ` set (books rs s) \<and>
      r_contractId r = c \<and> r_yearMonth r = ym \<and> recordOk E new r)"
    unfolding booked_def by blast
  from b show ?thesis
  proof
    assume "books rs ?s = books rs s"
    with inv new show ?thesis by (auto intro: bookInv_same)
  next
    assume "\<exists>r. books rs ?s = books rs s @ [r] \<and> r_id r \<notin> r_id ` set (books rs s) \<and>
      r_contractId r = c \<and> r_yearMonth r = ym \<and> recordOk E new r"
    then obtain r where r: "books rs ?s = books rs s @ [r]" "r_id r \<notin> r_id ` set (books rs s)"
      "r_contractId r = c" "r_yearMonth r = ym" "recordOk E new r" by blast
    have "\<not> (\<exists>r \<in> set (rs (b1db s)). isMatchedFor c ym r)"
      using reconcile_booked(2) [OF laws, of s c ym] r(1) by auto
    then have no: "filter (isMatchedFor c ym) (books rs s) = []"
      using books_matched [of rs s c ym] by (auto simp: filter_empty_conv)
    have "length (filter (isMatchedFor c' ym') (books rs s @ [r])) \<le> 1" for c' ym'
    proof (cases "c' = c \<and> ym' = ym")
      case True
      with no show ?thesis by simp
    next
      case False
      then have "\<not> isMatchedFor c' ym' r" using r by (auto simp: isMatchedFor_def)
      with inv show ?thesis by (simp add: bookInv_def)
    qed
    with inv r new show ?thesis
      unfolding bookInv_def by (auto intro: recordOk_mono)
  qed
qed

text \<open>Contracts stay, the transactions, the books and the queue only grow.\<close>

definition grows :: "('d \<Rightarrow> Be1Contract list) \<Rightarrow> ('d \<Rightarrow> Reconciliation list) \<Rightarrow> 'd be1_state \<Rightarrow> 'd be1_state \<Rightarrow> bool" where
  "grows cs rs s s' = (cs (b1db s') = cs (b1db s) \<and> (\<exists>x. b1sent s' = b1sent s @ x) \<and> (\<exists>x. books rs s' = books rs s @ x) \<and>
     (\<exists>x. b1queue s' = b1queue s @ x))"

interpretation grows: step_rel "grows cs rs" for cs rs
  by unfold_locales (auto simp: grows_def)

lemma reconcile_grows: "db_laws cs rs E \<Longrightarrow> grows cs rs s (exec (reconcileContract E c ym) s)"
  using reconcile_booked(1) [of cs rs E c ym s] unfolding booked_def grows_def by fastforce

lemma reconcile_matched:
  assumes "db_laws cs rs E" "valu (reconcileContract E c ym) s = Inr r"
  shows "\<exists>x \<in> set (books rs (exec (reconcileContract E c ym) s)). isMatchedFor c ym x"
proof -
  let ?b = "books rs (exec (reconcileContract E c ym) s)"
  from reconcile_booked(1) [OF assms(1), of c ym s] assms(2)
  have "(?b = books rs s \<and> r \<in> set (rs (b1db s)) \<and> isMatchedFor c ym r) \<or>
      (\<exists>x. ?b = books rs s @ [x] \<and> isMatchedFor c ym x)"
    unfolding booked_def isMatchedFor_def by fastforce
  then show ?thesis using books_matched [of rs s c ym] by auto
qed

definition jobFor :: "string \<Rightarrow> string \<Rightarrow> XrplTxRetryJob" where
  "jobFor c ym = \<lparr> j_contractId = c, j_yearMonth = ym \<rparr>"

text \<open>The body of the loop over the contracts.\<close>

definition reconcileOrQueue :: "'d be1_env \<Rightarrow> string \<Rightarrow> string \<Rightarrow> ('d, unit) be1" where
  "reconcileOrQueue E ym c = catchE (bindE (reconcileContract E c ym) (\<lambda>_. ret (Inr ())))
     (\<lambda>err. bindE (outside (\<lambda>n. queueAdd E n (jobFor c ym)))
       (\<lambda>_. liftE (modify (\<lambda>s. s\<lparr>b1queue := b1queue s @ [jobFor c ym]\<rparr>))))"

lemma reconcileAll_Cons: "reconcileAll E ym (c # cs) = bindE (reconcileOrQueue E ym (k_id c)) (\<lambda>_. reconcileAll E ym cs)"
  by (simp add: reconcileOrQueue_def jobFor_def Let_def)

lemma reconcileOrQueue_step:
  fixes c ym :: string
  assumes laws: "db_laws cs rs E"
  defines "m \<equiv> reconcileOrQueue E ym c"
  shows "grows cs rs s (exec m s)" "bookInv E rs s \<Longrightarrow> bookInv E rs (exec m s)"
    "\<forall>n j. queueAdd E n j = Inr () \<Longrightarrow> valu m s = Inr () \<and>
      ((\<exists>r \<in> set (books rs (exec m s)). isMatchedFor c ym r) \<or> jobFor c ym \<in> set (b1queue (exec m s)))"
proof -
  define s1 where "s1 = exec (reconcileContract E c ym) s"
  have g: "grows cs rs s s1" unfolding s1_def by (rule reconcile_grows [OF laws])
  have run: "exec m s = (case valu (reconcileContract E c ym) s of Inr r \<Rightarrow> s1
      | Inl e \<Rightarrow> (case queueAdd E (b1calls s1) (jobFor c ym) of Inl x \<Rightarrow> s1\<lparr>b1calls := Suc (b1calls s1)\<rparr>
         | Inr u \<Rightarrow> s1\<lparr>b1calls := Suc (b1calls s1), b1queue := b1queue s1 @ [jobFor c ym]\<rparr>))"
    "valu m s = (case valu (reconcileContract E c ym) s of Inr r \<Rightarrow> Inr ()
      | Inl e \<Rightarrow> (case queueAdd E (b1calls s1) (jobFor c ym) of Inl x \<Rightarrow> Inl (Err x) | Inr u \<Rightarrow> Inr ()))"
    by (auto simp: m_def reconcileOrQueue_def s1_def [symmetric] split: sum.splits)
  have e: "books rs (exec m s) = books rs s1" "b1sent (exec m s) = b1sent s1" "cs (b1db (exec m s)) = cs (b1db s1)"
    "\<exists>x. b1queue (exec m s) = b1queue s1 @ x"
    by (auto simp: run(1) books_def split: sum.splits)
  from g e show "grows cs rs s (exec m s)" by (auto simp: grows_def)
  show "bookInv E rs (exec m s)" if "bookInv E rs s"
    using reconcile_bookInv [OF laws that, of c ym] e by (auto simp: s1_def intro: bookInv_same)
  show "valu m s = Inr () \<and> ((\<exists>r \<in> set (books rs (exec m s)). isMatchedFor c ym r) \<or> jobFor c ym \<in> set (b1queue (exec m s)))"
    if q: "\<forall>n j. queueAdd E n j = Inr ()"
  proof (cases "valu (reconcileContract E c ym) s")
    case (Inl e)
    with q run show ?thesis by simp
  next
    case (Inr r)
    with run reconcile_matched [OF laws Inr] show ?thesis by (simp add: s1_def)
  qed
qed

lemma reconcileAll_step:
  assumes laws: "db_laws cs rs E"
  shows "grows cs rs s (exec (reconcileAll E ym xs) s)"
    "bookInv E rs s \<Longrightarrow> bookInv E rs (exec (reconcileAll E ym xs) s)"
    "\<forall>n j. queueAdd E n j = Inr () \<Longrightarrow> valu (reconcileAll E ym xs) s = Inr () \<and> (\<forall>c \<in> set (map k_id xs).
      (\<exists>r \<in> set (books rs (exec (reconcileAll E ym xs) s)). isMatchedFor c ym r) \<or>
      jobFor c ym \<in> set (b1queue (exec (reconcileAll E ym xs) s)))"
proof (induction xs arbitrary: s)
  case Nil
  {
    case 1
    show ?case by (simp add: grows.refl)
  next
    case 2
    then show ?case by simp
  next
    case 3
    then show ?case by simp
  }
next
  case (Cons x xs)
  let ?m = "reconcileOrQueue E ym (k_id x)"
  note st = reconcileOrQueue_step [OF laws, where ym = ym and c = "k_id x"]
  {
    case 1
    have "grows cs rs s (exec (reconcileAll E ym xs) (exec ?m s))"
      by (rule grows.trans [OF st(1) [of s] Cons.IH(1)])
    then show ?case
      using st(1) [of s] by (cases "valu ?m s") (simp_all add: reconcileAll_Cons del: reconcileAll.simps)
  next
    case 2
    then show ?case
      using st(2) [of s] Cons.IH(2) [of "exec ?m s"]
      by (cases "valu ?m s") (simp_all add: reconcileAll_Cons del: reconcileAll.simps)
  next
    case 3
    then have v: "valu ?m s = Inr ()" using st(3) [of s] by blast
    then have run: "exec (reconcileAll E ym (x # xs)) s = exec (reconcileAll E ym xs) (exec ?m s)"
      "valu (reconcileAll E ym (x # xs)) s = valu (reconcileAll E ym xs) (exec ?m s)"
      by (simp_all add: reconcileAll_Cons del: reconcileAll.simps)
    have "grows cs rs (exec ?m s) (exec (reconcileAll E ym xs) (exec ?m s))" by (rule Cons.IH(1))
    then have "(\<exists>r \<in> set (books rs (exec (reconcileAll E ym (x # xs)) s)). isMatchedFor (k_id x) ym r) \<or>
        jobFor (k_id x) ym \<in> set (b1queue (exec (reconcileAll E ym (x # xs)) s))"
      using st(3) [OF 3, of s] unfolding run grows_def by force
    with Cons.IH(3) [OF 3, of "exec ?m s"] show ?case unfolding run by auto
  }
qed

section \<open>Monthly runs\<close>

lemma toDtos_ids: "toDtos E rows = Inr dtos \<Longrightarrow> map k_id dtos = map k_id rows"
proof (induction rows arbitrary: dtos)
  case (Cons c rows)
  then obtain x xs where "toDto E c = Inr x" "toDtos E rows = Inr xs" "dtos = x # xs"
    by (cases "toDto E c"; cases "toDtos E rows") auto
  with Cons.IH toDto_id show ?case by simp
qed simp

lemma toDtos_fail: "c \<in> set rows \<Longrightarrow> toDto E c = Inl e \<Longrightarrow> \<exists>x. toDtos E rows = Inl x"
proof (induction rows)
  case (Cons a rows)
  then show ?case by (cases "toDto E a"; cases "toDtos E rows") auto
qed simp

lemma findAllLocked_run:
  assumes laws: "db_laws cs rs E"
  defines "m \<equiv> findAllLocked E"
  shows "b1sent (exec m s) = b1sent s" "b1queue (exec m s) = b1queue s" "cs (b1db (exec m s)) = cs (b1db s)"
    "books rs (exec m s) = books rs s"
    "valu m s = Inr dtos \<Longrightarrow> set (map k_id dtos) = k_id ` {c \<in> set (cs (b1db s)). k_status c = Locked}"
    "c \<in> set (cs (b1db s)) \<Longrightarrow> k_status c = Locked \<Longrightarrow> toDto E c = Inl e \<Longrightarrow> \<exists>x. valu m s = Inl x"
proof -
  have l: "repo_laws cs rs k_id contractContent (contractRepo E)" using laws by (simp add: db_laws_def)
  let ?r = "repo_find (contractRepo E) (\<lambda>c. k_status c = Locked) (b1db s)"
  have run: "exec m s = s\<lparr>b1db := snd ?r\<rparr>"
    "valu m s = (case fst ?r of Inl x \<Rightarrow> Inl (Err x) | Inr rows \<Rightarrow> toDtos E rows)"
    by (auto simp: m_def findAllLocked_def split: sum.splits)
  from run(1) repo_readD [OF l] show "b1sent (exec m s) = b1sent s" "b1queue (exec m s) = b1queue s"
    "cs (b1db (exec m s)) = cs (b1db s)" "books rs (exec m s) = books rs s"
    by (simp_all add: books_def)
  show "set (map k_id dtos) = k_id ` {c \<in> set (cs (b1db s)). k_status c = Locked}" if v: "valu m s = Inr dtos"
  proof -
    obtain rows where r: "fst ?r = Inr rows" "toDtos E rows = Inr dtos"
      using v run(2) by (cases "fst ?r") auto
    have "set_mset (mset rows) = set_mset (mset (filter (\<lambda>c. k_status c = Locked) (cs (b1db s))))"
      using repo_findD(1) [OF l r(1)] by (rule arg_cong)
    with toDtos_ids [OF r(2)] show ?thesis by auto
  qed
  show "\<exists>x. valu m s = Inl x" if c: "c \<in> set (cs (b1db s))" "k_status c = Locked" "toDto E c = Inl e"
  proof (cases "fst ?r")
    case (Inl x)
    with run(2) show ?thesis by simp
  next
    case (Inr rows)
    have "set_mset (mset rows) = set_mset (mset (filter (\<lambda>c. k_status c = Locked) (cs (b1db s))))"
      using repo_findD(1) [OF l Inr] by (rule arg_cong)
    with c have "c \<in> set rows" by auto
    from toDtos_fail [OF this c(3)] run(2) Inr show ?thesis by simp
  qed
qed

lemma runMonthly_grows:
  assumes laws: "db_laws cs rs E"
  shows "grows cs rs s (exec (runMonthlyReconcile E ym) s)"
    "bookInv E rs s \<Longrightarrow> bookInv E rs (exec (runMonthlyReconcile E ym) s)"
proof -
  let ?s = "exec (findAllLocked E) s"
  have g: "grows cs rs s ?s" using findAllLocked_run(1-4) [OF laws, of s] by (simp add: grows_def)
  have run: "exec (runMonthlyReconcile E ym) s = (case valu (findAllLocked E) s of Inl e \<Rightarrow> ?s
      | Inr xs \<Rightarrow> exec (reconcileAll E ym xs) ?s)"
    by (simp add: runMonthlyReconcile_def)
  show "grows cs rs s (exec (runMonthlyReconcile E ym) s)"
    unfolding run using g grows.trans [OF g reconcileAll_step(1) [OF laws]] by (auto split: sum.splits)
  assume "bookInv E rs s"
  then have "bookInv E rs ?s" using findAllLocked_run(1,4) [OF laws, of s] by (auto intro: bookInv_same)
  then show "bookInv E rs (exec (runMonthlyReconcile E ym) s)"
    unfolding run using reconcileAll_step(2) [OF laws] by (auto split: sum.splits)
qed

section \<open>Properties\<close>


text \<open>C11: no month is paid twice. Once a reconciliation of a contract and month has returned, a later one, in any state whose books still
  hold the earlier records, submits nothing and leaves the books alone.\<close>

theorem reconcile_once:
  assumes laws: "db_laws cs rs E" and ok: "valu (reconcileContract E c ym) s = Inr r"
    and later: "set (books rs (exec (reconcileContract E c ym) s)) \<subseteq> set (books rs t)"
  shows "b1sent (exec (reconcileContract E c ym) t) = b1sent t \<and> books rs (exec (reconcileContract E c ym) t) = books rs t"
proof -
  have "\<exists>x \<in> set (books rs t). isMatchedFor c ym x"
    using reconcile_matched [OF laws ok] later by blast
  then have "\<exists>x \<in> set (rs (b1db t)). isMatchedFor c ym x" by (simp only: books_matched)
  then show ?thesis by (rule reconcile_booked(2) [OF laws])
qed


text \<open>One contract whose personal data cannot be decrypted stops the settlement of all: the monthly run throws while it reads the
  locked contracts, before any payment and without a job in the queue.\<close>

lemma undecryptable_row_blocks_run:
  assumes laws: "db_laws cs rs E" and row: "c \<in> set (cs (b1db s))" "k_status c = Locked" "toDto E c = Inl e"
  shows "(\<exists>x. valu (runMonthlyReconcile E ym) s = Inl x) \<and> b1sent (exec (runMonthlyReconcile E ym) s) = b1sent s \<and>
    b1queue (exec (runMonthlyReconcile E ym) s) = b1queue s"
proof -
  obtain x where "valu (findAllLocked E) s = Inl x" using findAllLocked_run(6) [OF laws row] by blast
  then show ?thesis using findAllLocked_run(1,2) [OF laws, of s] by (simp add: runMonthlyReconcile_def)
qed


text \<open>The memo of a payment can be read back. A payload is refused exactly when its JSON is longer than 1024 bytes; otherwise decoding the
  memo that was built gives the payload.\<close>

lemma reconcile_memo_round_trip:
  assumes hex: "\<forall>t. convertHexToString E (convertStringToHex E t) = t"
  shows "case buildReconcileMemo E p of
     Inl e \<Rightarrow> 1024 < length (stringify (memoPayload p))
   | Inr memo \<Rightarrow> length (stringify (memoPayload p)) \<le> 1024 \<and> decodeReconcileMemo E memo = Inr (memoPayload p)"
proof -
  have "printable (memoPayload p)" by (simp add: memoPayload_def)
  then have "jsonParse (stringify (memoPayload p)) = Some (memoPayload p)" by (rule parse_stringify)
  with hex show ?thesis
    by (simp add: buildReconcileMemo_def decodeReconcileMemo_def MAX_MEMO_BYTES_def Let_def)
qed

text \<open>The month of an instant in Seoul.\<close>

definition kstMonth :: "int \<Rightarrow> string" where
  "kstMonth t = show_int (getUTCFullYear (t + 9 * 3600000)) @ ''-'' @ pad 2 (nat (getUTCMonth1 (t + 9 * 3600000)))"

definition kstMonthIndex :: "int \<Rightarrow> int" where
  "kstMonthIndex t = 12 * getUTCFullYear (t + 9 * 3600000) + getUTCMonth1 (t + 9 * 3600000)"

text \<open>The month that the cron settles. At every instant of a month in Seoul, January included, it is the month that every instant of
  the calendar month before belongs to.\<close>

lemma previous_month:
  assumes "kstMonthIndex now = kstMonthIndex t + 1"
  shows "previousMonthInKst now = kstMonth t"
proof -
  define y m where "y = getUTCFullYear (now + 9 * 3600000)" and "m = getUTCMonth1 (now + 9 * 3600000)"
  define y' m' where "y' = getUTCFullYear (t + 9 * 3600000)" and "m' = getUTCMonth1 (t + 9 * 3600000)"
  have r: "1 \<le> m" "m \<le> 12" "1 \<le> m'" "m' \<le> 12" using getUTCMonth1_range by (auto simp: m_def m'_def)
  have eq: "12 * y + m = 12 * y' + m' + 1" using assms by (simp add: kstMonthIndex_def y_def m_def y'_def m'_def)
  have c: "(m = 1 \<and> m' = 12 \<and> y' = y - 1) \<or> (m \<noteq> 1 \<and> m' = m - 1 \<and> y' = y)"
  proof (cases "m = 1")
    case True
    then have "y - y' = 1" using eq r by linarith
    with True eq show ?thesis by simp
  next
    case False
    then have "y = y'" using eq r by linarith
    with False eq show ?thesis by simp
  qed
  have p: "previousMonthInKst now = show_int (if m - 1 = 0 then y - 1 else y) @ ''-'' @ pad 2 (nat (if m - 1 = 0 then 12 else m - 1))"
    by (simp only: previousMonthInKst_def Let_def y_def m_def)
  have k: "kstMonth t = show_int y' @ ''-'' @ pad 2 (nat m')" by (simp only: kstMonth_def y'_def m'_def)
  from c show ?thesis unfolding p k by (elim disjE conjE) (simp_all only: diff_self if_True, simp_all)
qed

end
