(* ===== verification/Be1Wallet.thy ===== *)
theory Be1Wallet
  imports Reconciler
begin

text \<open>
  The wallets that \<open>be1-xrpl\<close> keeps for the two roles: connecting and disconnecting, the round trip of XRP payments between
  them on the test network, and the funding of a wallet with an issued currency, which may buy the currency on the exchange of the ledger.
\<close>

section \<open>The wallet service\<close>

record WalletNetwork =
  nw_id :: string
  nw_label :: string
  nw_rpcEndpoint :: string

definition getWalletNetwork :: "'d be1_env \<Rightarrow> WalletNetwork" where
  "getWalletNetwork E =
    (let endpoint = getOr '''' (cfg E ''XRPL_NETWORK_URL'') in
     if strIncludes endpoint ''xrplcluster'' \<or> strIncludes endpoint ''mainnet''
     then \<lparr> nw_id = ''mainnet'', nw_label = ''XRPL Mainnet'', nw_rpcEndpoint = endpoint \<rparr>
     else if strIncludes endpoint ''devnet''
     then \<lparr> nw_id = ''devnet'', nw_label = ''XRPL Devnet'', nw_rpcEndpoint = endpoint \<rparr>
     else \<lparr> nw_id = ''testnet'', nw_label = ''XRPL Testnet'',
       nw_rpcEndpoint = orText endpoint ''wss://s.altnet.rippletest.net:51233'' \<rparr>)"

definition getWalletForRole :: "'d be1_env \<Rightarrow> WalletRole \<Rightarrow> ('d be1_state, Wallet) state" where
  "getWalletForRole E role = do {
     existing \<leftarrow> gets (\<lambda>s. jm_get (b1wallets s) role);
     case existing of
       Some w \<Rightarrow> ret w
     | None \<Rightarrow> do {
         n \<leftarrow> nextCall;
         let w = walletGenerate E n;
         modify (\<lambda>s. s\<lparr>b1wallets := jm_set (b1wallets s) role w\<rparr>);
         ret w } }"

record ConnectResult =
  cw_message :: string
  cw_connected :: bool
  cw_wallet :: "(WalletRole \<times> string \<times> string \<times> WalletNetwork) option"

definition connect :: "'d be1_env \<Rightarrow> WalletRole \<Rightarrow> bool \<Rightarrow> ('d be1_state, ConnectResult) state" where
  "connect E role approve = do {
     wallet \<leftarrow> getWalletForRole E role;
     if \<not> approve then do {
       modify (\<lambda>s. s\<lparr>b1connected := jm_set (b1connected s) role False\<rparr>);
       ret \<lparr> cw_message = ''Connection declined.'', cw_connected = False, cw_wallet = None \<rparr> }
     else do {
       wasConnected \<leftarrow> gets (\<lambda>s. jm_get (b1connected s) role = Some True);
       modify (\<lambda>s. s\<lparr>b1connected := jm_set (b1connected s) role True\<rparr>);
       ret \<lparr> cw_message = (if wasConnected then ''Wallet already connected.'' else ''Connection approved.''),
         cw_connected = True,
         cw_wallet = Some (role, wl_classicAddress wallet, wl_publicKey wallet, getWalletNetwork E) \<rparr> } }"

definition disconnect :: "WalletRole \<Rightarrow> ('d be1_state, string \<times> bool \<times> WalletRole) state" where
  "disconnect role = do {
     modify (\<lambda>s. s\<lparr>b1connected := jm_set (b1connected s) role False\<rparr>);
     ret (''Wallet disconnected.'', False, role) }"

definition postConnect :: "'d be1_env \<Rightarrow> WalletRole option \<Rightarrow> bool option \<Rightarrow> ('d be1_state, ConnectResult) state" where
  "postConnect E role approve = connect E (getOr tenant role) (getOr True approve)"

definition postDisconnect :: "WalletRole option \<Rightarrow> ('d be1_state, string \<times> bool \<times> WalletRole) state" where
  "postDisconnect role = disconnect (getOr tenant role)"

section \<open>The round trip of XRP\<close>

definition assertTestnet :: "'d be1_env \<Rightarrow> be1_error + unit" where
  "assertTestnet E =
    (if strIncludes (toLowerCase (getOr ''wss://s.altnet.rippletest.net:51233'' (cfg E ''XRPL_NETWORK_URL''))) ''altnet.rippletest''
     then Inr ()
     else Inl (Forbidden ''peer-xrp-roundtrip is only allowed when XRPL_NETWORK_URL points at XRPL Testnet (altnet.rippletest).''))"

record RoundtripResult =
  rt_tenantAddress :: string
  rt_landlordAddress :: string
  rt_amountDrops :: string
  rt_tenantToLandlordTxHash :: string
  rt_landlordToTenantTxHash :: string
  rt_explorerBase :: string
  rt_links :: "string list"

definition xrpTx :: "Wallet \<Rightarrow> Wallet \<Rightarrow> string \<Rightarrow> Be1Tx" where
  "xrpTx from to amountDrops = B1Payment \<lparr> pt_Account = wl_classicAddress from, pt_Destination = wl_classicAddress to,
     pt_Amount = Drops amountDrops, pt_SendMax = None, pt_Memos = None \<rparr>"

definition submitPay :: "'d be1_env \<Rightarrow> string \<Rightarrow> Wallet \<Rightarrow> Wallet \<Rightarrow> ('d, string) be1" where
  "submitPay E amountDrops from to = bindE (submitB E (xrpTx from to amountDrops) from) (\<lambda>res.
     bindE (pureE (assertTxSuccess res)) (\<lambda>_. ret (Inr (tr_hash res))))"

definition explorerBase :: "'d be1_env \<Rightarrow> string" where
  "explorerBase E = dropSlash (getOr ''https://testnet.xrpl.org'' (cfg E ''XRPL_EXPLORER_URL''))"

definition roundtrip :: "'d be1_env \<Rightarrow> string \<Rightarrow> ('d, RoundtripResult) be1" where
  "roundtrip E amountDrops = bindE (pureE (assertTestnet E)) (\<lambda>_.
     if \<not> allDigits amountDrops then throwE (BadRequest ''amountDrops must be a non-negative integer drops string'')
     else bindE (liftE (getWalletForRole E tenant)) (\<lambda>t.
       bindE (liftE (getWalletForRole E landlord)) (\<lambda>l.
       bindE (getClient E) (\<lambda>_.
       bindE (submitPay E amountDrops t l) (\<lambda>h1.
       bindE (submitPay E amountDrops l t) (\<lambda>h2.
       ret (Inr \<lparr> rt_tenantAddress = wl_classicAddress t, rt_landlordAddress = wl_classicAddress l, rt_amountDrops = amountDrops,
         rt_tenantToLandlordTxHash = h1, rt_landlordToTenantTxHash = h2, rt_explorerBase = explorerBase E,
         rt_links = [explorerBase E @ ''/transactions/'' @ h1, explorerBase E @ ''/transactions/'' @ h2,
           explorerBase E @ ''/accounts/'' @ wl_classicAddress t, explorerBase E @ ''/accounts/'' @ wl_classicAddress l] \<rparr>)))))))"

definition peerXrpRoundtrip :: "'d be1_env \<Rightarrow> string option \<Rightarrow> ('d, RoundtripResult) be1" where
  "peerXrpRoundtrip E amountDrops =
    (if \<not> optOk allDigits amountDrops then throwE (BadRequest ''Bad Request Exception'')
     else roundtrip E (orText (getOr '''' (map_option trim amountDrops)) ''1000000''))"

section \<open>Funding with an issued currency\<close>

definition isRippleAltnetTestnet :: "'d be1_env \<Rightarrow> bool" where
  "isRippleAltnetTestnet E = strIncludes (toLowerCase (getOr '''' (cfg E ''XRPL_NETWORK_URL''))) ''altnet.rippletest.net''"

definition dexTx :: "Wallet \<Rightarrow> Amount \<Rightarrow> int \<Rightarrow> Be1Tx" where
  "dexTx buyer dest sendMax = B1Payment \<lparr> pt_Account = wl_classicAddress buyer, pt_Destination = wl_classicAddress buyer,
     pt_Amount = dest, pt_SendMax = Some (show_int sendMax), pt_Memos = None \<rparr>"

text \<open>The \<open>try\<close> block after the path was found: at most a tenth more than the quoted price is paid.\<close>

definition buyAtQuote :: "'d be1_env \<Rightarrow> Wallet \<Rightarrow> Amount \<Rightarrow> string option \<Rightarrow> ('d, unit) be1" where
  "buyAtQuote E buyer dest src =
    (if \<not> truthy src
     then throwE (BadRequest (''DEX '' @ codePoints [44221, 47196, 47484] @ '' '' @ codePoints [52286, 51648] @ '' '' @ codePoints [47803, 54664, 49845, 45768, 45796] @ ''. IOU issuer/'' @ codePoints [53685, 54868, 47484] @ '' '' @ codePoints [54869, 51064, 54616, 44144, 45208] @ '' '' @ codePoints [49688, 46041, 51004, 47196] @ '' '' @ codePoints [50868, 50689, 51088] @ '' '' @ codePoints [51648, 44049, 50640] @ '' '' @ codePoints [51077, 44552, 54616, 49464, 50836] @ ''.''))
     else case bigIntOf (the src) of
       None \<Rightarrow> throwE (Err (''Cannot convert '' @ the src @ '' to a BigInt''))
     | Some quote \<Rightarrow> bindE (submitB E (dexTx buyer dest (bigDiv (quote * 110) 100)) buyer)
         (\<lambda>payRes. pureE (assertTxSuccess payRes)))"

definition buyIouWithXrpViaPathFind :: "'d be1_env \<Rightarrow> Wallet \<Rightarrow> string \<Rightarrow> string \<Rightarrow> string \<Rightarrow> ('d, unit) be1" where
  "buyIouWithXrpViaPathFind E buyer issuer currency iouValue =
     bindE (pureE (buildIouAmount issuer currency iouValue)) (\<lambda>dest.
     bindE (outside (\<lambda>n. path_find E n (wl_classicAddress buyer) dest)) (\<lambda>src. do {
       r \<leftarrow> buyAtQuote E buyer dest src;
       outside (path_find_close E);
       ret r }))"

definition lineBalance :: "FoundLine option \<Rightarrow> string" where
  "lineBalance line = (case line of None \<Rightarrow> ''0'' | Some l \<Rightarrow> fl_balance l)"

text \<open>The loop that buys what is missing, for at most the given number of rounds; it gives the balance reached.\<close>

fun buyLoop :: "'d be1_env \<Rightarrow> Wallet \<Rightarrow> string \<Rightarrow> string \<Rightarrow> double \<Rightarrow> nat \<Rightarrow> double \<Rightarrow> ('d, double) be1" where
  "buyLoop E operator issuer currency need 0 bal = ret (Inr bal)"
| "buyLoop E operator issuer currency need (Suc k) bal =
    (if \<not> ltDouble bal need then ret (Inr bal)
     else bindE (buyIouWithXrpViaPathFind E operator issuer currency (orText (stripZeros (toFixed 10 (subDouble need bal))) ''0'')) (\<lambda>_.
       bindE (findTrustLine E (wl_classicAddress operator) issuer currency) (\<lambda>again.
       buyLoop E operator issuer currency need k (parseFloat (lineBalance again)))))"

definition ensureOperatorIouForPayment :: "'d be1_env \<Rightarrow> Wallet \<Rightarrow> string \<Rightarrow> string \<Rightarrow> string \<Rightarrow> ('d, unit) be1" where
  "ensureOperatorIouForPayment E operator issuer currency needValue =
     bindE (pureE (buildIouAmount issuer currency ''1000000000'')) (\<lambda>limitAmount.
     bindE (findTrustLine E (wl_classicAddress operator) issuer currency) (\<lambda>first.
     bindE (if first = None then bindE (submitTrustSet E operator limitAmount)
         (\<lambda>_. findTrustLine E (wl_classicAddress operator) issuer currency) else ret (Inr first)) (\<lambda>line.
     let need = parseFloat needValue; bal = parseFloat (lineBalance line) in
     if \<not> isFinite need \<or> leDouble need (Fin 0 0) then throwE (BadRequest (''amount '' @ codePoints [44032] @ '' '' @ codePoints [50732, 48148, 47476, 51648] @ '' '' @ codePoints [50506, 49845, 45768, 45796] @ ''.''))
     else if leDouble need bal then ret (Inr ())
     else if \<not> isRippleAltnetTestnet E
     then throwE (BadRequest (codePoints [50868, 50689, 51088] @ '' '' @ codePoints [51648, 44049] @ ''('' @ wl_classicAddress operator @ '')'' @ codePoints [51032] @ '' IOU '' @ codePoints [51092, 50529, 51060] @ '' '' @ codePoints [48512, 51313, 54633, 45768, 45796] @ ''. '' @ codePoints [54596, 50836] @ '' '' @ needValue @ '', '' @ codePoints [48372, 50976] @ '' '' @ lineBalance line @ ''. '' @ codePoints [47700, 51064, 45367, 51008] @ '' '' @ codePoints [51088, 46041] @ '' '' @ codePoints [47588, 51077, 54616, 51648] @ '' '' @ codePoints [50506, 49845, 45768, 45796] @ ''. XRPL_IOU_ISSUER_SEED '' @ codePoints [46608, 45716] @ '' '' @ codePoints [49688, 46041] @ '' '' @ codePoints [51077, 44552, 51012] @ '' '' @ codePoints [49324, 50857, 54616, 49464, 50836] @ ''.''))
     else bindE (buyLoop E operator issuer currency need 8 bal) (\<lambda>reached.
       if ltDouble reached need
       then throwE (BadRequest (codePoints [53580, 49828, 53944, 45367] @ '' DEX'' @ codePoints [47196] @ '' IOU'' @ codePoints [47484] @ '' '' @ codePoints [52292, 50864, 51648] @ '' '' @ codePoints [47803, 54664, 49845, 45768, 45796] @ ''. '' @ codePoints [54596, 50836] @ '' '' @ needValue @ '', '' @ codePoints [48372, 50976] @ '' '' @ numberToString reached @ ''. tryrlusd.com '' @ codePoints [46321, 51004, 47196] @ '' '' @ codePoints [50868, 50689, 51088] @ '' '' @ codePoints [51648, 44049] @ ''('' @ wl_classicAddress operator @ '')'' @ codePoints [50640] @ '' '' @ codePoints [51077, 44552, 54616, 44144, 45208] @ '' XRPL_IOU_ISSUER_SEED'' @ codePoints [47484] @ '' '' @ codePoints [49444, 51221, 54616, 49464, 50836] @ ''.''))
       else ret (Inr ())))))"

record FundIouDto =
  fd_role :: "WalletRole option"
  fd_issuer :: "string option"
  fd_currency :: "string option"
  fd_amount :: "string option"

record FundResult =
  fr_role :: WalletRole
  fr_address :: string
  fr_issuer :: string
  fr_currency :: string
  fr_amount :: string
  fr_trustSetTxHash :: string
  fr_paymentTxHash :: string
  fr_explorerPaymentUrl :: string
  fr_network :: string

text \<open>\<open>value?.trim() || config.get(key)?.trim() || d\<close>.\<close>

definition orConfig :: "'d be1_env \<Rightarrow> string option \<Rightarrow> string \<Rightarrow> string \<Rightarrow> string" where
  "orConfig E v k d = orText (getOr '''' (map_option trim v)) (orText (getOr '''' (cfgTrim E k)) d)"

definition fundingSource :: "'d be1_env \<Rightarrow> string \<Rightarrow> string \<Rightarrow> string \<Rightarrow> ('d, Wallet) be1" where
  "fundingSource E issuer currency amountRaw =
    (if truthy (cfgTrim E ''XRPL_IOU_ISSUER_SEED'')
     then bindE (pureE (errOf (walletFromSeed E (the (cfgTrim E ''XRPL_IOU_ISSUER_SEED''))))) (\<lambda>w.
       if wl_classicAddress w \<noteq> issuer
       then throwE (BadRequest (''XRPL_IOU_ISSUER_SEED '' @ codePoints [51452, 49548] @ ''('' @ wl_classicAddress w @ '')'' @ codePoints [44032] @ '' XRPL_IOU_ISSUER('' @ issuer @ '')'' @ codePoints [50752] @ '' '' @ codePoints [51068, 52824, 54616, 51648] @ '' '' @ codePoints [50506, 49845, 45768, 45796] @ ''.''))
       else bindE (ensureTestnetXrpForFees E w) (\<lambda>_. ret (Inr w)))
     else bindE (pureE (errOf (walletFromSeed E (the (cfgTrim E ''XRPL_OPERATOR_SEED''))))) (\<lambda>w.
       bindE (ensureTestnetXrpForFees E w) (\<lambda>_.
       bindE (ensureOperatorIouForPayment E w issuer currency amountRaw) (\<lambda>_. ret (Inr w)))))"

definition fundInternalWallet :: "'d be1_env \<Rightarrow> FundIouDto \<Rightarrow> ('d, FundResult) be1" where
  "fundInternalWallet E dto =
    (let role = getOr tenant (fd_role dto); issuer = orConfig E (fd_issuer dto) ''XRPL_IOU_ISSUER'' '''';
         rawCurrency = orConfig E (fd_currency dto) ''XRPL_IOU_CURRENCY'' '''' in
     if \<not> truthy (cfgTrim E ''XRPL_OPERATOR_SEED'') \<and> \<not> truthy (cfgTrim E ''XRPL_IOU_ISSUER_SEED'')
     then throwE (BadRequest (''XRPL_IOU_ISSUER_SEED('' @ codePoints [48156, 54665] @ '' '' @ codePoints [51649, 51217] @ '') '' @ codePoints [46608, 45716] @ '' XRPL_OPERATOR_SEED('' @ codePoints [48372, 50976, 48516] @ '' '' @ codePoints [51204, 49569] @ '') '' @ codePoints [51473] @ '' '' @ codePoints [54616, 45208, 45716] @ '' '' @ codePoints [54596, 50836, 54633, 45768, 45796] @ ''.''))
     else if issuer = '''' \<or> rawCurrency = ''''
     then throwE (BadRequest (''issuer/currency '' @ codePoints [47484] @ '' '' @ codePoints [50836, 52397, 50640] @ '' '' @ codePoints [45347, 44144, 45208] @ '' XRPL_IOU_ISSUER / XRPL_IOU_CURRENCY '' @ codePoints [47484] @ '' '' @ codePoints [49444, 51221, 54616, 49464, 50836] @ ''.''))
     else bindE (pureE (normalizeIouCurrencyCode rawCurrency)) (\<lambda>currency.
       let amountRaw = orConfig E (fd_amount dto) ''XRPL_WALLET_IOU_FUND_AMOUNT'' ''1'' in
       if \<not> isIouValue amountRaw then throwE (BadRequest (''amount '' @ codePoints [54805, 49885, 51060] @ '' '' @ codePoints [50732, 48148, 47476, 51648] @ '' '' @ codePoints [50506, 49845, 45768, 45796] @ ''.''))
       else bindE (liftE (getWalletForRole E role)) (\<lambda>recipient.
         bindE (getClient E) (\<lambda>_.
         bindE (ensureTestnetXrpForFees E recipient) (\<lambda>_.
         bindE (fundingSource E issuer currency amountRaw) (\<lambda>payer.
         bindE (pureE (buildIouAmount issuer currency ''1000000000'')) (\<lambda>limitAmount.
         bindE (submitTrustSet E recipient limitAmount) (\<lambda>trustHash.
         bindE (pureE (buildIouAmount issuer currency amountRaw)) (\<lambda>payAmount.
         bindE (submitB E (iouPaymentTx (wl_classicAddress payer) (wl_classicAddress recipient) payAmount) payer) (\<lambda>payRes.
         bindE (pureE (assertTxSuccess payRes)) (\<lambda>_.
         ret (Inr \<lparr> fr_role = role, fr_address = wl_classicAddress recipient, fr_issuer = issuer, fr_currency = currency,
           fr_amount = amountRaw, fr_trustSetTxHash = trustHash, fr_paymentTxHash = tr_hash payRes,
           fr_explorerPaymentUrl = explorerBase E @ ''/transactions/'' @ tr_hash payRes,
           fr_network = nw_label (getWalletNetwork E) \<rparr>))))))))))))"

definition fundIou :: "'d be1_env \<Rightarrow> FundIouDto \<Rightarrow> ('d, FundResult) be1" where
  "fundIou E dto =
    (if optOk isClassicAddress (fd_issuer dto) \<and> optOk isCurrencyCode (fd_currency dto) \<and> optOk isIouValue (fd_amount dto)
     then fundInternalWallet E dto else throwE (BadRequest ''Bad Request Exception''))"

end
