(* ===== verification/Be1Server.thy ===== *)
theory Be1Server
  imports Be1Wallet
begin

text \<open>
  The service \<open>be1-xrpl\<close> as a whole: one step is a request, the monthly cron or a job of the retry queue, run to its end. What
  the steps keep of the two tables, of the wallets and of the transactions submitted.
\<close>

section \<open>Steps that leave the tables alone\<close>

definition calm :: "('d \<Rightarrow> Be1Contract list) \<Rightarrow> ('d \<Rightarrow> Reconciliation list) \<Rightarrow> (Be1Tx \<Rightarrow> bool) \<Rightarrow> 'd be1_state \<Rightarrow> 'd be1_state \<Rightarrow> bool" where
  "calm cs rs P s s' = (cs (b1db s') = cs (b1db s) \<and> rs (b1db s') = rs (b1db s) \<and>
     (\<exists>new. b1sent s' = b1sent s @ new \<and> (\<forall>x \<in> set new. P (fst x))) \<and>
     (\<forall>role w. jm_get (b1wallets s) role = Some w \<longrightarrow> jm_get (b1wallets s') role = Some w))"

interpretation calm: step_rel "calm cs rs P" for cs rs P
proof
  fix w
  show "calm cs rs P w w" by (simp add: calm_def)
next
  fix w w' w''
  assume a: "calm cs rs P w w'" "calm cs rs P w' w''"
  then obtain x y where "b1sent w' = b1sent w @ x" "b1sent w'' = b1sent w' @ y" "\<forall>z \<in> set x. P (fst z)"
    "\<forall>z \<in> set y. P (fst z)"
    unfolding calm_def by (elim conjE exE)
  with a show "calm cs rs P w w''" unfolding calm_def by (intro conjI exI [of _ "x @ y"]) auto
qed

named_theorems calm_intros \<open>operations that leave the tables alone\<close>

lemmas calm_io [calm_intros] = calm.io

lemma calm_bindE [calm_intros]: "steps (calm cs rs P) m \<Longrightarrow> (\<And>x. steps (calm cs rs P) (f x)) \<Longrightarrow> steps (calm cs rs P) (bindE m f)"
  unfolding bindE_def by (intro calm.io) auto

lemma calm_catchE [calm_intros]: "steps (calm cs rs P) m \<Longrightarrow> (\<And>x. steps (calm cs rs P) (f x)) \<Longrightarrow> steps (calm cs rs P) (catchE m f)"
  unfolding catchE_def by (intro calm.io) auto

lemma calm_basic [calm_intros]:
  "steps (calm cs rs P) (throwE e)" "steps (calm cs rs P) (pureE r)" "steps (calm cs rs P) nextCall"
  "steps (calm cs rs P) (outside f)" "steps (calm cs rs P) (getClient E)"
  "steps (calm cs rs P) m \<Longrightarrow> steps (calm cs rs P) (liftE m)"
  "steps (calm cs rs P) (modify (\<lambda>s. s\<lparr>b1connected := g s\<rparr>))"
  by (simp_all add: steps_def calm_def)

lemma calm_submitB [calm_intros]: "P tx \<Longrightarrow> steps (calm cs rs P) (submitB E tx w)"
  by (simp add: steps_def calm_def)

lemma calm_reads:
  assumes "db_laws cs rs E"
  shows "steps (calm cs rs P) (dbCall (repo_findOne (contractRepo E) Q))"
    "steps (calm cs rs P) (dbCall (repo_findDesc (recordRepo E) R f))"
proof -
  have "repo_laws cs rs k_id contractContent (contractRepo E)" "repo_laws rs cs r_id recordContent (recordRepo E)"
    using assms by (simp_all add: db_laws_def)
  then show "steps (calm cs rs P) (dbCall (repo_findOne (contractRepo E) Q))"
    "steps (calm cs rs P) (dbCall (repo_findDesc (recordRepo E) R f))"
    by (simp_all add: steps_def calm_def repo_readD)
qed

section \<open>The routes that leave the tables alone\<close>

abbreviation anyTx :: "Be1Tx \<Rightarrow> bool" where
  "anyTx \<equiv> \<lambda>_. True"

lemma calm_getWalletForRole [calm_intros]: "steps (calm cs rs P) (getWalletForRole E role)"
proof (rule stepsI)
  fix s
  show "calm cs rs P s (exec (getWalletForRole E role) s)"
    by (cases "jm_get (b1wallets s) role") (auto simp: getWalletForRole_def calm_def Let_def)
qed

lemma calm_connect: "steps (calm cs rs P) (connect E role approve)" "steps (calm cs rs P) (disconnect role)"
  unfolding connect_def disconnect_def by (auto intro!: calm_intros)

lemma calm_findById: "db_laws cs rs E \<Longrightarrow> steps (calm cs rs P) (findById E i)"
  unfolding findById_def by (auto intro!: calm_intros calm_reads)

lemma calm_lookup: "db_laws cs rs E \<Longrightarrow> steps (calm cs rs P) (lookupContract E i)"
  unfolding lookupContract_def by (auto intro!: calm_intros calm_findById)

lemma calm_findTrustLine [calm_intros]: "steps (calm cs rs P) (findTrustLine E a i c)"
  unfolding findTrustLine_def by (auto intro!: calm_intros)

lemma calm_ensureXrp [calm_intros]: "steps (calm cs rs P) (ensureTestnetXrpForFees E w)"
  unfolding ensureTestnetXrpForFees_def Let_def by (auto intro!: calm_intros)

lemma calm_findOne: "db_laws cs rs E \<Longrightarrow> steps (calm cs rs P) (findOne E i)"
  unfolding findOne_def by (auto intro!: calm_intros calm_lookup)

lemma calm_balance: "db_laws cs rs E \<Longrightarrow> steps (calm cs rs P) (balance E i)"
  unfolding balance_def getXrpBalance_def getIouBalance_def Let_def by (auto intro!: calm_intros calm_lookup)

lemma calm_listByContract: "db_laws cs rs E \<Longrightarrow> steps (calm cs rs P) (listByContract E i)"
  unfolding listByContract_def findReconciliationsByContractId_def by (auto intro!: calm_intros calm_lookup calm_reads)

text \<open>What the wallet routes and the preparation of a contract submit: the purchases on the exchange only on the test network.\<close>

definition dexOnlyOnTestnet :: "'d be1_env \<Rightarrow> Be1Tx \<Rightarrow> bool" where
  "dexOnlyOnTestnet E tx = (case tx of B1Payment p \<Rightarrow> pt_SendMax p = None \<or> isRippleAltnetTestnet E | _ \<Rightarrow> True)"

lemma dexOnly_simps [simp]:
  "dexOnlyOnTestnet E (B1TrustSet a l)" "dexOnlyOnTestnet E (iouPaymentTx a b x)" "dexOnlyOnTestnet E (xrpTx f t d)"
  "isRippleAltnetTestnet E \<Longrightarrow> dexOnlyOnTestnet E tx"
  by (auto simp: dexOnlyOnTestnet_def iouPaymentTx_def xrpTx_def split: Be1Tx.splits)

lemma calm_submitTrustSet [calm_intros]: "(\<And>a. P (B1TrustSet (wl_classicAddress w) a)) \<Longrightarrow> steps (calm cs rs P) (submitTrustSet E w l)"
  unfolding submitTrustSet_def by (auto intro!: calm_intros)

lemma calm_roundtrip: "steps (calm cs rs (dexOnlyOnTestnet E)) (roundtrip E d)"
  unfolding roundtrip_def submitPay_def by (auto intro!: calm_intros)

lemma calm_buy:
  assumes "isRippleAltnetTestnet E"
  shows "steps (calm cs rs (dexOnlyOnTestnet E)) (buyIouWithXrpViaPathFind E w i c v)"
  unfolding buyIouWithXrpViaPathFind_def buyAtQuote_def by (auto intro!: calm_intros simp: assms)

lemma calm_buyLoop:
  assumes "isRippleAltnetTestnet E"
  shows "steps (calm cs rs (dexOnlyOnTestnet E)) (buyLoop E w i c need k bal)"
  by (induction k arbitrary: bal) (auto intro!: calm_intros calm_buy assms)

lemma calm_fundInternalWallet: "steps (calm cs rs (dexOnlyOnTestnet E)) (fundInternalWallet E dto)"
  unfolding fundInternalWallet_def fundingSource_def ensureOperatorIouForPayment_def Let_def
  by (auto intro!: calm_intros calm_buyLoop)

section \<open>The invariant\<close>

text \<open>A locked contract names an account whose two escrows and signer list the ledger accepted; a pending one names nothing.\<close>

definition lockBacked :: "(Be1Tx \<times> (string + TxResult)) list \<Rightarrow> Be1Contract \<Rightarrow> bool" where
  "lockBacked sent c = (\<exists>acct ed ek sg d k l. k_contractAccountAddress c = Some acct \<and> k_contractAccountSeedCipher c \<noteq> None \<and>
     (B1EscrowCreate ed, Inr d) \<in> set sent \<and> accepted (Inr d) \<and> k_depositEscrowTxHash c = Some (tr_hash d) \<and>
     ec_Account ed = acct \<and> ec_Destination ed = k_tenantAddress c \<and>
     (B1EscrowCreate ek, Inr k) \<in> set sent \<and> accepted (Inr k) \<and> k_stakeEscrowTxHash c = Some (tr_hash k) \<and>
     ec_Account ek = acct \<and> ec_Destination ek = k_landlordAddress c \<and>
     (B1SignerListSet acct 2 sg, Inr l) \<in> set sent \<and> accepted (Inr l) \<and> k_signerListTxHash c = Some (tr_hash l) \<and>
     {k_tenantAddress c, k_landlordAddress c} \<subseteq> sg_account ` set sg)"

definition contractOk :: "(Be1Tx \<times> (string + TxResult)) list \<Rightarrow> Be1Contract \<Rightarrow> bool" where
  "contractOk sent c = (case k_status c of
      Pending \<Rightarrow> k_contractAccountAddress c = None \<and> k_contractAccountSeedCipher c = None \<and> k_depositEscrowTxHash c = None \<and>
        k_stakeEscrowTxHash c = None \<and> k_signerListTxHash c = None
    | Locked \<Rightarrow> lockBacked sent c
    | _ \<Rightarrow> False)"

definition be1Inv :: "'d be1_env \<Rightarrow> ('d \<Rightarrow> Be1Contract list) \<Rightarrow> ('d \<Rightarrow> Reconciliation list) \<Rightarrow> 'd be1_state \<Rightarrow> bool" where
  "be1Inv E cs rs s = (distinct (map k_id (cs (b1db s))) \<and> (\<forall>c \<in> set (cs (b1db s)). contractOk (b1sent s) c) \<and> bookInv E rs s)"

lemma contractOk_mono: "contractOk sent c \<Longrightarrow> set sent \<subseteq> set sent' \<Longrightarrow> contractOk sent' c"
  unfolding contractOk_def lockBacked_def
  by (cases "k_status c") (simp_all, blast)

lemma be1Inv_mono:
  assumes "be1Inv E cs rs s" "cs (b1db s') = cs (b1db s)" "set (b1sent s) \<subseteq> set (b1sent s')" "bookInv E rs s'"
  shows "be1Inv E cs rs s'"
  using assms contractOk_mono unfolding be1Inv_def by (metis (no_types, lifting))

lemma preserves_calm: "steps (calm cs rs P) m \<Longrightarrow> preserves (be1Inv E cs rs) m"
proof (rule preservesI)
  fix s
  assume a: "steps (calm cs rs P) m" "be1Inv E cs rs s"
  then have c: "cs (b1db (exec m s)) = cs (b1db s)" "rs (b1db (exec m s)) = rs (b1db s)" "set (b1sent s) \<subseteq> set (b1sent (exec m s))"
    using stepsD [OF a(1), of s] by (auto simp: calm_def)
  then have "bookInv E rs (exec m s)"
    using a(2) by (auto simp: be1Inv_def books_def intro: bookInv_same)
  with a(2) c show "be1Inv E cs rs (exec m s)" by (auto intro: be1Inv_mono)
qed

lemma preserves_bindE: "preserves P m \<Longrightarrow> (\<And>x. preserves P (f x)) \<Longrightarrow> preserves P (bindE m f)"
  unfolding bindE_def by (intro inv.io) auto

lemma lockedBy_backed:
  assumes "lockedBy E input wallet operatorAddress new row"
  shows "lockBacked new row"
proof -
  from assms obtain da sa d k l where l: "new = [(escrowCreateTx E (escrowOf input wallet (ci_tenantAddress input) da), Inr d),
      (escrowCreateTx E (escrowOf input wallet (ci_landlordAddress input) sa), Inr k),
      (signerListTx wallet (lockSigners input operatorAddress) 2, Inr l)]"
    "accepted (Inr d)" "accepted (Inr k)" "accepted (Inr l)" "k_depositEscrowTxHash row = Some (tr_hash d)"
    "k_stakeEscrowTxHash row = Some (tr_hash k)" "k_signerListTxHash row = Some (tr_hash l)"
    "k_contractAccountAddress row = Some (wl_classicAddress wallet)" "k_contractAccountSeedCipher row \<noteq> None"
    "k_tenantAddress row = ci_tenantAddress input" "k_landlordAddress row = ci_landlordAddress input"
    unfolding lockedBy_def by (elim exE conjE)
  obtain ed where ed: "escrowCreateTx E (escrowOf input wallet (ci_tenantAddress input) da) = B1EscrowCreate ed"
    "ec_Account ed = wl_classicAddress wallet" "ec_Destination ed = ci_tenantAddress input"
    by (simp add: escrowCreateTx_def escrowOf_def)
  obtain ek where ek: "escrowCreateTx E (escrowOf input wallet (ci_landlordAddress input) sa) = B1EscrowCreate ek"
    "ec_Account ek = wl_classicAddress wallet" "ec_Destination ek = ci_landlordAddress input"
    by (simp add: escrowCreateTx_def escrowOf_def)
  obtain sg where sg: "signerListTx wallet (lockSigners input operatorAddress) 2 = B1SignerListSet (wl_classicAddress wallet) 2 sg"
    "{ci_tenantAddress input, ci_landlordAddress input} \<subseteq> sg_account ` set sg"
    by (simp add: signerListTx_def lockSigners_def)
  show ?thesis
    unfolding lockBacked_def l(1) using l(2-) ed ek sg
    by (intro exI [of _ "wl_classicAddress wallet"] exI [of _ ed] exI [of _ ek] exI [of _ sg] exI [of _ d] exI [of _ k] exI [of _ l]) simp
qed

lemma preserves_lock:
  assumes "db_laws cs rs E"
  shows "preserves (be1Inv E cs rs) (lockTenantDeposit E input wallet operatorAddress)"
proof (rule preservesI)
  fix s
  assume inv: "be1Inv E cs rs s"
  let ?s = "exec (lockTenantDeposit E input wallet operatorAddress) s"
  obtain new where new: "b1sent ?s = b1sent s @ new" "rs (b1db ?s) = rs (b1db s)"
    and c: "cs (b1db ?s) = cs (b1db s) \<or> (\<exists>row. cs (b1db ?s) = cs (b1db s) @ [row] \<and> k_id row \<notin> k_id ` set (cs (b1db s)) \<and>
        (freshRow input row \<or> (k_status row = Locked \<and> lockedBy E input wallet operatorAddress new row)))"
    using lock_outcome [OF assms, where s = s and input = input and wallet = wallet and operatorAddress = operatorAddress]
    by (elim exE conjE) blast
  have b: "bookInv E rs ?s" using inv new by (auto simp: be1Inv_def books_def intro: bookInv_same)
  from c show "be1Inv E cs rs ?s"
  proof
    assume "cs (b1db ?s) = cs (b1db s)"
    with inv b new show ?thesis by (auto intro: be1Inv_mono)
  next
    assume "\<exists>row. cs (b1db ?s) = cs (b1db s) @ [row] \<and> k_id row \<notin> k_id ` set (cs (b1db s)) \<and>
        (freshRow input row \<or> (k_status row = Locked \<and> lockedBy E input wallet operatorAddress new row))"
    then obtain row where row: "cs (b1db ?s) = cs (b1db s) @ [row]" "k_id row \<notin> k_id ` set (cs (b1db s))"
      "freshRow input row \<or> (k_status row = Locked \<and> lockedBy E input wallet operatorAddress new row)" by blast
    have "contractOk new row"
      using row(3) lockedBy_backed by (auto simp: contractOk_def freshRow_def)
    with inv row b new show ?thesis
      unfolding be1Inv_def by (auto intro: contractOk_mono)
  qed
qed

lemma calm_prepare:
  "steps (calm cs rs anyTx) (resolveIou E o')" "steps (calm cs rs anyTx) (generateAndFundWallet E)"
  "steps (calm cs rs anyTx) (ensureTrustLineAndFundFromOperator E w1 w2 i c a b)"
  unfolding resolveIou_def assertCounterpartyTrustLines_def generateAndFundWallet_def ensureTrustLineAndFundFromOperator_def
    fundingWallet_def Let_def
  by (auto intro!: calm_intros)

lemma preserves_postContract:
  assumes "db_laws cs rs E"
  shows "preserves (be1Inv E cs rs) (postContract E dto)"
proof -
  note c = preserves_calm [OF calm_prepare(1)] preserves_calm [OF calm_prepare(2)] preserves_calm [OF calm_prepare(3)]
  have t: "preserves (be1Inv E cs rs) (throwE e)" "preserves (be1Inv E cs rs) (pureE r)" for e and r :: "be1_error + 'b"
    by (rule preservesI, simp)+
  show ?thesis
    unfolding postContract_def postContractH_def Let_def
    by (auto intro!: inv.io preserves_bindE c t preserves_lock assms)
qed

lemma preserves_reconcile:
  assumes "db_laws cs rs E"
  shows "preserves (be1Inv E cs rs) (reconcileContract E c ym)" "preserves (be1Inv E cs rs) (runMonthlyReconcile E ym)"
proof -
  have "be1Inv E cs rs (exec (reconcileContract E c ym) s)" if i: "be1Inv E cs rs s" for s
    using i reconcile_grows [OF assms, of s c ym] reconcile_bookInv [OF assms, of s c ym]
    by (intro be1Inv_mono [OF i]) (auto simp: grows_def be1Inv_def)
  then show "preserves (be1Inv E cs rs) (reconcileContract E c ym)" by (rule preservesI)
  have "be1Inv E cs rs (exec (runMonthlyReconcile E ym) s)" if i: "be1Inv E cs rs s" for s
    using i runMonthly_grows [OF assms, of s ym]
    by (intro be1Inv_mono [OF i]) (auto simp: grows_def be1Inv_def)
  then show "preserves (be1Inv E cs rs) (runMonthlyReconcile E ym)" by (rule preservesI)
qed

lemma calm_count: "db_laws cs rs E \<Longrightarrow> steps (calm cs rs P) (dbCall (repo_count (recordRepo E) Q))"
  by (auto simp: db_laws_def steps_def calm_def repo_readD)

lemma preserves_runManual:
  assumes "db_laws cs rs E"
  shows "preserves (be1Inv E cs rs) (runManual E ym c)"
proof -
  have t: "preserves (be1Inv E cs rs) (throwE e)" "preserves (be1Inv E cs rs) (pureE r)" "preserves (be1Inv E cs rs) nextCall"
    for e and r :: "be1_error + 'b"
    using preserves_calm [OF calm_basic(3)] by (auto intro: preservesI)
  show ?thesis
    unfolding runManual_def runManualReconcile_def Let_def
    by (auto intro!: inv.io preserves_bindE t preserves_reconcile preserves_calm [OF calm_count] assms)
qed

section \<open>Steps\<close>

inductive be1_step :: "'d be1_env \<Rightarrow> 'd be1_state \<Rightarrow> 'd be1_state \<Rightarrow> bool" for E where
  post_contract: "be1_step E s (exec (postContract E dto) s)"
| get_contract: "be1_step E s (exec (findOne E i) s)"
| get_balance: "be1_step E s (exec (balance E i) s)"
| get_reconciliations: "be1_step E s (exec (listByContract E i) s)"
| post_run: "be1_step E s (exec (runManual E ym c) s)"
| cron: "be1_step E s (exec (monthlyCron E) s)"
| worker: "j \<in> set (b1queue s) \<Longrightarrow> be1_step E s (exec (processJob E j) s)"
| done_job: "be1_step E s (s\<lparr>b1queue := remove1 j (b1queue s)\<rparr>)"
| post_connect: "be1_step E s (exec (postConnect E role approve) s)"
| post_disconnect: "be1_step E s (exec (postDisconnect role) s)"
| post_fund: "be1_step E s (exec (fundIou E fund) s)"
| post_roundtrip: "be1_step E s (exec (peerXrpRoundtrip E amount) s)"

inductive be1_reachable :: "'d be1_env \<Rightarrow> ('d \<Rightarrow> Be1Contract list) \<Rightarrow> ('d \<Rightarrow> Reconciliation list) \<Rightarrow> 'd be1_state \<Rightarrow> bool" for E cs rs where
  start: "cs (b1db s) = [] \<Longrightarrow> rs (b1db s) = [] \<Longrightarrow> be1_reachable E cs rs s"
| step: "be1_reachable E cs rs s \<Longrightarrow> be1_step E s s' \<Longrightarrow> be1_reachable E cs rs s'"

lemma calm_throw_or: "steps (calm cs rs P) m \<Longrightarrow> steps (calm cs rs P) (if b then m else throwE e)"
  "steps (calm cs rs P) m \<Longrightarrow> steps (calm cs rs P) (if b then throwE e else m)"
  by (auto intro: calm_intros)

lemma be1_step_inv:
  assumes laws: "db_laws cs rs E" and "be1_step E s s'" "be1Inv E cs rs s"
  shows "be1Inv E cs rs s'"
  using assms(2,3)
proof cases
  case cron
  have "preserves (be1Inv E cs rs) (monthlyCron E)"
    unfolding monthlyCron_def
    by (rule inv.io_bind [OF preserves_calm [where P = anyTx, OF calm_basic(3)] preserves_reconcile(2) [OF laws]])
  from preservesD [OF this assms(3)] cron show ?thesis by simp
next
  case (worker j)
  then show ?thesis
    using assms(3) preservesD [OF preserves_reconcile(1) [OF laws], of s]
    by (simp add: processJob_def split: sum.splits)
next
  case (done_job j)
  then show ?thesis using assms(3) by (simp add: be1Inv_def bookInv_def books_def)
qed (use assms(3) laws in \<open>auto simp: postConnect_def postDisconnect_def fundIou_def peerXrpRoundtrip_def
    intro!: preservesD [OF preserves_postContract] preservesD [OF preserves_runManual]
      preservesD [OF preserves_calm [OF calm_findOne [of _ _ _ anyTx]]] preservesD [OF preserves_calm [OF calm_balance [of _ _ _ anyTx]]]
      preservesD [OF preserves_calm [OF calm_listByContract [of _ _ _ anyTx]]]
      preservesD [OF preserves_calm [OF calm_connect(1) [of _ _ anyTx]]] preservesD [OF preserves_calm [OF calm_connect(2) [of _ _ anyTx]]]
      preservesD [OF preserves_calm [OF calm_fundInternalWallet]] preservesD [OF preserves_calm [OF calm_roundtrip]]\<close>)

section \<open>Properties\<close>

text \<open>C4: the tables of the service tell the truth about the ledger. In every state that requests, the cron and the retry worker reach from empty tables,
  in any order and with any failures of ledger, database, queue and mail: keys are unique; a contract is either pending without account,
  seed and hashes, or locked with an account whose deposit escrow, stake escrow and signer list the ledger accepted under the stored
  hashes, with the parties as destinations and signers; and every reconciliation is failed with a message, or matched with an accepted payment of its
  amount, at most one matched per contract and month.\<close>

theorem be1_invariant:
  assumes laws: "db_laws cs rs E" and "be1_reachable E cs rs s"
  shows "be1Inv E cs rs s"
  using assms(2)
proof induction
  case (start s)
  then show ?case by (simp add: be1Inv_def bookInv_def books_def)
next
  case (step s s')
  show ?case by (rule be1_step_inv [OF laws step.hyps(2) step.IH])
qed

text \<open>C23: nothing is bought on the main network. Away from the test network the funding of a wallet submits no payment with \<open>SendMax\<close>, so it never trades the XRP
  of the operator, whatever the trust lines answer.\<close>

theorem no_purchase_off_testnet:
  assumes "\<not> isRippleAltnetTestnet E"
  shows "\<exists>new. b1sent (exec (fundIou E dto) s) = b1sent s @ new \<and>
    (\<forall>p r. (B1Payment p, r) \<in> set new \<longrightarrow> pt_SendMax p = None)"
proof -
  have "steps (calm (\<lambda>d. []) (\<lambda>d. []) (dexOnlyOnTestnet E)) (fundIou E dto)"
    unfolding fundIou_def by (rule calm_throw_or(1) [OF calm_fundInternalWallet])
  from stepsD [OF this, of s] obtain new where "b1sent (exec (fundIou E dto) s) = b1sent s @ new"
    "\<forall>x \<in> set new. dexOnlyOnTestnet E (fst x)"
    unfolding calm_def by (elim conjE exE)
  then show ?thesis using assms by (force simp: dexOnlyOnTestnet_def)
qed

lemma run_getWalletForRole:
  "b1sent (exec (getWalletForRole E role) s) = b1sent s"
  "jm_get (b1wallets (exec (getWalletForRole E role) s)) role = Some (valu (getWalletForRole E role) s)"
  by (cases "jm_get (b1wallets s) role"; simp add: getWalletForRole_def Let_def)+

lemma submitPay_ok:
  assumes "valu (submitPay E d f t) s = Inr h"
  shows "\<exists>r. b1sent (exec (submitPay E d f t) s) = b1sent s @ [(xrpTx f t d, Inr r)] \<and> accepted (Inr r) \<and> h = tr_hash r"
proof (cases "submitAndWait E (b1calls s) (xrpTx f t d) f")
  case (Inl m)
  with assms show ?thesis by (simp add: submitPay_def)
next
  case (Inr r)
  have "accepted (Inr r)" if "assertTxSuccess r = Inr u" for u
    using that by (simp only: assertTxSuccess_def assertMeta_ok)
  with Inr show ?thesis
    using assms by (cases "assertTxSuccess r") (auto simp: submitPay_def)
qed

text \<open>The round trip. It returns only on the test network, and then exactly two payments of the same amount were submitted and accepted,
  from the wallet of the tenant to that of the landlord and back; it leaves the wallets of both roles in place.\<close>

lemma roundtrip_payments:
  assumes "valu (roundtrip E amount) s = Inr r"
  shows "assertTestnet E = Inr () \<and> (\<exists>t l a b. b1sent (exec (roundtrip E amount) s) =
      b1sent s @ [(xrpTx t l amount, Inr a), (xrpTx l t amount, Inr b)] \<and> accepted (Inr a) \<and> accepted (Inr b) \<and>
    rt_tenantToLandlordTxHash r = tr_hash a \<and> rt_landlordToTenantTxHash r = tr_hash b \<and>
    rt_tenantAddress r = wl_classicAddress t \<and> rt_landlordAddress r = wl_classicAddress l)"
proof -
  have net: "assertTestnet E = Inr ()" "allDigits amount"
    using assms by (auto simp: roundtrip_def split: sum.splits if_splits)
  define t s1 where "t = valu (getWalletForRole E tenant) s" and "s1 = exec (getWalletForRole E tenant) s"
  define l s2 where "l = valu (getWalletForRole E landlord) s1" and "s2 = exec (getWalletForRole E landlord) s1"
  define s3 where "s3 = exec (getClient E) s2"
  define s4 where "s4 = exec (submitPay E amount t l) s3"
  have sent: "b1sent s3 = b1sent s" by (simp add: s3_def s2_def s1_def run_getWalletForRole)
  have c: "valu (getClient E) s2 = Inr ()"
    using assms net by (cases "valu (getClient E) s2")
      (auto simp: roundtrip_def t_def [symmetric] s1_def [symmetric] l_def [symmetric] s2_def [symmetric] simp del: run_getClient)
  obtain h1 where h1: "valu (submitPay E amount t l) s3 = Inr h1"
    using assms net c by (cases "valu (submitPay E amount t l) s3")
      (auto simp: roundtrip_def t_def [symmetric] s1_def [symmetric] l_def [symmetric] s2_def [symmetric] s3_def [symmetric]
        simp del: run_getClient)
  obtain h2 where h2: "valu (submitPay E amount l t) s4 = Inr h2"
    using assms net c h1 by (cases "valu (submitPay E amount l t) s4")
      (auto simp: roundtrip_def t_def [symmetric] s1_def [symmetric] l_def [symmetric] s2_def [symmetric] s3_def [symmetric]
        s4_def [symmetric] simp del: run_getClient)
  have run: "exec (roundtrip E amount) s = exec (submitPay E amount l t) s4"
    "rt_tenantToLandlordTxHash r = h1" "rt_landlordToTenantTxHash r = h2"
    "rt_tenantAddress r = wl_classicAddress t" "rt_landlordAddress r = wl_classicAddress l"
    using assms net c h1 h2
    by (auto simp: roundtrip_def t_def [symmetric] s1_def [symmetric] l_def [symmetric] s2_def [symmetric] s3_def [symmetric]
        s4_def [symmetric] simp del: run_getClient)
  from submitPay_ok [OF h1] sent obtain a where "b1sent s4 = b1sent s @ [(xrpTx t l amount, Inr a)]" "accepted (Inr a)" "h1 = tr_hash a"
    by (auto simp: s4_def)
  moreover from submitPay_ok [OF h2] obtain b where "b1sent (exec (submitPay E amount l t) s4) = b1sent s4 @ [(xrpTx l t amount, Inr b)]"
    "accepted (Inr b)" "h2 = tr_hash b" by auto
  ultimately show ?thesis using net(1) run by (intro conjI exI [of _ t] exI [of _ l] exI [of _ a] exI [of _ b]) simp_all
qed

end
