(* ===== verification/Be1Witnesses.thy ===== *)
theory Be1Witnesses
  imports Be1Server
begin

text \<open>
  The properties of \<open>be1-xrpl\<close> at concrete inputs: a database that keeps its two tables in lists and satisfies the laws of the
  repositories, a ledger that accepts every transaction, and a cipher without secrecy that satisfies the laws of AES-GCM.
\<close>

section \<open>A database in memory\<close>

definition freshKey :: "string list \<Rightarrow> string" where
  "freshKey ks = replicate (Suc (sum_list (map length ks))) (CHR ''x'')"

lemma freshKey_new: "freshKey ks \<notin> set ks"
proof
  assume "freshKey ks \<in> set ks"
  then have "length (freshKey ks) \<le> sum_list (map length ks)" by (intro member_le_sum_list) auto
  then show False by (simp add: freshKey_def)
qed

definition memRepo :: "('d \<Rightarrow> 'e list) \<Rightarrow> ('e list \<Rightarrow> 'd \<Rightarrow> 'd) \<Rightarrow> ('e \<Rightarrow> string) \<Rightarrow> (string \<Rightarrow> 'e \<Rightarrow> 'e) \<Rightarrow> ('d, 'e) repo" where
  "memRepo rows put key setKey =
    \<lparr> repo_save = (\<lambda>e d. let x = setKey (freshKey (map key (rows d))) e in (Inr x, put (rows d @ [x]) d)),
      repo_findOne = (\<lambda>P d. (Inr (find P (rows d)), d)),
      repo_find = (\<lambda>P d. (Inr (filter P (rows d)), d)),
      repo_findDesc = (\<lambda>P f d. (Inr (rev (sort_key f (filter P (rows d)))), d)),
      repo_count = (\<lambda>P d. (Inr (length (filter P (rows d))), d)),
      repo_update = (\<lambda>i f d. (Inr (), put (map (\<lambda>e. if key e = i then setKey i (f e) else e) (rows d)) d)) \<rparr>"

lemma find_facts: "find P xs = None \<Longrightarrow> e \<in> set xs \<Longrightarrow> \<not> P e" "find P xs = Some e \<Longrightarrow> e \<in> set xs \<and> P e"
  by (auto simp: find_None_iff find_Some_iff)

lemma sort_desc: "sorted_wrt (\<lambda>a b. f b \<le> f a) (rev (sort_key f xs))"
  using sorted_sort_key [of f xs] by (simp add: sorted_wrt_rev sorted_map)

lemma memRepo_laws:
  assumes "\<And>x d. rows (put x d) = x" "\<And>x d. others (put x d) = others d" "\<And>k e. key (setKey k e) = k"
    "\<And>k e. content (setKey k e) = content e"
  shows "repo_laws rows others key content (memRepo rows put key setKey)"
proof -
  have "freshKey (map key xs) \<notin> key ` set xs" for xs
    using freshKey_new [of "map key xs"] by simp
  with assms show ?thesis
    by (auto simp: repo_laws_def rejects_def memRepo_def Let_def list_all2_conv_all_nth sort_desc dest: find_facts
        split: option.splits)
qed

type_synonym memDb = "Be1Contract list \<times> Reconciliation list"

definition memContracts :: "(memDb, Be1Contract) repo" where
  "memContracts = memRepo fst (\<lambda>x d. (x, snd d)) k_id (\<lambda>k c. c\<lparr>k_id := k\<rparr>)"

definition memRecords :: "(memDb, Reconciliation) repo" where
  "memRecords = memRepo snd (\<lambda>x d. (fst d, x)) r_id (\<lambda>k r. r\<lparr>r_id := k\<rparr>)"

section \<open>An environment\<close>

definition testWallet :: Wallet where
  "testWallet = \<lparr> wl_classicAddress = ''rContract'', wl_publicKey = ''PK'', wl_seed = Some ''sSeed'' \<rparr>"

definition testResult :: "nat \<Rightarrow> TxResult" where
  "testResult n = \<lparr> tr_hash = ''H'' @ show_nat n, tr_meta = MetaObject ''tesSUCCESS'', tr_ledger_index = Some 7,
     tr_txJsonSequence = Some (int n), tr_Sequence = None, tr_validated = Some True \<rparr>"

definition testCfg :: "string \<Rightarrow> string option" where
  "testCfg = (\<lambda>_. None)(''ENCRYPTION_MASTER_KEY'' \<mapsto> replicate 43 (CHR ''A'') @ ''='', ''NODE_ENV'' \<mapsto> ''test'')"

definition testEnv :: "memDb be1_env" where
  "testEnv = \<lparr> isConnected = (\<lambda>n. True), submitAndWait = (\<lambda>n tx w. Inr (testResult n)),
     account_lines = (\<lambda>n a i. Inr None), account_info = (\<lambda>n a. Inr ''20000000''), fundWallet = (\<lambda>n w. Inr w),
     path_find = (\<lambda>n a d. Inr None), path_find_close = (\<lambda>n. Inr ()), walletGenerate = (\<lambda>n. testWallet),
     walletFromSeed = (\<lambda>s. Inr testWallet), isoTimeToRippleTime = (\<lambda>s. 0), convertStringToHex = (\<lambda>s. s),
     convertHexToString = (\<lambda>s. s), dropsToXrp = (\<lambda>s. Inr s), contractRepo = memContracts, recordRepo = memRecords,
     cfg = testCfg, hash256 = (\<lambda>b. replicate 32 0), cryptoRandomBytes = (\<lambda>n k. replicate k 0),
     gcmSeal = (\<lambda>k iv m. (m, replicate 16 0)), gcmOpen = (\<lambda>k iv t c. Some c), httpGetBill = (\<lambda>n u p. Inl ''offline''),
     smtpSend = (\<lambda>n f m. Inr ()), queueAdd = (\<lambda>n j. Inr ()), isEmail = (\<lambda>s. True), isUuid = (\<lambda>s. True),
     localeKorean = show_int, dateNow = (\<lambda>n. 0) \<rparr>"

lemma testEnv_laws: "db_laws fst snd testEnv"
  by (auto simp: db_laws_def testEnv_def memContracts_def memRecords_def contractContent_def recordContent_def intro!: memRepo_laws)

lemma testEnv_crypto: "crypto_laws testEnv"
  by (simp add: crypto_laws_def testEnv_def)

definition testState :: "memDb \<Rightarrow> memDb be1_state" where
  "testState d = \<lparr> b1db = d, b1calls = 0, b1sent = [], b1queue = [], b1mails = [], b1wallets = [], b1connected = [] \<rparr>"

definition testInput :: CreateContractInput where
  "testInput = \<lparr> ci_tenantAddress = ''rTenant'', ci_landlordAddress = ''rLandlord'', ci_depositAmount = ''5000'',
     ci_stakeAmount = ''700'', ci_startsAt = 0, ci_endsAt = 1000, ci_finishAfter = 2000, ci_cancelAfter = 3000,
     ci_tenantPii = ''Kim'', ci_landlordPii = ''Lee'', ci_tenantEmail = None, ci_assetMode = None, ci_iouIssuer = None,
     ci_iouCurrency = None \<rparr>"

text \<open>A locked row whose ciphertexts have 30 bytes.\<close>

definition testRow :: "Be1ContractStatus \<Rightarrow> Be1Contract" where
  "testRow st = (newContract testInput (replicate 40 (CHR ''A'')) (replicate 40 (CHR ''A'')) None)
     \<lparr>k_id := ''c1'', k_status := st, k_contractAccountAddress := Some ''rContract'',
      k_contractAccountSeedCipher := Some (replicate 40 (CHR ''A''))\<rparr>"

definition testRecord :: Reconciliation where
  "testRecord = \<lparr> r_id = ''r1'', r_contractId = ''c1'', r_yearMonth = ''2026-01'', r_kepcoUsageKwh = 100, r_kepcoChargeKrw = 12000,
     r_kepcoUsageHash = ''h'', r_status = Matched, r_paymentTxHash = Some ''H1'', r_errorMessage = None, r_reportSentAt = None,
     r_createdAt = 0 \<rparr>"

section \<open>A contract is locked\<close>

lemma test_key: "encryptionKey testEnv = Inr (replicate 32 0)"
  by code_simp

lemma test_encrypt: obtains c where "valu (encrypt testEnv m) s = Inr c" "decrypt testEnv c = Inr m" "c \<noteq> ''''"
proof -
  obtain c where c: "valu (encrypt testEnv m) s = Inr c" using run_encrypt(1) [OF test_key] by blast
  have d: "decrypt testEnv c = Inr m" by (rule decrypt_sealed [OF testEnv_crypto c])
  have "decrypt testEnv '''' = Inl (Err ''ciphertext too short'')" by code_simp
  with d have "c \<noteq> ''''" by auto
  with c d show thesis by (rule that)
qed

lemma test_toDto:
  assumes "decrypt testEnv (k_tenantPiiCipher c) = Inr a" "decrypt testEnv (k_landlordPiiCipher c) = Inr b"
    "k_contractAccountSeedCipher c = None \<or> (\<exists>x y. k_contractAccountSeedCipher c = Some x \<and> decrypt testEnv x = Inr y)"
  shows "\<exists>dto. toDto testEnv c = Inr dto"
  using assms by (auto simp: toDto_def Let_def)

lemma test_escrow: "\<exists>r. valu (createEscrow testEnv (escrowOf testInput w dst a)) s = Inr r"
  by (simp add: createEscrow_def validateParams_def escrowOf_def testInput_def testEnv_def testResult_def assertCreateSuccess_def
      assertMeta_def)

lemma test_signers: "\<exists>r. valu (setSignerList testEnv testWallet (lockSigners testInput ''rOperator'') 2) s = Inr r"
proof -
  have "validateSignerList testWallet (lockSigners testInput ''rOperator'') 2 = Inr ()" by code_simp
  then show ?thesis by (simp add: setSignerList_def testEnv_def testResult_def assertMutationSuccess_def assertMeta_def)
qed

lemma test_lockTxs: "\<exists>x. valu (lockTxs testEnv testInput testWallet ''rOperator'' amounts) s = Inr x"
proof -
  let ?c1 = "createEscrow testEnv (escrowOf testInput testWallet (ci_tenantAddress testInput) (fst amounts))"
  let ?c2 = "createEscrow testEnv (escrowOf testInput testWallet (ci_landlordAddress testInput) (snd amounts))"
  obtain d k l where "valu ?c1 s = Inr d" "valu ?c2 (exec ?c1 s) = Inr k"
    "valu (setSignerList testEnv testWallet (lockSigners testInput ''rOperator'') 2) (exec ?c2 (exec ?c1 s)) = Inr l"
    using test_escrow test_signers by metis
  then show ?thesis by (simp add: lockTxs_def)
qed

lemma test_createRow:
  obtains dto row where "valu (createRow testEnv testInput) (testState ([], [])) = Inr dto"
    "b1db (exec (createRow testEnv testInput) (testState ([], []))) = ([row], [])" "k_id dto = k_id row"
    "decrypt testEnv (k_tenantPiiCipher row) = Inr ''Kim''" "decrypt testEnv (k_landlordPiiCipher row) = Inr ''Lee''"
proof -
  let ?s = "testState ([], [])"
  have "isl (valu (createRow testEnv testInput) ?s) = False" by code_simp
  then obtain dto where d: "valu (createRow testEnv testInput) ?s = Inr dto" by (cases "valu (createRow testEnv testInput) ?s") auto
  from createRow_outcome [OF testEnv_laws, of testInput ?s] d obtain row where
    r: "snd (b1db (exec (createRow testEnv testInput) ?s)) = []" "fst (b1db (exec (createRow testEnv testInput) ?s)) = [row]"
      "sealedPii testEnv testInput row" "toDto testEnv row = Inr dto"
    using testEnv_crypto by (auto simp: testState_def)
  show thesis
    using that [OF d _ toDto_id [OF r(4)]] r by (simp add: sealedPii_def testInput_def prod_eq_iff)
qed

lemma test_persist:
  assumes db: "b1db s = ([row], [])" and pii: "decrypt testEnv (k_tenantPiiCipher row) = Inr a" "decrypt testEnv (k_landlordPiiCipher row) = Inr b"
  shows "\<exists>dto. valu (persistLock testEnv testWallet (k_id row) d k l) s = Inr dto"
proof -
  obtain c where c: "valu (encrypt testEnv ''sSeed'') s = Inr c" "decrypt testEnv c = Inr ''sSeed''"
    by (rule test_encrypt)
  define row' where "row' = (lockPatch testWallet c d k l row)\<lparr>k_id := k_id row\<rparr>"
  define s1 where "s1 = exec (encrypt testEnv ''sSeed'') s"
  have s1: "b1db s1 = ([row], [])" using sends_encrypt [of s testEnv "''sSeed''"] db by (simp add: s1_def sends_def)
  obtain dto where dto: "toDto testEnv row' = Inr dto"
    using test_toDto [of row' a b] pii c(2) by (auto simp: row'_def lockPatch_def)
  have "repo_update (contractRepo testEnv) (k_id row) (lockPatch testWallet c d k l) ([row], []) = (Inr (), ([row'], []))"
    by (simp add: testEnv_def memContracts_def memRepo_def row'_def)
  moreover have "repo_findOne (contractRepo testEnv) (\<lambda>x. k_id x = k_id row) ([row'], []) = (Inr (Some row'), ([row'], []))"
    by (simp add: testEnv_def memContracts_def memRepo_def row'_def)
  ultimately show ?thesis
    using c s1 dto by (simp add: persistLock_def testWallet_def findById_def s1_def [symmetric])
qed

lemma test_lock: "\<exists>dto. valu (lockTenantDeposit testEnv testInput testWallet ''rOperator'') (testState ([], [])) = Inr dto"
proof -
  let ?s = "testState ([], [])"
  obtain dto row where r: "valu (createRow testEnv testInput) ?s = Inr dto"
    "b1db (exec (createRow testEnv testInput) ?s) = ([row], [])" "k_id dto = k_id row"
    "decrypt testEnv (k_tenantPiiCipher row) = Inr ''Kim''" "decrypt testEnv (k_landlordPiiCipher row) = Inr ''Lee''"
    by (rule test_createRow)
  let ?a = "(Drops ''5000'', Drops ''700'')"
  have a: "escrowAmounts testInput = Inr ?a" by code_simp
  define s1 where "s1 = exec (createRow testEnv testInput) ?s"
  obtain d k l where t: "valu (lockTxs testEnv testInput testWallet ''rOperator'' ?a) s1 = Inr (d, k, l)"
    using test_lockTxs by (metis prod_cases3)
  define s2 where "s2 = exec (lockTxs testEnv testInput testWallet ''rOperator'' ?a) s1"
  have "b1db s2 = ([row], [])"
    using lockTxs_outcome [where E = testEnv and input = testInput and wallet = testWallet and operatorAddress = "''rOperator''"
        and amounts = ?a and s = s1] r(2) by (auto simp: s1_def s2_def sends_def)
  then obtain x where "valu (persistLock testEnv testWallet (k_id row) d k l) s2 = Inr x"
    using test_persist r(4,5) by blast
  then show ?thesis
    using r(1,3) a t by (simp add: run_lockTenantDeposit s1_def [symmetric] s2_def [symmetric])
qed

section \<open>Witnesses\<close>

theorem lock_all_or_pending_witness:
  "\<exists>new. b1sent (exec (lockTenantDeposit testEnv testInput testWallet ''rOperator'') (testState ([], []))) = [] @ new \<and>
    (fst (b1db (exec (lockTenantDeposit testEnv testInput testWallet ''rOperator'') (testState ([], [])))) = [] \<or>
     (\<exists>row. fst (b1db (exec (lockTenantDeposit testEnv testInput testWallet ''rOperator'') (testState ([], [])))) = [row] \<and>
        (freshRow testInput row \<or> (k_status row = Locked \<and> lockedBy testEnv testInput testWallet ''rOperator'' new row))))"
  using lock_all_or_pending [OF testEnv_laws, of testInput testWallet "''rOperator''" "testState ([], [])"]
  by (auto simp: testState_def)

theorem lock_round_trip_witness:
  "\<exists>row dto. fst (b1db (exec (lockTenantDeposit testEnv testInput testWallet ''rOperator'') (testState ([], [])))) = [row] \<and>
    toDto testEnv row = Inr dto \<and> k_status row = Locked \<and> dt_tenantPii dto = ''Kim'' \<and> dt_contractAccountSeed dto = Some ''sSeed''"
proof -
  obtain dto where "valu (lockTenantDeposit testEnv testInput testWallet ''rOperator'') (testState ([], [])) = Inr dto"
    using test_lock by blast
  from lock_round_trip [OF testEnv_laws testEnv_crypto this] show ?thesis
    by (auto simp: testState_def testInput_def testWallet_def)
qed


lemma test_matched: "valu (reconcileContract testEnv ''c1'' ''2026-01'') (testState ([testRow Locked], [testRecord])) = Inr testRecord"
proof -
  have "find (isMatchedFor ''c1'' ''2026-01'') [testRecord] = Some testRecord" by (simp add: isMatchedFor_def testRecord_def)
  then show ?thesis by (simp add: reconcileContract_def testEnv_def memRecords_def memRepo_def testState_def)
qed

theorem reconcile_once_witness:
  "b1sent (exec (reconcileContract testEnv ''c1'' ''2026-01'') (exec (reconcileContract testEnv ''c1'' ''2026-01'')
     (testState ([testRow Locked], [testRecord])))) =
   b1sent (exec (reconcileContract testEnv ''c1'' ''2026-01'') (testState ([testRow Locked], [testRecord])))"
  using reconcile_once [OF testEnv_laws test_matched order_refl] by (rule conjunct1)

lemma test_decrypt: "decrypt testEnv (replicate 40 (CHR ''A'')) = Inr [CHR 0x00, CHR 0x00]"
  by code_simp

lemma test_locked: "\<exists>dto. valu (findAllLocked testEnv) (testState ([testRow Locked], [])) = Inr [dto]"
proof -
  obtain dto where "toDto testEnv (testRow Locked) = Inr dto"
    using test_toDto [of "testRow Locked"] test_decrypt by (auto simp: testRow_def newContract_def Let_def)
  moreover have "fst (repo_find (contractRepo testEnv) (\<lambda>c. k_status c = Locked) ([testRow Locked], [])) = Inr [testRow Locked]"
    by (simp add: testEnv_def memContracts_def memRepo_def testRow_def)
  ultimately show ?thesis by (simp add: findAllLocked_def testState_def)
qed


definition brokenRow :: Be1Contract where
  "brokenRow = (testRow Locked)\<lparr>k_tenantPiiCipher := ''AAAA''\<rparr>"

text \<open>A database that rejects every record.\<close>

definition lossyEnv :: "memDb be1_env" where
  "lossyEnv = testEnv\<lparr>recordRepo := memRecords\<lparr>repo_save := \<lambda>e d. (Inl ''connection lost'', d)\<rparr>\<rparr>"

lemma lossyEnv_laws: "db_laws fst snd lossyEnv"
proof -
  have "repo_laws snd fst r_id recordContent (memRecords\<lparr>repo_save := \<lambda>e d. (Inl ''connection lost'', d)\<rparr>)"
    using testEnv_laws by (simp add: db_laws_def testEnv_def repo_laws_def rejects_def)
  with testEnv_laws show ?thesis by (simp add: db_laws_def lossyEnv_def testEnv_def)
qed

definition testContract :: ContractDto where
  "testContract = contract_rest.extend (contract_rest.truncate (testRow Locked))
     \<lparr> dt_tenantPii = ''Kim'', dt_landlordPii = ''Lee'', dt_contractAccountSeed = Some ''sSeed'' \<rparr>"

definition testUsage :: MonthlyUsage where
  "testUsage = \<lparr> us_contractId = ''c1'', us_yearMonth = ''2026-01'', us_usageKwh = 100, us_chargeKrw = 12000, us_meterReadingDate = None \<rparr>"

text \<open>The memo of the test payment is short: no character of it is escaped.\<close>

lemma length_jquote:
  "list_all (\<lambda>c. let n = (of_char c :: nat) in 32 \<le> n \<and> n \<noteq> 34 \<and> n \<noteq> 92) s \<Longrightarrow> length (jquote s) = length s + 2"
  by (induction s) (auto simp: jquote_def jesc_def Let_def)

lemma length_memo:
  "length (stringify (memoPayload p)) = length (jquote (mp_contractId p)) + length (jquote (mp_yearMonth p)) +
     length (jquote (mp_kepcoUsageHash p)) + length (jquote (mp_landlordClaimHash p)) + length (jquote (mp_calculatedAmountDrops p)) + 92"
proof -
  have "length (jquote ''contractId'') = 12" "length (jquote ''yearMonth'') = 11" "length (jquote ''kepcoUsageHash'') = 16"
    "length (jquote ''landlordClaimHash'') = 19" "length (jquote ''calculatedAmountDrops'') = 23"
    by (simp_all add: length_jquote Let_def)
  then show ?thesis by (simp add: memoPayload_def)
qed

lemma lossy_hash: "sha256Hex lossyEnv s = replicate 64 (CHR ''0'')"
proof -
  have "toLowerCase (bytesToHex (replicate 32 0)) = replicate 64 (CHR ''0'')" by code_simp
  then show ?thesis by (simp add: sha256Hex_def lossyEnv_def testEnv_def)
qed

lemma show_charge: "show_int 12000 = ''12000''"
  by (simp add: show_int_def show_nat.simps digit_char_def char_of_def bit_0)

lemma test_memo: "\<exists>memo. buildReconcileMemo lossyEnv (reconcilePayload lossyEnv ''c1'' ''2026-01'' testUsage) = Inr memo"
proof -
  have "length (jquote ''c1'') = 4" "length (jquote ''2026-01'') = 9" "length (jquote ''12000'') = 7"
    by (simp_all add: length_jquote Let_def)
  moreover have "length (jquote (replicate 64 (CHR ''0''))) = 66" by (simp add: length_jquote list_all_length)
  ultimately have "length (stringify (memoPayload (reconcilePayload lossyEnv ''c1'' ''2026-01'' testUsage))) \<le> 1024"
    by (simp add: length_memo reconcilePayload_def lossy_hash testUsage_def show_charge Let_def)
  then show ?thesis by (simp add: buildReconcileMemo_def MAX_MEMO_BYTES_def Let_def)
qed

lemma lossy_client:
  "walletFromSeed lossyEnv x = Inr testWallet" "isConnected lossyEnv n" "submitAndWait lossyEnv n tx w = Inr (testResult n)"
  by (simp_all add: lossyEnv_def testEnv_def)

lemma test_pay: "valu (payUsage lossyEnv ''c1'' ''2026-01'' testContract testUsage) (testState ([], [])) = Inr ''H1''"
proof -
  obtain memo where m: "buildReconcileMemo lossyEnv (reconcilePayload lossyEnv ''c1'' ''2026-01'' testUsage) = Inr memo"
    using test_memo by blast
  have "show_nat (Suc 0) = ''1''" "allDigits ''12000''" by code_simp+
  moreover have "wl_classicAddress testWallet = ''rContract''" "k_contractAccountAddress testContract = Some ''rContract''"
    "us_chargeKrw testUsage = 12000"
    by (simp_all add: testWallet_def testContract_def testUsage_def testRow_def newContract_def contract_rest.defs)
  ultimately show ?thesis
    by (simp add: payUsage_def m submitXrpPayment_def lossy_client paymentParams_def testState_def testResult_def
        assertPaymentSuccess_def assertMeta_def show_charge)
qed


definition testPayload :: ReconcileMemoPayload where
  "testPayload = \<lparr> mp_contractId = ''c1'', mp_yearMonth = ''2026-01'', mp_kepcoUsageHash = ''ab'', mp_landlordClaimHash = ''ab'',
     mp_calculatedAmountDrops = ''12000'' \<rparr>"

theorem iou_sum_exact_witness: "sumIouValueStrings ''1000'' ''50'' = Inr ''1050''"
  using iou_sum_exact [of 1000 50] by (simp add: show_nat.simps digit_char_def char_of_def bit_0)

theorem be1_invariant_witness:
  "be1Inv testEnv fst snd (exec (monthlyCron testEnv) (exec (postConnect testEnv None None) (testState ([], []))))"
proof -
  have "be1_reachable testEnv fst snd (testState ([], []))" by (rule be1_reachable.start) (simp_all add: testState_def)
  then have "be1_reachable testEnv fst snd (exec (monthlyCron testEnv) (exec (postConnect testEnv None None) (testState ([], []))))"
    by (intro be1_reachable.step [OF be1_reachable.step [OF _ be1_step.post_connect] be1_step.cron])
  then show ?thesis by (rule be1_invariant [OF testEnv_laws])
qed

definition fundRequest :: FundIouDto where
  "fundRequest = \<lparr> fd_role = None, fd_issuer = None, fd_currency = None, fd_amount = None \<rparr>"

theorem no_purchase_off_testnet_witness:
  "\<exists>new. b1sent (exec (fundIou testEnv fundRequest) (testState ([], []))) = new \<and>
    (\<forall>p r. (B1Payment p, r) \<in> set new \<longrightarrow> pt_SendMax p = None)"
proof -
  have "\<not> isRippleAltnetTestnet testEnv" by code_simp
  from no_purchase_off_testnet [OF this, of fundRequest "testState ([], [])"] show ?thesis by (auto simp: testState_def)
qed

end
