(* ===== verification/PgTables.thy ===== *)
theory PgTables
  imports Audits
begin

text \<open>
  The database behind \<open>repository/postgres-repository.ts\<close>: its tables as the migrations under \<open>db/migrations\<close>
  declare them, and the meaning of the statements that the repository sends. A table is the list of its rows. SQL leaves
  open in which order a statement visits the rows, so every statement visits them in an order given by the environment;
  \<open>ORDER BY\<close> is a stable sort of that order. A statement is a transaction: it fails without effect, or takes effect, and then the
  answer may still be lost. \<open>TEXT\<close> columns that hold the literals of a union type keep that type; \<open>TIMESTAMPTZ\<close> is an
  instant in microseconds, \<open>JSONB\<close> a JSON value.
\<close>

section \<open>Rows\<close>

record contracts_row =
  rc_id :: string
  rc_tenant_id :: string
  rc_landlord_id :: string
  rc_status :: ContractStatus
  rc_escrow_create_tx_hash :: "string option"
  rc_deposit_amount :: "string option"
  rc_stake_amount :: "string option"
  rc_starts_at :: "int option"
  rc_ends_at :: "int option"
  rc_created_at :: int
  rc_updated_at :: int

record evidences_row =
  re_id :: string
  re_contract_id :: string
  re_dispute_id :: "string option"
  re_uploader_id :: string
  re_category :: EvidenceCategory
  re_cid :: string
  re_sha256 :: string
  re_mime_type :: string
  re_size_bytes :: nat
  re_version :: nat
  re_is_encrypted :: bool
  re_encryption_scheme :: "string option"
  re_retain_until :: "int option"
  re_retention_class :: EvidenceRetentionClass
  re_jurisdiction :: "string option"
  re_legal_hold_until :: "int option"
  re_storage_provider :: StorageProvider
  re_local_content_hash_seed :: string
  re_created_at :: int

record disputes_row =
  rd_id :: string
  rd_contract_id :: string
  rd_raised_by :: RaisedBy
  rd_reason_code :: string
  rd_status :: DisputeStatus
  rd_evidence_bundle :: json
  rd_created_at :: int
  rd_updated_at :: int
  rd_review_deadline_at :: "int option"
  rd_escalated_at :: "int option"

record votes_row =
  rv_id :: string
  rv_dispute_id :: string
  rv_verifier_id :: string
  rv_recommendation :: DisputeDecisionChoice
  rv_created_at :: int

record registry_row =
  rg_id :: string
  rg_verifier_id :: string
  rg_display_label :: "string option"
  rg_active :: bool
  rg_created_at :: int

record decisions_row =
  rq_id :: string
  rq_dispute_id :: string
  rq_decision :: DisputeDecisionChoice
  rq_memo :: "string option"
  rq_created_at :: int

record xrpl_txs_row =
  rx_tx_hash :: string
  rx_id :: string
  rx_tx_type :: string
  rx_account :: "string option"
  rx_dispute_id :: "string option"
  rx_network :: Network
  rx_tracking_status :: TxTrackingStatus
  rx_validated :: bool
  rx_ledger_index :: "int option"
  rx_result_code :: "string option"
  rx_outcome_class :: "OutcomeClass option"
  rx_retries :: nat
  rx_last_checked_at :: int
  rx_escrow_owner :: "string option"
  rx_escrow_destination :: "string option"
  rx_escrow_offer_sequence :: "int option"
  rx_escrow_submitter_account :: "string option"

record ingestion_row =
  ri_id :: string
  ri_ledger_index :: int
  ri_tx_hash :: string
  ri_event_source :: string
  ri_engine_result :: "string option"
  ri_created_at :: int

record notifications_row =
  rn_id :: string
  rn_event_type :: string
  rn_recipient_id :: string
  rn_channel :: NotificationChannel
  rn_status :: NotificationStatus
  rn_payload :: json
  rn_created_at :: int
  rn_attempt_count :: nat
  rn_next_attempt_at :: "int option"
  rn_last_error :: "string option"
  rn_dead_letter :: bool
  rn_updated_at :: int

record outbox_row =
  ro_id :: string
  ro_idempotency_key :: string
  ro_event_type :: string
  ro_recipient_id :: string
  ro_channel :: NotificationChannel
  ro_payload :: json
  ro_status :: NotificationOutboxStatus
  ro_attempts :: nat
  ro_last_error :: "string option"
  ro_created_at :: int
  ro_updated_at :: int
  ro_processing_started_at :: "int option"
  ro_dispatched_notification_id :: "string option"

record audits_row =
  ra_id :: string
  ra_entity_type :: string
  ra_entity_id :: string
  ra_action :: string
  ra_actor_id :: string
  ra_before_json :: "json option"
  ra_after_json :: "json option"
  ra_metadata_json :: "json option"
  ra_created_at :: int

record events_row =
  rw_event_id :: string
  rw_event_type :: string
  rw_occurred_at :: int
  rw_entity_type :: string
  rw_entity_id :: string
  rw_payload :: json
  rw_trace_id :: string

record delayed_jobs_row =
  rj_id :: string
  rj_kind :: string
  rj_payload :: json
  rj_run_after :: int
  rj_attempts :: nat
  rj_max_attempts :: nat
  rj_locked_until :: "int option"
  rj_last_error :: "string option"
  rj_created_at :: int
  rj_updated_at :: int

record settlements_row =
  rs_id :: string
  rs_contract_id :: string
  rs_period_year :: int
  rs_period_month :: int
  rs_status :: SettlementStatus
  rs_last_ledger_index :: "int option"
  rs_ledger_close_count :: nat
  rs_created_at :: int
  rs_updated_at :: int
  rs_amount_minor :: "int option"
  rs_currency_code :: string
  rs_batch_id :: "string option"
  rs_period_mode :: string
  rs_confirmed_at :: "int option"

record export_jobs_row =
  rk_id :: string
  rk_kind :: string
  rk_status :: ExportJobStatus
  rk_filter_json :: json
  rk_max_export :: nat
  rk_result_ndjson :: "string option"
  rk_error :: "string option"
  rk_created_at :: int
  rk_updated_at :: int

record pgdb =
  tContracts :: "contracts_row list"
  tEvidences :: "evidences_row list"
  tDisputes :: "disputes_row list"
  tVotes :: "votes_row list"
  tRegistry :: "registry_row list"
  tDecisions :: "decisions_row list"
  tXrplTxs :: "xrpl_txs_row list"
  tIngestion :: "ingestion_row list"
  tNotifications :: "notifications_row list"
  tOutbox :: "outbox_row list"
  tAudits :: "audits_row list"
  tEvents :: "events_row list"
  tDelayedJobs :: "delayed_jobs_row list"
  tSettlements :: "settlements_row list"
  tExportJobs :: "export_jobs_row list"
  pgCalls :: nat

section \<open>The server and the driver\<close>

text \<open>
  \<open>refuses\<close>: statement \<open>n\<close> is not executed (connection, timeout, a text the encoding forbids). \<open>losesAnswer\<close>: it is executed, but the
  client gets an error. \<open>timestamptz\<close> and \<open>jsonb\<close> are the input functions of the two types, \<open>toDate\<close> is the \<open>Date\<close> that the driver makes
  of an instant, in milliseconds. \<open>scan\<close> and \<open>returns\<close> are the orders in which statement \<open>n\<close> visits \<open>k\<close> rows and returns
  what it updated; \<open>collateLe\<close> is the collation of the database.
\<close>

record pg_env =
  refuses :: "nat \<Rightarrow> string option"
  losesAnswer :: "nat \<Rightarrow> string option"
  timestamptz :: "string \<Rightarrow> int option"
  toDate :: "int \<Rightarrow> int"
  jsonb :: "string \<Rightarrow> json option"
  scan :: "nat \<Rightarrow> nat \<Rightarrow> nat list"
  returns :: "nat \<Rightarrow> nat \<Rightarrow> nat list"
  collateLe :: "string \<Rightarrow> string \<Rightarrow> bool"

type_synonym 'a pg = "(pgdb, string + 'a) state"

definition inOrder :: "nat list \<Rightarrow> 'r list \<Rightarrow> 'r list" where
  "inOrder p rows = map ((!) rows) p"

definition visit :: "pg_env \<Rightarrow> nat \<Rightarrow> 'r list \<Rightarrow> 'r list" where
  "visit P n rows = inOrder (scan P n (length rows)) rows"

definition stmt :: "pg_env \<Rightarrow> (nat \<Rightarrow> pgdb \<Rightarrow> string + 'a \<times> pgdb) \<Rightarrow> 'a pg" where
  "stmt P f = do {
     n \<leftarrow> gets pgCalls;
     modify (pgCalls_update Suc);
     (case refuses P n of
        Some e \<Rightarrow> throwE e
      | None \<Rightarrow> do {
          d \<leftarrow> gets id;
          (case f n d of
             Inl e \<Rightarrow> throwE e
           | Inr (x, d') \<Rightarrow> do {
               modify (\<lambda>_. d');
               (case losesAnswer P n of Some e \<Rightarrow> throwE e | None \<Rightarrow> ret (Inr x)) }) }) }"

text \<open>A \<open>SELECT\<close> on one table, and a statement that writes one table.\<close>

definition select :: "pg_env \<Rightarrow> (pgdb \<Rightarrow> 'r list) \<Rightarrow> ('r list \<Rightarrow> string + 'a) \<Rightarrow> 'a pg" where
  "select P tbl f = stmt P (\<lambda>n d. case f (visit P n (tbl d)) of Inl e \<Rightarrow> Inl e | Inr x \<Rightarrow> Inr (x, d))"

definition andThen :: "'e + 'a \<Rightarrow> ('a \<Rightarrow> 'e + 'b) \<Rightarrow> 'e + 'b" where
  "andThen r f = (case r of Inl e \<Rightarrow> Inl e | Inr x \<Rightarrow> f x)"

lemma andThen_simps [simp]: "andThen (Inl e) f = Inl e" "andThen (Inr x) f = f x"
  by (simp_all add: andThen_def)

lemma andThen_Inr: "andThen r f = Inr y \<longleftrightarrow> (\<exists>x. r = Inr x \<and> f x = Inr y)"
  by (cases r) auto

text \<open>The errors by their \<open>SQLSTATE\<close>: foreign key, unique, check, range of an integer, datetime syntax, JSON syntax.\<close>

definition ensure :: "bool \<Rightarrow> 'e \<Rightarrow> 'e + unit" where
  "ensure b e = (if b then Inr () else Inl e)"

lemma ensure_Inr [simp]: "ensure b e = Inr u \<longleftrightarrow> b"
  by (simp add: ensure_def)

definition fitsInt :: "int \<Rightarrow> bool" where
  "fitsInt i = (- (2 ^ 31) \<le> i \<and> i < 2 ^ 31)"

definition fitsBigint :: "int \<Rightarrow> bool" where
  "fitsBigint i = (- (2 ^ 63) \<le> i \<and> i < 2 ^ 63)"

definition ts :: "pg_env \<Rightarrow> string \<Rightarrow> string + int" where
  "ts P s = (case timestamptz P s of None \<Rightarrow> Inl ''22007'' | Some t \<Rightarrow> Inr t)"

definition tsOpt :: "pg_env \<Rightarrow> string option \<Rightarrow> string + int option" where
  "tsOpt P s = (case s of None \<Rightarrow> Inr None | Some x \<Rightarrow> andThen (ts P x) (\<lambda>t. Inr (Some t)))"

definition jb :: "pg_env \<Rightarrow> json \<Rightarrow> string + json" where
  "jb P j = (case jsonb P (stringify j) of None \<Rightarrow> Inl ''22P02'' | Some v \<Rightarrow> Inr v)"

definition jbOpt :: "pg_env \<Rightarrow> payload option \<Rightarrow> string + json option" where
  "jbOpt P p = (case p of None \<Rightarrow> Inr None | Some o' \<Rightarrow> andThen (jb P (JObj o')) (\<lambda>v. Inr (Some v)))"

text \<open>\<open>INSERT ... ON CONFLICT DO UPDATE\<close>: the rows that conflict with the new one are updated, otherwise it is added.\<close>

definition upsert :: "('r \<Rightarrow> 'k) \<Rightarrow> ('r \<Rightarrow> 'r \<Rightarrow> 'r) \<Rightarrow> 'r \<Rightarrow> 'r list \<Rightarrow> 'r list" where
  "upsert key upd new rows =
    (if list_ex (\<lambda>old. key old = key new) rows
     then map (\<lambda>old. if key old = key new then upd old new else old) rows else rows @ [new])"

definition hasKey :: "('r \<Rightarrow> 'k) \<Rightarrow> 'k \<Rightarrow> 'r list \<Rightarrow> bool" where
  "hasKey key k rows = list_ex (\<lambda>r. key r = k) rows"

definition updateRows :: "('r \<Rightarrow> bool) \<Rightarrow> ('r \<Rightarrow> 'r) \<Rightarrow> 'r list \<Rightarrow> 'r list" where
  "updateRows P f rows = map (\<lambda>r. if P r then f r else r) rows"

section \<open>Reading rows\<close>

definition toIso :: "pg_env \<Rightarrow> int \<Rightarrow> string" where
  "toIso P t = toISOString (toDate P t)"

text \<open>\<open>r.x ? String(r.x) : undefined\<close>.\<close>

definition textOrUndef :: "string option \<Rightarrow> string option" where
  "textOrUndef s = (if truthy s then s else None)"

definition objOf :: "json \<Rightarrow> payload" where
  "objOf j = (case j of JObj o' \<Rightarrow> o' | _ \<Rightarrow> [])"

definition objOpt :: "json option \<Rightarrow> payload option" where
  "objOpt j = (case j of None \<Rightarrow> None | Some JNull \<Rightarrow> None | Some v \<Rightarrow> Some (objOf v))"

definition rowToContract :: "pg_env \<Rightarrow> contracts_row \<Rightarrow> Contract" where
  "rowToContract P r = \<lparr> ct_id = rc_id r, ct_tenantId = rc_tenant_id r, ct_landlordId = rc_landlord_id r,
     ct_status = rc_status r, ct_escrowCreateTxHash = textOrUndef (rc_escrow_create_tx_hash r),
     ct_depositAmount = textOrUndef (rc_deposit_amount r), ct_stakeAmount = textOrUndef (rc_stake_amount r),
     ct_startsAt = map_option (toIso P) (rc_starts_at r), ct_endsAt = map_option (toIso P) (rc_ends_at r),
     ct_createdAt = toIso P (rc_created_at r), ct_updatedAt = toIso P (rc_updated_at r) \<rparr>"

definition rowToEvidence :: "pg_env \<Rightarrow> evidences_row \<Rightarrow> EvidenceFile" where
  "rowToEvidence P r = \<lparr> ev_id = re_id r, ev_contractId = re_contract_id r, ev_disputeId = textOrUndef (re_dispute_id r),
     ev_uploaderId = re_uploader_id r, ev_category = re_category r, ev_cid = re_cid r, ev_sha256 = re_sha256 r,
     ev_mimeType = re_mime_type r, ev_sizeBytes = re_size_bytes r, ev_version = re_version r,
     ev_isEncrypted = re_is_encrypted r, ev_encryptionScheme = textOrUndef (re_encryption_scheme r),
     ev_retainUntil = map_option (toIso P) (re_retain_until r), ev_retentionClass = re_retention_class r,
     ev_jurisdiction = re_jurisdiction r, ev_legalHoldUntil = map_option (toIso P) (re_legal_hold_until r),
     ev_storageProvider = re_storage_provider r, ev_createdAt = toIso P (re_created_at r),
     ev_localContentHashSeed = re_local_content_hash_seed r \<rparr>"

text \<open>The bundle: an array is taken as it is, anything else is parsed as JSON again. \<open>None\<close>: no array of texts comes out.\<close>

fun jtexts :: "json list \<Rightarrow> string list option" where
  "jtexts [] = Some []"
| "jtexts (JStr s # js) = map_option (Cons s) (jtexts js)"
| "jtexts (j # js) = None"

definition readBundle :: "json \<Rightarrow> string list option" where
  "readBundle j = (case j of JArr js \<Rightarrow> jtexts js
     | JStr s \<Rightarrow> (case jsonParse s of Some (JArr js) \<Rightarrow> jtexts js | _ \<Rightarrow> None)
     | _ \<Rightarrow> None)"

definition rowToDispute :: "pg_env \<Rightarrow> disputes_row \<Rightarrow> string + DisputeCase" where
  "rowToDispute P r =
    (case readBundle (rd_evidence_bundle r) of
       None \<Rightarrow> Inl ''SyntaxError''
     | Some evidenceBundle \<Rightarrow> Inr \<lparr> ds_id = rd_id r, ds_contractId = rd_contract_id r, ds_raisedBy = rd_raised_by r,
         ds_reasonCode = rd_reason_code r, ds_status = rd_status r, ds_evidenceBundle = evidenceBundle,
         ds_createdAt = toIso P (rd_created_at r), ds_updatedAt = toIso P (rd_updated_at r),
         ds_reviewDeadlineAt = map_option (toIso P) (rd_review_deadline_at r),
         ds_escalatedAt = map_option (toIso P) (rd_escalated_at r) \<rparr>)"

definition rowToVote :: "pg_env \<Rightarrow> votes_row \<Rightarrow> DisputeVerifierVoteRecord" where
  "rowToVote P r = \<lparr> vv_id = rv_id r, vv_disputeId = rv_dispute_id r, vv_verifierId = rv_verifier_id r,
     vv_recommendation = rv_recommendation r, vv_createdAt = toIso P (rv_created_at r) \<rparr>"

definition rowToRegistry :: "pg_env \<Rightarrow> registry_row \<Rightarrow> DisputeVerifierRegistryEntry" where
  "rowToRegistry P r = \<lparr> vr_id = rg_id r, vr_verifierId = rg_verifier_id r,
     vr_displayLabel = textOrUndef (rg_display_label r), vr_active = rg_active r, vr_createdAt = toIso P (rg_created_at r) \<rparr>"

definition rowToXrpl :: "pg_env \<Rightarrow> xrpl_txs_row \<Rightarrow> XrplTransaction" where
  "rowToXrpl P r = \<lparr> tx_id = rx_id r, tx_txHash = rx_tx_hash r, tx_txType = rx_tx_type r,
     tx_account = textOrUndef (rx_account r), tx_disputeId = textOrUndef (rx_dispute_id r), tx_network = rx_network r,
     tx_trackingStatus = rx_tracking_status r, tx_validated = rx_validated r, tx_ledgerIndex = rx_ledger_index r,
     tx_resultCode = textOrUndef (rx_result_code r), tx_outcomeClass = rx_outcome_class r, tx_retries = rx_retries r,
     tx_lastCheckedAt = toIso P (rx_last_checked_at r), tx_escrowOwner = textOrUndef (rx_escrow_owner r),
     tx_escrowDestination = textOrUndef (rx_escrow_destination r), tx_escrowOfferSequence = rx_escrow_offer_sequence r,
     tx_escrowSubmitterAccount = textOrUndef (rx_escrow_submitter_account r) \<rparr>"

definition rowToSettlement :: "pg_env \<Rightarrow> settlements_row \<Rightarrow> SettlementRecord" where
  "rowToSettlement P r = \<lparr> st_id = rs_id r, st_contractId = rs_contract_id r, st_periodYear = rs_period_year r,
     st_periodMonth = rs_period_month r, st_status = rs_status r, st_lastLedgerIndex = rs_last_ledger_index r,
     st_ledgerCloseCount = Some (rs_ledger_close_count r), st_createdAt = toIso P (rs_created_at r),
     st_updatedAt = toIso P (rs_updated_at r), st_amountMinor = rs_amount_minor r,
     st_currencyCode = Some (if rs_currency_code r = '''' then ''XRP'' else rs_currency_code r),
     st_batchId = textOrUndef (rs_batch_id r),
     st_periodMode = Some (if rs_period_mode r = '''' then ''calendar_utc'' else rs_period_mode r),
     st_confirmedAt = map_option (toIso P) (rs_confirmed_at r) \<rparr>"

text \<open>The filter of an export job as JSON and back; members that are \<open>undefined\<close> are left out.\<close>

definition filterJson :: "AuditFilter \<Rightarrow> json" where
  "filterJson f = JObj [(''entityType'', jopt (af_entityType f)), (''entityId'', jopt (af_entityId f)),
     (''from'', jopt (af_from f)), (''to'', jopt (af_to f))]"

definition textField :: "payload \<Rightarrow> string \<Rightarrow> string option" where
  "textField o' k = (case jfield o' k of JStr s \<Rightarrow> Some s | _ \<Rightarrow> None)"

definition filterOf :: "payload \<Rightarrow> AuditFilter" where
  "filterOf o' = \<lparr> af_entityType = textField o' ''entityType'', af_entityId = textField o' ''entityId'',
     af_from = textField o' ''from'', af_to = textField o' ''to'' \<rparr>"

text \<open>A value that is no object is printed and parsed as JSON once more, which only a text holding JSON survives.\<close>

definition readFilter :: "json \<Rightarrow> AuditFilter option" where
  "readFilter j = (case j of JObj o' \<Rightarrow> Some (filterOf o') | JNull \<Rightarrow> Some (filterOf [])
     | JStr s \<Rightarrow> (case jsonParse s of Some (JObj o') \<Rightarrow> Some (filterOf o') | _ \<Rightarrow> None)
     | _ \<Rightarrow> None)"

definition rowToExportJob :: "pg_env \<Rightarrow> export_jobs_row \<Rightarrow> string + ExportJobRecord" where
  "rowToExportJob P r =
    (case readFilter (rk_filter_json r) of
       None \<Rightarrow> Inl ''SyntaxError''
     | Some filter' \<Rightarrow> Inr \<lparr> ej_id = rk_id r, ej_kind = rk_kind r, ej_status = rk_status r, ej_filter = filter',
         ej_maxExport = rk_max_export r, ej_resultNdjson = rk_result_ndjson r, ej_error = rk_error r,
         ej_createdAt = toIso P (rk_created_at r), ej_updatedAt = toIso P (rk_updated_at r) \<rparr>)"

definition rowToAudit :: "pg_env \<Rightarrow> audits_row \<Rightarrow> AuditLog" where
  "rowToAudit P r = \<lparr> au_id = ra_id r, au_entityType = ra_entity_type r, au_entityId = ra_entity_id r,
     au_action = ra_action r, au_actorId = ra_actor_id r, au_before = objOpt (ra_before_json r),
     au_after = objOpt (ra_after_json r), au_metadata = objOpt (ra_metadata_json r), au_createdAt = toIso P (ra_created_at r) \<rparr>"

definition rowToEvent :: "pg_env \<Rightarrow> events_row \<Rightarrow> EventEnvelope" where
  "rowToEvent P r = \<lparr> en_eventId = rw_event_id r, en_eventType = rw_event_type r, en_occurredAt = toIso P (rw_occurred_at r),
     en_entityType = rw_entity_type r, en_entityId = rw_entity_id r, en_payload = objOf (rw_payload r), en_traceId = rw_trace_id r \<rparr>"

definition rowToDelayedJob :: "pg_env \<Rightarrow> delayed_jobs_row \<Rightarrow> DelayedJob" where
  "rowToDelayedJob P r = \<lparr> dj_id = rj_id r, dj_kind = rj_kind r, dj_payload = objOf (rj_payload r),
     dj_runAfter = toIso P (rj_run_after r), dj_attempts = rj_attempts r, dj_maxAttempts = rj_max_attempts r,
     dj_lockedUntil = map_option (toIso P) (rj_locked_until r), dj_lastError = rj_last_error r,
     dj_createdAt = toIso P (rj_created_at r), dj_updatedAt = toIso P (rj_updated_at r) \<rparr>"

definition rowToNotification :: "pg_env \<Rightarrow> notifications_row \<Rightarrow> NotificationEvent" where
  "rowToNotification P r = \<lparr> nt_id = rn_id r, nt_eventType = rn_event_type r, nt_recipientId = rn_recipient_id r,
     nt_channel = rn_channel r, nt_status = rn_status r, nt_payload = objOf (rn_payload r), nt_createdAt = toIso P (rn_created_at r),
     nt_updatedAt = Some (toIso P (rn_updated_at r)), nt_attemptCount = Some (rn_attempt_count r),
     nt_nextAttemptAt = map_option (toIso P) (rn_next_attempt_at r), nt_lastError = textOrUndef (rn_last_error r),
     nt_deadLetter = Some (rn_dead_letter r) \<rparr>"

definition rowToNotificationOutbox :: "pg_env \<Rightarrow> outbox_row \<Rightarrow> NotificationOutboxRecord" where
  "rowToNotificationOutbox P r = \<lparr> ox_id = ro_id r, ox_idempotencyKey = ro_idempotency_key r, ox_eventType = ro_event_type r,
     ox_recipientId = ro_recipient_id r, ox_channel = ro_channel r, ox_payload = objOf (ro_payload r), ox_status = ro_status r,
     ox_attempts = ro_attempts r, ox_lastError = textOrUndef (ro_last_error r), ox_createdAt = toIso P (ro_created_at r),
     ox_updatedAt = toIso P (ro_updated_at r), ox_processingStartedAt = map_option (toIso P) (ro_processing_started_at r),
     ox_dispatchedNotificationId = textOrUndef (ro_dispatched_notification_id r) \<rparr>"

end
