(* ===== verification/Postgres.thy ===== *)
theory Postgres
  imports PgTables
begin

text \<open>
  \<open>repository/postgres-repository.ts\<close>: every operation of the repository as the statements it sends. The names carry the suffix
  \<open>Pg\<close>, since the in-memory repository has the same operations.
\<close>

text \<open>\<open>rows[0] ? f(rows[0]) : undefined\<close>.\<close>

definition firstRow :: "('r \<Rightarrow> 'a) \<Rightarrow> 'r list \<Rightarrow> string + 'a option" where
  "firstRow f rows = Inr (case rows of [] \<Rightarrow> None | r # _ \<Rightarrow> Some (f r))"

definition firstRowE :: "('r \<Rightarrow> string + 'a) \<Rightarrow> 'r list \<Rightarrow> string + 'a option" where
  "firstRowE f rows = (case rows of [] \<Rightarrow> Inr None | r # _ \<Rightarrow> andThen (f r) (\<lambda>x. Inr (Some x)))"

fun mapRows :: "('r \<Rightarrow> 'e + 'a) \<Rightarrow> 'r list \<Rightarrow> 'e + 'a list" where
  "mapRows f [] = Inr []"
| "mapRows f (r # rs) = andThen (f r) (\<lambda>x. andThen (mapRows f rs) (\<lambda>xs. Inr (x # xs)))"

section \<open>Contracts\<close>

definition pingStoragePg :: "pg_env \<Rightarrow> (pgdb, bool \<times> string option) state" where
  "pingStoragePg P = do {
     r \<leftarrow> stmt P (\<lambda>n d. Inr ((), d));
     ret (case r of Inl e \<Rightarrow> (False, Some e) | Inr _ \<Rightarrow> (True, None)) }"

definition getContractPg :: "pg_env \<Rightarrow> string \<Rightarrow> Contract option pg" where
  "getContractPg P i = select P tContracts (\<lambda>rows. firstRow (rowToContract P) (filter (\<lambda>r. rc_id r = i) rows))"

definition contractRow :: "pg_env \<Rightarrow> Contract \<Rightarrow> string + contracts_row" where
  "contractRow P c =
     andThen (tsOpt P (ct_startsAt c)) (\<lambda>s. andThen (tsOpt P (ct_endsAt c)) (\<lambda>e.
     andThen (ts P (ct_createdAt c)) (\<lambda>cr. andThen (ts P (ct_updatedAt c)) (\<lambda>u.
     Inr \<lparr> rc_id = ct_id c, rc_tenant_id = ct_tenantId c, rc_landlord_id = ct_landlordId c, rc_status = ct_status c,
       rc_escrow_create_tx_hash = ct_escrowCreateTxHash c, rc_deposit_amount = ct_depositAmount c,
       rc_stake_amount = ct_stakeAmount c, rc_starts_at = s, rc_ends_at = e, rc_created_at = cr, rc_updated_at = u \<rparr>))))"

definition saveContractPg :: "pg_env \<Rightarrow> Contract \<Rightarrow> unit pg" where
  "saveContractPg P c = stmt P (\<lambda>n d. andThen (contractRow P c) (\<lambda>row.
     Inr ((), d\<lparr>tContracts := upsert rc_id (\<lambda>old new. new\<lparr>rc_created_at := rc_created_at old\<rparr>) row (tContracts d)\<rparr>)))"

definition hasContractPg :: "pg_env \<Rightarrow> string \<Rightarrow> bool pg" where
  "hasContractPg P i = select P tContracts (\<lambda>rows. Inr (take 1 (filter (\<lambda>r. rc_id r = i) rows) \<noteq> []))"

section \<open>Evidence\<close>

definition getEvidencePg :: "pg_env \<Rightarrow> string \<Rightarrow> EvidenceFile option pg" where
  "getEvidencePg P i = select P tEvidences (\<lambda>rows. firstRow (rowToEvidence P) (filter (\<lambda>r. re_id r = i) rows))"

definition evidenceRow :: "pg_env \<Rightarrow> EvidenceFile \<Rightarrow> string + evidences_row" where
  "evidenceRow P e =
     andThen (ensure (fitsInt (int (ev_sizeBytes e)) \<and> fitsInt (int (ev_version e))) ''22003'') (\<lambda>_.
     andThen (tsOpt P (ev_retainUntil e)) (\<lambda>ru. andThen (tsOpt P (ev_legalHoldUntil e)) (\<lambda>lh. andThen (ts P (ev_createdAt e)) (\<lambda>cr.
     Inr \<lparr> re_id = ev_id e, re_contract_id = ev_contractId e, re_dispute_id = ev_disputeId e, re_uploader_id = ev_uploaderId e,
       re_category = ev_category e, re_cid = ev_cid e, re_sha256 = ev_sha256 e, re_mime_type = ev_mimeType e,
       re_size_bytes = ev_sizeBytes e, re_version = ev_version e, re_is_encrypted = ev_isEncrypted e,
       re_encryption_scheme = ev_encryptionScheme e, re_retain_until = ru, re_retention_class = ev_retentionClass e,
       re_jurisdiction = ev_jurisdiction e, re_legal_hold_until = lh, re_storage_provider = ev_storageProvider e,
       re_local_content_hash_seed = ev_localContentHashSeed e, re_created_at = cr \<rparr>))))"

definition saveEvidencePg :: "pg_env \<Rightarrow> EvidenceFile \<Rightarrow> unit pg" where
  "saveEvidencePg P e = stmt P (\<lambda>n d. andThen (evidenceRow P e) (\<lambda>row.
     andThen (ensure (hasKey rc_id (ev_contractId e) (tContracts d)) ''23503'') (\<lambda>_.
     Inr ((), d\<lparr>tEvidences := upsert re_id (\<lambda>old new. new\<lparr>re_created_at := re_created_at old\<rparr>) row (tEvidences d)\<rparr>))))"

definition findEvidenceByCidPg :: "pg_env \<Rightarrow> string \<Rightarrow> EvidenceFile option pg" where
  "findEvidenceByCidPg P cid = select P tEvidences (\<lambda>rows. firstRow (rowToEvidence P) (take 1 (filter (\<lambda>r. re_cid r = cid) rows)))"

definition countEvidenceVersionsPg :: "pg_env \<Rightarrow> string \<Rightarrow> string option \<Rightarrow> EvidenceCategory \<Rightarrow> nat pg" where
  "countEvidenceVersionsPg P contractId disputeId category = select P tEvidences (\<lambda>rows.
     Inr (length (filter (\<lambda>r. re_contract_id r = contractId \<and> re_dispute_id r = disputeId \<and> re_category r = category) rows)))"

definition hasEvidencePg :: "pg_env \<Rightarrow> string \<Rightarrow> bool pg" where
  "hasEvidencePg P i = select P tEvidences (\<lambda>rows. Inr (take 1 (filter (\<lambda>r. re_id r = i) rows) \<noteq> []))"

text \<open>The \<open>WHERE\<close> clause of the retention run; comparisons with \<open>NULL\<close> are guarded by \<open>IS NULL\<close> tests.\<close>

definition pastRetentionRow :: "int \<Rightarrow> evidences_row \<Rightarrow> bool" where
  "pastRetentionRow now r =
    ((case re_retain_until r of None \<Rightarrow> False | Some u \<Rightarrow> u < now) \<and>
     \<not> ((re_retention_class r = LegalHold \<and> (case re_legal_hold_until r of None \<Rightarrow> True | Some h \<Rightarrow> now \<le> h)) \<or>
        (re_retention_class r \<noteq> LegalHold \<and> (case re_legal_hold_until r of None \<Rightarrow> False | Some h \<Rightarrow> now \<le> h))))"

definition listEvidencesPastRetentionPg :: "pg_env \<Rightarrow> string \<Rightarrow> EvidenceFile list pg" where
  "listEvidencesPastRetentionPg P now = select P tEvidences (\<lambda>rows. andThen (ts P now) (\<lambda>t.
     Inr (map (rowToEvidence P) (filter (pastRetentionRow t) rows))))"

definition deleteEvidencePg :: "pg_env \<Rightarrow> string \<Rightarrow> unit pg" where
  "deleteEvidencePg P i = stmt P (\<lambda>n d. Inr ((), d\<lparr>tEvidences := filter (\<lambda>r. re_id r \<noteq> i) (tEvidences d)\<rparr>))"

section \<open>Disputes, votes, registry, decisions\<close>

definition getDisputePg :: "pg_env \<Rightarrow> string \<Rightarrow> DisputeCase option pg" where
  "getDisputePg P i = select P tDisputes (\<lambda>rows. firstRowE (rowToDispute P) (filter (\<lambda>r. rd_id r = i) rows))"

definition disputeRow :: "pg_env \<Rightarrow> DisputeCase \<Rightarrow> string + disputes_row" where
  "disputeRow P c =
     andThen (jb P (JArr (map JStr (ds_evidenceBundle c)))) (\<lambda>b.
     andThen (ts P (ds_createdAt c)) (\<lambda>cr. andThen (ts P (ds_updatedAt c)) (\<lambda>u.
     andThen (tsOpt P (ds_reviewDeadlineAt c)) (\<lambda>rd. andThen (tsOpt P (ds_escalatedAt c)) (\<lambda>es.
     Inr \<lparr> rd_id = ds_id c, rd_contract_id = ds_contractId c, rd_raised_by = ds_raisedBy c, rd_reason_code = ds_reasonCode c,
       rd_status = ds_status c, rd_evidence_bundle = b, rd_created_at = cr, rd_updated_at = u, rd_review_deadline_at = rd,
       rd_escalated_at = es \<rparr>)))))"

definition saveDisputePg :: "pg_env \<Rightarrow> DisputeCase \<Rightarrow> unit pg" where
  "saveDisputePg P c = stmt P (\<lambda>n d. andThen (disputeRow P c) (\<lambda>row.
     andThen (ensure (hasKey rc_id (ds_contractId c) (tContracts d)) ''23503'') (\<lambda>_.
     Inr ((), d\<lparr>tDisputes := upsert rd_id (\<lambda>old new. new\<lparr>rd_created_at := rd_created_at old\<rparr>) row (tDisputes d)\<rparr>))))"

definition voteRow :: "pg_env \<Rightarrow> DisputeVerifierVoteRecord \<Rightarrow> string + votes_row" where
  "voteRow P v = andThen (ts P (vv_createdAt v)) (\<lambda>cr.
     Inr \<lparr> rv_id = vv_id v, rv_dispute_id = vv_disputeId v, rv_verifier_id = vv_verifierId v,
       rv_recommendation = vv_recommendation v, rv_created_at = cr \<rparr>)"

definition appendDisputeVerifierVotePg :: "pg_env \<Rightarrow> DisputeVerifierVoteRecord \<Rightarrow> unit pg" where
  "appendDisputeVerifierVotePg P v = stmt P (\<lambda>n d. andThen (voteRow P v) (\<lambda>row.
     andThen (ensure (hasKey rd_id (vv_disputeId v) (tDisputes d)) ''23503'') (\<lambda>_.
     andThen (ensure (\<not> hasKey rv_id (vv_id v) (tVotes d)) ''23505'') (\<lambda>_.
     Inr ((), d\<lparr>tVotes := tVotes d @ [row]\<rparr>)))))"

definition listDisputeVerifierVotesPg :: "pg_env \<Rightarrow> string \<Rightarrow> DisputeVerifierVoteRecord list pg" where
  "listDisputeVerifierVotesPg P disputeId = select P tVotes (\<lambda>rows.
     Inr (map (rowToVote P) (sortBy (\<lambda>a b. rv_created_at a \<le> rv_created_at b) (filter (\<lambda>r. rv_dispute_id r = disputeId) rows))))"

definition listDisputeVerifierRegistryPg :: "pg_env \<Rightarrow> DisputeVerifierRegistryEntry list pg" where
  "listDisputeVerifierRegistryPg P = select P tRegistry (\<lambda>rows.
     Inr (map (rowToRegistry P) (sortBy (\<lambda>a b. rg_created_at a \<le> rg_created_at b) rows)))"

text \<open>The conflict is on the verifier; an identifier that is taken by another verifier violates the primary key.\<close>

definition registryRow :: "pg_env \<Rightarrow> DisputeVerifierRegistryEntry \<Rightarrow> string + registry_row" where
  "registryRow P e = andThen (ts P (vr_createdAt e)) (\<lambda>cr.
     Inr \<lparr> rg_id = vr_id e, rg_verifier_id = vr_verifierId e, rg_display_label = vr_displayLabel e, rg_active = vr_active e,
       rg_created_at = cr \<rparr>)"

definition upsertDisputeVerifierRegistryEntryPg :: "pg_env \<Rightarrow> DisputeVerifierRegistryEntry \<Rightarrow> unit pg" where
  "upsertDisputeVerifierRegistryEntryPg P e = stmt P (\<lambda>n d. andThen (registryRow P e) (\<lambda>row.
     andThen (ensure (hasKey rg_verifier_id (vr_verifierId e) (tRegistry d) \<or> \<not> hasKey rg_id (vr_id e) (tRegistry d)) ''23505'') (\<lambda>_.
     Inr ((), d\<lparr>tRegistry := upsert rg_verifier_id
         (\<lambda>old new. old\<lparr>rg_display_label := rg_display_label new, rg_active := rg_active new\<rparr>) row (tRegistry d)\<rparr>))))"

text \<open>The column \<open>decided_by\<close> holds the only literal of its type.\<close>

definition decisionRow :: "pg_env \<Rightarrow> CaseDecision \<Rightarrow> string + decisions_row" where
  "decisionRow P c = andThen (ts P (cd_createdAt c)) (\<lambda>cr.
     Inr \<lparr> rq_id = cd_id c, rq_dispute_id = cd_disputeId c, rq_decision = cd_decision c, rq_memo = cd_memo c,
       rq_created_at = cr \<rparr>)"

definition saveDecisionPg :: "pg_env \<Rightarrow> CaseDecision \<Rightarrow> unit pg" where
  "saveDecisionPg P c = stmt P (\<lambda>n d. andThen (decisionRow P c) (\<lambda>row.
     andThen (ensure (hasKey rd_id (cd_disputeId c) (tDisputes d)) ''23503'') (\<lambda>_.
     Inr ((), d\<lparr>tDecisions := upsert rq_id (\<lambda>old new. new\<lparr>rq_created_at := rq_created_at old\<rparr>) row (tDecisions d)\<rparr>))))"

section \<open>Statistics\<close>

text \<open>
  \<open>GROUP BY\<close> with \<open>count\<close>: the groups come in any order. \<open>weight\<close> says how often a row of the table occurs in
  the rows that are grouped. The queries of one report are sent at the same time; all of them only read.
\<close>

definition groupCount :: "pg_env \<Rightarrow> (pgdb \<Rightarrow> 'r list) \<Rightarrow> ('r \<Rightarrow> string) \<Rightarrow> (string + (pgdb \<Rightarrow> 'r \<Rightarrow> nat)) \<Rightarrow> (string, nat) jsmap pg" where
  "groupCount P tbl key weight = stmt P (\<lambda>n d. andThen weight (\<lambda>k.
     Inr (countBy id (concat (map (\<lambda>r. replicate (k d r) (key r)) (visit P n (tbl d)))), d)))"

definition countRows :: "pg_env \<Rightarrow> (pgdb \<Rightarrow> 'r list) \<Rightarrow> ('r \<Rightarrow> bool) \<Rightarrow> nat pg" where
  "countRows P tbl cond = select P tbl (\<lambda>rows. Inr (length (filter cond rows)))"

definition getOperatorStatsSummaryPg :: "pg_env \<Rightarrow> OperatorStatsSummary pg" where
  "getOperatorStatsSummaryPg P =
     bindE (groupCount P tContracts (\<lambda>r. contractStatus_str (rc_status r)) (Inr (\<lambda>d r. 1))) (\<lambda>c.
     bindE (groupCount P tDisputes (\<lambda>r. disputeStatus_str (rd_status r)) (Inr (\<lambda>d r. 1))) (\<lambda>ds.
     bindE (groupCount P tXrplTxs (\<lambda>r. tracking_str (rx_tracking_status r)) (Inr (\<lambda>d r. 1))) (\<lambda>x.
     bindE (groupCount P tNotifications (\<lambda>r. notificationStatus_str (rn_status r)) (Inr (\<lambda>d r. 1))) (\<lambda>n.
     bindE (countRows P tEvidences (\<lambda>r. True)) (\<lambda>e.
     bindE (groupCount P tSettlements (\<lambda>r. settlementStatus_str (rs_status r)) (Inr (\<lambda>d r. 1))) (\<lambda>s.
     ret (Inr \<lparr> os_contractsByStatus = c, os_disputesByStatus = ds, os_xrplByTracking = x, os_notificationsByStatus = n,
       os_evidencesTotal = e, os_settlementsByStatus = s \<rparr>)))))))"

text \<open>\<open>($1 IS NULL OR x >= $1) AND ($2 IS NULL OR x <= $2)\<close>, and the scope of a contract.\<close>

definition between :: "int option \<Rightarrow> int option \<Rightarrow> int \<Rightarrow> bool" where
  "between from to x = ((case from of None \<Rightarrow> True | Some f \<Rightarrow> f \<le> x) \<and> (case to of None \<Rightarrow> True | Some t \<Rightarrow> x \<le> t))"

definition scopeRow :: "ReportSummaryParams \<Rightarrow> contracts_row \<Rightarrow> bool" where
  "scopeRow p c = ((rp_tenantId p = None \<or> rp_tenantId p = Some (rc_tenant_id c)) \<and>
     (rp_landlordId p = None \<or> rp_landlordId p = Some (rc_landlord_id c)))"

text \<open>The number of contracts in scope that a row joins with.\<close>

definition joined :: "ReportSummaryParams \<Rightarrow> string \<Rightarrow> pgdb \<Rightarrow> nat" where
  "joined p contractId d = length (filter (\<lambda>c. rc_id c = contractId \<and> scopeRow p c) (tContracts d))"

definition xrplScopeRow :: "ReportSummaryParams \<Rightarrow> pgdb \<Rightarrow> xrpl_txs_row \<Rightarrow> bool" where
  "xrplScopeRow p d x = ((rp_tenantId p = None \<and> rp_landlordId p = None) \<or>
     list_ex (\<lambda>r. Some (rd_id r) = rx_dispute_id x \<and> 0 < joined p (rd_contract_id r) d) (tDisputes d))"

definition windowed :: "pg_env \<Rightarrow> ReportSummaryParams \<Rightarrow> (int option \<Rightarrow> int option \<Rightarrow> 'a) \<Rightarrow> string + 'a" where
  "windowed P p k = andThen (tsOpt P (rp_from p)) (\<lambda>f. andThen (tsOpt P (rp_to p)) (\<lambda>t. Inr (k f t)))"

definition nowIsoPg :: "env \<Rightarrow> (pgdb, string) state" where
  "nowIsoPg E = do { n \<leftarrow> gets pgCalls; modify (pgCalls_update Suc); ret (toISOString (clockMs E n)) }"

definition randomIdPg :: "env \<Rightarrow> string \<Rightarrow> (pgdb, string) state" where
  "randomIdPg E prefix = do { n \<leftarrow> gets pgCalls; modify (pgCalls_update Suc); ret (prefix @ ''_'' @ uuid16 E n) }"

definition getReportsSummaryPg :: "env \<Rightarrow> pg_env \<Rightarrow> ReportSummaryParams \<Rightarrow> ReportSummary pg" where
  "getReportsSummaryPg E P p =
     bindE (getOperatorStatsSummaryPg P) (\<lambda>global.
     bindE (groupCount P tContracts (\<lambda>r. contractStatus_str (rc_status r)) (windowed P p (\<lambda>f t d r.
       if between f t (rc_updated_at r) \<and> scopeRow p r then 1 else 0))) (\<lambda>c.
     bindE (groupCount P tDisputes (\<lambda>r. disputeStatus_str (rd_status r)) (windowed P p (\<lambda>f t d r.
       if between f t (rd_updated_at r) then joined p (rd_contract_id r) d else 0))) (\<lambda>ds.
     bindE (groupCount P tSettlements (\<lambda>r. settlementStatus_str (rs_status r)) (windowed P p (\<lambda>f t d r.
       if between f t (rs_updated_at r) then joined p (rs_contract_id r) d else 0))) (\<lambda>s.
     bindE (groupCount P tXrplTxs (\<lambda>r. tracking_str (rx_tracking_status r)) (windowed P p (\<lambda>f t d r.
       if between f t (rx_last_checked_at r) \<and> xrplScopeRow p d r then 1 else 0))) (\<lambda>x.
     bindE (select P tAudits (\<lambda>rows. windowed P p (\<lambda>f t. length (filter (\<lambda>r. between f t (ra_created_at r)) rows)))) (\<lambda>a. do {
       now \<leftarrow> nowIsoPg E;
       ret (Inr \<lparr> rr_generatedAt = now, rr_window = p, rr_global = global,
         rr_scoped = \<lparr> rs_contractsByStatus = c, rs_disputesByStatus = ds, rs_settlementsByStatus = s, rs_xrplByTracking = x,
           rs_auditsCount = a \<rparr> \<rparr>) }))))))"

section \<open>Tracked transactions\<close>

definition getXrplTxPg :: "pg_env \<Rightarrow> string \<Rightarrow> XrplTransaction option pg" where
  "getXrplTxPg P h = select P tXrplTxs (\<lambda>rows. firstRow (rowToXrpl P) (filter (\<lambda>r. rx_tx_hash r = h) rows))"

definition xrplRow :: "pg_env \<Rightarrow> XrplTransaction \<Rightarrow> string + xrpl_txs_row" where
  "xrplRow P t =
     andThen (ensure ((case tx_ledgerIndex t of None \<Rightarrow> True | Some i \<Rightarrow> fitsInt i) \<and> fitsInt (int (tx_retries t)) \<and>
       (case tx_escrowOfferSequence t of None \<Rightarrow> True | Some i \<Rightarrow> fitsBigint i)) ''22003'') (\<lambda>_.
     andThen (ts P (tx_lastCheckedAt t)) (\<lambda>lc.
     Inr \<lparr> rx_tx_hash = tx_txHash t, rx_id = tx_id t, rx_tx_type = tx_txType t, rx_account = tx_account t,
       rx_dispute_id = tx_disputeId t, rx_network = tx_network t, rx_tracking_status = tx_trackingStatus t,
       rx_validated = tx_validated t, rx_ledger_index = tx_ledgerIndex t, rx_result_code = tx_resultCode t,
       rx_outcome_class = tx_outcomeClass t, rx_retries = tx_retries t, rx_last_checked_at = lc,
       rx_escrow_owner = tx_escrowOwner t, rx_escrow_destination = tx_escrowDestination t,
       rx_escrow_offer_sequence = tx_escrowOfferSequence t, rx_escrow_submitter_account = tx_escrowSubmitterAccount t \<rparr>))"

definition saveXrplTxPg :: "pg_env \<Rightarrow> XrplTransaction \<Rightarrow> unit pg" where
  "saveXrplTxPg P t = stmt P (\<lambda>n d. andThen (xrplRow P t) (\<lambda>row.
     Inr ((), d\<lparr>tXrplTxs := upsert rx_tx_hash (\<lambda>old new. new) row (tXrplTxs d)\<rparr>)))"

definition listXrplTxsPg :: "pg_env \<Rightarrow> XrplTransaction list pg" where
  "listXrplTxsPg P = select P tXrplTxs (\<lambda>rows. Inr (map (rowToXrpl P) rows))"

text \<open>\<open>trim\<close> of SQL removes spaces only. \<open>DISTINCT\<close> leaves the order of the accounts open.\<close>

definition subscribable :: "xrpl_txs_row \<Rightarrow> bool" where
  "subscribable r = (\<not> rx_validated r \<and> (case rx_account r of None \<Rightarrow> False | Some a \<Rightarrow> list_ex (\<lambda>c. c \<noteq> CHR '' '') a))"

definition listXrplSubscribeAccountsPg :: "pg_env \<Rightarrow> nat \<Rightarrow> string list pg" where
  "listXrplSubscribeAccountsPg P mx = stmt P (\<lambda>n d.
     Inr (take mx (visit P n (remdups (map (\<lambda>r. the (rx_account r)) (filter subscribable (tXrplTxs d))))), d))"

definition tryRecordXrplIngestionEventPg ::
  "env \<Rightarrow> pg_env \<Rightarrow> int \<Rightarrow> string \<Rightarrow> string \<Rightarrow> string option \<Rightarrow> bool pg" where
  "tryRecordXrplIngestionEventPg E P ledgerIndex txHash eventSource engineResult = do {
     i \<leftarrow> randomIdPg E ''xie'';
     now \<leftarrow> nowIsoPg E;
     stmt P (\<lambda>n d. andThen (ensure (fitsBigint ledgerIndex) ''22003'') (\<lambda>_. andThen (ts P now) (\<lambda>cr.
       if hasKey (\<lambda>r. (ri_ledger_index r, ri_tx_hash r, ri_event_source r)) (ledgerIndex, txHash, eventSource) (tIngestion d)
       then Inr (False, d)
       else andThen (ensure (\<not> hasKey ri_id i (tIngestion d)) ''23505'') (\<lambda>_.
         Inr (True, d\<lparr>tIngestion := tIngestion d @ [\<lparr> ri_id = i, ri_ledger_index = ledgerIndex, ri_tx_hash = txHash,
           ri_event_source = eventSource, ri_engine_result = engineResult, ri_created_at = cr \<rparr>]\<rparr>))))) }"

section \<open>Notifications and outbox\<close>

definition notificationRow :: "pg_env \<Rightarrow> NotificationEvent \<Rightarrow> string + notifications_row" where
  "notificationRow P n =
     andThen (jb P (JObj (nt_payload n))) (\<lambda>p. andThen (ts P (nt_createdAt n)) (\<lambda>cr.
     andThen (ensure (fitsInt (int (getOr 0 (nt_attemptCount n)))) ''22003'') (\<lambda>_.
     andThen (tsOpt P (nt_nextAttemptAt n)) (\<lambda>na. andThen (ts P (getOr (nt_createdAt n) (nt_updatedAt n))) (\<lambda>u.
     Inr \<lparr> rn_id = nt_id n, rn_event_type = nt_eventType n, rn_recipient_id = nt_recipientId n, rn_channel = nt_channel n,
       rn_status = nt_status n, rn_payload = p, rn_created_at = cr, rn_attempt_count = getOr 0 (nt_attemptCount n),
       rn_next_attempt_at = na, rn_last_error = nt_lastError n, rn_dead_letter = getOr False (nt_deadLetter n),
       rn_updated_at = u \<rparr>)))))"

definition saveNotificationPg :: "pg_env \<Rightarrow> NotificationEvent \<Rightarrow> unit pg" where
  "saveNotificationPg P x = stmt P (\<lambda>n d. andThen (notificationRow P x) (\<lambda>row.
     Inr ((), d\<lparr>tNotifications := upsert rn_id (\<lambda>old new. new\<lparr>rn_created_at := rn_created_at old\<rparr>) row (tNotifications d)\<rparr>)))"

definition getNotificationPg :: "pg_env \<Rightarrow> string \<Rightarrow> NotificationEvent option pg" where
  "getNotificationPg P i = select P tNotifications (\<lambda>rows. firstRow (rowToNotification P) (filter (\<lambda>r. rn_id r = i) rows))"

definition notificationDueRow :: "int \<Rightarrow> notifications_row \<Rightarrow> bool" where
  "notificationDueRow now r = (\<not> rn_dead_letter r \<and> (rn_status r = Queued \<or>
     (rn_status r = NRetryScheduled \<and> (case rn_next_attempt_at r of None \<Rightarrow> True | Some t \<Rightarrow> t \<le> now))))"

definition listDueNotificationsPg :: "pg_env \<Rightarrow> string \<Rightarrow> nat \<Rightarrow> NotificationEvent list pg" where
  "listDueNotificationsPg P now limit = select P tNotifications (\<lambda>rows. andThen (ts P now) (\<lambda>t.
     Inr (map (rowToNotification P) (take limit (sortBy (\<lambda>a b. rn_created_at a \<le> rn_created_at b)
       (filter (notificationDueRow t) rows))))))"

definition outboxRow :: "pg_env \<Rightarrow> NotificationOutboxRecord \<Rightarrow> string + outbox_row" where
  "outboxRow P x =
     andThen (jb P (JObj (ox_payload x))) (\<lambda>p. andThen (ensure (fitsInt (int (ox_attempts x))) ''22003'') (\<lambda>_.
     andThen (ts P (ox_createdAt x)) (\<lambda>cr. andThen (ts P (ox_updatedAt x)) (\<lambda>u. andThen (tsOpt P (ox_processingStartedAt x)) (\<lambda>ps.
     Inr \<lparr> ro_id = ox_id x, ro_idempotency_key = ox_idempotencyKey x, ro_event_type = ox_eventType x,
       ro_recipient_id = ox_recipientId x, ro_channel = ox_channel x, ro_payload = p, ro_status = ox_status x,
       ro_attempts = ox_attempts x, ro_last_error = ox_lastError x, ro_created_at = cr, ro_updated_at = u,
       ro_processing_started_at = ps, ro_dispatched_notification_id = ox_dispatchedNotificationId x \<rparr>)))))"

definition appendNotificationOutboxPg :: "pg_env \<Rightarrow> NotificationOutboxRecord \<Rightarrow> bool pg" where
  "appendNotificationOutboxPg P x = stmt P (\<lambda>n d. andThen (outboxRow P x) (\<lambda>row.
     if hasKey ro_idempotency_key (ox_idempotencyKey x) (tOutbox d) then Inr (False, d)
     else andThen (ensure (\<not> hasKey ro_id (ox_id x) (tOutbox d)) ''23505'') (\<lambda>_.
       Inr (True, d\<lparr>tOutbox := tOutbox d @ [row]\<rparr>))))"

text \<open>
  \<open>WITH c AS (SELECT id ... LIMIT n FOR UPDATE SKIP LOCKED) UPDATE ... FROM c ... RETURNING\<close>: the first rows in the given order are
  updated, and returned in an order of the server's choice. Statements take effect one after the other, so no row is locked
  by another statement while this one runs.
\<close>

definition picked :: "('r \<Rightarrow> 'k) \<Rightarrow> ('r \<Rightarrow> bool) \<Rightarrow> ('r \<Rightarrow> int) \<Rightarrow> nat \<Rightarrow> 'r list \<Rightarrow> 'k list" where
  "picked key cond at limit rows = map key (take limit (sortBy (\<lambda>a b. at a \<le> at b) (filter cond rows)))"

definition claim :: "pg_env \<Rightarrow> nat \<Rightarrow> ('r \<Rightarrow> 'k) \<Rightarrow> 'k list \<Rightarrow> ('r \<Rightarrow> 'r) \<Rightarrow> 'r list \<Rightarrow> 'r list \<times> 'r list" where
  "claim P n key ids upd rows =
    (let got = map upd (filter (\<lambda>r. key r \<in> set ids) rows) in
     (inOrder (returns P n (length got)) got, updateRows (\<lambda>r. key r \<in> set ids) upd rows))"

definition claimNotificationOutboxPendingPg :: "pg_env \<Rightarrow> nat \<Rightarrow> string \<Rightarrow> NotificationOutboxRecord list pg" where
  "claimNotificationOutboxPendingPg P limit now = stmt P (\<lambda>n d. andThen (ts P now) (\<lambda>t.
     let c = picked ro_id (\<lambda>r. ro_status r = OPending) ro_created_at limit (visit P n (tOutbox d));
         (got, rows) = claim P n ro_id c
           (\<lambda>r. r\<lparr>ro_status := OProcessing, ro_processing_started_at := Some t, ro_updated_at := t\<rparr>) (tOutbox d) in
     Inr (map (rowToNotificationOutbox P) got, d\<lparr>tOutbox := rows\<rparr>)))"

definition updateNotificationOutboxPg :: "pg_env \<Rightarrow> NotificationOutboxRecord \<Rightarrow> unit pg" where
  "updateNotificationOutboxPg P x = stmt P (\<lambda>n d.
     andThen (jb P (JObj (ox_payload x))) (\<lambda>p. andThen (ensure (fitsInt (int (ox_attempts x))) ''22003'') (\<lambda>_.
     andThen (ts P (ox_updatedAt x)) (\<lambda>u. andThen (tsOpt P (ox_processingStartedAt x)) (\<lambda>ps.
     Inr ((), d\<lparr>tOutbox := updateRows (\<lambda>r. ro_id r = ox_id x)
       (\<lambda>r. r\<lparr>ro_event_type := ox_eventType x, ro_recipient_id := ox_recipientId x, ro_channel := ox_channel x, ro_payload := p,
         ro_status := ox_status x, ro_attempts := ox_attempts x, ro_last_error := ox_lastError x, ro_updated_at := u,
         ro_processing_started_at := ps, ro_dispatched_notification_id := ox_dispatchedNotificationId x\<rparr>) (tOutbox d)\<rparr>))))))"

definition getNotificationOutboxPg :: "pg_env \<Rightarrow> string \<Rightarrow> NotificationOutboxRecord option pg" where
  "getNotificationOutboxPg P i = select P tOutbox (\<lambda>rows. firstRow (rowToNotificationOutbox P) (filter (\<lambda>r. ro_id r = i) rows))"

text \<open>
  The two statements of a page: the count and the rows. \<open>cond\<close> is the \<open>WHERE\<close> clause with its parameters read, \<open>le\<close> the \<open>ORDER BY\<close>.
\<close>

definition pageOf :: "pg_env \<Rightarrow> (pgdb \<Rightarrow> 'r list) \<Rightarrow> (string + ('r \<Rightarrow> bool)) \<Rightarrow> ('r \<Rightarrow> 'r \<Rightarrow> bool) \<Rightarrow> ('r \<Rightarrow> string + 'a) \<Rightarrow>
    ListParams \<Rightarrow> 'a Paginated pg" where
  "pageOf P tbl cond le f p =
     bindE (select P tbl (\<lambda>rows. andThen cond (\<lambda>c. Inr (length (filter c rows))))) (\<lambda>total.
     bindE (select P tbl (\<lambda>rows. andThen cond (\<lambda>c. Inr (slice (lp_offset p) (lp_limit p) (sortBy le (filter c rows)))))) (\<lambda>rows.
     ret (andThen (mapRows f rows) (\<lambda>xs. Inr \<lparr> pg_items = xs, pg_total = total, pg_limit = lp_limit p, pg_offset = lp_offset p \<rparr>))))"

definition listNotificationOutboxPagePg ::
  "pg_env \<Rightarrow> NotificationOutboxStatus option \<Rightarrow> ListParams \<Rightarrow> NotificationOutboxRecord Paginated pg" where
  "listNotificationOutboxPagePg P st p = pageOf P tOutbox (Inr (\<lambda>r. flt_enum st (ro_status r)))
     (\<lambda>a b. ro_created_at b \<le> ro_created_at a) (\<lambda>r. Inr (rowToNotificationOutbox P r)) p"

definition staleRow :: "int \<Rightarrow> outbox_row \<Rightarrow> bool" where
  "staleRow before r = (ro_status r = OProcessing \<and> (case ro_processing_started_at r of None \<Rightarrow> False | Some t \<Rightarrow> t < before))"

definition recoverStaleNotificationOutboxProcessingPg :: "pg_env \<Rightarrow> string \<Rightarrow> string \<Rightarrow> nat pg" where
  "recoverStaleNotificationOutboxProcessingPg P staleBefore now = stmt P (\<lambda>n d.
     andThen (ts P staleBefore) (\<lambda>b. andThen (ts P now) (\<lambda>t.
     Inr (length (filter (staleRow b) (tOutbox d)), d\<lparr>tOutbox := updateRows (staleRow b)
       (\<lambda>r. r\<lparr>ro_status := OPending, ro_processing_started_at := None, ro_updated_at := t\<rparr>) (tOutbox d)\<rparr>))))"

section \<open>Audit log and events\<close>

definition auditRow :: "pg_env \<Rightarrow> AuditLog \<Rightarrow> string + audits_row" where
  "auditRow P a =
     andThen (jbOpt P (au_before a)) (\<lambda>b. andThen (jbOpt P (au_after a)) (\<lambda>f. andThen (jbOpt P (au_metadata a)) (\<lambda>m.
     andThen (ts P (au_createdAt a)) (\<lambda>cr.
     Inr \<lparr> ra_id = au_id a, ra_entity_type = au_entityType a, ra_entity_id = au_entityId a, ra_action = au_action a,
       ra_actor_id = au_actorId a, ra_before_json = b, ra_after_json = f, ra_metadata_json = m, ra_created_at = cr \<rparr>))))"

definition appendAuditPg :: "pg_env \<Rightarrow> AuditLog \<Rightarrow> unit pg" where
  "appendAuditPg P a = stmt P (\<lambda>n d. andThen (auditRow P a) (\<lambda>row.
     andThen (ensure (\<not> hasKey ra_id (au_id a) (tAudits d)) ''23505'') (\<lambda>_. Inr ((), d\<lparr>tAudits := tAudits d @ [row]\<rparr>))))"

definition eventRow :: "pg_env \<Rightarrow> EventEnvelope \<Rightarrow> string + events_row" where
  "eventRow P e =
     andThen (ts P (en_occurredAt e)) (\<lambda>oc. andThen (jb P (JObj (en_payload e))) (\<lambda>p.
     Inr \<lparr> rw_event_id = en_eventId e, rw_event_type = en_eventType e, rw_occurred_at = oc, rw_entity_type = en_entityType e,
       rw_entity_id = en_entityId e, rw_payload = p, rw_trace_id = en_traceId e \<rparr>))"

definition appendEventPg :: "pg_env \<Rightarrow> EventEnvelope \<Rightarrow> unit pg" where
  "appendEventPg P e = stmt P (\<lambda>n d. andThen (eventRow P e) (\<lambda>row.
     andThen (ensure (\<not> hasKey rw_event_id (en_eventId e) (tEvents d)) ''23505'') (\<lambda>_. Inr ((), d\<lparr>tEvents := tEvents d @ [row]\<rparr>))))"

text \<open>\<open>if (filter.x) conditions.push(...)\<close> with a timestamp.\<close>

definition tsIf :: "pg_env \<Rightarrow> string option \<Rightarrow> string + int option" where
  "tsIf P f = tsOpt P (textOrUndef f)"

definition auditFilterBindings :: "pg_env \<Rightarrow> AuditFilter \<Rightarrow> string + (audits_row \<Rightarrow> bool)" where
  "auditFilterBindings P f = andThen (tsIf P (af_from f)) (\<lambda>from. andThen (tsIf P (af_to f)) (\<lambda>to.
     Inr (\<lambda>r. flt (af_entityType f) (ra_entity_type r) \<and> flt (af_entityId f) (ra_entity_id r) \<and>
       between from to (ra_created_at r))))"

text \<open>\<open>ORDER BY created_at ASC, id ASC\<close>.\<close>

definition auditRowLe :: "pg_env \<Rightarrow> audits_row \<Rightarrow> audits_row \<Rightarrow> bool" where
  "auditRowLe P a b = (ra_created_at a < ra_created_at b \<or>
     (ra_created_at a = ra_created_at b \<and> collateLe P (ra_id a) (ra_id b)))"

definition listAuditsPg :: "pg_env \<Rightarrow> AuditFilter \<Rightarrow> AuditLog list pg" where
  "listAuditsPg P f = select P tAudits (\<lambda>rows. andThen (auditFilterBindings P f) (\<lambda>c.
     Inr (map (rowToAudit P) (sortBy (auditRowLe P) (filter c rows)))))"

definition listAuditsPagePg :: "pg_env \<Rightarrow> AuditFilter \<Rightarrow> ListParams \<Rightarrow> AuditLog Paginated pg" where
  "listAuditsPagePg P f p = pageOf P tAudits (auditFilterBindings P f) (auditRowLe P) (\<lambda>r. Inr (rowToAudit P r)) p"

definition afterCursorRow :: "pg_env \<Rightarrow> int \<Rightarrow> string \<Rightarrow> audits_row \<Rightarrow> bool" where
  "afterCursorRow P t i r = (t < ra_created_at r \<or> (ra_created_at r = t \<and> \<not> collateLe P (ra_id r) i))"

definition listAuditsAfterCursorPg :: "pg_env \<Rightarrow> AuditFilter \<Rightarrow> nat \<Rightarrow> string option \<Rightarrow> AuditKeysetPage pg" where
  "listAuditsAfterCursorPg P f limit cursor =
    (let query = (\<lambda>cursorSql. select P tAudits (\<lambda>rows.
           andThen (auditFilterBindings P f) (\<lambda>c. andThen cursorSql (\<lambda>k.
           Inr (keysetPage 0 limit (map (rowToAudit P)
             (take (limit + 1) (sortBy (auditRowLe P) (filter (\<lambda>r. c r \<and> k r) rows)))))))))
     in if truthy cursor then
          (case decodeAuditCursor (the cursor) of
             None \<Rightarrow> throwE ''INVALID_AUDIT_CURSOR''
           | Some dec \<Rightarrow> query (andThen (ts P (cu_createdAt dec)) (\<lambda>t. Inr (afterCursorRow P t (cu_id dec)))))
        else query (Inr (\<lambda>r. True)))"

definition listEventsPg :: "pg_env \<Rightarrow> string option \<Rightarrow> string option \<Rightarrow> string option \<Rightarrow> EventEnvelope list pg" where
  "listEventsPg P entityType entityId eventType = select P tEvents (\<lambda>rows.
     Inr (map (rowToEvent P) (sortBy (\<lambda>a b. rw_occurred_at a \<le> rw_occurred_at b)
       (filter (\<lambda>r. flt entityType (rw_entity_type r) \<and> flt entityId (rw_entity_id r) \<and> flt eventType (rw_event_type r)) rows))))"

section \<open>Delayed jobs\<close>

definition delayedJobRow :: "pg_env \<Rightarrow> DelayedJob \<Rightarrow> string + delayed_jobs_row" where
  "delayedJobRow P j =
     andThen (jb P (JObj (dj_payload j))) (\<lambda>p. andThen (ts P (dj_runAfter j)) (\<lambda>ra.
     andThen (ensure (fitsInt (int (dj_attempts j)) \<and> fitsInt (int (dj_maxAttempts j))) ''22003'') (\<lambda>_.
     andThen (tsOpt P (dj_lockedUntil j)) (\<lambda>lu. andThen (ts P (dj_createdAt j)) (\<lambda>cr. andThen (ts P (dj_updatedAt j)) (\<lambda>u.
     Inr \<lparr> rj_id = dj_id j, rj_kind = dj_kind j, rj_payload = p, rj_run_after = ra, rj_attempts = dj_attempts j,
       rj_max_attempts = dj_maxAttempts j, rj_locked_until = lu, rj_last_error = dj_lastError j, rj_created_at = cr,
       rj_updated_at = u \<rparr>))))))"

definition createDelayedJobIfAbsentPg :: "pg_env \<Rightarrow> DelayedJob \<Rightarrow> bool pg" where
  "createDelayedJobIfAbsentPg P j = stmt P (\<lambda>n d. andThen (delayedJobRow P j) (\<lambda>row.
     if hasKey rj_id (dj_id j) (tDelayedJobs d) then Inr (False, d)
     else Inr (True, d\<lparr>tDelayedJobs := tDelayedJobs d @ [row]\<rparr>)))"

definition jobDueRow :: "string \<Rightarrow> int \<Rightarrow> delayed_jobs_row \<Rightarrow> bool" where
  "jobDueRow kind now r = (rj_kind r = kind \<and> rj_run_after r \<le> now \<and>
     (case rj_locked_until r of None \<Rightarrow> True | Some l \<Rightarrow> l \<le> now))"

text \<open>\<open>new Date(NaN).toISOString()\<close> throws.\<close>

definition claimDueDelayedJobsPg :: "env \<Rightarrow> pg_env \<Rightarrow> string \<Rightarrow> string \<Rightarrow> nat \<Rightarrow> int \<Rightarrow> DelayedJob list pg" where
  "claimDueDelayedJobsPg E P kind now limit lockTtlMs =
    (case dateParse E now of None \<Rightarrow> throwE ''RangeError''
     | Some nowMs \<Rightarrow> stmt P (\<lambda>n d. andThen (ts P now) (\<lambda>t. andThen (ts P (toISOString (nowMs + lockTtlMs))) (\<lambda>lock.
         let ids = picked rj_id (jobDueRow kind t) rj_run_after limit (visit P n (tDelayedJobs d));
             (got, rows) = claim P n rj_id ids (\<lambda>r. r\<lparr>rj_locked_until := Some lock, rj_updated_at := t\<rparr>) (tDelayedJobs d) in
         Inr (map (rowToDelayedJob P) got, d\<lparr>tDelayedJobs := rows\<rparr>)))))"

definition deleteDelayedJobPg :: "pg_env \<Rightarrow> string \<Rightarrow> unit pg" where
  "deleteDelayedJobPg P i = stmt P (\<lambda>n d. Inr ((), d\<lparr>tDelayedJobs := filter (\<lambda>r. rj_id r \<noteq> i) (tDelayedJobs d)\<rparr>))"

definition bumpDelayedJobPg :: "pg_env \<Rightarrow> string \<Rightarrow> string \<Rightarrow> nat \<Rightarrow> string option \<Rightarrow> string \<Rightarrow> unit pg" where
  "bumpDelayedJobPg P i runAfter attempts lastError updatedAt = stmt P (\<lambda>n d.
     andThen (ts P runAfter) (\<lambda>ra. andThen (ensure (fitsInt (int attempts)) ''22003'') (\<lambda>_. andThen (ts P updatedAt) (\<lambda>u.
     Inr ((), d\<lparr>tDelayedJobs := updateRows (\<lambda>r. rj_id r = i)
       (\<lambda>r. r\<lparr>rj_run_after := ra, rj_attempts := attempts, rj_last_error := lastError, rj_updated_at := u, rj_locked_until := None\<rparr>)
       (tDelayedJobs d)\<rparr>)))))"

section \<open>List pages\<close>

definition listContractsPagePg :: "pg_env \<Rightarrow> ContractListFilter \<Rightarrow> ListParams \<Rightarrow> Contract Paginated pg" where
  "listContractsPagePg P f p = pageOf P tContracts
     (andThen (tsIf P (cf_updatedFrom f)) (\<lambda>from. andThen (tsIf P (cf_updatedTo f)) (\<lambda>to.
        Inr (\<lambda>r. flt_enum (cf_status f) (rc_status r) \<and> flt (cf_tenantId f) (rc_tenant_id r) \<and>
          flt (cf_landlordId f) (rc_landlord_id r) \<and> between from to (rc_updated_at r)))))
     (\<lambda>a b. rc_updated_at b \<le> rc_updated_at a) (\<lambda>r. Inr (rowToContract P r)) p"

definition listDisputesPagePg :: "pg_env \<Rightarrow> DisputeListFilter \<Rightarrow> ListParams \<Rightarrow> DisputeCase Paginated pg" where
  "listDisputesPagePg P f p = pageOf P tDisputes
     (andThen (tsIf P (df_updatedFrom f)) (\<lambda>from. andThen (tsIf P (df_updatedTo f)) (\<lambda>to.
        Inr (\<lambda>r. flt (df_contractId f) (rd_contract_id r) \<and> flt_enum (df_status f) (rd_status r) \<and>
          between from to (rd_updated_at r)))))
     (\<lambda>a b. rd_updated_at b \<le> rd_updated_at a) (rowToDispute P) p"

definition listXrplTxsPagePg :: "pg_env \<Rightarrow> XrplTxListFilter \<Rightarrow> ListParams \<Rightarrow> XrplTransaction Paginated pg" where
  "listXrplTxsPagePg P f p = pageOf P tXrplTxs
     (Inr (\<lambda>r. flt_opt (xf_account f) (rx_account r) \<and> flt (xf_trackingStatus f) (tracking_str (rx_tracking_status r)) \<and>
        flt_enum (xf_validated f) (rx_validated r) \<and> flt_enum (xf_network f) (rx_network r)))
     (\<lambda>a b. rx_last_checked_at b \<le> rx_last_checked_at a) (\<lambda>r. Inr (rowToXrpl P r)) p"

section \<open>Settlements\<close>

definition getSettlementPg :: "pg_env \<Rightarrow> string \<Rightarrow> SettlementRecord option pg" where
  "getSettlementPg P i = select P tSettlements (\<lambda>rows. firstRow (rowToSettlement P) (filter (\<lambda>r. rs_id r = i) rows))"

text \<open>
  An update by identifier. Members that are \<open>undefined\<close> are sent as \<open>NULL\<close>, which the three \<open>NOT NULL\<close> columns refuse
  when there is a row to update.
\<close>

definition saveSettlementPg :: "pg_env \<Rightarrow> SettlementRecord \<Rightarrow> unit pg" where
  "saveSettlementPg P s = stmt P (\<lambda>n d.
     andThen (ensure ((case st_lastLedgerIndex s of None \<Rightarrow> True | Some i \<Rightarrow> fitsBigint i) \<and>
       fitsInt (int (getOr 0 (st_ledgerCloseCount s))) \<and> (case st_amountMinor s of None \<Rightarrow> True | Some i \<Rightarrow> fitsBigint i)) ''22003'') (\<lambda>_.
     andThen (ts P (st_updatedAt s)) (\<lambda>u. andThen (tsOpt P (st_confirmedAt s)) (\<lambda>cf.
     if \<not> hasKey rs_id (st_id s) (tSettlements d) then Inr ((), d)
     else andThen (ensure (st_ledgerCloseCount s \<noteq> None \<and> st_currencyCode s \<noteq> None \<and> st_periodMode s \<noteq> None) ''23502'') (\<lambda>_.
       andThen (ensure (st_periodMode s = Some ''calendar_utc'') ''23514'') (\<lambda>_.
       Inr ((), d\<lparr>tSettlements := updateRows (\<lambda>r. rs_id r = st_id s)
         (\<lambda>r. r\<lparr>rs_status := st_status s, rs_last_ledger_index := st_lastLedgerIndex s,
           rs_ledger_close_count := the (st_ledgerCloseCount s), rs_updated_at := u, rs_amount_minor := st_amountMinor s,
           rs_currency_code := the (st_currencyCode s), rs_batch_id := st_batchId s, rs_period_mode := the (st_periodMode s),
           rs_confirmed_at := cf\<rparr>) (tSettlements d)\<rparr>)))))))"

definition settlementRowLe :: "pg_env \<Rightarrow> settlements_row \<Rightarrow> settlements_row \<Rightarrow> bool" where
  "settlementRowLe P a b =
    (if rs_period_year b \<noteq> rs_period_year a then rs_period_year b < rs_period_year a
     else if rs_period_month b \<noteq> rs_period_month a then rs_period_month b < rs_period_month a
     else collateLe P (rs_contract_id a) (rs_contract_id b))"

definition listSettlementsPagePg :: "pg_env \<Rightarrow> SettlementListFilter \<Rightarrow> ListParams \<Rightarrow> SettlementRecord Paginated pg" where
  "listSettlementsPagePg P f p = pageOf P tSettlements
     (Inr (\<lambda>r. flt (sf_contractId f) (rs_contract_id r) \<and> flt_enum (sf_status f) (rs_status r) \<and>
        flt_enum (sf_periodYear f) (rs_period_year r) \<and> flt_enum (sf_periodMonth f) (rs_period_month r)))
     (settlementRowLe P) (\<lambda>r. Inr (rowToSettlement P r)) p"

text \<open>
  One row of the \<open>INSERT ... SELECT\<close>: the row of the contract and the period gets the ledger close, unless it is archived; a new row
  must not take the identifier of another one. The identifier is built in SQL the way \<open>settlementDeterministicId\<close> builds it.
\<close>

definition periodKey :: "settlements_row \<Rightarrow> string \<times> int \<times> int" where
  "periodKey r = (rs_contract_id r, rs_period_year r, rs_period_month r)"

definition closedRow :: "int \<Rightarrow> int \<Rightarrow> settlements_row \<Rightarrow> settlements_row" where
  "closedRow ledgerIndex now r =
    (if rs_status r = Archived then r
     else r\<lparr>rs_last_ledger_index := Some ledgerIndex, rs_ledger_close_count := rs_ledger_close_count r + 1, rs_updated_at := now\<rparr>)"

definition touchRow :: "int \<Rightarrow> int \<Rightarrow> int \<Rightarrow> int \<Rightarrow> contracts_row \<Rightarrow> settlements_row list \<Rightarrow> string + settlements_row list" where
  "touchRow y m ledgerIndex now c rows =
    (let k = (rc_id c, y, m) in
     andThen (ensure (1 \<le> m \<and> m \<le> 12) ''23514'') (\<lambda>_.
     if hasKey periodKey k rows then
       andThen (ensure (list_all (\<lambda>r. periodKey r = k \<and> rs_status r \<noteq> Archived \<longrightarrow> fitsInt (int (rs_ledger_close_count r) + 1)) rows) ''22003'') (\<lambda>_.
       Inr (updateRows (\<lambda>r. periodKey r = k) (closedRow ledgerIndex now) rows))
     else andThen (ensure (\<not> hasKey rs_id (settlementDeterministicId (rc_id c) y m) rows) ''23505'') (\<lambda>_.
       Inr (rows @ [\<lparr> rs_id = settlementDeterministicId (rc_id c) y m, rs_contract_id = rc_id c, rs_period_year = y,
         rs_period_month = m, rs_status = Collecting, rs_last_ledger_index = Some ledgerIndex, rs_ledger_close_count = 1,
         rs_created_at = now, rs_updated_at = now, rs_amount_minor = None, rs_currency_code = ''XRP'', rs_batch_id = None,
         rs_period_mode = ''calendar_utc'', rs_confirmed_at = None \<rparr>]))))"

fun touchRows :: "int \<Rightarrow> int \<Rightarrow> int \<Rightarrow> int \<Rightarrow> contracts_row list \<Rightarrow> settlements_row list \<Rightarrow> string + settlements_row list" where
  "touchRows y m ledgerIndex now [] rows = Inr rows"
| "touchRows y m ledgerIndex now (c # cs) rows =
     andThen (touchRow y m ledgerIndex now c rows) (touchRows y m ledgerIndex now cs)"

definition touchSettlementsOnLedgerClosePg :: "pg_env \<Rightarrow> int \<Rightarrow> int \<Rightarrow> int \<Rightarrow> string \<Rightarrow> nat pg" where
  "touchSettlementsOnLedgerClosePg P periodYear periodMonth ledgerIndex now = stmt P (\<lambda>n d.
     andThen (ensure (fitsInt periodYear \<and> fitsInt periodMonth \<and> fitsBigint ledgerIndex) ''22003'') (\<lambda>_. andThen (ts P now) (\<lambda>t.
     let cs = filter (\<lambda>c. rc_status c \<in> {Active, EscrowValidated}) (visit P n (tContracts d)) in
     andThen (touchRows periodYear periodMonth ledgerIndex t cs (tSettlements d)) (\<lambda>rows.
     Inr (length cs, d\<lparr>tSettlements := rows\<rparr>)))))"

section \<open>Export jobs\<close>

definition exportJobRow :: "pg_env \<Rightarrow> ExportJobRecord \<Rightarrow> string + export_jobs_row" where
  "exportJobRow P j =
     andThen (jb P (filterJson (ej_filter j))) (\<lambda>f. andThen (ensure (fitsInt (int (ej_maxExport j))) ''22003'') (\<lambda>_.
     andThen (ts P (ej_createdAt j)) (\<lambda>cr. andThen (ts P (ej_updatedAt j)) (\<lambda>u.
     Inr \<lparr> rk_id = ej_id j, rk_kind = ej_kind j, rk_status = ej_status j, rk_filter_json = f,
       rk_max_export = ej_maxExport j, rk_result_ndjson = ej_resultNdjson j, rk_error = ej_error j, rk_created_at = cr,
       rk_updated_at = u \<rparr>))))"

definition createExportJobPg :: "pg_env \<Rightarrow> ExportJobRecord \<Rightarrow> unit pg" where
  "createExportJobPg P j = stmt P (\<lambda>n d. andThen (exportJobRow P j) (\<lambda>row.
     andThen (ensure (ej_kind j = ''audits_ndjson'' \<and> 1 \<le> ej_maxExport j \<and> ej_maxExport j \<le> 100000) ''23514'') (\<lambda>_.
     andThen (ensure (\<not> hasKey rk_id (ej_id j) (tExportJobs d)) ''23505'') (\<lambda>_.
     Inr ((), d\<lparr>tExportJobs := tExportJobs d @ [row]\<rparr>)))))"

definition getExportJobPg :: "pg_env \<Rightarrow> string \<Rightarrow> ExportJobRecord option pg" where
  "getExportJobPg P i = select P tExportJobs (\<lambda>rows. firstRowE (rowToExportJob P) (filter (\<lambda>r. rk_id r = i) rows))"

text \<open>The rows are updated even when one of them cannot be read back.\<close>

definition claimExportJobsPendingPg :: "pg_env \<Rightarrow> nat \<Rightarrow> string \<Rightarrow> ExportJobRecord list pg" where
  "claimExportJobsPendingPg P limit now =
     bindE (stmt P (\<lambda>n d. andThen (ts P now) (\<lambda>t.
       let ids = picked rk_id (\<lambda>r. rk_status r = JPending) rk_created_at limit (visit P n (tExportJobs d));
           (got, rows) = claim P n rk_id ids (\<lambda>r. r\<lparr>rk_status := JRunning, rk_updated_at := t\<rparr>) (tExportJobs d) in
       Inr (got, d\<lparr>tExportJobs := rows\<rparr>)))) (\<lambda>got. ret (mapRows (rowToExportJob P) got))"

definition updateExportJobPg :: "pg_env \<Rightarrow> ExportJobRecord \<Rightarrow> unit pg" where
  "updateExportJobPg P j = stmt P (\<lambda>n d.
     andThen (jb P (filterJson (ej_filter j))) (\<lambda>f. andThen (ensure (fitsInt (int (ej_maxExport j))) ''22003'') (\<lambda>_.
     andThen (ts P (ej_updatedAt j)) (\<lambda>u.
     if \<not> hasKey rk_id (ej_id j) (tExportJobs d) then Inr ((), d)
     else andThen (ensure (1 \<le> ej_maxExport j \<and> ej_maxExport j \<le> 100000) ''23514'') (\<lambda>_.
     Inr ((), d\<lparr>tExportJobs := updateRows (\<lambda>r. rk_id r = ej_id j)
       (\<lambda>r. r\<lparr>rk_status := ej_status j, rk_filter_json := f, rk_max_export := ej_maxExport j,
         rk_result_ndjson := ej_resultNdjson j, rk_error := ej_error j, rk_updated_at := u\<rparr>) (tExportJobs d)\<rparr>))))))"

section \<open>Choosing the repository\<close>

text \<open>
  \<open>repository/migrate.ts\<close> and \<open>repository/context.ts\<close>. The directory with its files and the pool are parameters: the names in the directory,
  the text of a file, and the effect of a script on the database. \<open>sort()\<close> orders names by their code units.
\<close>

definition migrationFiles :: "string list \<Rightarrow> string list" where
  "migrationFiles names = sort (filter (\<lambda>name. endsWith name ''.sql'') names)"

fun runScripts :: "(string \<Rightarrow> string option) \<Rightarrow> (string \<Rightarrow> 'd \<Rightarrow> (string + unit) \<times> 'd) \<Rightarrow> string list \<Rightarrow> 'd \<Rightarrow> (string + unit) \<times> 'd" where
  "runScripts readFile query [] d = (Inr (), d)"
| "runScripts readFile query (name # names) d =
    (case readFile name of
       None \<Rightarrow> (Inl ''ENOENT'', d)
     | Some sql \<Rightarrow>
        (case query sql d of
           (Inl e, d') \<Rightarrow> (Inl e, d')
         | (Inr _, d') \<Rightarrow> runScripts readFile query names d'))"

definition runMigrations ::
  "string list \<Rightarrow> (string \<Rightarrow> string option) \<Rightarrow> (string \<Rightarrow> 'd \<Rightarrow> (string + unit) \<times> 'd) \<Rightarrow> 'd \<Rightarrow> (string + unit) \<times> 'd" where
  "runMigrations names readFile query d = runScripts readFile query (migrationFiles names) d"

datatype AppRepository = MemoryRepository | PostgresRepository

definition getRepo :: "AppRepository option \<Rightarrow> string + AppRepository" where
  "getRepo repository =
    (case repository of
       None \<Rightarrow> Inl ''AppRepository not initialized; call initAppRepository() before handling requests''
     | Some r \<Rightarrow> Inr r)"

definition initAppRepository ::
  "string option \<Rightarrow> string list \<Rightarrow> (string \<Rightarrow> string option) \<Rightarrow> (string \<Rightarrow> 'd \<Rightarrow> (string + unit) \<times> 'd) \<Rightarrow>
    AppRepository option \<times> 'd \<Rightarrow> (string + unit) \<times> AppRepository option \<times> 'd" where
  "initAppRepository databaseUrl names readFile query s =
    (case s of (repository, d) \<Rightarrow>
      if truthy (map_option trim databaseUrl) then
        (case runMigrations names readFile query d of
           (Inl e, d') \<Rightarrow> (Inl e, repository, d')
         | (Inr _, d') \<Rightarrow> (Inr (), Some PostgresRepository, d'))
      else (Inr (), Some MemoryRepository, d))"

text \<open>Scripts run in the order of their names, each once, until one fails; the database is used exactly when a URL is set.\<close>

fun applied :: "(string \<Rightarrow> string option) \<Rightarrow> (string \<Rightarrow> 'd \<Rightarrow> (string + unit) \<times> 'd) \<Rightarrow> string list \<Rightarrow> 'd \<Rightarrow> 'd" where
  "applied readFile query names d = fold (\<lambda>name d. snd (query (the (readFile name)) d)) names d"

lemma runScripts_all:
  "runScripts readFile query names d = (Inr (), d') \<Longrightarrow>
    d' = applied readFile query names d \<and> (\<forall>name \<in> set names. readFile name \<noteq> None)"
  by (induction names arbitrary: d) (auto split: option.splits prod.splits sum.splits)

lemma init_chooses:
  assumes "initAppRepository url names readFile query (repository, d) = (Inr (), repository', d')"
  shows "if truthy (map_option trim url)
    then getRepo repository' = Inr PostgresRepository \<and> d' = applied readFile query (migrationFiles names) d \<and> sorted (migrationFiles names)
    else getRepo repository' = Inr MemoryRepository \<and> d' = d"
  using assms by (auto simp: initAppRepository_def runMigrations_def getRepo_def migrationFiles_def dest: runScripts_all
      split: prod.splits sum.splits if_splits)

end
