(* ===== verification/PgIntegrity.thy ===== *)
theory PgIntegrity
  imports Postgres
begin

text \<open>
  What the statements of \<open>repository/postgres-repository.ts\<close> keep: the primary, unique and foreign keys and the checks that the
  migrations declare. The model has to derive them, since a statement fails only where its definition says so.
\<close>

section \<open>Running a statement\<close>

definition issued :: "pgdb \<Rightarrow> pgdb" where
  "issued d = pgCalls_update Suc d"

lemma stmt_run:
  "exec (stmt P f) d = (case refuses P (pgCalls d) of Some e \<Rightarrow> issued d
     | None \<Rightarrow> (case f (pgCalls d) (issued d) of Inl e \<Rightarrow> issued d | Inr (x, d') \<Rightarrow> d'))"
  "valu (stmt P f) d = (case refuses P (pgCalls d) of Some e \<Rightarrow> Inl e
     | None \<Rightarrow> (case f (pgCalls d) (issued d) of Inl e \<Rightarrow> Inl e
       | Inr (x, d') \<Rightarrow> (case losesAnswer P (pgCalls d) of Some e \<Rightarrow> Inl e | None \<Rightarrow> Inr x)))"
  by (simp_all add: stmt_def issued_def run_simps split: option.splits sum.splits prod.splits)

text \<open>The outcomes of a statement: refused or failed, or done, with or without an answer.\<close>

lemma stmt_cases:
  obtains (failed) e where "valu (stmt P f) d = Inl e" "exec (stmt P f) d = issued d"
  | (lost) x e d' where "f (pgCalls d) (issued d) = Inr (x, d')" "valu (stmt P f) d = Inl e" "exec (stmt P f) d = d'"
  | (answered) x d' where "f (pgCalls d) (issued d) = Inr (x, d')" "valu (stmt P f) d = Inr x" "exec (stmt P f) d = d'"
proof (cases "refuses P (pgCalls d)")
  case (Some e)
  then show ?thesis by (intro failed [of e]) (simp_all add: stmt_run)
next
  case None
  show ?thesis
  proof (cases "f (pgCalls d) (issued d)")
    case (Inl e)
    with None show ?thesis by (intro failed [of e]) (simp_all add: stmt_run)
  next
    case (Inr p)
    obtain x d' where p: "p = (x, d')" by (cases p)
    show ?thesis
    proof (cases "losesAnswer P (pgCalls d)")
      case None': None
      with None Inr p show ?thesis by (intro answered [of x d']) (simp_all add: stmt_run)
    next
      case (Some e)
      with None Inr p show ?thesis by (intro lost [of x d' e]) (simp_all add: stmt_run)
    qed
  qed
qed

text \<open>A relation that does not look at the number of calls is kept by a statement when its effect keeps it.\<close>

lemma stmt_steps:
  assumes "\<And>d. R d (issued d)"
    and "\<And>n d x d'. f n (issued d) = Inr (x, d') \<Longrightarrow> R d d'"
  shows "steps R (stmt P f)"
proof (rule stepsI)
  fix d
  show "R d (exec (stmt P f) d)"
    using assms(1) by (cases rule: stmt_cases [of P f d]) (auto dest: assms(2))
qed

section \<open>Tables\<close>

definition findKey :: "('r \<Rightarrow> 'k) \<Rightarrow> 'k \<Rightarrow> 'r list \<Rightarrow> 'r option" where
  "findKey key k rows = find (\<lambda>r. key r = k) rows"

lemma findKey_simps [simp]:
  "findKey key k [] = None"
  "findKey key k (r # rows) = (if key r = k then Some r else findKey key k rows)"
  by (simp_all add: findKey_def)

lemma hasKey_simps [simp]:
  "hasKey key k [] = False"
  "hasKey key k (r # rows) = (key r = k \<or> hasKey key k rows)"
  "hasKey key k (rows @ rows') = (hasKey key k rows \<or> hasKey key k rows')"
  by (simp_all add: hasKey_def)

lemma hasKey_iff: "hasKey key k rows \<longleftrightarrow> k \<in> key ` set rows"
  by (induction rows) auto

lemma hasKey_findKey: "hasKey key k rows \<longleftrightarrow> findKey key k rows \<noteq> None"
  by (induction rows) auto

lemma findKey_append: "findKey key k (rows @ rows') = (case findKey key k rows of None \<Rightarrow> findKey key k rows' | Some r \<Rightarrow> Some r)"
  by (induction rows) auto

lemma findKey_key: "findKey key k rows = Some r \<Longrightarrow> key r = k \<and> r \<in> set rows"
  by (induction rows) (auto split: if_splits)

lemma findKey_delete: "findKey key k (filter (\<lambda>r. key r \<noteq> k') rows) = (if k = k' then None else findKey key k rows)"
  by (induction rows) auto

lemma map_key_updateRows [simp]: "(\<And>r. key (f r) = key r) \<Longrightarrow> map key (updateRows c f rows) = map key rows"
  by (induction rows) (auto simp: updateRows_def)

lemma hasKey_updateRows [simp]: "(\<And>r. key (f r) = key r) \<Longrightarrow> hasKey key k (updateRows c f rows) = hasKey key k rows"
  by (induction rows) (auto simp: updateRows_def)

lemma findKey_updateRows:
  assumes "\<And>r. key (f r) = key r"
  shows "findKey key k (updateRows (\<lambda>r. key r = k') f rows) = (if k = k' then map_option f (findKey key k rows) else findKey key k rows)"
  using assms by (induction rows) (auto simp: updateRows_def)

lemma list_all_updateRows: "list_all Q rows \<Longrightarrow> (\<And>r. Q r \<Longrightarrow> Q (f r)) \<Longrightarrow> list_all Q (updateRows c f rows)"
  by (induction rows) (auto simp: updateRows_def)

lemma in_updateRows: "r \<in> set (updateRows c f rows) \<Longrightarrow> \<exists>x \<in> set rows. r = (if c x then f x else x)"
  by (auto simp: updateRows_def)

lemma distinct_map_append1: "distinct (map key (rows @ [r])) \<longleftrightarrow> distinct (map key rows) \<and> \<not> hasKey key (key r) rows"
  by (auto simp: hasKey_iff)

text \<open>
  An upsert that leaves the conflicting column alone works like the assignment of a map: this is what a caller of
  \<open>INSERT ... ON CONFLICT DO UPDATE\<close> relies on.
\<close>

locale upsert_table =
  fixes key :: "'r \<Rightarrow> 'k" and upd :: "'r \<Rightarrow> 'r \<Rightarrow> 'r"
  assumes key_upd: "key old = key new \<Longrightarrow> key (upd old new) = key new"
begin

lemma keys_upsert:
  "map key (upsert key upd new rows) = (if hasKey key (key new) rows then map key rows else map key rows @ [key new])"
  by (auto simp: upsert_def hasKey_def key_upd)

lemma distinct_upsert: "distinct (map key (upsert key upd new rows)) \<longleftrightarrow> distinct (map key rows)"
  by (auto simp: keys_upsert hasKey_iff)

lemma hasKey_upsert: "hasKey key k (upsert key upd new rows) \<longleftrightarrow> k = key new \<or> hasKey key k rows"
proof -
  have "hasKey key k (upsert key upd new rows) \<longleftrightarrow> k \<in> set (map key (upsert key upd new rows))"
    by (simp add: hasKey_iff)
  then show ?thesis unfolding keys_upsert by (auto simp: hasKey_iff)
qed

lemma findKey_map_upd:
  "findKey key k (map (\<lambda>old. if key old = key new then upd old new else old) rows) =
    (if k = key new then map_option (\<lambda>old. upd old new) (findKey key k rows) else findKey key k rows)"
  by (induction rows) (auto simp: key_upd)

lemma findKey_upsert:
  "findKey key k (upsert key upd new rows) =
    (if k = key new then Some (case findKey key k rows of None \<Rightarrow> new | Some old \<Rightarrow> upd old new) else findKey key k rows)"
proof (cases "hasKey key (key new) rows")
  case True
  then have "upsert key upd new rows = map (\<lambda>old. if key old = key new then upd old new else old) rows"
    by (simp add: upsert_def hasKey_def)
  with True show ?thesis by (auto simp: findKey_map_upd hasKey_findKey)
next
  case False
  then have "upsert key upd new rows = rows @ [new]" by (simp add: upsert_def hasKey_def)
  with False show ?thesis by (auto simp: findKey_append hasKey_findKey split: option.splits)
qed

lemma in_upsert:
  assumes "r \<in> set (upsert key upd new rows)"
  shows "r \<in> set rows \<or> r = new \<or> (\<exists>old \<in> set rows. key old = key new \<and> r = upd old new)"
  using assms by (auto simp: upsert_def split: if_splits)

end

interpretation ctr: upsert_table rc_id "\<lambda>old new. new\<lparr>rc_created_at := rc_created_at old\<rparr>"
  by unfold_locales simp

interpretation evd: upsert_table re_id "\<lambda>old new. new\<lparr>re_created_at := re_created_at old\<rparr>"
  by unfold_locales simp

interpretation dsp: upsert_table rd_id "\<lambda>old new. new\<lparr>rd_created_at := rd_created_at old\<rparr>"
  by unfold_locales simp

interpretation reg: upsert_table rg_verifier_id
  "\<lambda>old new. old\<lparr>rg_display_label := rg_display_label new, rg_active := rg_active new\<rparr>"
  by unfold_locales simp

interpretation dec: upsert_table rq_id "\<lambda>old new. new\<lparr>rq_created_at := rq_created_at old\<rparr>"
  by unfold_locales simp

interpretation xtx: upsert_table rx_tx_hash "\<lambda>old new. new"
  by unfold_locales simp

interpretation ntf: upsert_table rn_id "\<lambda>old new. new\<lparr>rn_created_at := rn_created_at old\<rparr>"
  by unfold_locales simp

section \<open>Integrity\<close>

text \<open>The constraints of the migrations: primary keys, unique columns, references, checks.\<close>

definition pg_ok :: "pgdb \<Rightarrow> bool" where
  "pg_ok d =
    (distinct (map rc_id (tContracts d)) \<and> distinct (map re_id (tEvidences d)) \<and> distinct (map rd_id (tDisputes d)) \<and>
     distinct (map rv_id (tVotes d)) \<and> distinct (map rg_id (tRegistry d)) \<and> distinct (map rg_verifier_id (tRegistry d)) \<and>
     distinct (map rq_id (tDecisions d)) \<and> distinct (map rx_tx_hash (tXrplTxs d)) \<and> distinct (map ri_id (tIngestion d)) \<and>
     distinct (map (\<lambda>r. (ri_ledger_index r, ri_tx_hash r, ri_event_source r)) (tIngestion d)) \<and>
     distinct (map rn_id (tNotifications d)) \<and> distinct (map ro_id (tOutbox d)) \<and>
     distinct (map ro_idempotency_key (tOutbox d)) \<and> distinct (map ra_id (tAudits d)) \<and>
     distinct (map rw_event_id (tEvents d)) \<and> distinct (map rj_id (tDelayedJobs d)) \<and>
     distinct (map rs_id (tSettlements d)) \<and> distinct (map periodKey (tSettlements d)) \<and> distinct (map rk_id (tExportJobs d)) \<and>
     list_all (\<lambda>r. hasKey rc_id (re_contract_id r) (tContracts d)) (tEvidences d) \<and>
     list_all (\<lambda>r. hasKey rc_id (rd_contract_id r) (tContracts d)) (tDisputes d) \<and>
     list_all (\<lambda>r. hasKey rd_id (rv_dispute_id r) (tDisputes d)) (tVotes d) \<and>
     list_all (\<lambda>r. hasKey rd_id (rq_dispute_id r) (tDisputes d)) (tDecisions d) \<and>
     list_all (\<lambda>r. hasKey rc_id (rs_contract_id r) (tContracts d) \<and> 1 \<le> rs_period_month r \<and> rs_period_month r \<le> 12 \<and>
       rs_period_mode r = ''calendar_utc'' \<and> fitsInt (int (rs_ledger_close_count r))) (tSettlements d) \<and>
     list_all (\<lambda>r. rk_kind r = ''audits_ndjson'' \<and> 1 \<le> rk_max_export r \<and> rk_max_export r \<le> 100000) (tExportJobs d))"

definition keepsOk :: "pgdb \<Rightarrow> pgdb \<Rightarrow> bool" where
  "keepsOk d d' = (pg_ok d \<longrightarrow> pg_ok d')"

interpretation kok: step_rel keepsOk
  by unfold_locales (auto simp: keepsOk_def)

lemma pg_ok_issued [simp]: "pg_ok (issued d) = pg_ok d"
  by (simp add: pg_ok_def issued_def)

lemma stmt_ok:
  assumes "\<And>n d x d'. f n d = Inr (x, d') \<Longrightarrow> pg_ok d \<Longrightarrow> pg_ok d'"
  shows "steps keepsOk (stmt P f)"
  by (rule stmt_steps) (auto simp: keepsOk_def dest: assms)

lemma select_ok: "steps keepsOk (select P tbl f)"
  unfolding select_def by (rule stmt_ok) (auto split: sum.splits)

lemmas pg_bool = andThen_Inr ensure_Inr

lemma ok_contracts: "steps keepsOk (saveContractPg P c)"
  unfolding saveContractPg_def
  by (rule stmt_ok) (auto simp: pg_bool pg_ok_def ctr.distinct_upsert ctr.hasKey_upsert list_all_iff)

lemma ok_evidence: "steps keepsOk (saveEvidencePg P e)" "steps keepsOk (deleteEvidencePg P i)"
  unfolding saveEvidencePg_def deleteEvidencePg_def
  by (rule stmt_ok, auto simp: pg_bool pg_ok_def evd.distinct_upsert evidenceRow_def distinct_map_filter list_all_iff
      dest!: evd.in_upsert)+

lemma ok_disputes: "steps keepsOk (saveDisputePg P c)"
  unfolding saveDisputePg_def
  by (rule stmt_ok) (auto simp: pg_bool pg_ok_def dsp.distinct_upsert dsp.hasKey_upsert disputeRow_def list_all_iff
      dest!: dsp.in_upsert)

lemma ok_votes: "steps keepsOk (appendDisputeVerifierVotePg P v)"
  unfolding appendDisputeVerifierVotePg_def
  by (rule stmt_ok) (auto simp: pg_bool pg_ok_def voteRow_def hasKey_iff)

text \<open>The registry has two keys: the conflict is resolved on one, the other is kept because the row that is updated keeps it.\<close>

lemma registry_ids:
  "map rg_id (upsert rg_verifier_id (\<lambda>old new. old\<lparr>rg_display_label := l new, rg_active := a new\<rparr>) row rows) =
    (if hasKey rg_verifier_id (rg_verifier_id row) rows then map rg_id rows else map rg_id rows @ [rg_id row])"
  by (auto simp: upsert_def hasKey_def)

lemma ok_registry: "steps keepsOk (upsertDisputeVerifierRegistryEntryPg P e)"
  unfolding upsertDisputeVerifierRegistryEntryPg_def
  by (rule stmt_ok) (auto simp: pg_bool pg_ok_def reg.distinct_upsert registryRow_def registry_ids hasKey_iff)

lemma ok_decisions: "steps keepsOk (saveDecisionPg P c)"
  unfolding saveDecisionPg_def
  by (rule stmt_ok) (auto simp: pg_bool pg_ok_def dec.distinct_upsert decisionRow_def list_all_iff dest!: dec.in_upsert)

lemma ok_xrpl: "steps keepsOk (saveXrplTxPg P t)"
  unfolding saveXrplTxPg_def
  by (rule stmt_ok) (auto simp: pg_bool pg_ok_def xtx.distinct_upsert)

lemma ok_clock: "steps keepsOk (nowIsoPg E)" "steps keepsOk (randomIdPg E p)"
  by (simp_all add: nowIsoPg_def randomIdPg_def steps_def keepsOk_def pg_ok_def run_simps)

lemma ok_ingestion: "steps keepsOk (tryRecordXrplIngestionEventPg E P li h s er)"
  unfolding tryRecordXrplIngestionEventPg_def
proof (intro kok.io_bind ok_clock stmt_ok)
  fix i now n d x d'
  assume "andThen (ensure (fitsBigint li) ''22003'') (\<lambda>_. andThen (ts P now) (\<lambda>cr.
       if hasKey (\<lambda>r. (ri_ledger_index r, ri_tx_hash r, ri_event_source r)) (li, h, s) (tIngestion d)
       then Inr (False, d)
       else andThen (ensure (\<not> hasKey ri_id i (tIngestion d)) ''23505'') (\<lambda>_.
         Inr (True, d\<lparr>tIngestion := tIngestion d @ [\<lparr> ri_id = i, ri_ledger_index = li, ri_tx_hash = h,
           ri_event_source = s, ri_engine_result = er, ri_created_at = cr \<rparr>]\<rparr>)))) = Inr (x, d')" and "pg_ok d"
  then show "pg_ok d'" by (auto simp: pg_bool pg_ok_def hasKey_iff image_iff split: if_splits)
qed

lemma ok_notifications: "steps keepsOk (saveNotificationPg P x)"
  unfolding saveNotificationPg_def
  by (rule stmt_ok) (auto simp: pg_bool pg_ok_def ntf.distinct_upsert)

lemma ok_outbox:
  "steps keepsOk (appendNotificationOutboxPg P x)" "steps keepsOk (updateNotificationOutboxPg P x)"
  "steps keepsOk (claimNotificationOutboxPendingPg P n now)" "steps keepsOk (recoverStaleNotificationOutboxProcessingPg P b now)"
  unfolding appendNotificationOutboxPg_def updateNotificationOutboxPg_def claimNotificationOutboxPendingPg_def
    recoverStaleNotificationOutboxProcessingPg_def
  by (rule stmt_ok, auto simp: pg_bool pg_ok_def outboxRow_def hasKey_iff claim_def Let_def split: if_splits)+

lemma ok_logs: "steps keepsOk (appendAuditPg P a)" "steps keepsOk (appendEventPg P e)"
  unfolding appendAuditPg_def appendEventPg_def
  by (rule stmt_ok, auto simp: pg_bool pg_ok_def auditRow_def eventRow_def hasKey_iff)+

lemma ok_delayed_jobs:
  "steps keepsOk (createDelayedJobIfAbsentPg P j)" "steps keepsOk (claimDueDelayedJobsPg E P k now l ttl)"
  "steps keepsOk (deleteDelayedJobPg P i)" "steps keepsOk (bumpDelayedJobPg P i ra at le u)"
  unfolding createDelayedJobIfAbsentPg_def claimDueDelayedJobsPg_def deleteDelayedJobPg_def bumpDelayedJobPg_def throwE_def
  by (intro kok.io_option kok.io_ret stmt_ok, auto simp: pg_bool pg_ok_def delayedJobRow_def hasKey_iff claim_def Let_def
      distinct_map_filter split: if_splits)+

lemma ok_export_jobs:
  "steps keepsOk (createExportJobPg P j)" "steps keepsOk (updateExportJobPg P j)" "steps keepsOk (claimExportJobsPendingPg P n now)"
  unfolding createExportJobPg_def updateExportJobPg_def claimExportJobsPendingPg_def bindE_def
  by (intro kok.io_bind kok.io_sum kok.io_ret stmt_ok, auto simp: pg_bool pg_ok_def exportJobRow_def hasKey_iff claim_def Let_def
      intro!: list_all_updateRows split: if_splits)+

section \<open>The order of a scan\<close>

text \<open>A statement visits every row once, and returns every row that it updated once.\<close>

definition pg_orders :: "pg_env \<Rightarrow> bool" where
  "pg_orders P = (\<forall>n k. mset (scan P n k) = mset [0..<k] \<and> mset (returns P n k) = mset [0..<k])"

lemma mset_inOrder: "mset p = mset [0..<length rows] \<Longrightarrow> mset (inOrder p rows) = mset rows"
  unfolding inOrder_def by (metis map_nth mset_map)

lemma mset_visit: "pg_orders P \<Longrightarrow> mset (visit P n rows) = mset rows"
  unfolding visit_def by (rule mset_inOrder) (simp add: pg_orders_def)

lemma set_visit: "pg_orders P \<Longrightarrow> set (visit P n rows) = set rows"
  by (rule mset_eq_setD) (rule mset_visit)

lemma mset_returned: "pg_orders P \<Longrightarrow> mset (inOrder (returns P n (length rows)) rows) = mset rows"
  by (rule mset_inOrder) (simp add: pg_orders_def)

section \<open>Settlements\<close>

definition stl_ok :: "contracts_row list \<Rightarrow> settlements_row list \<Rightarrow> bool" where
  "stl_ok cs rows = (distinct (map rs_id rows) \<and> distinct (map periodKey rows) \<and>
     list_all (\<lambda>r. hasKey rc_id (rs_contract_id r) cs \<and> 1 \<le> rs_period_month r \<and> rs_period_month r \<le> 12 \<and>
       rs_period_mode r = ''calendar_utc'' \<and> fitsInt (int (rs_ledger_close_count r))) rows)"

lemma closedRow_keys [simp]:
  "rs_id (closedRow l t r) = rs_id r" "periodKey (closedRow l t r) = periodKey r"
  "rs_contract_id (closedRow l t r) = rs_contract_id r" "rs_period_month (closedRow l t r) = rs_period_month r"
  "rs_period_mode (closedRow l t r) = rs_period_mode r"
  by (simp_all add: closedRow_def periodKey_def)

lemma closedRow_count:
  "int (rs_ledger_close_count (closedRow l t r)) =
    (if rs_status r = Archived then int (rs_ledger_close_count r) else int (rs_ledger_close_count r) + 1)"
  by (simp add: closedRow_def)

lemma touchRow_ok:
  assumes "touchRow y m l t c rows = Inr rows'" "stl_ok cs rows" "hasKey rc_id (rc_id c) cs"
  shows "stl_ok cs rows'"
proof (cases "hasKey periodKey (rc_id c, y, m) rows")
  case True
  with assms(1) have "rows' = updateRows (\<lambda>r. periodKey r = (rc_id c, y, m)) (closedRow l t) rows"
    and "list_all (\<lambda>r. periodKey r = (rc_id c, y, m) \<and> rs_status r \<noteq> Archived \<longrightarrow> fitsInt (int (rs_ledger_close_count r) + 1)) rows"
    by (auto simp: touchRow_def Let_def pg_bool)
  with assms(2) show ?thesis
    by (auto simp: stl_ok_def list_all_iff closedRow_count dest!: in_updateRows)
next
  case False
  with assms(1) obtain new where rows': "rows' = rows @ [new]" and new: "rs_id new = settlementDeterministicId (rc_id c) y m"
    "rs_contract_id new = rc_id c" "rs_period_year new = y" "rs_period_month new = m" "rs_period_mode new = ''calendar_utc''"
    "rs_ledger_close_count new = 1" "\<not> hasKey rs_id (settlementDeterministicId (rc_id c) y m) rows" "1 \<le> m" "m \<le> 12"
    by (auto simp: touchRow_def Let_def pg_bool)
  from new have "periodKey new = (rc_id c, y, m)" by (simp add: periodKey_def)
  with assms(2,3) False new show ?thesis
    by (simp add: rows' stl_ok_def distinct_map_append1 fitsInt_def del: map_append)
qed

lemma touchRows_ok:
  assumes "touchRows y m l t cs' rows = Inr rows'" "stl_ok cs rows" "\<forall>c \<in> set cs'. hasKey rc_id (rc_id c) cs"
  shows "stl_ok cs rows'"
  using assms
proof (induction cs' arbitrary: rows)
  case (Cons c cs')
  from Cons.prems(1) obtain rows1 where one: "touchRow y m l t c rows = Inr rows1"
    and rest: "touchRows y m l t cs' rows1 = Inr rows'"
    by (simp add: andThen_Inr) blast
  from Cons.prems(3) have c: "hasKey rc_id (rc_id c) cs" and cs': "\<forall>c \<in> set cs'. hasKey rc_id (rc_id c) cs"
    by simp_all
  from rest touchRow_ok [OF one Cons.prems(2) c] cs' show ?case by (rule Cons.IH)
qed simp

lemma pg_ok_settlements: "pg_ok d \<Longrightarrow> stl_ok (tContracts d) rows \<Longrightarrow> pg_ok (d\<lparr>tSettlements := rows\<rparr>)"
  by (simp add: pg_ok_def stl_ok_def)

lemma pg_ok_stl: "pg_ok d \<Longrightarrow> stl_ok (tContracts d) (tSettlements d)"
  by (simp add: pg_ok_def stl_ok_def)

lemma ok_save_settlement: "steps keepsOk (saveSettlementPg P s)"
  unfolding saveSettlementPg_def
proof (rule stmt_ok)
  fix n d x d'
  assume "andThen (ensure ((case st_lastLedgerIndex s of None \<Rightarrow> True | Some i \<Rightarrow> fitsBigint i) \<and>
       fitsInt (int (getOr 0 (st_ledgerCloseCount s))) \<and> (case st_amountMinor s of None \<Rightarrow> True | Some i \<Rightarrow> fitsBigint i)) ''22003'') (\<lambda>_.
     andThen (ts P (st_updatedAt s)) (\<lambda>u. andThen (tsOpt P (st_confirmedAt s)) (\<lambda>cf.
     if \<not> hasKey rs_id (st_id s) (tSettlements d) then Inr ((), d)
     else andThen (ensure (st_ledgerCloseCount s \<noteq> None \<and> st_currencyCode s \<noteq> None \<and> st_periodMode s \<noteq> None) ''23502'') (\<lambda>_.
       andThen (ensure (st_periodMode s = Some ''calendar_utc'') ''23514'') (\<lambda>_.
       Inr ((), d\<lparr>tSettlements := updateRows (\<lambda>r. rs_id r = st_id s)
         (\<lambda>r. r\<lparr>rs_status := st_status s, rs_last_ledger_index := st_lastLedgerIndex s,
           rs_ledger_close_count := the (st_ledgerCloseCount s), rs_updated_at := u, rs_amount_minor := st_amountMinor s,
           rs_currency_code := the (st_currencyCode s), rs_batch_id := st_batchId s, rs_period_mode := the (st_periodMode s),
           rs_confirmed_at := cf\<rparr>) (tSettlements d)\<rparr>)))))) = Inr (x, d')" and ok: "pg_ok d"
  then show "pg_ok d'"
    using pg_ok_stl [OF ok]
    by (auto simp: pg_bool stl_ok_def periodKey_def list_all_iff dest!: in_updateRows intro!: pg_ok_settlements [OF ok] split: if_splits)
qed

lemma ok_touch_settlements:
  assumes "pg_orders P"
  shows "steps keepsOk (touchSettlementsOnLedgerClosePg P y m l now)"
  unfolding touchSettlementsOnLedgerClosePg_def
proof (rule stmt_ok)
  fix n d x d'
  assume "andThen (ensure (fitsInt y \<and> fitsInt m \<and> fitsBigint l) ''22003'') (\<lambda>_. andThen (ts P now) (\<lambda>t.
     let cs = filter (\<lambda>c. rc_status c \<in> {Active, EscrowValidated}) (visit P n (tContracts d)) in
     andThen (touchRows y m l t cs (tSettlements d)) (\<lambda>rows. Inr (length cs, d\<lparr>tSettlements := rows\<rparr>)))) = Inr (x, d')"
    and ok: "pg_ok d"
  then obtain t rows where rows: "touchRows y m l t (filter (\<lambda>c. rc_status c \<in> {Active, EscrowValidated}) (visit P n (tContracts d)))
      (tSettlements d) = Inr rows" and d': "d' = d\<lparr>tSettlements := rows\<rparr>"
    by (auto simp: pg_bool Let_def)
  have "stl_ok (tContracts d) rows"
    using rows pg_ok_stl [OF ok] by (rule touchRows_ok) (auto simp: set_visit [OF assms] hasKey_iff)
  with ok show "pg_ok d'" unfolding d' by (rule pg_ok_settlements)
qed

section \<open>Runs\<close>

text \<open>The operations that write, one rule each; every other operation of the repository only reads.\<close>

inductive pg_step :: "env \<Rightarrow> pg_env \<Rightarrow> pgdb \<Rightarrow> pgdb \<Rightarrow> bool" for E :: env and P :: pg_env where
  read: "pg_step E P d (issued d)"
| saveContract: "pg_step E P d (exec (saveContractPg P c) d)"
| saveEvidence: "pg_step E P d (exec (saveEvidencePg P e) d)"
| deleteEvidence: "pg_step E P d (exec (deleteEvidencePg P i) d)"
| saveDispute: "pg_step E P d (exec (saveDisputePg P ds) d)"
| appendVote: "pg_step E P d (exec (appendDisputeVerifierVotePg P v) d)"
| upsertRegistry: "pg_step E P d (exec (upsertDisputeVerifierRegistryEntryPg P r) d)"
| saveDecision: "pg_step E P d (exec (saveDecisionPg P cd) d)"
| saveXrplTx: "pg_step E P d (exec (saveXrplTxPg P t) d)"
| tryRecord: "pg_step E P d (exec (tryRecordXrplIngestionEventPg E P li h src er) d)"
| saveNotification: "pg_step E P d (exec (saveNotificationPg P nt) d)"
| appendOutbox: "pg_step E P d (exec (appendNotificationOutboxPg P x) d)"
| claimOutbox: "pg_step E P d (exec (claimNotificationOutboxPendingPg P limit now) d)"
| updateOutbox: "pg_step E P d (exec (updateNotificationOutboxPg P x) d)"
| recoverOutbox: "pg_step E P d (exec (recoverStaleNotificationOutboxProcessingPg P before now) d)"
| appendAudit: "pg_step E P d (exec (appendAuditPg P a) d)"
| appendEvent: "pg_step E P d (exec (appendEventPg P ev) d)"
| createJob: "pg_step E P d (exec (createDelayedJobIfAbsentPg P j) d)"
| claimJobs: "pg_step E P d (exec (claimDueDelayedJobsPg E P kind now limit ttl) d)"
| deleteJob: "pg_step E P d (exec (deleteDelayedJobPg P i) d)"
| bumpJob: "pg_step E P d (exec (bumpDelayedJobPg P i ra at le ua) d)"
| saveSettlement: "pg_step E P d (exec (saveSettlementPg P s) d)"
| touchSettlements: "pg_step E P d (exec (touchSettlementsOnLedgerClosePg P y m l now) d)"
| createExport: "pg_step E P d (exec (createExportJobPg P k) d)"
| claimExports: "pg_step E P d (exec (claimExportJobsPendingPg P limit now) d)"
| updateExport: "pg_step E P d (exec (updateExportJobPg P k) d)"

definition empty_pgdb :: pgdb where
  "empty_pgdb = \<lparr> tContracts = [], tEvidences = [], tDisputes = [], tVotes = [], tRegistry = [], tDecisions = [], tXrplTxs = [],
     tIngestion = [], tNotifications = [], tOutbox = [], tAudits = [], tEvents = [], tDelayedJobs = [], tSettlements = [],
     tExportJobs = [], pgCalls = 0 \<rparr>"

lemmas ok_ops = ok_contracts ok_evidence ok_disputes ok_votes ok_registry ok_decisions ok_xrpl ok_ingestion ok_notifications
  ok_outbox ok_logs ok_delayed_jobs ok_save_settlement ok_export_jobs

lemma pg_step_ok: "pg_step E P d d' \<Longrightarrow> pg_orders P \<Longrightarrow> keepsOk d d'"
  by (induction rule: pg_step.induct)
    (auto intro: stepsD ok_ops ok_touch_settlements simp: keepsOk_def [of d "issued d" for d])


end
