(* ===== verification/PgRefinement.thy ===== *)
theory PgRefinement
  imports PgIntegrity
begin

text \<open>
  The two repositories against each other: \<open>memory-repository.ts\<close> is the specification, \<open>postgres-repository.ts\<close> implements it.
  A table represents a map of the memory store when the row of every key is the encoding of the value of that key. Writes keep the
  representation, and reads by key return the value, when its texts survive the column types.
\<close>

section \<open>Representation of a map by a table\<close>

definition rowsSim :: "('r \<Rightarrow> 'k) \<Rightarrow> ('v \<Rightarrow> 'e + 'r) \<Rightarrow> 'r list \<Rightarrow> ('k, 'v) jsmap \<Rightarrow> bool" where
  "rowsSim key enc rows m = (\<forall>k. rel_option (\<lambda>r v. enc v = Inr r) (findKey key k rows) (jm_get m k))"

lemma rowsSim_Nil: "rowsSim key enc [] []"
  by (simp add: rowsSim_def)

lemma rowsSim_none: "rowsSim key enc rows m \<Longrightarrow> jm_get m k = None \<longleftrightarrow> findKey key k rows = None"
proof -
  assume "rowsSim key enc rows m"
  then have "rel_option (\<lambda>r v. enc v = Inr r) (findKey key k rows) (jm_get m k)" by (simp add: rowsSim_def)
  then show ?thesis by (cases "findKey key k rows"; cases "jm_get m k") simp_all
qed

lemma rowsSim_hasKey: "rowsSim key enc rows m \<Longrightarrow> hasKey key k rows = jm_has m k"
  by (simp add: hasKey_findKey jm_has_def rowsSim_none)

lemma rowsSim_get:
  assumes "rowsSim key enc rows m" "jm_get m k = Some v"
  obtains r where "findKey key k rows = Some r" "enc v = Inr r"
proof -
  from assms(1) have "rel_option (\<lambda>r v. enc v = Inr r) (findKey key k rows) (jm_get m k)" by (simp add: rowsSim_def)
  with assms(2) that show thesis by (cases "findKey key k rows") auto
qed

lemma rowsSim_set:
  assumes "rowsSim key enc rows m" "enc v = Inr r"
    and "\<And>k'. findKey key k' rows' = (if k' = k then Some r else findKey key k' rows)"
  shows "rowsSim key enc rows' (jm_set m k v)"
  using assms by (auto simp: rowsSim_def)

lemma rowsSim_delete:
  "rowsSim key enc rows m \<Longrightarrow> rowsSim key enc (filter (\<lambda>r. key r \<noteq> k) rows) (jm_delete m k)"
  by (auto simp: rowsSim_def findKey_delete)

lemma rowsSim_update:
  assumes "rowsSim key enc rows m" "jm_get m k = Some v"
    and "\<And>r. enc v = Inr r \<Longrightarrow> enc v' = Inr (f r)" "\<And>r. key (f r) = key r"
  shows "rowsSim key enc (updateRows (\<lambda>r. key r = k) f rows) (jm_set m k v')"
proof -
  obtain r where "findKey key k rows = Some r" "enc v = Inr r" using assms(1,2) by (rule rowsSim_get)
  then show ?thesis
    using assms by (intro rowsSim_set [OF assms(1), of v' "f r"]) (auto simp: findKey_updateRows)
qed

text \<open>What a table promises when the encoding of a value carries its key, and when its upsert keeps nothing but what the values agree on.\<close>

locale row_store =
  fixes key :: "'r \<Rightarrow> 'k" and enc :: "'v \<Rightarrow> string + 'r" and vkey :: "'v \<Rightarrow> 'k"
  assumes enc_key: "enc v = Inr r \<Longrightarrow> key r = vkey v"
begin

lemma insert:
  assumes "rowsSim key enc rows m" "enc v = Inr r" "\<not> hasKey key (vkey v) rows"
  shows "rowsSim key enc (rows @ [r]) (jm_set m (vkey v) v)"
  using assms enc_key [OF assms(2)]
  by (intro rowsSim_set [OF assms(1,2)]) (auto simp: findKey_append hasKey_findKey split: option.splits)

end

locale upsert_store = row_store key enc vkey + upsert_table key upd
  for key :: "'r \<Rightarrow> 'k" and enc :: "'v \<Rightarrow> string + 'r" and vkey :: "'v \<Rightarrow> 'k" and upd :: "'r \<Rightarrow> 'r \<Rightarrow> 'r" +
  fixes same :: "'v \<Rightarrow> 'v \<Rightarrow> bool"
  assumes upd_same: "enc u = Inr old \<Longrightarrow> enc v = Inr new \<Longrightarrow> vkey u = vkey v \<Longrightarrow> same u v \<Longrightarrow> upd old new = new"
begin

lemma save:
  assumes sim: "rowsSim key enc rows m" and v: "enc v = Inr r"
    and same: "case jm_get m (vkey v) of None \<Rightarrow> True | Some u \<Rightarrow> same u v"
  shows "rowsSim key enc (upsert key upd r rows) (jm_set m (vkey v) v)"
proof (rule rowsSim_set [OF sim v])
  fix k'
  have kr: "key r = vkey v" using v by (rule enc_key)
  show "findKey key k' (upsert key upd r rows) = (if k' = vkey v then Some r else findKey key k' rows)"
  proof (cases "jm_get m (vkey v)")
    case None
    with rowsSim_none [OF sim] show ?thesis by (auto simp: findKey_upsert kr)
  next
    case (Some u)
    then obtain old where old: "findKey key (vkey v) rows = Some old" "enc u = Inr old"
      using sim by (auto elim: rowsSim_get)
    then have "vkey u = vkey v" using enc_key findKey_key by metis
    with Some same old v have "upd old r = r" by (intro upd_same) auto
    with old show ?thesis by (simp add: findKey_upsert kr)
  qed
qed

end

text \<open>The encoding of a settlement; the three columns with defaults are present in every value of the memory store.\<close>

definition settlementRow :: "pg_env \<Rightarrow> SettlementRecord \<Rightarrow> string + settlements_row" where
  "settlementRow P s =
     andThen (ts P (st_createdAt s)) (\<lambda>cr. andThen (ts P (st_updatedAt s)) (\<lambda>u. andThen (tsOpt P (st_confirmedAt s)) (\<lambda>cf.
     andThen (ensure (st_ledgerCloseCount s \<noteq> None \<and> st_currencyCode s \<noteq> None \<and> st_periodMode s \<noteq> None) ''23502'') (\<lambda>_.
     Inr \<lparr> rs_id = st_id s, rs_contract_id = st_contractId s, rs_period_year = st_periodYear s, rs_period_month = st_periodMonth s,
       rs_status = st_status s, rs_last_ledger_index = st_lastLedgerIndex s, rs_ledger_close_count = the (st_ledgerCloseCount s),
       rs_created_at = cr, rs_updated_at = u, rs_amount_minor = st_amountMinor s, rs_currency_code = the (st_currencyCode s),
       rs_batch_id = st_batchId s, rs_period_mode = the (st_periodMode s), rs_confirmed_at = cf \<rparr>))))"

interpretation contract_rows: upsert_store rc_id "contractRow P" ct_id "\<lambda>old new. new\<lparr>rc_created_at := rc_created_at old\<rparr>"
  "\<lambda>u v. ct_createdAt u = ct_createdAt v" for P
  by unfold_locales (auto simp: contractRow_def andThen_Inr)

interpretation evidence_rows: upsert_store re_id "evidenceRow P" ev_id "\<lambda>old new. new\<lparr>re_created_at := re_created_at old\<rparr>"
  "\<lambda>u v. ev_createdAt u = ev_createdAt v" for P
  by unfold_locales (auto simp: evidenceRow_def andThen_Inr)

interpretation dispute_rows: upsert_store rd_id "disputeRow P" ds_id "\<lambda>old new. new\<lparr>rd_created_at := rd_created_at old\<rparr>"
  "\<lambda>u v. ds_createdAt u = ds_createdAt v" for P
  by unfold_locales (auto simp: disputeRow_def andThen_Inr)

interpretation registry_rows: upsert_store rg_verifier_id "registryRow P" vr_verifierId
  "\<lambda>old new. old\<lparr>rg_display_label := rg_display_label new, rg_active := rg_active new\<rparr>"
  "\<lambda>u v. vr_id u = vr_id v \<and> vr_createdAt u = vr_createdAt v" for P
  by unfold_locales (auto simp: registryRow_def andThen_Inr)

interpretation decision_rows: upsert_store rq_id "decisionRow P" cd_id "\<lambda>old new. new\<lparr>rq_created_at := rq_created_at old\<rparr>"
  "\<lambda>u v. cd_createdAt u = cd_createdAt v" for P
  by unfold_locales (auto simp: decisionRow_def andThen_Inr)

interpretation xrpl_rows: upsert_store rx_tx_hash "xrplRow P" tx_txHash "\<lambda>old new. new" "\<lambda>u v. True" for P
  by unfold_locales (auto simp: xrplRow_def andThen_Inr)

interpretation notification_rows: upsert_store rn_id "notificationRow P" nt_id "\<lambda>old new. new\<lparr>rn_created_at := rn_created_at old\<rparr>"
  "\<lambda>u v. nt_createdAt u = nt_createdAt v" for P
  by unfold_locales (auto simp: notificationRow_def andThen_Inr)

interpretation outbox_rows: row_store ro_id "outboxRow P" ox_id for P
  by unfold_locales (auto simp: outboxRow_def andThen_Inr)

interpretation job_rows: row_store rj_id "delayedJobRow P" dj_id for P
  by unfold_locales (auto simp: delayedJobRow_def andThen_Inr)

interpretation export_rows: row_store rk_id "exportJobRow P" ej_id for P
  by unfold_locales (auto simp: exportJobRow_def andThen_Inr)

section \<open>Simulation\<close>

definition votesSim :: "pg_env \<Rightarrow> votes_row list \<Rightarrow> (string, DisputeVerifierVoteRecord list) jsmap \<Rightarrow> bool" where
  "votesSim P rows m = (\<forall>i. list_all2 (\<lambda>r v. voteRow P v = Inr r) (filter (\<lambda>r. rv_dispute_id r = i) rows) (getOr [] (jm_get m i)))"

definition sim :: "pg_env \<Rightarrow> pgdb \<Rightarrow> world \<Rightarrow> bool" where
  "sim P d w =
    (rowsSim rc_id (contractRow P) (tContracts d) (contracts w) \<and>
     rowsSim re_id (evidenceRow P) (tEvidences d) (evidences w) \<and>
     rowsSim rd_id (disputeRow P) (tDisputes d) (disputes w) \<and>
     votesSim P (tVotes d) (verifierVotes w) \<and>
     rowsSim rg_verifier_id (registryRow P) (tRegistry d) (verifierRegistry w) \<and>
     rowsSim rq_id (decisionRow P) (tDecisions d) (decisions w) \<and>
     rowsSim rx_tx_hash (xrplRow P) (tXrplTxs d) (xrplTxs w) \<and>
     rowsSim rn_id (notificationRow P) (tNotifications d) (notifications w) \<and>
     rowsSim ro_id (outboxRow P) (tOutbox d) (outboxById w) \<and>
     (\<forall>k. hasKey ro_idempotency_key k (tOutbox d) = jm_has (outboxIdempotency w) k) \<and>
     list_all2 (\<lambda>r a. auditRow P a = Inr r) (tAudits d) (audits w) \<and>
     list_all2 (\<lambda>r e. eventRow P e = Inr r) (tEvents d) (events w) \<and>
     rowsSim rj_id (delayedJobRow P) (tDelayedJobs d) (delayedJobs w) \<and>
     rowsSim rs_id (settlementRow P) (tSettlements d) (settlements w) \<and>
     rowsSim rk_id (exportJobRow P) (tExportJobs d) (exportJobs w))"

lemma sim_issued [simp]: "sim P (issued d) w = sim P d w"
  by (simp add: sim_def issued_def)

lemma sim_empty: "sim P empty_pgdb empty_world"
  by (simp add: sim_def empty_pgdb_def empty_world_def rowsSim_Nil votesSim_def jm_has_def)

text \<open>The writes that both repositories offer and that do not depend on the order of rows.\<close>

datatype writeOp = SaveContract Contract | SaveEvidence EvidenceFile | DeleteEvidence string | SaveDispute DisputeCase
  | AppendVote DisputeVerifierVoteRecord | UpsertRegistry DisputeVerifierRegistryEntry | SaveDecision CaseDecision
  | SaveXrplTx XrplTransaction | SaveNotification NotificationEvent | AppendOutbox NotificationOutboxRecord
  | UpdateOutbox NotificationOutboxRecord | AppendAudit AuditLog | AppendEvent EventEnvelope | CreateJob DelayedJob
  | DeleteJob string | BumpJob string string nat "string option" string | SaveSettlement SettlementRecord
  | CreateExport ExportJobRecord | UpdateExport ExportJobRecord

definition doneM :: "unit io \<Rightarrow> bool io" where
  "doneM m = do { m; ret True }"

definition doneP :: "unit pg \<Rightarrow> bool pg" where
  "doneP m = bindE m (\<lambda>_. ret (Inr True))"

fun runMem :: "writeOp \<Rightarrow> bool io" where
  "runMem (SaveContract c) = doneM (saveContract c)"
| "runMem (SaveEvidence e) = doneM (saveEvidence e)"
| "runMem (DeleteEvidence i) = doneM (deleteEvidence i)"
| "runMem (SaveDispute d) = doneM (saveDispute d)"
| "runMem (AppendVote v) = doneM (appendDisputeVerifierVote v)"
| "runMem (UpsertRegistry e) = doneM (upsertDisputeVerifierRegistryEntry e)"
| "runMem (SaveDecision c) = doneM (saveDecision c)"
| "runMem (SaveXrplTx t) = doneM (saveXrplTx t)"
| "runMem (SaveNotification n) = doneM (saveNotification n)"
| "runMem (AppendOutbox x) = appendNotificationOutbox x"
| "runMem (UpdateOutbox x) = doneM (updateNotificationOutbox x)"
| "runMem (AppendAudit a) = doneM (appendAudit a)"
| "runMem (AppendEvent e) = doneM (appendEvent e)"
| "runMem (CreateJob j) = createDelayedJobIfAbsent j"
| "runMem (DeleteJob i) = doneM (deleteDelayedJob i)"
| "runMem (BumpJob i ra n le u) = doneM (bumpDelayedJob i ra n le u)"
| "runMem (SaveSettlement s) = doneM (saveSettlement s)"
| "runMem (CreateExport j) = doneM (createExportJob j)"
| "runMem (UpdateExport j) = doneM (updateExportJob j)"

fun runPg :: "pg_env \<Rightarrow> writeOp \<Rightarrow> bool pg" where
  "runPg P (SaveContract c) = doneP (saveContractPg P c)"
| "runPg P (SaveEvidence e) = doneP (saveEvidencePg P e)"
| "runPg P (DeleteEvidence i) = doneP (deleteEvidencePg P i)"
| "runPg P (SaveDispute d) = doneP (saveDisputePg P d)"
| "runPg P (AppendVote v) = doneP (appendDisputeVerifierVotePg P v)"
| "runPg P (UpsertRegistry e) = doneP (upsertDisputeVerifierRegistryEntryPg P e)"
| "runPg P (SaveDecision c) = doneP (saveDecisionPg P c)"
| "runPg P (SaveXrplTx t) = doneP (saveXrplTxPg P t)"
| "runPg P (SaveNotification n) = doneP (saveNotificationPg P n)"
| "runPg P (AppendOutbox x) = appendNotificationOutboxPg P x"
| "runPg P (UpdateOutbox x) = doneP (updateNotificationOutboxPg P x)"
| "runPg P (AppendAudit a) = doneP (appendAuditPg P a)"
| "runPg P (AppendEvent e) = doneP (appendEventPg P e)"
| "runPg P (CreateJob j) = createDelayedJobIfAbsentPg P j"
| "runPg P (DeleteJob i) = doneP (deleteDelayedJobPg P i)"
| "runPg P (BumpJob i ra n le u) = doneP (bumpDelayedJobPg P i ra n le u)"
| "runPg P (SaveSettlement s) = doneP (saveSettlementPg P s)"
| "runPg P (CreateExport j) = doneP (createExportJobPg P j)"
| "runPg P (UpdateExport j) = doneP (updateExportJobPg P j)"

text \<open>
  What the callers guarantee: a record that is overwritten keeps the members that the \<open>UPDATE\<close> clauses leave alone, and what is
  updated without an insert is there.
\<close>

definition agrees :: "('k, 'v) jsmap \<Rightarrow> 'k \<Rightarrow> ('v \<Rightarrow> bool) \<Rightarrow> bool" where
  "agrees m k f = (case jm_get m k of None \<Rightarrow> True | Some u \<Rightarrow> f u)"

definition present :: "('k, 'v) jsmap \<Rightarrow> 'k \<Rightarrow> ('v \<Rightarrow> bool) \<Rightarrow> bool" where
  "present m k f = (case jm_get m k of None \<Rightarrow> False | Some u \<Rightarrow> f u)"

fun compatible :: "world \<Rightarrow> writeOp \<Rightarrow> bool" where
  "compatible w (SaveContract c) = agrees (contracts w) (ct_id c) (\<lambda>u. ct_createdAt u = ct_createdAt c)"
| "compatible w (SaveEvidence e) = agrees (evidences w) (ev_id e) (\<lambda>u. ev_createdAt u = ev_createdAt e)"
| "compatible w (SaveDispute d) = agrees (disputes w) (ds_id d) (\<lambda>u. ds_createdAt u = ds_createdAt d)"
| "compatible w (UpsertRegistry e) =
     agrees (verifierRegistry w) (vr_verifierId e) (\<lambda>u. vr_id u = vr_id e \<and> vr_createdAt u = vr_createdAt e)"
| "compatible w (SaveDecision c) = agrees (decisions w) (cd_id c) (\<lambda>u. cd_createdAt u = cd_createdAt c)"
| "compatible w (SaveNotification n) = agrees (notifications w) (nt_id n) (\<lambda>u. nt_createdAt u = nt_createdAt n)"
| "compatible w (UpdateOutbox x) = present (outboxById w) (ox_id x) (\<lambda>u. ox_id u = ox_id x \<and>
     ox_idempotencyKey u = ox_idempotencyKey x \<and> ox_createdAt u = ox_createdAt x)"
| "compatible w (SaveSettlement s) = present (settlements w) (st_id s) (\<lambda>u. st_id u = st_id s \<and> st_contractId u = st_contractId s \<and>
     st_periodYear u = st_periodYear s \<and> st_periodMonth u = st_periodMonth s \<and> st_createdAt u = st_createdAt s)"
| "compatible w (UpdateExport j) = present (exportJobs w) (ej_id j) (\<lambda>u. ej_id u = ej_id j \<and> ej_kind u = ej_kind j \<and>
     ej_createdAt u = ej_createdAt j)"
| "compatible w _ = True"

text \<open>One operation of the database against one of the memory store.\<close>

definition refines :: "pg_env \<Rightarrow> pgdb \<Rightarrow> world \<Rightarrow> 'a pg \<Rightarrow> 'a io \<Rightarrow> bool" where
  "refines P d w m n =
    (case valu m d of
       Inr x \<Rightarrow> x = valu n w \<and> sim P (exec m d) (exec n w)
     | Inl e \<Rightarrow> sim P (exec m d) w \<or> sim P (exec m d) (exec n w))"

lemma stmt_refines:
  assumes "sim P d w"
    and "\<And>x d' k. f k (issued d) = Inr (x, d') \<Longrightarrow> x = valu n w \<and> sim P d' (exec n w)"
  shows "refines P d w (stmt P f) n"
  using assms(1) by (cases rule: stmt_cases [of P f d]) (auto simp: refines_def dest: assms(2))

lemma refines_done: "refines P d w m n \<Longrightarrow> refines P d w (doneP m) (doneM n)"
  by (auto simp: refines_def doneP_def doneM_def split: sum.splits)

text \<open>Changing one table and one map.\<close>

lemma sim_put:
  assumes "sim P d w"
  shows "rowsSim rc_id (contractRow P) rows1 (g1 (contracts w)) \<Longrightarrow> sim P (d\<lparr>tContracts := rows1\<rparr>) (contracts_update g1 w)"
    and "rowsSim re_id (evidenceRow P) rows2 (g2 (evidences w)) \<Longrightarrow> sim P (d\<lparr>tEvidences := rows2\<rparr>) (evidences_update g2 w)"
    and "rowsSim rd_id (disputeRow P) rows3 (g3 (disputes w)) \<Longrightarrow> sim P (d\<lparr>tDisputes := rows3\<rparr>) (disputes_update g3 w)"
    and "votesSim P rows4 (g4 (verifierVotes w)) \<Longrightarrow> sim P (d\<lparr>tVotes := rows4\<rparr>) (verifierVotes_update g4 w)"
    and "rowsSim rg_verifier_id (registryRow P) rows5 (g5 (verifierRegistry w)) \<Longrightarrow>
      sim P (d\<lparr>tRegistry := rows5\<rparr>) (verifierRegistry_update g5 w)"
    and "rowsSim rq_id (decisionRow P) rows6 (g6 (decisions w)) \<Longrightarrow> sim P (d\<lparr>tDecisions := rows6\<rparr>) (decisions_update g6 w)"
    and "rowsSim rx_tx_hash (xrplRow P) rows7 (g7 (xrplTxs w)) \<Longrightarrow> sim P (d\<lparr>tXrplTxs := rows7\<rparr>) (xrplTxs_update g7 w)"
    and "rowsSim rn_id (notificationRow P) rows8 (g8 (notifications w)) \<Longrightarrow>
      sim P (d\<lparr>tNotifications := rows8\<rparr>) (notifications_update g8 w)"
    and "list_all2 (\<lambda>r a. auditRow P a = Inr r) rows9 (g9 (audits w)) \<Longrightarrow> sim P (d\<lparr>tAudits := rows9\<rparr>) (audits_update g9 w)"
    and "list_all2 (\<lambda>r e. eventRow P e = Inr r) rows10 (g10 (events w)) \<Longrightarrow> sim P (d\<lparr>tEvents := rows10\<rparr>) (events_update g10 w)"
    and "rowsSim rj_id (delayedJobRow P) rows11 (g11 (delayedJobs w)) \<Longrightarrow>
      sim P (d\<lparr>tDelayedJobs := rows11\<rparr>) (delayedJobs_update g11 w)"
    and "rowsSim rs_id (settlementRow P) rows12 (g12 (settlements w)) \<Longrightarrow>
      sim P (d\<lparr>tSettlements := rows12\<rparr>) (settlements_update g12 w)"
    and "rowsSim rk_id (exportJobRow P) rows13 (g13 (exportJobs w)) \<Longrightarrow> sim P (d\<lparr>tExportJobs := rows13\<rparr>) (exportJobs_update g13 w)"
  using assms by (simp_all add: sim_def)

lemma simD:
  assumes "sim P d w"
  shows "rowsSim rc_id (contractRow P) (tContracts d) (contracts w)" "rowsSim re_id (evidenceRow P) (tEvidences d) (evidences w)"
    "rowsSim rd_id (disputeRow P) (tDisputes d) (disputes w)" "votesSim P (tVotes d) (verifierVotes w)"
    "rowsSim rg_verifier_id (registryRow P) (tRegistry d) (verifierRegistry w)"
    "rowsSim rq_id (decisionRow P) (tDecisions d) (decisions w)" "rowsSim rx_tx_hash (xrplRow P) (tXrplTxs d) (xrplTxs w)"
    "rowsSim rn_id (notificationRow P) (tNotifications d) (notifications w)"
    "rowsSim ro_id (outboxRow P) (tOutbox d) (outboxById w)"
    "hasKey ro_idempotency_key k (tOutbox d) = jm_has (outboxIdempotency w) k"
    "list_all2 (\<lambda>r a. auditRow P a = Inr r) (tAudits d) (audits w)" "list_all2 (\<lambda>r e. eventRow P e = Inr r) (tEvents d) (events w)"
    "rowsSim rj_id (delayedJobRow P) (tDelayedJobs d) (delayedJobs w)"
    "rowsSim rs_id (settlementRow P) (tSettlements d) (settlements w)"
    "rowsSim rk_id (exportJobRow P) (tExportJobs d) (exportJobs w)"
  using assms by (simp_all add: sim_def)

text \<open>A statement that fails without effect or answers with the effect of the operation in memory.\<close>

lemma stmt_refines':
  assumes "sim P d w"
    and "\<And>k d x d'. sim P d w \<Longrightarrow> f k d = Inr (x, d') \<Longrightarrow> x = valu n w \<and> sim P d' (exec n w)"
  shows "refines P d w (stmt P f) n"
proof (rule stmt_refines [OF assms(1)])
  fix x d' k
  assume "f k (issued d) = Inr (x, d')"
  with assms(1) show "x = valu n w \<and> sim P d' (exec n w)" by (intro assms(2)) simp_all
qed

lemma refines_contract:
  assumes "sim P d w" "agrees (contracts w) (ct_id c) (\<lambda>u. ct_createdAt u = ct_createdAt c)"
  shows "refines P d w (saveContractPg P c) (saveContract c)"
  unfolding saveContractPg_def
  by (rule stmt_refines' [OF assms(1)], insert assms(2))
    (auto simp: andThen_Inr agrees_def run_simps intro!: sim_put(1) contract_rows.save dest: simD)

lemma refines_evidence:
  assumes "sim P d w" "agrees (evidences w) (ev_id e) (\<lambda>u. ev_createdAt u = ev_createdAt e)"
  shows "refines P d w (saveEvidencePg P e) (saveEvidence e)"
  unfolding saveEvidencePg_def
  by (rule stmt_refines' [OF assms(1)], insert assms(2))
    (auto simp: andThen_Inr agrees_def run_simps intro!: sim_put(2) evidence_rows.save dest: simD)

lemma refines_dispute:
  assumes "sim P d w" "agrees (disputes w) (ds_id c) (\<lambda>u. ds_createdAt u = ds_createdAt c)"
  shows "refines P d w (saveDisputePg P c) (saveDispute c)"
  unfolding saveDisputePg_def
  by (rule stmt_refines' [OF assms(1)], insert assms(2))
    (auto simp: andThen_Inr agrees_def run_simps intro!: sim_put(3) dispute_rows.save dest: simD)

lemma refines_registry:
  assumes "sim P d w" "agrees (verifierRegistry w) (vr_verifierId e) (\<lambda>u. vr_id u = vr_id e \<and> vr_createdAt u = vr_createdAt e)"
  shows "refines P d w (upsertDisputeVerifierRegistryEntryPg P e) (upsertDisputeVerifierRegistryEntry e)"
  unfolding upsertDisputeVerifierRegistryEntryPg_def
  by (rule stmt_refines' [OF assms(1)], insert assms(2))
    (auto simp: andThen_Inr agrees_def run_simps intro!: sim_put(5) registry_rows.save dest: simD)

lemma refines_decision:
  assumes "sim P d w" "agrees (decisions w) (cd_id c) (\<lambda>u. cd_createdAt u = cd_createdAt c)"
  shows "refines P d w (saveDecisionPg P c) (saveDecision c)"
  unfolding saveDecisionPg_def
  by (rule stmt_refines' [OF assms(1)], insert assms(2))
    (auto simp: andThen_Inr agrees_def run_simps intro!: sim_put(6) decision_rows.save dest: simD)

lemma refines_notification:
  assumes "sim P d w" "agrees (notifications w) (nt_id n) (\<lambda>u. nt_createdAt u = nt_createdAt n)"
  shows "refines P d w (saveNotificationPg P n) (saveNotification n)"
  unfolding saveNotificationPg_def
  by (rule stmt_refines' [OF assms(1)], insert assms(2))
    (auto simp: andThen_Inr agrees_def run_simps intro!: sim_put(8) notification_rows.save dest: simD)

lemma refines_xrpl:
  assumes "sim P d w"
  shows "refines P d w (saveXrplTxPg P t) (saveXrplTx t)"
  unfolding saveXrplTxPg_def
  by (rule stmt_refines' [OF assms])
    (auto simp: andThen_Inr run_simps intro!: sim_put(7) xrpl_rows.save dest: simD split: option.splits)

lemma refines_delete:
  assumes "sim P d w"
  shows "refines P d w (deleteEvidencePg P i) (deleteEvidence i)" "refines P d w (deleteDelayedJobPg P i) (deleteDelayedJob i)"
  unfolding deleteEvidencePg_def deleteDelayedJobPg_def
  by (rule stmt_refines' [OF assms], auto simp: run_simps intro!: sim_put rowsSim_delete dest: simD)+

lemma votesSim_append:
  assumes "votesSim P rows m" "voteRow P v = Inr r"
  shows "votesSim P (rows @ [r]) (jm_set m (vv_disputeId v) (getOr [] (jm_get m (vv_disputeId v)) @ [v]))"
proof -
  from assms(2) have "rv_dispute_id r = vv_disputeId v" by (auto simp: voteRow_def andThen_Inr)
  with assms show ?thesis by (auto simp: votesSim_def intro: list_all2_appendI)
qed

lemma refines_logs:
  assumes "sim P d w"
  shows "refines P d w (appendDisputeVerifierVotePg P v) (appendDisputeVerifierVote v)"
    and "refines P d w (appendAuditPg P a) (appendAudit a)" and "refines P d w (appendEventPg P e) (appendEvent e)"
  unfolding appendDisputeVerifierVotePg_def appendAuditPg_def appendEventPg_def
  by (rule stmt_refines' [OF assms], auto simp: andThen_Inr appendAudit_def appendEvent_def run_simps
      intro!: sim_put votesSim_append list_all2_appendI dest: simD)+

lemma refines_create_job:
  assumes "sim P d w"
  shows "refines P d w (createDelayedJobIfAbsentPg P j) (createDelayedJobIfAbsent j)"
  unfolding createDelayedJobIfAbsentPg_def
proof (rule stmt_refines' [OF assms])
  fix k d x d'
  assume sim: "sim P d w" and f: "andThen (delayedJobRow P j) (\<lambda>row.
     if hasKey rj_id (dj_id j) (tDelayedJobs d) then Inr (False, d)
     else Inr (True, d\<lparr>tDelayedJobs := tDelayedJobs d @ [row]\<rparr>)) = Inr (x, d')"
  have "hasKey rj_id (dj_id j) (tDelayedJobs d) = jm_has (delayedJobs w) (dj_id j)"
    using simD(13) [OF sim] by (rule rowsSim_hasKey)
  with sim f show "x = valu (createDelayedJobIfAbsent j) w \<and> sim P d' (exec (createDelayedJobIfAbsent j) w)"
    by (auto simp: andThen_Inr createDelayedJobIfAbsent_def run_simps intro!: sim_put(11) job_rows.insert dest: simD split: if_splits)
qed

lemma refines_bump_job:
  assumes "sim P d w"
  shows "refines P d w (bumpDelayedJobPg P i ra n le u) (bumpDelayedJob i ra n le u)"
  unfolding bumpDelayedJobPg_def
proof (rule stmt_refines' [OF assms])
  fix k d x d'
  assume sim: "sim P d w" and f: "andThen (ts P ra) (\<lambda>ra. andThen (ensure (fitsInt (int n)) ''22003'') (\<lambda>_. andThen (ts P u) (\<lambda>u.
     Inr ((), d\<lparr>tDelayedJobs := updateRows (\<lambda>r. rj_id r = i)
       (\<lambda>r. r\<lparr>rj_run_after := ra, rj_attempts := n, rj_last_error := le, rj_updated_at := u, rj_locked_until := None\<rparr>)
       (tDelayedJobs d)\<rparr>)))) = Inr (x, d')"
  show "x = valu (bumpDelayedJob i ra n le u) w \<and> sim P d' (exec (bumpDelayedJob i ra n le u) w)"
  proof (cases "jm_get (delayedJobs w) i")
    case None
    then have "\<forall>r \<in> set (tDelayedJobs d). rj_id r \<noteq> i"
      using rowsSim_hasKey [OF simD(13) [OF sim], of i] by (auto simp: jm_has_def hasKey_iff)
    then have "updateRows (\<lambda>r. rj_id r = i) g (tDelayedJobs d) = tDelayedJobs d" for g
      by (auto simp: updateRows_def intro: map_idI)
    with None sim f show ?thesis by (auto simp: andThen_Inr bumpDelayedJob_def run_simps)
  next
    case (Some j)
    with sim f show ?thesis
      by (auto simp: andThen_Inr bumpDelayedJob_def run_simps delayedJobRow_def tsOpt_def intro!: sim_put(11) rowsSim_update dest: simD)
  qed
qed

text \<open>The outbox: the table carries the map of the rows and the map of the idempotency keys.\<close>

lemma sim_put_outbox:
  assumes "sim P d w" "rowsSim ro_id (outboxRow P) rows (g (outboxById w))"
  shows "(\<And>k. hasKey ro_idempotency_key k rows = jm_has (h (outboxIdempotency w)) k) \<Longrightarrow>
      sim P (d\<lparr>tOutbox := rows\<rparr>) (outboxIdempotency_update h (outboxById_update g w))"
    and "(\<And>k. hasKey ro_idempotency_key k rows = jm_has (outboxIdempotency w) k) \<Longrightarrow>
      sim P (d\<lparr>tOutbox := rows\<rparr>) (outboxById_update g w)"
  using assms by (simp_all add: sim_def)

lemma refines_append_outbox:
  assumes "sim P d w"
  shows "refines P d w (appendNotificationOutboxPg P x) (appendNotificationOutbox x)"
  unfolding appendNotificationOutboxPg_def
proof (rule stmt_refines' [OF assms])
  fix k d y d'
  assume sim: "sim P d w" and f: "andThen (outboxRow P x) (\<lambda>row.
     if hasKey ro_idempotency_key (ox_idempotencyKey x) (tOutbox d) then Inr (False, d)
     else andThen (ensure (\<not> hasKey ro_id (ox_id x) (tOutbox d)) ''23505'') (\<lambda>_.
       Inr (True, d\<lparr>tOutbox := tOutbox d @ [row]\<rparr>))) = Inr (y, d')"
  show "y = valu (appendNotificationOutbox x) w \<and> sim P d' (exec (appendNotificationOutbox x) w)"
  proof (cases "jm_has (outboxIdempotency w) (ox_idempotencyKey x)")
    case True
    with sim f show ?thesis by (auto simp: andThen_Inr appendNotificationOutbox_def run_simps simD(10) [OF sim])
  next
    case False
    with f obtain row where row: "outboxRow P x = Inr row" "\<not> hasKey ro_id (ox_id x) (tOutbox d)" "y = True"
      "d' = d\<lparr>tOutbox := tOutbox d @ [row]\<rparr>"
      by (auto simp: andThen_Inr simD(10) [OF sim])
    then have "ro_idempotency_key row = ox_idempotencyKey x" by (auto simp: outboxRow_def andThen_Inr)
    then have "sim P d' (outboxIdempotency_update (\<lambda>m. jm_set m (ox_idempotencyKey x) (ox_id x))
        (outboxById_update (\<lambda>m. jm_set m (ox_id x) x) w))"
      unfolding row(4) using row(1,2) simD(9,10) [OF sim]
      by (intro sim_put_outbox(1) [OF sim] outbox_rows.insert) (auto simp: jm_has_def)
    with False row(3) show ?thesis by (simp add: appendNotificationOutbox_def run_simps)
  qed
qed

lemma refines_update_outbox:
  assumes "sim P d w" "compatible w (UpdateOutbox x)"
  shows "refines P d w (updateNotificationOutboxPg P x) (updateNotificationOutbox x)"
  unfolding updateNotificationOutboxPg_def
proof (rule stmt_refines' [OF assms(1)])
  fix k d y d'
  assume sim: "sim P d w" and "andThen (jb P (JObj (ox_payload x))) (\<lambda>p. andThen (ensure (fitsInt (int (ox_attempts x))) ''22003'') (\<lambda>_.
     andThen (ts P (ox_updatedAt x)) (\<lambda>u. andThen (tsOpt P (ox_processingStartedAt x)) (\<lambda>ps.
     Inr ((), d\<lparr>tOutbox := updateRows (\<lambda>r. ro_id r = ox_id x)
       (\<lambda>r. r\<lparr>ro_event_type := ox_eventType x, ro_recipient_id := ox_recipientId x, ro_channel := ox_channel x, ro_payload := p,
         ro_status := ox_status x, ro_attempts := ox_attempts x, ro_last_error := ox_lastError x, ro_updated_at := u,
         ro_processing_started_at := ps, ro_dispatched_notification_id := ox_dispatchedNotificationId x\<rparr>) (tOutbox d)\<rparr>))))) = Inr (y, d')"
  then obtain p u ps where enc: "jb P (JObj (ox_payload x)) = Inr p" "fitsInt (int (ox_attempts x))" "ts P (ox_updatedAt x) = Inr u"
      "tsOpt P (ox_processingStartedAt x) = Inr ps"
    and d': "d' = d\<lparr>tOutbox := updateRows (\<lambda>r. ro_id r = ox_id x)
       (\<lambda>r. r\<lparr>ro_event_type := ox_eventType x, ro_recipient_id := ox_recipientId x, ro_channel := ox_channel x, ro_payload := p,
         ro_status := ox_status x, ro_attempts := ox_attempts x, ro_last_error := ox_lastError x, ro_updated_at := u,
         ro_processing_started_at := ps, ro_dispatched_notification_id := ox_dispatchedNotificationId x\<rparr>) (tOutbox d)\<rparr>"
    by (auto simp: andThen_Inr)
  from assms(2) obtain v where v: "jm_get (outboxById w) (ox_id x) = Some v" "ox_id v = ox_id x"
    "ox_idempotencyKey v = ox_idempotencyKey x" "ox_createdAt v = ox_createdAt x"
    by (auto simp: present_def split: option.splits)
  have "sim P d' (outboxById_update (\<lambda>m. jm_set m (ox_id x) x) w)"
    unfolding d' using v enc simD(9,10) [OF sim]
    by (intro sim_put_outbox(2) [OF sim] rowsSim_update [of _ _ _ _ _ v]) (auto simp: outboxRow_def andThen_Inr)
  with v show "y = valu (updateNotificationOutbox x) w \<and> sim P d' (exec (updateNotificationOutbox x) w)"
    by (simp add: updateNotificationOutbox_def run_simps)
qed

lemma refines_create_export:
  assumes "sim P d w"
  shows "refines P d w (createExportJobPg P j) (createExportJob j)"
  unfolding createExportJobPg_def
  by (rule stmt_refines' [OF assms])
    (auto simp: andThen_Inr run_simps intro!: sim_put(13) export_rows.insert dest: simD)

lemma refines_update_export:
  assumes "sim P d w" "compatible w (UpdateExport j)"
  shows "refines P d w (updateExportJobPg P j) (updateExportJob j)"
  unfolding updateExportJobPg_def
proof (rule stmt_refines' [OF assms(1)])
  fix k d y d'
  assume sim: "sim P d w" and f: "andThen (jb P (filterJson (ej_filter j))) (\<lambda>f. andThen (ensure (fitsInt (int (ej_maxExport j))) ''22003'') (\<lambda>_.
     andThen (ts P (ej_updatedAt j)) (\<lambda>u.
     if \<not> hasKey rk_id (ej_id j) (tExportJobs d) then Inr ((), d)
     else andThen (ensure (1 \<le> ej_maxExport j \<and> ej_maxExport j \<le> 100000) ''23514'') (\<lambda>_.
     Inr ((), d\<lparr>tExportJobs := updateRows (\<lambda>r. rk_id r = ej_id j)
       (\<lambda>r. r\<lparr>rk_status := ej_status j, rk_filter_json := f, rk_max_export := ej_maxExport j,
         rk_result_ndjson := ej_resultNdjson j, rk_error := ej_error j, rk_updated_at := u\<rparr>) (tExportJobs d)\<rparr>))))) = Inr (y, d')"
  from assms(2) obtain v where v: "jm_get (exportJobs w) (ej_id j) = Some v" "ej_id v = ej_id j" "ej_kind v = ej_kind j"
    "ej_createdAt v = ej_createdAt j"
    by (auto simp: present_def split: option.splits)
  then have "hasKey rk_id (ej_id j) (tExportJobs d)" using rowsSim_hasKey [OF simD(15) [OF sim]] by (simp add: jm_has_def)
  with f v simD(15) [OF sim] show "y = valu (updateExportJob j) w \<and> sim P d' (exec (updateExportJob j) w)"
    by (auto simp: andThen_Inr run_simps exportJobRow_def intro!: sim_put(13) [OF sim] rowsSim_update [of _ _ _ _ _ v])
qed

lemma refines_settlement:
  assumes "sim P d w" "compatible w (SaveSettlement s)"
  shows "refines P d w (saveSettlementPg P s) (saveSettlement s)"
  unfolding saveSettlementPg_def
proof (rule stmt_refines' [OF assms(1)])
  fix k d y d'
  assume sim: "sim P d w" and f: "andThen (ensure ((case st_lastLedgerIndex s of None \<Rightarrow> True | Some i \<Rightarrow> fitsBigint i) \<and>
       fitsInt (int (getOr 0 (st_ledgerCloseCount s))) \<and> (case st_amountMinor s of None \<Rightarrow> True | Some i \<Rightarrow> fitsBigint i)) ''22003'') (\<lambda>_.
     andThen (ts P (st_updatedAt s)) (\<lambda>u. andThen (tsOpt P (st_confirmedAt s)) (\<lambda>cf.
     if \<not> hasKey rs_id (st_id s) (tSettlements d) then Inr ((), d)
     else andThen (ensure (st_ledgerCloseCount s \<noteq> None \<and> st_currencyCode s \<noteq> None \<and> st_periodMode s \<noteq> None) ''23502'') (\<lambda>_.
       andThen (ensure (st_periodMode s = Some ''calendar_utc'') ''23514'') (\<lambda>_.
       Inr ((), d\<lparr>tSettlements := updateRows (\<lambda>r. rs_id r = st_id s)
         (\<lambda>r. r\<lparr>rs_status := st_status s, rs_last_ledger_index := st_lastLedgerIndex s,
           rs_ledger_close_count := the (st_ledgerCloseCount s), rs_updated_at := u, rs_amount_minor := st_amountMinor s,
           rs_currency_code := the (st_currencyCode s), rs_batch_id := st_batchId s, rs_period_mode := the (st_periodMode s),
           rs_confirmed_at := cf\<rparr>) (tSettlements d)\<rparr>)))))) = Inr (y, d')"
  from assms(2) obtain v where v: "jm_get (settlements w) (st_id s) = Some v" "st_id v = st_id s" "st_contractId v = st_contractId s"
    "st_periodYear v = st_periodYear s" "st_periodMonth v = st_periodMonth s" "st_createdAt v = st_createdAt s"
    by (auto simp: present_def split: option.splits)
  then have has: "hasKey rs_id (st_id s) (tSettlements d)" using rowsSim_hasKey [OF simD(14) [OF sim]] by (simp add: jm_has_def)
  with f obtain u cf lc cc where enc: "ts P (st_updatedAt s) = Inr u" "tsOpt P (st_confirmedAt s) = Inr cf"
      "st_ledgerCloseCount s = Some lc" "st_currencyCode s = Some cc" "st_periodMode s = Some ''calendar_utc''"
    and d': "d' = d\<lparr>tSettlements := updateRows (\<lambda>r. rs_id r = st_id s)
         (\<lambda>r. r\<lparr>rs_status := st_status s, rs_last_ledger_index := st_lastLedgerIndex s,
           rs_ledger_close_count := lc, rs_updated_at := u, rs_amount_minor := st_amountMinor s,
           rs_currency_code := cc, rs_batch_id := st_batchId s, rs_period_mode := ''calendar_utc'',
           rs_confirmed_at := cf\<rparr>) (tSettlements d)\<rparr>"
    by (auto simp: andThen_Inr)
  have "withSettlementDefaults s = s" using enc by (simp add: withSettlementDefaults_def)
  moreover have "sim P d' (settlements_update (\<lambda>m. jm_set m (st_id s) s) w)"
    unfolding d' using v enc simD(14) [OF sim]
    by (intro sim_put(12) [OF sim] rowsSim_update [of _ _ _ _ _ v]) (auto simp: settlementRow_def andThen_Inr)
  ultimately show "y = valu (saveSettlement s) w \<and> sim P d' (exec (saveSettlement s) w)"
    by (simp add: run_simps)
qed

text \<open>C5: The PostgreSQL repository refines the in-memory one. When the tables represent the maps and the caller keeps to the
  contract of the operation, a write that answers gives the result of the in-memory write, and the tables then represent
  the maps after it; a write that reports an error has either had no effect or exactly this effect.\<close>

theorem pg_refines_memory:
  assumes "sim P d w" "compatible w op"
  shows "case valu (runPg P op) d of
      Inr b \<Rightarrow> b = valu (runMem op) w \<and> sim P (exec (runPg P op) d) (exec (runMem op) w)
    | Inl e \<Rightarrow> sim P (exec (runPg P op) d) w \<or> sim P (exec (runPg P op) d) (exec (runMem op) w)"
proof -
  have "refines P d w (runPg P op) (runMem op)"
    using assms
    by (cases op) (simp_all add: refines_done refines_contract refines_evidence refines_dispute refines_registry refines_decision
        refines_notification refines_xrpl refines_delete refines_logs refines_create_job refines_bump_job
        refines_append_outbox refines_update_outbox refines_create_export refines_update_export refines_settlement)
  then show ?thesis by (simp add: refines_def)
qed

end
