(* ===== verification/PgReads.thy ===== *)
theory PgReads
  imports PgRefinement
begin

text \<open>
  What the reads of \<open>repository/postgres-repository.ts\<close> return: reads by key agree with the in-memory repository, the audit listings
  do not depend on the order of the scan, and rows that are handed out to a worker are handed out once.
\<close>

section \<open>Reads by key\<close>

lemma filter_key:
  "distinct (map key rows) \<Longrightarrow> filter (\<lambda>r. key r = k) rows = (case findKey key k rows of None \<Rightarrow> [] | Some r \<Rightarrow> [r])"
proof (induction rows)
  case (Cons r rows)
  show ?case
  proof (cases "key r = k")
    case True
    with Cons.prems have "\<forall>x \<in> set rows. key x \<noteq> k" by (metis distinct.simps(2) image_eqI image_set list.simps(9))
    then have "filter (\<lambda>r. key r = k) rows = []" by (simp add: filter_empty_conv)
    with True show ?thesis by simp
  qed (use Cons in simp)
qed simp

lemma filter_key_visit:
  assumes "pg_orders P" "distinct (map key rows)"
  shows "filter (\<lambda>r. key r = k) (visit P n rows) = (case findKey key k rows of None \<Rightarrow> [] | Some r \<Rightarrow> [r])"
proof -
  have "mset (filter (\<lambda>r. key r = k) (visit P n rows)) = mset (filter (\<lambda>r. key r = k) rows)"
    using mset_visit [OF assms(1), of n rows] by (metis mset_filter)
  also have "\<dots> = mset (case findKey key k rows of None \<Rightarrow> [] | Some r \<Rightarrow> [r])"
    by (simp only: filter_key [OF assms(2)])
  finally show ?thesis
    by (cases "findKey key k rows") (simp_all only: option.case mset_single_iff mset.simps mset_zero_iff)
qed

lemma exec_select [simp]: "exec (select P tbl f) d = issued d"
  by (auto simp: select_def stmt_run split: option.splits sum.splits)

lemma valu_select:
  assumes "refuses P (pgCalls d) = None" "losesAnswer P (pgCalls d) = None"
  shows "valu (select P tbl f) d = f (visit P (pgCalls d) (tbl (issued d)))"
  using assms by (auto simp: select_def stmt_run split: option.splits sum.splits)

lemma get_reads:
  assumes "refuses P (pgCalls d) = None" "losesAnswer P (pgCalls d) = None" "pg_orders P"
    and "distinct (map key (tbl (issued d)))" "rowsSim key enc (tbl (issued d)) m"
    and "\<And>v r. jm_get m k = Some v \<Longrightarrow> enc v = Inr r \<Longrightarrow> f r = Inr v"
  shows "valu (select P tbl (\<lambda>rows. firstRowE f (filter (\<lambda>r. key r = k) rows))) d = Inr (jm_get m k)"
proof (cases "jm_get m k")
  case None
  then have "findKey key k (tbl (issued d)) = None" using rowsSim_none [OF assms(5)] by blast
  with None show ?thesis
    by (simp add: valu_select [OF assms(1,2)] filter_key_visit [OF assms(3,4)] firstRowE_def)
next
  case (Some v)
  with assms(5) obtain r where "findKey key k (tbl (issued d)) = Some r" "enc v = Inr r" by (rule rowsSim_get)
  with Some assms(6) show ?thesis
    by (simp add: valu_select [OF assms(1,2)] filter_key_visit [OF assms(3,4)] firstRowE_def)
qed

lemma firstRow_E: "firstRow f = firstRowE (\<lambda>r. Inr (f r))"
  by (auto simp: firstRow_def firstRowE_def fun_eq_iff split: list.splits)

section \<open>Values that survive the column types\<close>

text \<open>
  A timestamp in the form that \<open>toISOString\<close> gives, an optional text that is not empty, and an object that \<open>JSONB\<close> returns as it was.
\<close>

definition stable :: "pg_env \<Rightarrow> string \<Rightarrow> bool" where
  "stable P s = (case timestamptz P s of None \<Rightarrow> False | Some t \<Rightarrow> toIso P t = s)"

definition stableOpt :: "pg_env \<Rightarrow> string option \<Rightarrow> bool" where
  "stableOpt P s = (case s of None \<Rightarrow> True | Some x \<Rightarrow> stable P x)"

definition notBlank :: "string option \<Rightarrow> bool" where
  "notBlank s = (s \<noteq> Some '''')"

definition stableJson :: "pg_env \<Rightarrow> json \<Rightarrow> bool" where
  "stableJson P j = (jsonb P (stringify j) = Some j)"

lemma stable_ts: "ts P s = Inr t \<Longrightarrow> stable P s \<Longrightarrow> toIso P t = s"
  by (auto simp: ts_def stable_def split: option.splits)

lemma stable_tsOpt: "tsOpt P s = Inr t \<Longrightarrow> stableOpt P s \<Longrightarrow> map_option (toIso P) t = s"
  by (auto simp: tsOpt_def stableOpt_def andThen_Inr stable_ts split: option.splits)

lemma notBlank_text: "notBlank s \<Longrightarrow> textOrUndef s = s"
  by (cases s) (auto simp: notBlank_def textOrUndef_def)

lemma stable_jb: "jb P j = Inr v \<Longrightarrow> stableJson P j \<Longrightarrow> v = j"
  by (auto simp: jb_def stableJson_def split: option.splits)

lemmas stable_reads = stable_ts stable_tsOpt notBlank_text

definition canonContract :: "pg_env \<Rightarrow> Contract \<Rightarrow> bool" where
  "canonContract P c = (notBlank (ct_escrowCreateTxHash c) \<and> notBlank (ct_depositAmount c) \<and> notBlank (ct_stakeAmount c) \<and>
     stableOpt P (ct_startsAt c) \<and> stableOpt P (ct_endsAt c) \<and> stable P (ct_createdAt c) \<and> stable P (ct_updatedAt c))"

definition canonEvidence :: "pg_env \<Rightarrow> EvidenceFile \<Rightarrow> bool" where
  "canonEvidence P e = (notBlank (ev_disputeId e) \<and> notBlank (ev_encryptionScheme e) \<and> stableOpt P (ev_retainUntil e) \<and>
     stableOpt P (ev_legalHoldUntil e) \<and> stable P (ev_createdAt e))"

definition canonDispute :: "pg_env \<Rightarrow> DisputeCase \<Rightarrow> bool" where
  "canonDispute P c = (stableJson P (JArr (map JStr (ds_evidenceBundle c))) \<and> stable P (ds_createdAt c) \<and> stable P (ds_updatedAt c) \<and>
     stableOpt P (ds_reviewDeadlineAt c) \<and> stableOpt P (ds_escalatedAt c))"

definition canonXrpl :: "pg_env \<Rightarrow> XrplTransaction \<Rightarrow> bool" where
  "canonXrpl P t = (notBlank (tx_account t) \<and> notBlank (tx_disputeId t) \<and> notBlank (tx_resultCode t) \<and>
     notBlank (tx_escrowOwner t) \<and> notBlank (tx_escrowDestination t) \<and> notBlank (tx_escrowSubmitterAccount t) \<and>
     stable P (tx_lastCheckedAt t))"

definition canonNotification :: "pg_env \<Rightarrow> NotificationEvent \<Rightarrow> bool" where
  "canonNotification P n = (stableJson P (JObj (nt_payload n)) \<and> stable P (nt_createdAt n) \<and> nt_updatedAt n \<noteq> None \<and>
     stableOpt P (nt_updatedAt n) \<and> nt_attemptCount n \<noteq> None \<and> stableOpt P (nt_nextAttemptAt n) \<and> notBlank (nt_lastError n) \<and>
     nt_deadLetter n \<noteq> None)"

definition canonOutbox :: "pg_env \<Rightarrow> NotificationOutboxRecord \<Rightarrow> bool" where
  "canonOutbox P x = (stableJson P (JObj (ox_payload x)) \<and> notBlank (ox_lastError x) \<and> stable P (ox_createdAt x) \<and>
     stable P (ox_updatedAt x) \<and> stableOpt P (ox_processingStartedAt x) \<and> notBlank (ox_dispatchedNotificationId x))"

definition canonSettlement :: "pg_env \<Rightarrow> SettlementRecord \<Rightarrow> bool" where
  "canonSettlement P s = (stable P (st_createdAt s) \<and> stable P (st_updatedAt s) \<and> notBlank (st_currencyCode s) \<and>
     notBlank (st_batchId s) \<and> notBlank (st_periodMode s) \<and> stableOpt P (st_confirmedAt s))"

text \<open>The filter of an export job has only members that are present; its JSON is read back without the others.\<close>

definition canonExport :: "pg_env \<Rightarrow> ExportJobRecord \<Rightarrow> bool" where
  "canonExport P j = (map_option readFilter (jsonb P (stringify (filterJson (ej_filter j)))) = Some (Some (ej_filter j)) \<and>
     stable P (ej_createdAt j) \<and> stable P (ej_updatedAt j))"

lemma jtexts_strings [simp]: "jtexts (map JStr xs) = Some xs"
  by (induction xs) auto

lemma read_contract: "contractRow P c = Inr r \<Longrightarrow> canonContract P c \<Longrightarrow> rowToContract P r = c"
  by (auto simp: contractRow_def canonContract_def rowToContract_def andThen_Inr stable_reads)

lemma read_evidence: "evidenceRow P e = Inr r \<Longrightarrow> canonEvidence P e \<Longrightarrow> rowToEvidence P r = e"
  by (auto simp: evidenceRow_def canonEvidence_def rowToEvidence_def andThen_Inr stable_reads)

lemma read_dispute: "disputeRow P c = Inr r \<Longrightarrow> canonDispute P c \<Longrightarrow> rowToDispute P r = Inr c"
  by (auto simp: disputeRow_def canonDispute_def rowToDispute_def andThen_Inr stable_reads readBundle_def dest!: stable_jb)

lemma read_xrpl: "xrplRow P t = Inr r \<Longrightarrow> canonXrpl P t \<Longrightarrow> rowToXrpl P r = t"
  by (auto simp: xrplRow_def canonXrpl_def rowToXrpl_def andThen_Inr stable_reads)

lemma read_notification: "notificationRow P n = Inr r \<Longrightarrow> canonNotification P n \<Longrightarrow> rowToNotification P r = n"
  by (auto simp: notificationRow_def canonNotification_def rowToNotification_def andThen_Inr stable_reads stableOpt_def objOf_def
      dest!: stable_jb)

lemma read_outbox: "outboxRow P x = Inr r \<Longrightarrow> canonOutbox P x \<Longrightarrow> rowToNotificationOutbox P r = x"
  by (auto simp: outboxRow_def canonOutbox_def rowToNotificationOutbox_def andThen_Inr stable_reads objOf_def dest!: stable_jb)

lemma read_settlement: "settlementRow P s = Inr r \<Longrightarrow> canonSettlement P s \<Longrightarrow> rowToSettlement P r = withSettlementDefaults s"
  by (auto simp: settlementRow_def canonSettlement_def rowToSettlement_def andThen_Inr stable_reads withSettlementDefaults_def
      notBlank_def)

lemma read_export: "exportJobRow P j = Inr r \<Longrightarrow> canonExport P j \<Longrightarrow> rowToExportJob P r = Inr j"
  by (auto simp: exportJobRow_def canonExport_def rowToExportJob_def andThen_Inr stable_reads jb_def split: option.splits)

text \<open>The reads by key that the two repositories share, with what they return.\<close>

datatype readOp = GetContract string | GetEvidence string | GetDispute string | GetXrplTx string | GetNotification string
  | GetOutbox string | GetSettlement string | GetExport string | HasContract string | HasEvidence string

datatype answer = AContract "Contract option" | AEvidence "EvidenceFile option" | ADispute "DisputeCase option"
  | AXrpl "XrplTransaction option" | ANotification "NotificationEvent option" | AOutbox "NotificationOutboxRecord option"
  | ASettlement "SettlementRecord option" | AExport "ExportJobRecord option" | ABool bool

definition answerM :: "('a \<Rightarrow> answer) \<Rightarrow> 'a io \<Rightarrow> answer io" where
  "answerM a m = do { x \<leftarrow> m; ret (a x) }"

definition answerP :: "('a \<Rightarrow> answer) \<Rightarrow> 'a pg \<Rightarrow> answer pg" where
  "answerP a m = bindE m (\<lambda>x. ret (Inr (a x)))"

fun readMem :: "readOp \<Rightarrow> answer io" where
  "readMem (GetContract i) = answerM AContract (getContract i)"
| "readMem (GetEvidence i) = answerM AEvidence (getEvidence i)"
| "readMem (GetDispute i) = answerM ADispute (getDispute i)"
| "readMem (GetXrplTx i) = answerM AXrpl (getXrplTx i)"
| "readMem (GetNotification i) = answerM ANotification (getNotification i)"
| "readMem (GetOutbox i) = answerM AOutbox (getNotificationOutbox i)"
| "readMem (GetSettlement i) = answerM ASettlement (getSettlement i)"
| "readMem (GetExport i) = answerM AExport (getExportJob i)"
| "readMem (HasContract i) = answerM ABool (hasContract i)"
| "readMem (HasEvidence i) = answerM ABool (hasEvidence i)"

fun readPg :: "pg_env \<Rightarrow> readOp \<Rightarrow> answer pg" where
  "readPg P (GetContract i) = answerP AContract (getContractPg P i)"
| "readPg P (GetEvidence i) = answerP AEvidence (getEvidencePg P i)"
| "readPg P (GetDispute i) = answerP ADispute (getDisputePg P i)"
| "readPg P (GetXrplTx i) = answerP AXrpl (getXrplTxPg P i)"
| "readPg P (GetNotification i) = answerP ANotification (getNotificationPg P i)"
| "readPg P (GetOutbox i) = answerP AOutbox (getNotificationOutboxPg P i)"
| "readPg P (GetSettlement i) = answerP ASettlement (getSettlementPg P i)"
| "readPg P (GetExport i) = answerP AExport (getExportJobPg P i)"
| "readPg P (HasContract i) = answerP ABool (hasContractPg P i)"
| "readPg P (HasEvidence i) = answerP ABool (hasEvidencePg P i)"

definition optionally' :: "('a \<Rightarrow> bool) \<Rightarrow> 'a option \<Rightarrow> bool" where
  "optionally' c x = (case x of None \<Rightarrow> True | Some y \<Rightarrow> c y)"

fun canonical :: "pg_env \<Rightarrow> answer \<Rightarrow> bool" where
  "canonical P (AContract x) = optionally' (canonContract P) x"
| "canonical P (AEvidence x) = optionally' (canonEvidence P) x"
| "canonical P (ADispute x) = optionally' (canonDispute P) x"
| "canonical P (AXrpl x) = optionally' (canonXrpl P) x"
| "canonical P (ANotification x) = optionally' (canonNotification P) x"
| "canonical P (AOutbox x) = optionally' (canonOutbox P) x"
| "canonical P (ASettlement x) = optionally' (canonSettlement P) x"
| "canonical P (AExport x) = optionally' (canonExport P) x"
| "canonical P (ABool b) = True"

lemma answer_P: "valu m d = Inr x \<Longrightarrow> valu (answerP a m) d = Inr (a x)"
  by (simp add: answerP_def)

lemma answer_M: "valu (answerM a m) w = a (valu m w)"
  by (simp add: answerM_def)

text \<open>The statements of one answered call.\<close>

definition answers :: "pg_env \<Rightarrow> pgdb \<Rightarrow> bool" where
  "answers P d = (refuses P (pgCalls d) = None \<and> losesAnswer P (pgCalls d) = None)"

lemma read_keyed:
  assumes a: "answers P d" and o': "pg_orders P" and ok: "pg_ok d" and sim: "sim P d w"
  shows "optionally' (canonContract P) (jm_get (contracts w) i) \<Longrightarrow> valu (getContractPg P i) d = Inr (jm_get (contracts w) i)"
    and "optionally' (canonEvidence P) (jm_get (evidences w) i) \<Longrightarrow> valu (getEvidencePg P i) d = Inr (jm_get (evidences w) i)"
    and "optionally' (canonDispute P) (jm_get (disputes w) i) \<Longrightarrow> valu (getDisputePg P i) d = Inr (jm_get (disputes w) i)"
    and "optionally' (canonXrpl P) (jm_get (xrplTxs w) i) \<Longrightarrow> valu (getXrplTxPg P i) d = Inr (jm_get (xrplTxs w) i)"
    and "optionally' (canonNotification P) (jm_get (notifications w) i) \<Longrightarrow>
      valu (getNotificationPg P i) d = Inr (jm_get (notifications w) i)"
    and "optionally' (canonOutbox P) (jm_get (outboxById w) i) \<Longrightarrow> valu (getNotificationOutboxPg P i) d = Inr (jm_get (outboxById w) i)"
    and "optionally' (canonExport P) (jm_get (exportJobs w) i) \<Longrightarrow> valu (getExportJobPg P i) d = Inr (jm_get (exportJobs w) i)"
  using a o' simD [OF sim] ok unfolding answers_def
  by (auto simp: getContractPg_def getEvidencePg_def getDisputePg_def getXrplTxPg_def getNotificationPg_def getNotificationOutboxPg_def
      getExportJobPg_def firstRow_E optionally'_def issued_def pg_ok_def
      read_contract read_evidence read_dispute read_xrpl read_notification read_outbox read_export intro!: get_reads)

lemma settlement_defaults: "settlementRow P s = Inr r \<Longrightarrow> withSettlementDefaults s = s"
  by (auto simp: settlementRow_def andThen_Inr withSettlementDefaults_def)

lemma stored_defaults:
  assumes "rowsSim rs_id (settlementRow P) rows m"
  shows "map_option withSettlementDefaults (jm_get m i) = jm_get m i"
proof (cases "jm_get m i")
  case (Some s)
  with assms obtain r where "settlementRow P s = Inr r" by (rule rowsSim_get)
  with Some show ?thesis by (simp add: settlement_defaults)
qed simp

lemma read_settlement_keyed:
  assumes a: "answers P d" and o': "pg_orders P" and ok: "pg_ok d" and sim: "sim P d w"
    and canon: "optionally' (canonSettlement P) (valu (getSettlement i) w)"
  shows "valu (getSettlementPg P i) d = Inr (valu (getSettlement i) w)"
proof -
  have mem: "valu (getSettlement i) w = jm_get (settlements w) i"
    using stored_defaults [OF simD(14) [OF sim]] by (simp add: run_simps)
  have "valu (getSettlementPg P i) d = Inr (jm_get (settlements w) i)"
    using a o' simD(14) [OF sim] ok canon unfolding answers_def mem
    by (auto simp: getSettlementPg_def firstRow_E optionally'_def issued_def pg_ok_def read_settlement settlement_defaults intro!: get_reads)
  then show ?thesis by (simp add: mem)
qed

lemma read_has:
  assumes a: "answers P d" and o': "pg_orders P" and ok: "pg_ok d" and sim: "sim P d w"
  shows "valu (hasContractPg P i) d = Inr (jm_has (contracts w) i)" and "valu (hasEvidencePg P i) d = Inr (jm_has (evidences w) i)"
proof -
  have visit: "take 1 (filter (\<lambda>r. key r = i) (visit P n rows)) \<noteq> [] \<longleftrightarrow> hasKey key i rows" for key :: "'r \<Rightarrow> string" and n rows
    using set_visit [OF o', of n rows] by (force simp: hasKey_iff filter_empty_conv)
  show "valu (hasContractPg P i) d = Inr (jm_has (contracts w) i)" "valu (hasEvidencePg P i) d = Inr (jm_has (evidences w) i)"
    using a simD(1,2) [OF sim] unfolding answers_def hasContractPg_def hasEvidencePg_def
    by (simp_all only: valu_select visit) (simp_all add: issued_def rowsSim_hasKey)
qed

text \<open>C27: Reads agree. When the tables represent the maps of the memory store, the keys are unique and the statement is answered, a read by
  key from PostgreSQL returns exactly what the in-memory repository returns, provided that the value is one that the column types
  return as it was written, and it changes no table.\<close>

theorem pg_reads_memory:
  assumes "sim P d w" "pg_ok d" "pg_orders P" "answers P d" "canonical P (valu (readMem q) w)"
  shows "valu (readPg P q) d = Inr (valu (readMem q) w) \<and> exec (readPg P q) d = issued d"
proof
  note keyed = read_keyed [OF assms(4,3,2,1)] read_settlement_keyed [OF assms(4,3,2,1)] read_has [OF assms(4,3,2,1)]
  show "valu (readPg P q) d = Inr (valu (readMem q) w)"
    using assms(5) by (cases q) (simp_all add: answer_M answer_P keyed getContract_def getEvidence_def getDispute_def getXrplTx_def
        getNotification_def getNotificationOutbox_def getExportJob_def hasContract_def hasEvidence_def)
  show "exec (readPg P q) d = issued d"
    by (cases q) (simp_all add: answerP_def getContractPg_def getEvidencePg_def getDisputePg_def getXrplTxPg_def getNotificationPg_def
        getNotificationOutboxPg_def getSettlementPg_def getExportJobPg_def hasContractPg_def hasEvidencePg_def split: sum.splits)
qed

section \<open>Claims\<close>

lemma in_picked:
  assumes "k \<in> set (picked key cond at limit rows)"
  shows "\<exists>r \<in> set rows. cond r \<and> key r = k"
proof -
  from assms obtain r where "r \<in> set (take limit (sortBy (\<lambda>a b. at a \<le> at b) (filter cond rows)))" "key r = k"
    by (auto simp: picked_def)
  then have "r \<in> set (filter cond rows)" by (metis in_set_takeD set_sortBy)
  with \<open>key r = k\<close> show ?thesis by auto
qed

definition dueKeys :: "('r \<Rightarrow> 'k) \<Rightarrow> ('r \<Rightarrow> bool) \<Rightarrow> 'r list \<Rightarrow> 'k set" where
  "dueKeys key due rows = key ` {r \<in> set rows. due r}"

text \<open>What a claim returns was due, is returned once, and is not due afterwards.\<close>

lemma claim_due:
  assumes "pg_orders P" "distinct (map key rows)" "\<And>r. key (upd r) = key r" "\<And>r. \<not> due (upd r)" "\<And>r. cond r \<Longrightarrow> due r"
    and "claim P n key (picked key cond at limit (visit P n rows)) upd rows = (got, rows')"
  shows "distinct (map key got)" "set (map key got) \<subseteq> dueKeys key due rows - dueKeys key due rows'"
    "dueKeys key due rows' \<subseteq> dueKeys key due rows"
proof -
  define ids where "ids = picked key cond at limit (visit P n rows)"
  let ?sel = "filter (\<lambda>r. key r \<in> set ids) rows"
  from assms(6) have got: "got = inOrder (returns P n (length (map upd ?sel))) (map upd ?sel)"
    and rows': "rows' = updateRows (\<lambda>r. key r \<in> set ids) upd rows"
    by (simp_all add: claim_def Let_def ids_def)
  have ms: "mset got = mset (map upd ?sel)" unfolding got by (rule mset_returned [OF assms(1)])
  then have mk: "mset (map key got) = mset (map key ?sel)"
    using assms(3) by (metis (no_types, lifting) list.map_comp map_eq_conv mset_map comp_apply)
  have "distinct (map key ?sel)" using assms(2) by (rule distinct_map_filter)
  then show "distinct (map key got)" using mset_eq_imp_distinct_iff [OF mk] by blast
  have due_ids: "k \<in> dueKeys key due rows" if "k \<in> set ids" for k
    using in_picked [OF that [unfolded ids_def]] assms(5) by (auto simp: dueKeys_def set_visit [OF assms(1)])
  have kept: "k \<in> dueKeys key due rows \<and> k \<notin> set ids" if "k \<in> dueKeys key due rows'" for k
  proof -
    from that obtain r' where r': "r' \<in> set rows'" "due r'" "key r' = k" by (auto simp: dueKeys_def)
    from r'(1) obtain r where r: "r \<in> set rows" "r' = (if key r \<in> set ids then upd r else r)"
      unfolding rows' using in_updateRows by fastforce
    with r' assms(4) show ?thesis by (auto simp: dueKeys_def split: if_splits)
  qed
  then show "dueKeys key due rows' \<subseteq> dueKeys key due rows" by blast
  have "set (map key got) \<subseteq> set ids" using mset_eq_setD [OF mk] by auto
  with due_ids kept show "set (map key got) \<subseteq> dueKeys key due rows - dueKeys key due rows'" by blast
qed

text \<open>
  A run of calls, with the identifiers that its answered calls hand out. The interface: \<open>K\<close> are the keys of the queue, \<open>D\<close> those
  that may be handed out; a call takes what it hands out away from \<open>D\<close>, and adds only new keys to it.
\<close>

fun handedOut :: "('c \<Rightarrow> 'k list pg) \<Rightarrow> 'c list \<Rightarrow> pgdb \<Rightarrow> 'k list" where
  "handedOut f [] d = []"
| "handedOut f (c # cs) d = (case valu (f c) d of Inl e \<Rightarrow> [] | Inr ks \<Rightarrow> ks) @ handedOut f cs (exec (f c) d)"

locale work_queue =
  fixes f :: "'c \<Rightarrow> 'k list pg" and ok :: "pgdb \<Rightarrow> bool" and allowed :: "'c \<Rightarrow> bool"
    and K :: "pgdb \<Rightarrow> 'k set" and D :: "pgdb \<Rightarrow> 'k set"
  assumes ok_step: "ok d \<Longrightarrow> allowed c \<Longrightarrow> ok (exec (f c) d)"
    and keys_step: "ok d \<Longrightarrow> allowed c \<Longrightarrow> K d \<subseteq> K (exec (f c) d)"
    and due_step: "ok d \<Longrightarrow> allowed c \<Longrightarrow> D (exec (f c) d) \<subseteq> D d \<union> - K d"
    and taken: "ok d \<Longrightarrow> allowed c \<Longrightarrow> valu (f c) d = Inr ks \<Longrightarrow>
      distinct ks \<and> set ks \<subseteq> D d - D (exec (f c) d) \<and> set ks \<subseteq> K d"
begin

lemma exclusive_from:
  assumes "ok d" "list_all allowed cs" "G \<subseteq> K d" "G \<inter> D d = {}"
  shows "distinct (handedOut f cs d) \<and> set (handedOut f cs d) \<inter> G = {}"
  using assms
proof (induction cs arbitrary: d G)
  case (Cons c cs)
  define ks where "ks = (case valu (f c) d of Inl e \<Rightarrow> [] | Inr ks \<Rightarrow> ks)"
  from Cons.prems have a: "allowed c" "list_all allowed cs" by simp_all
  have ks: "distinct ks" "set ks \<subseteq> D d - D (exec (f c) d)" "set ks \<subseteq> K d"
    using taken [OF Cons.prems(1) a(1), of ks] by (cases "valu (f c) d"; simp add: ks_def)+
  have "distinct (handedOut f cs (exec (f c) d)) \<and> set (handedOut f cs (exec (f c) d)) \<inter> (G \<union> set ks) = {}"
  proof (rule Cons.IH [OF ok_step [OF Cons.prems(1) a(1)] a(2)])
    show "G \<union> set ks \<subseteq> K (exec (f c) d)" using keys_step [OF Cons.prems(1) a(1)] Cons.prems(3) ks(3) by blast
    show "(G \<union> set ks) \<inter> D (exec (f c) d) = {}" using due_step [OF Cons.prems(1) a(1)] Cons.prems(3,4) ks(2) by blast
  qed
  with ks Cons.prems(4) show ?case unfolding handedOut.simps(2) ks_def [symmetric] distinct_append set_append by blast
qed simp

lemma exclusive: "ok d \<Longrightarrow> list_all allowed cs \<Longrightarrow> distinct (handedOut f cs d)"
  using exclusive_from [of d cs "{}"] by simp

end

text \<open>The three queues: claims by any number of workers, new entries, and the results of the work.\<close>

definition idsOf :: "('a \<Rightarrow> 'k) \<Rightarrow> 'a list pg \<Rightarrow> 'k list pg" where
  "idsOf ident m = bindE m (\<lambda>xs. ret (Inr (map ident xs)))"

definition noIds :: "'a pg \<Rightarrow> 'k list pg" where
  "noIds m = bindE m (\<lambda>_. ret (Inr []))"

lemma run_idsOf:
  "exec (idsOf ident m) d = exec m d" "valu (idsOf ident m) d = Inr ks \<longleftrightarrow> (\<exists>xs. valu m d = Inr xs \<and> ks = map ident xs)"
  "exec (noIds m') d = exec m' d" "valu (noIds m') d = Inr ks \<Longrightarrow> ks = []"
  by (auto simp: idsOf_def noIds_def split: sum.splits)


text \<open>One call on one table, in the form that the interface asks for; \<open>ident\<close> are the identifiers in its answer.\<close>

definition takes :: "('r \<Rightarrow> 'k) \<Rightarrow> ('r \<Rightarrow> bool) \<Rightarrow> 'k list \<Rightarrow> 'r list \<Rightarrow> 'r list \<Rightarrow> bool" where
  "takes key due ks rows rows' = (distinct ks \<and> set ks \<subseteq> dueKeys key due rows - dueKeys key due rows' \<and>
     dueKeys key due rows' \<subseteq> dueKeys key due rows \<union> - key ` set rows \<and> key ` set rows \<subseteq> key ` set rows')"

lemma takes_refl: "takes key due [] rows rows"
  by (simp add: takes_def)

lemma takes_none: "takes key due ks rows rows' \<Longrightarrow> takes key due [] rows rows'"
  by (simp add: takes_def)

lemma takes_claim:
  assumes o': "pg_orders P" and "distinct (map key rows)" and keys: "\<And>r. key (upd r) = key r"
    and due: "\<And>r. \<not> due (upd r)" "\<And>r. cond r \<Longrightarrow> due r"
    and c_def: "c = claim P n key (picked key cond at limit (visit P n rows)) upd rows"
  shows "takes key due (map key (fst c)) rows (snd c)"
proof -
  have c: "claim P n key (picked key cond at limit (visit P n rows)) upd rows = (fst c, snd c)" by (simp add: c_def)
  from c have "map key (snd c) = map key rows" using keys by (auto simp: claim_def Let_def)
  then have "key ` set (snd c) = key ` set rows" by (metis set_map)
  with claim_due [where upd = upd and due = due and cond = cond, OF o' assms(2) keys due c] show ?thesis
    unfolding takes_def by blast
qed

lemma takes_append: "\<not> hasKey key (key r) rows \<Longrightarrow> takes key due [] rows (rows @ [r])"
  by (auto simp: takes_def dueKeys_def hasKey_iff)

lemma takes_update:
  assumes "\<And>r. key (g r) = key r" "\<And>r. \<not> due (g r)"
  shows "takes key due [] rows (updateRows c g rows)"
proof -
  have "map key (updateRows c g rows) = map key rows" using assms(1) by simp
  then have "key ` set (updateRows c g rows) = key ` set rows" by (metis set_map)
  moreover have "dueKeys key due (updateRows c g rows) \<subseteq> dueKeys key due rows"
    using assms(2) by (auto simp: dueKeys_def dest!: in_updateRows split: if_splits)
  ultimately show ?thesis by (auto simp: takes_def)
qed

lemma stmt_takes:
  assumes "\<And>n x d'. f n (issued d) = Inr (x, d') \<Longrightarrow> takes key due (ident x) (tbl d) (tbl d')" "tbl (issued d) = tbl d"
  shows "takes key due (case valu (stmt P f) d of Inl e \<Rightarrow> [] | Inr x \<Rightarrow> ident x) (tbl d) (tbl (exec (stmt P f) d))"
proof (cases rule: stmt_cases [of P f d])
  case (failed e)
  with assms(2) show ?thesis by (simp add: takes_refl)
next
  case (lost x e d')
  with takes_none [OF assms(1) [OF lost(1)]] show ?thesis by simp
next
  case (answered x d')
  with assms(1) [OF answered(1)] show ?thesis by simp
qed

datatype outboxCall = OClaim nat string | OAppend NotificationOutboxRecord | OFinish NotificationOutboxRecord

fun outboxCalls :: "pg_env \<Rightarrow> outboxCall \<Rightarrow> string list pg" where
  "outboxCalls P (OClaim limit now) = idsOf ox_id (claimNotificationOutboxPendingPg P limit now)"
| "outboxCalls P (OAppend x) = noIds (appendNotificationOutboxPg P x)"
| "outboxCalls P (OFinish x) = noIds (updateNotificationOutboxPg P x)"

fun finishes :: "outboxCall \<Rightarrow> bool" where
  "finishes (OFinish x) = (ox_status x \<noteq> OPending)"
| "finishes _ = True"

definition pendingRow :: "outbox_row \<Rightarrow> bool" where
  "pendingRow r = (ro_status r = OPending)"

lemma takes_outbox:
  assumes "pg_orders P" "pg_ok d" "finishes c"
  shows "takes ro_id pendingRow (case valu (outboxCalls P c) d of Inl e \<Rightarrow> [] | Inr ks \<Rightarrow> ks) (tOutbox d) (tOutbox (exec (outboxCalls P c) d))"
proof (cases c)
  case (OClaim limit now)
  have keys: "distinct (map ro_id (tOutbox d))" using assms(2) by (simp add: pg_ok_def)
  have "takes ro_id pendingRow (case valu (claimNotificationOutboxPendingPg P limit now) d of Inl e \<Rightarrow> [] | Inr xs \<Rightarrow> map ox_id xs)
      (tOutbox d) (tOutbox (exec (claimNotificationOutboxPendingPg P limit now) d))"
    unfolding claimNotificationOutboxPendingPg_def
    by (rule stmt_takes) (auto simp: andThen_Inr Let_def case_prod_beta issued_def pendingRow_def comp_def
        rowToNotificationOutbox_def keys intro!: takes_claim [OF assms(1), OF _ _ _ _ refl])
  with OClaim show ?thesis by (simp add: idsOf_def split: sum.splits)
next
  case (OAppend x)
  have "takes ro_id pendingRow (case valu (appendNotificationOutboxPg P x) d of Inl e \<Rightarrow> [] | Inr b \<Rightarrow> [])
      (tOutbox d) (tOutbox (exec (appendNotificationOutboxPg P x) d))"
    unfolding appendNotificationOutboxPg_def
    by (rule stmt_takes) (auto simp: andThen_Inr issued_def outboxRow_def takes_refl split: if_splits intro!: takes_append)
  with OAppend show ?thesis by (simp add: noIds_def split: sum.splits)
next
  case (OFinish x)
  with assms(3) have "takes ro_id pendingRow (case valu (updateNotificationOutboxPg P x) d of Inl e \<Rightarrow> [] | Inr b \<Rightarrow> [])
      (tOutbox d) (tOutbox (exec (updateNotificationOutboxPg P x) d))"
    unfolding updateNotificationOutboxPg_def
    by (intro stmt_takes) (auto simp: andThen_Inr issued_def pendingRow_def intro!: takes_update)
  with OFinish show ?thesis by (simp add: noIds_def split: sum.splits)
qed

lemma work_queueI:
  assumes ok: "\<And>d c. ok d \<Longrightarrow> allowed c \<Longrightarrow> ok (exec (f c) d)"
    and takes: "\<And>d c. ok d \<Longrightarrow> allowed c \<Longrightarrow>
      takes key due (case valu (f c) d of Inl e \<Rightarrow> [] | Inr ks \<Rightarrow> ks) (tbl d) (tbl (exec (f c) d))"
  shows "work_queue f ok allowed (\<lambda>d. key ` set (tbl d)) (\<lambda>d. dueKeys key due (tbl d))"
proof
  fix d c ks
  assume d: "ok d" and c: "allowed c"
  note t = takes [OF d c, unfolded takes_def]
  show "ok (exec (f c) d)" using d c by (rule ok)
  show "key ` set (tbl d) \<subseteq> key ` set (tbl (exec (f c) d))" using t by blast
  show "dueKeys key due (tbl (exec (f c) d)) \<subseteq> dueKeys key due (tbl d) \<union> - key ` set (tbl d)" using t by blast
  assume "valu (f c) d = Inr ks"
  with t show "distinct ks \<and> set ks \<subseteq> dueKeys key due (tbl d) - dueKeys key due (tbl (exec (f c) d)) \<and> set ks \<subseteq> key ` set (tbl d)"
    by (auto simp: dueKeys_def)
qed

lemma steps_ids: "steps keepsOk m \<Longrightarrow> steps keepsOk (idsOf ident m)" "steps keepsOk m' \<Longrightarrow> steps keepsOk (noIds m')"
  by (simp_all add: idsOf_def noIds_def bindE_def kok.io)

interpretation outbox_queue: work_queue "outboxCalls P" "\<lambda>d. pg_orders P \<and> pg_ok d" finishes "\<lambda>d. ro_id ` set (tOutbox d)"
  "\<lambda>d. dueKeys ro_id pendingRow (tOutbox d)" for P
proof (rule work_queueI, elim conjE, intro conjI)
  fix d c
  assume "pg_ok d"
  moreover have "steps keepsOk (outboxCalls P c)" by (cases c) (simp_all add: steps_ids ok_outbox)
  ultimately show "pg_ok (exec (outboxCalls P c) d)" by (auto simp: steps_def keepsOk_def)
qed (auto intro: takes_outbox)

datatype exportCall = EClaim nat string | ECreate ExportJobRecord | EFinish ExportJobRecord

fun exportCalls :: "pg_env \<Rightarrow> exportCall \<Rightarrow> string list pg" where
  "exportCalls P (EClaim limit now) = idsOf ej_id (claimExportJobsPendingPg P limit now)"
| "exportCalls P (ECreate j) = noIds (createExportJobPg P j)"
| "exportCalls P (EFinish j) = noIds (updateExportJobPg P j)"

fun exportFinishes :: "exportCall \<Rightarrow> bool" where
  "exportFinishes (EFinish j) = (ej_status j \<noteq> JPending)"
| "exportFinishes _ = True"

definition pendingExport :: "export_jobs_row \<Rightarrow> bool" where
  "pendingExport r = (rk_status r = JPending)"

lemma mapRows_ids: "mapRows (rowToExportJob P) rows = Inr js \<Longrightarrow> map ej_id js = map rk_id rows"
proof (induction rows arbitrary: js)
  case (Cons r rows)
  then show ?case by (auto simp: andThen_Inr rowToExportJob_def split: option.splits)
qed simp

lemma takes_exports:
  assumes "pg_orders P" "pg_ok d" "exportFinishes c"
  shows "takes rk_id pendingExport (case valu (exportCalls P c) d of Inl e \<Rightarrow> [] | Inr ks \<Rightarrow> ks)
    (tExportJobs d) (tExportJobs (exec (exportCalls P c) d))"
proof (cases c)
  case (EClaim limit now)
  have keys: "distinct (map rk_id (tExportJobs d))" using assms(2) by (simp add: pg_ok_def)
  let ?m = "stmt P (\<lambda>n d. andThen (ts P now) (\<lambda>t.
       let ids = picked rk_id (\<lambda>r. rk_status r = JPending) rk_created_at limit (visit P n (tExportJobs d));
           (got, rows) = claim P n rk_id ids (\<lambda>r. r\<lparr>rk_status := JRunning, rk_updated_at := t\<rparr>) (tExportJobs d) in
       Inr (got, d\<lparr>tExportJobs := rows\<rparr>)))"
  have t: "takes rk_id pendingExport (case valu ?m d of Inl e \<Rightarrow> [] | Inr got \<Rightarrow> map rk_id got) (tExportJobs d) (tExportJobs (exec ?m d))"
    by (rule stmt_takes) (auto simp: andThen_Inr Let_def case_prod_beta issued_def pendingExport_def keys
        intro!: takes_claim [OF assms(1), OF _ _ _ _ refl])
  then have n: "takes rk_id pendingExport [] (tExportJobs d) (tExportJobs (exec ?m d))" by (rule takes_none)
  show ?thesis
  proof (cases "valu ?m d")
    case (Inl e)
    with n EClaim show ?thesis by (simp add: idsOf_def claimExportJobsPendingPg_def)
  next
    case (Inr got)
    with t n EClaim show ?thesis
      by (cases "mapRows (rowToExportJob P) got") (simp_all add: idsOf_def claimExportJobsPendingPg_def mapRows_ids)
  qed
next
  case (ECreate j)
  have "takes rk_id pendingExport (case valu (createExportJobPg P j) d of Inl e \<Rightarrow> [] | Inr b \<Rightarrow> [])
      (tExportJobs d) (tExportJobs (exec (createExportJobPg P j) d))"
    unfolding createExportJobPg_def
    by (rule stmt_takes) (auto simp: andThen_Inr issued_def exportJobRow_def intro!: takes_append)
  with ECreate show ?thesis by (simp add: noIds_def split: sum.splits)
next
  case (EFinish j)
  have upd: "takes rk_id pendingExport [] rows (updateRows c (\<lambda>r. r\<lparr>rk_status := ej_status j, rk_filter_json := f,
      rk_max_export := m, rk_result_ndjson := res, rk_error := err, rk_updated_at := u\<rparr>) rows)" for rows c f m res err u
    using assms(3) EFinish by (intro takes_update) (simp_all add: pendingExport_def)
  have "takes rk_id pendingExport (case valu (updateExportJobPg P j) d of Inl e \<Rightarrow> [] | Inr b \<Rightarrow> [])
      (tExportJobs d) (tExportJobs (exec (updateExportJobPg P j) d))"
    unfolding updateExportJobPg_def
  proof (rule stmt_takes)
    fix n x d'
    assume "andThen (jb P (filterJson (ej_filter j))) (\<lambda>f. andThen (ensure (fitsInt (int (ej_maxExport j))) ''22003'') (\<lambda>_.
     andThen (ts P (ej_updatedAt j)) (\<lambda>u.
     if \<not> hasKey rk_id (ej_id j) (tExportJobs (issued d)) then Inr ((), issued d)
     else andThen (ensure (1 \<le> ej_maxExport j \<and> ej_maxExport j \<le> 100000) ''23514'') (\<lambda>_.
     Inr ((), issued d\<lparr>tExportJobs := updateRows (\<lambda>r. rk_id r = ej_id j)
       (\<lambda>r. r\<lparr>rk_status := ej_status j, rk_filter_json := f, rk_max_export := ej_maxExport j,
         rk_result_ndjson := ej_resultNdjson j, rk_error := ej_error j, rk_updated_at := u\<rparr>) (tExportJobs (issued d))\<rparr>))))) = Inr (x, d')"
    then show "takes rk_id pendingExport [] (tExportJobs d) (tExportJobs d')"
      by (cases "hasKey rk_id (ej_id j) (tExportJobs d)") (auto simp: andThen_Inr issued_def takes_refl upd)
  qed (simp add: issued_def)
  with EFinish show ?thesis by (simp add: noIds_def split: sum.splits)
qed

interpretation export_queue: work_queue "exportCalls P" "\<lambda>d. pg_orders P \<and> pg_ok d" exportFinishes "\<lambda>d. rk_id ` set (tExportJobs d)"
  "\<lambda>d. dueKeys rk_id pendingExport (tExportJobs d)" for P
proof (rule work_queueI, elim conjE, intro conjI)
  fix d c
  assume "pg_ok d"
  moreover have "steps keepsOk (exportCalls P c)" by (cases c) (simp_all add: steps_ids ok_export_jobs)
  ultimately show "pg_ok (exec (exportCalls P c) d)" by (auto simp: steps_def keepsOk_def)
qed (auto intro: takes_exports)

datatype jobCall = JClaim string string nat int | JCreate DelayedJob

fun jobCalls :: "env \<Rightarrow> pg_env \<Rightarrow> jobCall \<Rightarrow> string list pg" where
  "jobCalls E P (JClaim kind now limit ttl) = idsOf dj_id (claimDueDelayedJobsPg E P kind now limit ttl)"
| "jobCalls E P (JCreate j) = noIds (createDelayedJobIfAbsentPg P j)"

text \<open>A claim made no later than \<open>T\<close> whose locks are held beyond \<open>T\<close>.\<close>

fun locksBeyond :: "env \<Rightarrow> pg_env \<Rightarrow> int \<Rightarrow> jobCall \<Rightarrow> bool" where
  "locksBeyond E P T (JClaim kind now limit ttl) =
    (case dateParse E now of None \<Rightarrow> True
     | Some nowMs \<Rightarrow> (case (timestamptz P now, timestamptz P (toISOString (nowMs + ttl))) of
         (Some t, Some lock) \<Rightarrow> t \<le> T \<and> T < lock | _ \<Rightarrow> True))"
| "locksBeyond E P T (JCreate j) = True"

definition unlocked :: "int \<Rightarrow> delayed_jobs_row \<Rightarrow> bool" where
  "unlocked T r = (case rj_locked_until r of None \<Rightarrow> True | Some l \<Rightarrow> l \<le> T)"

lemma takes_jobs:
  assumes "pg_orders P" "pg_ok d" "locksBeyond E P T c"
  shows "takes rj_id (unlocked T) (case valu (jobCalls E P c) d of Inl e \<Rightarrow> [] | Inr ks \<Rightarrow> ks)
    (tDelayedJobs d) (tDelayedJobs (exec (jobCalls E P c) d))"
proof (cases c)
  case (JClaim kind now limit ttl)
  have keys: "distinct (map rj_id (tDelayedJobs d))" using assms(2) by (simp add: pg_ok_def)
  show ?thesis
  proof (cases "dateParse E now")
    case None
    with JClaim show ?thesis by (simp add: claimDueDelayedJobsPg_def idsOf_def takes_refl)
  next
    case (Some nowMs)
    have "takes rj_id (unlocked T) (case valu (claimDueDelayedJobsPg E P kind now limit ttl) d of Inl e \<Rightarrow> [] | Inr xs \<Rightarrow> map dj_id xs)
        (tDelayedJobs d) (tDelayedJobs (exec (claimDueDelayedJobsPg E P kind now limit ttl) d))"
      unfolding claimDueDelayedJobsPg_def Some option.case
    proof (rule stmt_takes)
      fix n xs d'
      assume "andThen (ts P now) (\<lambda>t. andThen (ts P (toISOString (nowMs + ttl))) (\<lambda>lock.
         let ids = picked rj_id (jobDueRow kind t) rj_run_after limit (visit P n (tDelayedJobs (issued d)));
             (got, rows) = claim P n rj_id ids (\<lambda>r. r\<lparr>rj_locked_until := Some lock, rj_updated_at := t\<rparr>) (tDelayedJobs (issued d)) in
         Inr (map (rowToDelayedJob P) got, issued d\<lparr>tDelayedJobs := rows\<rparr>))) = Inr (xs, d')"
      then obtain t lock where t: "timestamptz P now = Some t" "timestamptz P (toISOString (nowMs + ttl)) = Some lock"
        and xs: "xs = map (rowToDelayedJob P) (fst (claim P n rj_id (picked rj_id (jobDueRow kind t) rj_run_after limit
            (visit P n (tDelayedJobs d))) (\<lambda>r. r\<lparr>rj_locked_until := Some lock, rj_updated_at := t\<rparr>) (tDelayedJobs d)))"
        and d': "tDelayedJobs d' = snd (claim P n rj_id (picked rj_id (jobDueRow kind t) rj_run_after limit
            (visit P n (tDelayedJobs d))) (\<lambda>r. r\<lparr>rj_locked_until := Some lock, rj_updated_at := t\<rparr>) (tDelayedJobs d))"
        by (auto simp: andThen_Inr ts_def Let_def case_prod_beta issued_def split: option.splits)
      from assms(3) JClaim Some t have T: "t \<le> T" "T < lock" by simp_all
      have ids: "map dj_id (map (rowToDelayedJob P) got) = map rj_id got" for got
        by (simp add: rowToDelayedJob_def)
      show "takes rj_id (unlocked T) (map dj_id xs) (tDelayedJobs d) (tDelayedJobs d')"
        unfolding xs d' ids
      proof (rule takes_claim [OF assms(1) keys _ _ _ refl])
        show "\<not> unlocked T (r\<lparr>rj_locked_until := Some lock, rj_updated_at := t\<rparr>)" for r using T by (simp add: unlocked_def)
        show "unlocked T r" if "jobDueRow kind t r" for r
          using that T(1) by (simp add: jobDueRow_def unlocked_def split: option.splits)
      qed simp
    qed (simp add: issued_def)
    with JClaim show ?thesis by (simp add: idsOf_def split: sum.splits)
  qed
next
  case (JCreate j)
  have "takes rj_id (unlocked T) (case valu (createDelayedJobIfAbsentPg P j) d of Inl e \<Rightarrow> [] | Inr b \<Rightarrow> [])
      (tDelayedJobs d) (tDelayedJobs (exec (createDelayedJobIfAbsentPg P j) d))"
    unfolding createDelayedJobIfAbsentPg_def
    by (rule stmt_takes) (auto simp: andThen_Inr issued_def delayedJobRow_def takes_refl split: if_splits intro!: takes_append)
  with JCreate show ?thesis by (simp add: noIds_def split: sum.splits)
qed

interpretation job_queue: work_queue "jobCalls E P" "\<lambda>d. pg_orders P \<and> pg_ok d" "locksBeyond E P T" "\<lambda>d. rj_id ` set (tDelayedJobs d)"
  "\<lambda>d. dueKeys rj_id (unlocked T) (tDelayedJobs d)" for E P T
proof (rule work_queueI, elim conjE, intro conjI)
  fix d c
  assume "pg_ok d"
  moreover have "steps keepsOk (jobCalls E P c)" by (cases c) (simp_all add: steps_ids ok_delayed_jobs)
  ultimately show "pg_ok (exec (jobCalls E P c) d)" by (auto simp: steps_def keepsOk_def)
qed (auto intro: takes_jobs)


end
