(* ===== verification/PgPages.thy ===== *)
theory PgPages
  imports PgReads
begin

text \<open>
  The audit listings of \<open>repository/postgres-repository.ts\<close>: \<open>ORDER BY created_at, id\<close> is a total order on the rows, so pages do
  not depend on the order in which a statement scans the table. The other listings order by a timestamp only.
\<close>

section \<open>Sorting a permutation\<close>

lemma sorted_unique:
  assumes "sorted_wrt le xs" "sorted_wrt le ys" "mset xs = mset ys"
    and "\<And>a b. a \<in> set xs \<Longrightarrow> b \<in> set xs \<Longrightarrow> le a b \<Longrightarrow> le b a \<Longrightarrow> a = b"
  shows "xs = ys"
  using assms
proof (induction xs arbitrary: ys)
  case (Cons x xs)
  then obtain y ys' where ys: "ys = y # ys'" by (cases ys) auto
  have sets: "set (x # xs) = set ys" using Cons.prems(3) by (rule mset_eq_setD)
  have "x = y"
  proof (rule ccontr)
    assume "x \<noteq> y"
    with sets ys have "x \<in> set ys'" "y \<in> set xs" by auto
    with Cons.prems(1,2) ys have "le x y" "le y x" by auto
    with Cons.prems(4) \<open>y \<in> set xs\<close> \<open>x \<noteq> y\<close> show False by auto
  qed
  moreover have "xs = ys'" using Cons.prems ys \<open>x = y\<close> by (intro Cons.IH) auto
  ultimately show ?case using ys by simp
qed simp

text \<open>The collation of the database is a total order in which different texts are never equal.\<close>

definition collation :: "pg_env \<Rightarrow> bool" where
  "collation P = ((\<forall>a b. collateLe P a b \<or> collateLe P b a) \<and> (\<forall>a b c. collateLe P a b \<longrightarrow> collateLe P b c \<longrightarrow> collateLe P a c) \<and>
     (\<forall>a b. collateLe P a b \<longrightarrow> collateLe P b a \<longrightarrow> a = b))"

lemma auditRowLe_order:
  assumes "collation P"
  shows "auditRowLe P a b \<or> auditRowLe P b a" "auditRowLe P a b \<Longrightarrow> auditRowLe P b c \<Longrightarrow> auditRowLe P a c"
    "auditRowLe P a b \<Longrightarrow> auditRowLe P b a \<Longrightarrow> ra_id a = ra_id b"
  using assms unfolding auditRowLe_def collation_def by (metis linorder_less_linear, metis less_trans, metis less_asym)

lemma sorted_auditRows: "collation P \<Longrightarrow> sorted_wrt (auditRowLe P) (sortBy (auditRowLe P) rows)"
  by (rule sorted_sortBy) (rule auditRowLe_order(1), assumption, rule auditRowLe_order(2))

lemma auditRow_unique:
  assumes "collation P" "distinct (map ra_id rows)" "a \<in> set rows" "b \<in> set rows" "auditRowLe P a b" "auditRowLe P b a"
  shows "a = b"
proof -
  have "ra_id a = ra_id b" using assms(1,5,6) by (rule auditRowLe_order(3))
  moreover have "inj_on ra_id (set rows)" using assms(2) by (simp add: distinct_map)
  ultimately show ?thesis using assms(3,4) by (metis inj_onD)
qed

text \<open>The rows of a listing, in the order that the statement defines.\<close>

definition auditRowsPg :: "pg_env \<Rightarrow> (audits_row \<Rightarrow> bool) \<Rightarrow> audits_row list \<Rightarrow> audits_row list" where
  "auditRowsPg P c rows = sortBy (auditRowLe P) (filter c rows)"

lemma auditRows_unique:
  assumes "collation P" "distinct (map ra_id rows)" "mset rows' = mset (filter c rows)"
  shows "sortBy (auditRowLe P) rows' = auditRowsPg P c rows"
  unfolding auditRowsPg_def
proof (rule sorted_unique)
  show "sorted_wrt (auditRowLe P) (sortBy (auditRowLe P) rows')" "sorted_wrt (auditRowLe P) (sortBy (auditRowLe P) (filter c rows))"
    by (simp_all only: sorted_auditRows [OF assms(1)])
  show "mset (sortBy (auditRowLe P) rows') = mset (sortBy (auditRowLe P) (filter c rows))" using assms(3) by simp
next
  fix a b
  assume ab: "a \<in> set (sortBy (auditRowLe P) rows')" "b \<in> set (sortBy (auditRowLe P) rows')" and le: "auditRowLe P a b" "auditRowLe P b a"
  from ab have "a \<in> set rows" "b \<in> set rows" using mset_eq_setD [OF assms(3)] by simp_all
  with le show "a = b" by (intro auditRow_unique [OF assms(1,2)])
qed

lemma auditRows_visit:
  assumes "collation P" "pg_orders P" "distinct (map ra_id rows)"
  shows "sortBy (auditRowLe P) (filter c (visit P n rows)) = auditRowsPg P c rows"
  using assms(1,3) by (rule auditRows_unique) (metis assms(2) mset_filter mset_visit)

lemma auditRows_sortedPg:
  assumes "collation P" "distinct (map ra_id rows)"
  shows "sorted_wrt (\<lambda>a b. auditRowLe P a b \<and> \<not> auditRowLe P b a) (auditRowsPg P c rows)"
proof -
  have "sorted_wrt (auditRowLe P) (auditRowsPg P c rows)" unfolding auditRowsPg_def
    using assms(1) by (rule sorted_auditRows)
  moreover have "distinct (map ra_id (auditRowsPg P c rows))"
    using assms(2) by (simp add: auditRowsPg_def distinct_map_sortBy distinct_map_filter)
  moreover have "sorted_wrt (\<lambda>a b. auditRowLe P a b \<and> \<not> auditRowLe P b a) xs"
    if "sorted_wrt (auditRowLe P) xs" "distinct (map ra_id xs)" for xs
    using that
  proof (induction xs)
    case (Cons x xs)
    moreover have "\<not> auditRowLe P y x" if "y \<in> set xs" for y
    proof
      assume "auditRowLe P y x"
      with Cons.prems(1) that have "ra_id x = ra_id y" by (auto intro: auditRowLe_order(3) [OF assms(1)])
      with Cons.prems(2) that show False by auto
    qed
    ultimately show ?case by simp
  qed simp
  ultimately show ?thesis by blast
qed

lemma after_not_le: "afterCursorRow P (ra_created_at r) (ra_id r) x \<longleftrightarrow> \<not> auditRowLe P x r"
  by (auto simp: afterCursorRow_def auditRowLe_def)

lemma filter_after:
  assumes "collation P" "distinct (map ra_id rows)" "k < length (auditRowsPg P c rows)"
  defines "r \<equiv> auditRowsPg P c rows ! k"
  shows "filter (afterCursorRow P (ra_created_at r) (ra_id r)) (auditRowsPg P c rows) = drop (Suc k) (auditRowsPg P c rows)"
proof -
  let ?S = "auditRowsPg P c rows" and ?Q = "afterCursorRow P (ra_created_at r) (ra_id r)"
  note sorted = auditRows_sortedPg [OF assms(1,2), of c, unfolded sorted_wrt_iff_nth_less]
  have "\<not> ?Q (?S ! j)" if "j \<le> k" for j
  proof (cases "j = k")
    case True
    then show ?thesis using auditRowLe_order(1) [OF assms(1), of r r] by (simp add: after_not_le r_def)
  next
    case False
    with that sorted assms(3) have "auditRowLe P (?S ! j) r" by (simp add: r_def)
    then show ?thesis by (simp add: after_not_le)
  qed
  then have "filter ?Q (take (Suc k) ?S) = []" using assms(3) by (auto simp: filter_empty_conv in_set_conv_nth)
  moreover have "?Q (?S ! j)" if "k < j" "j < length ?S" for j
    using sorted that by (auto simp: after_not_le r_def)
  then have "filter ?Q (drop (Suc k) ?S) = drop (Suc k) ?S" by (auto simp: filter_id_conv in_set_conv_nth)
  ultimately show ?thesis by (metis append_Nil append_take_drop_id filter_append)
qed

section \<open>Listings and the walk along the cursors\<close>

text \<open>Every statement from the given one on is answered.\<close>

definition answersFrom :: "pg_env \<Rightarrow> nat \<Rightarrow> bool" where
  "answersFrom P k = (\<forall>n \<ge> k. refuses P n = None \<and> losesAnswer P n = None)"

text \<open>Times of rows are whole milliseconds, which the text of the cursor carries, and identifiers are not empty.\<close>

definition cursorRows :: "pg_env \<Rightarrow> audits_row list \<Rightarrow> bool" where
  "cursorRows P rows = list_all (\<lambda>r. timestamptz P (toIso P (ra_created_at r)) = Some (ra_created_at r) \<and>
     toIso P (ra_created_at r) \<noteq> '''' \<and> ra_id r \<noteq> '''') rows"

lemma keysetPage_drop: "keysetPage 0 limit (drop start rows) = keysetPage start limit rows"
  by (simp add: keysetPage_def slice_def)

lemma keysetPage_take: "keysetPage 0 limit (take (limit + 1) rows) = keysetPage 0 limit rows"
  by (simp add: keysetPage_def slice_def)

lemma cursor_pagePg:
  assumes P: "collation P" "pg_orders P" and rows: "distinct (map ra_id (tAudits d))" "cursorRows P (tAudits d)"
    and a: "answersFrom P (pgCalls d)" and c: "auditFilterBindings P f = Inr c"
  defines "all \<equiv> map (rowToAudit P) (auditRowsPg P c (tAudits d))"
  shows "valu (listAuditsAfterCursorPg P f limit None) d = Inr (keysetPage 0 limit all)"
    and "k < length all \<Longrightarrow> valu (listAuditsAfterCursorPg P f limit (Some (encodeAuditCursor
      \<lparr> cu_createdAt = au_createdAt (all ! k), cu_id = au_id (all ! k) \<rparr>))) d = Inr (keysetPage (Suc k) limit all)"
proof -
  have ans: "refuses P (pgCalls d) = None" "losesAnswer P (pgCalls d) = None" using a by (simp_all add: answersFrom_def)
  have t: "tAudits (issued d) = tAudits d" by (simp add: issued_def)
  have page: "keysetPage 0 limit (map (rowToAudit P) (take (limit + 1) xs)) = keysetPage 0 limit (map (rowToAudit P) xs)" for xs
    by (simp only: take_map [symmetric] keysetPage_take)
  show "valu (listAuditsAfterCursorPg P f limit None) d = Inr (keysetPage 0 limit all)"
    by (simp add: listAuditsAfterCursorPg_def valu_select [OF ans] c t auditRows_visit [OF P rows(1)] page [simplified] all_def)
  assume k: "k < length all"
  define r where "r = auditRowsPg P c (tAudits d) ! k"
  have kr: "k < length (auditRowsPg P c (tAudits d))" using k by (simp add: all_def)
  have allk: "all ! k = rowToAudit P r" using kr by (simp add: all_def r_def)
  have "r \<in> set (tAudits d)" using nth_mem [OF kr] by (auto simp: r_def auditRowsPg_def)
  with rows(2) have r: "timestamptz P (toIso P (ra_created_at r)) = Some (ra_created_at r)" "toIso P (ra_created_at r) \<noteq> ''''" "ra_id r \<noteq> ''''"
    by (auto simp: cursorRows_def list_all_iff)
  let ?p = "\<lparr> cu_createdAt = au_createdAt (all ! k), cu_id = au_id (all ! k) \<rparr>"
  have p: "cu_createdAt ?p = toIso P (ra_created_at r)" "cu_id ?p = ra_id r" by (simp_all add: allk rowToAudit_def)
  have dec: "decodeAuditCursor (encodeAuditCursor ?p) = Some ?p" by (rule decode_encode_cursor) (use r p in simp_all)
  have peq: "?p = \<lparr> cu_createdAt = toIso P (ra_created_at r), cu_id = ra_id r \<rparr>" by (simp add: allk rowToAudit_def)
  from dec have ne: "encodeAuditCursor ?p \<noteq> ''''" by (auto simp: decodeAuditCursor_def base64urlDecode_def jsonParse_def jspace_def)
  have rest: "sortBy (auditRowLe P) (filter (\<lambda>x. c x \<and> afterCursorRow P (ra_created_at r) (ra_id r) x) (visit P n (tAudits d))) =
      drop (Suc k) (auditRowsPg P c (tAudits d))" for n
  proof -
    have "filter (\<lambda>x. c x \<and> afterCursorRow P (ra_created_at r) (ra_id r) x) rows =
        filter (afterCursorRow P (ra_created_at r) (ra_id r)) (filter c rows)" for rows
      by (simp add: conj_commute)
    moreover have "sortBy (auditRowLe P) (filter (afterCursorRow P (ra_created_at r) (ra_id r)) (filter c (visit P n (tAudits d)))) =
        filter (afterCursorRow P (ra_created_at r) (ra_id r)) (auditRowsPg P c (tAudits d))" (is "?l = ?r")
    proof (rule sorted_unique)
      show "sorted_wrt (auditRowLe P) ?l" by (rule sorted_auditRows [OF P(1)])
      show "sorted_wrt (auditRowLe P) ?r" unfolding auditRowsPg_def by (rule sorted_wrt_filter) (rule sorted_auditRows [OF P(1)])
      show "mset ?l = mset ?r" by (simp add: auditRowsPg_def mset_visit [OF P(2)] filter_filter_mset)
    next
      fix a b
      assume ab: "a \<in> set ?l" "b \<in> set ?l" and le: "auditRowLe P a b" "auditRowLe P b a"
      from ab have "a \<in> set (tAudits d)" "b \<in> set (tAudits d)" by (simp_all add: set_visit [OF P(2)])
      with le show "a = b" by (intro auditRow_unique [OF P(1) rows(1)])
    qed
    ultimately show ?thesis using filter_after [OF P(1) rows(1) kr] by (simp add: r_def)
  qed
  have "valu (listAuditsAfterCursorPg P f limit (Some (encodeAuditCursor ?p))) d =
      Inr (keysetPage 0 limit (map (rowToAudit P) (drop (Suc k) (auditRowsPg P c (tAudits d)))))"
    unfolding listAuditsAfterCursorPg_def peq
    using ne [unfolded peq] dec [unfolded peq]
    by (simp add: valu_select [OF ans] c t ts_def r rest page [simplified])
  then show "valu (listAuditsAfterCursorPg P f limit (Some (encodeAuditCursor ?p))) d = Inr (keysetPage (Suc k) limit all)"
    by (simp only: all_def drop_map [symmetric] keysetPage_drop)
qed


text \<open>A client that asks for the next page until there is no cursor; the number of pages it asks for at most is a parameter.\<close>

fun walkPg :: "pg_env \<Rightarrow> AuditFilter \<Rightarrow> nat \<Rightarrow> nat \<Rightarrow> string option \<Rightarrow> AuditLog list pg" where
  "walkPg P f limit 0 cursor = throwE ''pages''"
| "walkPg P f limit (Suc n) cursor =
     bindE (listAuditsAfterCursorPg P f limit cursor) (\<lambda>p.
     (case kp_nextCursor p of
        None \<Rightarrow> ret (Inr (kp_items p))
      | Some c \<Rightarrow> bindE (walkPg P f limit n (Some c)) (\<lambda>rest. ret (Inr (kp_items p @ rest)))))"

lemma exec_cursor_page:
  "exec (listAuditsAfterCursorPg P f limit cursor) d \<in> {d, issued d}"
  by (simp add: listAuditsAfterCursorPg_def Let_def split: option.splits)

lemma walk_rest:
  assumes P: "collation P" "pg_orders P" and c: "auditFilterBindings P f = Inr c" and l: "0 < limit"
    and rows: "distinct (map ra_id (tAudits d))" "cursorRows P (tAudits d)" and a: "answersFrom P (pgCalls d)"
  defines "all \<equiv> map (rowToAudit P) (auditRowsPg P c (tAudits d))"
  assumes "start \<le> length all"
    and "cursor = None \<and> start = 0 \<or> 0 < start \<and> cursor = Some (encodeAuditCursor
      \<lparr> cu_createdAt = au_createdAt (all ! (start - 1)), cu_id = au_id (all ! (start - 1)) \<rparr>)"
    and "length all - start < n"
  shows "valu (walkPg P f limit n cursor) d = Inr (drop start all)"
  using rows a assms(9-) unfolding all_def
proof (induction n arbitrary: start cursor d)
  case (Suc n)
  let ?all = "map (rowToAudit P) (auditRowsPg P c (tAudits d))"
  let ?cur = "\<lambda>k. encodeAuditCursor \<lparr> cu_createdAt = au_createdAt (?all ! k), cu_id = au_id (?all ! k) \<rparr>"
  define d' where "d' = exec (listAuditsAfterCursorPg P f limit cursor) d"
  have "d' = d \<or> d' = issued d" unfolding d'_def using exec_cursor_page by fast
  then have d': "tAudits d' = tAudits d" "answersFrom P (pgCalls d')" using Suc.prems(3) by (auto simp: issued_def answersFrom_def)
  have page: "valu (listAuditsAfterCursorPg P f limit cursor) d = Inr (keysetPage start limit ?all)"
  proof (cases "start = 0")
    case True
    with Suc.prems(5) cursor_pagePg(1) [OF P Suc.prems(1,2,3) c] show ?thesis by simp
  next
    case False
    with Suc.prems(4,5) have "start - 1 < length ?all" "cursor = Some (?cur (start - 1))" by auto
    with cursor_pagePg(2) [OF P Suc.prems(1,2,3) c] False show ?thesis by (metis Suc_pred' neq0_conv)
  qed
  show ?case
  proof (cases "start + limit < length ?all")
    case True
    have "valu (walkPg P f limit n (Some (?cur (start + limit - 1)))) d' = Inr (drop (start + limit) ?all)"
      using True l Suc.prems d' Suc.IH [of d' "start + limit" "Some (?cur (start + limit - 1))"] by simp
    moreover have "take limit (drop start ?all) @ drop (start + limit) ?all = drop start ?all"
      by (metis append_take_drop_id drop_drop add.commute)
    ultimately show ?thesis
      using keysetPage_cases [OF l, of start ?all] True by (simp add: page d'_def [symmetric] del: length_map)
  next
    case False
    then show ?thesis using keysetPage_cases [OF l, of start ?all] by (simp add: page del: length_map)
  qed
qed simp

text \<open>C28: The audit log of the database is read completely. Whatever order the server scans the table in at each of the statements, a
  client that follows the cursors page by page gets exactly the rows of the full listing, each once and in its order, after
  finitely many pages; and a page by offset is the corresponding slice of the full listing.\<close>

theorem pg_audit_walk:
  assumes "collation P" "pg_orders P" "pg_ok d" "cursorRows P (tAudits d)" "answersFrom P (pgCalls d)" "0 < limit"
    and "valu (listAuditsPg P f) d = Inr all"
  shows "(length all < n \<longrightarrow> valu (walkPg P f limit n None) d = Inr all) \<and>
    (\<exists>page. valu (listAuditsPagePg P f \<lparr> lp_limit = limit, lp_offset = start \<rparr>) d = Inr page \<and>
       pg_items page = slice start limit all \<and> pg_total page = length all)"
proof -
  have rows: "distinct (map ra_id (tAudits d))" using assms(3) by (simp add: pg_ok_def)
  have ans: "refuses P (pgCalls d) = None" "losesAnswer P (pgCalls d) = None" "refuses P (pgCalls (issued d)) = None"
      "losesAnswer P (pgCalls (issued d)) = None"
    using assms(5) by (simp_all add: answersFrom_def issued_def)
  have t: "tAudits (issued d) = tAudits d" "tAudits (issued (issued d)) = tAudits d" by (simp_all add: issued_def)
  from assms(7) obtain c where c: "auditFilterBindings P f = Inr c"
    and all: "all = map (rowToAudit P) (auditRowsPg P c (tAudits d))"
    by (auto simp: listAuditsPg_def valu_select [OF ans(1,2)] andThen_Inr t auditRows_visit [OF assms(1,2) rows])
  have walk: "length all < n \<longrightarrow> valu (walkPg P f limit n None) d = Inr all"
    using walk_rest [OF assms(1,2) c assms(6) rows assms(4,5), of 0 None n] by (simp add: all)
  have maps: "mapRows (\<lambda>r. Inr (rowToAudit P r)) rs = Inr (map (rowToAudit P) rs)" for rs
    by (induction rs) auto
  have len: "length (filter c (visit P m (tAudits d))) = length (auditRowsPg P c (tAudits d))" for m
    using auditRows_visit [OF assms(1,2) rows, of c m] by (metis length_sortBy)
  have "valu (listAuditsPagePg P f \<lparr> lp_limit = limit, lp_offset = start \<rparr>) d =
      Inr \<lparr> pg_items = slice start limit all, pg_total = length all, pg_limit = limit, pg_offset = start \<rparr>"
    by (simp add: listAuditsPagePg_def pageOf_def valu_select [OF ans(1,2)] valu_select [OF ans(3,4)] c t maps len all
        auditRows_visit [OF assms(1,2) rows] slice_def take_map drop_map)
  with walk show ?thesis by simp
qed

end
