(* ===== verification/PgWitnesses.thy ===== *)
theory PgWitnesses
  imports PgPages Scenario
begin

text \<open>
  A small database on which the theorems about \<open>repository/postgres-repository.ts\<close> are applied: one contract, one entry in each of the
  queues and two audit records. The scans of the server alternate between two orders.
\<close>

definition iso0 :: string where
  "iso0 = ''1970-01-01T00:00:00.000Z''"

definition pg0 :: pg_env where
  "pg0 = \<lparr> refuses = (\<lambda>n. None), losesAnswer = (\<lambda>n. None), timestamptz = (\<lambda>s. if s = iso0 then Some 0 else None),
     toDate = (\<lambda>t. t div 1000), jsonb = jsonParse, scan = (\<lambda>n k. if even n then [0..<k] else rev [0..<k]),
     returns = (\<lambda>n k. rev [0..<k]), collateLe = (\<lambda>a b. a \<le> b) \<rparr>"

lemma iso0: "toISOString 0 = iso0"
  unfolding iso0_def by code_simp

lemma pg0_orders: "pg_orders pg0"
  by (simp add: pg_orders_def pg0_def del: upt.simps)

lemma pg0_collation: "collation pg0"
  by (auto simp: collation_def pg0_def)

lemma pg0_answers: "answersFrom pg0 k" "answers pg0 d"
  by (simp_all add: answersFrom_def answers_def pg0_def)

lemma pg0_time: "timestamptz pg0 iso0 = Some 0" "toIso pg0 0 = iso0" "stable pg0 iso0" "ts pg0 iso0 = Inr 0"
  by (simp_all add: stable_def toIso_def ts_def pg0_def iso0)

section \<open>A first contract\<close>

definition contract0 :: Contract where
  "contract0 = \<lparr> ct_id = ''c1'', ct_tenantId = ''t1'', ct_landlordId = ''l1'', ct_status = Active, ct_escrowCreateTxHash = None,
     ct_depositAmount = Some ''100'', ct_stakeAmount = None, ct_startsAt = Some iso0, ct_endsAt = None, ct_createdAt = iso0,
     ct_updatedAt = iso0 \<rparr>"

lemma contract0_row: "\<exists>r. contractRow pg0 contract0 = Inr r \<and> rc_id r = ''c1''"
  by (simp add: contractRow_def contract0_def tsOpt_def pg0_time)

lemma save_contract0:
  "valu (saveContractPg pg0 contract0) empty_pgdb = Inr ()"
  "\<exists>r. exec (saveContractPg pg0 contract0) empty_pgdb = empty_pgdb\<lparr>tContracts := [r], pgCalls := 1\<rparr> \<and> rc_id r = ''c1''"
  using contract0_row by (auto simp: saveContractPg_def stmt_run issued_def empty_pgdb_def upsert_def pg0_def)

lemma refines_contract0:
  "sim pg0 (exec (saveContractPg pg0 contract0) empty_pgdb) (exec (saveContract contract0) empty_world)"
  using refines_contract [OF sim_empty, of contract0 pg0] save_contract0(1)
  by (simp add: refines_def agrees_def empty_world_def)


text \<open>The contract is written to both repositories, then overwritten with another status.\<close>

definition contract1 :: Contract where
  "contract1 = contract0\<lparr>ct_status := EscrowValidated\<rparr>"

theorem pg_refines_memory_witness:
  "valu (runPg pg0 (SaveContract contract1)) (exec (saveContractPg pg0 contract0) empty_pgdb) = Inr True \<and>
   sim pg0 (exec (runPg pg0 (SaveContract contract1)) (exec (saveContractPg pg0 contract0) empty_pgdb))
     (exec (runMem (SaveContract contract1)) (exec (saveContract contract0) empty_world))"
proof -
  have ok: "compatible (exec (saveContract contract0) empty_world) (SaveContract contract1)"
    by (simp add: contract0_def contract1_def agrees_def run_simps empty_world_def)
  obtain r where "contractRow pg0 contract1 = Inr r"
    by (auto simp: contractRow_def contract0_def contract1_def tsOpt_def pg0_time)
  then have "valu (runPg pg0 (SaveContract contract1)) d = Inr True" for d
    by (simp add: doneP_def saveContractPg_def stmt_run pg0_def)
  with pg_refines_memory [OF refines_contract0 ok] show ?thesis by simp
qed

theorem pg_reads_memory_witness:
  "valu (readPg pg0 (GetContract ''c1'')) (exec (saveContractPg pg0 contract0) empty_pgdb) = Inr (AContract (Some contract0)) \<and>
   exec (readPg pg0 (GetContract ''c1'')) (exec (saveContractPg pg0 contract0) empty_pgdb) =
     issued (exec (saveContractPg pg0 contract0) empty_pgdb)"
proof -
  have ok: "pg_ok (exec (saveContractPg pg0 contract0) empty_pgdb)"
    using ok_contracts [of pg0 contract0] by (simp add: steps_def keepsOk_def pg_ok_def empty_pgdb_def)
  have mem: "valu (readMem (GetContract ''c1'')) (exec (saveContract contract0) empty_world) = AContract (Some contract0)"
    by (simp add: answerM_def run_simps contract0_def empty_world_def)
  have "canonical pg0 (valu (readMem (GetContract ''c1'')) (exec (saveContract contract0) empty_world))"
    unfolding mem by (simp add: optionally'_def canonContract_def contract0_def notBlank_def stableOpt_def pg0_time)
  from pg_reads_memory [OF refines_contract0 ok pg0_orders pg0_answers(2) this] show ?thesis unfolding mem .
qed

section \<open>The queues\<close>

definition outbox0 :: "string \<Rightarrow> outbox_row" where
  "outbox0 i = \<lparr> ro_id = i, ro_idempotency_key = i, ro_event_type = ''e'', ro_recipient_id = ''u'', ro_channel = Push, ro_payload = JObj [],
     ro_status = OPending, ro_attempts = 0, ro_last_error = None, ro_created_at = 0, ro_updated_at = 0,
     ro_processing_started_at = None, ro_dispatched_notification_id = None \<rparr>"

definition queues0 :: pgdb where
  "queues0 = empty_pgdb\<lparr>tOutbox := [outbox0 ''o1'', outbox0 ''o2'']\<rparr>"

definition taken0 :: "outbox_row \<Rightarrow> outbox_row" where
  "taken0 r = r\<lparr>ro_status := OProcessing, ro_processing_started_at := Some 0, ro_updated_at := 0\<rparr>"

lemma claim_pg0:
  "valu (claimNotificationOutboxPendingPg pg0 k iso0) (d\<lparr>tOutbox := rows, pgCalls := n\<rparr>) =
     Inr (map (rowToNotificationOutbox pg0) (fst (claim pg0 n ro_id (picked ro_id (\<lambda>r. ro_status r = OPending) ro_created_at k
       (visit pg0 n rows)) taken0 rows)))"
  "exec (claimNotificationOutboxPendingPg pg0 k iso0) (d\<lparr>tOutbox := rows, pgCalls := n\<rparr>) =
     d\<lparr>tOutbox := snd (claim pg0 n ro_id (picked ro_id (\<lambda>r. ro_status r = OPending) ro_created_at k (visit pg0 n rows)) taken0 rows),
       pgCalls := Suc n\<rparr>"
  using pg0_answers(2) [of "d\<lparr>tOutbox := rows, pgCalls := n\<rparr>"]
  by (simp_all add: claimNotificationOutboxPendingPg_def stmt_run issued_def pg0_time taken0_def [abs_def] Let_def case_prod_beta
      answers_def)

lemma claim_first:
  "claim pg0 0 ro_id (picked ro_id (\<lambda>r. ro_status r = OPending) ro_created_at 1 (visit pg0 0 [outbox0 ''o1'', outbox0 ''o2'']))
     taken0 [outbox0 ''o1'', outbox0 ''o2''] = ([taken0 (outbox0 ''o1'')], [taken0 (outbox0 ''o1''), outbox0 ''o2''])"
  by (simp add: Let_def claim_def picked_def visit_def inOrder_def sortBy_def updateRows_def outbox0_def pg0_def numeral_2_eq_2)

lemma claim_second:
  "claim pg0 1 ro_id (picked ro_id (\<lambda>r. ro_status r = OPending) ro_created_at 5 (visit pg0 1 [taken0 (outbox0 ''o1''), outbox0 ''o2'']))
     taken0 [taken0 (outbox0 ''o1''), outbox0 ''o2''] =
     ([taken0 (outbox0 ''o2'')], [taken0 (outbox0 ''o1''), taken0 (outbox0 ''o2'')])"
  by (simp add: Let_def claim_def picked_def visit_def inOrder_def sortBy_def updateRows_def outbox0_def taken0_def pg0_def numeral_2_eq_2)


section \<open>The audit log\<close>

definition auditRow0 :: "string \<Rightarrow> audits_row" where
  "auditRow0 i = \<lparr> ra_id = i, ra_entity_type = ''contract'', ra_entity_id = ''c1'', ra_action = ''created'', ra_actor_id = ''op'',
     ra_before_json = None, ra_after_json = None, ra_metadata_json = None, ra_created_at = 0 \<rparr>"

definition audits0 :: pgdb where
  "audits0 = empty_pgdb\<lparr>tAudits := [auditRow0 ''a2'', auditRow0 ''a1'']\<rparr>"

definition noFilter :: AuditFilter where
  "noFilter = \<lparr> af_entityType = None, af_entityId = None, af_from = None, af_to = None \<rparr>"

lemma list_audits0: "valu (listAuditsPg pg0 noFilter) audits0 = Inr [rowToAudit pg0 (auditRow0 ''a1''), rowToAudit pg0 (auditRow0 ''a2'')]"
  by code_simp

theorem pg_audit_walk_witness:
  "valu (walkPg pg0 noFilter 1 3 None) audits0 = Inr [rowToAudit pg0 (auditRow0 ''a1''), rowToAudit pg0 (auditRow0 ''a2'')]"
proof -
  have "pg_ok audits0" by (simp add: pg_ok_def audits0_def empty_pgdb_def auditRow0_def)
  moreover have "cursorRows pg0 (tAudits audits0)" by (simp add: cursorRows_def audits0_def auditRow0_def pg0_time) (simp add: iso0_def)
  ultimately show ?thesis
    using pg_audit_walk [OF pg0_collation pg0_orders _ _ pg0_answers(1) _ list_audits0, of 1 3 0] by simp
qed

section \<open>Pages without a total order\<close>

definition contractRow0 :: "string \<Rightarrow> contracts_row" where
  "contractRow0 i = \<lparr> rc_id = i, rc_tenant_id = ''t1'', rc_landlord_id = ''l1'', rc_status = Active, rc_escrow_create_tx_hash = None,
     rc_deposit_amount = None, rc_stake_amount = None, rc_starts_at = None, rc_ends_at = None, rc_created_at = 0, rc_updated_at = 0 \<rparr>"

definition contracts0 :: pgdb where
  "contracts0 = empty_pgdb\<lparr>tContracts := [contractRow0 ''c1'', contractRow0 ''c2'']\<rparr>"

definition pg1 :: pg_env where
  "pg1 = pg0\<lparr>scan := (\<lambda>n k. if n < 2 then [0..<k] else rev [0..<k])\<rparr>"

lemma pg1_orders: "pg_orders pg1"
  by (simp add: pg_orders_def pg1_def pg0_def del: upt.simps)


end
