(* ===== verification/Config.thy ===== *)
theory Config
  imports JsNumber Types
begin

text \<open>
  The configuration of the operations backend (\<open>config.ts\<close>): a function of the environment variables. Numbers are read as \<open>Number\<close> reads
  a text (\<open>StringToNumber\<close> of ECMAScript) and clamped by \<open>Math.max\<close> and \<open>Math.min\<close>, all over doubles; \<open>a || b\<close> takes \<open>b\<close> for a variable that is
  unset or empty, \<open>a ?? b\<close> only for one that is unset.
\<close>

section \<open>Reading numbers\<close>

type_synonym processEnv = "string \<Rightarrow> string option"

text \<open>\<open>StrUnsignedDecimalLiteral\<close>.\<close>

definition isExponentPart :: "string \<Rightarrow> bool" where
  "isExponentPart s = (case s of
      [] \<Rightarrow> True
    | c # r \<Rightarrow> (c = CHR ''e'' \<or> c = CHR ''E'') \<and>
       (let ds = (case r of d # r' \<Rightarrow> if d = CHR ''-'' \<or> d = CHR ''+'' then r' else r | [] \<Rightarrow> []) in ds \<noteq> [] \<and> list_all isDigit ds))"

definition isDecimalLiteral :: "string \<Rightarrow> bool" where
  "isDecimalLiteral s =
    (let whole = takeWhile isDigit s; r = dropWhile isDigit s in
     case r of
       c # r' \<Rightarrow> if c = CHR ''.'' then (whole \<noteq> [] \<or> takeWhile isDigit r' \<noteq> []) \<and> isExponentPart (dropWhile isDigit r')
         else whole \<noteq> [] \<and> isExponentPart r
     | [] \<Rightarrow> whole \<noteq> [])"

text \<open>\<open>StringNumericLiteral\<close> without its sign: a decimal literal or \<open>Infinity\<close>.\<close>

definition unsignedNumber :: "string \<Rightarrow> double" where
  "unsignedNumber s = (if s = ''Infinity'' then Infinity else if isDecimalLiteral s then readDecimal s else NaN)"

definition radixDigit :: "char \<Rightarrow> nat" where
  "radixDigit c = (let n = of_char (toLowerChar c) in if isDigit c then n - 48 else n - 87)"

definition radixNumber :: "nat \<Rightarrow> string \<Rightarrow> double" where
  "radixNumber b ds =
    (if ds \<noteq> [] \<and> list_all (\<lambda>c. isHexDigit c \<and> radixDigit c < b) ds
     then toDoubleNat (foldl (\<lambda>n c. n * b + radixDigit c) 0 ds) 1 else NaN)"

definition Number :: "string \<Rightarrow> double" where
  "Number s =
    (let t = trim s; p = toLowerCase (take 2 t) in
     if t = [] then Fin 0 0
     else if p = ''0x'' then radixNumber 16 (drop 2 t)
     else if p = ''0o'' then radixNumber 8 (drop 2 t)
     else if p = ''0b'' then radixNumber 2 (drop 2 t)
     else if take 1 t = ''-'' then negDouble (unsignedNumber (drop 1 t))
     else if take 1 t = ''+'' then unsignedNumber (drop 1 t)
     else unsignedNumber t)"

text \<open>\<open>Math.max\<close> and \<open>Math.min\<close> of two numbers.\<close>

definition mathMax :: "double \<Rightarrow> double \<Rightarrow> double" where
  "mathMax x y = (if x = NaN \<or> y = NaN then NaN else if ltDouble x y then y else x)"

definition mathMin :: "double \<Rightarrow> double \<Rightarrow> double" where
  "mathMin x y = (if x = NaN \<or> y = NaN then NaN else if ltDouble x y then x else y)"

definition num :: "nat \<Rightarrow> double" where
  "num n = Fin (int n) 0"

text \<open>\<open>Number(process.env.X || n)\<close>, \<open>Number(process.env.X ?? n)\<close>, \<open>process.env.X || s\<close>, \<open>process.env.X === "1"\<close>.\<close>

definition numOr :: "processEnv \<Rightarrow> string \<Rightarrow> nat \<Rightarrow> double" where
  "numOr pe x n = (case pe x of None \<Rightarrow> num n | Some s \<Rightarrow> if s = [] then num n else Number s)"

definition numNullish :: "processEnv \<Rightarrow> string \<Rightarrow> nat \<Rightarrow> double" where
  "numNullish pe x n = (case pe x of None \<Rightarrow> num n | Some s \<Rightarrow> Number s)"

definition strOr :: "processEnv \<Rightarrow> string \<Rightarrow> string \<Rightarrow> string" where
  "strOr pe x d = (case pe x of None \<Rightarrow> d | Some s \<Rightarrow> if s = [] then d else s)"

definition isOne :: "processEnv \<Rightarrow> string \<Rightarrow> bool" where
  "isOne pe x = (pe x = Some ''1'')"

section \<open>The sections of \<open>config\<close>\<close>

datatype TopologyProfile = PublicHub | Dedicated | Clio

record apiConfig =
  api_v1BearerToken :: string
  api_mtlsClientCertSubjectHeader :: string

record ipfsConfig =
  ipfs_mode :: string
  ipfs_pinataJwt :: string
  ipfs_pinataEndpoint :: string
  ipfs_pinataUnpinBaseUrl :: string
  ipfs_pinataMaxAttempts :: double
  ipfs_pinataRetryInitialMs :: double
  ipfs_pinataRetryMaxMs :: double

record xrplConfig =
  xrpl_enabled :: bool
  xrpl_wssUrl :: string
  xrpl_requestTimeoutMs :: double
  xrpl_topologyProfile :: TopologyProfile
  xrpl_drRunbookUrl :: string

record xrplSubscribeConfig =
  xs_disabled :: bool
  xs_maxAccounts :: double
  xs_accountsRefreshMs :: double
  xs_transactionsStream :: bool
  xs_logReconnects :: bool
  xs_transactionStreamMaxPerSec :: double

record xrplTxPolicyConfig =
  xp_workerDisabled :: bool
  xp_intervalMs :: double
  xp_pendingTimeoutMs :: double
  xp_batchSize :: double
  xp_maxNotFoundProbes :: double
  xp_accountBackfillPerTick :: double
  xp_logSummaryTick :: bool
  xp_maxBackoffMs :: double

record notificationConfig =
  nc_maxAttempts :: double
  nc_workerIntervalMs :: double
  nc_workerBatchSize :: double
  nc_workerDisabled :: bool
  nc_emailWebhookUrl :: string
  nc_pushWebhookUrl :: string
  nc_fcmStubLog :: bool
  nc_retryInitialBackoffMs :: double
  nc_retryMaxBackoffMs :: double
  nc_autoDomainEnqueue :: bool
  nc_domainOutbox :: bool
  nc_outboxFanoutWorkerDisabled :: bool
  nc_outboxFanoutWorkerIntervalMs :: double
  nc_outboxFanoutBatchSize :: double
  nc_outboxStaleProcessingMs :: double
  nc_outboxDispatchMaxAttempts :: double

record exportJobsConfig =
  xj_workerDisabled :: bool
  xj_workerIntervalMs :: double
  xj_workerBatchSize :: double
  xj_artifactSigningSecret :: string
  xj_artifactUrlTtlSec :: double

record reputationConfig =
  rp_outboundWebhookUrl :: string
  rp_outboundWebhookSecret :: string
  rp_xlsAllowlist :: "string list"

record authConfig =
  au_enabled :: bool
  au_operatorConsoleScopesEnabled :: bool
  au_oidcIssuerUrl :: string

record executionConfig =
  ex_syntheticExecutionHashEnabled :: bool
  ex_deploymentTier :: DeploymentTier
  ex_submitEnabled :: bool
  ex_submitSeed :: string

record disputeConfig =
  dp_verifierQuorumK :: double
  dp_reviewDeadlineDays :: double
  dp_slaAutoEscalate :: bool

record settlementConfig =
  sl_ledgerCloseTouchEnabled :: bool
  sl_autoNotifyOnConfirmed :: bool

record evidenceVaultConfig =
  vt_maxUploadBytes :: double
  vt_maxRetentionDays :: double
  vt_encryptionKeyBase64 :: string
  vt_ipfsGatewayBase :: string
  vt_kmsKeyRef :: string
  vt_kmsStubDekBase64 :: string
  vt_kmsHttpUnwrapUrl :: string
  vt_kmsHttpUnwrapBearer :: string
  vt_kmsWrappedDekBase64 :: string
  vt_kmsHttpUnwrapTimeoutMs :: double

record config =
  cf_port :: double
  cf_api :: apiConfig
  cf_ipfs :: ipfsConfig
  cf_xrpl :: xrplConfig
  cf_xrplSubscribe :: xrplSubscribeConfig
  cf_xrplTxPolicy :: xrplTxPolicyConfig
  cf_healthDeepDefault :: bool
  cf_notification :: notificationConfig
  cf_exportJobs :: exportJobsConfig
  cf_reputation :: reputationConfig
  cf_auth :: authConfig
  cf_execution :: executionConfig
  cf_dispute :: disputeConfig
  cf_settlement :: settlementConfig
  cf_evidenceVault :: evidenceVaultConfig

section \<open>Loading\<close>

definition loadApi :: "processEnv \<Rightarrow> apiConfig" where
  "loadApi pe = \<lparr> api_v1BearerToken = trim (strOr pe ''BLUESAFE_V1_BEARER_TOKEN'' ''''),
     api_mtlsClientCertSubjectHeader = trim (strOr pe ''BLUESAFE_MTLS_CLIENT_CERT_SUBJECT_HEADER'' '''') \<rparr>"

text \<open>\<open>.replace(/\/$/, "")\<close>.\<close>

definition dropLastSlash :: "string \<Rightarrow> string" where
  "dropLastSlash s = (if endsWith s ''/'' then butlast s else s)"

definition loadIpfs :: "processEnv \<Rightarrow> ipfsConfig" where
  "loadIpfs pe = \<lparr> ipfs_mode = strOr pe ''IPFS_MODE'' (if strOr pe ''IPFS_PINATA_JWT'' '''' \<noteq> '''' then ''pinata'' else ''mock''),
     ipfs_pinataJwt = strOr pe ''IPFS_PINATA_JWT'' '''',
     ipfs_pinataEndpoint = strOr pe ''IPFS_PINATA_ENDPOINT'' ''https://api.pinata.cloud/pinning/pinFileToIPFS'',
     ipfs_pinataUnpinBaseUrl = dropLastSlash (strOr pe ''IPFS_PINATA_UNPIN_BASE_URL'' ''https://api.pinata.cloud/pinning/unpin''),
     ipfs_pinataMaxAttempts = mathMax (num 1) (mathMin (num 10) (numOr pe ''IPFS_PINATA_MAX_ATTEMPTS'' 4)),
     ipfs_pinataRetryInitialMs = mathMax (num 50) (numOr pe ''IPFS_PINATA_RETRY_INITIAL_MS'' 400),
     ipfs_pinataRetryMaxMs = mathMax (num 200) (numOr pe ''IPFS_PINATA_RETRY_MAX_MS'' 10000) \<rparr>"

definition topologyProfile :: "processEnv \<Rightarrow> TopologyProfile" where
  "topologyProfile pe = (let v = toLowerCase (trim (strOr pe ''BLUESAFE_XRPL_TOPOLOGY'' ''public_hub'')) in
     if v = ''dedicated'' then Dedicated else if v = ''clio'' then Clio else PublicHub)"

definition loadXrpl :: "processEnv \<Rightarrow> xrplConfig" where
  "loadXrpl pe = \<lparr> xrpl_enabled = (strOr pe ''XRPL_WSS_URL'' '''' \<noteq> ''''), xrpl_wssUrl = strOr pe ''XRPL_WSS_URL'' '''',
     xrpl_requestTimeoutMs = numOr pe ''XRPL_REQUEST_TIMEOUT_MS'' 10000, xrpl_topologyProfile = topologyProfile pe,
     xrpl_drRunbookUrl = trim (strOr pe ''BLUESAFE_XRPL_DR_RUNBOOK_URL'' '''') \<rparr>"

definition loadXrplSubscribe :: "processEnv \<Rightarrow> xrplSubscribeConfig" where
  "loadXrplSubscribe pe = \<lparr> xs_disabled = isOne pe ''XRPL_SUBSCRIBE_WORKER_DISABLED'',
     xs_maxAccounts = mathMax (num 1) (mathMin (num 100) (numOr pe ''XRPL_SUBSCRIBE_MAX_ACCOUNTS'' 50)),
     xs_accountsRefreshMs = mathMax (num 10000) (numOr pe ''XRPL_SUBSCRIBE_ACCOUNTS_REFRESH_MS'' 45000),
     xs_transactionsStream = isOne pe ''XRPL_SUBSCRIBE_TRANSACTIONS_STREAM'',
     xs_logReconnects = isOne pe ''XRPL_SUBSCRIBE_LOG_RECONNECTS'',
     xs_transactionStreamMaxPerSec = mathMax (num 0) (numOr pe ''XRPL_SUBSCRIBE_TX_MAX_PER_SEC'' 0) \<rparr>"

definition loadXrplTxPolicy :: "processEnv \<Rightarrow> xrplTxPolicyConfig" where
  "loadXrplTxPolicy pe = \<lparr> xp_workerDisabled = isOne pe ''XRPL_TX_POLICY_WORKER_DISABLED'',
     xp_intervalMs = mathMax (num 5000) (numOr pe ''XRPL_TX_POLICY_INTERVAL_MS'' 30000),
     xp_pendingTimeoutMs = mathMax (num 10000) (numOr pe ''XRPL_PENDING_TX_TIMEOUT_MS'' 120000),
     xp_batchSize = mathMax (num 1) (numOr pe ''XRPL_TX_POLICY_BATCH_SIZE'' 10),
     xp_maxNotFoundProbes = mathMax (num 1) (numOr pe ''XRPL_TX_POLICY_MAX_NOT_FOUND_PROBES'' 5),
     xp_accountBackfillPerTick = mathMax (num 0) (numNullish pe ''XRPL_TX_ACCOUNT_BACKFILL_PER_TICK'' 8),
     xp_logSummaryTick = isOne pe ''XRPL_TX_POLICY_LOG_SUMMARY'',
     xp_maxBackoffMs = mathMax (num 5000) (numOr pe ''XRPL_TX_POLICY_MAX_BACKOFF_MS'' 300000) \<rparr>"

definition loadNotification :: "processEnv \<Rightarrow> notificationConfig" where
  "loadNotification pe = \<lparr> nc_maxAttempts = mathMax (num 1) (numOr pe ''NOTIFICATION_MAX_ATTEMPTS'' 5),
     nc_workerIntervalMs = mathMax (num 50) (numOr pe ''NOTIFICATION_WORKER_INTERVAL_MS'' 2000),
     nc_workerBatchSize = mathMax (num 1) (numOr pe ''NOTIFICATION_WORKER_BATCH_SIZE'' 20),
     nc_workerDisabled = isOne pe ''NOTIFICATION_WORKER_DISABLED'',
     nc_emailWebhookUrl = strOr pe ''NOTIFICATION_EMAIL_WEBHOOK_URL'' '''',
     nc_pushWebhookUrl = strOr pe ''NOTIFICATION_PUSH_WEBHOOK_URL'' '''',
     nc_fcmStubLog = isOne pe ''NOTIFICATION_FCM_STUB_LOG'',
     nc_retryInitialBackoffMs = mathMax (num 100) (numOr pe ''NOTIFICATION_RETRY_INITIAL_MS'' 1000),
     nc_retryMaxBackoffMs = mathMax (num 1000) (numOr pe ''NOTIFICATION_RETRY_MAX_BACKOFF_MS'' 60000),
     nc_autoDomainEnqueue = (pe ''NOTIFICATION_AUTO_DOMAIN_ENQUEUE'' \<noteq> Some ''0''),
     nc_domainOutbox = isOne pe ''NOTIFICATION_DOMAIN_OUTBOX'',
     nc_outboxFanoutWorkerDisabled = isOne pe ''NOTIFICATION_OUTBOX_FANOUT_WORKER_DISABLED'',
     nc_outboxFanoutWorkerIntervalMs = mathMax (num 100) (numOr pe ''NOTIFICATION_OUTBOX_FANOUT_INTERVAL_MS'' 750),
     nc_outboxFanoutBatchSize = mathMax (num 1) (numOr pe ''NOTIFICATION_OUTBOX_FANOUT_BATCH_SIZE'' 25),
     nc_outboxStaleProcessingMs = mathMax (num 10000) (numOr pe ''NOTIFICATION_OUTBOX_STALE_PROCESSING_MS'' 120000),
     nc_outboxDispatchMaxAttempts = mathMax (num 1) (numOr pe ''NOTIFICATION_OUTBOX_DISPATCH_MAX_ATTEMPTS'' 8) \<rparr>"

definition loadExportJobs :: "processEnv \<Rightarrow> exportJobsConfig" where
  "loadExportJobs pe = \<lparr> xj_workerDisabled = isOne pe ''EXPORT_JOB_WORKER_DISABLED'',
     xj_workerIntervalMs = mathMax (num 500) (numOr pe ''EXPORT_JOB_WORKER_INTERVAL_MS'' 2000),
     xj_workerBatchSize = mathMax (num 1) (numOr pe ''EXPORT_JOB_WORKER_BATCH_SIZE'' 3),
     xj_artifactSigningSecret = trim (strOr pe ''BLUESAFE_EXPORT_ARTIFACT_SECRET'' ''''),
     xj_artifactUrlTtlSec = mathMax (num 60) (mathMin (num 86400) (numOr pe ''BLUESAFE_EXPORT_ARTIFACT_TTL_SEC'' 3600)) \<rparr>"

definition loadReputation :: "processEnv \<Rightarrow> reputationConfig" where
  "loadReputation pe = \<lparr> rp_outboundWebhookUrl = trim (strOr pe ''REPUTATION_OUTBOUND_WEBHOOK_URL'' ''''),
     rp_outboundWebhookSecret = trim (strOr pe ''REPUTATION_OUTBOUND_WEBHOOK_SECRET'' ''''),
     rp_xlsAllowlist = filter (\<lambda>s. s \<noteq> '''') (map trim (splitOn (CHR '','') (strOr pe ''REPUTATION_XLS_ALLOWLIST'' ''''))) \<rparr>"

definition loadAuth :: "processEnv \<Rightarrow> authConfig" where
  "loadAuth pe = \<lparr> au_enabled = isOne pe ''BLUESAFE_AUTH'',
     au_operatorConsoleScopesEnabled = isOne pe ''BLUESAFE_OPERATOR_CONSOLE_SCOPES'',
     au_oidcIssuerUrl = trim (strOr pe ''BLUESAFE_OIDC_ISSUER_URL'' '''') \<rparr>"

definition loadExecution :: "processEnv \<Rightarrow> executionConfig" where
  "loadExecution pe = \<lparr> ex_syntheticExecutionHashEnabled = (pe ''BLUESAFE_SYNTHETIC_EXECUTION_HASH'' \<noteq> Some ''0''),
     ex_deploymentTier = (if toLowerCase (trim (strOr pe ''BLUESAFE_EXECUTION_DEPLOYMENT_TIER'' ''dev'')) = ''strict'' then Strict else Dev),
     ex_submitEnabled = isOne pe ''BLUESAFE_EXECUTION_SUBMIT_ENABLED'',
     ex_submitSeed = strOr pe ''BLUESAFE_EXECUTION_SUBMIT_SEED'' '''' \<rparr>"

definition loadDispute :: "processEnv \<Rightarrow> disputeConfig" where
  "loadDispute pe = \<lparr> dp_verifierQuorumK = mathMax (num 1) (numOr pe ''DISPUTE_VERIFIER_QUORUM_K'' 1),
     dp_reviewDeadlineDays = mathMax (num 1) (numOr pe ''DISPUTE_REVIEW_DEADLINE_DAYS'' 14),
     dp_slaAutoEscalate = isOne pe ''DISPUTE_SLA_AUTO_ESCALATE'' \<rparr>"

definition loadSettlement :: "processEnv \<Rightarrow> settlementConfig" where
  "loadSettlement pe = \<lparr> sl_ledgerCloseTouchEnabled = (\<not> isOne pe ''SETTLEMENT_LEDGER_TOUCH_DISABLED''),
     sl_autoNotifyOnConfirmed = (pe ''SETTLEMENT_AUTO_NOTIFY_ON_CONFIRMED'' \<noteq> Some ''0'') \<rparr>"

definition loadEvidenceVault :: "processEnv \<Rightarrow> evidenceVaultConfig" where
  "loadEvidenceVault pe = \<lparr>
     vt_maxUploadBytes = mathMin (num (100 * 1024 * 1024)) (mathMax (num 4096) (numOr pe ''EVIDENCE_MAX_UPLOAD_BYTES'' (15 * 1024 * 1024))),
     vt_maxRetentionDays = mathMin (num 3650) (mathMax (num 1) (numOr pe ''EVIDENCE_MAX_RETENTION_DAYS'' 2555)),
     vt_encryptionKeyBase64 = strOr pe ''EVIDENCE_ENCRYPTION_KEY'' '''',
     vt_ipfsGatewayBase = strOr pe ''EVIDENCE_IPFS_GATEWAY_BASE'' ''https://gateway.pinata.cloud/ipfs'',
     vt_kmsKeyRef = trim (strOr pe ''EVIDENCE_KMS_KEY_REF'' ''''),
     vt_kmsStubDekBase64 = trim (strOr pe ''EVIDENCE_KMS_STUB_DEK_BASE64'' ''''),
     vt_kmsHttpUnwrapUrl = trim (strOr pe ''EVIDENCE_KMS_HTTP_UNWRAP_URL'' ''''),
     vt_kmsHttpUnwrapBearer = trim (strOr pe ''EVIDENCE_KMS_HTTP_UNWRAP_BEARER'' ''''),
     vt_kmsWrappedDekBase64 = trim (strOr pe ''EVIDENCE_KMS_WRAPPED_DEK_BASE64'' ''''),
     vt_kmsHttpUnwrapTimeoutMs = mathMax (num 1000) (numOr pe ''EVIDENCE_KMS_HTTP_UNWRAP_TIMEOUT_MS'' 10000) \<rparr>"

definition loadConfig :: "processEnv \<Rightarrow> config" where
  "loadConfig pe = \<lparr> cf_port = numOr pe ''PORT'' 3000, cf_api = loadApi pe, cf_ipfs = loadIpfs pe, cf_xrpl = loadXrpl pe,
     cf_xrplSubscribe = loadXrplSubscribe pe, cf_xrplTxPolicy = loadXrplTxPolicy pe,
     cf_healthDeepDefault = isOne pe ''HEALTH_DEEP_DEFAULT'', cf_notification = loadNotification pe,
     cf_exportJobs = loadExportJobs pe, cf_reputation = loadReputation pe, cf_auth = loadAuth pe, cf_execution = loadExecution pe,
     cf_dispute = loadDispute pe, cf_settlement = loadSettlement pe, cf_evidenceVault = loadEvidenceVault pe \<rparr>"

section \<open>Bounds\<close>

text \<open>The clamped numbers: the variable, the least and the greatest value, and the field.\<close>

definition clampedFields :: "processEnv \<Rightarrow> (string \<times> double \<times> double \<times> double) list" where
  "clampedFields pe = (let c = loadConfig pe; i = cf_ipfs c; s = cf_xrplSubscribe c; p = cf_xrplTxPolicy c; n = cf_notification c;
      j = cf_exportJobs c; d = cf_dispute c; v = cf_evidenceVault c in
    [(''IPFS_PINATA_MAX_ATTEMPTS'', num 1, num 10, ipfs_pinataMaxAttempts i),
     (''IPFS_PINATA_RETRY_INITIAL_MS'', num 50, Infinity, ipfs_pinataRetryInitialMs i),
     (''IPFS_PINATA_RETRY_MAX_MS'', num 200, Infinity, ipfs_pinataRetryMaxMs i),
     (''XRPL_SUBSCRIBE_MAX_ACCOUNTS'', num 1, num 100, xs_maxAccounts s),
     (''XRPL_SUBSCRIBE_ACCOUNTS_REFRESH_MS'', num 10000, Infinity, xs_accountsRefreshMs s),
     (''XRPL_SUBSCRIBE_TX_MAX_PER_SEC'', num 0, Infinity, xs_transactionStreamMaxPerSec s),
     (''XRPL_TX_POLICY_INTERVAL_MS'', num 5000, Infinity, xp_intervalMs p),
     (''XRPL_PENDING_TX_TIMEOUT_MS'', num 10000, Infinity, xp_pendingTimeoutMs p),
     (''XRPL_TX_POLICY_BATCH_SIZE'', num 1, Infinity, xp_batchSize p),
     (''XRPL_TX_POLICY_MAX_NOT_FOUND_PROBES'', num 1, Infinity, xp_maxNotFoundProbes p),
     (''XRPL_TX_ACCOUNT_BACKFILL_PER_TICK'', num 0, Infinity, xp_accountBackfillPerTick p),
     (''XRPL_TX_POLICY_MAX_BACKOFF_MS'', num 5000, Infinity, xp_maxBackoffMs p),
     (''NOTIFICATION_MAX_ATTEMPTS'', num 1, Infinity, nc_maxAttempts n),
     (''NOTIFICATION_WORKER_INTERVAL_MS'', num 50, Infinity, nc_workerIntervalMs n),
     (''NOTIFICATION_WORKER_BATCH_SIZE'', num 1, Infinity, nc_workerBatchSize n),
     (''NOTIFICATION_RETRY_INITIAL_MS'', num 100, Infinity, nc_retryInitialBackoffMs n),
     (''NOTIFICATION_RETRY_MAX_BACKOFF_MS'', num 1000, Infinity, nc_retryMaxBackoffMs n),
     (''NOTIFICATION_OUTBOX_FANOUT_INTERVAL_MS'', num 100, Infinity, nc_outboxFanoutWorkerIntervalMs n),
     (''NOTIFICATION_OUTBOX_FANOUT_BATCH_SIZE'', num 1, Infinity, nc_outboxFanoutBatchSize n),
     (''NOTIFICATION_OUTBOX_STALE_PROCESSING_MS'', num 10000, Infinity, nc_outboxStaleProcessingMs n),
     (''NOTIFICATION_OUTBOX_DISPATCH_MAX_ATTEMPTS'', num 1, Infinity, nc_outboxDispatchMaxAttempts n),
     (''EXPORT_JOB_WORKER_INTERVAL_MS'', num 500, Infinity, xj_workerIntervalMs j),
     (''EXPORT_JOB_WORKER_BATCH_SIZE'', num 1, Infinity, xj_workerBatchSize j),
     (''BLUESAFE_EXPORT_ARTIFACT_TTL_SEC'', num 60, num 86400, xj_artifactUrlTtlSec j),
     (''DISPUTE_VERIFIER_QUORUM_K'', num 1, Infinity, dp_verifierQuorumK d),
     (''DISPUTE_REVIEW_DEADLINE_DAYS'', num 1, Infinity, dp_reviewDeadlineDays d),
     (''EVIDENCE_MAX_UPLOAD_BYTES'', num 4096, num (100 * 1024 * 1024), vt_maxUploadBytes v),
     (''EVIDENCE_MAX_RETENTION_DAYS'', num 1, num 3650, vt_maxRetentionDays v),
     (''EVIDENCE_KMS_HTTP_UNWRAP_TIMEOUT_MS'', num 1000, Infinity, vt_kmsHttpUnwrapTimeoutMs v)])"

lemma num_NaN [simp]: "num n \<noteq> NaN"
  by (simp add: num_def)

lemma num_le [simp]: "leDouble (num a) (num b) \<longleftrightarrow> a \<le> b"
  by (simp add: num_def)

text \<open>The variable is set to a text that is no number.\<close>

definition unreadable :: "processEnv \<Rightarrow> string \<Rightarrow> bool" where
  "unreadable pe x = (\<exists>s. pe x = Some s \<and> Number s = NaN)"

definition within :: "processEnv \<Rightarrow> string \<times> double \<times> double \<times> double \<Rightarrow> bool" where
  "within pe f = (case f of (x, lo, hi, v) \<Rightarrow> if unreadable pe x then v = NaN else leDouble lo v \<and> leDouble v hi)"

lemma Number_empty [simp]: "Number [] = Fin 0 0"
  by (simp add: Number_def trim_def)

lemma numOr_NaN: "numOr pe x n = NaN \<longleftrightarrow> unreadable pe x"
  by (auto simp: numOr_def unreadable_def split: option.splits)

lemma numNullish_NaN: "numNullish pe x n = NaN \<longleftrightarrow> unreadable pe x"
  by (auto simp: numNullish_def unreadable_def split: option.splits)

lemma mathMax_NaN [simp]: "mathMax (num a) v = NaN \<longleftrightarrow> v = NaN" "mathMin (num a) v = NaN \<longleftrightarrow> v = NaN"
  by (auto simp: mathMax_def mathMin_def)

lemma lt_le: "x \<noteq> NaN \<Longrightarrow> y \<noteq> NaN \<Longrightarrow> ltDouble x y \<Longrightarrow> leDouble x y" "x \<noteq> NaN \<Longrightarrow> y \<noteq> NaN \<Longrightarrow> \<not> ltDouble x y \<Longrightarrow> leDouble y x"
  by (cases x; cases y; simp)+

lemma le_top: "v \<noteq> NaN \<Longrightarrow> leDouble v Infinity" "v \<noteq> NaN \<Longrightarrow> leDouble v v"
  by (cases v; simp)+

lemma mathMax_ge: "v \<noteq> NaN \<Longrightarrow> leDouble (num a) (mathMax (num a) v)"
  by (auto simp: mathMax_def intro: lt_le)

lemma mathMin_le: "v \<noteq> NaN \<Longrightarrow> leDouble (mathMin (num b) v) (num b)"
  by (auto simp: mathMin_def lt_le)

lemma clamp_le: "a \<le> b \<Longrightarrow> v \<noteq> NaN \<Longrightarrow> leDouble (mathMax (num a) (mathMin (num b) v)) (num b)"
  using mathMin_le [of v b] by (auto simp: mathMax_def)

lemma clamp_ge: "a \<le> b \<Longrightarrow> v \<noteq> NaN \<Longrightarrow> leDouble (num a) (mathMin (num b) (mathMax (num a) v))"
  using mathMax_ge [of v a] by (auto simp: mathMin_def)

lemma within_max: "(v = NaN \<longleftrightarrow> unreadable pe x) \<Longrightarrow> within pe (x, num a, Infinity, mathMax (num a) v)"
  by (auto simp: within_def mathMax_ge le_top)

lemma within_max_min: "(v = NaN \<longleftrightarrow> unreadable pe x) \<Longrightarrow> a \<le> b \<Longrightarrow> within pe (x, num a, num b, mathMax (num a) (mathMin (num b) v))"
  by (simp add: within_def clamp_le mathMax_ge)

lemma within_min_max: "(v = NaN \<longleftrightarrow> unreadable pe x) \<Longrightarrow> a \<le> b \<Longrightarrow> within pe (x, num a, num b, mathMin (num b) (mathMax (num a) v))"
  by (simp add: within_def clamp_ge mathMin_le)

lemmas load_defs = loadConfig_def loadIpfs_def loadXrplSubscribe_def loadXrplTxPolicy_def loadNotification_def loadExportJobs_def
  loadDispute_def loadEvidenceVault_def

lemma clamped_within: "list_all (within pe) (clampedFields pe)"
  by (simp add: clampedFields_def Let_def load_defs within_max within_max_min within_min_max numOr_NaN numNullish_NaN)

text \<open>C39: the bounds of the configuration. Every clamped number of the configuration is between its documented bounds unless the
  variable is set to a text that is no number; in that case, and only then, the clamp lets \<open>NaN\<close> through.\<close>

theorem config_bounds: "list_all (within pe) (clampedFields pe)"
  by (rule clamped_within)

end
