(* ===== verification/Subscription.thy ===== *)
theory Subscription
  imports Xrpl
begin

text \<open>
  The connection loop of the subscribe worker (\<open>startXrplSubscribeWorker\<close> of \<open>services/xrpl-subscribe.worker.ts\<close>) and the state
  that it reports (\<open>services/xrpl-subscribe-state.ts\<close>).

  The worker is a state machine whose steps are the moments at which one of its suspended activities goes on: the loop itself
  (connecting, the first synchronization, waiting, closing, sleeping) and the synchronizations that the refresh timer starts, any
  number of which may be suspended at an \<open>await\<close> at the same time. An event says which activity goes on and what the outside answered:
  the repository a list of accounts or an exception, rippled the acceptance or the rejection of a request.
  The variables that the closures share (\<open>prevAccounts\<close> and the others) are fields of the state, as are the subscriptions that rippled keeps for the
  current connection. Of \<open>xrpl.js\<close> the model takes that a request on a client that is not connected is rejected at once, that the loss of a
  connection rejects the requests that wait for an answer and is reported by one \<open>disconnected\<close> event, and that a client is not
  connected any more after \<open>disconnect()\<close>. The promises of timer synchronizations are discarded (\<open>void syncSubscriptions()\<close>), so their rejection is an
  unhandled one, which ends the process (the default of Node since version 15; the service installs no handler).
\<close>

section \<open>The reported state\<close>

record subscribeState =
  ss_started :: bool
  ss_connected :: bool
  ss_lastConnectedAt :: "string option"
  ss_lastDisconnectedAt :: "string option"
  ss_accountsSubscribed :: nat
  ss_ledgerStreamSubscribed :: bool
  ss_disconnectCycles :: nat

definition subscribeState0 :: subscribeState where
  "subscribeState0 = \<lparr> ss_started = False, ss_connected = False, ss_lastConnectedAt = None, ss_lastDisconnectedAt = None,
     ss_accountsSubscribed = 0, ss_ledgerStreamSubscribed = False, ss_disconnectCycles = 0 \<rparr>"

definition markXrplSubscribeWorkerStarted :: "subscribeState \<Rightarrow> subscribeState" where
  "markXrplSubscribeWorkerStarted s = s\<lparr> ss_started := True \<rparr>"

definition markXrplSubscribeConnected :: "int \<Rightarrow> subscribeState \<Rightarrow> subscribeState" where
  "markXrplSubscribeConnected now s = s\<lparr> ss_connected := True, ss_lastConnectedAt := Some (toISOString now) \<rparr>"

definition markXrplSubscribeDisconnected :: "int \<Rightarrow> subscribeState \<Rightarrow> subscribeState" where
  "markXrplSubscribeDisconnected now s = s\<lparr> ss_connected := False, ss_lastDisconnectedAt := Some (toISOString now),
     ss_disconnectCycles := ss_disconnectCycles s + 1, ss_accountsSubscribed := 0, ss_ledgerStreamSubscribed := False \<rparr>"

definition setXrplSubscribeSyncSnapshot :: "nat \<Rightarrow> bool \<Rightarrow> subscribeState \<Rightarrow> subscribeState" where
  "setXrplSubscribeSyncSnapshot accountsSubscribed ledgerStreamSubscribed s =
     s\<lparr> ss_accountsSubscribed := accountsSubscribed, ss_ledgerStreamSubscribed := ledgerStreamSubscribed \<rparr>"

section \<open>The worker\<close>

record subscribeOpts =
  so_wssUrl :: string
  so_disabled :: bool
  so_transactionsStream :: bool

text \<open>A synchronization in flight: the client its closure captured, whether the loop awaits it, and the \<open>await\<close> it is suspended at.
  \<open>Unsubscribing\<close> has the listed accounts, then the accounts and the streams of the request.\<close>

datatype syncStage = Listing | Unsubscribing "string list" "string list" "string list" | Subscribing "string list"

record syncRun =
  sy_client :: nat
  sy_first :: bool
  sy_stage :: syncStage

datatype loopAt = Connecting | FirstSync | Waiting | Closing | Sleeping int | Finished

record subWorker =
  stopped :: bool
  refreshTimer :: bool
  prevAccounts :: "string list"
  prevLedgerSubscribed :: bool
  prevTransactionsSubscribed :: bool
  reconnectAttempt :: nat
  loopState :: loopAt
  clientNo :: nat
  connected :: bool
  srvAccounts :: "string list"
  srvStreams :: "string list"
  syncs :: "syncRun list"
  processEnded :: bool
  reported :: subscribeState

definition ledgerStreams :: "subscribeOpts \<Rightarrow> string list" where
  "ledgerStreams opts = (if so_transactionsStream opts then [''ledger'', ''transactions''] else [''ledger''])"

text \<open>The worker right after \<open>startXrplSubscribeWorker\<close>: none when it is disabled or has no address.\<close>

definition startXrplSubscribeWorker :: "subscribeOpts \<Rightarrow> subWorker option" where
  "startXrplSubscribeWorker opts =
    (if so_disabled opts \<or> trim (so_wssUrl opts) = '''' then None
     else Some \<lparr> stopped = False, refreshTimer = False, prevAccounts = [], prevLedgerSubscribed = False,
       prevTransactionsSubscribed = False, reconnectAttempt = 0, loopState = Connecting, clientNo = 0, connected = False,
       srvAccounts = [], srvStreams = [], syncs = [], processEnded = False,
       reported = markXrplSubscribeWorkerStarted subscribeState0 \<rparr>)"

text \<open>The first statements of \<open>finally\<close>, up to its \<open>await\<close>.\<close>

definition enterFinally :: "int \<Rightarrow> subWorker \<Rightarrow> subWorker" where
  "enterFinally now s = s\<lparr> reported := markXrplSubscribeDisconnected now (reported s), refreshTimer := False, loopState := Closing \<rparr>"

text \<open>The rest of \<open>finally\<close> and of the round: the reset, and the back-off unless the worker was stopped.\<close>

definition backoffDelay :: "nat \<Rightarrow> int" where
  "backoffDelay attempt = min 60000 (1000 * 2 ^ attempt)"

definition leaveFinally :: "subWorker \<Rightarrow> subWorker" where
  "leaveFinally s =
    (let s' = s\<lparr> connected := False, prevAccounts := [], prevLedgerSubscribed := False, prevTransactionsSubscribed := False \<rparr> in
     if stopped s then s'\<lparr> loopState := Finished \<rparr>
     else s'\<lparr> loopState := Sleeping (backoffDelay (reconnectAttempt s)), reconnectAttempt := reconnectAttempt s + 1 \<rparr>)"

text \<open>A synchronization throws: the loop catches it when it awaits it, otherwise nobody does.\<close>

definition syncThrows :: "int \<Rightarrow> syncRun \<Rightarrow> subWorker \<Rightarrow> subWorker" where
  "syncThrows now y s = (if sy_first y then enterFinally now s else s\<lparr> processEnded := True \<rparr>)"

text \<open>A synchronization returns: after the first one the loop starts the timer and waits.\<close>

definition syncReturns :: "syncRun \<Rightarrow> subWorker \<Rightarrow> subWorker" where
  "syncReturns y s = (if sy_first y then s\<lparr> refreshTimer := True, loopState := Waiting \<rparr> else s)"

text \<open>The start of a synchronization for the current client, up to the \<open>await\<close> of the repository.\<close>

definition syncStarts :: "bool \<Rightarrow> subWorker \<Rightarrow> subWorker" where
  "syncStarts first s =
    (let y = \<lparr> sy_client = clientNo s, sy_first = first, sy_stage = Listing \<rparr> in
     if stopped s \<or> \<not> connected s then syncReturns y s else s\<lparr> syncs := syncs s @ [y] \<rparr>)"

text \<open>Sending a request: the synchronization is suspended, or throws when its client is not connected.\<close>

definition sendsRequest :: "int \<Rightarrow> syncRun \<Rightarrow> syncStage \<Rightarrow> subWorker \<Rightarrow> subWorker" where
  "sendsRequest now y stage s =
    (if sy_client y = clientNo s \<and> connected s then s\<lparr> syncs := syncs s @ [y\<lparr> sy_stage := stage \<rparr>] \<rparr>
     else syncThrows now y s)"

text \<open>The assignments and the subscribe request, which follow the \<open>unsubscribe\<close> block.\<close>

definition subscribes :: "subscribeOpts \<Rightarrow> int \<Rightarrow> syncRun \<Rightarrow> string list \<Rightarrow> subWorker \<Rightarrow> subWorker" where
  "subscribes opts now y accounts s = sendsRequest now y (Subscribing accounts)
     (s\<lparr> prevAccounts := accounts, prevLedgerSubscribed := True, prevTransactionsSubscribed := so_transactionsStream opts \<rparr>)"

text \<open>The repository answered with the accounts.\<close>

definition listedAccounts :: "subscribeOpts \<Rightarrow> int \<Rightarrow> syncRun \<Rightarrow> string list \<Rightarrow> subWorker \<Rightarrow> subWorker" where
  "listedAccounts opts now y accounts s =
    (if accounts = prevAccounts s \<and> prevLedgerSubscribed s \<and> prevTransactionsSubscribed s = so_transactionsStream opts
     then syncReturns y s
     else if prevAccounts s \<noteq> [] \<or> prevLedgerSubscribed s \<or> prevTransactionsSubscribed s
     then sendsRequest now y (Unsubscribing accounts (prevAccounts s)
       ((if prevLedgerSubscribed s then [''ledger''] else []) @ (if prevTransactionsSubscribed s then [''transactions''] else []))) s
     else subscribes opts now y accounts s)"

text \<open>Rippled answered the request that the synchronization waits for. A request that was carried out but whose answer did not come in
  time counts as rejected: what it changed goes with the connection or with the process.\<close>

definition answeredRequest :: "subscribeOpts \<Rightarrow> int \<Rightarrow> syncRun \<Rightarrow> bool \<Rightarrow> subWorker \<Rightarrow> subWorker option" where
  "answeredRequest opts now y ok s =
    (case sy_stage y of
       Listing \<Rightarrow> None
     | Unsubscribing accounts oldAccounts oldStreams \<Rightarrow> Some
        (if ok then subscribes opts now y accounts
           (s\<lparr> srvAccounts := filter (\<lambda>a. a \<notin> set oldAccounts) (srvAccounts s),
               srvStreams := filter (\<lambda>t. t \<notin> set oldStreams) (srvStreams s) \<rparr>)
         else syncThrows now y s)
     | Subscribing accounts \<Rightarrow> Some
        (if ok then syncReturns y
           (s\<lparr> srvAccounts := srvAccounts s @ accounts, srvStreams := srvStreams s @ ledgerStreams opts,
               reported := setXrplSubscribeSyncSnapshot (length accounts) True (reported s) \<rparr>)
         else syncThrows now y s))"

text \<open>The connection ends: rippled forgets its subscriptions and the requests in flight are rejected.\<close>

definition dropConnection :: "int \<Rightarrow> subWorker \<Rightarrow> subWorker" where
  "dropConnection now s =
    (let waits = filter (\<lambda>y. sy_stage y \<noteq> Listing) (syncs s);
         s' = s\<lparr> connected := False, srvAccounts := [], srvStreams := [], syncs := filter (\<lambda>y. sy_stage y = Listing) (syncs s) \<rparr> in
     if list_ex (\<lambda>y. \<not> sy_first y) waits then s'\<lparr> processEnded := True \<rparr>
     else if waits \<noteq> [] then enterFinally now s'
     else s')"

datatype subEvent =
    ConnectAnswer bool
  | TimerFires
  | ListAnswer nat "string list option"
  | RequestAnswer nat bool
  | ConnectionLost
  | DisconnectAnswer
  | SleepEnds
  | Shutdown

definition without :: "nat \<Rightarrow> 'a list \<Rightarrow> 'a list" where
  "without k xs = take k xs @ drop (Suc k) xs"

text \<open>One step of the worker: none when the event cannot happen in the state.\<close>

definition subStep :: "subscribeOpts \<Rightarrow> int \<Rightarrow> subEvent \<Rightarrow> subWorker \<Rightarrow> subWorker option" where
  "subStep opts now ev s =
    (if processEnded s then None
     else case ev of
       ConnectAnswer ok \<Rightarrow>
         if loopState s \<noteq> Connecting then None
         else Some (if ok then syncStarts True (s\<lparr> connected := True, srvAccounts := [], srvStreams := [], reconnectAttempt := 0,
             reported := markXrplSubscribeConnected now (reported s), loopState := FirstSync \<rparr>)
           else enterFinally now s)
     | TimerFires \<Rightarrow> if refreshTimer s then Some (syncStarts False s) else None
     | ListAnswer k r \<Rightarrow>
         if length (syncs s) \<le> k \<or> sy_stage (syncs s ! k) \<noteq> Listing then None
         else (let y = syncs s ! k; s' = s\<lparr> syncs := without k (syncs s) \<rparr> in
           Some (case r of None \<Rightarrow> syncThrows now y s' | Some accounts \<Rightarrow> listedAccounts opts now y accounts s'))
     | RequestAnswer k ok \<Rightarrow>
         if length (syncs s) \<le> k then None
         else answeredRequest opts now (syncs s ! k) ok (s\<lparr> syncs := without k (syncs s) \<rparr>)
     | ConnectionLost \<Rightarrow>
         if \<not> connected s then None
         else Some (let s' = dropConnection now s in if loopState s = Waiting then enterFinally now s' else s')
     | DisconnectAnswer \<Rightarrow>
         if loopState s \<noteq> Closing then None
         else Some (leaveFinally (if connected s then dropConnection now s else s))
     | SleepEnds \<Rightarrow>
         (case loopState s of
            Sleeping _ \<Rightarrow> Some (if stopped s then s\<lparr> loopState := Finished \<rparr>
              else s\<lparr> loopState := Connecting, clientNo := clientNo s + 1 \<rparr>)
          | _ \<Rightarrow> None)
     | Shutdown \<Rightarrow> Some (s\<lparr> stopped := True, refreshTimer := False \<rparr>))"

text \<open>The states that the worker can be in, whatever its outside answers and whenever.\<close>

inductive worker_reach :: "subscribeOpts \<Rightarrow> subWorker \<Rightarrow> bool" for opts where
  start: "startXrplSubscribeWorker opts = Some s \<Longrightarrow> worker_reach opts s"
| step: "worker_reach opts s \<Longrightarrow> subStep opts now ev s = Some s' \<Longrightarrow> worker_reach opts s'"

section \<open>What the worker believes is subscribed\<close>

definition synced :: "subWorker \<Rightarrow> bool" where
  "synced s = (set (prevAccounts s) \<subseteq> set (srvAccounts s) \<and> (prevLedgerSubscribed s \<longrightarrow> ''ledger'' \<in> set (srvStreams s)) \<and>
     (prevTransactionsSubscribed s \<longrightarrow> ''transactions'' \<in> set (srvStreams s)))"

definition believes :: "subscribeOpts \<Rightarrow> subWorker \<Rightarrow> bool" where
  "believes opts s = (prevLedgerSubscribed s \<and> prevTransactionsSubscribed s = so_transactionsStream opts)"

definition cleared :: "subWorker \<Rightarrow> bool" where
  "cleared s = (prevAccounts s = [] \<and> \<not> prevLedgerSubscribed s \<and> \<not> prevTransactionsSubscribed s)"

text \<open>A synchronization in flight: requests wait on the current, open connection only; the ones that the timer of an earlier connection
  started belong to earlier clients; the one that the loop awaits starts with nothing subscribed.\<close>

definition flight_ok :: "subscribeOpts \<Rightarrow> subWorker \<Rightarrow> syncRun \<Rightarrow> bool" where
  "flight_ok opts s y =
    ((sy_stage y \<noteq> Listing \<longrightarrow> sy_client y = clientNo s \<and> connected s) \<and>
     (\<forall>a. sy_stage y = Subscribing a \<longrightarrow> believes opts s) \<and>
     sy_client y \<le> clientNo s \<and>
     (loopState s \<in> {Connecting, FirstSync} \<and> \<not> sy_first y \<longrightarrow> sy_client y < clientNo s) \<and>
     (sy_first y \<longrightarrow> loopState s = FirstSync \<and> (sy_stage y = Listing \<longrightarrow> cleared s)))"

definition flights_ok :: "subscribeOpts \<Rightarrow> subWorker \<Rightarrow> bool" where
  "flights_ok opts s = ((\<forall>y \<in> set (syncs s). flight_ok opts s y) \<and>
     length (filter sy_first (syncs s)) = (if loopState s = FirstSync then 1 else 0))"

definition loop_ok :: "subscribeOpts \<Rightarrow> subWorker \<Rightarrow> bool" where
  "loop_ok opts s =
    ((connected s \<longrightarrow> loopState s \<in> {FirstSync, Waiting, Closing}) \<and>
     (loopState s = Waiting \<longrightarrow> connected s \<and> (stopped s \<or> believes opts s)) \<and>
     (refreshTimer s \<longrightarrow> loopState s = Waiting) \<and>
     (prevTransactionsSubscribed s \<longrightarrow> so_transactionsStream opts) \<and>
     (loopState s \<notin> {FirstSync, Waiting, Closing} \<longrightarrow> cleared s))"

definition subs_ok :: "subWorker \<Rightarrow> bool" where
  "subs_ok s = (loopState s \<in> {FirstSync, Waiting} \<and> connected s \<longrightarrow>
     synced s \<or> (\<exists>y \<in> set (syncs s). sy_stage y = Subscribing (prevAccounts s)))"

definition sub_inv :: "subscribeOpts \<Rightarrow> subWorker \<Rightarrow> bool" where
  "sub_inv opts s = (processEnded s \<or> flights_ok opts s \<and> loop_ok opts s \<and> subs_ok s)"

lemmas sub_inv_defs = sub_inv_def flights_ok_def loop_ok_def subs_ok_def
lemmas view_defs = synced_def believes_def cleared_def

lemma views_syncs [simp]:
  "synced (s\<lparr> syncs := ys \<rparr>) = synced s" "believes opts (s\<lparr> syncs := ys \<rparr>) = believes opts s"
  "cleared (s\<lparr> syncs := ys \<rparr>) = cleared s" "flight_ok opts (s\<lparr> syncs := ys \<rparr>) y = flight_ok opts s y"
  "loop_ok opts (s\<lparr> syncs := ys \<rparr>) = loop_ok opts s"
  by (simp_all add: view_defs flight_ok_def loop_ok_def)

lemma without_split:
  assumes "k < length xs"
  shows "set xs = insert (xs ! k) (set (without k xs))" "mset xs = mset (xs ! k # without k xs)"
proof -
  have "xs = take k xs @ xs ! k # drop (Suc k) xs" using assms by (rule id_take_nth_drop)
  then have "set xs = set (take k xs @ xs ! k # drop (Suc k) xs)" "mset xs = mset (take k xs @ xs ! k # drop (Suc k) xs)"
    by simp_all
  then show "set xs = insert (xs ! k) (set (without k xs))" "mset xs = mset (xs ! k # without k xs)"
    by (simp_all add: without_def)
qed

lemma length_filter_mset: "mset xs = mset ys \<Longrightarrow> length (filter P xs) = length (filter P ys)"
  by (metis mset_filter size_mset)

text \<open>The invariant of a worker from which the synchronization that goes on has been taken out.\<close>

definition inv_core :: "subscribeOpts \<Rightarrow> syncRun \<Rightarrow> subWorker \<Rightarrow> bool" where
  "inv_core opts y s = (\<not> processEnded s \<and> flight_ok opts s y \<and> (\<forall>z \<in> set (syncs s). flight_ok opts s z) \<and>
     (\<forall>z \<in> set (syncs s). sy_first z \<longrightarrow> \<not> sy_first y) \<and>
     length (filter sy_first (syncs s)) = (if loopState s = FirstSync \<and> \<not> sy_first y then 1 else 0) \<and> loop_ok opts s)"

definition inv_but :: "subscribeOpts \<Rightarrow> syncRun \<Rightarrow> subWorker \<Rightarrow> bool" where
  "inv_but opts y s = (inv_core opts y s \<and>
     (loopState s \<in> {FirstSync, Waiting} \<and> connected s \<longrightarrow>
        synced s \<or> (\<exists>z \<in> set (y # syncs s). sy_stage z = Subscribing (prevAccounts s))))"

lemma inv_core_server [simp]: "inv_core opts y (s\<lparr> srvAccounts := as, srvStreams := ts \<rparr>) = inv_core opts y s"
  by (simp add: inv_core_def flight_ok_def loop_ok_def believes_def cleared_def)

lemma inv_but:
  assumes "sub_inv opts s" "\<not> processEnded s" "k < length (syncs s)"
  shows "inv_but opts (syncs s ! k) (s\<lparr> syncs := without k (syncs s) \<rparr>)"
proof -
  have n: "length (filter sy_first (syncs s)) = length (filter sy_first (syncs s ! k # without k (syncs s)))"
    by (rule length_filter_mset) (rule without_split(2) [OF assms(3)])
  have i: "flights_ok opts s" "loop_ok opts s" "subs_ok s" using assms(1,2) by (simp_all add: sub_inv_def)
  have f: "\<forall>z \<in> set (syncs s). flight_ok opts s z" using i(1) by (simp add: flights_ok_def)
  have one: "length (filter sy_first (syncs s ! k # without k (syncs s))) = (if loopState s = FirstSync then 1 else 0)"
    using i(1) n by (simp add: flights_ok_def)
  have "loopState s = FirstSync" if "sy_first (syncs s ! k)" using one that by (simp split: if_splits)
  then have c: "length (filter sy_first (without k (syncs s))) = (if loopState s = FirstSync \<and> \<not> sy_first (syncs s ! k) then 1 else 0)"
    using one by (simp split: if_splits)
  have "\<not> sy_first z" if "sy_first (syncs s ! k)" "z \<in> set (without k (syncs s))" for z
    using c that by (simp add: filter_empty_conv)
  then show ?thesis
    using assms(2) f c i(2,3) by (auto simp: inv_but_def inv_core_def subs_ok_def without_split(1) [OF assms(3)])
qed

lemma sub_inv_throws:
  assumes "inv_but opts y s"
  shows "sub_inv opts (syncThrows now y s)"
proof (cases "sy_first y")
  case True
  then have l: "loopState s = FirstSync" "filter sy_first (syncs s) = []"
    using assms by (auto simp: inv_but_def inv_core_def flight_ok_def)
  then have "flight_ok opts (enterFinally now s) z" if "z \<in> set (syncs s)" for z
    using assms that by (auto simp: inv_but_def inv_core_def flight_ok_def enterFinally_def view_defs filter_empty_conv)
  then show ?thesis
    using True l assms by (auto simp: sub_inv_defs syncThrows_def inv_but_def inv_core_def enterFinally_def view_defs)
qed (simp add: sub_inv_def syncThrows_def)

lemma sub_inv_returns:
  assumes "inv_but opts y s" "\<forall>a. sy_stage y \<noteq> Subscribing a"
    and "sy_first y \<Longrightarrow> connected s \<and> (stopped s \<or> believes opts s)"
  shows "sub_inv opts (syncReturns y s)"
proof (cases "sy_first y")
  case True
  let ?s = "s\<lparr> refreshTimer := True, loopState := Waiting \<rparr>"
  have l: "loopState s = FirstSync" "filter sy_first (syncs s) = []"
    using assms(1) True by (auto simp: inv_but_def inv_core_def flight_ok_def)
  then have "flight_ok opts ?s z" if "z \<in> set (syncs s)" for z
    using assms(1) that by (auto simp: inv_but_def inv_core_def flight_ok_def view_defs filter_empty_conv)
  moreover have "loop_ok opts ?s" using assms(1) assms(3) [OF True] by (auto simp: inv_but_def inv_core_def loop_ok_def view_defs)
  moreover have "subs_ok ?s" using assms(1,2) l by (auto simp: inv_but_def inv_core_def subs_ok_def synced_def)
  ultimately show ?thesis
    using True l by (simp add: sub_inv_def flights_ok_def syncReturns_def)
next
  case False
  then show ?thesis using assms(1,2) by (auto simp: sub_inv_defs syncReturns_def inv_but_def inv_core_def)
qed

lemma sub_inv_sends:
  assumes "inv_but opts y s" "\<forall>a. stage \<noteq> Subscribing a" "stage \<noteq> Listing" "\<forall>a. sy_stage y \<noteq> Subscribing a"
  shows "sub_inv opts (sendsRequest now y stage s)"
proof (cases "sy_client y = clientNo s \<and> connected s")
  case True
  have "flight_ok opts s (y\<lparr> sy_stage := stage \<rparr>)"
    using assms True by (auto simp: inv_but_def inv_core_def flight_ok_def)
  then show ?thesis
    using assms True by (auto simp: sub_inv_defs sendsRequest_def inv_but_def inv_core_def flight_ok_def)
next
  case False
  then show ?thesis using sub_inv_throws [OF assms(1)] by (auto simp: sendsRequest_def)
qed

lemma sub_inv_subscribes:
  assumes "inv_core opts y s"
  shows "sub_inv opts (subscribes opts now y accounts s)"
proof -
  let ?t = "s\<lparr> prevAccounts := accounts, prevLedgerSubscribed := True, prevTransactionsSubscribed := so_transactionsStream opts \<rparr>"
  let ?y = "y\<lparr> sy_stage := Subscribing accounts \<rparr>"
  show ?thesis
  proof (cases "sy_client y = clientNo s \<and> connected s")
    case True
    have l: "loopState s \<in> {FirstSync, Waiting, Closing}" using True assms by (auto simp: inv_core_def loop_ok_def)
    have "\<not> sy_first z" if z: "z \<in> set (syncs s)" for z
    proof
      assume f: "sy_first z"
      then have "loopState s = FirstSync" "\<not> sy_first y" using assms z by (auto simp: inv_core_def flight_ok_def)
      with assms True show False by (auto simp: inv_core_def flight_ok_def)
    qed
    then have "flight_ok opts ?t z" if "z \<in> set (syncs s)" for z
      using assms that by (auto simp: inv_core_def flight_ok_def believes_def)
    moreover have "flight_ok opts ?t ?y" using assms True by (auto simp: inv_core_def flight_ok_def believes_def)
    moreover have "loop_ok opts ?t" using assms l by (auto simp: inv_core_def loop_ok_def believes_def)
    moreover have "length (filter sy_first (syncs s @ [?y])) = (if loopState s = FirstSync then 1 else 0)"
      using assms by (auto simp: inv_core_def flight_ok_def)
    ultimately show ?thesis
      using True by (auto simp: sub_inv_def flights_ok_def subs_ok_def subscribes_def sendsRequest_def)
  next
    case False
    show ?thesis
    proof (cases "sy_first y")
      case first: True
      have none: "\<not> sy_first z" if "z \<in> set (syncs s)" for z using assms that first by (auto simp: inv_core_def)
      then have "flight_ok opts (enterFinally now ?t) z" if "z \<in> set (syncs s)" for z
        using assms that by (auto simp: inv_core_def flight_ok_def enterFinally_def believes_def)
      moreover have "loop_ok opts (enterFinally now ?t)"
        using assms by (auto simp: inv_core_def loop_ok_def enterFinally_def believes_def)
      moreover have "filter sy_first (syncs s) = []" using none by (simp add: filter_empty_conv)
      ultimately show ?thesis
        using False first by (auto simp: sub_inv_def flights_ok_def subs_ok_def subscribes_def sendsRequest_def syncThrows_def enterFinally_def)
    next
      case later: False
      then show ?thesis using False by (auto simp: sub_inv_def subscribes_def sendsRequest_def syncThrows_def)
    qed
  qed
qed

lemma inv_butD: "inv_but opts y s \<Longrightarrow> inv_core opts y s" by (simp add: inv_but_def)

lemma sub_inv_listed:
  assumes "inv_but opts y s" "sy_stage y = Listing"
  shows "sub_inv opts (listedAccounts opts now y accounts s)"
proof (cases "accounts = prevAccounts s \<and> prevLedgerSubscribed s \<and> prevTransactionsSubscribed s = so_transactionsStream opts")
  case True
  then have "\<not> sy_first y" using assms by (auto simp: inv_but_def inv_core_def flight_ok_def cleared_def)
  with sub_inv_returns [OF assms(1)] True assms(2) show ?thesis by (simp add: listedAccounts_def)
next
  case False
  with sub_inv_sends [OF assms(1)] sub_inv_subscribes [OF inv_butD [OF assms(1)]] assms(2) show ?thesis
    by (auto simp: listedAccounts_def)
qed

lemma sub_inv_subscribed:
  assumes "inv_but opts y s" "sy_stage y = Subscribing accounts"
  shows "sub_inv opts (syncReturns y (s\<lparr> srvAccounts := srvAccounts s @ accounts, srvStreams := srvStreams s @ ledgerStreams opts,
    reported := r \<rparr>))" (is "sub_inv opts (syncReturns y ?s)")
proof -
  let ?y = "y\<lparr> sy_stage := Unsubscribing [] [] [] \<rparr>"
  have b: "believes opts s" "connected s" using assms by (auto simp: inv_but_def inv_core_def flight_ok_def)
  have "synced ?s \<or> (\<exists>z \<in> set (syncs s). sy_stage z = Subscribing (prevAccounts s))" if "loopState s \<in> {FirstSync, Waiting}"
    using assms b that by (auto simp: inv_but_def inv_core_def synced_def believes_def ledgerStreams_def)
  moreover have "inv_core opts ?y ?s"
  proof -
    have "flight_ok opts ?s z = flight_ok opts s z" for z by (simp add: flight_ok_def view_defs)
    moreover have "flight_ok opts s ?y" using assms by (auto simp: inv_but_def inv_core_def flight_ok_def)
    moreover have "loop_ok opts ?s = loop_ok opts s" by (simp add: loop_ok_def view_defs)
    ultimately show ?thesis using assms(1) by (simp add: inv_but_def inv_core_def)
  qed
  ultimately have "inv_but opts ?y ?s" by (simp add: inv_but_def)
  then have "sub_inv opts (syncReturns ?y ?s)"
    using b by (intro sub_inv_returns) (auto simp: view_defs)
  then show ?thesis by (simp add: syncReturns_def)
qed

text \<open>An accepted \<open>unsubscribe\<close> may take away what another synchronization subscribed; the assignments that follow make up for it.\<close>

lemma sub_inv_answered:
  assumes "inv_but opts y s" "answeredRequest opts now y ok s = Some s'"
  shows "sub_inv opts s'"
proof (cases "sy_stage y")
  case (Unsubscribing accounts oldAccounts oldStreams)
  with assms(2) sub_inv_throws [OF assms(1)] inv_butD [OF assms(1)] show ?thesis
    by (auto simp: answeredRequest_def intro!: sub_inv_subscribes split: if_splits)
next
  case (Subscribing accounts)
  with assms(2) sub_inv_throws [OF assms(1)] sub_inv_subscribed [OF assms(1)] show ?thesis
    by (auto simp: answeredRequest_def split: if_splits)
qed (use assms(2) in \<open>simp add: answeredRequest_def\<close>)

lemma sub_inv_connect:
  assumes "sub_inv opts s" "\<not> processEnded s" "loopState s = Connecting"
  shows "sub_inv opts (syncStarts True (s\<lparr> connected := True, srvAccounts := [], srvStreams := [], reconnectAttempt := 0,
    reported := r, loopState := FirstSync \<rparr>))"
proof -
  have f: "sy_stage y = Listing \<and> \<not> sy_first y \<and> sy_client y < clientNo s" if "y \<in> set (syncs s)" for y
    using assms that by (auto simp: sub_inv_defs flight_ok_def)
  then have "filter sy_first (syncs s) = []" by (simp add: filter_empty_conv)
  moreover have "cleared s" "\<not> refreshTimer s" using assms by (auto simp: sub_inv_def loop_ok_def)
  ultimately show ?thesis
    using assms(2) f
    by (auto simp: sub_inv_defs flight_ok_def view_defs syncStarts_def syncReturns_def Let_def less_imp_le_nat)
qed

lemma sub_inv_timer:
  assumes "sub_inv opts s" "\<not> processEnded s" "refreshTimer s"
  shows "sub_inv opts (syncStarts False s)"
proof -
  let ?y = "\<lparr> sy_client = clientNo s, sy_first = False, sy_stage = Listing \<rparr>"
  have "loopState s = Waiting" using assms by (auto simp: sub_inv_def loop_ok_def)
  then have "flight_ok opts s ?y" by (simp add: flight_ok_def)
  with assms show ?thesis by (auto simp: sub_inv_defs syncStarts_def syncReturns_def Let_def)
qed

text \<open>Only listings are in flight when a connection is gone and the process goes on.\<close>

lemma drop_flights:
  assumes "sub_inv opts s" "\<not> processEnded s" "\<not> processEnded (dropConnection now s)" "y \<in> set (syncs s)"
  shows "sy_stage y = Listing \<or> sy_first y \<and> loopState s = FirstSync"
  using assms by (auto simp: sub_inv_defs flight_ok_def dropConnection_def Let_def list_ex_iff split: if_splits)

lemma sub_inv_drop:
  assumes "sub_inv opts s" "\<not> processEnded s" "loopState s \<noteq> Waiting"
  shows "sub_inv opts (dropConnection now s)"
proof (cases "processEnded (dropConnection now s)")
  case False
  note fl = drop_flights [OF assms(1,2) False]
  have i: "flights_ok opts s" "loop_ok opts s" using assms(1,2) by (simp_all add: sub_inv_def)
  have l: "flight_ok opts s y" if "y \<in> set (syncs s)" for y using i(1) that by (simp add: flights_ok_def)
  let ?s = "s\<lparr> connected := False, srvAccounts := [], srvStreams := [], syncs := filter (\<lambda>y. sy_stage y = Listing) (syncs s) \<rparr>"
  show ?thesis
  proof (cases "filter (\<lambda>y. sy_stage y \<noteq> Listing) (syncs s) = []")
    case True
    then have all: "filter (\<lambda>y. sy_stage y = Listing) (syncs s) = syncs s" by (simp add: filter_empty_conv filter_id_conv)
    have "flight_ok opts ?s y" if "y \<in> set (syncs s)" for y
      using l [OF that] True that by (auto simp: flight_ok_def view_defs filter_empty_conv)
    moreover have "loop_ok opts ?s" using i(2) assms(3) by (auto simp: loop_ok_def view_defs)
    ultimately have "sub_inv opts ?s" using i(1) by (simp add: sub_inv_def flights_ok_def subs_ok_def all)
    with True all show ?thesis by (simp add: dropConnection_def Let_def)
  next
    case False
    then obtain y where y: "y \<in> set (syncs s)" "sy_stage y \<noteq> Listing" by (auto simp: filter_empty_conv)
    then have F: "sy_first y" "loopState s = FirstSync" using fl by auto
    have one: "length (filter sy_first (syncs s)) = 1" using i(1) F(2) by (simp add: flights_ok_def)
    then obtain x where x: "filter sy_first (syncs s) = [x]" by (auto simp: length_Suc_conv)
    have "y \<in> set (filter sy_first (syncs s))" using y(1) F(1) by simp
    then have xy: "filter sy_first (syncs s) = [y]" using x by simp
    have none: "\<not> sy_first z" if "z \<in> set (syncs s)" "sy_stage z = Listing" for z
    proof
      assume "sy_first z"
      then have "z \<in> set (filter sy_first (syncs s))" using that(1) by simp
      then show False using xy y(2) that(2) by simp
    qed
    have "flight_ok opts (enterFinally now ?s) z" if "z \<in> set (syncs s)" "sy_stage z = Listing" for z
      using l [OF that(1)] none [OF that] that(2) by (auto simp: flight_ok_def enterFinally_def)
    moreover have "loop_ok opts (enterFinally now ?s)" using i(2) by (auto simp: loop_ok_def enterFinally_def)
    moreover have "filter (\<lambda>z. sy_stage z = Listing \<and> sy_first z) (syncs s) = []" using none by (auto simp: filter_empty_conv)
    ultimately have "sub_inv opts (enterFinally now ?s)"
      by (simp add: sub_inv_def flights_ok_def subs_ok_def enterFinally_def conj_commute)
    then show ?thesis using False \<open>\<not> processEnded (dropConnection now s)\<close> by (auto simp: dropConnection_def Let_def split: if_splits)
  qed
qed (simp add: sub_inv_def)

lemma sub_inv_lost:
  assumes "sub_inv opts s" "\<not> processEnded s" "loopState s = Waiting"
  shows "sub_inv opts (enterFinally now (dropConnection now s))"
proof (cases "processEnded (dropConnection now s)")
  case False
  have fl: "sy_stage y = Listing" if "y \<in> set (syncs s)" for y
    using drop_flights [OF assms(1,2) False that] assms(3) by simp
  then have d: "dropConnection now s = s\<lparr> connected := False, srvAccounts := [], srvStreams := [] \<rparr>"
    by (simp add: dropConnection_def Let_def filter_empty_conv filter_id_conv)
  have i: "flights_ok opts s" "loop_ok opts s" using assms(1,2) by (simp_all add: sub_inv_def)
  then have none: "filter sy_first (syncs s) = []" using assms(3) by (simp add: flights_ok_def)
  have "flight_ok opts (enterFinally now (s\<lparr> connected := False, srvAccounts := [], srvStreams := [] \<rparr>)) y" if "y \<in> set (syncs s)" for y
    using i(1) that fl [OF that] none by (auto simp: flights_ok_def flight_ok_def enterFinally_def filter_empty_conv)
  moreover have "loop_ok opts (enterFinally now (s\<lparr> connected := False, srvAccounts := [], srvStreams := [] \<rparr>))"
    using i(2) by (auto simp: loop_ok_def enterFinally_def)
  ultimately show ?thesis
    using none by (simp add: d sub_inv_def flights_ok_def subs_ok_def) (simp add: enterFinally_def)
qed (simp add: sub_inv_def enterFinally_def)

lemma sub_inv_leave:
  assumes "sub_inv opts s" "\<not> processEnded s" "loopState s = Closing" "\<not> connected s"
  shows "sub_inv opts (leaveFinally s)"
proof -
  have i: "flights_ok opts s" "loop_ok opts s" using assms(1,2) by (simp_all add: sub_inv_def)
  have "flight_ok opts (leaveFinally s) y" if "y \<in> set (syncs s)" for y
    using i(1) that assms(3,4) by (auto simp: flights_ok_def flight_ok_def leaveFinally_def Let_def view_defs)
  moreover have "loop_ok opts (leaveFinally s)"
    using i(2) assms(3) by (auto simp: loop_ok_def leaveFinally_def Let_def view_defs)
  ultimately show ?thesis
    using i(1) assms(3) by (auto simp: sub_inv_def flights_ok_def subs_ok_def leaveFinally_def Let_def)
qed

lemma sub_inv_disconnected:
  assumes "sub_inv opts s" "\<not> processEnded s" "loopState s = Closing"
  shows "sub_inv opts (leaveFinally (if connected s then dropConnection now s else s))"
proof (cases "connected s \<and> processEnded (dropConnection now s)")
  case True
  then show ?thesis by (simp add: sub_inv_def leaveFinally_def Let_def)
next
  case c: False
  show ?thesis
  proof (cases "connected s")
    case True
    with c have p: "\<not> processEnded (dropConnection now s)" by simp
    have "sub_inv opts (dropConnection now s)" using assms by (intro sub_inv_drop) simp_all
    moreover have "sy_stage y = Listing" if "y \<in> set (syncs s)" for y
      using drop_flights [OF assms(1,2) p that] assms(3) by simp
    then have "loopState (dropConnection now s) = Closing" "\<not> connected (dropConnection now s)"
      using assms(3) by (simp_all add: dropConnection_def Let_def filter_empty_conv)
    ultimately show ?thesis using True p by (simp add: sub_inv_leave)
  qed (use assms in \<open>simp add: sub_inv_leave\<close>)
qed

lemma sub_inv_woken:
  assumes "sub_inv opts s" "\<not> processEnded s" "loopState s = Sleeping d"
  shows "sub_inv opts (s\<lparr> loopState := Finished \<rparr>)" "sub_inv opts (s\<lparr> loopState := Connecting, clientNo := clientNo s + 1 \<rparr>)"
proof -
  have i: "flights_ok opts s" "loop_ok opts s" using assms(1,2) by (simp_all add: sub_inv_def)
  have c: "\<not> connected s" using i(2) assms(3) by (auto simp: loop_ok_def)
  have "flight_ok opts (s\<lparr> loopState := Finished \<rparr>) y"
      "flight_ok opts (s\<lparr> loopState := Connecting, clientNo := clientNo s + 1 \<rparr>) y" if "y \<in> set (syncs s)" for y
    using i(1) that assms(3) c by (auto simp: flights_ok_def flight_ok_def)
  moreover have "loop_ok opts (s\<lparr> loopState := Finished \<rparr>)" "loop_ok opts (s\<lparr> loopState := Connecting, clientNo := clientNo s + 1 \<rparr>)"
    using i(2) assms(3) by (auto simp: loop_ok_def view_defs)
  ultimately show "sub_inv opts (s\<lparr> loopState := Finished \<rparr>)" "sub_inv opts (s\<lparr> loopState := Connecting, clientNo := clientNo s + 1 \<rparr>)"
    using i(1) assms(3) by (simp_all add: sub_inv_def flights_ok_def subs_ok_def)
qed

lemma sub_inv_refused:
  assumes "sub_inv opts s" "\<not> processEnded s" "loopState s = Connecting"
  shows "sub_inv opts (enterFinally now s)"
proof -
  have i: "flights_ok opts s" "loop_ok opts s" using assms(1,2) by (simp_all add: sub_inv_def)
  have "flight_ok opts (enterFinally now s) y" if "y \<in> set (syncs s)" for y
    using i(1) that assms(3) by (auto simp: flights_ok_def flight_ok_def enterFinally_def view_defs)
  moreover have "loop_ok opts (enterFinally now s)" using i(2) assms(3) by (auto simp: loop_ok_def enterFinally_def)
  ultimately show ?thesis
    using i(1) assms(3) by (simp add: sub_inv_def flights_ok_def subs_ok_def enterFinally_def)
qed

lemma sub_inv_shutdown:
  assumes "sub_inv opts s"
  shows "sub_inv opts (s\<lparr> stopped := True, refreshTimer := False \<rparr>)"
proof -
  let ?s = "s\<lparr> stopped := True, refreshTimer := False \<rparr>"
  have "flight_ok opts ?s y = flight_ok opts s y" for y by (simp add: flight_ok_def view_defs)
  then have "flights_ok opts ?s = flights_ok opts s" by (simp add: flights_ok_def)
  moreover have "subs_ok ?s = subs_ok s" by (simp add: subs_ok_def synced_def)
  moreover have "loop_ok opts s \<Longrightarrow> loop_ok opts ?s" by (auto simp: loop_ok_def view_defs)
  ultimately show ?thesis using assms by (auto simp: sub_inv_def)
qed

lemma sub_inv_step:
  assumes "sub_inv opts s" "subStep opts now ev s = Some s'"
  shows "sub_inv opts s'"
proof -
  have p: "\<not> processEnded s" using assms(2) by (simp add: subStep_def split: if_splits)
  note step = assms(2) [unfolded subStep_def, simplified p, simplified]
  show ?thesis
  proof (cases ev)
    case (ConnectAnswer ok)
    with step p sub_inv_connect [OF assms(1) p] sub_inv_refused [OF assms(1) p] show ?thesis by (auto split: if_splits)
  next
    case TimerFires
    with step sub_inv_timer [OF assms(1) p] show ?thesis by (auto split: if_splits)
  next
    case (ListAnswer k r)
    with step have k: "k < length (syncs s)" "sy_stage (syncs s ! k) = Listing" by (auto split: if_splits)
    note b = inv_but [OF assms(1) p k(1)]
    from ListAnswer step k sub_inv_throws [OF b] sub_inv_listed [OF b] show ?thesis by (auto simp: Let_def split: option.splits)
  next
    case (RequestAnswer k ok)
    with step have k: "k < length (syncs s)" by (auto split: if_splits)
    from RequestAnswer step k sub_inv_answered [OF inv_but [OF assms(1) p k]] show ?thesis by simp
  next
    case ConnectionLost
    with step sub_inv_lost [OF assms(1) p] sub_inv_drop [OF assms(1) p] show ?thesis by (auto simp: Let_def split: if_splits)
  next
    case DisconnectAnswer
    with step have "loopState s = Closing" by (auto split: if_splits)
    with DisconnectAnswer step sub_inv_disconnected [OF assms(1) p] show ?thesis by auto
  next
    case SleepEnds
    with step sub_inv_woken [OF assms(1) p] show ?thesis by (auto split: loopAt.splits if_splits)
  next
    case Shutdown
    with step sub_inv_shutdown [OF assms(1)] show ?thesis by auto
  qed
qed

lemma worker_reach_inv: "worker_reach opts s \<Longrightarrow> sub_inv opts s"
proof (induction rule: worker_reach.induct)
  case (start s)
  then show ?case by (auto simp: startXrplSubscribeWorker_def sub_inv_defs view_defs split: if_splits)
next
  case (step s now ev s')
  then show ?case by (blast intro: sub_inv_step)
qed

section \<open>Synchronizations that do not overlap\<close>

text \<open>When no synchronization starts while another one is suspended, rippled has nothing more than the worker believes either.\<close>

inductive calm_reach :: "subscribeOpts \<Rightarrow> subWorker \<Rightarrow> bool" for opts where
  start: "startXrplSubscribeWorker opts = Some s \<Longrightarrow> calm_reach opts s"
| step: "calm_reach opts s \<Longrightarrow> ev \<in> {TimerFires, ConnectAnswer True} \<longrightarrow> syncs s = [] \<Longrightarrow> subStep opts now ev s = Some s'
    \<Longrightarrow> calm_reach opts s'"

definition prevStreams :: "subWorker \<Rightarrow> string list" where
  "prevStreams s = (if prevLedgerSubscribed s then [''ledger''] else []) @ (if prevTransactionsSubscribed s then [''transactions''] else [])"

definition exact :: "subWorker \<Rightarrow> bool" where
  "exact s = (set (srvAccounts s) = set (prevAccounts s) \<and> set (srvStreams s) = set (prevStreams s))"

fun stage_ok :: "subscribeOpts \<Rightarrow> subWorker \<Rightarrow> syncStage \<Rightarrow> bool" where
  "stage_ok opts s Listing = exact s"
| "stage_ok opts s (Unsubscribing a oldAccounts oldStreams) =
    (exact s \<and> oldAccounts = prevAccounts s \<and> oldStreams = prevStreams s)"
| "stage_ok opts s (Subscribing a) = (a = prevAccounts s \<and> believes opts s \<and> srvAccounts s = [] \<and> srvStreams s = [])"

definition calm_inv :: "subscribeOpts \<Rightarrow> subWorker \<Rightarrow> bool" where
  "calm_inv opts s = (processEnded s \<or> length (syncs s) \<le> 1 \<and>
     (connected s \<and> loopState s \<in> {FirstSync, Waiting} \<longrightarrow>
        (case syncs s of [] \<Rightarrow> exact s | y # _ \<Rightarrow> stage_ok opts s (sy_stage y))))"

lemma calm_reach_reach: "calm_reach opts s \<Longrightarrow> worker_reach opts s"
  by (induction rule: calm_reach.induct) (blast intro: worker_reach.intros)+

lemma exact_syncs [simp]: "exact (s\<lparr> syncs := ys \<rparr>) = exact s" "exact (s\<lparr> reported := r \<rparr>) = exact s"
  "exact (s\<lparr> stopped := b \<rparr>) = exact s" "exact (s\<lparr> refreshTimer := b \<rparr>) = exact s" "exact (s\<lparr> loopState := l \<rparr>) = exact s"
  by (simp_all add: exact_def prevStreams_def)

lemma one_sync: "length xs \<le> 1 \<Longrightarrow> k < length xs \<Longrightarrow> \<exists>y. xs = [y] \<and> k = 0 \<and> without k xs = []"
  by (cases xs) (auto simp: without_def)

lemma stage_ok_syncs [simp]: "stage_ok opts (s\<lparr> syncs := ys \<rparr>) st = stage_ok opts s st"
  by (cases st) (simp_all add: prevStreams_def)

lemma calm_throws: "syncs s = [] \<Longrightarrow> calm_inv opts (syncThrows now y s)"
  by (simp add: calm_inv_def syncThrows_def enterFinally_def)

lemma calm_returns:
  "syncs s = [] \<Longrightarrow> sy_first y \<longrightarrow> loopState s = FirstSync \<Longrightarrow> connected s \<and> loopState s \<in> {FirstSync, Waiting} \<longrightarrow> exact s \<Longrightarrow>
    calm_inv opts (syncReturns y s)"
  by (simp add: calm_inv_def syncReturns_def)

lemma calm_sends:
  "syncs s = [] \<Longrightarrow> connected s \<and> loopState s \<in> {FirstSync, Waiting} \<longrightarrow> stage_ok opts s stage \<Longrightarrow> calm_inv opts (sendsRequest now y stage s)"
  by (simp add: sendsRequest_def calm_throws) (simp add: calm_inv_def)

lemma calm_subscribes:
  "syncs s = [] \<Longrightarrow> connected s \<and> loopState s \<in> {FirstSync, Waiting} \<longrightarrow> srvAccounts s = [] \<and> srvStreams s = [] \<Longrightarrow>
    calm_inv opts (subscribes opts now y accounts s)"
  unfolding subscribes_def by (rule calm_sends) (simp_all add: believes_def)

lemma calm_listed:
  assumes "syncs s = []" "sy_first y \<longrightarrow> loopState s = FirstSync" "connected s \<and> loopState s \<in> {FirstSync, Waiting} \<longrightarrow> exact s"
  shows "calm_inv opts (listedAccounts opts now y accounts s)"
proof -
  have "calm_inv opts (syncReturns y s)" by (rule calm_returns [OF assms])
  moreover have "calm_inv opts (sendsRequest now y (Unsubscribing accounts (prevAccounts s) (prevStreams s)) s)"
    using assms(1,3) by (intro calm_sends) simp_all
  moreover have "calm_inv opts (subscribes opts now y accounts s)"
    if "prevAccounts s = []" "\<not> prevLedgerSubscribed s" "\<not> prevTransactionsSubscribed s"
    using assms(1,3) that by (intro calm_subscribes) (auto simp: exact_def prevStreams_def)
  ultimately show ?thesis by (simp add: listedAccounts_def prevStreams_def)
qed

lemma calm_answered:
  assumes "syncs s = []" "sy_first y \<longrightarrow> loopState s = FirstSync"
    "connected s \<and> loopState s \<in> {FirstSync, Waiting} \<longrightarrow> stage_ok opts s (sy_stage y)"
    "answeredRequest opts now y ok s = Some s'"
  shows "calm_inv opts s'"
proof (cases "sy_stage y")
  case (Unsubscribing a b c)
  have "calm_inv opts (subscribes opts now y a (s\<lparr> srvAccounts := filter (\<lambda>x. x \<notin> set b) (srvAccounts s),
      srvStreams := filter (\<lambda>t. t \<notin> set c) (srvStreams s) \<rparr>))"
    using assms(1,3) Unsubscribing by (intro calm_subscribes) (auto simp: exact_def filter_empty_conv)
  with assms(4) calm_throws [OF assms(1)] Unsubscribing show ?thesis by (auto simp: answeredRequest_def split: if_splits)
next
  case (Subscribing a)
  let ?s = "s\<lparr> srvAccounts := srvAccounts s @ a, srvStreams := srvStreams s @ ledgerStreams opts,
    reported := setXrplSubscribeSyncSnapshot (length a) True (reported s) \<rparr>"
  have "exact ?s" if "connected s" "loopState s \<in> {FirstSync, Waiting}"
    using assms(3) that Subscribing by (auto simp: exact_def prevStreams_def ledgerStreams_def believes_def)
  then have "calm_inv opts (syncReturns y ?s)" using assms(1,2) by (intro calm_returns) simp_all
  with assms(4) calm_throws [OF assms(1)] Subscribing show ?thesis by (auto simp: answeredRequest_def split: if_splits)
qed (use assms(4) in \<open>simp add: answeredRequest_def\<close>)

lemma syncs_drop [simp]: "syncs (dropConnection now s) = filter (\<lambda>y. sy_stage y = Listing) (syncs s)"
  by (simp add: dropConnection_def enterFinally_def Let_def)

lemma calm_leave: "length (syncs s) \<le> 1 \<Longrightarrow> calm_inv opts (leaveFinally s)"
  by (simp add: calm_inv_def leaveFinally_def Let_def)

lemma calm_step:
  assumes "calm_inv opts s" "sub_inv opts s" "ev \<in> {TimerFires, ConnectAnswer True} \<longrightarrow> syncs s = []" "subStep opts now ev s = Some s'"
  shows "calm_inv opts s'"
proof -
  have p: "\<not> processEnded s" using assms(4) by (simp add: subStep_def split: if_splits)
  note step = assms(4) [unfolded subStep_def, simplified p, simplified]
  have len: "length (syncs s) \<le> 1" using assms(1) p by (simp add: calm_inv_def)
  have lo: "loop_ok opts s" using assms(2) p by (simp add: sub_inv_def)
  have out: "sy_first (syncs s ! k) \<longrightarrow> loopState s = FirstSync"
      "connected s \<and> loopState s \<in> {FirstSync, Waiting} \<longrightarrow> stage_ok opts s (sy_stage (syncs s ! k))" "without k (syncs s) = []"
    if k: "k < length (syncs s)" for k
  proof -
    obtain y where y: "syncs s = [y]" "k = 0" using one_sync [OF len k] by blast
    have "flight_ok opts s y" using assms(2) p y by (simp add: sub_inv_def flights_ok_def)
    with y show "sy_first (syncs s ! k) \<longrightarrow> loopState s = FirstSync" by (simp add: flight_ok_def)
    show "connected s \<and> loopState s \<in> {FirstSync, Waiting} \<longrightarrow> stage_ok opts s (sy_stage (syncs s ! k))"
      using assms(1) p y by (simp add: calm_inv_def)
    show "without k (syncs s) = []" using one_sync [OF len k] by blast
  qed
  show ?thesis
  proof (cases ev)
    case (ConnectAnswer ok)
    have "cleared s" if "loopState s = Connecting" using lo that by (simp add: loop_ok_def)
    then show ?thesis using ConnectAnswer step assms(3) p len
      by (auto simp: calm_inv_def syncStarts_def syncReturns_def Let_def enterFinally_def exact_def prevStreams_def cleared_def
          split: if_splits)
  next
    case TimerFires
    with assms(1,3) p have "connected s \<and> loopState s \<in> {FirstSync, Waiting} \<longrightarrow> exact s" by (simp add: calm_inv_def)
    then show ?thesis using TimerFires step assms(3) p
      by (auto simp: calm_inv_def syncStarts_def syncReturns_def Let_def split: if_splits)
  next
    case (ListAnswer k r)
    with step have k: "k < length (syncs s)" "sy_stage (syncs s ! k) = Listing" by (auto split: if_splits)
    let ?s = "s\<lparr> syncs := without k (syncs s) \<rparr>"
    have s: "syncs ?s = []" using out(3) [OF k(1)] by simp
    have "calm_inv opts (listedAccounts opts now (syncs s ! k) a ?s)" for a
      using out [OF k(1)] k(2) by (intro calm_listed [OF s]) simp_all
    with calm_throws [OF s] ListAnswer step k show ?thesis by (auto simp: Let_def split: option.splits)
  next
    case (RequestAnswer k ok)
    with step have k: "k < length (syncs s)" by (auto split: if_splits)
    let ?s = "s\<lparr> syncs := without k (syncs s) \<rparr>"
    have s: "syncs ?s = []" using out(3) [OF k] by simp
    have "answeredRequest opts now (syncs s ! k) ok ?s = Some s'" using RequestAnswer step k by simp
    moreover have "sy_first (syncs s ! k) \<longrightarrow> loopState ?s = FirstSync" "connected ?s \<and> loopState ?s \<in> {FirstSync, Waiting} \<longrightarrow>
        stage_ok opts ?s (sy_stage (syncs s ! k))"
      using out(1,2) [OF k] by simp_all
    ultimately show ?thesis by (metis calm_answered [OF s])
  next
    case ConnectionLost
    have "length (filter (\<lambda>y. sy_stage y = Listing) (syncs s)) \<le> 1" using len length_filter_le le_trans by blast
    with ConnectionLost step show ?thesis
      by (auto simp: calm_inv_def dropConnection_def enterFinally_def Let_def split: if_splits)
  next
    case DisconnectAnswer
    have "length (syncs (if connected s then dropConnection now s else s)) \<le> 1"
      using len le_trans [OF length_filter_le len] by simp
    with DisconnectAnswer step show ?thesis by (auto intro: calm_leave split: if_splits)
  next
    case SleepEnds
    with step len show ?thesis by (auto simp: calm_inv_def split: loopAt.splits if_splits)
  next
    case Shutdown
    have "stage_ok opts (s\<lparr> stopped := True, refreshTimer := False \<rparr>) st = stage_ok opts s st" for st
      by (cases st) (simp_all add: prevStreams_def believes_def)
    then have "calm_inv opts (s\<lparr> stopped := True, refreshTimer := False \<rparr>) = calm_inv opts s"
      by (cases "syncs s") (simp_all add: calm_inv_def)
    with Shutdown step assms(1) show ?thesis by simp
  qed
qed

lemma calm_reach_inv: "calm_reach opts s \<Longrightarrow> calm_inv opts s"
proof (induction rule: calm_reach.induct)
  case (start s)
  then show ?case by (auto simp: startXrplSubscribeWorker_def calm_inv_def split: if_splits)
next
  case (step s ev now s')
  then show ?case using worker_reach_inv [OF calm_reach_reach] calm_step by blast
qed

section \<open>Properties\<close>


text \<open>Rounds of the loop in which the connection is refused; the last one ends in the sleep.\<close>

fun refusedRounds :: "subscribeOpts \<Rightarrow> int \<Rightarrow> nat \<Rightarrow> subWorker \<Rightarrow> subWorker option" where
  "refusedRounds opts now 0 s = Option.bind (subStep opts now (ConnectAnswer False) s) (subStep opts now DisconnectAnswer)"
| "refusedRounds opts now (Suc n) s =
    Option.bind (Option.bind (refusedRounds opts now 0 s) (subStep opts now SleepEnds)) (refusedRounds opts now n)"

lemma refused_round:
  assumes "\<not> processEnded s" "loopState s = Connecting" "\<not> stopped s" "\<not> connected s"
  shows "\<exists>t. refusedRounds opts now 0 s = Some t \<and> loopState t = Sleeping (backoffDelay (reconnectAttempt s)) \<and>
    reconnectAttempt t = Suc (reconnectAttempt s) \<and> \<not> processEnded t \<and> \<not> stopped t \<and> \<not> connected t"
  using assms by (simp add: subStep_def enterFinally_def leaveFinally_def Let_def)

lemma refused_rounds:
  assumes "\<not> processEnded s" "loopState s = Connecting" "\<not> stopped s" "\<not> connected s"
  shows "\<exists>t. refusedRounds opts now n s = Some t \<and> loopState t = Sleeping (backoffDelay (reconnectAttempt s + n))"
  using assms
proof (induction n arbitrary: s)
  case 0
  then show ?case using refused_round [OF 0] by (auto simp del: refusedRounds.simps)
next
  case (Suc n)
  obtain t where t: "refusedRounds opts now 0 s = Some t" "loopState t = Sleeping (backoffDelay (reconnectAttempt s))"
      "reconnectAttempt t = Suc (reconnectAttempt s)" "\<not> processEnded t" "\<not> stopped t" "\<not> connected t"
    using refused_round [OF Suc.prems] by blast
  let ?u = "t\<lparr> loopState := Connecting, clientNo := clientNo t + 1 \<rparr>"
  have "subStep opts now SleepEnds t = Some ?u" using t by (simp add: subStep_def)
  moreover have "\<exists>v. refusedRounds opts now n ?u = Some v \<and> loopState v = Sleeping (backoffDelay (reconnectAttempt ?u + n))"
    using t by (intro Suc.IH) simp_all
  ultimately show ?case using t(1,3) by (simp del: refusedRounds.simps(1))
qed

lemma backoffDelay_bounds: "1000 \<le> backoffDelay n" "backoffDelay n \<le> 60000" "n \<le> m \<Longrightarrow> backoffDelay n \<le> backoffDelay m"
proof -
  have "(1 :: int) \<le> 2 ^ n" by simp
  then show "1000 \<le> backoffDelay n" by (simp add: backoffDelay_def)
  assume "n \<le> m"
  then have "(2 :: int) ^ n \<le> 2 ^ m" by (intro power_increasing) simp_all
  then show "backoffDelay n \<le> backoffDelay m" by (auto simp: backoffDelay_def min_def intro: order_trans)
qed (simp add: backoffDelay_def)

definition attempts_ok :: "subWorker \<Rightarrow> bool" where
  "attempts_ok s = ((loopState s \<in> {FirstSync, Waiting} \<longrightarrow> reconnectAttempt s = 0) \<and>
     (\<forall>d. loopState s = Sleeping d \<longrightarrow> 0 < reconnectAttempt s \<and> d = backoffDelay (reconnectAttempt s - 1)))"

lemma attempts_step:
  assumes "attempts_ok s" "sub_inv opts s" "subStep opts now ev s = Some s'"
  shows "attempts_ok s'"
proof -
  have p: "\<not> processEnded s" using assms(3) by (simp add: subStep_def split: if_splits)
  have first: "loopState s = FirstSync" if "k < length (syncs s)" "sy_first (syncs s ! k)" for k
    using assms(2) p that by (auto simp: sub_inv_def flights_ok_def flight_ok_def)
  have ret: "attempts_ok (syncReturns y t)" if "attempts_ok t" "sy_first y \<longrightarrow> loopState t = FirstSync" for y t
    using that by (auto simp: attempts_ok_def syncReturns_def)
  have thr: "attempts_ok (syncThrows now y t)" if "attempts_ok t" for y t
    using that by (auto simp: attempts_ok_def syncThrows_def enterFinally_def)
  have snd: "attempts_ok (sendsRequest now y st t)" if "attempts_ok t" for y st t
    using that thr [OF that] by (auto simp: sendsRequest_def) (simp add: attempts_ok_def)
  have sub: "attempts_ok (subscribes opts now y a t)" if "attempts_ok t" for y a t
    unfolding subscribes_def using that by (intro snd) (simp add: attempts_ok_def)
  have lst: "attempts_ok (listedAccounts opts now y a t)" if "attempts_ok t" "sy_first y \<longrightarrow> loopState t = FirstSync" for y a t
    using ret [OF that] snd [OF that(1)] sub [OF that(1)] by (simp add: listedAccounts_def)
  have out: "attempts_ok (s\<lparr> syncs := ys \<rparr>)" "attempts_ok (s\<lparr> syncs := ys, srvAccounts := as, srvStreams := ts \<rparr>)"
      "attempts_ok (s\<lparr> syncs := ys, srvAccounts := as, srvStreams := ts, reported := r \<rparr>)" for ys as ts r
    using assms(1) by (simp_all add: attempts_ok_def)
  note step = assms(3) [unfolded subStep_def, simplified p, simplified]
  show ?thesis
  proof (cases ev)
    case (ListAnswer k r)
    with step first [of k] lst [OF out(1)] thr [OF out(1)] show ?thesis by (auto simp: Let_def split: if_splits option.splits)
  next
    case (RequestAnswer k ok)
    with step first [of k] sub [OF out(2)] thr [OF out(1)] ret [OF out(3)] show ?thesis
      by (auto simp: answeredRequest_def split: if_splits syncStage.splits)
  qed (use step assms(1) in \<open>auto simp: attempts_ok_def syncStarts_def syncReturns_def enterFinally_def leaveFinally_def
      dropConnection_def Let_def split: if_splits loopAt.splits\<close>)
qed

lemma worker_reach_attempts: "worker_reach opts s \<Longrightarrow> attempts_ok s"
proof (induction rule: worker_reach.induct)
  case (start s)
  then show ?case by (auto simp: startXrplSubscribeWorker_def attempts_ok_def split: if_splits)
next
  case (step s now ev s')
  then show ?case using worker_reach_inv attempts_step by blast
qed

text \<open>C36: the back-off. Whenever the worker sleeps it sleeps between one second and one minute, for the time of the attempts made since
  the last connection; the first sleep after a connection takes one second, and every further refused connection doubles it up to
  the minute. A worker that is not stopped never gives up: after any number of refused connections it sleeps and tries again.\<close>

theorem subscribe_backoff:
  assumes "worker_reach opts s"
  shows "(loopState s = Sleeping d \<longrightarrow> 1000 \<le> d \<and> d \<le> 60000 \<and> d = min 60000 (1000 * 2 ^ (reconnectAttempt s - 1))) \<and>
    (loopState s \<in> {FirstSync, Waiting} \<and> \<not> processEnded s \<longrightarrow> reconnectAttempt s = 0) \<and>
    (loopState s = Connecting \<and> \<not> stopped s \<and> \<not> processEnded s \<longrightarrow>
      (\<exists>t. refusedRounds opts now n s = Some t \<and> loopState t = Sleeping (min 60000 (1000 * 2 ^ (reconnectAttempt s + n)))))"
proof (intro conjI impI)
  show "\<exists>t. refusedRounds opts now n s = Some t \<and> loopState t = Sleeping (min 60000 (1000 * 2 ^ (reconnectAttempt s + n)))"
    if "loopState s = Connecting \<and> \<not> stopped s \<and> \<not> processEnded s"
  proof -
    have "\<not> connected s" using worker_reach_inv [OF assms] that by (auto simp: sub_inv_def loop_ok_def)
    with refused_rounds [of s opts now n] that show ?thesis by (simp add: backoffDelay_def)
  qed
  show "reconnectAttempt s = 0" if "loopState s \<in> {FirstSync, Waiting} \<and> \<not> processEnded s"
    using worker_reach_attempts [OF assms] that by (auto simp: attempts_ok_def)
qed (use worker_reach_attempts [OF assms] backoffDelay_bounds [of "reconnectAttempt s - 1"] in \<open>auto simp: attempts_ok_def backoffDelay_def\<close>)

text \<open>The failures that a synchronization may meet where it is suspended.\<close>

fun meetsFailure :: "nat \<Rightarrow> syncStage \<Rightarrow> subEvent \<Rightarrow> bool" where
  "meetsFailure k Listing ev = (ev = ListAnswer k None)"
| "meetsFailure k (Unsubscribing a b c) ev = (ev \<in> {RequestAnswer k False, ConnectionLost})"
| "meetsFailure k (Subscribing a) ev = (ev \<in> {RequestAnswer k False, ConnectionLost})"

lemma lost_request:
  assumes "flights_ok opts s" "\<not> processEnded s" "y \<in> set (syncs s)" "sy_stage y \<noteq> Listing"
  shows "\<exists>t. subStep opts now ConnectionLost s = Some t \<and>
    (if sy_first y then \<not> processEnded t \<and> loopState t = Closing else processEnded t)"
proof -
  have fl: "flight_ok opts s z" if "z \<in> set (syncs s)" for z using assms(1) that by (simp add: flights_ok_def)
  have c: "connected s" "sy_client y = clientNo s" using fl [OF assms(3)] assms(4) by (auto simp: flight_ok_def)
  show ?thesis
  proof (cases "sy_first y")
    case True
    then have F: "loopState s = FirstSync" using fl [OF assms(3)] by (simp add: flight_ok_def)
    have "sy_first z" if "z \<in> set (syncs s)" "sy_stage z \<noteq> Listing" for z
      using fl [OF that(1)] that(2) F by (auto simp: flight_ok_def)
    then have "\<not> list_ex (\<lambda>y. \<not> sy_first y) (filter (\<lambda>y. sy_stage y \<noteq> Listing) (syncs s))" by (auto simp: list_ex_iff)
    moreover have "filter (\<lambda>y. sy_stage y \<noteq> Listing) (syncs s) \<noteq> []" using assms(3,4) by (auto simp: filter_empty_conv)
    ultimately show ?thesis
      using True F c assms(2) by (simp add: subStep_def dropConnection_def enterFinally_def Let_def)
  next
    case False
    then have "list_ex (\<lambda>y. \<not> sy_first y) (filter (\<lambda>y. sy_stage y \<noteq> Listing) (syncs s))" using assms(3,4) by (auto simp: list_ex_iff)
    then show ?thesis using False c assms(2) by (simp add: subStep_def dropConnection_def enterFinally_def Let_def)
  qed
qed

text \<open>C38: a failing refresh ends the service. When the database fails during the synchronization that follows a connection, or
  rippled rejects its request, or the connection is lost while it waits, the loop closes the connection and retries. The same failures
  during a synchronization that the refresh timer started are handled by nobody: the process ends and nothing of it goes on.\<close>

theorem refresh_failure:
  assumes "worker_reach opts s" "\<not> processEnded s" "k < length (syncs s)" "meetsFailure k (sy_stage (syncs s ! k)) ev"
  shows "\<exists>t. subStep opts now ev s = Some t \<and>
    (if sy_first (syncs s ! k) then \<not> processEnded t \<and> loopState t = Closing
     else processEnded t \<and> (\<forall>now' ev'. subStep opts now' ev' t = None))"
proof -
  let ?y = "syncs s ! k"
  have lost: "\<exists>t. subStep opts now ConnectionLost s = Some t \<and>
      (if sy_first ?y then \<not> processEnded t \<and> loopState t = Closing else processEnded t)" if "sy_stage ?y \<noteq> Listing"
    using worker_reach_inv [OF assms(1)] assms(2,3) that by (intro lost_request [of opts]) (simp_all add: sub_inv_def)
  let ?s = "s\<lparr> syncs := without k (syncs s) \<rparr>"
  have thrown: "if sy_first ?y then \<not> processEnded (syncThrows now ?y ?s) \<and> loopState (syncThrows now ?y ?s) = Closing
      else processEnded (syncThrows now ?y ?s)"
    using assms(2) by (simp add: syncThrows_def enterFinally_def)
  have "subStep opts now (ListAnswer k None) s = Some (syncThrows now ?y ?s)" if "sy_stage ?y = Listing"
    using assms(2,3) that by (simp add: subStep_def Let_def)
  with thrown have lst: "\<exists>t. subStep opts now (ListAnswer k None) s = Some t \<and>
      (if sy_first ?y then \<not> processEnded t \<and> loopState t = Closing else processEnded t)" if "sy_stage ?y = Listing"
    using that by blast
  have "subStep opts now (RequestAnswer k False) s = Some (syncThrows now ?y ?s)" if "sy_stage ?y \<noteq> Listing"
    using assms(2,3) that by (cases "sy_stage ?y") (simp_all add: subStep_def answeredRequest_def)
  with thrown have req: "\<exists>t. subStep opts now (RequestAnswer k False) s = Some t \<and>
      (if sy_first ?y then \<not> processEnded t \<and> loopState t = Closing else processEnded t)" if "sy_stage ?y \<noteq> Listing"
    using that by blast
  have "\<exists>t. subStep opts now ev s = Some t \<and>
      (if sy_first ?y then \<not> processEnded t \<and> loopState t = Closing else processEnded t)"
    using assms(4) lost lst req by (cases "sy_stage ?y") auto
  then obtain t where t: "subStep opts now ev s = Some t"
      "if sy_first ?y then \<not> processEnded t \<and> loopState t = Closing else processEnded t" by blast
  then show ?thesis by (intro exI [of _ t]) (simp add: subStep_def split: if_splits)
qed

section \<open>A sample run\<close>

fun runEvents :: "subscribeOpts \<Rightarrow> int \<Rightarrow> subEvent list \<Rightarrow> subWorker \<Rightarrow> subWorker option" where
  "runEvents opts now [] s = Some s"
| "runEvents opts now (e # es) s = Option.bind (subStep opts now e s) (runEvents opts now es)"

lemma runEvents_reach: "runEvents opts now es s = Some t \<Longrightarrow> worker_reach opts s \<Longrightarrow> worker_reach opts t"
  by (induction es arbitrary: s) (auto simp: bind_eq_Some_conv intro: worker_reach.step)

definition opts0 :: subscribeOpts where
  "opts0 = \<lparr> so_wssUrl = ''wss://xrpl'', so_disabled = False, so_transactionsStream = True \<rparr>"

definition worker0 :: subWorker where
  "worker0 = the (startXrplSubscribeWorker opts0)"

lemma worker0: "startXrplSubscribeWorker opts0 = Some \<lparr> stopped = False, refreshTimer = False, prevAccounts = [],
    prevLedgerSubscribed = False, prevTransactionsSubscribed = False, reconnectAttempt = 0, loopState = Connecting, clientNo = 0,
    connected = False, srvAccounts = [], srvStreams = [], syncs = [], processEnded = False,
    reported = markXrplSubscribeWorkerStarted subscribeState0 \<rparr>"
  by (simp add: startXrplSubscribeWorker_def opts0_def trim_def isSpace_def)

lemma start0: "startXrplSubscribeWorker opts0 = Some worker0"
  by (simp add: worker0 worker0_def)

lemma reach0: "worker_reach opts0 worker0"
  by (rule worker_reach.start [OF start0])

definition firstConnection :: "subEvent list" where
  "firstConnection = [ConnectAnswer True, ListAnswer 0 (Some [''rAlice'']), RequestAnswer 0 True]"

definition worker3 :: subWorker where
  "worker3 = worker0\<lparr> connected := True, loopState := Waiting, refreshTimer := True, prevAccounts := [''rAlice''],
     prevLedgerSubscribed := True, prevTransactionsSubscribed := True, srvAccounts := [''rAlice''],
     srvStreams := [''ledger'', ''transactions''],
     reported := setXrplSubscribeSyncSnapshot 1 True (markXrplSubscribeConnected 0 (reported worker0)) \<rparr>"

lemma sample_run: "runEvents opts0 0 firstConnection worker0 = Some worker3"
  by code_simp

lemma sample_refresh: "runEvents opts0 0 (firstConnection @ [TimerFires]) worker0 =
    Some (worker3\<lparr> syncs := [\<lparr> sy_client = 0, sy_first = False, sy_stage = Listing \<rparr>] \<rparr>)"
  by code_simp


theorem subscribe_backoff_witness:
  "\<exists>t. refusedRounds opts0 0 10 worker0 = Some t \<and> loopState t = Sleeping 60000"
  using subscribe_backoff [OF reach0, of 0 0 10]
  by (simp add: worker0_def worker0 del: refusedRounds.simps)

theorem refresh_failure_witness:
  "\<exists>s t. runEvents opts0 0 (firstConnection @ [TimerFires]) worker0 = Some s \<and>
    subStep opts0 0 (ListAnswer 0 None) s = Some t \<and> processEnded t"
proof -
  let ?s = "worker3\<lparr> syncs := [\<lparr> sy_client = 0, sy_first = False, sy_stage = Listing \<rparr>] \<rparr>"
  have "\<not> processEnded ?s" by (simp add: worker3_def worker0_def worker0)
  with refresh_failure [OF runEvents_reach [OF sample_refresh reach0], of 0 "ListAnswer 0 None" 0] sample_refresh
  show ?thesis by auto
qed

end
