(* ===== verification/Operations.thy ===== *)
theory Operations
  imports Config Notifications Subscription
begin

text \<open>
  What the operations backend reports about itself and how it starts: the execution policy (\<open>services/execution-policy.ts\<close>), the XRPL
  profile (\<open>services/xrpl-operations-profile.ts\<close>), and of \<open>index.ts\<close> the CORS middleware, \<open>GET /health\<close>, the runtime routes, the error handler and
  the workers that \<open>main\<close> starts. The outcome of the pings is a parameter.
\<close>

section \<open>Execution policy\<close>

record ExecutionPolicySnapshot =
  ep_deploymentTier :: DeploymentTier
  ep_syntheticExecutionHashEnvEnabled :: bool
  ep_syntheticExecutionPathEffective :: bool
  ep_submitEnabled :: bool
  ep_submitSeedConfigured :: bool
  ep_xrplLive :: bool
  ep_conditionalEscrowSupported :: bool
  ep_conditionalEscrowAdr :: string
  ep_warnings :: "string list"

definition syntheticPathEffective :: "config \<Rightarrow> bool" where
  "syntheticPathEffective c = (ex_syntheticExecutionHashEnabled (cf_execution c) \<and> ex_deploymentTier (cf_execution c) = Dev)"

text \<open>The text has an em dash, three bytes in UTF-8.\<close>

definition syntheticOnWarning :: string where
  "syntheticOnWarning = ''Synthetic execution txHash placeholder path is on (dev tier). For staging/production use '' @
     ''BLUESAFE_EXECUTION_DEPLOYMENT_TIER=strict and pass ledger txHash or enable execution submit '' @
     [CHR 0xE2, CHR 0x80, CHR 0x94] @ '' docs/adr/0011-v8-execution-keys-synthetic-hash.md''"

definition strictWarning :: string where
  "strictWarning = ''BLUESAFE_EXECUTION_DEPLOYMENT_TIER=strict disables the synthetic hash path regardless of BLUESAFE_SYNTHETIC_EXECUTION_HASH.''"

definition noSeedWarning :: string where
  "noSeedWarning = ''BLUESAFE_EXECUTION_SUBMIT_ENABLED=1 but BLUESAFE_EXECUTION_SUBMIT_SEED is empty.''"

definition notLiveWarning :: string where
  "notLiveWarning = ''Execution submit is configured but XRPL_WSS_URL is not set (rippled not live).''"

definition getExecutionPolicySnapshot :: "config \<Rightarrow> ExecutionPolicySnapshot" where
  "getExecutionPolicySnapshot c =
    (let x = cf_execution c;
         syntheticEnv = ex_syntheticExecutionHashEnabled x;
         syntheticEffective = syntheticPathEffective c;
         submitSeedConfigured = (trim (ex_submitSeed x) \<noteq> '''');
         submitConfigured = (ex_submitEnabled x \<and> submitSeedConfigured);
         xrplLive = xrpl_enabled (cf_xrpl c) in
     \<lparr> ep_deploymentTier = ex_deploymentTier x, ep_syntheticExecutionHashEnvEnabled = syntheticEnv,
       ep_syntheticExecutionPathEffective = syntheticEffective, ep_submitEnabled = ex_submitEnabled x,
       ep_submitSeedConfigured = submitSeedConfigured, ep_xrplLive = xrplLive, ep_conditionalEscrowSupported = False,
       ep_conditionalEscrowAdr = ''docs/adr/0013-v8-conditional-escrow-not-supported.md'',
       ep_warnings = (if syntheticEffective then [syntheticOnWarning] else []) @
         (if ex_deploymentTier x = Strict \<and> syntheticEnv \<and> \<not> syntheticEffective then [strictWarning] else []) @
         (if ex_submitEnabled x \<and> \<not> submitSeedConfigured then [noSeedWarning] else []) @
         (if submitConfigured \<and> \<not> xrplLive then [notLiveWarning] else []) \<rparr>)"

section \<open>XRPL profile\<close>

record XrplOperationsSnapshot =
  xo_topologyProfile :: TopologyProfile
  xo_rippledWssConfigured :: bool
  xo_drRunbookUrl :: "string option"
  xo_conditionalEscrowSupported :: bool
  xo_conditionalEscrowNote :: string

definition getXrplOperationsSnapshot :: "config \<Rightarrow> XrplOperationsSnapshot" where
  "getXrplOperationsSnapshot c = \<lparr> xo_topologyProfile = xrpl_topologyProfile (cf_xrpl c),
     xo_rippledWssConfigured = (trim (xrpl_wssUrl (cf_xrpl c)) \<noteq> ''''),
     xo_drRunbookUrl = (if xrpl_drRunbookUrl (cf_xrpl c) = '''' then None else Some (xrpl_drRunbookUrl (cf_xrpl c))),
     xo_conditionalEscrowSupported = False,
     xo_conditionalEscrowNote = ''BlueSafe Backend2 MVP does not implement EscrowCreate Condition/Fulfillment paths; '' @
       ''see docs/adr/0013-v8-conditional-escrow-not-supported.md.'' \<rparr>"

section \<open>CORS\<close>

definition corsOrigins :: "processEnv \<Rightarrow> string list" where
  "corsOrigins pe = filter (\<lambda>o'. o' \<noteq> '''')
     (map trim (splitOn (CHR '','') (strOr pe ''CORS_ORIGIN'' ''http://localhost:5179,http://127.0.0.1:5179'')))"

text \<open>The headers that the middleware sets, and whether it answers itself (\<open>204\<close>) instead of passing the request on.\<close>

definition corsMiddleware :: "processEnv \<Rightarrow> request \<Rightarrow> (string \<times> string) list \<times> bool" where
  "corsMiddleware pe req =
    ((case rq_header req ''origin'' of
        Some origin \<Rightarrow> if origin \<noteq> '''' \<and> origin \<in> set (corsOrigins pe) then
          [(''Access-Control-Allow-Origin'', origin), (''Vary'', ''Origin''), (''Access-Control-Allow-Credentials'', ''true''),
           (''Access-Control-Allow-Headers'', ''Content-Type, Authorization, X-Bluesafe-Role, X-Bluesafe-Tenant-Id, '' @
              ''X-Bluesafe-Landlord-Id, X-Bluesafe-Operator-Scopes''),
           (''Access-Control-Allow-Methods'', ''GET,POST,PATCH,DELETE,OPTIONS'')] else []
      | None \<Rightarrow> []),
     rq_method req = ''OPTIONS'')"

section \<open>Health\<close>

text \<open>\<open>pingRippled\<close>, given the outcome of connecting and of the \<open>server_info\<close> request.\<close>

definition pingRippled :: "config \<Rightarrow> string + unit \<Rightarrow> bool \<times> string option" where
  "pingRippled c r =
    (if \<not> xrpl_enabled (cf_xrpl c) \<or> xrpl_wssUrl (cf_xrpl c) = '''' then (True, Some ''disabled'')
     else case r of Inr _ \<Rightarrow> (True, None) | Inl e \<Rightarrow> (False, Some e))"

datatype dbHealth = DbOk | DbSkip | DbError
datatype xrplHealth = XrplOk | XrplDisabled | XrplDegraded

record DeepHealth =
  dh_memory :: bool
  dh_db :: dbHealth
  dh_xrpl :: xrplHealth
  dh_xrplSubscribe :: "subscribeState option"
  dh_xrplTxPolicy :: "(xrplTxPolicyConfig \<times> bool \<times> bool) option"
  dh_executionPolicy :: ExecutionPolicySnapshot
  dh_xrplOperations :: XrplOperationsSnapshot
  dh_dbDetail :: "string option"
  dh_xrplDetail :: "string option"

datatype healthAnswer =
    HealthBase string
  | HealthDeep string DeepHealth
  | HealthFailed nat string string

text \<open>\<open>repo\<close> is what \<open>getRepo\<close> gives: the message of its exception, or whether the store is the one in memory and the answer of its ping. The
  counters of the policy worker are left out.\<close>

definition getHealth :: "config \<Rightarrow> string + bool \<times> (bool \<times> string option) \<Rightarrow> string + unit \<Rightarrow> subscribeState \<Rightarrow> string \<Rightarrow>
    string option \<Rightarrow> healthAnswer" where
  "getHealth c repo serverInfo sub now deep =
    (if \<not> (cf_healthDeepDefault c \<or> deep = Some ''1'') then HealthBase now
     else case repo of
       Inl e \<Rightarrow> HealthFailed 503 now e
     | Inr (memory, ping) \<Rightarrow>
        (let db = (if memory then DbSkip else if fst ping then DbOk else DbError);
             xrplPing = pingRippled c serverInfo;
             xrpl = (if snd xrplPing = Some ''disabled'' then XrplDisabled else if fst xrplPing then XrplOk else XrplDegraded) in
         HealthDeep now \<lparr> dh_memory = memory, dh_db = db, dh_xrpl = xrpl,
           dh_xrplSubscribe = (if xrpl_enabled (cf_xrpl c) \<and> \<not> xs_disabled (cf_xrplSubscribe c) then Some sub else None),
           dh_xrplTxPolicy = (if xrpl_enabled (cf_xrpl c)
             then Some (cf_xrplTxPolicy c, xs_transactionsStream (cf_xrplSubscribe c), xs_logReconnects (cf_xrplSubscribe c)) else None),
           dh_executionPolicy = getExecutionPolicySnapshot c, dh_xrplOperations = getXrplOperationsSnapshot c,
           dh_dbDetail = (if db = DbError \<and> truthy (snd ping) then snd ping else None),
           dh_xrplDetail = (if xrpl = XrplDegraded \<and> truthy (snd xrplPing) then snd xrplPing else None) \<rparr>))"

section \<open>Runtime routes and the error handler\<close>

record AuthProviders =
  ap_headerRbac :: bool
  ap_operatorConsoleScopesEnabled :: bool
  ap_operatorScopesHeader :: string
  ap_oidcIssuerConfigured :: bool
  ap_oidcIssuerUrl :: "string option"

definition getRuntimeExecutionPolicy :: "env \<Rightarrow> config \<Rightarrow> request \<Rightarrow> ExecutionPolicySnapshot handler" where
  "getRuntimeExecutionPolicy E c req = v1 E req staff [] (\<lambda>_. ret (HttpOk 200 (getExecutionPolicySnapshot c)))"

definition getRuntimeXrplOperations :: "env \<Rightarrow> config \<Rightarrow> request \<Rightarrow> XrplOperationsSnapshot handler" where
  "getRuntimeXrplOperations E c req = v1 E req staff [] (\<lambda>_. ret (HttpOk 200 (getXrplOperationsSnapshot c)))"

definition authProviders :: "config \<Rightarrow> AuthProviders" where
  "authProviders c = \<lparr> ap_headerRbac = True,
     ap_operatorConsoleScopesEnabled = (au_enabled (cf_auth c) \<and> au_operatorConsoleScopesEnabled (cf_auth c)),
     ap_operatorScopesHeader = ''X-Bluesafe-Operator-Scopes'', ap_oidcIssuerConfigured = (au_oidcIssuerUrl (cf_auth c) \<noteq> ''''),
     ap_oidcIssuerUrl = (if au_oidcIssuerUrl (cf_auth c) = '''' then None else Some (au_oidcIssuerUrl (cf_auth c))) \<rparr>"

definition getRuntimeAuthProviders :: "env \<Rightarrow> config \<Rightarrow> request \<Rightarrow> AuthProviders handler" where
  "getRuntimeAuthProviders E c req = v1 E req staff [] (\<lambda>_. ret (HttpOk 200 (authProviders c)))"

text \<open>The message of an \<open>Error\<close> is passed to the client; other thrown values have none.\<close>

definition errorHandler :: "string option \<Rightarrow> nat \<times> string \<times> string" where
  "errorHandler message = (500, ''B2_INTERNAL_ERROR'', getOr ''Unknown server error'' message)"

section \<open>Start\<close>

text \<open>The workers that \<open>main\<close> starts, with the options it gives them.\<close>

datatype startedWorker =
    NotificationWorker double double double double double
  | OutboxFanoutWorker double double double double
  | SubscribeWorker subWorker double double bool double bool
  | TxPolicyWorker double double double double double bool
  | ExportJobWorker double double

definition subscribeOptsOf :: "config \<Rightarrow> subscribeOpts" where
  "subscribeOptsOf c = \<lparr> so_wssUrl = xrpl_wssUrl (cf_xrpl c),
     so_disabled = (xs_disabled (cf_xrplSubscribe c) \<or> \<not> xrpl_enabled (cf_xrpl c)),
     so_transactionsStream = xs_transactionsStream (cf_xrplSubscribe c) \<rparr>"

definition startedWorkers :: "config \<Rightarrow> startedWorker list" where
  "startedWorkers c =
    (let n = cf_notification c; s = cf_xrplSubscribe c; p = cf_xrplTxPolicy c; j = cf_exportJobs c in
     (if nc_workerDisabled n then []
      else [NotificationWorker (nc_maxAttempts n) (nc_workerIntervalMs n) (nc_workerBatchSize n) (nc_retryInitialBackoffMs n)
        (nc_retryMaxBackoffMs n)]) @
     (if nc_domainOutbox n \<and> \<not> nc_outboxFanoutWorkerDisabled n
      then [OutboxFanoutWorker (nc_outboxFanoutWorkerIntervalMs n) (nc_outboxFanoutBatchSize n) (nc_outboxStaleProcessingMs n)
        (nc_outboxDispatchMaxAttempts n)] else []) @
     (case startXrplSubscribeWorker (subscribeOptsOf c) of
        None \<Rightarrow> []
      | Some w \<Rightarrow> [SubscribeWorker w (xs_maxAccounts s) (xs_accountsRefreshMs s) (xs_logReconnects s) (xs_transactionStreamMaxPerSec s)
          (sl_ledgerCloseTouchEnabled (cf_settlement c))]) @
     (if xrpl_enabled (cf_xrpl c) \<and> \<not> xp_workerDisabled p
      then [TxPolicyWorker (xp_intervalMs p) (xp_pendingTimeoutMs p) (xp_batchSize p) (xp_maxNotFoundProbes p) (xp_maxBackoffMs p)
        (xp_logSummaryTick p)] else []) @
     (if xj_workerDisabled j then [] else [ExportJobWorker (xj_workerIntervalMs j) (xj_workerBatchSize j)]))"

section \<open>Properties\<close>

text \<open>The policy warns of nothing exactly when the synthetic hash is switched off and a configured submission can reach the ledger.\<close>

lemma policy_quiet:
  "ep_warnings (getExecutionPolicySnapshot c) = [] \<longleftrightarrow>
    \<not> ex_syntheticExecutionHashEnabled (cf_execution c) \<and>
    (ex_submitEnabled (cf_execution c) \<longrightarrow> trim (ex_submitSeed (cf_execution c)) \<noteq> '''' \<and> xrpl_enabled (cf_xrpl c))"
  by (cases "ex_deploymentTier (cf_execution c)")
    (auto simp: getExecutionPolicySnapshot_def syntheticPathEffective_def Let_def)

text \<open>Credentials are allowed for a listed origin only.\<close>

lemma cors_listed:
  "fst (corsMiddleware pe req) \<noteq> [] \<longleftrightarrow> (\<exists>origin. rq_header req ''origin'' = Some origin \<and> origin \<in> set (corsOrigins pe))"
  by (auto simp: corsMiddleware_def corsOrigins_def split: option.splits)

text \<open>The subscribe worker is started exactly when an address is configured and the worker is not disabled, and then it is in a
  state of its machine.\<close>

lemma subscribe_worker_started:
  "(\<exists>w a b d e f. SubscribeWorker w a b d e f \<in> set (startedWorkers (loadConfig pe))) \<longleftrightarrow>
    trim (strOr pe ''XRPL_WSS_URL'' '''') \<noteq> '''' \<and> pe ''XRPL_SUBSCRIBE_WORKER_DISABLED'' \<noteq> Some ''1''"
proof -
  let ?c = "loadConfig pe"
  have u: "xrpl_wssUrl (cf_xrpl ?c) = strOr pe ''XRPL_WSS_URL'' ''''" "xrpl_enabled (cf_xrpl ?c) = (strOr pe ''XRPL_WSS_URL'' '''' \<noteq> '''')"
    "xs_disabled (cf_xrplSubscribe ?c) = (pe ''XRPL_SUBSCRIBE_WORKER_DISABLED'' = Some ''1'')"
    by (simp_all add: loadConfig_def loadXrpl_def loadXrplSubscribe_def isOne_def)
  have "trim '''' = ''''" by (simp add: trim_def)
  then have "(startXrplSubscribeWorker (subscribeOptsOf ?c) \<noteq> None) \<longleftrightarrow>
      trim (strOr pe ''XRPL_WSS_URL'' '''') \<noteq> '''' \<and> pe ''XRPL_SUBSCRIBE_WORKER_DISABLED'' \<noteq> Some ''1''"
    by (auto simp: startXrplSubscribeWorker_def subscribeOptsOf_def u)
  then show ?thesis
    by (cases "startXrplSubscribeWorker (subscribeOptsOf ?c)") (auto simp: startedWorkers_def Let_def)
qed

text \<open>A database that does not answer shows in the deep report and nowhere else: the answer is a success in every case.\<close>

lemma deep_health:
  assumes "cf_healthDeepDefault c \<or> deep = Some ''1''"
  shows "\<exists>h. getHealth c (Inr (memory, ping)) serverInfo sub now deep = HealthDeep now h \<and>
    (dh_db h = DbError \<longleftrightarrow> \<not> memory \<and> \<not> fst ping) \<and>
    (dh_xrpl h = XrplOk \<longleftrightarrow> xrpl_enabled (cf_xrpl c) \<and> xrpl_wssUrl (cf_xrpl c) \<noteq> '''' \<and> (\<exists>u. serverInfo = Inr u))"
  using assms by (auto simp: getHealth_def pingRippled_def Let_def split: sum.splits)

text \<open>The numbers of the configuration as the natural numbers that the model of the service computes with.\<close>

definition configures :: "config \<Rightarrow> env \<Rightarrow> bool" where
  "configures c E = (whole (nc_maxAttempts (cf_notification c)) (notificationMaxAttempts E) \<and>
     whole (nc_outboxDispatchMaxAttempts (cf_notification c)) (outboxDispatchMaxAttempts E) \<and>
     whole (xp_maxNotFoundProbes (cf_xrplTxPolicy c)) (policyMaxNotFoundProbes E) \<and>
     whole (dp_verifierQuorumK (cf_dispute c)) (verifierQuorumK E))"

lemma within_whole: "within pe (x, num 1, hi, v) \<Longrightarrow> whole v n \<Longrightarrow> 1 \<le> n"
  by (auto simp: within_def whole_def num_def split: if_splits)

text \<open>Whatever the environment variables are, when the limits are whole numbers they are the positive limits that \<open>env_ok\<close> asks for.\<close>

lemma config_env_ok:
  assumes "configures (loadConfig pe) E" "inj (uuid16 E)"
  shows "env_ok E"
proof -
  let ?c = "loadConfig pe"
  have "\<forall>f \<in> set (clampedFields pe). within pe f" using clamped_within by (simp add: list_all_iff)
  then have "within pe (''NOTIFICATION_MAX_ATTEMPTS'', num 1, Infinity, nc_maxAttempts (cf_notification ?c))"
      "within pe (''NOTIFICATION_OUTBOX_DISPATCH_MAX_ATTEMPTS'', num 1, Infinity, nc_outboxDispatchMaxAttempts (cf_notification ?c))"
      "within pe (''XRPL_TX_POLICY_MAX_NOT_FOUND_PROBES'', num 1, Infinity, xp_maxNotFoundProbes (cf_xrplTxPolicy ?c))"
      "within pe (''DISPUTE_VERIFIER_QUORUM_K'', num 1, Infinity, dp_verifierQuorumK (cf_dispute ?c))"
    by (simp_all add: clampedFields_def Let_def)
  then show ?thesis using assms within_whole by (auto simp: env_ok_def configures_def)
qed

end
