(* ===== verification/Spec2Isabelle.thy ===== *)
theory Spec2Isabelle
  imports Witnesses CoreWitnesses Be1Witnesses PgWitnesses Operations
begin

text \<open>
  \<^bold>\<open>BlueSafe: rental deposits on the XRP Ledger.\<close>

  The platform keeps the deposit of a lease in escrow on the XRP Ledger, settles utility bills monthly, and resolves disputes by a
  panel of verifiers. Three packages carry its logic, and this library models all three:

  \<^item> \<open>src/services/be2-ops\<close>, the operations backend: an HTTP service over a store, in memory or in PostgreSQL, of contracts,
    settlements, evidence, disputes, tracked transactions, notifications, audit records and export jobs, and background workers;
  \<^item> \<open>src/packages/xrpl-core\<close>, a library that builds and submits the transactions of a lease and runs the verifier pool;
  \<^item> \<open>src/services/be1-xrpl\<close>, a Nest service that locks deposits on the ledger, settles every month against the bills of KEPCO and
    keeps test wallets.

  The three do not call each other; they meet on the ledger.

  \<^bold>\<open>How the code is modelled.\<close>
  An interface or class with fields is a \<open>record\<close>, an enum or union a \<open>datatype\<close>, an insertion-ordered \<open>Map\<close> an association list
  (\<open>jm_get\<close>, \<open>jm_set\<close>; locale \<open>js_map\<close>). Every operation, route and worker is one executable definition in the state monad of the
  library, over the record of the mutable state (\<open>world\<close>, \<open>core_state\<close> and \<open>arb_state\<close>, \<open>be1_state\<close>). What throws returns a sum, \<open>Inl\<close> the
  error; HTTP handlers return the status and body. A handler \<open>fooH E args auth\<close> is the body of a route and \<open>foo\<close> the route behind its guards. \<open>exec m s\<close>
  is the state after \<open>m\<close> and \<open>valu m s\<close> its result.
  Code outside the repository (rippled and xrpl.js, TypeORM, node's cryptography, IPFS, KMS, SMTP, BullMQ, clock, random source,
  configuration) is a record of functions, \<open>env\<close>, \<open>core_env\<close> or \<open>be1_env\<close>. Each call of it carries its number, so equal calls may answer
  differently and any call may fail; what a theorem needs of it is a hypothesis: \<open>env_ok\<close> (random identifiers do not repeat, the configured limits are positive), \<open>draws_ok\<close>
  (draws in range), \<open>db_laws\<close> (what TypeORM documents of \<open>save\<close>, \<open>find\<close>, \<open>update\<close>; a rejected call changes nothing), \<open>crypto_laws\<close> (opening
  what was sealed gives it back).
  Texts are lists of UTF-8 bytes; case mapping and trimming are those of ASCII. Times are milliseconds, printed and parsed as
  \<open>Date\<close> does. Amounts that the code computes with are \<open>BigInt\<close>s (\<open>int\<close>) or IEEE doubles. Octets of crypto-conditions are 8-bit words. Requests and worker turns run
  one after the other, each to its end (the subscribe worker apart). Messages of exceptions of the outside are whatever the outside gives.

  \<^bold>\<open>The shared layer.\<close>
  \<open>Prelude\<close> has the JavaScript library functions, the locales \<open>js_map\<close>, \<open>step_rel\<close> (a reflexive and transitive relation between the states before
  and after an operation, with its rules for the monad) and \<open>lifecycle\<close> (stored objects stay stored and move along a relation), \<open>JsDate\<close> the
  calendar and ISO time stamps, \<open>JsNumber\<close> doubles with parsing and printing, \<open>JsBigInt\<close> big integers, \<open>Codec\<close> JSON with its round trip.

  \<^bold>\<open>The operations backend.\<close> (paths under \<open>src/services/be2-ops/src\<close>)

  \<^item> \<open>Types\<close>: \<open>types.ts\<close>, \<open>store.ts\<close>, \<open>utils.ts\<close>. \<open>Repository\<close>: \<open>repository/memory-repository.ts\<close>, with the locale \<open>minted_life\<close> for tables whose
    keys are minted from the random source.
  \<^item> \<open>Auth\<close>: \<open>auth.ts\<close> and the console scopes; no role outside a route and no writing auditor reaches a handler.
  \<^item> \<open>Notifications\<close>: routing, templates, fan-out, outbox and delivery worker; attempts are bounded and exactly the failed
    messages are dead-lettered.
  \<^item> \<open>Xrpl\<close>, \<open>XrplTracking\<close>: the rippled client, tracked transactions, policy and subscribe worker; one outcome resolves exactly the waiting dispute, events
    are applied once.
  \<^item> \<open>Subscription\<close>: the connection loop of \<open>services/xrpl-subscribe.worker.ts\<close> with its refresh timer as a state machine in which activities suspended at an
    \<open>await\<close> interleave: no subscription is forgotten, the back-off is bounded, and a failing refresh ends the process.
  \<^item> \<open>Config\<close>: \<open>config.ts\<close> as a function of the environment variables, with its bounds and the \<open>NaN\<close> that passes them; \<open>Operations\<close>: execution policy, XRPL profile,
    CORS, health, runtime routes and the workers that \<open>main\<close> starts. Lemma \<open>config_env_ok\<close> derives the limits that \<open>env_ok\<close> asks for.
  \<^item> \<open>Contracts\<close>, \<open>Settlements\<close>, \<open>Evidence\<close>, \<open>Disputes\<close>, \<open>Audits\<close>, \<open>Reputation\<close>: the routes of \<open>index.ts\<close> with the services they call; each route branch by branch,
    the life cycles, the encryption round trip, paging and exports, the bounded dead letter queue.
  \<^item> \<open>Server\<close>: all routes and workers as one step relation, its reachable stores and their invariant; this theory states the histories of
    contracts, disputes, decisions, settlements, evidence and tracked transactions over it. \<open>Scenario\<close> and \<open>Witnesses\<close> evaluate a
    sample run and instances of the properties.
  \<^item> \<open>PgTables\<close>, \<open>Postgres\<close>: \<open>repository/postgres-repository.ts\<close>, \<open>migrate.ts\<close>, \<open>context.ts\<close>: the tables of \<open>db/migrations\<close> as lists of rows, every
    operation as the statements it sends. The record \<open>pg_env\<close> is the server: any statement may fail, an answer may be lost after the statement took
    effect, and rows that \<open>ORDER BY\<close> leaves tied or unordered come in any order.
  \<^item> \<open>PgIntegrity\<close>: primary keys and unique columns hold after any sequence of operations, failed ones included (locale \<open>upsert_table\<close>).
    \<open>PgRefinement\<close>: while no statement fails, every writing operation keeps the tables and the maps of the in-memory store equal up to what a row
    can hold (\<open>sim\<close>; locales \<open>row_store\<close> and \<open>upsert_store\<close>). \<open>PgReads\<close>: the reading operations then answer alike up to that, and no job or outbox row is
    claimed by two workers (locale \<open>work_queue\<close>). \<open>PgPages\<close>: the audit cursor visits every matching row once. \<open>PgWitnesses\<close>: a sample server and the instances.
    The properties assume of the server that a scan visits every row once (\<open>pg_orders\<close>) and that the collation of texts is a linear order (\<open>collation\<close>).

  \<^bold>\<open>The core package.\<close> (\<open>src/packages/xrpl-core/src\<close>)
  \<open>XrplCore\<close> models \<open>lib\<close>, \<open>escrow\<close>, \<open>payment\<close>, \<open>insurance\<close>, \<open>credential\<close>, \<open>nft\<close>, \<open>multisig\<close>: encodings, builders, submissions; conditions match their
    fulfillments, two of three parties are needed. \<open>Arbitration\<close> models \<open>dispute/DisputeService.ts\<close>: the pool invariant, rulings as refinement of an abstract
  vote over the multiset of ballots, and the transactions of a judgment. \<open>CoreWitnesses\<close> has the instances.

  \<^bold>\<open>The XRPL service.\<close> (\<open>src/services/be1-xrpl/src\<close>)
  \<open>Be1Types\<close> has tables, errors and outside; \<open>Be1Xrpl\<close> the services of \<open>xrpl\<close>, \<open>shared/crypto\<close> and \<open>shared/key-provider\<close>; \<open>Be1Contracts\<close> the directory \<open>contracts\<close>; \<open>Reconciler\<close> the
  directories \<open>reconciler\<close> and \<open>shared/email\<close>; \<open>Be1Wallet\<close> the directory \<open>wallet\<close>. Shown: a row is locked only when three accepted
  transactions back it, personal data is read back, a month is reconciled once and completely, and what remains when the
  ledger, the database or the cipher fails. \<open>Be1Server\<close> is the service as a step relation with its invariant; \<open>Be1Witnesses\<close> has a database in memory that
  satisfies the laws and the instances.

  \<^bold>\<open>Fuel and bounds.\<close>
  Recursion is structural, or its fuel is enough by a lemma: \<open>jsonParse\<close> gets the length of its text (the round trip needs no more); the export loop gets one
  round more than the row limit, and every round but the last yields a row; walking the audit cursors gets the number of matching rows (\<open>walkPg\<close>: of all rows);
  \<open>buyLoop\<close> has the 8 rounds of the source; \<open>decExp\<close> searches the 700 decimal exponents of a double and \<open>shortDigits\<close> at most 17 digits, as
  ECMAScript bounds them.

  \<^bold>\<open>Not modelled.\<close>
  What PostgreSQL does inside one statement (locks, plans) and the texts of the migration scripts beyond the tables they make; the text of
  the metrics, request durations and the timers of the other workers; the wiring of Nest modules; the connection handling of the other ledger clients; the transports of SMTP and
  HTTP and the retry policy of BullMQ; logging; interleaving of HTTP requests that are suspended at an \<open>await\<close>; the mobile front end, which is user
  interface; smoke tests and scripts.
\<close>

section \<open>Histories\<close>

lemma history:
  assumes "env_ok E" "reachable E w" "server_run E w w'"
  shows "server_inv E w" "server_inv E w'" "server_rel E w w'"
  using reachable_inv [OF assms(1,2)] reachable_inv [OF assms(1) reachable_trans [OF assms(2,3)]]
    server_run_rel [OF assms(3,1)] by simp_all

text \<open>C3: the life of a contract. Whatever requests and workers run, a stored contract stays stored
  under its identifier; its parties, amounts and dates never change, its status moves only along the
  transition table, a closed or cancelled contract never changes again, and once the escrow is
  validated its recorded hash stays.\<close>

theorem contract_history:
  assumes "env_ok E" "reachable E w" "server_run E w w'" "jm_get (contracts w) i = Some c"
  shows "\<exists>c'. jm_get (contracts w') i = Some c' \<and> ct_step c c'"
  using history [OF assms(1-3)] assms(4) by (auto simp: server_inv_def server_rel_def clife.life_def)

theorem contract_history_witness:
  "\<exists>c c'. jm_get (contracts world8) contract_id = Some c' \<and> ct_step c c'"
  using contract_history [OF sample_env_ok world8_reachable rtranclp.rtrancl_refl, of contract_id] world8_facts(1)
  by auto

text \<open>C1: the life of a dispute. A filed dispute stays stored; its contract, party, reason and evidence
  never change, its status moves only along the edges of the review and execution machine, and an
  executed, rejected or closed dispute keeps its status for ever.\<close>

theorem dispute_history:
  assumes "env_ok E" "reachable E w" "server_run E w w'" "jm_get (disputes w) i = Some d"
  shows "\<exists>d'. jm_get (disputes w') i = Some d' \<and> ds_step d d' \<and>
    (ds_status d \<in> {Executed, Rejected, DClosed} \<longrightarrow> ds_status d' = ds_status d)"
proof -
  obtain d' where d: "jm_get (disputes w') i = Some d'" "ds_step d d'"
    using history [OF assms(1-3)] assms(4)
    by (fastforce simp: server_inv_def server_rel_def case_rel_def case_ok_def dlife.life_def)
  then have "dispute_moves (ds_status d) (ds_status d')" by (simp add: ds_step_def)
  with d show ?thesis using dispute_final by blast
qed

theorem dispute_history_witness:
  "\<exists>d d'. jm_get (disputes world8) dispute_id = Some d' \<and> ds_step d d'"
  using dispute_history [OF sample_env_ok world8_reachable rtranclp.rtrancl_refl, of dispute_id]
    world8_facts(3) world3_facts(7) by force

text \<open>C2: one decision per dispute. In every reachable store a dispute that is past review has exactly one
  decision and a dispute under review, or an unknown identifier, has none; and a decision, once
  taken, is the decision of every later store.\<close>

theorem decision_unique:
  assumes "env_ok E" "reachable E w" "server_run E w w'"
  shows "length (decisions_of w' i) =
      (case jm_get (disputes w') i of None \<Rightarrow> 0 | Some d \<Rightarrow> if ds_status d \<in> {Filed, UnderReview} then 0 else 1) \<and>
    (\<forall>c. jm_get (decisions w) k = Some c \<longrightarrow> jm_get (decisions w') k = Some c)"
proof (intro conjI allI impI)
  show "length (decisions_of w' i) =
      (case jm_get (disputes w') i of None \<Rightarrow> 0 | Some d \<Rightarrow> if ds_status d \<in> {Filed, UnderReview} then 0 else 1)"
    using history(2) [OF assms]
    by (auto simp: server_inv_def case_ok_def one_decision_def past_review_def split: option.splits)
  show "jm_get (decisions w') k = Some c" if "jm_get (decisions w) k = Some c" for c
    using history [OF assms] that
    by (auto simp: server_inv_def server_rel_def case_rel_def case_ok_def dclife.life_def)
qed

theorem decision_unique_witness: "decisions_of world8 dispute_id = []"
proof -
  have "map_option ds_status (jm_get (disputes world8) dispute_id) = Some Filed"
    using world8_facts(3) world3_facts(7) by simp
  with decision_unique [OF sample_env_ok world8_reachable rtranclp.rtrancl_refl, of dispute_id]
  show ?thesis by (auto split: option.splits)
qed

text \<open>C12: the life of a settlement. A row stays stored; contract and period never change, the status moves
  along the transition table, the count of ledger closes never decreases, an archived row counts no
  further closes, and the confirmation time is set once.\<close>

theorem settlement_history:
  assumes "env_ok E" "reachable E w" "server_run E w w'" "jm_get (settlements w) i = Some s"
  shows "\<exists>s'. jm_get (settlements w') i = Some s' \<and> st_step s s'"
  using history [OF assms(1-3)] assms(4) by (auto simp: server_inv_def server_rel_def slife.life_def)

theorem settlement_history_witness:
  "\<exists>s s'. jm_get (settlements world8) settlement_id = Some s' \<and> st_step s s'"
  using settlement_history [OF sample_env_ok world8_reachable rtranclp.rtrancl_refl, of settlement_id]
    world8_facts(6) by force

text \<open>C13: the life of an evidence. A row that is still stored later differs from the earlier one in the
  retention metadata only (class, jurisdiction, hold and retention date): owner, digest, content
  identifier and version are immutable. A row that was removed never comes back under its identifier.\<close>

theorem evidence_history:
  assumes "env_ok E" "reachable E w" "server_run E w w'" "server_run E w' w''"
    and "jm_get (evidences w) i = Some e"
  shows "case jm_get (evidences w') i of
      Some e' \<Rightarrow> e' = e\<lparr>ev_retentionClass := ev_retentionClass e', ev_jurisdiction := ev_jurisdiction e',
        ev_legalHoldUntil := ev_legalHoldUntil e', ev_retainUntil := ev_retainUntil e'\<rparr>
    | None \<Rightarrow> jm_get (evidences w'') i = None"
proof -
  note h = history [OF assms(1-3)] and h' = history [OF assms(1) reachable_trans [OF assms(2,3)] assms(4)]
  have "minted E ''evd'' w i" using h(1) assms(5) by (simp add: server_inv_def ev_ok_def)
  moreover have "ticks w \<le> ticks w'" using h(3) by (simp add: server_rel_def ev_rel_def)
  ultimately have m: "minted E ''evd'' w' i" by (rule minted_mono)
  show ?thesis
  proof (cases "jm_get (evidences w') i")
    case None
    with m h' show ?thesis by (cases "jm_get (evidences w'') i") (force simp: server_inv_def server_rel_def ev_rel_def)+
  next
    case (Some e')
    with h assms(5) have "ev_step e e'" by (force simp: server_inv_def server_rel_def ev_rel_def)
    with Some show ?thesis by (simp add: ev_step_def)
  qed
qed

theorem evidence_history_witness:
  "\<exists>e. jm_get (evidences world8) evidence_id = Some e \<and> ev_contractId e = contract_id"
proof -
  obtain e where e: "jm_get (evidences world8) evidence_id = Some e" "ev_contractId e = contract_id"
    using world8_facts(2) world2_facts(7) by auto
  from evidence_history [OF sample_env_ok world8_reachable rtranclp.rtrancl_refl rtranclp.rtrancl_refl e(1)] e
  show ?thesis by simp
qed

section \<open>Invariants of the reachable stores\<close>

text \<open>C14: tracked transactions are consistent. In every reachable store the key of a tracked transaction
  is its hash, the status is validated_success exactly for a validated transaction classified as
  success, a validated transaction is in a validated status, and its class is the class of its
  result code.\<close>

theorem tracking_consistent:
  assumes "env_ok E" "reachable E w" "jm_get (xrplTxs w) h = Some tx"
  shows "tx_txHash tx = h \<and> tx_consistent tx"
  using reachable_inv [OF assms(1,2)] assms(3) txs_okD by (auto simp: server_inv_def)

theorem tracking_consistent_witness:
  "\<exists>tx. jm_get (xrplTxs world8) ''HASH0001'' = Some tx \<and> tx_consistent tx"
proof -
  obtain tx where "jm_get (xrplTxs world8) ''HASH0001'' = Some tx"
    using world8_facts(5) world5_facts(7) by (auto simp: jm_get_def)
  with tracking_consistent [OF sample_env_ok world8_reachable this] show ?thesis by blast
qed

text \<open>C32: the retry budget. In every reachable store no notification has more attempts than configured,
  one that waits for delivery has an attempt left and is not dead-lettered, and exactly the failed
  ones are dead-lettered.\<close>

theorem notification_budget:
  assumes "env_ok E" "reachable E w" "jm_get (notifications w) i = Some n"
  shows "getOr 0 (nt_attemptCount n) \<le> notificationMaxAttempts E \<and>
    (nt_status n \<in> {Queued, NRetryScheduled} \<longrightarrow>
       getOr 0 (nt_attemptCount n) < notificationMaxAttempts E \<and> nt_deadLetter n \<noteq> Some True) \<and>
    (nt_status n = NFailed \<longleftrightarrow> nt_deadLetter n = Some True)"
  using reachable_inv [OF assms(1,2)] assms(3)
  by (force simp: server_inv_def notify_inv_def budget_ok_def within_budget_def jm.all_entries_def)

theorem notification_budget_witness:
  "\<exists>i n. jm_get (notifications world8) i = Some n \<and> getOr 0 (nt_attemptCount n) \<le> 3"
proof -
  obtain i n where "jm_get (notifications world8) i = Some n"
    using world8_facts(4) world4_facts(7) by fastforce
  with notification_budget [OF sample_env_ok world8_reachable this] show ?thesis by auto
qed

text \<open>One outbox row per idempotency key. In every reachable store two rows with the same key are the
  same row, and the index that the duplicate check reads names exactly the stored rows.\<close>

lemma outbox_keys_unique:
  assumes "env_ok E" "reachable E w"
  shows "(\<forall>i j r r'. jm_get (outboxById w) i = Some r \<and> jm_get (outboxById w) j = Some r' \<and>
      ox_idempotencyKey r = ox_idempotencyKey r' \<longrightarrow> i = j) \<and>
    (\<forall>k i. jm_get (outboxIdempotency w) k = Some i \<longleftrightarrow>
      (\<exists>r. jm_get (outboxById w) i = Some r \<and> ox_idempotencyKey r = k))"
proof -
  have o: "outbox_index w" using reachable_inv [OF assms] by (simp add: server_inv_def notify_inv_def)
  have "i = j" if "jm_get (outboxById w) i = Some r" "jm_get (outboxById w) j = Some r'"
    "ox_idempotencyKey r = ox_idempotencyKey r'" for i j r r'
    using o that unfolding outbox_index_def by (metis option.inject)
  moreover have "jm_get (outboxIdempotency w) k = Some i \<longleftrightarrow>
      (\<exists>r. jm_get (outboxById w) i = Some r \<and> ox_idempotencyKey r = k)" for k i
    using o unfolding outbox_index_def by metis
  ultimately show ?thesis by blast
qed

text \<open>Delivery of reputation events. In every reachable store the dead letter queue keeps one entry per
  idempotency key and never exceeds 500 entries. A turn of the event loop takes the first scheduled
  event off the queue: when the webhook answers with success no dead letter is left for its key,
  otherwise the dead letter of the key holds the event and one more attempt than before.\<close>

lemma reputation_delivery:
  assumes "env_ok E" "reachable E w" "webhookQueue w = body # rest"
  shows "jm_ok (dlq w) \<and> length (dlq w) \<le> 500 \<and>
    (\<exists>envelope. let w' = exec (runScheduledWebhook E) w; k = rb_idempotencyKey body;
      r = fetch E (Suc (ticks w)) (trim (reputationWebhookUrl E)) envelope in
    webhookQueue w' = rest \<and>
    (if fetched_ok r then jm_get (dlq w') k = None
     else \<exists>e. jm_get (dlq w') k = Some e \<and> dq_body e = body \<and>
       dq_attempts e = getOr 0 (map_option dq_attempts (jm_get (dlq w) k)) + 1))"
proof -
  have ok: "dlq_ok w" using reachable_inv [OF assms(1,2)] by (simp add: server_inv_def)
  from webhook_turn [OF ok assms(3), of E] ok show ?thesis
    unfolding Let_def by (auto simp: dlq_ok_def MAX_DLQ_def)
qed

definition reputation_env :: env where
  "reputation_env = sample_env\<lparr>reputationWebhookUrl := ''http://hook''\<rparr>"

definition first_event :: ReputationOutboundBody where
  "first_event = \<lparr> rb_idempotencyKey = ''k1'', rb_eventType = ''score'', rb_subjectType = ''tenant'',
     rb_subjectId = ''t1'', rb_payload = None, rb_tokenStandardRefs = None \<rparr>"

definition event_world :: world where
  "event_world = exec (postReputationEvent reputation_env operator_request (Some first_event)) empty_world"

end
